(* ===== verification/Prelude.thy ===== *)
theory Prelude
  imports Main "HOL-Library.Word"
begin

text \<open>
  What the components of the emulator share: the machine integers of the C++ code, the ways a
  C++ computation can fail, the two ways of sequencing such computations (a pure result, and a
  state passed along with the result), C++ casts and checked signed arithmetic on words, and the
  collections of rules that the component theories extend.

  Sequencing is written with \<open>bindE\<close> (results) and \<open>bindM\<close> (state and result). In a
  \<open>bindM\<close> computation the state survives a failure, because a C++ exception does not undo the
  writes made before it was thrown.
\<close>

unbundle bit_operations_syntax

section \<open>Machine integers\<close>

type_synonym u8 = "8 word"
type_synonym u16 = "16 word"
type_synonym u32 = "32 word"
type_synonym u64 = "64 word"

text \<open>
  Unsigned casts drop or zero-extend (\<open>ucast\<close>). A signed value of width w is kept as the
  word of its two's complement bits and read with \<open>sint\<close>; converting it to a wider type
  sign-extends (\<open>scast\<close>).
\<close>

abbreviation to_u8 :: "'a::len word \<Rightarrow> u8" where "to_u8 \<equiv> ucast"
abbreviation to_u16 :: "'a::len word \<Rightarrow> u16" where "to_u16 \<equiv> ucast"
abbreviation to_u32 :: "'a::len word \<Rightarrow> u32" where "to_u32 \<equiv> ucast"
abbreviation to_u64 :: "'a::len word \<Rightarrow> u64" where "to_u64 \<equiv> ucast"
abbreviation sx32 :: "'a::len word \<Rightarrow> u32" where "sx32 \<equiv> scast"
abbreviation sx64 :: "'a::len word \<Rightarrow> u64" where "sx64 \<equiv> scast"

section \<open>Failures\<close>

text \<open>
  \<open>Runtime_error\<close> is a thrown \<open>std::runtime_error\<close>, the only exception the emulator
  catches. The others end the process: a failed \<open>assert\<close>, a \<open>std::logic_error\<close> (what
  \<open>std::stoi\<close> and \<open>std::string::substr\<close> throw), a \<open>std::bad_variant_access\<close> or
  \<open>std::bad_optional_access\<close> (not a \<open>runtime_error\<close>, caught nowhere), and behaviour that the
  C++ standard leaves undefined (a shift by the width or more, signed overflow, an index outside a
  vector). \<open>Waits_forever\<close> is not a failure of the code: a thread waits for a condition that
  no other thread makes true any more. \<open>Out_of_fuel\<close> is not one either: the bound that a recursion
  of the model was given is used up.
\<close>

datatype error =
  Runtime_error string
| Logic_error string
| Assert_failed string
| Bad_variant_access
| Bad_optional_access
| Undefined string
| Waits_forever
| Out_of_fuel

type_synonym 'a result = "error + 'a"

fun catchable :: "error \<Rightarrow> bool" where
  "catchable (Runtime_error _) = True"
| "catchable _ = False"

section \<open>Results\<close>

fun bindE :: "'e + 'a \<Rightarrow> ('a \<Rightarrow> 'e + 'b) \<Rightarrow> 'e + 'b" where
  "bindE (Inl e) f = Inl e"
| "bindE (Inr x) f = f x"

definition guardE :: "bool \<Rightarrow> 'e \<Rightarrow> 'e + unit" where
  "guardE b e = (if b then Inr () else Inl e)"

abbreviation assertE :: "bool \<Rightarrow> string \<Rightarrow> error + unit" where
  "assertE b msg \<equiv> guardE b (Assert_failed msg)"

abbreviation definedE :: "bool \<Rightarrow> string \<Rightarrow> error + unit" where
  "definedE b msg \<equiv> guardE b (Undefined msg)"

fun mapE :: "('a \<Rightarrow> 'e + 'b) \<Rightarrow> 'a list \<Rightarrow> 'e + 'b list" where
  "mapE f [] = Inr []"
| "mapE f (x # xs) = bindE (f x) (\<lambda>y. bindE (mapE f xs) (\<lambda>ys. Inr (y # ys)))"

fun foldE :: "('a \<Rightarrow> 's \<Rightarrow> 'e + 's) \<Rightarrow> 'a list \<Rightarrow> 's \<Rightarrow> 'e + 's" where
  "foldE f [] s = Inr s"
| "foldE f (x # xs) s = bindE (f x s) (foldE f xs)"

named_theorems result_simps "inversion of results: when a sequenced computation returns"

lemma bindE_Inr_iff [result_simps]:
  "bindE m f = Inr y \<longleftrightarrow> (\<exists>x. m = Inr x \<and> f x = Inr y)"
  by (cases m) auto

lemma bindE_Inl_iff:
  "bindE m f = Inl e \<longleftrightarrow> m = Inl e \<or> (\<exists>x. m = Inr x \<and> f x = Inl e)"
  by (cases m) auto

lemma guardE_Inr_iff [result_simps]: "guardE b e = Inr u \<longleftrightarrow> b"
  by (simp add: guardE_def)

lemma guardE_True [simp]: "guardE True e = Inr ()"
  by (simp add: guardE_def)

lemma guardE_False [simp]: "guardE False e = Inl e"
  by (simp add: guardE_def)

lemma bindE_assoc: "bindE (bindE m f) g = bindE m (\<lambda>x. bindE (f x) g)"
  by (cases m) auto

lemma bindE_cong [fundef_cong]:
  "m = m' \<Longrightarrow> (\<And>x. m' = Inr x \<Longrightarrow> f x = g x) \<Longrightarrow> bindE m f = bindE m' g"
  by (cases m') auto

lemma mapE_Inr_length: "mapE f xs = Inr ys \<Longrightarrow> length ys = length xs"
  by (induction xs arbitrary: ys) (auto simp: result_simps)

lemma mapE_Inr_nth:
  "mapE f xs = Inr ys \<Longrightarrow> i < length xs \<Longrightarrow> f (xs ! i) = Inr (ys ! i)"
  by (induction xs arbitrary: ys i) (auto simp: result_simps nth_Cons split: nat.splits)

lemma mapE_all_Inr: "(\<And>x. x \<in> set xs \<Longrightarrow> f x = Inr (g x)) \<Longrightarrow> mapE f xs = Inr (map g xs)"
  by (induction xs) auto

lemma mapE_cong: "(\<And>x. x \<in> set xs \<Longrightarrow> f x = g x) \<Longrightarrow> mapE f xs = mapE g xs"
  by (induction xs) auto

lemma mapE_map: "mapE f (map g xs) = mapE (\<lambda>x. f (g x)) xs"
  by (induction xs) auto

lemma foldE_invariant:
  assumes "foldE f xs s = Inr t" and "P s"
    and "\<And>x s t. x \<in> set xs \<Longrightarrow> P s \<Longrightarrow> f x s = Inr t \<Longrightarrow> P t"
  shows "P t"
  using assms
proof (induction xs arbitrary: s)
  case Nil
  then show ?case by simp
next
  case (Cons x xs)
  from Cons.prems(1) obtain u where u: "f x s = Inr u" "foldE f xs u = Inr t"
    by (auto simp: result_simps)
  have "P u" using Cons.prems(2,3) u(1) by auto
  with u(2) show ?case
    by (rule Cons.IH) (use Cons.prems(3) in auto)
qed

lemma foldE_total:
  assumes "\<And>x s. x \<in> set xs \<Longrightarrow> \<exists>t. f x s = Inr t"
  shows "\<exists>t. foldE f xs s = Inr t"
  using assms
proof (induction xs arbitrary: s)
  case (Cons x xs)
  obtain u where "f x s = Inr u" using Cons.prems by fastforce
  with Cons show ?case by simp
qed simp

lemma mapE_total:
  assumes "\<And>x. x \<in> set xs \<Longrightarrow> \<exists>y. f x = Inr y"
  shows "\<exists>ys. mapE f xs = Inr ys"
  using assms
proof (induction xs)
  case (Cons x xs)
  then obtain y ys where "f x = Inr y" "mapE f xs = Inr ys" by fastforce
  then show ?case by simp
qed simp

lemma foldE_append: "foldE f (xs @ ys) s = bindE (foldE f xs s) (foldE f ys)"
proof (induction xs arbitrary: s)
  case (Cons x xs)
  then show ?case by (cases "f x s") auto
qed simp

text \<open>A computation that returns, and what it returns (for evaluating concrete runs).\<close>

definition returns :: "'e + 'a \<Rightarrow> bool" where
  "returns r = (case r of Inl _ \<Rightarrow> False | Inr _ \<Rightarrow> True)"

lemma returnsD: "returns r \<Longrightarrow> r = Inr (projr r)"
  by (cases r) (simp_all add: returns_def)

lemma returns_pairD: "returns (fst p) \<Longrightarrow> p = (Inr (projr (fst p)), snd p)"
  by (cases p) (auto dest: returnsD)

lemma returns_unitD: "returns (fst p) \<Longrightarrow> p = (Inr (), snd p)"
  by (drule returns_pairD) simp

section \<open>State and result\<close>

type_synonym ('s, 'a) M = "'s \<Rightarrow> (error + 'a) \<times> 's"

definition retM :: "'a \<Rightarrow> ('s, 'a) M" where
  "retM x s = (Inr x, s)"

definition throwM :: "error \<Rightarrow> ('s, 'a) M" where
  "throwM e s = (Inl e, s)"

definition bindM :: "('s, 'a) M \<Rightarrow> ('a \<Rightarrow> ('s, 'b) M) \<Rightarrow> ('s, 'b) M" where
  "bindM m f s = (case m s of (Inl e, t) \<Rightarrow> (Inl e, t) | (Inr x, t) \<Rightarrow> f x t)"

definition liftM :: "('s \<Rightarrow> error + 'a) \<Rightarrow> ('s, 'a) M" where
  "liftM f s = (f s, s)"

definition modifyM :: "('s \<Rightarrow> 's) \<Rightarrow> ('s, unit) M" where
  "modifyM f s = (Inr (), f s)"

fun forM :: "'a list \<Rightarrow> ('a \<Rightarrow> ('s, unit) M) \<Rightarrow> ('s, unit) M" where
  "forM [] f = retM ()"
| "forM (x # xs) f = bindM (f x) (\<lambda>_. forM xs f)"

lemma bindM_cong [fundef_cong]:
  assumes "m s = m' s'" and "\<And>x t. m' s' = (Inr x, t) \<Longrightarrow> f x t = g x t"
  shows "bindM m f s = bindM m' g s'"
  using assms by (auto simp: bindM_def split: prod.splits sum.splits)

text \<open>Reading a vector at an index that it may not have.\<close>

definition at_index :: "'a list \<Rightarrow> nat \<Rightarrow> 'a result" where
  "at_index xs i = (if i < length xs then Inr (xs ! i) else Inl (Undefined ''vector index''))"

lemma at_index_Inr_iff [result_simps]: "at_index xs i = Inr x \<longleftrightarrow> i < length xs \<and> x = xs ! i"
  by (auto simp: at_index_def)

text \<open>
  \<open>keeps P m\<close>: the computation preserves \<open>P\<close>, whether it returns or fails. The rules
  compose: a component proves its basic operations and gets the composed ones by \<open>intro\<close>.
\<close>

definition keeps :: "('s \<Rightarrow> bool) \<Rightarrow> ('s, 'a) M \<Rightarrow> bool" where
  "keeps P m \<longleftrightarrow> (\<forall>s. P s \<longrightarrow> P (snd (m s)))"

named_theorems keeps_intros "composition rules for preserved predicates"

lemma keepsD: "keeps P m \<Longrightarrow> P s \<Longrightarrow> P (snd (m s))"
  by (simp add: keeps_def)

lemma keeps_ret [keeps_intros]: "keeps P (retM x)"
  by (simp add: keeps_def retM_def)

lemma keeps_throw [keeps_intros]: "keeps P (throwM e)"
  by (simp add: keeps_def throwM_def)

lemma keeps_lift [keeps_intros]: "keeps P (liftM f)"
  by (simp add: keeps_def liftM_def)

lemma keeps_bind [keeps_intros]:
  assumes "keeps P m" and "\<And>x. keeps P (f x)"
  shows "keeps P (bindM m f)"
  unfolding keeps_def bindM_def
proof (intro allI impI)
  fix s
  assume "P s"
  with assms(1) have "P (snd (m s))" by (rule keepsD)
  then show "P (snd (case m s of (Inl e, t) \<Rightarrow> (Inl e, t) | (Inr x, t) \<Rightarrow> f x t))"
    using assms(2) by (auto simp: keeps_def split: prod.splits sum.splits)
qed

lemma keeps_for [keeps_intros]:
  assumes "\<And>x. x \<in> set xs \<Longrightarrow> keeps P (f x)"
  shows "keeps P (forM xs f)"
  using assms by (induction xs) (auto intro!: keeps_intros)

section \<open>Signed arithmetic\<close>

text \<open>
  The result of a signed C++ operation: the exact integer if the type can hold it, undefined
  behaviour otherwise.
\<close>

definition signed_result :: "int \<Rightarrow> error + 'a::len word" where
  "signed_result n =
     (if - (2 ^ (LENGTH('a) - 1)) \<le> n \<and> n < 2 ^ (LENGTH('a) - 1) then Inr (word_of_int n)
      else Inl (Undefined ''signed overflow''))"

text \<open>A shift by a count that the type does not allow is undefined.\<close>

definition shift_ok :: "nat \<Rightarrow> 'a::len word \<Rightarrow> error + unit" where
  "shift_ok n x = guardE (n < LENGTH('a)) (Undefined ''shift count'')"

definition sshr :: "'a::len word \<Rightarrow> nat \<Rightarrow> 'a word" where
  "sshr x n = signed_drop_bit n x"

lemma signed_result_sint:
  "signed_result n = Inr (w :: 'a::len word) \<Longrightarrow> sint w = n"
  by (auto simp: signed_result_def sint_sbintrunc' signed_take_bit_int_eq_self split: if_splits)

lemma signed_result_of_sint [simp]: "signed_result (sint w) = Inr (w :: 'a::len word)"
  using sint_ge [of w] sint_lt [of w] by (simp add: signed_result_def)

section \<open>Decimal text of a number (\<open>std::to_string\<close>)\<close>

fun show_nat :: "nat \<Rightarrow> string" where
  "show_nat n =
     (if n < 10 then [char_of (48 + n)] else show_nat (n div 10) @ [char_of (48 + n mod 10)])"

declare show_nat.simps [simp del]

section \<open>Words and lists\<close>

named_theorems word_views "facts that read a word as its bits or its number"

lemma word_eq_bitsI:
  fixes x y :: "'a::len word"
  shows "(\<And>n. n < LENGTH('a) \<Longrightarrow> bit x n = bit y n) \<Longrightarrow> x = y"
  by (simp add: bit_word_eqI)

lemma unat_and_mask_lt: "unat (x AND 31 :: u64) < 32" "unat (x AND 63 :: u64) < 64"
proof -
  have "x AND 31 = x mod 32" "x AND 63 = x mod 64"
    using take_bit_eq_mask [of 5 x] take_bit_eq_mask [of 6 x]
    by (simp_all add: take_bit_eq_mod mask_numeral)
  then show "unat (x AND 31 :: u64) < 32" "unat (x AND 63 :: u64) < 64"
    by (simp_all add: unat_mod)
qed

end
