(* ===== verification/InstrKeys.thy ===== *)
theory InstrKeys
  imports Prelude
begin

text \<open>
  The instruction keys and instruction formats of \<open>common/model/instr/instr_info.h\<close>.

  The C++ enumeration \<open>InstrKey\<close> has 684 enumerators, numbered from 0 in the order of their
  declaration; the emulator compares keys for equality and, for the FLAT stores, by that order. A
  key is therefore the number of its enumerator, wrapped in a type of its own, with a constant per
  enumerator in the sections of the header.
\<close>

section \<open>Formats\<close>

datatype InstrFormat =
  SOP1 | SOP2 | SOPK | SOPP | SMEM | SOPC | VOP1 | VOP2 | VOPC | VINTRP | VOP3A | VOP3B | VOP3P
| FLAT | UNDEFINED

section \<open>Keys\<close>

datatype InstrKey = InstrKey (key_code: nat)

subsection \<open>SMEM\<close>

abbreviation (input) S_ATOMIC_ADD :: InstrKey where "S_ATOMIC_ADD \<equiv> InstrKey 0"
abbreviation (input) S_ATOMIC_ADD_X2 :: InstrKey where "S_ATOMIC_ADD_X2 \<equiv> InstrKey 1"
abbreviation (input) S_ATOMIC_AND :: InstrKey where "S_ATOMIC_AND \<equiv> InstrKey 2"
abbreviation (input) S_ATOMIC_AND_X2 :: InstrKey where "S_ATOMIC_AND_X2 \<equiv> InstrKey 3"
abbreviation (input) S_ATOMIC_CMPSWAP :: InstrKey where "S_ATOMIC_CMPSWAP \<equiv> InstrKey 4"
abbreviation (input) S_ATOMIC_CMPSWAP_X2 :: InstrKey where "S_ATOMIC_CMPSWAP_X2 \<equiv> InstrKey 5"
abbreviation (input) S_ATOMIC_DEC :: InstrKey where "S_ATOMIC_DEC \<equiv> InstrKey 6"
abbreviation (input) S_ATOMIC_DEC_X2 :: InstrKey where "S_ATOMIC_DEC_X2 \<equiv> InstrKey 7"
abbreviation (input) S_ATOMIC_INC :: InstrKey where "S_ATOMIC_INC \<equiv> InstrKey 8"
abbreviation (input) S_ATOMIC_INC_X2 :: InstrKey where "S_ATOMIC_INC_X2 \<equiv> InstrKey 9"
abbreviation (input) S_ATOMIC_OR :: InstrKey where "S_ATOMIC_OR \<equiv> InstrKey 10"
abbreviation (input) S_ATOMIC_OR_X2 :: InstrKey where "S_ATOMIC_OR_X2 \<equiv> InstrKey 11"
abbreviation (input) S_ATOMIC_SMAX :: InstrKey where "S_ATOMIC_SMAX \<equiv> InstrKey 12"
abbreviation (input) S_ATOMIC_SMAX_X2 :: InstrKey where "S_ATOMIC_SMAX_X2 \<equiv> InstrKey 13"
abbreviation (input) S_ATOMIC_SMIN :: InstrKey where "S_ATOMIC_SMIN \<equiv> InstrKey 14"
abbreviation (input) S_ATOMIC_SMIN_X2 :: InstrKey where "S_ATOMIC_SMIN_X2 \<equiv> InstrKey 15"
abbreviation (input) S_ATOMIC_SUB :: InstrKey where "S_ATOMIC_SUB \<equiv> InstrKey 16"
abbreviation (input) S_ATOMIC_SUB_X2 :: InstrKey where "S_ATOMIC_SUB_X2 \<equiv> InstrKey 17"
abbreviation (input) S_ATOMIC_SWAP :: InstrKey where "S_ATOMIC_SWAP \<equiv> InstrKey 18"
abbreviation (input) S_ATOMIC_SWAP_X2 :: InstrKey where "S_ATOMIC_SWAP_X2 \<equiv> InstrKey 19"
abbreviation (input) S_ATOMIC_UMAX :: InstrKey where "S_ATOMIC_UMAX \<equiv> InstrKey 20"
abbreviation (input) S_ATOMIC_UMAX_X2 :: InstrKey where "S_ATOMIC_UMAX_X2 \<equiv> InstrKey 21"
abbreviation (input) S_ATOMIC_UMIN :: InstrKey where "S_ATOMIC_UMIN \<equiv> InstrKey 22"
abbreviation (input) S_ATOMIC_UMIN_X2 :: InstrKey where "S_ATOMIC_UMIN_X2 \<equiv> InstrKey 23"
abbreviation (input) S_ATOMIC_XOR :: InstrKey where "S_ATOMIC_XOR \<equiv> InstrKey 24"
abbreviation (input) S_ATOMIC_XOR_X2 :: InstrKey where "S_ATOMIC_XOR_X2 \<equiv> InstrKey 25"
abbreviation (input) S_BUFFER_ATOMIC_ADD :: InstrKey where "S_BUFFER_ATOMIC_ADD \<equiv> InstrKey 26"
abbreviation (input) S_BUFFER_ATOMIC_ADD_X2 :: InstrKey where "S_BUFFER_ATOMIC_ADD_X2 \<equiv> InstrKey 27"
abbreviation (input) S_BUFFER_ATOMIC_AND :: InstrKey where "S_BUFFER_ATOMIC_AND \<equiv> InstrKey 28"
abbreviation (input) S_BUFFER_ATOMIC_AND_X2 :: InstrKey where "S_BUFFER_ATOMIC_AND_X2 \<equiv> InstrKey 29"
abbreviation (input) S_BUFFER_ATOMIC_CMPSWAP :: InstrKey where "S_BUFFER_ATOMIC_CMPSWAP \<equiv> InstrKey 30"
abbreviation (input) S_BUFFER_ATOMIC_CMPSWAP_X2 :: InstrKey where "S_BUFFER_ATOMIC_CMPSWAP_X2 \<equiv> InstrKey 31"
abbreviation (input) S_BUFFER_ATOMIC_DEC :: InstrKey where "S_BUFFER_ATOMIC_DEC \<equiv> InstrKey 32"
abbreviation (input) S_BUFFER_ATOMIC_DEC_X2 :: InstrKey where "S_BUFFER_ATOMIC_DEC_X2 \<equiv> InstrKey 33"
abbreviation (input) S_BUFFER_ATOMIC_INC :: InstrKey where "S_BUFFER_ATOMIC_INC \<equiv> InstrKey 34"
abbreviation (input) S_BUFFER_ATOMIC_INC_X2 :: InstrKey where "S_BUFFER_ATOMIC_INC_X2 \<equiv> InstrKey 35"
abbreviation (input) S_BUFFER_ATOMIC_OR :: InstrKey where "S_BUFFER_ATOMIC_OR \<equiv> InstrKey 36"
abbreviation (input) S_BUFFER_ATOMIC_OR_X2 :: InstrKey where "S_BUFFER_ATOMIC_OR_X2 \<equiv> InstrKey 37"
abbreviation (input) S_BUFFER_ATOMIC_SMAX :: InstrKey where "S_BUFFER_ATOMIC_SMAX \<equiv> InstrKey 38"
abbreviation (input) S_BUFFER_ATOMIC_SMAX_X2 :: InstrKey where "S_BUFFER_ATOMIC_SMAX_X2 \<equiv> InstrKey 39"
abbreviation (input) S_BUFFER_ATOMIC_SMIN :: InstrKey where "S_BUFFER_ATOMIC_SMIN \<equiv> InstrKey 40"
abbreviation (input) S_BUFFER_ATOMIC_SMIN_X2 :: InstrKey where "S_BUFFER_ATOMIC_SMIN_X2 \<equiv> InstrKey 41"
abbreviation (input) S_BUFFER_ATOMIC_SUB :: InstrKey where "S_BUFFER_ATOMIC_SUB \<equiv> InstrKey 42"
abbreviation (input) S_BUFFER_ATOMIC_SUB_X2 :: InstrKey where "S_BUFFER_ATOMIC_SUB_X2 \<equiv> InstrKey 43"
abbreviation (input) S_BUFFER_ATOMIC_SWAP :: InstrKey where "S_BUFFER_ATOMIC_SWAP \<equiv> InstrKey 44"
abbreviation (input) S_BUFFER_ATOMIC_SWAP_X2 :: InstrKey where "S_BUFFER_ATOMIC_SWAP_X2 \<equiv> InstrKey 45"
abbreviation (input) S_BUFFER_ATOMIC_UMAX :: InstrKey where "S_BUFFER_ATOMIC_UMAX \<equiv> InstrKey 46"
abbreviation (input) S_BUFFER_ATOMIC_UMAX_X2 :: InstrKey where "S_BUFFER_ATOMIC_UMAX_X2 \<equiv> InstrKey 47"
abbreviation (input) S_BUFFER_ATOMIC_UMIN :: InstrKey where "S_BUFFER_ATOMIC_UMIN \<equiv> InstrKey 48"
abbreviation (input) S_BUFFER_ATOMIC_UMIN_X2 :: InstrKey where "S_BUFFER_ATOMIC_UMIN_X2 \<equiv> InstrKey 49"
abbreviation (input) S_BUFFER_ATOMIC_XOR :: InstrKey where "S_BUFFER_ATOMIC_XOR \<equiv> InstrKey 50"
abbreviation (input) S_BUFFER_ATOMIC_XOR_X2 :: InstrKey where "S_BUFFER_ATOMIC_XOR_X2 \<equiv> InstrKey 51"
abbreviation (input) S_BUFFER_LOAD_DWORD :: InstrKey where "S_BUFFER_LOAD_DWORD \<equiv> InstrKey 52"
abbreviation (input) S_BUFFER_LOAD_DWORDX16 :: InstrKey where "S_BUFFER_LOAD_DWORDX16 \<equiv> InstrKey 53"
abbreviation (input) S_BUFFER_LOAD_DWORDX2 :: InstrKey where "S_BUFFER_LOAD_DWORDX2 \<equiv> InstrKey 54"
abbreviation (input) S_BUFFER_LOAD_DWORDX4 :: InstrKey where "S_BUFFER_LOAD_DWORDX4 \<equiv> InstrKey 55"
abbreviation (input) S_BUFFER_LOAD_DWORDX8 :: InstrKey where "S_BUFFER_LOAD_DWORDX8 \<equiv> InstrKey 56"
abbreviation (input) S_BUFFER_STORE_DWORD :: InstrKey where "S_BUFFER_STORE_DWORD \<equiv> InstrKey 57"
abbreviation (input) S_BUFFER_STORE_DWORDX2 :: InstrKey where "S_BUFFER_STORE_DWORDX2 \<equiv> InstrKey 58"
abbreviation (input) S_BUFFER_STORE_DWORDX4 :: InstrKey where "S_BUFFER_STORE_DWORDX4 \<equiv> InstrKey 59"
abbreviation (input) S_DCACHE_DISCARD :: InstrKey where "S_DCACHE_DISCARD \<equiv> InstrKey 60"
abbreviation (input) S_DCACHE_DISCARD_X2 :: InstrKey where "S_DCACHE_DISCARD_X2 \<equiv> InstrKey 61"
abbreviation (input) S_DCACHE_INV :: InstrKey where "S_DCACHE_INV \<equiv> InstrKey 62"
abbreviation (input) S_DCACHE_INV_VOL :: InstrKey where "S_DCACHE_INV_VOL \<equiv> InstrKey 63"
abbreviation (input) S_LOAD_DWORD :: InstrKey where "S_LOAD_DWORD \<equiv> InstrKey 64"
abbreviation (input) S_LOAD_DWORDX16 :: InstrKey where "S_LOAD_DWORDX16 \<equiv> InstrKey 65"
abbreviation (input) S_LOAD_DWORDX2 :: InstrKey where "S_LOAD_DWORDX2 \<equiv> InstrKey 66"
abbreviation (input) S_LOAD_DWORDX4 :: InstrKey where "S_LOAD_DWORDX4 \<equiv> InstrKey 67"
abbreviation (input) S_LOAD_DWORDX8 :: InstrKey where "S_LOAD_DWORDX8 \<equiv> InstrKey 68"
abbreviation (input) S_MEMREALTIME :: InstrKey where "S_MEMREALTIME \<equiv> InstrKey 69"
abbreviation (input) S_MEMTIME :: InstrKey where "S_MEMTIME \<equiv> InstrKey 70"
abbreviation (input) S_SCRATCH_LOAD_DWORD :: InstrKey where "S_SCRATCH_LOAD_DWORD \<equiv> InstrKey 71"
abbreviation (input) S_SCRATCH_LOAD_DWORDX2 :: InstrKey where "S_SCRATCH_LOAD_DWORDX2 \<equiv> InstrKey 72"
abbreviation (input) S_SCRATCH_LOAD_DWORDX4 :: InstrKey where "S_SCRATCH_LOAD_DWORDX4 \<equiv> InstrKey 73"
abbreviation (input) S_SCRATCH_STORE_DWORD :: InstrKey where "S_SCRATCH_STORE_DWORD \<equiv> InstrKey 74"
abbreviation (input) S_SCRATCH_STORE_DWORDX2 :: InstrKey where "S_SCRATCH_STORE_DWORDX2 \<equiv> InstrKey 75"
abbreviation (input) S_SCRATCH_STORE_DWORDX4 :: InstrKey where "S_SCRATCH_STORE_DWORDX4 \<equiv> InstrKey 76"
abbreviation (input) S_STORE_DWORD :: InstrKey where "S_STORE_DWORD \<equiv> InstrKey 77"
abbreviation (input) S_STORE_DWORDX2 :: InstrKey where "S_STORE_DWORDX2 \<equiv> InstrKey 78"
abbreviation (input) S_STORE_DWORDX4 :: InstrKey where "S_STORE_DWORDX4 \<equiv> InstrKey 79"

subsection \<open>SOPC\<close>

abbreviation (input) S_BITCMP0_B32 :: InstrKey where "S_BITCMP0_B32 \<equiv> InstrKey 80"
abbreviation (input) S_BITCMP0_B64 :: InstrKey where "S_BITCMP0_B64 \<equiv> InstrKey 81"
abbreviation (input) S_BITCMP1_B32 :: InstrKey where "S_BITCMP1_B32 \<equiv> InstrKey 82"
abbreviation (input) S_BITCMP1_B64 :: InstrKey where "S_BITCMP1_B64 \<equiv> InstrKey 83"
abbreviation (input) S_CMP_EQ_I32 :: InstrKey where "S_CMP_EQ_I32 \<equiv> InstrKey 84"
abbreviation (input) S_CMP_EQ_U32 :: InstrKey where "S_CMP_EQ_U32 \<equiv> InstrKey 85"
abbreviation (input) S_CMP_EQ_U64 :: InstrKey where "S_CMP_EQ_U64 \<equiv> InstrKey 86"
abbreviation (input) S_CMP_GE_I32 :: InstrKey where "S_CMP_GE_I32 \<equiv> InstrKey 87"
abbreviation (input) S_CMP_GE_U32 :: InstrKey where "S_CMP_GE_U32 \<equiv> InstrKey 88"
abbreviation (input) S_CMP_GT_I32 :: InstrKey where "S_CMP_GT_I32 \<equiv> InstrKey 89"
abbreviation (input) S_CMP_GT_U32 :: InstrKey where "S_CMP_GT_U32 \<equiv> InstrKey 90"
abbreviation (input) S_CMP_LE_I32 :: InstrKey where "S_CMP_LE_I32 \<equiv> InstrKey 91"
abbreviation (input) S_CMP_LE_U32 :: InstrKey where "S_CMP_LE_U32 \<equiv> InstrKey 92"
abbreviation (input) S_CMP_LG_I32 :: InstrKey where "S_CMP_LG_I32 \<equiv> InstrKey 93"
abbreviation (input) S_CMP_LG_U32 :: InstrKey where "S_CMP_LG_U32 \<equiv> InstrKey 94"
abbreviation (input) S_CMP_LG_U64 :: InstrKey where "S_CMP_LG_U64 \<equiv> InstrKey 95"
abbreviation (input) S_CMP_NE_U64 :: InstrKey where "S_CMP_NE_U64 \<equiv> InstrKey 96"
abbreviation (input) S_CMP_LT_I32 :: InstrKey where "S_CMP_LT_I32 \<equiv> InstrKey 97"
abbreviation (input) S_CMP_LT_U32 :: InstrKey where "S_CMP_LT_U32 \<equiv> InstrKey 98"
abbreviation (input) S_SET_GPR_IDX_ON :: InstrKey where "S_SET_GPR_IDX_ON \<equiv> InstrKey 99"
abbreviation (input) S_SETVSKIP :: InstrKey where "S_SETVSKIP \<equiv> InstrKey 100"

subsection \<open>SOPP\<close>

abbreviation (input) S_BARRIER :: InstrKey where "S_BARRIER \<equiv> InstrKey 101"
abbreviation (input) S_BRANCH :: InstrKey where "S_BRANCH \<equiv> InstrKey 102"
abbreviation (input) S_CBRANCH_CDBGSYS :: InstrKey where "S_CBRANCH_CDBGSYS \<equiv> InstrKey 103"
abbreviation (input) S_CBRANCH_CDBGSYS_AND_USER :: InstrKey where "S_CBRANCH_CDBGSYS_AND_USER \<equiv> InstrKey 104"
abbreviation (input) S_CBRANCH_CDBGSYS_OR_USER :: InstrKey where "S_CBRANCH_CDBGSYS_OR_USER \<equiv> InstrKey 105"
abbreviation (input) S_CBRANCH_CDBGUSER :: InstrKey where "S_CBRANCH_CDBGUSER \<equiv> InstrKey 106"
abbreviation (input) S_CBRANCH_EXECNZ :: InstrKey where "S_CBRANCH_EXECNZ \<equiv> InstrKey 107"
abbreviation (input) S_CBRANCH_EXECZ :: InstrKey where "S_CBRANCH_EXECZ \<equiv> InstrKey 108"
abbreviation (input) S_CBRANCH_SCC0 :: InstrKey where "S_CBRANCH_SCC0 \<equiv> InstrKey 109"
abbreviation (input) S_CBRANCH_SCC1 :: InstrKey where "S_CBRANCH_SCC1 \<equiv> InstrKey 110"
abbreviation (input) S_CBRANCH_VCCNZ :: InstrKey where "S_CBRANCH_VCCNZ \<equiv> InstrKey 111"
abbreviation (input) S_CBRANCH_VCCZ :: InstrKey where "S_CBRANCH_VCCZ \<equiv> InstrKey 112"
abbreviation (input) S_DECPERFLEVEL :: InstrKey where "S_DECPERFLEVEL \<equiv> InstrKey 113"
abbreviation (input) S_ENDPGM :: InstrKey where "S_ENDPGM \<equiv> InstrKey 114"
abbreviation (input) S_ENDPGM_ORDERED_PS_DONE :: InstrKey where "S_ENDPGM_ORDERED_PS_DONE \<equiv> InstrKey 115"
abbreviation (input) S_ENDPGM_SAVED :: InstrKey where "S_ENDPGM_SAVED \<equiv> InstrKey 116"
abbreviation (input) S_ICACHE_INV :: InstrKey where "S_ICACHE_INV \<equiv> InstrKey 117"
abbreviation (input) S_INCPERFLEVEL :: InstrKey where "S_INCPERFLEVEL \<equiv> InstrKey 118"
abbreviation (input) S_NOP :: InstrKey where "S_NOP \<equiv> InstrKey 119"
abbreviation (input) S_SENDMSG :: InstrKey where "S_SENDMSG \<equiv> InstrKey 120"
abbreviation (input) S_SENDMSGHALT :: InstrKey where "S_SENDMSGHALT \<equiv> InstrKey 121"
abbreviation (input) S_SET_GPR_IDX_MODE :: InstrKey where "S_SET_GPR_IDX_MODE \<equiv> InstrKey 122"
abbreviation (input) S_SET_GPR_IDX_OFF :: InstrKey where "S_SET_GPR_IDX_OFF \<equiv> InstrKey 123"
abbreviation (input) S_SETHALT :: InstrKey where "S_SETHALT \<equiv> InstrKey 124"
abbreviation (input) S_SETKILL :: InstrKey where "S_SETKILL \<equiv> InstrKey 125"
abbreviation (input) S_SETPRIO :: InstrKey where "S_SETPRIO \<equiv> InstrKey 126"
abbreviation (input) S_SLEEP :: InstrKey where "S_SLEEP \<equiv> InstrKey 127"
abbreviation (input) S_TRAP :: InstrKey where "S_TRAP \<equiv> InstrKey 128"
abbreviation (input) S_TTRACEDATA :: InstrKey where "S_TTRACEDATA \<equiv> InstrKey 129"
abbreviation (input) S_WAITCNT :: InstrKey where "S_WAITCNT \<equiv> InstrKey 130"

subsection \<open>SOP1_FORMAT\<close>

abbreviation (input) S_ABS_I32 :: InstrKey where "S_ABS_I32 \<equiv> InstrKey 131"
abbreviation (input) S_AND_SAVEEXEC_B64 :: InstrKey where "S_AND_SAVEEXEC_B64 \<equiv> InstrKey 132"
abbreviation (input) S_ANDN1_SAVEEXEC_B64 :: InstrKey where "S_ANDN1_SAVEEXEC_B64 \<equiv> InstrKey 133"
abbreviation (input) S_ANDN1_WREXEC_B64 :: InstrKey where "S_ANDN1_WREXEC_B64 \<equiv> InstrKey 134"
abbreviation (input) S_ANDN2_SAVEEXEC_B64 :: InstrKey where "S_ANDN2_SAVEEXEC_B64 \<equiv> InstrKey 135"
abbreviation (input) S_ANDN2_WREXEC_B64 :: InstrKey where "S_ANDN2_WREXEC_B64 \<equiv> InstrKey 136"
abbreviation (input) S_BCNT0_I32_B32 :: InstrKey where "S_BCNT0_I32_B32 \<equiv> InstrKey 137"
abbreviation (input) S_BCNT0_I32_B64 :: InstrKey where "S_BCNT0_I32_B64 \<equiv> InstrKey 138"
abbreviation (input) S_BCNT1_I32_B32 :: InstrKey where "S_BCNT1_I32_B32 \<equiv> InstrKey 139"
abbreviation (input) S_BCNT1_I32_B64 :: InstrKey where "S_BCNT1_I32_B64 \<equiv> InstrKey 140"
abbreviation (input) S_BITREPLICATE_B64_B32 :: InstrKey where "S_BITREPLICATE_B64_B32 \<equiv> InstrKey 141"
abbreviation (input) S_BITSET0_B32 :: InstrKey where "S_BITSET0_B32 \<equiv> InstrKey 142"
abbreviation (input) S_BITSET0_B64 :: InstrKey where "S_BITSET0_B64 \<equiv> InstrKey 143"
abbreviation (input) S_BITSET1_B32 :: InstrKey where "S_BITSET1_B32 \<equiv> InstrKey 144"
abbreviation (input) S_BITSET1_B64 :: InstrKey where "S_BITSET1_B64 \<equiv> InstrKey 145"
abbreviation (input) S_BREV_B32 :: InstrKey where "S_BREV_B32 \<equiv> InstrKey 146"
abbreviation (input) S_BREV_B64 :: InstrKey where "S_BREV_B64 \<equiv> InstrKey 147"
abbreviation (input) S_CBRANCH_JOIN :: InstrKey where "S_CBRANCH_JOIN \<equiv> InstrKey 148"
abbreviation (input) S_CMOV_B32 :: InstrKey where "S_CMOV_B32 \<equiv> InstrKey 149"
abbreviation (input) S_CMOV_B64 :: InstrKey where "S_CMOV_B64 \<equiv> InstrKey 150"
abbreviation (input) S_FF0_I32_B32 :: InstrKey where "S_FF0_I32_B32 \<equiv> InstrKey 151"
abbreviation (input) S_FF0_I32_B64 :: InstrKey where "S_FF0_I32_B64 \<equiv> InstrKey 152"
abbreviation (input) S_FF1_I32_B32 :: InstrKey where "S_FF1_I32_B32 \<equiv> InstrKey 153"
abbreviation (input) S_FF1_I32_B64 :: InstrKey where "S_FF1_I32_B64 \<equiv> InstrKey 154"
abbreviation (input) S_FLBIT_I32_B32 :: InstrKey where "S_FLBIT_I32_B32 \<equiv> InstrKey 155"
abbreviation (input) S_FLBIT_I32_B64 :: InstrKey where "S_FLBIT_I32_B64 \<equiv> InstrKey 156"
abbreviation (input) S_FLBIT_I32 :: InstrKey where "S_FLBIT_I32 \<equiv> InstrKey 157"
abbreviation (input) S_FLBIT_I32_I64 :: InstrKey where "S_FLBIT_I32_I64 \<equiv> InstrKey 158"
abbreviation (input) S_GETPC_B64 :: InstrKey where "S_GETPC_B64 \<equiv> InstrKey 159"
abbreviation (input) S_MOV_B32 :: InstrKey where "S_MOV_B32 \<equiv> InstrKey 160"
abbreviation (input) S_MOV_B64 :: InstrKey where "S_MOV_B64 \<equiv> InstrKey 161"
abbreviation (input) S_MOVRELD_B32 :: InstrKey where "S_MOVRELD_B32 \<equiv> InstrKey 162"
abbreviation (input) S_MOVRELD_B64 :: InstrKey where "S_MOVRELD_B64 \<equiv> InstrKey 163"
abbreviation (input) S_MOVRELS_B32 :: InstrKey where "S_MOVRELS_B32 \<equiv> InstrKey 164"
abbreviation (input) S_MOVRELS_B64 :: InstrKey where "S_MOVRELS_B64 \<equiv> InstrKey 165"
abbreviation (input) S_NAND_SAVEEXEC_B64 :: InstrKey where "S_NAND_SAVEEXEC_B64 \<equiv> InstrKey 166"
abbreviation (input) S_NOR_SAVEEXEC_B64 :: InstrKey where "S_NOR_SAVEEXEC_B64 \<equiv> InstrKey 167"
abbreviation (input) S_NOT_B32 :: InstrKey where "S_NOT_B32 \<equiv> InstrKey 168"
abbreviation (input) S_NOT_B64 :: InstrKey where "S_NOT_B64 \<equiv> InstrKey 169"
abbreviation (input) S_OR_SAVEEXEC_B64 :: InstrKey where "S_OR_SAVEEXEC_B64 \<equiv> InstrKey 170"
abbreviation (input) S_ORN2_SAVEEXEC_B64 :: InstrKey where "S_ORN2_SAVEEXEC_B64 \<equiv> InstrKey 171"
abbreviation (input) S_QUADMASK_B32 :: InstrKey where "S_QUADMASK_B32 \<equiv> InstrKey 172"
abbreviation (input) S_QUADMASK_B64 :: InstrKey where "S_QUADMASK_B64 \<equiv> InstrKey 173"
abbreviation (input) S_RFE_B64 :: InstrKey where "S_RFE_B64 \<equiv> InstrKey 174"
abbreviation (input) S_SET_GPR_IDX_IDX :: InstrKey where "S_SET_GPR_IDX_IDX \<equiv> InstrKey 175"
abbreviation (input) S_SETPC_B64 :: InstrKey where "S_SETPC_B64 \<equiv> InstrKey 176"
abbreviation (input) S_SEXT_I32_I8 :: InstrKey where "S_SEXT_I32_I8 \<equiv> InstrKey 177"
abbreviation (input) S_SEXT_I32_I16 :: InstrKey where "S_SEXT_I32_I16 \<equiv> InstrKey 178"
abbreviation (input) S_SWAPPC_B64 :: InstrKey where "S_SWAPPC_B64 \<equiv> InstrKey 179"
abbreviation (input) S_WQM_B32 :: InstrKey where "S_WQM_B32 \<equiv> InstrKey 180"
abbreviation (input) S_WQM_B64 :: InstrKey where "S_WQM_B64 \<equiv> InstrKey 181"
abbreviation (input) S_XNOR_SAVEEXEC_B64 :: InstrKey where "S_XNOR_SAVEEXEC_B64 \<equiv> InstrKey 182"
abbreviation (input) S_XOR_SAVEEXEC_B64 :: InstrKey where "S_XOR_SAVEEXEC_B64 \<equiv> InstrKey 183"

subsection \<open>SOP2_FORMAT\<close>

abbreviation (input) S_ABSDIFF_I32 :: InstrKey where "S_ABSDIFF_I32 \<equiv> InstrKey 184"
abbreviation (input) S_ADDC_U32 :: InstrKey where "S_ADDC_U32 \<equiv> InstrKey 185"
abbreviation (input) S_ADD_I32 :: InstrKey where "S_ADD_I32 \<equiv> InstrKey 186"
abbreviation (input) S_ADD_U32 :: InstrKey where "S_ADD_U32 \<equiv> InstrKey 187"
abbreviation (input) S_AND_B32 :: InstrKey where "S_AND_B32 \<equiv> InstrKey 188"
abbreviation (input) S_AND_B64 :: InstrKey where "S_AND_B64 \<equiv> InstrKey 189"
abbreviation (input) S_ANDN2_B32 :: InstrKey where "S_ANDN2_B32 \<equiv> InstrKey 190"
abbreviation (input) S_ANDN2_B64 :: InstrKey where "S_ANDN2_B64 \<equiv> InstrKey 191"
abbreviation (input) S_ASHR_I32 :: InstrKey where "S_ASHR_I32 \<equiv> InstrKey 192"
abbreviation (input) S_ASHR_I64 :: InstrKey where "S_ASHR_I64 \<equiv> InstrKey 193"
abbreviation (input) S_BFE_I32 :: InstrKey where "S_BFE_I32 \<equiv> InstrKey 194"
abbreviation (input) S_BFE_I64 :: InstrKey where "S_BFE_I64 \<equiv> InstrKey 195"
abbreviation (input) S_BFE_U32 :: InstrKey where "S_BFE_U32 \<equiv> InstrKey 196"
abbreviation (input) S_BFE_U64 :: InstrKey where "S_BFE_U64 \<equiv> InstrKey 197"
abbreviation (input) S_BFM_B32 :: InstrKey where "S_BFM_B32 \<equiv> InstrKey 198"
abbreviation (input) S_BFM_B64 :: InstrKey where "S_BFM_B64 \<equiv> InstrKey 199"
abbreviation (input) S_CBRANCH_G_FORK :: InstrKey where "S_CBRANCH_G_FORK \<equiv> InstrKey 200"
abbreviation (input) S_CSELECT_B32 :: InstrKey where "S_CSELECT_B32 \<equiv> InstrKey 201"
abbreviation (input) S_CSELECT_B64 :: InstrKey where "S_CSELECT_B64 \<equiv> InstrKey 202"
abbreviation (input) S_LSHL_B32 :: InstrKey where "S_LSHL_B32 \<equiv> InstrKey 203"
abbreviation (input) S_LSHL_B64 :: InstrKey where "S_LSHL_B64 \<equiv> InstrKey 204"
abbreviation (input) S_LSHL1_ADD_U32 :: InstrKey where "S_LSHL1_ADD_U32 \<equiv> InstrKey 205"
abbreviation (input) S_LSHL2_ADD_U32 :: InstrKey where "S_LSHL2_ADD_U32 \<equiv> InstrKey 206"
abbreviation (input) S_LSHL3_ADD_U32 :: InstrKey where "S_LSHL3_ADD_U32 \<equiv> InstrKey 207"
abbreviation (input) S_LSHL4_ADD_U32 :: InstrKey where "S_LSHL4_ADD_U32 \<equiv> InstrKey 208"
abbreviation (input) S_LSHR_B32 :: InstrKey where "S_LSHR_B32 \<equiv> InstrKey 209"
abbreviation (input) S_LSHR_B64 :: InstrKey where "S_LSHR_B64 \<equiv> InstrKey 210"
abbreviation (input) S_MAX_I32 :: InstrKey where "S_MAX_I32 \<equiv> InstrKey 211"
abbreviation (input) S_MAX_U32 :: InstrKey where "S_MAX_U32 \<equiv> InstrKey 212"
abbreviation (input) S_MIN_I32 :: InstrKey where "S_MIN_I32 \<equiv> InstrKey 213"
abbreviation (input) S_MIN_U32 :: InstrKey where "S_MIN_U32 \<equiv> InstrKey 214"
abbreviation (input) S_MUL_HI_I32 :: InstrKey where "S_MUL_HI_I32 \<equiv> InstrKey 215"
abbreviation (input) S_MUL_HI_U32 :: InstrKey where "S_MUL_HI_U32 \<equiv> InstrKey 216"
abbreviation (input) S_MUL_I32 :: InstrKey where "S_MUL_I32 \<equiv> InstrKey 217"
abbreviation (input) S_NAND_B32 :: InstrKey where "S_NAND_B32 \<equiv> InstrKey 218"
abbreviation (input) S_NAND_B64 :: InstrKey where "S_NAND_B64 \<equiv> InstrKey 219"
abbreviation (input) S_NOR_B32 :: InstrKey where "S_NOR_B32 \<equiv> InstrKey 220"
abbreviation (input) S_NOR_B64 :: InstrKey where "S_NOR_B64 \<equiv> InstrKey 221"
abbreviation (input) S_OR_B32 :: InstrKey where "S_OR_B32 \<equiv> InstrKey 222"
abbreviation (input) S_OR_B64 :: InstrKey where "S_OR_B64 \<equiv> InstrKey 223"
abbreviation (input) S_ORN2_B32 :: InstrKey where "S_ORN2_B32 \<equiv> InstrKey 224"
abbreviation (input) S_ORN2_B64 :: InstrKey where "S_ORN2_B64 \<equiv> InstrKey 225"
abbreviation (input) S_PACK_HH_B32_B16 :: InstrKey where "S_PACK_HH_B32_B16 \<equiv> InstrKey 226"
abbreviation (input) S_PACK_LH_B32_B16 :: InstrKey where "S_PACK_LH_B32_B16 \<equiv> InstrKey 227"
abbreviation (input) S_PACK_LL_B32_B16 :: InstrKey where "S_PACK_LL_B32_B16 \<equiv> InstrKey 228"
abbreviation (input) S_RFE_RESTORE_B64 :: InstrKey where "S_RFE_RESTORE_B64 \<equiv> InstrKey 229"
abbreviation (input) S_SUBB_U32 :: InstrKey where "S_SUBB_U32 \<equiv> InstrKey 230"
abbreviation (input) S_SUB_I32 :: InstrKey where "S_SUB_I32 \<equiv> InstrKey 231"
abbreviation (input) S_SUB_U32 :: InstrKey where "S_SUB_U32 \<equiv> InstrKey 232"
abbreviation (input) S_XNOR_B32 :: InstrKey where "S_XNOR_B32 \<equiv> InstrKey 233"
abbreviation (input) S_XNOR_B64 :: InstrKey where "S_XNOR_B64 \<equiv> InstrKey 234"
abbreviation (input) S_XOR_B32 :: InstrKey where "S_XOR_B32 \<equiv> InstrKey 235"
abbreviation (input) S_XOR_B64 :: InstrKey where "S_XOR_B64 \<equiv> InstrKey 236"

subsection \<open>SOPK_FORMAT\<close>

abbreviation (input) S_ADDK_I32 :: InstrKey where "S_ADDK_I32 \<equiv> InstrKey 237"
abbreviation (input) S_CALL_B64 :: InstrKey where "S_CALL_B64 \<equiv> InstrKey 238"
abbreviation (input) S_CBRANCH_I_FORK :: InstrKey where "S_CBRANCH_I_FORK \<equiv> InstrKey 239"
abbreviation (input) S_CMOVK_I32 :: InstrKey where "S_CMOVK_I32 \<equiv> InstrKey 240"
abbreviation (input) S_CMPK_EQ_I32 :: InstrKey where "S_CMPK_EQ_I32 \<equiv> InstrKey 241"
abbreviation (input) S_CMPK_EQ_U32 :: InstrKey where "S_CMPK_EQ_U32 \<equiv> InstrKey 242"
abbreviation (input) S_CMPK_GE_I32 :: InstrKey where "S_CMPK_GE_I32 \<equiv> InstrKey 243"
abbreviation (input) S_CMPK_GE_U32 :: InstrKey where "S_CMPK_GE_U32 \<equiv> InstrKey 244"
abbreviation (input) S_CMPK_GT_I32 :: InstrKey where "S_CMPK_GT_I32 \<equiv> InstrKey 245"
abbreviation (input) S_CMPK_GT_U32 :: InstrKey where "S_CMPK_GT_U32 \<equiv> InstrKey 246"
abbreviation (input) S_CMPK_LE_I32 :: InstrKey where "S_CMPK_LE_I32 \<equiv> InstrKey 247"
abbreviation (input) S_CMPK_LE_U32 :: InstrKey where "S_CMPK_LE_U32 \<equiv> InstrKey 248"
abbreviation (input) S_CMPK_LG_I32 :: InstrKey where "S_CMPK_LG_I32 \<equiv> InstrKey 249"
abbreviation (input) S_CMPK_LG_U32 :: InstrKey where "S_CMPK_LG_U32 \<equiv> InstrKey 250"
abbreviation (input) S_CMPK_LT_I32 :: InstrKey where "S_CMPK_LT_I32 \<equiv> InstrKey 251"
abbreviation (input) S_CMPK_LT_U32 :: InstrKey where "S_CMPK_LT_U32 \<equiv> InstrKey 252"
abbreviation (input) S_GETREG_B32 :: InstrKey where "S_GETREG_B32 \<equiv> InstrKey 253"
abbreviation (input) S_MOVK_I32 :: InstrKey where "S_MOVK_I32 \<equiv> InstrKey 254"
abbreviation (input) S_MULK_I32 :: InstrKey where "S_MULK_I32 \<equiv> InstrKey 255"
abbreviation (input) S_SETREG_B32 :: InstrKey where "S_SETREG_B32 \<equiv> InstrKey 256"
abbreviation (input) S_SETREG_IMM32_B32 :: InstrKey where "S_SETREG_IMM32_B32 \<equiv> InstrKey 257"

subsection \<open>VOP1\<close>

abbreviation (input) V_BFREV_B32 :: InstrKey where "V_BFREV_B32 \<equiv> InstrKey 258"
abbreviation (input) V_FFBH_U32 :: InstrKey where "V_FFBH_U32 \<equiv> InstrKey 259"
abbreviation (input) V_FFBH_I32 :: InstrKey where "V_FFBH_I32 \<equiv> InstrKey 260"
abbreviation (input) V_FFBL_B32 :: InstrKey where "V_FFBL_B32 \<equiv> InstrKey 261"
abbreviation (input) V_MOV_B32 :: InstrKey where "V_MOV_B32 \<equiv> InstrKey 262"
abbreviation (input) V_SWAP_B32 :: InstrKey where "V_SWAP_B32 \<equiv> InstrKey 263"
abbreviation (input) V_MOVRELD_B32 :: InstrKey where "V_MOVRELD_B32 \<equiv> InstrKey 264"
abbreviation (input) V_MOVRELS_B32 :: InstrKey where "V_MOVRELS_B32 \<equiv> InstrKey 265"
abbreviation (input) V_MOVRELSD_B32 :: InstrKey where "V_MOVRELSD_B32 \<equiv> InstrKey 266"
abbreviation (input) V_NOT_B32 :: InstrKey where "V_NOT_B32 \<equiv> InstrKey 267"
abbreviation (input) V_READFIRSTLANE_B32 :: InstrKey where "V_READFIRSTLANE_B32 \<equiv> InstrKey 268"
abbreviation (input) V_SAT_PK_U8_I16 :: InstrKey where "V_SAT_PK_U8_I16 \<equiv> InstrKey 269"
abbreviation (input) V_SCREEN_PARTITION_4SE_B32 :: InstrKey where "V_SCREEN_PARTITION_4SE_B32 \<equiv> InstrKey 270"
abbreviation (input) V_NOP :: InstrKey where "V_NOP \<equiv> InstrKey 271"
abbreviation (input) V_CVT_I32_F64 :: InstrKey where "V_CVT_I32_F64 \<equiv> InstrKey 272"
abbreviation (input) V_CVT_F64_I32 :: InstrKey where "V_CVT_F64_I32 \<equiv> InstrKey 273"
abbreviation (input) V_CVT_F32_I32 :: InstrKey where "V_CVT_F32_I32 \<equiv> InstrKey 274"
abbreviation (input) V_CVT_F32_U32 :: InstrKey where "V_CVT_F32_U32 \<equiv> InstrKey 275"
abbreviation (input) V_CVT_U32_F32 :: InstrKey where "V_CVT_U32_F32 \<equiv> InstrKey 276"
abbreviation (input) V_CVT_I32_F32 :: InstrKey where "V_CVT_I32_F32 \<equiv> InstrKey 277"
abbreviation (input) V_CVT_F16_F32 :: InstrKey where "V_CVT_F16_F32 \<equiv> InstrKey 278"
abbreviation (input) V_CVT_F32_F16 :: InstrKey where "V_CVT_F32_F16 \<equiv> InstrKey 279"
abbreviation (input) V_CVT_RPI_I32_F32 :: InstrKey where "V_CVT_RPI_I32_F32 \<equiv> InstrKey 280"
abbreviation (input) V_CVT_FLR_I32_F32 :: InstrKey where "V_CVT_FLR_I32_F32 \<equiv> InstrKey 281"
abbreviation (input) V_CVT_OFF_F32_I4 :: InstrKey where "V_CVT_OFF_F32_I4 \<equiv> InstrKey 282"
abbreviation (input) V_CVT_F32_F64 :: InstrKey where "V_CVT_F32_F64 \<equiv> InstrKey 283"
abbreviation (input) V_CVT_F64_F32 :: InstrKey where "V_CVT_F64_F32 \<equiv> InstrKey 284"
abbreviation (input) V_CVT_F32_UBYTE0 :: InstrKey where "V_CVT_F32_UBYTE0 \<equiv> InstrKey 285"
abbreviation (input) V_CVT_F32_UBYTE1 :: InstrKey where "V_CVT_F32_UBYTE1 \<equiv> InstrKey 286"
abbreviation (input) V_CVT_F32_UBYTE2 :: InstrKey where "V_CVT_F32_UBYTE2 \<equiv> InstrKey 287"
abbreviation (input) V_CVT_F32_UBYTE3 :: InstrKey where "V_CVT_F32_UBYTE3 \<equiv> InstrKey 288"
abbreviation (input) V_CVT_U32_F64 :: InstrKey where "V_CVT_U32_F64 \<equiv> InstrKey 289"
abbreviation (input) V_CVT_F64_U32 :: InstrKey where "V_CVT_F64_U32 \<equiv> InstrKey 290"
abbreviation (input) V_TRUNC_F64 :: InstrKey where "V_TRUNC_F64 \<equiv> InstrKey 291"
abbreviation (input) V_CEIL_F64 :: InstrKey where "V_CEIL_F64 \<equiv> InstrKey 292"
abbreviation (input) V_RNDNE_F64 :: InstrKey where "V_RNDNE_F64 \<equiv> InstrKey 293"
abbreviation (input) V_FLOOR_F64 :: InstrKey where "V_FLOOR_F64 \<equiv> InstrKey 294"
abbreviation (input) V_FRACT_F32 :: InstrKey where "V_FRACT_F32 \<equiv> InstrKey 295"
abbreviation (input) V_TRUNC_F32 :: InstrKey where "V_TRUNC_F32 \<equiv> InstrKey 296"
abbreviation (input) V_CEIL_F32 :: InstrKey where "V_CEIL_F32 \<equiv> InstrKey 297"
abbreviation (input) V_RNDNE_F32 :: InstrKey where "V_RNDNE_F32 \<equiv> InstrKey 298"
abbreviation (input) V_FLOOR_F32 :: InstrKey where "V_FLOOR_F32 \<equiv> InstrKey 299"
abbreviation (input) V_EXP_F32 :: InstrKey where "V_EXP_F32 \<equiv> InstrKey 300"
abbreviation (input) V_LOG_F32 :: InstrKey where "V_LOG_F32 \<equiv> InstrKey 301"
abbreviation (input) V_RCP_F32 :: InstrKey where "V_RCP_F32 \<equiv> InstrKey 302"
abbreviation (input) V_RCP_IFLAG_F32 :: InstrKey where "V_RCP_IFLAG_F32 \<equiv> InstrKey 303"
abbreviation (input) V_RSQ_F32 :: InstrKey where "V_RSQ_F32 \<equiv> InstrKey 304"
abbreviation (input) V_RCP_F64 :: InstrKey where "V_RCP_F64 \<equiv> InstrKey 305"
abbreviation (input) V_RSQ_F64 :: InstrKey where "V_RSQ_F64 \<equiv> InstrKey 306"
abbreviation (input) V_SQRT_F32 :: InstrKey where "V_SQRT_F32 \<equiv> InstrKey 307"
abbreviation (input) V_SQRT_F64 :: InstrKey where "V_SQRT_F64 \<equiv> InstrKey 308"
abbreviation (input) V_SIN_F32 :: InstrKey where "V_SIN_F32 \<equiv> InstrKey 309"
abbreviation (input) V_COS_F32 :: InstrKey where "V_COS_F32 \<equiv> InstrKey 310"
abbreviation (input) V_FREXP_EXP_I32_F64 :: InstrKey where "V_FREXP_EXP_I32_F64 \<equiv> InstrKey 311"
abbreviation (input) V_FREXP_MANT_F64 :: InstrKey where "V_FREXP_MANT_F64 \<equiv> InstrKey 312"
abbreviation (input) V_FRACT_F64 :: InstrKey where "V_FRACT_F64 \<equiv> InstrKey 313"
abbreviation (input) V_FREXP_EXP_I32_F32 :: InstrKey where "V_FREXP_EXP_I32_F32 \<equiv> InstrKey 314"
abbreviation (input) V_FREXP_MANT_F32 :: InstrKey where "V_FREXP_MANT_F32 \<equiv> InstrKey 315"
abbreviation (input) V_CLREXCP :: InstrKey where "V_CLREXCP \<equiv> InstrKey 316"
abbreviation (input) V_CVT_F16_U16 :: InstrKey where "V_CVT_F16_U16 \<equiv> InstrKey 317"
abbreviation (input) V_CVT_F16_I16 :: InstrKey where "V_CVT_F16_I16 \<equiv> InstrKey 318"
abbreviation (input) V_CVT_U16_F16 :: InstrKey where "V_CVT_U16_F16 \<equiv> InstrKey 319"
abbreviation (input) V_CVT_I16_F16 :: InstrKey where "V_CVT_I16_F16 \<equiv> InstrKey 320"
abbreviation (input) V_RCP_F16 :: InstrKey where "V_RCP_F16 \<equiv> InstrKey 321"
abbreviation (input) V_SQRT_F16 :: InstrKey where "V_SQRT_F16 \<equiv> InstrKey 322"
abbreviation (input) V_RSQ_F16 :: InstrKey where "V_RSQ_F16 \<equiv> InstrKey 323"
abbreviation (input) V_LOG_F16 :: InstrKey where "V_LOG_F16 \<equiv> InstrKey 324"
abbreviation (input) V_EXP_F16 :: InstrKey where "V_EXP_F16 \<equiv> InstrKey 325"
abbreviation (input) V_FREXP_MANT_F16 :: InstrKey where "V_FREXP_MANT_F16 \<equiv> InstrKey 326"
abbreviation (input) V_FREXP_EXP_I16_F16 :: InstrKey where "V_FREXP_EXP_I16_F16 \<equiv> InstrKey 327"
abbreviation (input) V_FLOOR_F16 :: InstrKey where "V_FLOOR_F16 \<equiv> InstrKey 328"
abbreviation (input) V_CEIL_F16 :: InstrKey where "V_CEIL_F16 \<equiv> InstrKey 329"
abbreviation (input) V_TRUNC_F16 :: InstrKey where "V_TRUNC_F16 \<equiv> InstrKey 330"
abbreviation (input) V_RNDNE_F16 :: InstrKey where "V_RNDNE_F16 \<equiv> InstrKey 331"
abbreviation (input) V_FRACT_F16 :: InstrKey where "V_FRACT_F16 \<equiv> InstrKey 332"
abbreviation (input) V_SIN_F16 :: InstrKey where "V_SIN_F16 \<equiv> InstrKey 333"
abbreviation (input) V_COS_F16 :: InstrKey where "V_COS_F16 \<equiv> InstrKey 334"
abbreviation (input) V_EXP_LEGACY_F32 :: InstrKey where "V_EXP_LEGACY_F32 \<equiv> InstrKey 335"
abbreviation (input) V_LOG_LEGACY_F32 :: InstrKey where "V_LOG_LEGACY_F32 \<equiv> InstrKey 336"
abbreviation (input) V_CVT_NORM_I16_F16 :: InstrKey where "V_CVT_NORM_I16_F16 \<equiv> InstrKey 337"
abbreviation (input) V_CVT_NORM_U16_F16 :: InstrKey where "V_CVT_NORM_U16_F16 \<equiv> InstrKey 338"

subsection \<open>VOP2\<close>

abbreviation (input) V_ADD_U32 :: InstrKey where "V_ADD_U32 \<equiv> InstrKey 339"
abbreviation (input) V_ASHR_I32 :: InstrKey where "V_ASHR_I32 \<equiv> InstrKey 340"
abbreviation (input) V_ASHRREV_B16 :: InstrKey where "V_ASHRREV_B16 \<equiv> InstrKey 341"
abbreviation (input) V_LSHR_B32 :: InstrKey where "V_LSHR_B32 \<equiv> InstrKey 342"
abbreviation (input) V_SUB_U32 :: InstrKey where "V_SUB_U32 \<equiv> InstrKey 343"
abbreviation (input) V_ADDC_U32 :: InstrKey where "V_ADDC_U32 \<equiv> InstrKey 344"
abbreviation (input) V_CNDMASK_B32 :: InstrKey where "V_CNDMASK_B32 \<equiv> InstrKey 345"
abbreviation (input) V_ADD_F32 :: InstrKey where "V_ADD_F32 \<equiv> InstrKey 346"
abbreviation (input) V_SUB_F32 :: InstrKey where "V_SUB_F32 \<equiv> InstrKey 347"
abbreviation (input) V_SUBREV_F32 :: InstrKey where "V_SUBREV_F32 \<equiv> InstrKey 348"
abbreviation (input) V_MUL_LEGACY_F32 :: InstrKey where "V_MUL_LEGACY_F32 \<equiv> InstrKey 349"
abbreviation (input) V_MUL_F32 :: InstrKey where "V_MUL_F32 \<equiv> InstrKey 350"
abbreviation (input) V_MUL_I32_I24 :: InstrKey where "V_MUL_I32_I24 \<equiv> InstrKey 351"
abbreviation (input) V_MUL_HI_I32_I24 :: InstrKey where "V_MUL_HI_I32_I24 \<equiv> InstrKey 352"
abbreviation (input) V_MUL_U32_U24 :: InstrKey where "V_MUL_U32_U24 \<equiv> InstrKey 353"
abbreviation (input) V_MUL_HI_U32_U24 :: InstrKey where "V_MUL_HI_U32_U24 \<equiv> InstrKey 354"
abbreviation (input) V_MIN_F32 :: InstrKey where "V_MIN_F32 \<equiv> InstrKey 355"
abbreviation (input) V_MAX_F32 :: InstrKey where "V_MAX_F32 \<equiv> InstrKey 356"
abbreviation (input) V_MIN_I32 :: InstrKey where "V_MIN_I32 \<equiv> InstrKey 357"
abbreviation (input) V_MAX_I32 :: InstrKey where "V_MAX_I32 \<equiv> InstrKey 358"
abbreviation (input) V_MIN_U32 :: InstrKey where "V_MIN_U32 \<equiv> InstrKey 359"
abbreviation (input) V_MAX_U32 :: InstrKey where "V_MAX_U32 \<equiv> InstrKey 360"
abbreviation (input) V_LSHRREV_B32 :: InstrKey where "V_LSHRREV_B32 \<equiv> InstrKey 361"
abbreviation (input) V_ASHRREV_I32 :: InstrKey where "V_ASHRREV_I32 \<equiv> InstrKey 362"
abbreviation (input) V_LSHLREV_B32 :: InstrKey where "V_LSHLREV_B32 \<equiv> InstrKey 363"
abbreviation (input) V_AND_B32 :: InstrKey where "V_AND_B32 \<equiv> InstrKey 364"
abbreviation (input) V_OR_B32 :: InstrKey where "V_OR_B32 \<equiv> InstrKey 365"
abbreviation (input) V_XOR_B32 :: InstrKey where "V_XOR_B32 \<equiv> InstrKey 366"
abbreviation (input) V_MAC_F32 :: InstrKey where "V_MAC_F32 \<equiv> InstrKey 367"
abbreviation (input) V_MADMK_F32 :: InstrKey where "V_MADMK_F32 \<equiv> InstrKey 368"
abbreviation (input) V_MADAK_F32 :: InstrKey where "V_MADAK_F32 \<equiv> InstrKey 369"
abbreviation (input) V_ADD_CO_U32 :: InstrKey where "V_ADD_CO_U32 \<equiv> InstrKey 370"
abbreviation (input) V_SUB_CO_U32 :: InstrKey where "V_SUB_CO_U32 \<equiv> InstrKey 371"
abbreviation (input) V_SUBREV_CO_U32 :: InstrKey where "V_SUBREV_CO_U32 \<equiv> InstrKey 372"
abbreviation (input) V_ADDC_CO_U32 :: InstrKey where "V_ADDC_CO_U32 \<equiv> InstrKey 373"
abbreviation (input) V_SUBB_CO_U32 :: InstrKey where "V_SUBB_CO_U32 \<equiv> InstrKey 374"
abbreviation (input) V_SUBBREV_CO_U32 :: InstrKey where "V_SUBBREV_CO_U32 \<equiv> InstrKey 375"
abbreviation (input) V_ADD_F16 :: InstrKey where "V_ADD_F16 \<equiv> InstrKey 376"
abbreviation (input) V_SUB_F16 :: InstrKey where "V_SUB_F16 \<equiv> InstrKey 377"
abbreviation (input) V_SUBREV_F16 :: InstrKey where "V_SUBREV_F16 \<equiv> InstrKey 378"
abbreviation (input) V_MUL_F16 :: InstrKey where "V_MUL_F16 \<equiv> InstrKey 379"
abbreviation (input) V_MAC_F16 :: InstrKey where "V_MAC_F16 \<equiv> InstrKey 380"
abbreviation (input) V_MADMK_F16 :: InstrKey where "V_MADMK_F16 \<equiv> InstrKey 381"
abbreviation (input) V_MADAK_F16 :: InstrKey where "V_MADAK_F16 \<equiv> InstrKey 382"
abbreviation (input) V_ADD_U16 :: InstrKey where "V_ADD_U16 \<equiv> InstrKey 383"
abbreviation (input) V_SUB_U16 :: InstrKey where "V_SUB_U16 \<equiv> InstrKey 384"
abbreviation (input) V_SUBREV_U16 :: InstrKey where "V_SUBREV_U16 \<equiv> InstrKey 385"
abbreviation (input) V_MUL_LO_U16 :: InstrKey where "V_MUL_LO_U16 \<equiv> InstrKey 386"
abbreviation (input) V_LSHLREV_B16 :: InstrKey where "V_LSHLREV_B16 \<equiv> InstrKey 387"
abbreviation (input) V_LSHRREV_B16 :: InstrKey where "V_LSHRREV_B16 \<equiv> InstrKey 388"
abbreviation (input) V_ASHRREV_I16 :: InstrKey where "V_ASHRREV_I16 \<equiv> InstrKey 389"
abbreviation (input) V_MAX_F16 :: InstrKey where "V_MAX_F16 \<equiv> InstrKey 390"
abbreviation (input) V_MIN_F16 :: InstrKey where "V_MIN_F16 \<equiv> InstrKey 391"
abbreviation (input) V_MAX_U16 :: InstrKey where "V_MAX_U16 \<equiv> InstrKey 392"
abbreviation (input) V_MAX_I16 :: InstrKey where "V_MAX_I16 \<equiv> InstrKey 393"
abbreviation (input) V_MIN_U16 :: InstrKey where "V_MIN_U16 \<equiv> InstrKey 394"
abbreviation (input) V_MIN_I16 :: InstrKey where "V_MIN_I16 \<equiv> InstrKey 395"
abbreviation (input) V_LDEXP_F16 :: InstrKey where "V_LDEXP_F16 \<equiv> InstrKey 396"
abbreviation (input) V_SUBREV_U32 :: InstrKey where "V_SUBREV_U32 \<equiv> InstrKey 397"

subsection \<open>VOP3\<close>

abbreviation (input) V_MUL_LO_U32 :: InstrKey where "V_MUL_LO_U32 \<equiv> InstrKey 398"
abbreviation (input) V_ADD3_U32 :: InstrKey where "V_ADD3_U32 \<equiv> InstrKey 399"
abbreviation (input) V_ADD_LSHL_U32 :: InstrKey where "V_ADD_LSHL_U32 \<equiv> InstrKey 400"
abbreviation (input) V_AND_OR_B32 :: InstrKey where "V_AND_OR_B32 \<equiv> InstrKey 401"
abbreviation (input) V_ASHR_I64 :: InstrKey where "V_ASHR_I64 \<equiv> InstrKey 402"
abbreviation (input) V_BCNT_U32_B32 :: InstrKey where "V_BCNT_U32_B32 \<equiv> InstrKey 403"
abbreviation (input) V_LSHL_ADD_U32 :: InstrKey where "V_LSHL_ADD_U32 \<equiv> InstrKey 404"
abbreviation (input) V_LSHL_B64 :: InstrKey where "V_LSHL_B64 \<equiv> InstrKey 405"
abbreviation (input) V_LSHL_OR_B32 :: InstrKey where "V_LSHL_OR_B32 \<equiv> InstrKey 406"
abbreviation (input) V_LSHR_B64 :: InstrKey where "V_LSHR_B64 \<equiv> InstrKey 407"
abbreviation (input) V_LSHRREV_B64 :: InstrKey where "V_LSHRREV_B64 \<equiv> InstrKey 408"
abbreviation (input) V_MAD_I16 :: InstrKey where "V_MAD_I16 \<equiv> InstrKey 409"
abbreviation (input) V_MAD_I32_I16 :: InstrKey where "V_MAD_I32_I16 \<equiv> InstrKey 410"
abbreviation (input) V_MAD_U16 :: InstrKey where "V_MAD_U16 \<equiv> InstrKey 411"
abbreviation (input) V_MAD_U32_U16 :: InstrKey where "V_MAD_U32_U16 \<equiv> InstrKey 412"
abbreviation (input) V_MAX3_I16 :: InstrKey where "V_MAX3_I16 \<equiv> InstrKey 413"
abbreviation (input) V_MAX3_U16 :: InstrKey where "V_MAX3_U16 \<equiv> InstrKey 414"
abbreviation (input) V_MBCNT_HI_U32_B32 :: InstrKey where "V_MBCNT_HI_U32_B32 \<equiv> InstrKey 415"
abbreviation (input) V_MBCNT_LO_U32_B32 :: InstrKey where "V_MBCNT_LO_U32_B32 \<equiv> InstrKey 416"
abbreviation (input) V_MED3_I16 :: InstrKey where "V_MED3_I16 \<equiv> InstrKey 417"
abbreviation (input) V_MED3_U16 :: InstrKey where "V_MED3_U16 \<equiv> InstrKey 418"
abbreviation (input) V_MIN3_I16 :: InstrKey where "V_MIN3_I16 \<equiv> InstrKey 419"
abbreviation (input) V_MIN3_U16 :: InstrKey where "V_MIN3_U16 \<equiv> InstrKey 420"
abbreviation (input) V_MUL_HI_I32 :: InstrKey where "V_MUL_HI_I32 \<equiv> InstrKey 421"
abbreviation (input) V_MUL_HI_U32 :: InstrKey where "V_MUL_HI_U32 \<equiv> InstrKey 422"
abbreviation (input) V_MUL_LO_I32 :: InstrKey where "V_MUL_LO_I32 \<equiv> InstrKey 423"
abbreviation (input) V_OR3_B32 :: InstrKey where "V_OR3_B32 \<equiv> InstrKey 424"
abbreviation (input) V_READLANE_B32 :: InstrKey where "V_READLANE_B32 \<equiv> InstrKey 425"
abbreviation (input) V_WRITELANE_B32 :: InstrKey where "V_WRITELANE_B32 \<equiv> InstrKey 426"
abbreviation (input) V_XAD_U32 :: InstrKey where "V_XAD_U32 \<equiv> InstrKey 427"

subsection \<open>VOP3A\<close>

abbreviation (input) V_LSHLREV_B64 :: InstrKey where "V_LSHLREV_B64 \<equiv> InstrKey 428"
abbreviation (input) V_MAD_LEGACY_F32 :: InstrKey where "V_MAD_LEGACY_F32 \<equiv> InstrKey 429"
abbreviation (input) V_MAD_F32 :: InstrKey where "V_MAD_F32 \<equiv> InstrKey 430"
abbreviation (input) V_MAD_I32_I24 :: InstrKey where "V_MAD_I32_I24 \<equiv> InstrKey 431"
abbreviation (input) V_MAD_U32_U24 :: InstrKey where "V_MAD_U32_U24 \<equiv> InstrKey 432"
abbreviation (input) V_CUBEID_F32 :: InstrKey where "V_CUBEID_F32 \<equiv> InstrKey 433"
abbreviation (input) V_CUBESC_F32 :: InstrKey where "V_CUBESC_F32 \<equiv> InstrKey 434"
abbreviation (input) V_CUBETC_F32 :: InstrKey where "V_CUBETC_F32 \<equiv> InstrKey 435"
abbreviation (input) V_CUBEMA_F32 :: InstrKey where "V_CUBEMA_F32 \<equiv> InstrKey 436"
abbreviation (input) V_BFE_U32 :: InstrKey where "V_BFE_U32 \<equiv> InstrKey 437"
abbreviation (input) V_BFE_I32 :: InstrKey where "V_BFE_I32 \<equiv> InstrKey 438"
abbreviation (input) V_BFI_B32 :: InstrKey where "V_BFI_B32 \<equiv> InstrKey 439"
abbreviation (input) V_FMA_F32 :: InstrKey where "V_FMA_F32 \<equiv> InstrKey 440"
abbreviation (input) V_FMA_F64 :: InstrKey where "V_FMA_F64 \<equiv> InstrKey 441"
abbreviation (input) V_LERP_U8 :: InstrKey where "V_LERP_U8 \<equiv> InstrKey 442"
abbreviation (input) V_ALIGNBIT_B32 :: InstrKey where "V_ALIGNBIT_B32 \<equiv> InstrKey 443"
abbreviation (input) V_ALIGNBYTE_B32 :: InstrKey where "V_ALIGNBYTE_B32 \<equiv> InstrKey 444"
abbreviation (input) V_MIN3_F32 :: InstrKey where "V_MIN3_F32 \<equiv> InstrKey 445"
abbreviation (input) V_MIN3_I32 :: InstrKey where "V_MIN3_I32 \<equiv> InstrKey 446"
abbreviation (input) V_MIN3_U32 :: InstrKey where "V_MIN3_U32 \<equiv> InstrKey 447"
abbreviation (input) V_MAX3_F32 :: InstrKey where "V_MAX3_F32 \<equiv> InstrKey 448"
abbreviation (input) V_MAX3_I32 :: InstrKey where "V_MAX3_I32 \<equiv> InstrKey 449"
abbreviation (input) V_MAX3_U32 :: InstrKey where "V_MAX3_U32 \<equiv> InstrKey 450"
abbreviation (input) V_MED3_F32 :: InstrKey where "V_MED3_F32 \<equiv> InstrKey 451"
abbreviation (input) V_MED3_I32 :: InstrKey where "V_MED3_I32 \<equiv> InstrKey 452"
abbreviation (input) V_MED3_U32 :: InstrKey where "V_MED3_U32 \<equiv> InstrKey 453"
abbreviation (input) V_SAD_U8 :: InstrKey where "V_SAD_U8 \<equiv> InstrKey 454"
abbreviation (input) V_SAD_HI_U8 :: InstrKey where "V_SAD_HI_U8 \<equiv> InstrKey 455"
abbreviation (input) V_SAD_U16 :: InstrKey where "V_SAD_U16 \<equiv> InstrKey 456"
abbreviation (input) V_SAD_U32 :: InstrKey where "V_SAD_U32 \<equiv> InstrKey 457"
abbreviation (input) V_CVT_PK_U8_F32 :: InstrKey where "V_CVT_PK_U8_F32 \<equiv> InstrKey 458"
abbreviation (input) V_DIV_FIXUP_F32 :: InstrKey where "V_DIV_FIXUP_F32 \<equiv> InstrKey 459"
abbreviation (input) V_DIV_FIXUP_F64 :: InstrKey where "V_DIV_FIXUP_F64 \<equiv> InstrKey 460"
abbreviation (input) V_DIV_FMAS_F32 :: InstrKey where "V_DIV_FMAS_F32 \<equiv> InstrKey 461"
abbreviation (input) V_DIV_FMAS_F64 :: InstrKey where "V_DIV_FMAS_F64 \<equiv> InstrKey 462"
abbreviation (input) V_MSAD_U8 :: InstrKey where "V_MSAD_U8 \<equiv> InstrKey 463"
abbreviation (input) V_QSAD_PK_U16_U8 :: InstrKey where "V_QSAD_PK_U16_U8 \<equiv> InstrKey 464"
abbreviation (input) V_MQSAD_PK_U16_U8 :: InstrKey where "V_MQSAD_PK_U16_U8 \<equiv> InstrKey 465"
abbreviation (input) V_MQSAD_U32_U8 :: InstrKey where "V_MQSAD_U32_U8 \<equiv> InstrKey 466"
abbreviation (input) V_MAD_LEGACY_F16 :: InstrKey where "V_MAD_LEGACY_F16 \<equiv> InstrKey 467"
abbreviation (input) V_MAD_LEGACY_U16 :: InstrKey where "V_MAD_LEGACY_U16 \<equiv> InstrKey 468"
abbreviation (input) V_MAD_LEGACY_I16 :: InstrKey where "V_MAD_LEGACY_I16 \<equiv> InstrKey 469"
abbreviation (input) V_PERM_B32 :: InstrKey where "V_PERM_B32 \<equiv> InstrKey 470"
abbreviation (input) V_FMA_LEGACY_F16 :: InstrKey where "V_FMA_LEGACY_F16 \<equiv> InstrKey 471"
abbreviation (input) V_DIV_FIXUP_LEGACY_F16 :: InstrKey where "V_DIV_FIXUP_LEGACY_F16 \<equiv> InstrKey 472"
abbreviation (input) V_CVT_PKACCUM_U8_F32 :: InstrKey where "V_CVT_PKACCUM_U8_F32 \<equiv> InstrKey 473"
abbreviation (input) V_ASHRREV_I64 :: InstrKey where "V_ASHRREV_I64 \<equiv> InstrKey 474"
abbreviation (input) V_TRIG_PREOP_F64 :: InstrKey where "V_TRIG_PREOP_F64 \<equiv> InstrKey 475"
abbreviation (input) V_BFM_B32 :: InstrKey where "V_BFM_B32 \<equiv> InstrKey 476"
abbreviation (input) V_CVT_PKNORM_I16_F32 :: InstrKey where "V_CVT_PKNORM_I16_F32 \<equiv> InstrKey 477"
abbreviation (input) V_CVT_PKNORM_U16_F32 :: InstrKey where "V_CVT_PKNORM_U16_F32 \<equiv> InstrKey 478"
abbreviation (input) V_CVT_PKRTZ_F16_F32 :: InstrKey where "V_CVT_PKRTZ_F16_F32 \<equiv> InstrKey 479"
abbreviation (input) V_CVT_PK_U16_U32 :: InstrKey where "V_CVT_PK_U16_U32 \<equiv> InstrKey 480"
abbreviation (input) V_CVT_PK_I16_I32 :: InstrKey where "V_CVT_PK_I16_I32 \<equiv> InstrKey 481"
abbreviation (input) V_CVT_PKNORM_I16_F16 :: InstrKey where "V_CVT_PKNORM_I16_F16 \<equiv> InstrKey 482"
abbreviation (input) V_CVT_PKNORM_U16_F16 :: InstrKey where "V_CVT_PKNORM_U16_F16 \<equiv> InstrKey 483"
abbreviation (input) V_ADD_I32 :: InstrKey where "V_ADD_I32 \<equiv> InstrKey 484"
abbreviation (input) V_SUB_I32 :: InstrKey where "V_SUB_I32 \<equiv> InstrKey 485"
abbreviation (input) V_ADD_I16 :: InstrKey where "V_ADD_I16 \<equiv> InstrKey 486"
abbreviation (input) V_SUB_I16 :: InstrKey where "V_SUB_I16 \<equiv> InstrKey 487"
abbreviation (input) V_PACK_B32_F16 :: InstrKey where "V_PACK_B32_F16 \<equiv> InstrKey 488"

subsection \<open>VOP3B\<close>

abbreviation (input) V_DIV_SCALE_F32 :: InstrKey where "V_DIV_SCALE_F32 \<equiv> InstrKey 489"
abbreviation (input) V_DIV_SCALE_F64 :: InstrKey where "V_DIV_SCALE_F64 \<equiv> InstrKey 490"
abbreviation (input) V_MAD_U64_U32 :: InstrKey where "V_MAD_U64_U32 \<equiv> InstrKey 491"
abbreviation (input) V_MAD_I64_I32 :: InstrKey where "V_MAD_I64_I32 \<equiv> InstrKey 492"

subsection \<open>VOPC\<close>

abbreviation (input) V_CMP_F_I16 :: InstrKey where "V_CMP_F_I16 \<equiv> InstrKey 493"
abbreviation (input) V_CMP_LT_I16 :: InstrKey where "V_CMP_LT_I16 \<equiv> InstrKey 494"
abbreviation (input) V_CMP_EQ_I16 :: InstrKey where "V_CMP_EQ_I16 \<equiv> InstrKey 495"
abbreviation (input) V_CMP_LE_I16 :: InstrKey where "V_CMP_LE_I16 \<equiv> InstrKey 496"
abbreviation (input) V_CMP_GT_I16 :: InstrKey where "V_CMP_GT_I16 \<equiv> InstrKey 497"
abbreviation (input) V_CMP_LG_I16 :: InstrKey where "V_CMP_LG_I16 \<equiv> InstrKey 498"
abbreviation (input) V_CMP_GE_I16 :: InstrKey where "V_CMP_GE_I16 \<equiv> InstrKey 499"
abbreviation (input) V_CMP_TRU_I16 :: InstrKey where "V_CMP_TRU_I16 \<equiv> InstrKey 500"
abbreviation (input) V_CMP_F_U16 :: InstrKey where "V_CMP_F_U16 \<equiv> InstrKey 501"
abbreviation (input) V_CMP_LT_U16 :: InstrKey where "V_CMP_LT_U16 \<equiv> InstrKey 502"
abbreviation (input) V_CMP_EQ_U16 :: InstrKey where "V_CMP_EQ_U16 \<equiv> InstrKey 503"
abbreviation (input) V_CMP_LE_U16 :: InstrKey where "V_CMP_LE_U16 \<equiv> InstrKey 504"
abbreviation (input) V_CMP_GT_U16 :: InstrKey where "V_CMP_GT_U16 \<equiv> InstrKey 505"
abbreviation (input) V_CMP_LG_U16 :: InstrKey where "V_CMP_LG_U16 \<equiv> InstrKey 506"
abbreviation (input) V_CMP_GE_U16 :: InstrKey where "V_CMP_GE_U16 \<equiv> InstrKey 507"
abbreviation (input) V_CMP_TRU_U16 :: InstrKey where "V_CMP_TRU_U16 \<equiv> InstrKey 508"
abbreviation (input) V_CMPX_F_I16 :: InstrKey where "V_CMPX_F_I16 \<equiv> InstrKey 509"
abbreviation (input) V_CMPX_LT_I16 :: InstrKey where "V_CMPX_LT_I16 \<equiv> InstrKey 510"
abbreviation (input) V_CMPX_EQ_I16 :: InstrKey where "V_CMPX_EQ_I16 \<equiv> InstrKey 511"
abbreviation (input) V_CMPX_LE_I16 :: InstrKey where "V_CMPX_LE_I16 \<equiv> InstrKey 512"
abbreviation (input) V_CMPX_GT_I16 :: InstrKey where "V_CMPX_GT_I16 \<equiv> InstrKey 513"
abbreviation (input) V_CMPX_LG_I16 :: InstrKey where "V_CMPX_LG_I16 \<equiv> InstrKey 514"
abbreviation (input) V_CMPX_GE_I16 :: InstrKey where "V_CMPX_GE_I16 \<equiv> InstrKey 515"
abbreviation (input) V_CMPX_TRU_I16 :: InstrKey where "V_CMPX_TRU_I16 \<equiv> InstrKey 516"
abbreviation (input) V_CMPX_F_U16 :: InstrKey where "V_CMPX_F_U16 \<equiv> InstrKey 517"
abbreviation (input) V_CMPX_LT_U16 :: InstrKey where "V_CMPX_LT_U16 \<equiv> InstrKey 518"
abbreviation (input) V_CMPX_EQ_U16 :: InstrKey where "V_CMPX_EQ_U16 \<equiv> InstrKey 519"
abbreviation (input) V_CMPX_LE_U16 :: InstrKey where "V_CMPX_LE_U16 \<equiv> InstrKey 520"
abbreviation (input) V_CMPX_GT_U16 :: InstrKey where "V_CMPX_GT_U16 \<equiv> InstrKey 521"
abbreviation (input) V_CMPX_LG_U16 :: InstrKey where "V_CMPX_LG_U16 \<equiv> InstrKey 522"
abbreviation (input) V_CMPX_GE_U16 :: InstrKey where "V_CMPX_GE_U16 \<equiv> InstrKey 523"
abbreviation (input) V_CMPX_TRU_U16 :: InstrKey where "V_CMPX_TRU_U16 \<equiv> InstrKey 524"
abbreviation (input) V_CMP_F_I32 :: InstrKey where "V_CMP_F_I32 \<equiv> InstrKey 525"
abbreviation (input) V_CMP_LT_I32 :: InstrKey where "V_CMP_LT_I32 \<equiv> InstrKey 526"
abbreviation (input) V_CMP_EQ_I32 :: InstrKey where "V_CMP_EQ_I32 \<equiv> InstrKey 527"
abbreviation (input) V_CMP_LE_I32 :: InstrKey where "V_CMP_LE_I32 \<equiv> InstrKey 528"
abbreviation (input) V_CMP_GT_I32 :: InstrKey where "V_CMP_GT_I32 \<equiv> InstrKey 529"
abbreviation (input) V_CMP_LG_I32 :: InstrKey where "V_CMP_LG_I32 \<equiv> InstrKey 530"
abbreviation (input) V_CMP_GE_I32 :: InstrKey where "V_CMP_GE_I32 \<equiv> InstrKey 531"
abbreviation (input) V_CMP_TRU_I32 :: InstrKey where "V_CMP_TRU_I32 \<equiv> InstrKey 532"
abbreviation (input) V_CMP_F_U32 :: InstrKey where "V_CMP_F_U32 \<equiv> InstrKey 533"
abbreviation (input) V_CMP_LT_U32 :: InstrKey where "V_CMP_LT_U32 \<equiv> InstrKey 534"
abbreviation (input) V_CMP_EQ_U32 :: InstrKey where "V_CMP_EQ_U32 \<equiv> InstrKey 535"
abbreviation (input) V_CMP_LE_U32 :: InstrKey where "V_CMP_LE_U32 \<equiv> InstrKey 536"
abbreviation (input) V_CMP_GT_U32 :: InstrKey where "V_CMP_GT_U32 \<equiv> InstrKey 537"
abbreviation (input) V_CMP_LG_U32 :: InstrKey where "V_CMP_LG_U32 \<equiv> InstrKey 538"
abbreviation (input) V_CMP_GE_U32 :: InstrKey where "V_CMP_GE_U32 \<equiv> InstrKey 539"
abbreviation (input) V_CMP_TRU_U32 :: InstrKey where "V_CMP_TRU_U32 \<equiv> InstrKey 540"
abbreviation (input) V_CMPX_F_I32 :: InstrKey where "V_CMPX_F_I32 \<equiv> InstrKey 541"
abbreviation (input) V_CMPX_LT_I32 :: InstrKey where "V_CMPX_LT_I32 \<equiv> InstrKey 542"
abbreviation (input) V_CMPX_EQ_I32 :: InstrKey where "V_CMPX_EQ_I32 \<equiv> InstrKey 543"
abbreviation (input) V_CMPX_LE_I32 :: InstrKey where "V_CMPX_LE_I32 \<equiv> InstrKey 544"
abbreviation (input) V_CMPX_GT_I32 :: InstrKey where "V_CMPX_GT_I32 \<equiv> InstrKey 545"
abbreviation (input) V_CMPX_LG_I32 :: InstrKey where "V_CMPX_LG_I32 \<equiv> InstrKey 546"
abbreviation (input) V_CMPX_GE_I32 :: InstrKey where "V_CMPX_GE_I32 \<equiv> InstrKey 547"
abbreviation (input) V_CMPX_TRU_I32 :: InstrKey where "V_CMPX_TRU_I32 \<equiv> InstrKey 548"
abbreviation (input) V_CMPX_F_U32 :: InstrKey where "V_CMPX_F_U32 \<equiv> InstrKey 549"
abbreviation (input) V_CMPX_LT_U32 :: InstrKey where "V_CMPX_LT_U32 \<equiv> InstrKey 550"
abbreviation (input) V_CMPX_EQ_U32 :: InstrKey where "V_CMPX_EQ_U32 \<equiv> InstrKey 551"
abbreviation (input) V_CMPX_LE_U32 :: InstrKey where "V_CMPX_LE_U32 \<equiv> InstrKey 552"
abbreviation (input) V_CMPX_GT_U32 :: InstrKey where "V_CMPX_GT_U32 \<equiv> InstrKey 553"
abbreviation (input) V_CMPX_LG_U32 :: InstrKey where "V_CMPX_LG_U32 \<equiv> InstrKey 554"
abbreviation (input) V_CMPX_GE_U32 :: InstrKey where "V_CMPX_GE_U32 \<equiv> InstrKey 555"
abbreviation (input) V_CMPX_TRU_U32 :: InstrKey where "V_CMPX_TRU_U32 \<equiv> InstrKey 556"
abbreviation (input) V_CMP_F_I64 :: InstrKey where "V_CMP_F_I64 \<equiv> InstrKey 557"
abbreviation (input) V_CMP_LT_I64 :: InstrKey where "V_CMP_LT_I64 \<equiv> InstrKey 558"
abbreviation (input) V_CMP_EQ_I64 :: InstrKey where "V_CMP_EQ_I64 \<equiv> InstrKey 559"
abbreviation (input) V_CMP_LE_I64 :: InstrKey where "V_CMP_LE_I64 \<equiv> InstrKey 560"
abbreviation (input) V_CMP_GT_I64 :: InstrKey where "V_CMP_GT_I64 \<equiv> InstrKey 561"
abbreviation (input) V_CMP_LG_I64 :: InstrKey where "V_CMP_LG_I64 \<equiv> InstrKey 562"
abbreviation (input) V_CMP_GE_I64 :: InstrKey where "V_CMP_GE_I64 \<equiv> InstrKey 563"
abbreviation (input) V_CMP_TRU_I64 :: InstrKey where "V_CMP_TRU_I64 \<equiv> InstrKey 564"
abbreviation (input) V_CMP_F_U64 :: InstrKey where "V_CMP_F_U64 \<equiv> InstrKey 565"
abbreviation (input) V_CMP_LT_U64 :: InstrKey where "V_CMP_LT_U64 \<equiv> InstrKey 566"
abbreviation (input) V_CMP_EQ_U64 :: InstrKey where "V_CMP_EQ_U64 \<equiv> InstrKey 567"
abbreviation (input) V_CMP_LE_U64 :: InstrKey where "V_CMP_LE_U64 \<equiv> InstrKey 568"
abbreviation (input) V_CMP_GT_U64 :: InstrKey where "V_CMP_GT_U64 \<equiv> InstrKey 569"
abbreviation (input) V_CMP_LG_U64 :: InstrKey where "V_CMP_LG_U64 \<equiv> InstrKey 570"
abbreviation (input) V_CMP_GE_U64 :: InstrKey where "V_CMP_GE_U64 \<equiv> InstrKey 571"
abbreviation (input) V_CMP_TRU_U64 :: InstrKey where "V_CMP_TRU_U64 \<equiv> InstrKey 572"
abbreviation (input) V_CMPX_F_I64 :: InstrKey where "V_CMPX_F_I64 \<equiv> InstrKey 573"
abbreviation (input) V_CMPX_LT_I64 :: InstrKey where "V_CMPX_LT_I64 \<equiv> InstrKey 574"
abbreviation (input) V_CMPX_EQ_I64 :: InstrKey where "V_CMPX_EQ_I64 \<equiv> InstrKey 575"
abbreviation (input) V_CMPX_LE_I64 :: InstrKey where "V_CMPX_LE_I64 \<equiv> InstrKey 576"
abbreviation (input) V_CMPX_GT_I64 :: InstrKey where "V_CMPX_GT_I64 \<equiv> InstrKey 577"
abbreviation (input) V_CMPX_LG_I64 :: InstrKey where "V_CMPX_LG_I64 \<equiv> InstrKey 578"
abbreviation (input) V_CMPX_GE_I64 :: InstrKey where "V_CMPX_GE_I64 \<equiv> InstrKey 579"
abbreviation (input) V_CMPX_TRU_I64 :: InstrKey where "V_CMPX_TRU_I64 \<equiv> InstrKey 580"
abbreviation (input) V_CMPX_F_U64 :: InstrKey where "V_CMPX_F_U64 \<equiv> InstrKey 581"
abbreviation (input) V_CMPX_LT_U64 :: InstrKey where "V_CMPX_LT_U64 \<equiv> InstrKey 582"
abbreviation (input) V_CMPX_EQ_U64 :: InstrKey where "V_CMPX_EQ_U64 \<equiv> InstrKey 583"
abbreviation (input) V_CMPX_LE_U64 :: InstrKey where "V_CMPX_LE_U64 \<equiv> InstrKey 584"
abbreviation (input) V_CMPX_GT_U64 :: InstrKey where "V_CMPX_GT_U64 \<equiv> InstrKey 585"
abbreviation (input) V_CMPX_LG_U64 :: InstrKey where "V_CMPX_LG_U64 \<equiv> InstrKey 586"
abbreviation (input) V_CMPX_GE_U64 :: InstrKey where "V_CMPX_GE_U64 \<equiv> InstrKey 587"
abbreviation (input) V_CMPX_TRU_U64 :: InstrKey where "V_CMPX_TRU_U64 \<equiv> InstrKey 588"
abbreviation (input) V_CMP_F_F32 :: InstrKey where "V_CMP_F_F32 \<equiv> InstrKey 589"
abbreviation (input) V_CMP_LT_F32 :: InstrKey where "V_CMP_LT_F32 \<equiv> InstrKey 590"
abbreviation (input) V_CMP_EQ_F32 :: InstrKey where "V_CMP_EQ_F32 \<equiv> InstrKey 591"
abbreviation (input) V_CMP_LE_F32 :: InstrKey where "V_CMP_LE_F32 \<equiv> InstrKey 592"
abbreviation (input) V_CMP_GT_F32 :: InstrKey where "V_CMP_GT_F32 \<equiv> InstrKey 593"
abbreviation (input) V_CMP_LG_F32 :: InstrKey where "V_CMP_LG_F32 \<equiv> InstrKey 594"
abbreviation (input) V_CMP_GE_F32 :: InstrKey where "V_CMP_GE_F32 \<equiv> InstrKey 595"
abbreviation (input) V_CMP_O_F32 :: InstrKey where "V_CMP_O_F32 \<equiv> InstrKey 596"
abbreviation (input) V_CMP_U_F32 :: InstrKey where "V_CMP_U_F32 \<equiv> InstrKey 597"
abbreviation (input) V_CMP_NGE_F32 :: InstrKey where "V_CMP_NGE_F32 \<equiv> InstrKey 598"
abbreviation (input) V_CMP_NLG_F32 :: InstrKey where "V_CMP_NLG_F32 \<equiv> InstrKey 599"
abbreviation (input) V_CMP_NGT_F32 :: InstrKey where "V_CMP_NGT_F32 \<equiv> InstrKey 600"
abbreviation (input) V_CMP_NLE_F32 :: InstrKey where "V_CMP_NLE_F32 \<equiv> InstrKey 601"
abbreviation (input) V_CMP_NEQ_F32 :: InstrKey where "V_CMP_NEQ_F32 \<equiv> InstrKey 602"
abbreviation (input) V_CMP_NLT_F32 :: InstrKey where "V_CMP_NLT_F32 \<equiv> InstrKey 603"
abbreviation (input) V_CMP_TRU_F32 :: InstrKey where "V_CMP_TRU_F32 \<equiv> InstrKey 604"
abbreviation (input) V_CMPX_F_F32 :: InstrKey where "V_CMPX_F_F32 \<equiv> InstrKey 605"
abbreviation (input) V_CMPX_LT_F32 :: InstrKey where "V_CMPX_LT_F32 \<equiv> InstrKey 606"
abbreviation (input) V_CMPX_EQ_F32 :: InstrKey where "V_CMPX_EQ_F32 \<equiv> InstrKey 607"
abbreviation (input) V_CMPX_LE_F32 :: InstrKey where "V_CMPX_LE_F32 \<equiv> InstrKey 608"
abbreviation (input) V_CMPX_GT_F32 :: InstrKey where "V_CMPX_GT_F32 \<equiv> InstrKey 609"
abbreviation (input) V_CMPX_LG_F32 :: InstrKey where "V_CMPX_LG_F32 \<equiv> InstrKey 610"
abbreviation (input) V_CMPX_GE_F32 :: InstrKey where "V_CMPX_GE_F32 \<equiv> InstrKey 611"
abbreviation (input) V_CMPX_O_F32 :: InstrKey where "V_CMPX_O_F32 \<equiv> InstrKey 612"
abbreviation (input) V_CMPX_U_F32 :: InstrKey where "V_CMPX_U_F32 \<equiv> InstrKey 613"
abbreviation (input) V_CMPX_NGE_F32 :: InstrKey where "V_CMPX_NGE_F32 \<equiv> InstrKey 614"
abbreviation (input) V_CMPX_NLG_F32 :: InstrKey where "V_CMPX_NLG_F32 \<equiv> InstrKey 615"
abbreviation (input) V_CMPX_NGT_F32 :: InstrKey where "V_CMPX_NGT_F32 \<equiv> InstrKey 616"
abbreviation (input) V_CMPX_NLE_F32 :: InstrKey where "V_CMPX_NLE_F32 \<equiv> InstrKey 617"
abbreviation (input) V_CMPX_NEQ_F32 :: InstrKey where "V_CMPX_NEQ_F32 \<equiv> InstrKey 618"
abbreviation (input) V_CMPX_NLT_F32 :: InstrKey where "V_CMPX_NLT_F32 \<equiv> InstrKey 619"
abbreviation (input) V_CMPX_TRU_F32 :: InstrKey where "V_CMPX_TRU_F32 \<equiv> InstrKey 620"
abbreviation (input) V_CMPS_F_F64 :: InstrKey where "V_CMPS_F_F64 \<equiv> InstrKey 621"
abbreviation (input) V_CMPS_LT_F64 :: InstrKey where "V_CMPS_LT_F64 \<equiv> InstrKey 622"
abbreviation (input) V_CMPS_EQ_F64 :: InstrKey where "V_CMPS_EQ_F64 \<equiv> InstrKey 623"
abbreviation (input) V_CMPS_LE_F64 :: InstrKey where "V_CMPS_LE_F64 \<equiv> InstrKey 624"
abbreviation (input) V_CMPS_GT_F64 :: InstrKey where "V_CMPS_GT_F64 \<equiv> InstrKey 625"
abbreviation (input) V_CMPS_LG_F64 :: InstrKey where "V_CMPS_LG_F64 \<equiv> InstrKey 626"
abbreviation (input) V_CMPS_GE_F64 :: InstrKey where "V_CMPS_GE_F64 \<equiv> InstrKey 627"
abbreviation (input) V_CMPS_O_F64 :: InstrKey where "V_CMPS_O_F64 \<equiv> InstrKey 628"
abbreviation (input) V_CMPS_U_F64 :: InstrKey where "V_CMPS_U_F64 \<equiv> InstrKey 629"
abbreviation (input) V_CMPS_NGE_F64 :: InstrKey where "V_CMPS_NGE_F64 \<equiv> InstrKey 630"
abbreviation (input) V_CMPS_NLG_F64 :: InstrKey where "V_CMPS_NLG_F64 \<equiv> InstrKey 631"
abbreviation (input) V_CMPS_NGT_F64 :: InstrKey where "V_CMPS_NGT_F64 \<equiv> InstrKey 632"
abbreviation (input) V_CMPS_NLE_F64 :: InstrKey where "V_CMPS_NLE_F64 \<equiv> InstrKey 633"
abbreviation (input) V_CMPS_NEQ_F64 :: InstrKey where "V_CMPS_NEQ_F64 \<equiv> InstrKey 634"
abbreviation (input) V_CMPS_NLT_F64 :: InstrKey where "V_CMPS_NLT_F64 \<equiv> InstrKey 635"
abbreviation (input) V_CMPS_TRU_F64 :: InstrKey where "V_CMPS_TRU_F64 \<equiv> InstrKey 636"
abbreviation (input) V_CMPX_F_F64 :: InstrKey where "V_CMPX_F_F64 \<equiv> InstrKey 637"
abbreviation (input) V_CMPX_LT_F64 :: InstrKey where "V_CMPX_LT_F64 \<equiv> InstrKey 638"
abbreviation (input) V_CMPX_EQ_F64 :: InstrKey where "V_CMPX_EQ_F64 \<equiv> InstrKey 639"
abbreviation (input) V_CMPX_LE_F64 :: InstrKey where "V_CMPX_LE_F64 \<equiv> InstrKey 640"
abbreviation (input) V_CMPX_GT_F64 :: InstrKey where "V_CMPX_GT_F64 \<equiv> InstrKey 641"
abbreviation (input) V_CMPX_LG_F64 :: InstrKey where "V_CMPX_LG_F64 \<equiv> InstrKey 642"
abbreviation (input) V_CMPX_GE_F64 :: InstrKey where "V_CMPX_GE_F64 \<equiv> InstrKey 643"
abbreviation (input) V_CMPX_O_F64 :: InstrKey where "V_CMPX_O_F64 \<equiv> InstrKey 644"
abbreviation (input) V_CMPX_U_F64 :: InstrKey where "V_CMPX_U_F64 \<equiv> InstrKey 645"
abbreviation (input) V_CMPX_NGE_F64 :: InstrKey where "V_CMPX_NGE_F64 \<equiv> InstrKey 646"
abbreviation (input) V_CMPX_NLG_F64 :: InstrKey where "V_CMPX_NLG_F64 \<equiv> InstrKey 647"
abbreviation (input) V_CMPX_NGT_F64 :: InstrKey where "V_CMPX_NGT_F64 \<equiv> InstrKey 648"
abbreviation (input) V_CMPX_NLE_F64 :: InstrKey where "V_CMPX_NLE_F64 \<equiv> InstrKey 649"
abbreviation (input) V_CMPX_NEQ_F64 :: InstrKey where "V_CMPX_NEQ_F64 \<equiv> InstrKey 650"
abbreviation (input) V_CMPX_NLT_F64 :: InstrKey where "V_CMPX_NLT_F64 \<equiv> InstrKey 651"
abbreviation (input) V_CMPX_TRU_F64 :: InstrKey where "V_CMPX_TRU_F64 \<equiv> InstrKey 652"

subsection \<open>FLAT\<close>

abbreviation (input) FLAT_STORE_DWORD :: InstrKey where "FLAT_STORE_DWORD \<equiv> InstrKey 653"
abbreviation (input) FLAT_STORE_DWORDX2 :: InstrKey where "FLAT_STORE_DWORDX2 \<equiv> InstrKey 654"
abbreviation (input) FLAT_STORE_DWORDX3 :: InstrKey where "FLAT_STORE_DWORDX3 \<equiv> InstrKey 655"
abbreviation (input) FLAT_STORE_DWORDX4 :: InstrKey where "FLAT_STORE_DWORDX4 \<equiv> InstrKey 656"
abbreviation (input) FLAT_STORE_SHORT :: InstrKey where "FLAT_STORE_SHORT \<equiv> InstrKey 657"
abbreviation (input) FLAT_LOAD_DWORD :: InstrKey where "FLAT_LOAD_DWORD \<equiv> InstrKey 658"
abbreviation (input) FLAT_LOAD_DWORDX2 :: InstrKey where "FLAT_LOAD_DWORDX2 \<equiv> InstrKey 659"
abbreviation (input) FLAT_LOAD_DWORDX3 :: InstrKey where "FLAT_LOAD_DWORDX3 \<equiv> InstrKey 660"
abbreviation (input) FLAT_LOAD_DWORDX4 :: InstrKey where "FLAT_LOAD_DWORDX4 \<equiv> InstrKey 661"
abbreviation (input) FLAT_ATOMIC_ADD :: InstrKey where "FLAT_ATOMIC_ADD \<equiv> InstrKey 662"
abbreviation (input) FLAT_ATOMIC_SUB :: InstrKey where "FLAT_ATOMIC_SUB \<equiv> InstrKey 663"
abbreviation (input) FLAT_ATOMIC_SMIN :: InstrKey where "FLAT_ATOMIC_SMIN \<equiv> InstrKey 664"
abbreviation (input) FLAT_ATOMIC_UMIN :: InstrKey where "FLAT_ATOMIC_UMIN \<equiv> InstrKey 665"
abbreviation (input) FLAT_ATOMIC_SMAX :: InstrKey where "FLAT_ATOMIC_SMAX \<equiv> InstrKey 666"
abbreviation (input) FLAT_ATOMIC_UMAX :: InstrKey where "FLAT_ATOMIC_UMAX \<equiv> InstrKey 667"
abbreviation (input) FLAT_ATOMIC_AND :: InstrKey where "FLAT_ATOMIC_AND \<equiv> InstrKey 668"
abbreviation (input) FLAT_ATOMIC_OR :: InstrKey where "FLAT_ATOMIC_OR \<equiv> InstrKey 669"
abbreviation (input) FLAT_ATOMIC_XOR :: InstrKey where "FLAT_ATOMIC_XOR \<equiv> InstrKey 670"
abbreviation (input) FLAT_ATOMIC_INC :: InstrKey where "FLAT_ATOMIC_INC \<equiv> InstrKey 671"
abbreviation (input) FLAT_ATOMIC_DEC :: InstrKey where "FLAT_ATOMIC_DEC \<equiv> InstrKey 672"
abbreviation (input) FLAT_ATOMIC_ADD_X2 :: InstrKey where "FLAT_ATOMIC_ADD_X2 \<equiv> InstrKey 673"
abbreviation (input) FLAT_ATOMIC_SUB_X2 :: InstrKey where "FLAT_ATOMIC_SUB_X2 \<equiv> InstrKey 674"
abbreviation (input) FLAT_ATOMIC_SMIN_X2 :: InstrKey where "FLAT_ATOMIC_SMIN_X2 \<equiv> InstrKey 675"
abbreviation (input) FLAT_ATOMIC_UMIN_X2 :: InstrKey where "FLAT_ATOMIC_UMIN_X2 \<equiv> InstrKey 676"
abbreviation (input) FLAT_ATOMIC_SMAX_X2 :: InstrKey where "FLAT_ATOMIC_SMAX_X2 \<equiv> InstrKey 677"
abbreviation (input) FLAT_ATOMIC_UMAX_X2 :: InstrKey where "FLAT_ATOMIC_UMAX_X2 \<equiv> InstrKey 678"
abbreviation (input) FLAT_ATOMIC_AND_X2 :: InstrKey where "FLAT_ATOMIC_AND_X2 \<equiv> InstrKey 679"
abbreviation (input) FLAT_ATOMIC_OR_X2 :: InstrKey where "FLAT_ATOMIC_OR_X2 \<equiv> InstrKey 680"
abbreviation (input) FLAT_ATOMIC_XOR_X2 :: InstrKey where "FLAT_ATOMIC_XOR_X2 \<equiv> InstrKey 681"
abbreviation (input) FLAT_ATOMIC_INC_X2 :: InstrKey where "FLAT_ATOMIC_INC_X2 \<equiv> InstrKey 682"
abbreviation (input) FLAT_ATOMIC_DEC_X2 :: InstrKey where "FLAT_ATOMIC_DEC_X2 \<equiv> InstrKey 683"


section \<open>The order of the keys\<close>

text \<open>The code compares enumerators, so the keys are ordered by their position.\<close>

instantiation InstrKey :: linorder
begin

definition less_eq_InstrKey :: "InstrKey \<Rightarrow> InstrKey \<Rightarrow> bool" where
  "less_eq_InstrKey a b \<longleftrightarrow> key_code a \<le> key_code b"

definition less_InstrKey :: "InstrKey \<Rightarrow> InstrKey \<Rightarrow> bool" where
  "less_InstrKey a b \<longleftrightarrow> key_code a < key_code b"

instance
  by standard (auto simp: less_eq_InstrKey_def less_InstrKey_def InstrKey.expand)

end

end
