(* ===== verification/InstrInfo.thy ===== *)
theory InstrInfo
  imports InstrKeys
begin

text \<open>
  The instruction table of \<open>common/model/instr/instr_info.cpp\<close> and its three lookups: key by
  mnemonic, mnemonic by key, format by key and width. Each lookup takes the first row that matches
  (\<open>std::find_if\<close>). The table is cut at the comments of the source.
\<close>

section \<open>The table\<close>

record InstructionView =
  iv_mnemonic :: string
  iv_key :: InstrKey
  iv_format :: InstrFormat
  iv_extendedFormat :: InstrFormat

definition view :: "string \<Rightarrow> InstrKey \<Rightarrow> InstrFormat \<Rightarrow> InstrFormat \<Rightarrow> InstructionView" where
  "view m k f e = \<lparr>iv_mnemonic = m, iv_key = k, iv_format = f, iv_extendedFormat = e\<rparr>"

definition repo_sop1 :: "InstructionView list" where
  "repo_sop1 = [
    view ''s_abs_i32'' S_ABS_I32 SOP1 UNDEFINED,
    view ''s_and_saveexec_b64'' S_AND_SAVEEXEC_B64 SOP1 UNDEFINED,
    view ''s_andn1_saveexec_b64'' S_ANDN1_SAVEEXEC_B64 SOP1 UNDEFINED,
    view ''s_andn1_wrexec_b64'' S_ANDN1_WREXEC_B64 SOP1 UNDEFINED,
    view ''s_andn2_saveexec_b64'' S_ANDN2_SAVEEXEC_B64 SOP1 UNDEFINED,
    view ''s_andn2_wrexec_b64'' S_ANDN2_WREXEC_B64 SOP1 UNDEFINED,
    view ''s_bcnt0_i32_b32'' S_BCNT0_I32_B32 SOP1 UNDEFINED,
    view ''s_bcnt0_i32_b64'' S_BCNT0_I32_B64 SOP1 UNDEFINED,
    view ''s_bcnt1_i32_b32'' S_BCNT1_I32_B32 SOP1 UNDEFINED,
    view ''s_bcnt1_i32_b64'' S_BCNT1_I32_B64 SOP1 UNDEFINED,
    view ''s_bitreplicate_b64_b32'' S_BITREPLICATE_B64_B32 SOP1 UNDEFINED,
    view ''s_bitset0_b32'' S_BITSET0_B32 SOP1 UNDEFINED,
    view ''s_bitset0_b64'' S_BITSET0_B64 SOP1 UNDEFINED,
    view ''s_bitset1_b32'' S_BITSET1_B32 SOP1 UNDEFINED,
    view ''s_bitset1_b64'' S_BITSET1_B64 SOP1 UNDEFINED,
    view ''s_brev_b32'' S_BREV_B32 SOP1 UNDEFINED,
    view ''s_brev_b64'' S_BREV_B64 SOP1 UNDEFINED,
    view ''s_cbranch_join'' S_CBRANCH_JOIN SOP1 UNDEFINED,
    view ''s_cmov_b32'' S_CMOV_B32 SOP1 UNDEFINED,
    view ''s_cmov_b64'' S_CMOV_B64 SOP1 UNDEFINED,
    view ''s_ff0_i32_b32'' S_FF0_I32_B32 SOP1 UNDEFINED,
    view ''s_ff0_i32_b64'' S_FF0_I32_B64 SOP1 UNDEFINED,
    view ''s_ff1_i32_b32'' S_FF1_I32_B32 SOP1 UNDEFINED,
    view ''s_ff1_i32_b64'' S_FF1_I32_B64 SOP1 UNDEFINED,
    view ''s_flbit_i32_b32'' S_FLBIT_I32_B32 SOP1 UNDEFINED,
    view ''s_flbit_i32_b64'' S_FLBIT_I32_B64 SOP1 UNDEFINED,
    view ''s_flbit_i32'' S_FLBIT_I32 SOP1 UNDEFINED,
    view ''s_flbit_i32_i64'' S_FLBIT_I32_I64 SOP1 UNDEFINED,
    view ''s_getpc_b64'' S_GETPC_B64 SOP1 UNDEFINED,
    view ''s_mov_b32'' S_MOV_B32 SOP1 UNDEFINED,
    view ''s_mov_b64'' S_MOV_B64 SOP1 UNDEFINED,
    view ''s_movreld_b32'' S_MOVRELD_B32 SOP1 UNDEFINED,
    view ''s_movreld_b64'' S_MOVRELD_B64 SOP1 UNDEFINED,
    view ''s_movrels_b32'' S_MOVRELS_B32 SOP1 UNDEFINED,
    view ''s_movrels_b64'' S_MOVRELS_B64 SOP1 UNDEFINED,
    view ''s_nand_saveexec_b64'' S_NAND_SAVEEXEC_B64 SOP1 UNDEFINED,
    view ''s_nor_saveexec_b64'' S_NOR_SAVEEXEC_B64 SOP1 UNDEFINED,
    view ''s_not_b32'' S_NOT_B32 SOP1 UNDEFINED,
    view ''s_not_b64'' S_NOT_B64 SOP1 UNDEFINED,
    view ''s_or_saveexec_b64'' S_OR_SAVEEXEC_B64 SOP1 UNDEFINED,
    view ''s_orn2_saveexec_b64'' S_ORN2_SAVEEXEC_B64 SOP1 UNDEFINED,
    view ''s_quadmask_b32'' S_QUADMASK_B32 SOP1 UNDEFINED,
    view ''s_quadmask_b64'' S_QUADMASK_B64 SOP1 UNDEFINED,
    view ''s_rfe_b64'' S_RFE_B64 SOP1 UNDEFINED,
    view ''s_set_gpr_idx_idx'' S_SET_GPR_IDX_IDX SOP1 UNDEFINED,
    view ''s_setpc_b64'' S_SETPC_B64 SOP1 UNDEFINED,
    view ''s_sext_i32_i8'' S_SEXT_I32_I8 SOP1 UNDEFINED,
    view ''s_sext_i32_i16'' S_SEXT_I32_I16 SOP1 UNDEFINED,
    view ''s_swappc_b64'' S_SWAPPC_B64 SOP1 UNDEFINED,
    view ''s_wqm_b32'' S_WQM_B32 SOP1 UNDEFINED,
    view ''s_wqm_b64'' S_WQM_B64 SOP1 UNDEFINED,
    view ''s_xnor_saveexec_b64'' S_XNOR_SAVEEXEC_B64 SOP1 UNDEFINED,
    view ''s_xor_saveexec_b64'' S_XOR_SAVEEXEC_B64 SOP1 UNDEFINED]"

definition repo_sop2 :: "InstructionView list" where
  "repo_sop2 = [
    view ''s_absdiff_i32'' S_ABSDIFF_I32 SOP2 UNDEFINED,
    view ''s_addc_u32'' S_ADDC_U32 SOP2 UNDEFINED,
    view ''s_add_i32'' S_ADD_I32 SOP2 UNDEFINED,
    view ''s_add_u32'' S_ADD_U32 SOP2 UNDEFINED,
    view ''s_and_b32'' S_AND_B32 SOP2 UNDEFINED,
    view ''s_and_b64'' S_AND_B64 SOP2 UNDEFINED,
    view ''s_andn2_b32'' S_ANDN2_B32 SOP2 UNDEFINED,
    view ''s_andn2_b64'' S_ANDN2_B64 SOP2 UNDEFINED,
    view ''s_ashr_i32'' S_ASHR_I32 SOP2 UNDEFINED,
    view ''s_ashr_i64'' S_ASHR_I64 SOP2 UNDEFINED,
    view ''s_bfe_i32'' S_BFE_I32 SOP2 UNDEFINED,
    view ''s_bfe_i64'' S_BFE_I64 SOP2 UNDEFINED,
    view ''s_bfe_u32'' S_BFE_U32 SOP2 UNDEFINED,
    view ''s_bfe_u64'' S_BFE_U64 SOP2 UNDEFINED,
    view ''s_bfm_b32'' S_BFM_B32 SOP2 UNDEFINED,
    view ''s_bfm_b64'' S_BFM_B64 SOP2 UNDEFINED,
    view ''s_cbranch_g_fork'' S_CBRANCH_G_FORK SOP2 UNDEFINED,
    view ''s_cselect_b32'' S_CSELECT_B32 SOP2 UNDEFINED,
    view ''s_cselect_b64'' S_CSELECT_B64 SOP2 UNDEFINED,
    view ''s_lshl_b32'' S_LSHL_B32 SOP2 UNDEFINED,
    view ''s_lshl_b64'' S_LSHL_B64 SOP2 UNDEFINED,
    view ''s_lshl1_add_u32'' S_LSHL1_ADD_U32 SOP2 UNDEFINED,
    view ''s_lshl2_add_u32'' S_LSHL2_ADD_U32 SOP2 UNDEFINED,
    view ''s_lshl3_add_u32'' S_LSHL3_ADD_U32 SOP2 UNDEFINED,
    view ''s_lshl4_add_u32'' S_LSHL4_ADD_U32 SOP2 UNDEFINED,
    view ''s_lshr_b32'' S_LSHR_B32 SOP2 UNDEFINED,
    view ''s_lshr_b64'' S_LSHR_B64 SOP2 UNDEFINED,
    view ''s_max_i32'' S_MAX_I32 SOP2 UNDEFINED,
    view ''s_max_u32'' S_MAX_U32 SOP2 UNDEFINED,
    view ''s_min_i32'' S_MIN_I32 SOP2 UNDEFINED,
    view ''s_min_u32'' S_MIN_U32 SOP2 UNDEFINED,
    view ''s_mul_hi_i32'' S_MUL_HI_I32 SOP2 UNDEFINED,
    view ''s_mul_hi_u32'' S_MUL_HI_U32 SOP2 UNDEFINED,
    view ''s_mul_i32'' S_MUL_I32 SOP2 UNDEFINED,
    view ''s_nand_b32'' S_NAND_B32 SOP2 UNDEFINED,
    view ''s_nand_b64'' S_NAND_B64 SOP2 UNDEFINED,
    view ''s_nor_b32'' S_NOR_B32 SOP2 UNDEFINED,
    view ''s_nor_b64'' S_NOR_B64 SOP2 UNDEFINED,
    view ''s_or_b32'' S_OR_B32 SOP2 UNDEFINED,
    view ''s_or_b64'' S_OR_B64 SOP2 UNDEFINED,
    view ''s_orn2_b32'' S_ORN2_B32 SOP2 UNDEFINED,
    view ''s_orn2_b64'' S_ORN2_B64 SOP2 UNDEFINED,
    view ''s_pack_hh_b32_b16'' S_PACK_HH_B32_B16 SOP2 UNDEFINED,
    view ''s_pack_lh_b32_b16'' S_PACK_LH_B32_B16 SOP2 UNDEFINED,
    view ''s_pack_ll_b32_b16'' S_PACK_LL_B32_B16 SOP2 UNDEFINED,
    view ''s_rfe_restore_b64'' S_RFE_RESTORE_B64 SOP2 UNDEFINED,
    view ''s_subb_u32'' S_SUBB_U32 SOP2 UNDEFINED,
    view ''s_sub_i32'' S_SUB_I32 SOP2 UNDEFINED,
    view ''s_sub_u32'' S_SUB_U32 SOP2 UNDEFINED,
    view ''s_xnor_b32'' S_XNOR_B32 SOP2 UNDEFINED,
    view ''s_xnor_b64'' S_XNOR_B64 SOP2 UNDEFINED,
    view ''s_xor_b32'' S_XOR_B32 SOP2 UNDEFINED,
    view ''s_xor_b64'' S_XOR_B64 SOP2 UNDEFINED]"

definition repo_sopk :: "InstructionView list" where
  "repo_sopk = [
    view ''s_addk_i32'' S_ADDK_I32 SOPK UNDEFINED,
    view ''s_call_b64'' S_CALL_B64 SOPK UNDEFINED,
    view ''s_cbranch_i_fork'' S_CBRANCH_I_FORK SOPK UNDEFINED,
    view ''s_cmovk_i32'' S_CMOVK_I32 SOPK UNDEFINED,
    view ''s_cmpk_eq_i32'' S_CMPK_EQ_I32 SOPK UNDEFINED,
    view ''s_cmpk_eq_u32'' S_CMPK_EQ_U32 SOPK UNDEFINED,
    view ''s_cmpk_ge_i32'' S_CMPK_GE_I32 SOPK UNDEFINED,
    view ''s_cmpk_ge_u32'' S_CMPK_GE_U32 SOPK UNDEFINED,
    view ''s_cmpk_gt_i32'' S_CMPK_GT_I32 SOPK UNDEFINED,
    view ''s_cmpk_gt_u32'' S_CMPK_GT_U32 SOPK UNDEFINED,
    view ''s_cmpk_le_i32'' S_CMPK_LE_I32 SOPK UNDEFINED,
    view ''s_cmpk_le_u32'' S_CMPK_LE_U32 SOPK UNDEFINED,
    view ''s_cmpk_lg_i32'' S_CMPK_LG_I32 SOPK UNDEFINED,
    view ''s_cmpk_lg_u32'' S_CMPK_LG_U32 SOPK UNDEFINED,
    view ''s_cmpk_lt_i32'' S_CMPK_LT_I32 SOPK UNDEFINED,
    view ''s_cmpk_lt_u32'' S_CMPK_LT_U32 SOPK UNDEFINED,
    view ''s_getreg_b32'' S_GETREG_B32 SOPK UNDEFINED,
    view ''s_movk_i32'' S_MOVK_I32 SOPK UNDEFINED,
    view ''s_mulk_i32'' S_MULK_I32 SOPK UNDEFINED,
    view ''s_setreg_b32'' S_SETREG_B32 SOPK UNDEFINED,
    view ''s_setreg_imm32_b32'' S_SETREG_IMM32_B32 SOPK UNDEFINED]"

definition repo_sopc :: "InstructionView list" where
  "repo_sopc = [
    view ''s_bitcmp0_b32'' S_BITCMP0_B32 SOPC UNDEFINED,
    view ''s_bitcmp0_b64'' S_BITCMP0_B64 SOPC UNDEFINED,
    view ''s_bitcmp1_b32'' S_BITCMP1_B32 SOPC UNDEFINED,
    view ''s_bitcmp1_b64'' S_BITCMP1_B64 SOPC UNDEFINED,
    view ''s_cmp_eq_i32'' S_CMP_EQ_I32 SOPC UNDEFINED,
    view ''s_cmp_eq_u32'' S_CMP_EQ_U32 SOPC UNDEFINED,
    view ''s_cmp_eq_u64'' S_CMP_EQ_U64 SOPC UNDEFINED,
    view ''s_cmp_ge_i32'' S_CMP_GE_I32 SOPC UNDEFINED,
    view ''s_cmp_ge_u32'' S_CMP_GE_U32 SOPC UNDEFINED,
    view ''s_cmp_gt_i32'' S_CMP_GT_I32 SOPC UNDEFINED,
    view ''s_cmp_gt_u32'' S_CMP_GT_U32 SOPC UNDEFINED,
    view ''s_cmp_le_i32'' S_CMP_LE_I32 SOPC UNDEFINED,
    view ''s_cmp_le_u32'' S_CMP_LE_U32 SOPC UNDEFINED,
    view ''s_cmp_lg_i32'' S_CMP_LG_I32 SOPC UNDEFINED,
    view ''s_cmp_lg_u32'' S_CMP_LG_U32 SOPC UNDEFINED,
    view ''s_cmp_lg_u64'' S_CMP_LG_U64 SOPC UNDEFINED,
    view ''s_cmp_ne_u64'' S_CMP_NE_U64 SOPC UNDEFINED,
    view ''s_cmp_lt_i32'' S_CMP_LT_I32 SOPC UNDEFINED,
    view ''s_cmp_lt_u32'' S_CMP_LT_U32 SOPC UNDEFINED,
    view ''s_set_gpr_idx_on'' S_SET_GPR_IDX_ON SOPC UNDEFINED,
    view ''s_setvskip'' S_SETVSKIP SOPC UNDEFINED]"

definition repo_sopp :: "InstructionView list" where
  "repo_sopp = [
    view ''s_barrier'' S_BARRIER SOPP UNDEFINED,
    view ''s_branch'' S_BRANCH SOPP UNDEFINED,
    view ''s_cbranch_cdbgsys'' S_CBRANCH_CDBGSYS SOPP UNDEFINED,
    view ''s_cbranch_cdbgsys_and_user'' S_CBRANCH_CDBGSYS_AND_USER SOPP UNDEFINED,
    view ''s_cbranch_cdbgsys_or_user'' S_CBRANCH_CDBGSYS_OR_USER SOPP UNDEFINED,
    view ''s_cbranch_cdbguser'' S_CBRANCH_CDBGUSER SOPP UNDEFINED,
    view ''s_cbranch_execnz'' S_CBRANCH_EXECNZ SOPP UNDEFINED,
    view ''s_cbranch_execz'' S_CBRANCH_EXECZ SOPP UNDEFINED,
    view ''s_cbranch_scc0'' S_CBRANCH_SCC0 SOPP UNDEFINED,
    view ''s_cbranch_scc1'' S_CBRANCH_SCC1 SOPP UNDEFINED,
    view ''s_cbranch_vccnz'' S_CBRANCH_VCCNZ SOPP UNDEFINED,
    view ''s_cbranch_vccz'' S_CBRANCH_VCCZ SOPP UNDEFINED,
    view ''s_decperflevel'' S_DECPERFLEVEL SOPP UNDEFINED,
    view ''s_endpgm'' S_ENDPGM SOPP UNDEFINED,
    view ''s_endpgm_ordered_ps_done'' S_ENDPGM_ORDERED_PS_DONE SOPP UNDEFINED,
    view ''s_endpgm_saved'' S_ENDPGM_SAVED SOPP UNDEFINED,
    view ''s_icache_inv'' S_ICACHE_INV SOPP UNDEFINED,
    view ''s_incperflevel'' S_INCPERFLEVEL SOPP UNDEFINED,
    view ''s_nop'' S_NOP SOPP UNDEFINED,
    view ''s_sendmsg'' S_SENDMSG SOPP UNDEFINED,
    view ''s_sendmsghalt'' S_SENDMSGHALT SOPP UNDEFINED,
    view ''s_set_gpr_idx_mode'' S_SET_GPR_IDX_MODE SOPP UNDEFINED,
    view ''s_set_gpr_idx_off'' S_SET_GPR_IDX_OFF SOPP UNDEFINED,
    view ''s_sethalt'' S_SETHALT SOPP UNDEFINED,
    view ''s_setkill'' S_SETKILL SOPP UNDEFINED,
    view ''s_setprio'' S_SETPRIO SOPP UNDEFINED,
    view ''s_sleep'' S_SLEEP SOPP UNDEFINED,
    view ''s_trap'' S_TRAP SOPP UNDEFINED,
    view ''s_ttracedata'' S_TTRACEDATA SOPP UNDEFINED,
    view ''s_waitcnt'' S_WAITCNT SOPP UNDEFINED]"

definition repo_smem :: "InstructionView list" where
  "repo_smem = [
    view ''s_atomic_add'' S_ATOMIC_ADD UNDEFINED SMEM,
    view ''s_atomic_add_x2'' S_ATOMIC_ADD_X2 UNDEFINED SMEM,
    view ''s_atomic_and'' S_ATOMIC_AND UNDEFINED SMEM,
    view ''s_atomic_and_x2'' S_ATOMIC_AND_X2 UNDEFINED SMEM,
    view ''s_atomic_cmpswap'' S_ATOMIC_CMPSWAP UNDEFINED SMEM,
    view ''s_atomic_cmpswap_x2'' S_ATOMIC_CMPSWAP_X2 UNDEFINED SMEM,
    view ''s_atomic_dec'' S_ATOMIC_DEC UNDEFINED SMEM,
    view ''s_atomic_dec_x2'' S_ATOMIC_DEC_X2 UNDEFINED SMEM,
    view ''s_atomic_inc'' S_ATOMIC_INC UNDEFINED SMEM,
    view ''s_atomic_inc_x2'' S_ATOMIC_INC_X2 UNDEFINED SMEM,
    view ''s_atomic_or'' S_ATOMIC_OR UNDEFINED SMEM,
    view ''s_atomic_or_x2'' S_ATOMIC_OR_X2 UNDEFINED SMEM,
    view ''s_atomic_smax'' S_ATOMIC_SMAX UNDEFINED SMEM,
    view ''s_atomic_smax_x2'' S_ATOMIC_SMAX_X2 UNDEFINED SMEM,
    view ''s_atomic_smin'' S_ATOMIC_SMIN UNDEFINED SMEM,
    view ''s_atomic_smin_x2'' S_ATOMIC_SMIN_X2 UNDEFINED SMEM,
    view ''s_atomic_sub'' S_ATOMIC_SUB UNDEFINED SMEM,
    view ''s_atomic_sub_x2'' S_ATOMIC_SUB_X2 UNDEFINED SMEM,
    view ''s_atomic_swap'' S_ATOMIC_SWAP UNDEFINED SMEM,
    view ''s_atomic_swap_x2'' S_ATOMIC_SWAP_X2 UNDEFINED SMEM,
    view ''s_atomic_umax'' S_ATOMIC_UMAX UNDEFINED SMEM,
    view ''s_atomic_umax_x2'' S_ATOMIC_UMAX_X2 UNDEFINED SMEM,
    view ''s_atomic_umin'' S_ATOMIC_UMIN UNDEFINED SMEM,
    view ''s_atomic_umin_x2'' S_ATOMIC_UMIN_X2 UNDEFINED SMEM,
    view ''s_atomic_xor'' S_ATOMIC_XOR UNDEFINED SMEM,
    view ''s_atomic_xor_x2'' S_ATOMIC_XOR_X2 UNDEFINED SMEM,
    view ''s_buffer_atomic_add'' S_BUFFER_ATOMIC_ADD UNDEFINED SMEM,
    view ''s_buffer_atomic_add_x2'' S_BUFFER_ATOMIC_ADD_X2 UNDEFINED SMEM,
    view ''s_buffer_atomic_and'' S_BUFFER_ATOMIC_AND UNDEFINED SMEM,
    view ''s_buffer_atomic_and_x2'' S_BUFFER_ATOMIC_AND_X2 UNDEFINED SMEM,
    view ''s_buffer_atomic_cmpswap'' S_BUFFER_ATOMIC_CMPSWAP UNDEFINED SMEM,
    view ''s_buffer_atomic_cmpswap_x2'' S_BUFFER_ATOMIC_CMPSWAP_X2 UNDEFINED SMEM,
    view ''s_buffer_atomic_dec'' S_BUFFER_ATOMIC_DEC UNDEFINED SMEM,
    view ''s_buffer_atomic_dec_x2'' S_BUFFER_ATOMIC_DEC_X2 UNDEFINED SMEM,
    view ''s_buffer_atomic_inc'' S_BUFFER_ATOMIC_INC UNDEFINED SMEM,
    view ''s_buffer_atomic_inc_x2'' S_BUFFER_ATOMIC_INC_X2 UNDEFINED SMEM,
    view ''s_buffer_atomic_or'' S_BUFFER_ATOMIC_OR UNDEFINED SMEM,
    view ''s_buffer_atomic_or_x2'' S_BUFFER_ATOMIC_OR_X2 UNDEFINED SMEM,
    view ''s_buffer_atomic_smax'' S_BUFFER_ATOMIC_SMAX UNDEFINED SMEM,
    view ''s_buffer_atomic_smax_x2'' S_BUFFER_ATOMIC_SMAX_X2 UNDEFINED SMEM,
    view ''s_buffer_atomic_smin'' S_BUFFER_ATOMIC_SMIN UNDEFINED SMEM,
    view ''s_buffer_atomic_smin_x2'' S_BUFFER_ATOMIC_SMIN_X2 UNDEFINED SMEM,
    view ''s_buffer_atomic_sub'' S_BUFFER_ATOMIC_SUB UNDEFINED SMEM,
    view ''s_buffer_atomic_sub_x2'' S_BUFFER_ATOMIC_SUB_X2 UNDEFINED SMEM,
    view ''s_buffer_atomic_swap'' S_BUFFER_ATOMIC_SWAP UNDEFINED SMEM,
    view ''s_buffer_atomic_swap_x2'' S_BUFFER_ATOMIC_SWAP_X2 UNDEFINED SMEM,
    view ''s_buffer_atomic_umax'' S_BUFFER_ATOMIC_UMAX UNDEFINED SMEM,
    view ''s_buffer_atomic_umax_x2'' S_BUFFER_ATOMIC_UMAX_X2 UNDEFINED SMEM,
    view ''s_buffer_atomic_umin'' S_BUFFER_ATOMIC_UMIN UNDEFINED SMEM,
    view ''s_buffer_atomic_umin_x2'' S_BUFFER_ATOMIC_UMIN_X2 UNDEFINED SMEM,
    view ''s_buffer_atomic_xor'' S_BUFFER_ATOMIC_XOR UNDEFINED SMEM,
    view ''s_buffer_atomic_xor_x2'' S_BUFFER_ATOMIC_XOR_X2 UNDEFINED SMEM,
    view ''s_buffer_load_dword'' S_BUFFER_LOAD_DWORD UNDEFINED SMEM,
    view ''s_buffer_load_dwordx16'' S_BUFFER_LOAD_DWORDX16 UNDEFINED SMEM,
    view ''s_buffer_load_dwordx2'' S_BUFFER_LOAD_DWORDX2 UNDEFINED SMEM,
    view ''s_buffer_load_dwordx4'' S_BUFFER_LOAD_DWORDX4 UNDEFINED SMEM,
    view ''s_buffer_load_dwordx8'' S_BUFFER_LOAD_DWORDX8 UNDEFINED SMEM,
    view ''s_buffer_store_dword'' S_BUFFER_STORE_DWORD UNDEFINED SMEM,
    view ''s_buffer_store_dwordx2'' S_BUFFER_STORE_DWORDX2 UNDEFINED SMEM,
    view ''s_buffer_store_dwordx4'' S_BUFFER_STORE_DWORDX4 UNDEFINED SMEM,
    view ''s_dcache_discard'' S_DCACHE_DISCARD UNDEFINED SMEM,
    view ''s_dcache_discard_x2'' S_DCACHE_DISCARD_X2 UNDEFINED SMEM,
    view ''s_dcache_inv'' S_DCACHE_INV UNDEFINED SMEM,
    view ''s_dcache_inv_vol'' S_DCACHE_INV_VOL UNDEFINED SMEM,
    view ''s_load_dword'' S_LOAD_DWORD UNDEFINED SMEM,
    view ''s_load_dwordx16'' S_LOAD_DWORDX16 UNDEFINED SMEM,
    view ''s_load_dwordx2'' S_LOAD_DWORDX2 UNDEFINED SMEM,
    view ''s_load_dwordx4'' S_LOAD_DWORDX4 UNDEFINED SMEM,
    view ''s_load_dwordx8'' S_LOAD_DWORDX8 UNDEFINED SMEM,
    view ''s_memrealtime'' S_MEMREALTIME UNDEFINED SMEM,
    view ''s_memtime'' S_MEMTIME UNDEFINED SMEM,
    view ''s_scratch_load_dword'' S_SCRATCH_LOAD_DWORD UNDEFINED SMEM,
    view ''s_scratch_load_dwordx2'' S_SCRATCH_LOAD_DWORDX2 UNDEFINED SMEM,
    view ''s_scratch_load_dwordx4'' S_SCRATCH_LOAD_DWORDX4 UNDEFINED SMEM,
    view ''s_scratch_store_dword'' S_SCRATCH_STORE_DWORD UNDEFINED SMEM,
    view ''s_scratch_store_dwordx2'' S_SCRATCH_STORE_DWORDX2 UNDEFINED SMEM,
    view ''s_scratch_store_dwordx4'' S_SCRATCH_STORE_DWORDX4 UNDEFINED SMEM,
    view ''s_store_dword'' S_STORE_DWORD UNDEFINED SMEM,
    view ''s_store_dwordx2'' S_STORE_DWORDX2 UNDEFINED SMEM,
    view ''s_store_dwordx4'' S_STORE_DWORDX4 UNDEFINED SMEM]"

definition repo_vop1 :: "InstructionView list" where
  "repo_vop1 = [
    view ''v_mov_b32'' V_MOV_B32 VOP1 UNDEFINED,
    view ''v_bfrev_b32'' V_BFREV_B32 VOP1 UNDEFINED,
    view ''v_ffbh_u32'' V_FFBH_U32 VOP1 UNDEFINED,
    view ''v_ffbh_i32'' V_FFBH_I32 VOP1 UNDEFINED,
    view ''v_ffbl_b32'' V_FFBL_B32 VOP1 UNDEFINED,
    view ''v_swap_b32'' V_SWAP_B32 VOP1 UNDEFINED,
    view ''v_movreld_b32'' V_MOVRELD_B32 VOP1 UNDEFINED,
    view ''v_movrels_b32'' V_MOVRELS_B32 VOP1 UNDEFINED,
    view ''v_movrelsd_b32'' V_MOVRELSD_B32 VOP1 UNDEFINED,
    view ''v_not_b32'' V_NOT_B32 VOP1 UNDEFINED,
    view ''v_readfirstlane_b32'' V_READFIRSTLANE_B32 VOP1 UNDEFINED,
    view ''v_sat_pk_u8_i16'' V_SAT_PK_U8_I16 VOP1 UNDEFINED,
    view ''v_screen_partition_4se_b32'' V_SCREEN_PARTITION_4SE_B32 VOP1 UNDEFINED,
    view ''v_nop'' V_NOP VOP1 UNDEFINED,
    view ''v_cvt_i32_f64'' V_CVT_I32_F64 VOP1 UNDEFINED,
    view ''v_cvt_f64_i32'' V_CVT_F64_I32 VOP1 UNDEFINED,
    view ''v_cvt_f32_i32'' V_CVT_F32_I32 VOP1 UNDEFINED,
    view ''v_cvt_f32_u32'' V_CVT_F32_U32 VOP1 UNDEFINED,
    view ''v_cvt_u32_f32'' V_CVT_U32_F32 VOP1 UNDEFINED,
    view ''v_cvt_i32_f32'' V_CVT_I32_F32 VOP1 UNDEFINED,
    view ''v_cvt_f16_f32'' V_CVT_F16_F32 VOP1 UNDEFINED,
    view ''v_cvt_f32_f16'' V_CVT_F32_F16 VOP1 UNDEFINED,
    view ''v_cvt_rpi_i32_f32'' V_CVT_RPI_I32_F32 VOP1 UNDEFINED,
    view ''v_cvt_flr_i32_f32'' V_CVT_FLR_I32_F32 VOP1 UNDEFINED,
    view ''v_cvt_off_f32_i4'' V_CVT_OFF_F32_I4 VOP1 UNDEFINED,
    view ''v_cvt_f32_f64'' V_CVT_F32_F64 VOP1 UNDEFINED,
    view ''v_cvt_f64_f32'' V_CVT_F64_F32 VOP1 UNDEFINED,
    view ''v_cvt_f32_ubyte0'' V_CVT_F32_UBYTE0 VOP1 UNDEFINED,
    view ''v_cvt_f32_ubyte1'' V_CVT_F32_UBYTE1 VOP1 UNDEFINED,
    view ''v_cvt_f32_ubyte2'' V_CVT_F32_UBYTE2 VOP1 UNDEFINED,
    view ''v_cvt_f32_ubyte3'' V_CVT_F32_UBYTE3 VOP1 UNDEFINED,
    view ''v_cvt_u32_f64'' V_CVT_U32_F64 VOP1 UNDEFINED,
    view ''v_cvt_f64_u32'' V_CVT_F64_U32 VOP1 UNDEFINED,
    view ''v_trunc_f64'' V_TRUNC_F64 VOP1 UNDEFINED,
    view ''v_ceil_f64'' V_CEIL_F64 VOP1 UNDEFINED,
    view ''v_rndne_f64'' V_RNDNE_F64 VOP1 UNDEFINED,
    view ''v_floor_f64'' V_FLOOR_F64 VOP1 UNDEFINED,
    view ''v_fract_f32'' V_FRACT_F32 VOP1 UNDEFINED,
    view ''v_trunc_f32'' V_TRUNC_F32 VOP1 UNDEFINED,
    view ''v_ceil_f32'' V_CEIL_F32 VOP1 UNDEFINED,
    view ''v_rndne_f32'' V_RNDNE_F32 VOP1 UNDEFINED,
    view ''v_floor_f32'' V_FLOOR_F32 VOP1 UNDEFINED,
    view ''v_exp_f32'' V_EXP_F32 VOP1 UNDEFINED,
    view ''v_log_f32'' V_LOG_F32 VOP1 UNDEFINED,
    view ''v_rcp_f32'' V_RCP_F32 VOP1 UNDEFINED,
    view ''v_rcp_iflag_f32'' V_RCP_IFLAG_F32 VOP1 UNDEFINED,
    view ''v_rsq_f32'' V_RSQ_F32 VOP1 UNDEFINED,
    view ''v_rcp_f64'' V_RCP_F64 VOP1 UNDEFINED,
    view ''v_rsq_f64'' V_RSQ_F64 VOP1 UNDEFINED,
    view ''v_sqrt_f32'' V_SQRT_F32 VOP1 UNDEFINED,
    view ''v_sqrt_f64'' V_SQRT_F64 VOP1 UNDEFINED,
    view ''v_sin_f32'' V_SIN_F32 VOP1 UNDEFINED,
    view ''v_cos_f32'' V_COS_F32 VOP1 UNDEFINED,
    view ''v_frexp_exp_i32_f64'' V_FREXP_EXP_I32_F64 VOP1 UNDEFINED,
    view ''v_frexp_mant_f64'' V_FREXP_MANT_F64 VOP1 UNDEFINED,
    view ''v_fract_f64'' V_FRACT_F64 VOP1 UNDEFINED,
    view ''v_frexp_exp_i32_f32'' V_FREXP_EXP_I32_F32 VOP1 UNDEFINED,
    view ''v_frexp_mant_f32'' V_FREXP_MANT_F32 VOP1 UNDEFINED,
    view ''v_clrexcp'' V_CLREXCP VOP1 UNDEFINED,
    view ''v_cvt_f16_u16'' V_CVT_F16_U16 VOP1 UNDEFINED,
    view ''v_cvt_f16_i16'' V_CVT_F16_I16 VOP1 UNDEFINED,
    view ''v_cvt_u16_f16'' V_CVT_U16_F16 VOP1 UNDEFINED,
    view ''v_cvt_i16_f16'' V_CVT_I16_F16 VOP1 UNDEFINED,
    view ''v_rcp_f16'' V_RCP_F16 VOP1 UNDEFINED,
    view ''v_sqrt_f16'' V_SQRT_F16 VOP1 UNDEFINED,
    view ''v_rsq_f16'' V_RSQ_F16 VOP1 UNDEFINED,
    view ''v_log_f16'' V_LOG_F16 VOP1 UNDEFINED,
    view ''v_exp_f16'' V_EXP_F16 VOP1 UNDEFINED,
    view ''v_frexp_mant_f16'' V_FREXP_MANT_F16 VOP1 UNDEFINED,
    view ''v_frexp_exp_i16_f16'' V_FREXP_EXP_I16_F16 VOP1 UNDEFINED,
    view ''v_floor_f16'' V_FLOOR_F16 VOP1 UNDEFINED,
    view ''v_ceil_f16'' V_CEIL_F16 VOP1 UNDEFINED,
    view ''v_trunc_f16'' V_TRUNC_F16 VOP1 UNDEFINED,
    view ''v_rndne_f16'' V_RNDNE_F16 VOP1 UNDEFINED,
    view ''v_fract_f16'' V_FRACT_F16 VOP1 UNDEFINED,
    view ''v_sin_f16'' V_SIN_F16 VOP1 UNDEFINED,
    view ''v_cos_f16'' V_COS_F16 VOP1 UNDEFINED,
    view ''v_exp_legacy_f32'' V_EXP_LEGACY_F32 VOP1 UNDEFINED,
    view ''v_log_legacy_f32'' V_LOG_LEGACY_F32 VOP1 UNDEFINED,
    view ''v_cvt_norm_i16_f16'' V_CVT_NORM_I16_F16 VOP1 UNDEFINED,
    view ''v_cvt_norm_u16_f16'' V_CVT_NORM_U16_F16 VOP1 UNDEFINED]"

definition repo_vop2 :: "InstructionView list" where
  "repo_vop2 = [
    view ''v_cndmask_b32'' V_CNDMASK_B32 VOP2 UNDEFINED,
    view ''v_add_f32'' V_ADD_F32 VOP2 UNDEFINED,
    view ''v_sub_f32'' V_SUB_F32 VOP2 UNDEFINED,
    view ''v_subrev_f32'' V_SUBREV_F32 VOP2 UNDEFINED,
    view ''v_mul_legacy_f32'' V_MUL_LEGACY_F32 VOP2 UNDEFINED,
    view ''v_mul_f32'' V_MUL_F32 VOP2 UNDEFINED,
    view ''v_mul_i32_i24'' V_MUL_I32_I24 VOP2 UNDEFINED,
    view ''v_mul_hi_i32_i24'' V_MUL_HI_I32_I24 VOP2 UNDEFINED,
    view ''v_mul_u32_u24'' V_MUL_U32_U24 VOP2 UNDEFINED,
    view ''v_mul_hi_u32_u24'' V_MUL_HI_U32_U24 VOP2 UNDEFINED,
    view ''v_min_f32'' V_MIN_F32 VOP2 UNDEFINED,
    view ''v_max_f32'' V_MAX_F32 VOP2 UNDEFINED,
    view ''v_min_i32'' V_MIN_I32 VOP2 UNDEFINED,
    view ''v_max_i32'' V_MAX_I32 VOP2 UNDEFINED,
    view ''v_min_u32'' V_MIN_U32 VOP2 UNDEFINED,
    view ''v_max_u32'' V_MAX_U32 VOP2 UNDEFINED,
    view ''v_lshrrev_b32'' V_LSHRREV_B32 VOP2 UNDEFINED,
    view ''v_and_b32'' V_AND_B32 VOP2 UNDEFINED,
    view ''v_or_b32'' V_OR_B32 VOP2 UNDEFINED,
    view ''v_xor_b32'' V_XOR_B32 VOP2 UNDEFINED,
    view ''v_mac_f32'' V_MAC_F32 VOP2 UNDEFINED,
    view ''v_madmk_f32'' V_MADMK_F32 VOP2 UNDEFINED,
    view ''v_madak_f32'' V_MADAK_F32 VOP2 UNDEFINED,
    view ''v_add_co_u32'' V_ADD_CO_U32 VOP2 UNDEFINED,
    view ''v_subrev_co_u32'' V_SUBREV_CO_U32 VOP2 UNDEFINED,
    view ''v_subb_co_u32'' V_SUBB_CO_U32 VOP2 UNDEFINED,
    view ''v_subbrev_co_u32'' V_SUBBREV_CO_U32 VOP2 UNDEFINED,
    view ''v_add_f16'' V_ADD_F16 VOP2 UNDEFINED,
    view ''v_sub_f16'' V_SUB_F16 VOP2 UNDEFINED,
    view ''v_subrev_f16'' V_SUBREV_F16 VOP2 UNDEFINED,
    view ''v_mul_f16'' V_MUL_F16 VOP2 UNDEFINED,
    view ''v_mac_f16'' V_MAC_F16 VOP2 UNDEFINED,
    view ''v_madmk_f16'' V_MADMK_F16 VOP2 UNDEFINED,
    view ''v_madak_f16'' V_MADAK_F16 VOP2 UNDEFINED,
    view ''v_add_u16'' V_ADD_U16 VOP2 UNDEFINED,
    view ''v_mul_lo_u16'' V_MUL_LO_U16 VOP2 UNDEFINED,
    view ''v_lshlrev_b16'' V_LSHLREV_B16 VOP2 UNDEFINED,
    view ''v_lshrrev_b16'' V_LSHRREV_B16 VOP2 UNDEFINED,
    view ''v_ashrrev_i16'' V_ASHRREV_I16 VOP2 UNDEFINED,
    view ''v_max_f16'' V_MAX_F16 VOP2 UNDEFINED,
    view ''v_min_f16'' V_MIN_F16 VOP2 UNDEFINED,
    view ''v_max_u16'' V_MAX_U16 VOP2 UNDEFINED,
    view ''v_max_i16'' V_MAX_I16 VOP2 UNDEFINED,
    view ''v_min_u16'' V_MIN_U16 VOP2 UNDEFINED,
    view ''v_min_i16'' V_MIN_I16 VOP2 UNDEFINED,
    view ''v_ldexp_f16'' V_LDEXP_F16 VOP2 UNDEFINED]"

definition repo_vop2_vop3a :: "InstructionView list" where
  "repo_vop2_vop3a = [
    view ''v_subrev_u16'' V_SUBREV_U16 VOP2 VOP3A,
    view ''v_sub_u16'' V_SUB_U16 VOP2 VOP3A,
    view ''v_ashr_i32'' V_ASHR_I32 VOP2 VOP3A,
    view ''v_ashrrev_b16'' V_ASHRREV_B16 VOP2 VOP3A,
    view ''v_ashrrev_i32'' V_ASHRREV_I32 VOP2 VOP3A,
    view ''v_lshlrev_b32'' V_LSHLREV_B32 VOP2 VOP3A,
    view ''v_lshr_b32'' V_LSHR_B32 VOP2 VOP3A]"

definition repo_vop2_vop3b :: "InstructionView list" where
  "repo_vop2_vop3b = [
    view ''v_addc_co_u32'' V_ADDC_CO_U32 VOP2 VOP3B,
    view ''v_addc_u32'' V_ADDC_U32 VOP2 VOP3B,
    view ''v_add_u32'' V_ADD_U32 VOP2 VOP3B,
    view ''v_subrev_u32'' V_SUBREV_U32 VOP2 VOP3B,
    view ''v_sub_u32'' V_SUB_U32 VOP2 VOP3B,
    view ''v_sub_co_u32'' V_SUB_CO_U32 VOP2 VOP3B,
    view ''v_add_i16'' V_ADD_I16 VOP2 VOP3B,
    view ''v_add_i32'' V_ADD_I32 VOP2 VOP3B]"

definition repo_vop3a :: "InstructionView list" where
  "repo_vop3a = [
    view ''v_lshlrev_b64'' V_LSHLREV_B64 UNDEFINED VOP3A,
    view ''v_mul_lo_u32'' V_MUL_LO_U32 UNDEFINED VOP3A,
    view ''v_add3_u32'' V_ADD3_U32 UNDEFINED VOP3A]"

definition repo_vop3b :: "InstructionView list" where
  "repo_vop3b = [
    view ''v_div_scale_f32'' V_DIV_SCALE_F32 UNDEFINED VOP3B,
    view ''v_div_scale_f64'' V_DIV_SCALE_F64 UNDEFINED VOP3B,
    view ''v_mad_u64_u32'' V_MAD_U64_U32 UNDEFINED VOP3B,
    view ''v_mad_i64_i32'' V_MAD_I64_I32 UNDEFINED VOP3B]"

definition repo_vopc_1 :: "InstructionView list" where
  "repo_vopc_1 = [
    view ''v_cmp_f_i16'' V_CMP_F_I16 VOPC VOP3A,
    view ''v_cmp_lt_i16'' V_CMP_LT_I16 VOPC VOP3A,
    view ''v_cmp_eq_i16'' V_CMP_EQ_I16 VOPC VOP3A,
    view ''v_cmp_le_i16'' V_CMP_LE_I16 VOPC VOP3A,
    view ''v_cmp_gt_i16'' V_CMP_GT_I16 VOPC VOP3A,
    view ''v_cmp_lg_i16'' V_CMP_LG_I16 VOPC VOP3A,
    view ''v_cmp_ge_i16'' V_CMP_GE_I16 VOPC VOP3A,
    view ''v_cmp_tru_i16'' V_CMP_TRU_I16 VOPC VOP3A,
    view ''v_cmp_f_u16'' V_CMP_F_U16 VOPC VOP3A,
    view ''v_cmp_lt_u16'' V_CMP_LT_U16 VOPC VOP3A,
    view ''v_cmp_eq_u16'' V_CMP_EQ_U16 VOPC VOP3A,
    view ''v_cmp_le_u16'' V_CMP_LE_U16 VOPC VOP3A,
    view ''v_cmp_gt_u16'' V_CMP_GT_U16 VOPC VOP3A,
    view ''v_cmp_lg_u16'' V_CMP_LG_U16 VOPC VOP3A,
    view ''v_cmp_ge_u16'' V_CMP_GE_U16 VOPC VOP3A,
    view ''v_cmp_tru_u16'' V_CMP_TRU_U16 VOPC VOP3A,
    view ''v_cmpx_f_i16'' V_CMPX_F_I16 VOPC VOP3A,
    view ''v_cmpx_lt_i16'' V_CMPX_LT_I16 VOPC VOP3A,
    view ''v_cmpx_eq_i16'' V_CMPX_EQ_I16 VOPC VOP3A,
    view ''v_cmpx_le_i16'' V_CMPX_LE_I16 VOPC VOP3A,
    view ''v_cmpx_gt_i16'' V_CMPX_GT_I16 VOPC VOP3A,
    view ''v_cmpx_lg_i16'' V_CMPX_LG_I16 VOPC VOP3A,
    view ''v_cmpx_ge_i16'' V_CMPX_GE_I16 VOPC VOP3A,
    view ''v_cmpx_tru_i16'' V_CMPX_TRU_I16 VOPC VOP3A,
    view ''v_cmpx_f_u16'' V_CMPX_F_U16 VOPC VOP3A,
    view ''v_cmpx_lt_u16'' V_CMPX_LT_U16 VOPC VOP3A,
    view ''v_cmpx_eq_u16'' V_CMPX_EQ_U16 VOPC VOP3A,
    view ''v_cmpx_le_u16'' V_CMPX_LE_U16 VOPC VOP3A,
    view ''v_cmpx_gt_u16'' V_CMPX_GT_U16 VOPC VOP3A,
    view ''v_cmpx_lg_u16'' V_CMPX_LG_U16 VOPC VOP3A,
    view ''v_cmpx_ge_u16'' V_CMPX_GE_U16 VOPC VOP3A,
    view ''v_cmpx_tru_u16'' V_CMPX_TRU_U16 VOPC VOP3A]"

definition repo_vopc_2 :: "InstructionView list" where
  "repo_vopc_2 = [
    view ''v_cmp_f_i32'' V_CMP_F_I32 VOPC VOP3A,
    view ''v_cmp_lt_i32'' V_CMP_LT_I32 VOPC VOP3A,
    view ''v_cmp_eq_i32'' V_CMP_EQ_I32 VOPC VOP3A,
    view ''v_cmp_le_i32'' V_CMP_LE_I32 VOPC VOP3A,
    view ''v_cmp_gt_i32'' V_CMP_GT_I32 VOPC VOP3A,
    view ''v_cmp_lg_i32'' V_CMP_LG_I32 VOPC VOP3A,
    view ''v_cmp_ge_i32'' V_CMP_GE_I32 VOPC VOP3A,
    view ''v_cmp_tru_i32'' V_CMP_TRU_I32 VOPC VOP3A,
    view ''v_cmp_f_u32'' V_CMP_F_U32 VOPC VOP3A,
    view ''v_cmp_lt_u32'' V_CMP_LT_U32 VOPC UNDEFINED,
    view ''v_cmp_eq_u32'' V_CMP_EQ_U32 VOPC VOP3A,
    view ''v_cmp_le_u32'' V_CMP_LE_U32 VOPC VOP3A,
    view ''v_cmp_gt_u32'' V_CMP_GT_U32 VOPC VOP3A,
    view ''v_cmp_lg_u32'' V_CMP_LG_U32 VOPC VOP3A,
    view ''v_cmp_ge_u32'' V_CMP_GE_U32 VOPC VOP3A,
    view ''v_cmp_tru_u32'' V_CMP_TRU_U32 VOPC VOP3A,
    view ''v_cmpx_f_i32'' V_CMPX_F_I32 VOPC VOP3A,
    view ''v_cmpx_lt_i32'' V_CMPX_LT_I32 VOPC VOP3A,
    view ''v_cmpx_eq_i32'' V_CMPX_EQ_I32 VOPC VOP3A,
    view ''v_cmpx_le_i32'' V_CMPX_LE_I32 VOPC VOP3A,
    view ''v_cmpx_gt_i32'' V_CMPX_GT_I32 VOPC VOP3A,
    view ''v_cmpx_lg_i32'' V_CMPX_LG_I32 VOPC VOP3A,
    view ''v_cmpx_ge_i32'' V_CMPX_GE_I32 VOPC VOP3A,
    view ''v_cmpx_tru_i32'' V_CMPX_TRU_I32 VOPC VOP3A,
    view ''v_cmpx_f_u32'' V_CMPX_F_U32 VOPC VOP3A,
    view ''v_cmpx_lt_u32'' V_CMPX_LT_U32 VOPC VOP3A,
    view ''v_cmpx_eq_u32'' V_CMPX_EQ_U32 VOPC VOP3A,
    view ''v_cmpx_le_u32'' V_CMPX_LE_U32 VOPC VOP3A,
    view ''v_cmpx_gt_u32'' V_CMPX_GT_U32 VOPC VOP3A,
    view ''v_cmpx_lg_u32'' V_CMPX_LG_U32 VOPC VOP3A,
    view ''v_cmpx_ge_u32'' V_CMPX_GE_U32 VOPC VOP3A,
    view ''v_cmpx_tru_u32'' V_CMPX_TRU_U32 VOPC VOP3A]"

definition repo_vopc_3 :: "InstructionView list" where
  "repo_vopc_3 = [
    view ''v_cmp_f_i64'' V_CMP_F_I64 VOPC VOP3A,
    view ''v_cmp_lt_i64'' V_CMP_LT_I64 VOPC VOP3A,
    view ''v_cmp_eq_i64'' V_CMP_EQ_I64 VOPC VOP3A,
    view ''v_cmp_le_i64'' V_CMP_LE_I64 VOPC VOP3A,
    view ''v_cmp_gt_i64'' V_CMP_GT_I64 VOPC VOP3A,
    view ''v_cmp_lg_i64'' V_CMP_LG_I64 VOPC VOP3A,
    view ''v_cmp_ge_i64'' V_CMP_GE_I64 VOPC VOP3A,
    view ''v_cmp_tru_i64'' V_CMP_TRU_I64 VOPC VOP3A,
    view ''v_cmp_f_u64'' V_CMP_F_U64 VOPC VOP3A,
    view ''v_cmp_lt_u64'' V_CMP_LT_U64 VOPC VOP3A,
    view ''v_cmp_eq_u64'' V_CMP_EQ_U64 VOPC VOP3A,
    view ''v_cmp_le_u64'' V_CMP_LE_U64 VOPC VOP3A,
    view ''v_cmp_gt_u64'' V_CMP_GT_U64 VOPC VOP3A,
    view ''v_cmp_lg_u64'' V_CMP_LG_U64 VOPC VOP3A,
    view ''v_cmp_ge_u64'' V_CMP_GE_U64 VOPC VOP3A,
    view ''v_cmp_tru_u64'' V_CMP_TRU_U64 VOPC VOP3A,
    view ''v_cmpx_f_i64'' V_CMPX_F_I64 VOPC VOP3A,
    view ''v_cmpx_lt_i64'' V_CMPX_LT_I64 VOPC VOP3A,
    view ''v_cmpx_eq_i64'' V_CMPX_EQ_I64 VOPC VOP3A,
    view ''v_cmpx_le_i64'' V_CMPX_LE_I64 VOPC VOP3A,
    view ''v_cmpx_gt_i64'' V_CMPX_GT_I64 VOPC VOP3A,
    view ''v_cmpx_lg_i64'' V_CMPX_LG_I64 VOPC VOP3A,
    view ''v_cmpx_ge_i64'' V_CMPX_GE_I64 VOPC VOP3A,
    view ''v_cmpx_tru_i64'' V_CMPX_TRU_I64 VOPC VOP3A,
    view ''v_cmpx_f_u64'' V_CMPX_F_U64 VOPC VOP3A,
    view ''v_cmpx_lt_u64'' V_CMPX_LT_U64 VOPC VOP3A,
    view ''v_cmpx_eq_u64'' V_CMPX_EQ_U64 VOPC VOP3A,
    view ''v_cmpx_le_u64'' V_CMPX_LE_U64 VOPC VOP3A,
    view ''v_cmpx_gt_u64'' V_CMPX_GT_U64 VOPC VOP3A,
    view ''v_cmpx_lg_u64'' V_CMPX_LG_U64 VOPC VOP3A,
    view ''v_cmpx_ge_u64'' V_CMPX_GE_U64 VOPC VOP3A,
    view ''v_cmpx_tru_u64'' V_CMPX_TRU_U64 VOPC VOP3A]"

definition repo_vopc_4 :: "InstructionView list" where
  "repo_vopc_4 = [
    view ''v_cmp_f_f32'' V_CMP_F_F32 VOPC VOP3A,
    view ''v_cmp_lt_f32'' V_CMP_LT_F32 VOPC VOP3A,
    view ''v_cmp_eq_f32'' V_CMP_EQ_F32 VOPC VOP3A,
    view ''v_cmp_le_f32'' V_CMP_LE_F32 VOPC VOP3A,
    view ''v_cmp_gt_f32'' V_CMP_GT_F32 VOPC VOP3A,
    view ''v_cmp_lg_f32'' V_CMP_LG_F32 VOPC VOP3A,
    view ''v_cmp_ge_f32'' V_CMP_GE_F32 VOPC VOP3A,
    view ''v_cmp_o_f32'' V_CMP_O_F32 VOPC VOP3A,
    view ''v_cmp_u_f32'' V_CMP_U_F32 VOPC VOP3A,
    view ''v_cmp_nge_f32'' V_CMP_NGE_F32 VOPC VOP3A,
    view ''v_cmp_nlg_f32'' V_CMP_NLG_F32 VOPC VOP3A,
    view ''v_cmp_ngt_f32'' V_CMP_NGT_F32 VOPC VOP3A,
    view ''v_cmp_nle_f32'' V_CMP_NLE_F32 VOPC VOP3A,
    view ''v_cmp_neq_f32'' V_CMP_NEQ_F32 VOPC VOP3A,
    view ''v_cmp_nlt_f32'' V_CMP_NLT_F32 VOPC VOP3A,
    view ''v_cmp_tru_f32'' V_CMP_TRU_F32 VOPC VOP3A,
    view ''v_cmpx_f_f32'' V_CMPX_F_F32 VOPC VOP3A,
    view ''v_cmpx_lt_f32'' V_CMPX_LT_F32 VOPC VOP3A,
    view ''v_cmpx_eq_f32'' V_CMPX_EQ_F32 VOPC VOP3A,
    view ''v_cmpx_le_f32'' V_CMPX_LE_F32 VOPC VOP3A,
    view ''v_cmpx_gt_f32'' V_CMPX_GT_F32 VOPC VOP3A,
    view ''v_cmpx_lg_f32'' V_CMPX_LG_F32 VOPC VOP3A,
    view ''v_cmpx_ge_f32'' V_CMPX_GE_F32 VOPC VOP3A,
    view ''v_cmpx_o_f32'' V_CMPX_O_F32 VOPC VOP3A,
    view ''v_cmpx_u_f32'' V_CMPX_U_F32 VOPC VOP3A,
    view ''v_cmpx_nge_f32'' V_CMPX_NGE_F32 VOPC VOP3A,
    view ''v_cmpx_nlg_f32'' V_CMPX_NLG_F32 VOPC VOP3A,
    view ''v_cmpx_ngt_f32'' V_CMPX_NGT_F32 VOPC VOP3A,
    view ''v_cmpx_nle_f32'' V_CMPX_NLE_F32 VOPC VOP3A,
    view ''v_cmpx_neq_f32'' V_CMPX_NEQ_F32 VOPC VOP3A,
    view ''v_cmpx_nlt_f32'' V_CMPX_NLT_F32 VOPC VOP3A,
    view ''v_cmpx_tru_f32'' V_CMPX_TRU_F32 VOPC VOP3A]"

definition repo_vopc_5 :: "InstructionView list" where
  "repo_vopc_5 = [
    view ''v_cmps_f_f64'' V_CMPS_F_F64 VOPC VOP3A,
    view ''v_cmps_lt_f64'' V_CMPS_LT_F64 VOPC VOP3A,
    view ''v_cmps_eq_f64'' V_CMPS_EQ_F64 VOPC VOP3A,
    view ''v_cmps_le_f64'' V_CMPS_LE_F64 VOPC VOP3A,
    view ''v_cmps_gt_f64'' V_CMPS_GT_F64 VOPC VOP3A,
    view ''v_cmps_lg_f64'' V_CMPS_LG_F64 VOPC VOP3A,
    view ''v_cmps_ge_f64'' V_CMPS_GE_F64 VOPC VOP3A,
    view ''v_cmps_o_f64'' V_CMPS_O_F64 VOPC VOP3A,
    view ''v_cmps_u_f64'' V_CMPS_U_F64 VOPC VOP3A,
    view ''v_cmps_nge_f64'' V_CMPS_NGE_F64 VOPC VOP3A,
    view ''v_cmps_nlg_f64'' V_CMPS_NLG_F64 VOPC VOP3A,
    view ''v_cmps_ngt_f64'' V_CMPS_NGT_F64 VOPC VOP3A,
    view ''v_cmps_nle_f64'' V_CMPS_NLE_F64 VOPC VOP3A,
    view ''v_cmps_neq_f64'' V_CMPS_NEQ_F64 VOPC VOP3A,
    view ''v_cmps_nlt_f64'' V_CMPS_NLT_F64 VOPC VOP3A,
    view ''v_cmps_tru_f64'' V_CMPS_TRU_F64 VOPC VOP3A,
    view ''v_cmpx_f_f64'' V_CMPX_F_F64 VOPC VOP3A,
    view ''v_cmpx_lt_f64'' V_CMPX_LT_F64 VOPC VOP3A,
    view ''v_cmpx_eq_f64'' V_CMPX_EQ_F64 VOPC VOP3A,
    view ''v_cmpx_le_f64'' V_CMPX_LE_F64 VOPC VOP3A,
    view ''v_cmpx_gt_f64'' V_CMPX_GT_F64 VOPC VOP3A,
    view ''v_cmpx_lg_f64'' V_CMPX_LG_F64 VOPC VOP3A,
    view ''v_cmpx_ge_f64'' V_CMPX_GE_F64 VOPC VOP3A,
    view ''v_cmpx_o_f64'' V_CMPX_O_F64 VOPC VOP3A,
    view ''v_cmpx_u_f64'' V_CMPX_U_F64 VOPC VOP3A,
    view ''v_cmpx_nge_f64'' V_CMPX_NGE_F64 VOPC VOP3A,
    view ''v_cmpx_nlg_f64'' V_CMPX_NLG_F64 VOPC VOP3A,
    view ''v_cmpx_ngt_f64'' V_CMPX_NGT_F64 VOPC VOP3A,
    view ''v_cmpx_nle_f64'' V_CMPX_NLE_F64 VOPC VOP3A,
    view ''v_cmpx_neq_f64'' V_CMPX_NEQ_F64 VOPC VOP3A,
    view ''v_cmpx_nlt_f64'' V_CMPX_NLT_F64 VOPC VOP3A,
    view ''v_cmpx_tru_f64'' V_CMPX_TRU_F64 VOPC VOP3A]"

definition repo_flat :: "InstructionView list" where
  "repo_flat = [
    view ''flat_store_dword'' FLAT_STORE_DWORD UNDEFINED FLAT,
    view ''flat_store_dwordx2'' FLAT_STORE_DWORDX2 UNDEFINED FLAT,
    view ''flat_store_dwordx3'' FLAT_STORE_DWORDX3 UNDEFINED FLAT,
    view ''flat_store_dwordx4'' FLAT_STORE_DWORDX4 UNDEFINED FLAT,
    view ''flat_store_short'' FLAT_STORE_SHORT UNDEFINED FLAT,
    view ''flat_load_dword'' FLAT_LOAD_DWORD UNDEFINED FLAT,
    view ''flat_load_dwordx2'' FLAT_LOAD_DWORDX2 UNDEFINED FLAT,
    view ''flat_load_dwordx3'' FLAT_LOAD_DWORDX3 UNDEFINED FLAT,
    view ''flat_load_dwordx4'' FLAT_LOAD_DWORDX4 UNDEFINED FLAT,
    view ''flat_atomic_add'' FLAT_ATOMIC_ADD UNDEFINED FLAT,
    view ''flat_atomic_add_x2'' FLAT_ATOMIC_ADD_X2 UNDEFINED FLAT,
    view ''flat_atomic_sub'' FLAT_ATOMIC_SUB UNDEFINED FLAT,
    view ''flat_atomic_sub_x2'' FLAT_ATOMIC_SUB_X2 UNDEFINED FLAT,
    view ''flat_atomic_smin'' FLAT_ATOMIC_SMIN UNDEFINED FLAT,
    view ''flat_atomic_smin_x2'' FLAT_ATOMIC_SMIN_X2 UNDEFINED FLAT,
    view ''flat_atomic_umin'' FLAT_ATOMIC_UMIN UNDEFINED FLAT,
    view ''flat_atomic_umin_x2'' FLAT_ATOMIC_UMIN_X2 UNDEFINED FLAT,
    view ''flat_atomic_smax'' FLAT_ATOMIC_SMAX UNDEFINED FLAT,
    view ''flat_atomic_smax_x2'' FLAT_ATOMIC_SMAX_X2 UNDEFINED FLAT,
    view ''flat_atomic_umax'' FLAT_ATOMIC_UMAX UNDEFINED FLAT,
    view ''flat_atomic_umax_x2'' FLAT_ATOMIC_UMAX_X2 UNDEFINED FLAT,
    view ''flat_atomic_and'' FLAT_ATOMIC_AND UNDEFINED FLAT,
    view ''flat_atomic_and_x2'' FLAT_ATOMIC_AND_X2 UNDEFINED FLAT,
    view ''flat_atomic_or'' FLAT_ATOMIC_OR UNDEFINED FLAT,
    view ''flat_atomic_or_x2'' FLAT_ATOMIC_OR_X2 UNDEFINED FLAT,
    view ''flat_atomic_xor'' FLAT_ATOMIC_XOR UNDEFINED FLAT,
    view ''flat_atomic_xor_x2'' FLAT_ATOMIC_XOR_X2 UNDEFINED FLAT,
    view ''flat_atomic_inc'' FLAT_ATOMIC_INC UNDEFINED FLAT,
    view ''flat_atomic_inc_x2'' FLAT_ATOMIC_INC_X2 UNDEFINED FLAT,
    view ''flat_atomic_dec'' FLAT_ATOMIC_DEC UNDEFINED FLAT,
    view ''flat_atomic_dec_x2'' FLAT_ATOMIC_DEC_X2 UNDEFINED FLAT]"

definition instructionRepo :: "InstructionView list" where
  "instructionRepo = repo_sop1 @ repo_sop2 @ repo_sopk @ repo_sopc @ repo_sopp @
     repo_smem @ repo_vop1 @ repo_vop2 @ repo_vop2_vop3a @ repo_vop2_vop3b @ repo_vop3a @
     repo_vop3b @ repo_vopc_1 @ repo_vopc_2 @ repo_vopc_3 @ repo_vopc_4 @ repo_vopc_5 @ repo_flat"

section \<open>Lookups\<close>

definition get_instr_key :: "string \<Rightarrow> InstrKey result" where
  "get_instr_key instruction =
     (case find (\<lambda>v. iv_mnemonic v = instruction) instructionRepo of
        None \<Rightarrow> Inl (Runtime_error (''Undefined mnemonic: '' @ instruction))
      | Some v \<Rightarrow> Inr (iv_key v))"

definition get_mnemonic :: "InstrKey \<Rightarrow> string result" where
  "get_mnemonic key =
     (case find (\<lambda>v. key = iv_key v) instructionRepo of
        None \<Rightarrow> Inl (Runtime_error (''No instruction mnemonic was found for key: ''
                 @ show_nat (key_code key)))
      | Some v \<Rightarrow> Inr (iv_mnemonic v))"

definition get_instr_format :: "InstrKey \<Rightarrow> nat \<Rightarrow> InstrFormat result" where
  "get_instr_format key widthBytes =
     (case find (\<lambda>v. key = iv_key v) instructionRepo of
        None \<Rightarrow> bindE (get_mnemonic key)
          (\<lambda>m. Inl (Runtime_error (''Can't find InstructionView for '' @ m)))
      | Some v \<Rightarrow>
          let format = (if widthBytes = 4 then iv_format v
                        else if widthBytes = 8 then iv_extendedFormat v else UNDEFINED)
          in if format \<noteq> UNDEFINED then Inr format
             else
               let format' = (if iv_format v \<noteq> UNDEFINED then iv_format v else iv_extendedFormat v)
               in if format' \<noteq> UNDEFINED then Inr format'
                  else Inl (Runtime_error (''Undefined format for instruction ''
                         @ iv_mnemonic v)))"

text \<open>
  \<open>UNSUPPORTED_INSTRUCTION\<close> (\<open>emulator/src/commons/commons.h\<close>) first builds a log message
  with the mnemonic, which throws for a key without one, and then fails an assertion.
\<close>

definition unsupported_instruction :: "string \<Rightarrow> InstrKey \<Rightarrow> 'a result" where
  "unsupported_instruction instrType key =
     bindE (get_mnemonic key)
       (\<lambda>_. Inl (Assert_failed ''Can not execute kernel due to unsupported instruction''))"

section \<open>No key occurs twice in the table\<close>

text \<open>An ascending list of numbers has no duplicates, which a linear check shows.\<close>

fun ascending :: "nat list \<Rightarrow> bool" where
  "ascending [] = True"
| "ascending [x] = True"
| "ascending (x # y # ys) = (x < y \<and> ascending (y # ys))"

lemma ascending_bounds: "ascending (x # xs) \<Longrightarrow> y \<in> set xs \<Longrightarrow> x < y"
  by (induction xs arbitrary: x) fastforce+

lemma ascending_distinct: "ascending xs \<Longrightarrow> distinct xs"
proof (induction xs)
  case (Cons x xs)
  then have "ascending xs" by (cases xs) auto
  with Cons ascending_bounds [of x xs] show ?case by auto
qed simp

text \<open>The key numbers of a part of the table.\<close>

definition codes :: "InstructionView list \<Rightarrow> nat list" where
  "codes vs = map (\<lambda>v. key_code (iv_key v)) vs"
lemma codes_append: "codes (xs @ ys) = codes xs @ codes ys" by (simp add: codes_def)

lemma codes_sop1:
  "distinct (codes repo_sop1)" "\<forall>k\<in>set (codes repo_sop1). 131 \<le> k \<and> k < 184"
proof -
  have "ascending (codes repo_sop1)"
    by (simp add: codes_def view_def repo_sop1_def)
  then show "distinct (codes repo_sop1)"
    by (rule ascending_distinct)
  show "\<forall>k\<in>set (codes repo_sop1). 131 \<le> k \<and> k < 184"
    by (simp add: codes_def view_def repo_sop1_def)
qed

lemma codes_sop2:
  "distinct (codes repo_sop2)" "\<forall>k\<in>set (codes repo_sop2). 184 \<le> k \<and> k < 237"
proof -
  have "ascending (codes repo_sop2)"
    by (simp add: codes_def view_def repo_sop2_def)
  then show "distinct (codes repo_sop2)"
    by (rule ascending_distinct)
  show "\<forall>k\<in>set (codes repo_sop2). 184 \<le> k \<and> k < 237"
    by (simp add: codes_def view_def repo_sop2_def)
qed

lemma codes_sopk:
  "distinct (codes repo_sopk)" "\<forall>k\<in>set (codes repo_sopk). 237 \<le> k \<and> k < 258"
proof -
  have "ascending (codes repo_sopk)"
    by (simp add: codes_def view_def repo_sopk_def)
  then show "distinct (codes repo_sopk)"
    by (rule ascending_distinct)
  show "\<forall>k\<in>set (codes repo_sopk). 237 \<le> k \<and> k < 258"
    by (simp add: codes_def view_def repo_sopk_def)
qed

lemma codes_sopc:
  "distinct (codes repo_sopc)" "\<forall>k\<in>set (codes repo_sopc). 80 \<le> k \<and> k < 101"
proof -
  have "ascending (codes repo_sopc)"
    by (simp add: codes_def view_def repo_sopc_def)
  then show "distinct (codes repo_sopc)"
    by (rule ascending_distinct)
  show "\<forall>k\<in>set (codes repo_sopc). 80 \<le> k \<and> k < 101"
    by (simp add: codes_def view_def repo_sopc_def)
qed

lemma codes_sopp:
  "distinct (codes repo_sopp)" "\<forall>k\<in>set (codes repo_sopp). 101 \<le> k \<and> k < 131"
proof -
  have "ascending (codes repo_sopp)"
    by (simp add: codes_def view_def repo_sopp_def)
  then show "distinct (codes repo_sopp)"
    by (rule ascending_distinct)
  show "\<forall>k\<in>set (codes repo_sopp). 101 \<le> k \<and> k < 131"
    by (simp add: codes_def view_def repo_sopp_def)
qed

lemma codes_smem:
  "distinct (codes repo_smem)" "\<forall>k\<in>set (codes repo_smem). 0 \<le> k \<and> k < 80"
proof -
  have "ascending (codes repo_smem)"
    by (simp add: codes_def view_def repo_smem_def)
  then show "distinct (codes repo_smem)"
    by (rule ascending_distinct)
  show "\<forall>k\<in>set (codes repo_smem). 0 \<le> k \<and> k < 80"
    by (simp add: codes_def view_def repo_smem_def)
qed

lemma codes_vop1:
  "distinct (codes repo_vop1)" "\<forall>k\<in>set (codes repo_vop1). 258 \<le> k \<and> k < 339"
proof -
  show "distinct (codes repo_vop1)"
    by (simp add: codes_def view_def repo_vop1_def)
  show "\<forall>k\<in>set (codes repo_vop1). 258 \<le> k \<and> k < 339"
    by (simp add: codes_def view_def repo_vop1_def)
qed

lemma codes_vop23:
  "distinct (codes (repo_vop2 @ repo_vop2_vop3a @ repo_vop2_vop3b @ repo_vop3a @ repo_vop3b))" "\<forall>k\<in>set (codes (repo_vop2 @ repo_vop2_vop3a @ repo_vop2_vop3b @ repo_vop3a @ repo_vop3b)). 339 \<le> k \<and> k < 493"
proof -
  show "distinct (codes (repo_vop2 @ repo_vop2_vop3a @ repo_vop2_vop3b @ repo_vop3a @ repo_vop3b))"
    by (simp add: codes_def view_def repo_vop2_def repo_vop2_vop3a_def repo_vop2_vop3b_def repo_vop3a_def repo_vop3b_def)
  show "\<forall>k\<in>set (codes (repo_vop2 @ repo_vop2_vop3a @ repo_vop2_vop3b @ repo_vop3a @ repo_vop3b)). 339 \<le> k \<and> k < 493"
    by (simp add: codes_def view_def repo_vop2_def repo_vop2_vop3a_def repo_vop2_vop3b_def repo_vop3a_def repo_vop3b_def)
qed

lemma codes_vopc:
  "distinct (codes (repo_vopc_1 @ repo_vopc_2 @ repo_vopc_3 @ repo_vopc_4 @ repo_vopc_5))" "\<forall>k\<in>set (codes (repo_vopc_1 @ repo_vopc_2 @ repo_vopc_3 @ repo_vopc_4 @ repo_vopc_5)). 493 \<le> k \<and> k < 653"
proof -
  have "ascending (codes (repo_vopc_1 @ repo_vopc_2 @ repo_vopc_3 @ repo_vopc_4 @ repo_vopc_5))"
    by (simp add: codes_def view_def repo_vopc_1_def repo_vopc_2_def repo_vopc_3_def repo_vopc_4_def repo_vopc_5_def)
  then show "distinct (codes (repo_vopc_1 @ repo_vopc_2 @ repo_vopc_3 @ repo_vopc_4 @ repo_vopc_5))"
    by (rule ascending_distinct)
  show "\<forall>k\<in>set (codes (repo_vopc_1 @ repo_vopc_2 @ repo_vopc_3 @ repo_vopc_4 @ repo_vopc_5)). 493 \<le> k \<and> k < 653"
    by (simp add: codes_def view_def repo_vopc_1_def repo_vopc_2_def repo_vopc_3_def repo_vopc_4_def repo_vopc_5_def)
qed

lemma codes_flat:
  "distinct (codes repo_flat)" "\<forall>k\<in>set (codes repo_flat). 653 \<le> k \<and> k < 684"
proof -
  show "distinct (codes repo_flat)"
    by (simp add: codes_def view_def repo_flat_def)
  show "\<forall>k\<in>set (codes repo_flat). 653 \<le> k \<and> k < 684"
    by (simp add: codes_def view_def repo_flat_def)
qed

text \<open>Parts of the table with key numbers in intervals that follow each other are disjoint.\<close>

lemma intervals_disjoint:
  "\<forall>k\<in>A. l \<le> k \<and> k < h \<Longrightarrow> \<forall>k\<in>B. l' \<le> k \<and> k < (h' :: nat) \<Longrightarrow> h \<le> l' \<or> h' \<le> l \<Longrightarrow> A \<inter> B = {}"
  by fastforce

lemma distinct_keys: "distinct (map iv_key instructionRepo)"
proof -
  let ?w = "repo_vop2 @ repo_vop2_vop3a @ repo_vop2_vop3b @ repo_vop3a @ repo_vop3b"
  let ?c = "repo_vopc_1 @ repo_vopc_2 @ repo_vopc_3 @ repo_vopc_4 @ repo_vopc_5"
  have r: "instructionRepo = repo_sop1 @ repo_sop2 @ repo_sopk @ repo_sopc @ repo_sopp @ repo_smem
      @ repo_vop1 @ ?w @ ?c @ repo_flat"
    by (simp add: instructionRepo_def)
  note b = codes_sop1(2) codes_sop2(2) codes_sopk(2) codes_sopc(2) codes_sopp(2) codes_smem(2) codes_vop1(2) codes_vop23(2) codes_vopc(2) codes_flat(2)
  have "distinct (codes instructionRepo)"
    unfolding r by (simp only: codes_append [of repo_sop1] codes_append [of repo_sop2]
      codes_append [of repo_sopk] codes_append [of repo_sopc] codes_append [of repo_sopp]
      codes_append [of repo_smem] codes_append [of repo_vop1] codes_append [of ?w]
      codes_append [of ?c] distinct_append set_append Int_Un_distrib Un_empty
      codes_sop1(1) codes_sop2(1) codes_sopk(1) codes_sopc(1) codes_sopp(1) codes_smem(1) codes_vop1(1) codes_vop23(1) codes_vopc(1) codes_flat(1))
      (intro conjI TrueI; rule intervals_disjoint, rule b, rule b, simp)
  then have "distinct (map key_code (map iv_key instructionRepo))"
    by (simp add: codes_def comp_def)
  then show ?thesis by (simp only: distinct_map [of key_code])
qed

section \<open>The lookups agree\<close>

lemma find_distinct:
  "distinct (map f xs) \<Longrightarrow> x \<in> set xs \<Longrightarrow> find (\<lambda>v. f x = f v) xs = Some x"
proof (induction xs)
  case (Cons y ys)
  show ?case
  proof (cases "y = x")
    case False
    with Cons.prems have x: "x \<in> set ys" by simp
    then have "f x \<in> f ` set ys" by (rule imageI)
    with Cons.prems have "f x \<noteq> f y" by auto
    with Cons x show ?thesis by simp
  qed simp
qed simp

lemma find_key: "v \<in> set instructionRepo \<Longrightarrow> find (\<lambda>w. iv_key v = iv_key w) instructionRepo = Some v"
  by (rule find_distinct [OF distinct_keys])

lemma get_mnemonic_row: "v \<in> set instructionRepo \<Longrightarrow> get_mnemonic (iv_key v) = Inr (iv_mnemonic v)"
  by (simp add: get_mnemonic_def find_key)

lemma get_instr_key_row:
  assumes "get_instr_key m = Inr k"
  obtains v where "v \<in> set instructionRepo" and "iv_mnemonic v = m" and "iv_key v = k"
proof -
  from assms obtain v where "find (\<lambda>v. iv_mnemonic v = m) instructionRepo = Some v" "k = iv_key v"
    by (auto simp: get_instr_key_def split: option.splits)
  moreover from this have "v \<in> set instructionRepo" "iv_mnemonic v = m"
    by (auto simp: find_Some_iff in_set_conv_nth)
  ultimately show thesis using that by blast
qed

lemma row_formats:
  assumes "v \<in> set instructionRepo"
  shows "iv_format v \<in> {SOP1, SOP2, SOPK, SOPP, SOPC, VOP1, VOP2, VOPC, UNDEFINED}"
    and "iv_extendedFormat v \<in> {SMEM, VOP3A, VOP3B, FLAT, UNDEFINED}"
    and "iv_format v \<noteq> UNDEFINED \<or> iv_extendedFormat v \<noteq> UNDEFINED"
proof -
  have "list_all (\<lambda>v. iv_format v \<in> {SOP1, SOP2, SOPK, SOPP, SOPC, VOP1, VOP2, VOPC, UNDEFINED}
      \<and> iv_extendedFormat v \<in> {SMEM, VOP3A, VOP3B, FLAT, UNDEFINED}
      \<and> (iv_format v \<noteq> UNDEFINED \<or> iv_extendedFormat v \<noteq> UNDEFINED)) instructionRepo"
    by (simp add: instructionRepo_def view_def repo_sop1_def repo_sop2_def repo_sopk_def
      repo_sopc_def repo_sopp_def repo_smem_def repo_vop1_def repo_vop2_def repo_vop2_vop3a_def
      repo_vop2_vop3b_def repo_vop3a_def repo_vop3b_def repo_vopc_1_def repo_vopc_2_def
      repo_vopc_3_def repo_vopc_4_def repo_vopc_5_def repo_flat_def)
  then show "iv_format v \<in> {SOP1, SOP2, SOPK, SOPP, SOPC, VOP1, VOP2, VOPC, UNDEFINED}"
    and "iv_extendedFormat v \<in> {SMEM, VOP3A, VOP3B, FLAT, UNDEFINED}"
    and "iv_format v \<noteq> UNDEFINED \<or> iv_extendedFormat v \<noteq> UNDEFINED"
    using assms by (simp_all add: list_all_iff)
qed

text \<open>A mnemonic that is known names a key whose mnemonic it is.\<close>

theorem mnemonic_of_key:
  assumes "get_instr_key m = Inr k"
  shows "get_mnemonic k = Inr m"
  using assms by (rule get_instr_key_row) (auto dest: get_mnemonic_row)

lemma mnemonic_of_key_witness: "get_mnemonic S_ABS_I32 = Inr ''s_abs_i32''"
  by (rule mnemonic_of_key) (simp add: get_instr_key_def instructionRepo_def repo_sop1_def view_def)

end
