(* ===== verification/BitUtils.thy ===== *)
theory BitUtils
  imports Prelude
begin

text \<open>
  The bit helpers of \<open>common/common/utils/bit-utils.hpp\<close> and
  \<open>emulator/src/commons/util.h\<close>, \<open>util.cpp\<close>: single bits, population count, bit reversal,
  sign extension, and the packing of register lanes and memory bytes into wider words.
  The overloads for 32 and 64 bits are two functions here.
\<close>

section \<open>Definitions\<close>

definition get_bit :: "nat \<Rightarrow> 'a::len word \<Rightarrow> bool" where
  "get_bit n v = (v AND push_bit n 1 \<noteq> 0)"

definition bit_count32 :: "u32 \<Rightarrow> u16" where
  "bit_count32 n0 =
     (let n1 = n0 - (drop_bit 1 n0 AND 0x55555555);
          n2 = (n1 AND 0x33333333) + (drop_bit 2 n1 AND 0x33333333)
      in to_u16 (drop_bit 24 (((n2 + drop_bit 4 n2) AND 0x0F0F0F0F) * 0x01010101)))"

definition bit_count64 :: "u64 \<Rightarrow> u16" where
  "bit_count64 n0 =
     (let n1 = n0 - (drop_bit 1 n0 AND 0x5555555555555555);
          n2 = (n1 AND 0x3333333333333333) + (drop_bit 2 n1 AND 0x3333333333333333)
      in to_u16 (drop_bit 56
           (((n2 + drop_bit 4 n2) AND 0x0F0F0F0F0F0F0F0F) * 0x0101010101010101)))"

definition rev_bit32 :: "u32 \<Rightarrow> u32" where
  "rev_bit32 n0 =
     (let n1 = drop_bit 16 n0 OR push_bit 16 n0;
          n2 = drop_bit 8 (n1 AND 0xff00ff00) OR push_bit 8 (n1 AND 0x00ff00ff);
          n3 = drop_bit 4 (n2 AND 0xf0f0f0f0) OR push_bit 4 (n2 AND 0x0f0f0f0f);
          n4 = drop_bit 2 (n3 AND 0xCCCCCCCC) OR push_bit 2 (n3 AND 0x33333333)
      in drop_bit 1 (n4 AND 0xAAAAAAAA) OR push_bit 1 (n4 AND 0x55555555))"

definition rev_bit64 :: "u64 \<Rightarrow> u64" where
  "rev_bit64 n0 =
     (let n1 = drop_bit 32 n0 OR push_bit 32 n0;
          n2 = drop_bit 16 (n1 AND 0xffff0000ffff0000) OR push_bit 16 (n1 AND 0x0000ffff0000ffff);
          n3 = drop_bit 8 (n2 AND 0xff00ff00ff00ff00) OR push_bit 8 (n2 AND 0x00ff00ff00ff00ff);
          n4 = drop_bit 4 (n3 AND 0xf0f0f0f0f0f0f0f0) OR push_bit 4 (n3 AND 0x0f0f0f0f0f0f0f0f);
          n5 = drop_bit 2 (n4 AND 0xCCCCCCCCCCCCCCCC) OR push_bit 2 (n4 AND 0x3333333333333333)
      in drop_bit 1 (n5 AND 0xAAAAAAAAAAAAAAAA) OR push_bit 1 (n5 AND 0x5555555555555555))"

definition sign_ext8 :: "u8 \<Rightarrow> u32" where
  "sign_ext8 i = sx32 i"

definition sign_ext16 :: "u16 \<Rightarrow> u32" where
  "sign_ext16 i = sx32 i"

text \<open>At most the first two words count; the first of them is the most significant.\<close>

definition to_uin64_t :: "u32 list \<Rightarrow> u64 result" where
  "to_uin64_t data =
     (if data = [] then Inl (Assert_failed ''Data can not be empty'')
      else
        let maxInd = min (length data) 2 - 1
        in Inr (foldl (\<lambda>result i. result OR push_bit (32 * (maxInd - i)) (to_u64 (data ! i)))
                  0 [0..<Suc maxInd]))"

definition to_uin64_t2 :: "u32 \<Rightarrow> u32 \<Rightarrow> u64 result" where
  "to_uin64_t2 msb lsb = to_uin64_t [msb, lsb]"

definition to_uint32_v :: "u8 list \<Rightarrow> u32 list result" where
  "to_uint32_v data =
     (if length data mod 4 \<noteq> 0
      then Inl (Assert_failed ''Data was not aligned for uint32_t conversion'')
      else Inr (map (\<lambda>k. foldl (\<lambda>v j. v OR push_bit (8 * (4 * k + 3 - j)) (to_u32 (data ! j)))
                  0 [4 * k ..< 4 * k + 4])
             [0..<length data div 4]))"

section \<open>Single bits and packing\<close>

lemma get_bit_iff [word_views]: "get_bit n v = bit v n"
  by (simp add: get_bit_def bit_iff_and_push_bit_not_eq_0)

lemma to_uin64_t_one [simp]: "to_uin64_t [a] = Inr (to_u64 a)"
  by (simp add: to_uin64_t_def)

lemma to_uin64_t_two [simp]:
  "to_uin64_t (a # b # xs) = Inr (push_bit 32 (to_u64 a) OR to_u64 b)"
  by (simp add: to_uin64_t_def)

lemma to_uin64_t_Nil [simp]:
  "to_uin64_t [] = Inl (Assert_failed ''Data can not be empty'')"
  by (simp add: to_uin64_t_def)

lemma to_uin64_t_Inr_iff [result_simps]: "(\<exists>x. to_uin64_t xs = Inr x) \<longleftrightarrow> xs \<noteq> []"
  by (simp add: to_uin64_t_def Let_def)

lemma split_join_u64:
  "to_u32 (push_bit 32 (to_u64 a) OR to_u64 b) = b"
  "to_u32 (drop_bit 32 (push_bit 32 (to_u64 a) OR to_u64 (b :: u32))) = (a :: u32)"
  by (rule word_eq_bitsI; simp add: bit_simps; auto simp: bit_simps dest: bit_imp_le_length)+

lemma join_split_u64:
  "push_bit 32 (to_u64 (to_u32 (drop_bit 32 x))) OR to_u64 (to_u32 x) = (x :: u64)"
  by (rule word_eq_bitsI) (auto simp: bit_simps)

lemma to_u32_to_u64 [simp]: "to_u32 (to_u64 (a :: u32)) = a"
  by (rule word_eq_bitsI) (auto simp: bit_simps)

section \<open>Bit reversal\<close>

lemma all_less_upt: "(\<forall>n<m. P n) \<longleftrightarrow> list_all P [0..<m]"
  by (auto simp: list_all_iff)

lemma upto_32: "[0..<32] = [0, 1, 2, 3, 4, 5, 6, 7, 8, 9, 10, 11, 12, 13, 14, 15, 16,
    17, 18, 19, 20, 21, 22, 23, 24, 25, 26, 27, 28, 29, 30, 31 :: nat]"
  by (simp add: upt_rec numeral_2_eq_2 [symmetric] numeral_3_eq_3 [symmetric])

lemma upto_64: "[0..<64] = [0, 1, 2, 3, 4, 5, 6, 7, 8, 9, 10, 11, 12, 13, 14, 15, 16,
    17, 18, 19, 20, 21, 22, 23, 24, 25, 26, 27, 28, 29, 30, 31, 32, 33, 34, 35, 36, 37, 38, 39, 40,
    41, 42, 43, 44, 45, 46, 47, 48, 49, 50, 51, 52, 53, 54, 55, 56, 57, 58, 59, 60, 61, 62, 63 :: nat]"
  by (simp add: upt_rec numeral_2_eq_2 [symmetric] numeral_3_eq_3 [symmetric])

lemma bit_beyond_32: "32 \<le> n \<Longrightarrow> \<not> bit (w :: u32) n"
  by (auto dest: bit_imp_le_length)

lemma bit_beyond_64: "64 \<le> n \<Longrightarrow> \<not> bit (w :: u64) n"
  by (auto dest: bit_imp_le_length)

lemmas bit_stage = bit_or_iff bit_and_iff bit_drop_bit_eq bit_push_bit_iff o_def

lemma rev32_16:
  "\<forall>n<32. bit (drop_bit 16 x OR push_bit 16 (x :: u32)) n = bit x (n XOR 16)"
  unfolding bit_stage all_less_upt upto_32 by (simp add: bit_beyond_32 numeral_2_eq_2 [symmetric] numeral_3_eq_3 [symmetric])

lemma rev32_8:
  "\<forall>n<32. bit (drop_bit 8 (x AND 0xff00ff00) OR push_bit 8 (x AND 0xff00ff :: u32)) n
     = bit x (n XOR 8)"
  unfolding bit_stage all_less_upt upto_32 by (simp add: numeral_2_eq_2 [symmetric] numeral_3_eq_3 [symmetric])

lemma rev32_4:
  "\<forall>n<32. bit (drop_bit 4 (x AND 0xf0f0f0f0) OR push_bit 4 (x AND 0xf0f0f0f :: u32)) n
     = bit x (n XOR 4)"
  unfolding bit_stage all_less_upt upto_32 by (simp add: numeral_2_eq_2 [symmetric] numeral_3_eq_3 [symmetric])

lemma rev32_2:
  "\<forall>n<32. bit (drop_bit 2 (x AND 0xcccccccc) OR push_bit 2 (x AND 0x33333333 :: u32)) n
     = bit x (n XOR 2)"
  unfolding bit_stage all_less_upt upto_32 by (simp add: numeral_2_eq_2 [symmetric] numeral_3_eq_3 [symmetric])

lemma rev32_1:
  "\<forall>n<32. bit (drop_bit 1 (x AND 0xaaaaaaaa) OR push_bit 1 (x AND 0x55555555 :: u32)) n
     = bit x (n XOR 1)"
  unfolding bit_stage all_less_upt upto_32 by (simp add: numeral_2_eq_2 [symmetric] numeral_3_eq_3 [symmetric])

lemma xor_chain_32:
  "\<forall>n<32::nat. n XOR 1 < 32 \<and> ((n XOR 1) XOR 2) < 32 \<and> (((n XOR 1) XOR 2) XOR 4) < 32 \<and> ((((n XOR 1) XOR 2) XOR 4) XOR 8) < 32
     \<and> (((((n XOR 1) XOR 2) XOR 4) XOR 8)) XOR 16 = 31 - n"
  unfolding all_less_upt upto_32 by (simp add: numeral_2_eq_2 [symmetric] numeral_3_eq_3 [symmetric])

theorem rev_bit32_bit: "n < 32 \<Longrightarrow> bit (rev_bit32 x) n = bit x (31 - n)"
  using xor_chain_32 unfolding rev_bit32_def Let_def
  by (simp only: rev32_1 rev32_2 rev32_4 rev32_8 rev32_16 simp_thms)

lemma rev64_32:
  "\<forall>n<64. bit (drop_bit 32 x OR push_bit 32 (x :: u64)) n = bit x (n XOR 32)"
  unfolding bit_stage all_less_upt upto_64 by (simp add: bit_beyond_64 numeral_2_eq_2 [symmetric] numeral_3_eq_3 [symmetric])

lemma rev64_16:
  "\<forall>n<64. bit (drop_bit 16 (x AND 0xffff0000ffff0000) OR push_bit 16 (x AND 0xffff0000ffff :: u64)) n
     = bit x (n XOR 16)"
  unfolding bit_stage all_less_upt upto_64 by (simp add: numeral_2_eq_2 [symmetric] numeral_3_eq_3 [symmetric])

lemma rev64_8:
  "\<forall>n<64. bit (drop_bit 8 (x AND 0xff00ff00ff00ff00) OR push_bit 8 (x AND 0xff00ff00ff00ff :: u64)) n
     = bit x (n XOR 8)"
  unfolding bit_stage all_less_upt upto_64 by (simp add: numeral_2_eq_2 [symmetric] numeral_3_eq_3 [symmetric])

lemma rev64_4:
  "\<forall>n<64. bit (drop_bit 4 (x AND 0xf0f0f0f0f0f0f0f0) OR push_bit 4 (x AND 0xf0f0f0f0f0f0f0f :: u64)) n
     = bit x (n XOR 4)"
  unfolding bit_stage all_less_upt upto_64 by (simp add: numeral_2_eq_2 [symmetric] numeral_3_eq_3 [symmetric])

lemma rev64_2:
  "\<forall>n<64. bit (drop_bit 2 (x AND 0xcccccccccccccccc) OR push_bit 2 (x AND 0x3333333333333333 :: u64)) n
     = bit x (n XOR 2)"
  unfolding bit_stage all_less_upt upto_64 by (simp add: numeral_2_eq_2 [symmetric] numeral_3_eq_3 [symmetric])

lemma rev64_1:
  "\<forall>n<64. bit (drop_bit 1 (x AND 0xaaaaaaaaaaaaaaaa) OR push_bit 1 (x AND 0x5555555555555555 :: u64)) n
     = bit x (n XOR 1)"
  unfolding bit_stage all_less_upt upto_64 by (simp add: numeral_2_eq_2 [symmetric] numeral_3_eq_3 [symmetric])

lemma xor_chain_64:
  "\<forall>n<64::nat. n XOR 1 < 64 \<and> ((n XOR 1) XOR 2) < 64 \<and> (((n XOR 1) XOR 2) XOR 4) < 64 \<and> ((((n XOR 1) XOR 2) XOR 4) XOR 8) < 64 \<and> (((((n XOR 1) XOR 2) XOR 4) XOR 8) XOR 16) < 64
     \<and> ((((((n XOR 1) XOR 2) XOR 4) XOR 8) XOR 16)) XOR 32 = 63 - n"
  unfolding all_less_upt upto_64 by (simp add: numeral_2_eq_2 [symmetric] numeral_3_eq_3 [symmetric])

text \<open>
  rev_bit, done by swapping blocks of halving size, reverses the 64 bits.
\<close>

theorem rev_bit64_bit: "n < 64 \<Longrightarrow> bit (rev_bit64 x) n = bit x (63 - n)"
  using xor_chain_64 unfolding rev_bit64_def Let_def
  by (simp only: rev64_1 rev64_2 rev64_4 rev64_8 rev64_16 rev64_32 simp_thms)

lemma rev_bit64_bit_witness: "bit (rev_bit64 1) 63 = bit (1 :: u64) (63 - 63)"
  by (rule rev_bit64_bit) simp

end
