(* ===== verification/Registers.thy ===== *)
theory Registers
  imports BitUtils
begin

text \<open>
  The special registers of a wavefront (\<open>emulator/src/flow/register.h\<close>, \<open>register.cpp\<close>) and
  the numbering of the register names (\<open>common/model/instr/reg_info.h\<close>).

  \<open>ProgramCounter\<close> remembers whether an instruction has set it (\<open>used_\<close>), so that the
  wavefront does not also advance it. \<open>ModeReg\<close> and \<open>StatusReg\<close> are 32 bits with named
  fields. The C++ enumeration \<open>RegisterType\<close> is an integer on which the emulator calculates
  (\<open>RegisterType(i + S0)\<close>, \<open>reg - V0 + i\<close>), so register names are integers here, with a
  constant per named register.
\<close>

section \<open>Register names\<close>

type_synonym RegisterType = int

abbreviation (input) REG_PC :: RegisterType where "REG_PC \<equiv> 0"
abbreviation (input) REG_S0 :: RegisterType where "REG_S0 \<equiv> 1"
abbreviation (input) REG_S103 :: RegisterType where "REG_S103 \<equiv> 104"
abbreviation (input) REG_EXEC :: RegisterType where "REG_EXEC \<equiv> 105"
abbreviation (input) REG_SCC :: RegisterType where "REG_SCC \<equiv> 106"
abbreviation (input) REG_VCC :: RegisterType where "REG_VCC \<equiv> 107"
abbreviation (input) REG_FLAT_SCRATCH :: RegisterType where "REG_FLAT_SCRATCH \<equiv> 108"
abbreviation (input) REG_XNACK_MASK :: RegisterType where "REG_XNACK_MASK \<equiv> 109"
abbreviation (input) REG_STATUS :: RegisterType where "REG_STATUS \<equiv> 110"
abbreviation (input) REG_MODE :: RegisterType where "REG_MODE \<equiv> 111"
abbreviation (input) REG_M0 :: RegisterType where "REG_M0 \<equiv> 112"
abbreviation (input) REG_TRAPSTS :: RegisterType where "REG_TRAPSTS \<equiv> 113"
abbreviation (input) REG_TBA :: RegisterType where "REG_TBA \<equiv> 114"
abbreviation (input) REG_TMA :: RegisterType where "REG_TMA \<equiv> 115"
abbreviation (input) REG_TTMP0 :: RegisterType where "REG_TTMP0 \<equiv> 116"
abbreviation (input) REG_TTMP15 :: RegisterType where "REG_TTMP15 \<equiv> 131"
abbreviation (input) REG_VMCNT :: RegisterType where "REG_VMCNT \<equiv> 132"
abbreviation (input) REG_EXPCNT :: RegisterType where "REG_EXPCNT \<equiv> 133"
abbreviation (input) REG_LGKMCNT :: RegisterType where "REG_LGKMCNT \<equiv> 134"
abbreviation (input) REG_V0 :: RegisterType where "REG_V0 \<equiv> 135"
abbreviation (input) REG_V255 :: RegisterType where "REG_V255 \<equiv> 390"

definition is_s_reg :: "RegisterType \<Rightarrow> bool" where
  "is_s_reg r \<longleftrightarrow> REG_S0 \<le> r \<and> r \<le> REG_S103"

definition is_v_reg :: "RegisterType \<Rightarrow> bool" where
  "is_v_reg r \<longleftrightarrow> REG_V0 \<le> r \<and> r \<le> REG_V255"

section \<open>Program counter\<close>

record ProgramCounter =
  pc_value :: u64
  pc_used :: bool

definition new_pc :: "u64 \<Rightarrow> ProgramCounter" where
  "new_pc v = \<lparr>pc_value = v, pc_used = False\<rparr>"

definition pc_set_value :: "u64 \<Rightarrow> ProgramCounter \<Rightarrow> ProgramCounter" where
  "pc_set_value v pc = pc\<lparr>pc_value := v, pc_used := True\<rparr>"

definition pc_add :: "u64 \<Rightarrow> ProgramCounter \<Rightarrow> ProgramCounter" where
  "pc_add v pc = pc\<lparr>pc_value := pc_value pc + v, pc_used := True\<rparr>"

definition pc_hidden_add :: "u64 \<Rightarrow> ProgramCounter \<Rightarrow> ProgramCounter" where
  "pc_hidden_add v pc = pc\<lparr>pc_value := pc_value pc + v\<rparr>"

definition pc_get_value :: "ProgramCounter \<Rightarrow> u64" where
  "pc_get_value pc = pc_value pc"

definition pc_was_used :: "ProgramCounter \<Rightarrow> bool \<times> ProgramCounter" where
  "pc_was_used pc = (pc_used pc, pc\<lparr>pc_used := False\<rparr>)"

section \<open>Mode register\<close>

type_synonym ModeReg = u32

definition ModeReg_new :: "u32 \<Rightarrow> ModeReg" where
  "ModeReg_new i = i"

definition write_bit :: "nat \<Rightarrow> bool \<Rightarrow> u32 \<Rightarrow> u32" where
  "write_bit n b v = (if b then set_bit n v else unset_bit n v)"

definition mode_fp_round :: "ModeReg \<Rightarrow> u8" where
  "mode_fp_round v = to_u8 (v AND 0xe)"

definition mode_fp_denorm :: "ModeReg \<Rightarrow> u8" where
  "mode_fp_denorm v = to_u8 (drop_bit 4 v AND 0xe)"

definition mode_dx10_clamp :: "ModeReg \<Rightarrow> bool" where "mode_dx10_clamp v = bit v 8"
definition mode_ieee :: "ModeReg \<Rightarrow> bool" where "mode_ieee v = bit v 9"
definition mode_lod_clamped :: "ModeReg \<Rightarrow> bool" where "mode_lod_clamped v = bit v 10"
definition mode_debug :: "ModeReg \<Rightarrow> bool" where "mode_debug v = bit v 11"

definition mode_excp_en :: "ModeReg \<Rightarrow> u8" where
  "mode_excp_en v = to_u8 (drop_bit 12 v AND 0x7f)"

definition mode_fp16_ovfl :: "ModeReg \<Rightarrow> bool" where "mode_fp16_ovfl v = bit v 23"
definition mode_pops_packer0 :: "ModeReg \<Rightarrow> bool" where "mode_pops_packer0 v = bit v 24"
definition mode_pops_packer1 :: "ModeReg \<Rightarrow> bool" where "mode_pops_packer1 v = bit v 25"
definition mode_disable_perf :: "ModeReg \<Rightarrow> bool" where "mode_disable_perf v = bit v 26"
definition mode_gpr_idx_en :: "ModeReg \<Rightarrow> bool" where "mode_gpr_idx_en v = bit v 27"
definition mode_vskip :: "ModeReg \<Rightarrow> bool" where "mode_vskip v = bit v 28"

definition mode_csp :: "ModeReg \<Rightarrow> u8" where
  "mode_csp v = to_u8 (drop_bit 29 v AND 0xe)"

definition set_fp_round :: "u8 \<Rightarrow> ModeReg \<Rightarrow> ModeReg" where
  "set_fp_round i v = v OR to_u32 (i AND 0xe)"

definition set_fp_denorm :: "u8 \<Rightarrow> ModeReg \<Rightarrow> ModeReg" where
  "set_fp_denorm i v = v OR push_bit 4 (0 OR to_u32 (i AND 0xe))"

definition set_dx10_clamp :: "bool \<Rightarrow> ModeReg \<Rightarrow> ModeReg" where "set_dx10_clamp b v = write_bit 8 b v"
definition set_ieee :: "bool \<Rightarrow> ModeReg \<Rightarrow> ModeReg" where "set_ieee b v = write_bit 9 b v"
definition set_lod_clamped :: "bool \<Rightarrow> ModeReg \<Rightarrow> ModeReg" where
  "set_lod_clamped b v = write_bit 10 b v"
definition set_debug :: "bool \<Rightarrow> ModeReg \<Rightarrow> ModeReg" where "set_debug b v = write_bit 11 b v"

definition set_excp_en :: "u8 \<Rightarrow> ModeReg \<Rightarrow> ModeReg" where
  "set_excp_en i v = v OR push_bit 12 (0 OR to_u32 (i AND 0x3f))"

definition set_fp16_ovfl :: "bool \<Rightarrow> ModeReg \<Rightarrow> ModeReg" where "set_fp16_ovfl b v = write_bit 23 b v"
definition set_pops_packer0 :: "bool \<Rightarrow> ModeReg \<Rightarrow> ModeReg" where
  "set_pops_packer0 b v = write_bit 24 b v"
definition set_pops_packer1 :: "bool \<Rightarrow> ModeReg \<Rightarrow> ModeReg" where
  "set_pops_packer1 b v = write_bit 25 b v"
definition set_disable_perf :: "bool \<Rightarrow> ModeReg \<Rightarrow> ModeReg" where
  "set_disable_perf b v = write_bit 26 b v"
definition set_gpr_idx_en :: "bool \<Rightarrow> ModeReg \<Rightarrow> ModeReg" where
  "set_gpr_idx_en b v = write_bit 27 b v"
definition set_vskip :: "bool \<Rightarrow> ModeReg \<Rightarrow> ModeReg" where "set_vskip b v = write_bit 28 b v"

definition set_csp :: "u8 \<Rightarrow> ModeReg \<Rightarrow> ModeReg" where
  "set_csp i v = v OR push_bit 29 (0 OR to_u32 (i AND 0xe))"

section \<open>Status register\<close>

type_synonym StatusReg = u32

definition StatusReg_new :: "u32 \<Rightarrow> StatusReg" where
  "StatusReg_new i = i"

definition status_scc :: "StatusReg \<Rightarrow> bool" where "status_scc v = bit v 0"
definition set_status_scc :: "bool \<Rightarrow> StatusReg \<Rightarrow> StatusReg" where "set_status_scc b v = write_bit 0 b v"

definition status_spi_prio :: "StatusReg \<Rightarrow> u8" where
  "status_spi_prio v = to_u8 (drop_bit 1 v AND 0x3)"

definition status_wave_prio :: "StatusReg \<Rightarrow> u8" where
  "status_wave_prio v = to_u8 (drop_bit 3 v AND 0x3)"

definition status_priv :: "StatusReg \<Rightarrow> bool" where "status_priv v = bit v 5"
definition set_status_priv :: "bool \<Rightarrow> StatusReg \<Rightarrow> StatusReg" where
  "set_status_priv b v = write_bit 5 b v"
definition status_trap_en :: "StatusReg \<Rightarrow> bool" where "status_trap_en v = bit v 6"
definition status_ttrace_en :: "StatusReg \<Rightarrow> bool" where "status_ttrace_en v = bit v 7"
definition status_export_rdy :: "StatusReg \<Rightarrow> bool" where "status_export_rdy v = bit v 8"
definition status_execz :: "StatusReg \<Rightarrow> bool" where "status_execz v = bit v 9"
definition status_vccz :: "StatusReg \<Rightarrow> bool" where "status_vccz v = bit v 10"
definition status_in_tg :: "StatusReg \<Rightarrow> bool" where "status_in_tg v = bit v 11"
definition status_in_barrier :: "StatusReg \<Rightarrow> bool" where "status_in_barrier v = bit v 12"
definition status_halt :: "StatusReg \<Rightarrow> bool" where "status_halt v = bit v 13"
definition set_status_halt :: "bool \<Rightarrow> StatusReg \<Rightarrow> StatusReg" where
  "set_status_halt b v = write_bit 13 b v"
definition status_trap :: "StatusReg \<Rightarrow> bool" where "status_trap v = bit v 14"
definition status_ttrace_cu_en :: "StatusReg \<Rightarrow> bool" where "status_ttrace_cu_en v = bit v 15"
definition status_valid :: "StatusReg \<Rightarrow> bool" where "status_valid v = bit v 16"
definition status_ecc_err :: "StatusReg \<Rightarrow> bool" where "status_ecc_err v = bit v 17"
definition status_skip_export :: "StatusReg \<Rightarrow> bool" where "status_skip_export v = bit v 18"
definition status_perf_en :: "StatusReg \<Rightarrow> bool" where "status_perf_en v = bit v 19"
definition status_cond_dbg_user :: "StatusReg \<Rightarrow> bool" where "status_cond_dbg_user v = bit v 20"
definition status_cond_dbg_sys :: "StatusReg \<Rightarrow> bool" where "status_cond_dbg_sys v = bit v 21"
definition status_allow_replay :: "StatusReg \<Rightarrow> bool" where "status_allow_replay v = bit v 22"
definition status_must_export :: "StatusReg \<Rightarrow> bool" where "status_must_export v = bit v 27"

section \<open>Lemmas\<close>

lemma bit_write_bit [word_views]:
  "n < 32 \<Longrightarrow> bit (write_bit n b v) m = (if m = n then b else bit v m)"
  by (auto simp: write_bit_def bit_simps)

lemma write_bit_write_bit [simp]: "n < 32 \<Longrightarrow> write_bit n b (write_bit n c v) = write_bit n b v"
  by (rule word_eq_bitsI) (auto simp: word_views)

lemma pc_was_used_simps [simp]:
  "pc_was_used (pc_set_value v pc) = (True, pc\<lparr>pc_value := v, pc_used := False\<rparr>)"
  "pc_was_used (pc_add v pc) = (True, pc\<lparr>pc_value := pc_value pc + v, pc_used := False\<rparr>)"
  by (simp_all add: pc_was_used_def pc_set_value_def pc_add_def)

lemma upto_8: "[0..<8] = [0, 1, 2, 3, 4, 5, 6, 7 :: nat]"
  by (simp add: upt_rec numeral_2_eq_2 [symmetric])

lemma word8_eqI:
  fixes x y :: u8
  assumes "list_all (\<lambda>n. bit x n = bit y n) [0, 1, 2, 3, 4, 5, 6, 7]"
  shows "x = y"
proof (rule word_eq_bitsI)
  fix n
  assume "n < LENGTH(8)"
  moreover have "\<forall>n<8. bit x n = bit y n"
    using assms unfolding all_less_upt upto_8 .
  ultimately show "bit x n = bit y n" by simp
qed

text \<open>
  The stack pointer field \<open>csp\<close> is three bits wide. What the setter stores never clears a bit
  that was set, and loses the lowest of the three.
\<close>

lemma mode_csp_set_csp: "mode_csp (set_csp i v) = mode_csp v OR (i AND 6)"
  by (rule word8_eqI)
    (simp add: mode_csp_def set_csp_def bit_simps numeral_2_eq_2 [symmetric]
      numeral_3_eq_3 [symmetric])

lemma mode_csp_even: "\<not> bit (mode_csp v) 0"
  by (simp add: mode_csp_def bit_simps)

end
