(* ===== verification/Instructions.thy ===== *)
theory Instructions
  imports InstrInfo Registers
begin

text \<open>
  Instructions, operands and the code of a kernel (\<open>common/model/instr/instruction.h\<close>,
  \<open>instruction.cpp\<close>). The variant of an operand holds an \<open>int\<close>, a \<open>uint32_t\<close>, a
  \<open>float\<close> (kept as its 32 bits) or a register name; \<open>std::get\<close> of another alternative
  throws \<open>std::bad_variant_access\<close>. The code of a kernel maps addresses to instructions.
\<close>

section \<open>Operands\<close>

datatype OperandType = REGISTER | FLOAT_CONST | INT_CONST | LITERAL_CONST | LABEL

datatype OperandValue = IntV u32 | UintV u32 | FloatV u32 | RegV RegisterType

record Operand =
  op_type :: OperandType
  op_value :: OperandValue
  op_regAmount :: nat

fun get_int :: "OperandValue \<Rightarrow> u32 result" where
  "get_int (IntV i) = Inr i"
| "get_int _ = Inl Bad_variant_access"

fun get_uint :: "OperandValue \<Rightarrow> u32 result" where
  "get_uint (UintV i) = Inr i"
| "get_uint _ = Inl Bad_variant_access"

fun get_float :: "OperandValue \<Rightarrow> u32 result" where
  "get_float (FloatV f) = Inr f"
| "get_float _ = Inl Bad_variant_access"

fun get_reg :: "OperandValue \<Rightarrow> RegisterType result" where
  "get_reg (RegV r) = Inr r"
| "get_reg _ = Inl Bad_variant_access"

section \<open>Instructions\<close>

record Instruction =
  in_key :: InstrKey
  in_format :: InstrFormat
  in_widthInBytes :: nat
  in_addr :: u32
  in_rawInstruction :: string
  in_originalLine :: string
  in_operands :: "Operand list"

definition new_instruction :: "u32 \<Rightarrow> string \<Rightarrow> string \<Rightarrow> Operand list \<Rightarrow> Instruction result" where
  "new_instruction addr instr originalLine args =
     bindE (get_instr_key instr) (\<lambda>key. Inr
       \<lparr>in_key = key, in_format = UNDEFINED, in_widthInBytes = 0, in_addr = addr,
        in_rawInstruction = instr, in_originalLine = originalLine, in_operands = args\<rparr>)"

definition operand :: "Instruction \<Rightarrow> nat \<Rightarrow> Operand result" where
  "operand instr index =
     (if index < length (in_operands instr) then Inr (in_operands instr ! index)
      else Inl (Assert_failed ''index < operands.size()''))"

definition get_operands_count :: "Instruction \<Rightarrow> nat" where
  "get_operands_count instr = length (in_operands instr)"

definition set_width_and_format :: "nat \<Rightarrow> Instruction \<Rightarrow> Instruction result" where
  "set_width_and_format width instr =
     bindE (get_instr_format (in_key instr) width)
       (\<lambda>f. Inr (instr\<lparr>in_widthInBytes := width, in_format := f\<rparr>))"

definition get_width :: "Instruction \<Rightarrow> nat result" where
  "get_width instr =
     (if in_widthInBytes instr \<noteq> 4 \<and> in_widthInBytes instr \<noteq> 8
      then bindE (get_mnemonic (in_key instr))
             (\<lambda>m. Inl (Runtime_error (''Wrong instruction widthInBytes ''
                @ show_nat (in_widthInBytes instr) @ '' for '' @ m)))
      else Inr (in_widthInBytes instr))"

section \<open>Kernel code\<close>

record Label =
  lb_name :: string
  lb_addr :: u32

record KernelCode =
  kc_code :: "u64 \<rightharpoonup> Instruction"
  kc_labels :: "u64 \<rightharpoonup> Label"

definition new_code :: KernelCode where
  "new_code = \<lparr>kc_code = Map.empty, kc_labels = Map.empty\<rparr>"

definition get_instr :: "KernelCode \<Rightarrow> u64 \<Rightarrow> Instruction result" where
  "get_instr kc address =
     (if unat address mod 4 \<noteq> 0 then Inl (Assert_failed ''Wrong instr address: not a multiple of 4'')
      else case kc_code kc address of
        None \<Rightarrow> Inl (Assert_failed ''Wrong instruction address: instr is nullptr'')
      | Some i \<Rightarrow> Inr i)"

definition add_instr ::
  "u32 \<Rightarrow> string \<Rightarrow> string \<Rightarrow> Operand list \<Rightarrow> KernelCode \<Rightarrow> KernelCode result" where
  "add_instr addr instr originalLine args kc =
     bindE (new_instruction addr instr originalLine args)
       (\<lambda>i. Inr (kc\<lparr>kc_code := (kc_code kc)(to_u64 addr \<mapsto> i)\<rparr>))"

definition add_label :: "u32 \<Rightarrow> string \<Rightarrow> KernelCode \<Rightarrow> KernelCode" where
  "add_label addr name kc =
     kc\<lparr>kc_labels := (kc_labels kc)(to_u64 addr \<mapsto> \<lparr>lb_name = name, lb_addr = addr\<rparr>)\<rparr>"

section \<open>Lemmas\<close>

lemma operand_Inr_iff [result_simps]:
  "operand i k = Inr x \<longleftrightarrow> k < length (in_operands i) \<and> x = in_operands i ! k"
  by (auto simp: operand_def)

lemma get_reg_Inr_iff [result_simps]: "get_reg v = Inr r \<longleftrightarrow> v = RegV r"
  by (cases v) auto

lemma get_width_Inr: "get_width i = Inr w \<Longrightarrow> w = in_widthInBytes i \<and> (w = 4 \<or> w = 8)"
  by (auto simp: get_width_def result_simps split: if_splits)

lemma get_instr_add_instr:
  assumes "add_instr addr m l args kc = Inr kc'" and "unat addr mod 4 = 0"
  shows "get_instr kc' a =
    (if a = to_u64 addr then new_instruction addr m l args else get_instr kc a)"
proof -
  from assms(1) obtain i where "new_instruction addr m l args = Inr i"
    and "kc' = kc\<lparr>kc_code := (kc_code kc)(to_u64 addr \<mapsto> i)\<rparr>"
    by (auto simp: add_instr_def result_simps)
  moreover have "unat (to_u64 addr) = unat addr"
    by (simp add: unsigned_ucast_eq take_bit_nat_eq_self_iff unsigned_less less_trans [OF unsigned_less])
  ultimately show ?thesis using assms(2) by (simp add: get_instr_def)
qed

lemma get_instr_format_row:
  assumes "get_instr_key m = Inr k"
  shows "\<exists>f. get_instr_format k w = Inr f
     \<and> f \<in> {SOP1, SOP2, SOPK, SOPP, SMEM, SOPC, VOP1, VOP2, VOPC, VOP3A, VOP3B, FLAT}"
proof -
  obtain v where v: "v \<in> set instructionRepo" "iv_key v = k"
    using assms by (rule get_instr_key_row)
  show ?thesis
    using row_formats [OF v(1)] find_key [OF v(1)] v(2)
    by (auto simp: get_instr_format_def Let_def)
qed

end
