(* ===== verification/Wavefronts.thy ===== *)
theory Wavefronts
  imports Instructions
begin

text \<open>
  A wavefront (\<open>emulator/src/flow/wavefront.h\<close>, \<open>wavefront.cpp\<close>): its register files and
  special registers, the reading and writing of instruction operands, and the record that each
  instruction format works on (\<open>wf_state.h\<close>), filled from the wavefront by a \<open>get_\<close>
  function and written back by an \<open>update_with_\<close> function.

  The C++ records point to the program counter, mode and status registers of the wavefront. Here
  the records hold copies, and the \<open>sync_\<close> functions write the copies back before the rest of
  the record is stored, which is what the aliasing pointers amount to. The lane argument of an
  operand access is an \<open>int\<close> whose value -1 means that there is no lane.
\<close>

unbundle bit_operations_syntax

section \<open>The wavefront\<close>

record Wavefront =
  scalarRegFile :: "u32 list"
  vectorRegFile :: "u32 list"
  statusReg :: StatusReg
  modeReg :: ModeReg
  programCounter :: ProgramCounter
  execReg :: u64
  vccReg :: u64
  m0Reg :: u32
  sccReg :: bool
  atBarrier :: bool
  wf_id :: nat
  wf_size :: nat
  sgprsnum :: nat
  vgprsnum :: nat
  completed :: bool

abbreviation (input) WAVEFRONT_SIZE :: nat where "WAVEFRONT_SIZE \<equiv> 64"

definition new_wavefront :: "nat \<Rightarrow> nat \<Rightarrow> nat \<Rightarrow> nat \<Rightarrow> Wavefront" where
  "new_wavefront wfSize wfInd sgprnum vgprnum =
     \<lparr>scalarRegFile = replicate sgprnum 0, vectorRegFile = replicate (WAVEFRONT_SIZE * vgprnum) 0,
      statusReg = StatusReg_new 0, modeReg = ModeReg_new 0, programCounter = new_pc 0,
      execReg = 0, vccReg = 0, m0Reg = 0, sccReg = False, atBarrier = False,
      wf_id = wfInd, wf_size = wfSize, sgprsnum = sgprnum, vgprsnum = vgprnum, completed = False\<rparr>"

definition evaluate_exec_reg_value :: "nat \<Rightarrow> u64 result" where
  "evaluate_exec_reg_value wfSize =
     (if wfSize > 64 then Inl (Assert_failed ''Wavefront size can not be greater than 64'')
      else if wfSize = 64 then Inr (- 1)
      else Inr (push_bit wfSize 1 - 1))"

definition get_cur_instr :: "KernelCode \<Rightarrow> Wavefront \<Rightarrow> Instruction result" where
  "get_cur_instr kc wave = get_instr kc (pc_get_value (programCounter wave))"

text \<open>
  The used flag is cleared by the test. When the width of the instruction is wrong,
  \<open>get_width\<close> throws with the flag cleared and the program counter as it was.
\<close>

definition to_next_instr :: "KernelCode \<Rightarrow> (Wavefront, unit) M" where
  "to_next_instr kc wave =
     (let (used, pc) = pc_was_used (programCounter wave);
          wave' = wave\<lparr>programCounter := pc\<rparr>
      in if used then (Inr (), wave')
         else case bindE (get_cur_instr kc wave') get_width of
             Inl e \<Rightarrow> (Inl e, wave')
           | Inr w \<Rightarrow> (Inr (), wave'\<lparr>programCounter := pc_hidden_add (of_nat w) pc\<rparr>))"

definition work_item_masked :: "Wavefront \<Rightarrow> nat \<Rightarrow> bool" where
  "work_item_masked wave wiInd = (execReg wave AND push_bit wiInd 1 \<noteq> 0)"

section \<open>Register files\<close>

definition set_vgpr :: "nat \<Rightarrow> nat \<Rightarrow> u32 \<Rightarrow> Wavefront \<Rightarrow> Wavefront result" where
  "set_vgpr wiInd vInd value wave =
     (let ind = wiInd * vgprsnum wave + vInd
      in bindE (assertE (ind < length (vectorRegFile wave)) ''Vector register is out of range'')
           (\<lambda>_. Inr (wave\<lparr>vectorRegFile := (vectorRegFile wave)[ind := value]\<rparr>)))"

definition read_vgpr :: "nat \<Rightarrow> nat \<Rightarrow> Wavefront \<Rightarrow> u32 result" where
  "read_vgpr wiInd vInd wave =
     (let ind = wiInd * vgprsnum wave + vInd
      in bindE (assertE (ind < length (vectorRegFile wave)) ''Vector register is out of range'')
           (\<lambda>_. Inr (vectorRegFile wave ! ind)))"

text \<open>\<open>scalarRegFile[i]\<close> is not checked here: out of range is undefined.\<close>

definition set_scalar :: "nat \<Rightarrow> u32 \<Rightarrow> Wavefront \<Rightarrow> Wavefront result" where
  "set_scalar i v wave =
     bindE (definedE (i < length (scalarRegFile wave)) ''scalar register index'')
       (\<lambda>_. Inr (wave\<lparr>scalarRegFile := (scalarRegFile wave)[i := v]\<rparr>))"

definition set_sgpr_pair :: "nat \<Rightarrow> u64 \<Rightarrow> Wavefront \<Rightarrow> Wavefront result" where
  "set_sgpr_pair sgprInd data wave =
     bindE (assertE (sgprInd mod 2 = 0) ''SGPR-pair should be aligned'') (\<lambda>_.
     bindE (set_scalar sgprInd (to_u32 data) wave)
       (set_scalar (sgprInd + 1) (to_u32 (drop_bit 32 data))))"

definition read_sgpr_pair :: "nat \<Rightarrow> Wavefront \<Rightarrow> u64 result" where
  "read_sgpr_pair sgprInd wave =
     bindE (assertE (sgprInd mod 2 = 0) ''SGPR-pair should be aligned'') (\<lambda>_.
     bindE (definedE (sgprInd + 1 < length (scalarRegFile wave)) ''scalar register index'') (\<lambda>_.
     Inr (to_u64 (scalarRegFile wave ! sgprInd)
          OR push_bit 32 (to_u64 (scalarRegFile wave ! (sgprInd + 1))))))"

section \<open>Operands\<close>

definition read_reg_operand :: "Operand \<Rightarrow> int \<Rightarrow> Wavefront \<Rightarrow> u32 list result" where
  "read_reg_operand op wiInd wave =
     bindE (get_reg (op_value op)) (\<lambda>regType.
     if is_s_reg regType then
       mapE (\<lambda>i. let curSReg = nat (regType - REG_S0) + i in
           bindE (assertE (curSReg < length (scalarRegFile wave)) ''Scalar register is out of range'')
             (\<lambda>_. Inr (scalarRegFile wave ! curSReg)))
         (rev [0..<op_regAmount op])
     else if is_v_reg regType then
       bindE (assertE (wiInd \<noteq> - 1) ''Illegal state'') (\<lambda>_.
       mapE (\<lambda>i. read_vgpr (nat wiInd) (nat (regType - REG_V0) + i) wave) (rev [0..<op_regAmount op]))
     else if regType = REG_EXEC then Inr [to_u32 (drop_bit 32 (execReg wave)), to_u32 (execReg wave)]
     else if regType = REG_SCC then Inr [of_bool (sccReg wave)]
     else if regType = REG_VCC then Inr [to_u32 (drop_bit 32 (vccReg wave)), to_u32 (vccReg wave)]
     else if regType = REG_M0 then Inr [m0Reg wave]
     else Inl (Assert_failed ''Another register types are unsupported yet''))"

definition read_operand :: "Operand \<Rightarrow> int \<Rightarrow> Wavefront \<Rightarrow> u32 list result" where
  "read_operand op wiInd wave =
     (case op_type op of
        FLOAT_CONST \<Rightarrow> bindE (get_float (op_value op)) (\<lambda>f. Inr [f])
      | INT_CONST \<Rightarrow> bindE (get_int (op_value op)) (\<lambda>i. Inr [i])
      | LABEL \<Rightarrow> bindE (get_uint (op_value op)) (\<lambda>u. Inr [u])
      | LITERAL_CONST \<Rightarrow> bindE (get_uint (op_value op)) (\<lambda>u. Inr [u])
      | REGISTER \<Rightarrow> read_reg_operand op wiInd wave)"

definition join_words :: "u32 list \<Rightarrow> u64" where
  "join_words data =
     (push_bit 32 (to_u64 (data ! (length data - 2))) OR to_u64 (data ! (length data - 1)))"

definition write_data_to_gpr :: "Operand \<Rightarrow> u32 list \<Rightarrow> int \<Rightarrow> Wavefront \<Rightarrow> Wavefront result" where
  "write_data_to_gpr op data wiInd wave =
     bindE (get_reg (op_value op)) (\<lambda>reg.
     if is_s_reg reg then
       bindE (assertE (length data = op_regAmount op) ''data.size() == operand.regAmount'') (\<lambda>_.
       foldE (\<lambda>i w. let curReg = nat (reg - REG_S0) + i in
           bindE (assertE (curReg < length (scalarRegFile w)) ''Scalar register is out of range'')
             (\<lambda>_. set_scalar curReg (data ! (length data - 1 - i)) w))
         [0..<op_regAmount op] wave)
     else if is_v_reg reg then
       bindE (assertE (length data = op_regAmount op) ''data.size() == operand.regAmount'') (\<lambda>_.
       bindE (assertE (wiInd \<noteq> - 1) ''wiInd != -1'') (\<lambda>_.
       foldE (\<lambda>i w. let vRegInd = nat (reg - REG_V0) + i in
           bindE (assertE (vRegInd < length (vectorRegFile w)) ''Vector register is out of range'')
             (\<lambda>_. set_vgpr (nat wiInd) vRegInd (data ! (length data - 1 - i)) w))
         [0..<op_regAmount op] wave))
     else if reg = REG_VCC then
       bindE (assertE (length data = 2) ''data.size() == 2'')
         (\<lambda>_. Inr (wave\<lparr>vccReg := join_words data\<rparr>))
     else if reg = REG_EXEC then
       bindE (assertE (length data = 2) ''data.size() == 2'')
         (\<lambda>_. Inr (wave\<lparr>execReg := join_words data\<rparr>))
     else Inr wave)"

definition write_data64_to_gpr :: "Operand \<Rightarrow> u64 \<Rightarrow> int \<Rightarrow> Wavefront \<Rightarrow> Wavefront result" where
  "write_data64_to_gpr op data wiInd wave =
     bindE (assertE (op_type op = REGISTER) ''operand.type == REGISTER'') (\<lambda>_.
     bindE (assertE (op_regAmount op \<le> 2) ''operand.regAmount <= 2'') (\<lambda>_.
     write_data_to_gpr op
       ((if op_regAmount op = 2 then [to_u32 (drop_bit 32 data)] else []) @ [to_u32 data])
       wiInd wave))"

definition write_operand_to_gpr :: "Operand \<Rightarrow> u64 \<Rightarrow> Wavefront \<Rightarrow> Wavefront result" where
  "write_operand_to_gpr op data wave = write_data64_to_gpr op data (- 1) wave"

text \<open>The operand of an instruction, read and packed into 64 bits.\<close>

definition read_arg64 :: "Instruction \<Rightarrow> nat \<Rightarrow> int \<Rightarrow> Wavefront \<Rightarrow> u64 result" where
  "read_arg64 instr k wiInd wave =
     bindE (operand instr k) (\<lambda>op. bindE (read_operand op wiInd wave) to_uin64_t)"

text \<open>
  The rows of a vector instruction: for each lane, the operands numbered \<open>ks\<close>, in the order
  in which the code reads them. \<open>column j\<close> is the vector the code calls VDST, SRC0 and so on.
\<close>

definition read_lanes :: "Instruction \<Rightarrow> nat list \<Rightarrow> Wavefront \<Rightarrow> u64 list list result" where
  "read_lanes instr ks wave =
     mapE (\<lambda>i. mapE (\<lambda>k. read_arg64 instr k (int i) wave) ks) [0..<wf_size wave]"

definition column :: "nat \<Rightarrow> u64 list list \<Rightarrow> u64 list" where
  "column j rows = map (\<lambda>row. row ! j) rows"

definition write_lanes :: "Instruction \<Rightarrow> nat \<Rightarrow> u64 list \<Rightarrow> Wavefront \<Rightarrow> Wavefront result" where
  "write_lanes instr k vals wave =
     foldE (\<lambda>i w. bindE (operand instr k) (\<lambda>op. write_data64_to_gpr op (vals ! i) (int i) w))
       [0..<wf_size wave] wave"

section \<open>Scalar instruction states\<close>

text \<open>
  \<open>DEST_TYPE\<close> and \<open>SRC0_TYPE\<close> have no initialiser: \<open>None\<close> is an indeterminate value.
\<close>

record WfStateSOP1 =
  SOP1_SDST :: u64
  SOP1_SSRC0 :: u64
  SOP1_EXEC :: u64
  SOP1_DEST_TYPE :: "RegisterType option"
  SOP1_SRC0_TYPE :: "RegisterType option"
  SOP1_M0 :: u32
  SOP1_PC :: ProgramCounter
  SOP1_MODE :: ModeReg
  SOP1_STATUS :: StatusReg
  SOP1_SCC :: bool

record WfStateSOP2 =
  SOP2_SDST :: u64
  SOP2_SSRC0 :: u64
  SOP2_SSRC1 :: u64
  SOP2_EXEC :: u64
  SOP2_PC :: ProgramCounter
  SOP2_MODE :: ModeReg
  SOP2_STATUS :: StatusReg
  SOP2_SCC :: bool

record WfStateSOPP =
  SOPP_RELADDR :: u64
  SOPP_EXEC :: u64
  SOPP_VCC :: u64
  SOPP_M0 :: u32
  SOPP_SIMM16 :: u32
  SOPP_PC :: ProgramCounter
  SOPP_STATUS :: StatusReg
  SOPP_MODE :: ModeReg
  SOPP_SCC :: bool

record WfStateSOPC =
  SOPC_SSRC0 :: u64
  SOPC_SSRC1 :: u64
  SOPC_M0 :: u32
  SOPC_MODE :: ModeReg
  SOPC_SCC :: bool

record WfStateSOPK =
  SOPK_SDST :: u64
  SOPK_SSRC0 :: u64
  SOPK_RELADDR :: u64
  SOPK_PC :: ProgramCounter
  SOPK_IMM16 :: u32
  SOPK_SCC :: bool

definition get_sop1_state :: "Instruction \<Rightarrow> Wavefront \<Rightarrow> WfStateSOP1 result" where
  "get_sop1_state instr wave =
     bindE (assertE (get_operands_count instr \<le> 2) ''Unexpected operands count for SOP1'') (\<lambda>_.
     let state = \<lparr>SOP1_SDST = 0, SOP1_SSRC0 = 0, SOP1_EXEC = execReg wave, SOP1_DEST_TYPE = None,
           SOP1_SRC0_TYPE = None, SOP1_M0 = m0Reg wave, SOP1_PC = programCounter wave,
           SOP1_MODE = modeReg wave, SOP1_STATUS = statusReg wave, SOP1_SCC = sccReg wave\<rparr>
     in if get_operands_count instr < 2 then Inr state
        else
          bindE (read_arg64 instr 0 (- 1) wave) (\<lambda>sdst.
          bindE (read_arg64 instr 1 (- 1) wave) (\<lambda>ssrc0.
          bindE (bindE (operand instr 0) (\<lambda>op. get_reg (op_value op))) (\<lambda>destType.
          bindE (bindE (operand instr 1) (\<lambda>op. get_reg (op_value op))) (\<lambda>srcType.
          Inr (state\<lparr>SOP1_SDST := sdst, SOP1_SSRC0 := ssrc0, SOP1_DEST_TYPE := Some destType,
            SOP1_SRC0_TYPE := Some srcType\<rparr>))))))"

definition sync_sop1 :: "WfStateSOP1 \<Rightarrow> Wavefront \<Rightarrow> Wavefront" where
  "sync_sop1 state wave = wave\<lparr>programCounter := SOP1_PC state, modeReg := SOP1_MODE state,
     statusReg := SOP1_STATUS state\<rparr>"

definition update_with_sop1_state :: "Instruction \<Rightarrow> WfStateSOP1 \<Rightarrow> Wavefront \<Rightarrow> Wavefront result" where
  "update_with_sop1_state instr state wave =
     bindE (assertE (get_operands_count instr \<le> 2) ''Unexpected operands count for SOP1'') (\<lambda>_.
     let wave' = wave\<lparr>execReg := SOP1_EXEC state, m0Reg := SOP1_M0 state, sccReg := SOP1_SCC state\<rparr>
     in if get_operands_count instr < 2 then Inr wave'
        else bindE (operand instr 0) (\<lambda>op. write_operand_to_gpr op (SOP1_SDST state) wave'))"

definition get_sop2_state :: "Instruction \<Rightarrow> Wavefront \<Rightarrow> WfStateSOP2 result" where
  "get_sop2_state instr wave =
     bindE (assertE (get_operands_count instr \<le> 3) ''Unexpected operands count for SOP2'') (\<lambda>_.
     let state = \<lparr>SOP2_SDST = 0, SOP2_SSRC0 = 0, SOP2_SSRC1 = 0, SOP2_EXEC = execReg wave,
           SOP2_PC = programCounter wave, SOP2_MODE = modeReg wave, SOP2_STATUS = statusReg wave,
           SOP2_SCC = sccReg wave\<rparr>
     in if get_operands_count instr < 3 then Inr state
        else
          bindE (read_arg64 instr 0 (- 1) wave) (\<lambda>sdst.
          bindE (read_arg64 instr 1 (- 1) wave) (\<lambda>ssrc0.
          bindE (read_arg64 instr 2 (- 1) wave) (\<lambda>ssrc1.
          Inr (state\<lparr>SOP2_SDST := sdst, SOP2_SSRC0 := ssrc0, SOP2_SSRC1 := ssrc1\<rparr>)))))"

definition sync_sop2 :: "WfStateSOP2 \<Rightarrow> Wavefront \<Rightarrow> Wavefront" where
  "sync_sop2 state wave = wave\<lparr>programCounter := SOP2_PC state, modeReg := SOP2_MODE state,
     statusReg := SOP2_STATUS state\<rparr>"

definition update_with_sop2_state :: "Instruction \<Rightarrow> WfStateSOP2 \<Rightarrow> Wavefront \<Rightarrow> Wavefront result" where
  "update_with_sop2_state instr state wave =
     bindE (assertE (get_operands_count instr \<le> 3) ''Unexpected operands count for SOP2'') (\<lambda>_.
     let wave' = wave\<lparr>execReg := SOP2_EXEC state, sccReg := SOP2_SCC state\<rparr>
     in if get_operands_count instr < 3 then Inr wave'
        else bindE (operand instr 0) (\<lambda>op. write_operand_to_gpr op (SOP2_SDST state) wave'))"

definition get_sopk_state0 :: "Wavefront \<Rightarrow> WfStateSOPK" where
  "get_sopk_state0 wave = \<lparr>SOPK_SDST = 0, SOPK_SSRC0 = 0, SOPK_RELADDR = 0,
     SOPK_PC = programCounter wave, SOPK_IMM16 = 0, SOPK_SCC = sccReg wave\<rparr>"

definition get_sopk_state :: "Instruction \<Rightarrow> Wavefront \<Rightarrow> WfStateSOPK result" where
  "get_sopk_state instr wave =
     bindE (assertE (get_operands_count instr = 2) ''Unexpected operands count for SOPK'') (\<lambda>_.
     bindE (read_arg64 instr 0 (- 1) wave) (\<lambda>sdst.
     bindE (read_arg64 instr 1 (- 1) wave) (\<lambda>imm16.
     Inr ((get_sopk_state0 wave)\<lparr>SOPK_SDST := sdst, SOPK_IMM16 := to_u32 imm16\<rparr>))))"

definition sync_sopk :: "WfStateSOPK \<Rightarrow> Wavefront \<Rightarrow> Wavefront" where
  "sync_sopk state wave = wave\<lparr>programCounter := SOPK_PC state\<rparr>"

definition update_with_sopk_state :: "Instruction \<Rightarrow> WfStateSOPK \<Rightarrow> Wavefront \<Rightarrow> Wavefront result" where
  "update_with_sopk_state instr state wave =
     bindE (operand instr 0)
       (\<lambda>op. write_operand_to_gpr op (SOPK_SDST state) (wave\<lparr>sccReg := SOPK_SCC state\<rparr>))"

text \<open>The record is built with \<open>execReg\<close> where its constructor takes \<open>M0\<close>.\<close>

definition get_sopc_state :: "Instruction \<Rightarrow> Wavefront \<Rightarrow> WfStateSOPC result" where
  "get_sopc_state instr wave =
     bindE (assertE (get_operands_count instr = 2) ''Unexpected operands count for SOP2'') (\<lambda>_.
     bindE (read_arg64 instr 0 (- 1) wave) (\<lambda>ssrc0.
     bindE (read_arg64 instr 1 (- 1) wave) (\<lambda>ssrc1.
     Inr \<lparr>SOPC_SSRC0 = ssrc0, SOPC_SSRC1 = ssrc1, SOPC_M0 = to_u32 (execReg wave),
          SOPC_MODE = modeReg wave, SOPC_SCC = sccReg wave\<rparr>)))"

definition sync_sopc :: "WfStateSOPC \<Rightarrow> Wavefront \<Rightarrow> Wavefront" where
  "sync_sopc state wave = wave\<lparr>modeReg := SOPC_MODE state\<rparr>"

definition update_with_sopc_state :: "WfStateSOPC \<Rightarrow> Wavefront \<Rightarrow> Wavefront" where
  "update_with_sopc_state state wave = wave\<lparr>sccReg := SOPC_SCC state, m0Reg := SOPC_M0 state\<rparr>"

definition get_common_sopp_state :: "Wavefront \<Rightarrow> WfStateSOPP" where
  "get_common_sopp_state wave = \<lparr>SOPP_RELADDR = 0, SOPP_EXEC = execReg wave, SOPP_VCC = vccReg wave,
     SOPP_M0 = m0Reg wave, SOPP_SIMM16 = 0, SOPP_PC = programCounter wave,
     SOPP_STATUS = statusReg wave, SOPP_MODE = modeReg wave, SOPP_SCC = sccReg wave\<rparr>"

definition sync_sopp :: "WfStateSOPP \<Rightarrow> Wavefront \<Rightarrow> Wavefront" where
  "sync_sopp state wave = wave\<lparr>programCounter := SOPP_PC state, modeReg := SOPP_MODE state,
     statusReg := SOPP_STATUS state\<rparr>"

definition update_with_common_sopp_state :: "WfStateSOPP \<Rightarrow> Wavefront \<Rightarrow> Wavefront" where
  "update_with_common_sopp_state state wave =
     wave\<lparr>execReg := SOPP_EXEC state, vccReg := SOPP_VCC state, sccReg := SOPP_SCC state\<rparr>"

section \<open>Memory and vector instruction states\<close>

record WfStateSMEM =
  SMEM_BASE :: u64
  SMEM_OFFSET :: u64
  SMEM_SDST :: "u32 list"

record WfStateVOP1 =
  VOP1_VDST :: "u64 list"
  VOP1_SRC0 :: "u64 list"

record WfStateVOP2 =
  VOP2_VDST :: "u64 list"
  VOP2_SRC0 :: "u64 list"
  VOP2_SRC1 :: "u64 list"
  VOP2_VCC :: u64
  VOP2_CLAMP :: bool

record WfStateVOP3 =
  VOP3_CLAMP :: bool
  VOP3_VDST :: "u64 list"
  VOP3_SRC0 :: "u64 list"
  VOP3_SRC1 :: "u64 list"
  VOP3_SRC2 :: "u64 list"
  VOP3_VCC :: u64

record WfStateFLATStore =
  FS_VADDR :: "u64 list"
  FS_VDATA :: "u32 list"
  FS_vdataAmountPerWi :: nat

record WfStateFLATLoad =
  FL_VADDR :: "u64 list"
  FL_VDST :: "u32 list"
  FL_vdstAmountPerWi :: nat

record WfStateFLATAtomic =
  FA_VADDR :: "u64 list"
  FA_VDST :: "u32 list"
  FA_VDATA :: "u32 list"
  FA_GLC :: bool

record WfStateVOPC =
  VOPC_EXEC :: u64
  VOPC_SDST :: u64
  VOPC_SRC0 :: "u64 list"
  VOPC_SRC1 :: "u64 list"

definition get_smem_state :: "Instruction \<Rightarrow> Wavefront \<Rightarrow> WfStateSMEM result" where
  "get_smem_state instr wave =
     bindE (assertE (get_operands_count instr = 3)
              ''Unexpected amount of operands for SMEM instruction'') (\<lambda>_.
     bindE (bindE (operand instr 1) (\<lambda>op. read_operand op (- 1) wave)) (\<lambda>base.
     bindE (bindE (operand instr 2) (\<lambda>op. read_operand op (- 1) wave)) (\<lambda>offset.
     bindE (to_uin64_t base) (\<lambda>b.
     bindE (to_uin64_t offset) (\<lambda>off.
     bindE (bindE (operand instr 0) (\<lambda>op. read_operand op (- 1) wave)) (\<lambda>sdst.
     Inr \<lparr>SMEM_BASE = b, SMEM_OFFSET = off, SMEM_SDST = sdst\<rparr>))))))"

definition update_with_smem_state :: "Instruction \<Rightarrow> WfStateSMEM \<Rightarrow> Wavefront \<Rightarrow> Wavefront result" where
  "update_with_smem_state instr state wave =
     bindE (operand instr 0) (\<lambda>op. write_data_to_gpr op (SMEM_SDST state) (- 1) wave)"

definition get_vop1_state :: "Instruction \<Rightarrow> Wavefront \<Rightarrow> WfStateVOP1 result" where
  "get_vop1_state instr wave =
     bindE (assertE (get_operands_count instr = 2)
              ''Unexpected amount of operands for VOP1 instruction'') (\<lambda>_.
     bindE (read_lanes instr [0, 1] wave) (\<lambda>rows.
     Inr \<lparr>VOP1_VDST = column 0 rows, VOP1_SRC0 = column 1 rows\<rparr>))"

definition update_with_vop1_state :: "Instruction \<Rightarrow> WfStateVOP1 \<Rightarrow> Wavefront \<Rightarrow> Wavefront result" where
  "update_with_vop1_state instr state wave = write_lanes instr 0 (VOP1_VDST state) wave"

text \<open>The second operand of the five is VCC and so is the last: carry out and carry in.\<close>

definition is_vcc_operand :: "Instruction \<Rightarrow> nat \<Rightarrow> bool result" where
  "is_vcc_operand instr k =
     bindE (operand instr k) (\<lambda>op. bindE (get_reg (op_value op)) (\<lambda>r. Inr (r = REG_VCC)))"

definition is_register_operand :: "Instruction \<Rightarrow> nat \<Rightarrow> bool result" where
  "is_register_operand instr k = bindE (operand instr k) (\<lambda>op. Inr (op_type op = REGISTER))"

definition and_also :: "bool result \<Rightarrow> bool result \<Rightarrow> bool result" where
  "and_also a b = bindE a (\<lambda>x. if x then b else Inr False)"

definition get_vop2_state :: "Instruction \<Rightarrow> Wavefront \<Rightarrow> WfStateVOP2 result" where
  "get_vop2_state instr wave =
     (let state = (\<lambda>rows. \<lparr>VOP2_VDST = column 0 rows, VOP2_SRC0 = column 1 rows,
            VOP2_SRC1 = column 2 rows, VOP2_VCC = vccReg wave,
            VOP2_CLAMP = mode_dx10_clamp (modeReg wave)\<rparr>)
      in if get_operands_count instr = 3 then
           bindE (read_lanes instr [0, 1, 2] wave) (\<lambda>rows. Inr (state rows))
         else if get_operands_count instr = 5 then
           bindE (and_also (is_register_operand instr 1) (and_also (is_register_operand instr 4)
                   (and_also (is_vcc_operand instr 1) (is_vcc_operand instr 4)))) (\<lambda>ok.
           bindE (assertE ok ''Unsupported operands'') (\<lambda>_.
           bindE (read_lanes instr [0, 2, 3] wave) (\<lambda>rows. Inr (state rows))))
         else
           bindE (get_mnemonic (in_key instr)) (\<lambda>m. Inl (Runtime_error
             (''Expected 3 or 5 operands but got '' @ show_nat (get_operands_count instr)
              @ '' for VOP2 instruction: '' @ m))))"

definition update_with_vop2_state :: "Instruction \<Rightarrow> WfStateVOP2 \<Rightarrow> Wavefront \<Rightarrow> Wavefront result" where
  "update_with_vop2_state instr state wave =
     bindE (write_lanes instr 0 (VOP2_VDST state) wave) (\<lambda>w. Inr (w\<lparr>vccReg := VOP2_VCC state\<rparr>))"

definition get_vop3_state :: "Instruction \<Rightarrow> Wavefront \<Rightarrow> WfStateVOP3 result" where
  "get_vop3_state instr wave =
     bindE (assertE (get_operands_count instr \<le> 4)
              ''Unexpected amount of operands for VOP3 instruction'') (\<lambda>_.
     bindE (read_lanes instr (if get_operands_count instr = 4 then [0, 1, 2, 3] else [0, 1, 2]) wave)
       (\<lambda>rows. Inr
       \<lparr>VOP3_CLAMP = mode_dx10_clamp (modeReg wave), VOP3_VDST = column 0 rows,
        VOP3_SRC0 = column 1 rows, VOP3_SRC1 = column 2 rows,
        VOP3_SRC2 = (if get_operands_count instr = 4 then column 3 rows else []),
        VOP3_VCC = vccReg wave\<rparr>))"

definition update_with_vop3_state :: "Instruction \<Rightarrow> WfStateVOP3 \<Rightarrow> Wavefront \<Rightarrow> Wavefront result" where
  "update_with_vop3_state instr state wave = write_lanes instr 0 (VOP3_VDST state) wave"

definition get_vopc_state :: "Instruction \<Rightarrow> Wavefront \<Rightarrow> WfStateVOPC result" where
  "get_vopc_state instr wave =
     bindE (read_arg64 instr 0 (- 1) wave) (\<lambda>sdst.
     bindE (read_lanes instr [1, 2] wave) (\<lambda>rows.
     Inr \<lparr>VOPC_EXEC = execReg wave, VOPC_SDST = sdst, VOPC_SRC0 = column 0 rows,
          VOPC_SRC1 = column 1 rows\<rparr>))"

definition update_with_vopc_state :: "Instruction \<Rightarrow> WfStateVOPC \<Rightarrow> Wavefront \<Rightarrow> Wavefront result" where
  "update_with_vopc_state instr state wave =
     bindE (bindE (operand instr 0)
         (\<lambda>op. write_operand_to_gpr op (VOPC_SDST state) (wave\<lparr>execReg := VOPC_EXEC state\<rparr>)))
       (foldE (\<lambda>i w.
           bindE (bindE (operand instr 1) (\<lambda>op. write_data64_to_gpr op (VOPC_SRC0 state ! i) (int i) w))
             (\<lambda>w. bindE (operand instr 2) (\<lambda>op. write_data64_to_gpr op (VOPC_SRC1 state ! i) (int i) w)))
         [0..<wf_size wave])"

definition get_flat_store_state :: "Instruction \<Rightarrow> Wavefront \<Rightarrow> WfStateFLATStore result" where
  "get_flat_store_state instr wave =
     bindE (assertE (get_operands_count instr = 2)
              ''Unexpected args amount for FLAT instruction'') (\<lambda>_.
     bindE (mapE (\<lambda>i.
         bindE (read_arg64 instr 0 (int i) wave) (\<lambda>vaddr.
         bindE (bindE (operand instr 1) (\<lambda>op. read_operand op (int i) wave)) (\<lambda>vdata.
         Inr (vaddr, vdata)))) [0..<wf_size wave]) (\<lambda>rows.
     let vdata = concat (map snd rows)
     in bindE (definedE (wf_size wave \<noteq> 0) ''modulo by zero'') (\<lambda>_.
        bindE (assertE (length vdata mod wf_size wave = 0) ''VDATA.size() % get_size() == 0'') (\<lambda>_.
        Inr \<lparr>FS_VADDR = map fst rows, FS_VDATA = vdata,
             FS_vdataAmountPerWi = length vdata div wf_size wave\<rparr>))))"

definition get_flat_load_state :: "Instruction \<Rightarrow> Wavefront \<Rightarrow> WfStateFLATLoad result" where
  "get_flat_load_state instr wave =
     bindE (assertE (get_operands_count instr = 2)
              ''Unexpected args amount for FLAT instruction'') (\<lambda>_.
     bindE (read_lanes instr [0] wave) (\<lambda>rows.
     bindE (operand instr 1) (\<lambda>op.
     Inr \<lparr>FL_VADDR = column 0 rows, FL_VDST = replicate (op_regAmount op * wf_size wave) 0,
          FL_vdstAmountPerWi = op_regAmount op\<rparr>)))"

definition update_with_flat_load_state ::
  "Instruction \<Rightarrow> WfStateFLATLoad \<Rightarrow> Wavefront \<Rightarrow> Wavefront result" where
  "update_with_flat_load_state instr state wave =
     foldE (\<lambda>i w. let n = FL_vdstAmountPerWi state in
         bindE (assertE (i * n + n \<le> length (FL_VDST state)) ''state.VDST.size() >= end'') (\<lambda>_.
         bindE (operand instr 1)
           (\<lambda>op. write_data_to_gpr op (take n (drop (i * n) (FL_VDST state))) (int i) w)))
       [0..<wf_size wave] wave"

end
