(* ===== verification/WavefrontProps.thy ===== *)
theory WavefrontProps
  imports Wavefronts
begin

text \<open>
  What reading and writing the registers of a wavefront guarantee.

  A multi-register operand is a block of a register file, most significant word first. The locale
  \<open>register_file\<close> is the contract of a register file inside a larger state; both files of the
  wavefront are interpretations of it. The locale \<open>lane_file\<close> is the contract that the loops
  over lanes rely on: a write is read back by its own lane and by no other.

  \<open>wf_frame\<close> relates the wavefronts before and after an operation that keeps the sizes and the
  identity of the wavefront; it is reflexive and transitive, so an operation is covered by composing
  its parts. \<open>wf_inv\<close>, the sizes of the register files, follows.
\<close>

unbundle bit_operations_syntax

section \<open>Blocks of registers\<close>

definition put_block :: "nat \<Rightarrow> u32 list \<Rightarrow> u32 list \<Rightarrow> u32 list" where
  "put_block base data xs = take base xs @ rev data @ drop (base + length data) xs"

definition get_block :: "nat \<Rightarrow> nat \<Rightarrow> u32 list \<Rightarrow> u32 list" where
  "get_block base n xs = rev (take n (drop base xs))"

lemma length_put_block [simp]:
  "base + length data \<le> length xs \<Longrightarrow> length (put_block base data xs) = length xs"
  by (simp add: put_block_def)

lemma put_block_Nil [simp]: "put_block base [] xs = xs"
  by (simp add: put_block_def)

lemma get_put_block [simp]:
  "base + length data \<le> length xs \<Longrightarrow> get_block base (length data) (put_block base data xs) = data"
  by (simp add: put_block_def get_block_def)

lemma get_block_0 [simp]: "get_block base 0 xs = []"
  by (simp add: get_block_def)

lemma get_put_block_eq:
  "length data = n \<Longrightarrow> data = [] \<or> base + n \<le> length xs \<Longrightarrow> get_block base n (put_block base data xs) = data"
  by (auto simp: get_put_block)

lemma nth_put_block:
  assumes "base + length data \<le> length xs" and "j < length xs"
  shows "put_block base data xs ! j =
    (if base \<le> j \<and> j < base + length data then data ! (length data - 1 - (j - base)) else xs ! j)"
  using assms by (auto simp: put_block_def nth_append rev_nth min_def intro!: arg_cong [of _ _ "nth data"])

lemma get_put_block_disjoint:
  assumes "base + length data \<le> length xs" and "base' + n \<le> length xs"
    and "base' + n \<le> base \<or> base + length data \<le> base'"
  shows "get_block base' n (put_block base data xs) = get_block base' n xs"
proof -
  have "take n (drop base' (put_block base data xs)) = take n (drop base' xs)"
    using assms by (intro nth_equalityI) (auto simp: nth_put_block)
  then show ?thesis by (simp add: get_block_def)
qed

lemma put_block_snoc:
  assumes "base + length data < length xs"
  shows "(put_block base data xs)[base + length data := d] = put_block base (d # data) xs"
  using assms
  by (intro nth_equalityI) (auto simp: nth_put_block nth_list_update nth_Cons' Suc_diff_le)

locale register_file =
  fixes get :: "'s \<Rightarrow> u32 list" and put :: "u32 list \<Rightarrow> 's \<Rightarrow> 's"
  assumes get_put: "get (put xs s) = xs"
    and put_put: "put ys (put xs s) = put ys s"
    and put_get: "put (get s) s = s"
begin

lemma block_write:
  assumes P: "P s" and P_put: "\<And>s xs. P s \<Longrightarrow> P (put xs s)"
    and step: "\<And>i s t. i < length data \<Longrightarrow> P s \<Longrightarrow> step i s = Inr t \<longleftrightarrow>
      base + i < length (get s) \<and> t = put ((get s)[base + i := data ! (length data - 1 - i)]) s"
  shows "foldE step [0..<length data] s = Inr t \<longleftrightarrow>
      (data = [] \<or> base + length data \<le> length (get s)) \<and> t = put (put_block base data (get s)) s"
proof -
  have "foldE step [0..<m] s = Inr t \<longleftrightarrow>
      (m = 0 \<or> base + m \<le> length (get s))
      \<and> t = put (put_block base (drop (length data - m) data) (get s)) s"
    if "m \<le> length data" for m t
    using that
  proof (induction m arbitrary: t)
    case 0
    then show ?case by (auto simp: put_get)
  next
    case (Suc m)
    let ?d = "drop (length data - m) data"
    have d: "data ! (length data - 1 - m) # ?d = drop (length data - Suc m) data"
      using Suc.prems Cons_nth_drop_Suc [of "length data - Suc m" data] by (simp add: Suc_diff_Suc)
    have len: "length ?d = m" using Suc.prems by simp
    have put: "(put_block base ?d xs)[base + m := data ! (length data - 1 - m)]
        = put_block base (drop (length data - Suc m) data) xs" if "base + m < length xs" for xs
      using put_block_snoc [of base ?d xs "data ! (length data - 1 - m)"] that len d by simp
    have block: "length (put_block base ?d (get s)) = length (get s)"
      if "m = 0 \<or> base + m \<le> length (get s)"
      using that Suc.prems by (cases m) simp_all
    have "foldE step [0..<Suc m] s = Inr t \<longleftrightarrow>
        (\<exists>u. foldE step [0..<m] s = Inr u \<and> step m u = Inr t)"
      by (auto simp: foldE_append result_simps)
    also have "\<dots> \<longleftrightarrow> (m = 0 \<or> base + m \<le> length (get s))
        \<and> step m (put (put_block base ?d (get s)) s) = Inr t"
      using Suc by auto
    also have "\<dots> \<longleftrightarrow> base + m < length (get s)
        \<and> t = put ((put_block base ?d (get s))[base + m := data ! (length data - 1 - m)]) s"
      using Suc.prems block by (auto simp: step get_put put_put P P_put)
    also have "\<dots> \<longleftrightarrow> base + Suc m \<le> length (get s)
        \<and> t = put (put_block base (drop (length data - Suc m) data) (get s)) s"
      using put by auto
    finally show ?case by simp
  qed
  from this [of "length data"] show ?thesis by simp
qed

end

lemma block_read:
  assumes "\<And>i. i < n \<Longrightarrow> step i = (if base + i < length xs then Inr (xs ! (base + i)) else Inl e)"
  shows "mapE step (rev [0..<n]) =
    (if n = 0 \<or> base + n \<le> length xs then Inr (get_block base n xs) else Inl e)"
proof (cases "n = 0 \<or> base + n \<le> length xs")
  case True
  have "mapE step (rev [0..<n]) = Inr (map (\<lambda>i. xs ! (base + i)) (rev [0..<n]))"
    using True assms by (intro mapE_all_Inr) auto
  also have "map (\<lambda>i. xs ! (base + i)) [0..<n] = take n (drop base xs)"
    using True by (intro nth_equalityI) auto
  ultimately show ?thesis
    using True by (simp add: rev_map [symmetric] get_block_def)
next
  case False
  then obtain m where "n = Suc m" by (cases n) auto
  with False show ?thesis by (simp add: assms)
qed

interpretation scalar_file: register_file scalarRegFile "\<lambda>xs w. w\<lparr>scalarRegFile := xs\<rparr>"
  by unfold_locales auto

interpretation vector_file: register_file vectorRegFile "\<lambda>xs w. w\<lparr>vectorRegFile := xs\<rparr>"
  by unfold_locales auto

section \<open>Reading and writing operands\<close>

definition s_index :: "RegisterType \<Rightarrow> nat" where
  "s_index r = nat (r - REG_S0)"

definition v_index :: "nat \<Rightarrow> RegisterType \<Rightarrow> Wavefront \<Rightarrow> nat" where
  "v_index lane r w = lane * vgprsnum w + nat (r - REG_V0)"

lemma reg_kinds: "is_s_reg r \<Longrightarrow> \<not> is_v_reg r" "is_v_reg r \<Longrightarrow> \<not> is_s_reg r"
  "\<not> is_s_reg REG_VCC" "\<not> is_v_reg REG_VCC" "\<not> is_s_reg REG_EXEC" "\<not> is_v_reg REG_EXEC"
  "\<not> is_s_reg REG_SCC" "\<not> is_v_reg REG_SCC" "\<not> is_s_reg REG_M0" "\<not> is_v_reg REG_M0"
  by (auto simp: is_s_reg_def is_v_reg_def)

lemma write_scalar_iff:
  assumes "op_value op = RegV r" and "is_s_reg r"
  shows "write_data_to_gpr op data i w = Inr w' \<longleftrightarrow>
    length data = op_regAmount op
    \<and> (data = [] \<or> s_index r + length data \<le> length (scalarRegFile w))
    \<and> w' = w\<lparr>scalarRegFile := put_block (s_index r) data (scalarRegFile w)\<rparr>"
proof -
  have "foldE (\<lambda>i w. let curReg = nat (r - REG_S0) + i in
           bindE (assertE (curReg < length (scalarRegFile w)) ''Scalar register is out of range'')
             (\<lambda>_. set_scalar curReg (data ! (length data - 1 - i)) w)) [0..<length data] w = Inr w'
      \<longleftrightarrow> (data = [] \<or> s_index r + length data \<le> length (scalarRegFile w))
        \<and> w' = w\<lparr>scalarRegFile := put_block (s_index r) data (scalarRegFile w)\<rparr>"
    by (rule scalar_file.block_write [where P = "\<lambda>_. True"])
      (auto simp: result_simps Let_def set_scalar_def s_index_def)
  then show ?thesis using assms by (auto simp: write_data_to_gpr_def result_simps)
qed

lemma write_vector_iff:
  assumes "op_value op = RegV r" and "is_v_reg r"
  shows "write_data_to_gpr op data (int lane) w = Inr w' \<longleftrightarrow>
    length data = op_regAmount op
    \<and> (data = [] \<or> v_index lane r w + length data \<le> length (vectorRegFile w))
    \<and> w' = w\<lparr>vectorRegFile := put_block (v_index lane r w) data (vectorRegFile w)\<rparr>"
proof -
  have "foldE (\<lambda>i u. let vRegInd = nat (r - REG_V0) + i in
           bindE (assertE (vRegInd < length (vectorRegFile u)) ''Vector register is out of range'')
             (\<lambda>_. set_vgpr lane vRegInd (data ! (length data - 1 - i)) u)) [0..<length data] w = Inr w'
      \<longleftrightarrow> (data = [] \<or> v_index lane r w + length data \<le> length (vectorRegFile w))
        \<and> w' = w\<lparr>vectorRegFile := put_block (v_index lane r w) data (vectorRegFile w)\<rparr>"
    by (rule vector_file.block_write [where P = "\<lambda>u. vgprsnum u = vgprsnum w"])
      (auto simp: result_simps Let_def set_vgpr_def v_index_def ac_simps)
  then show ?thesis using assms by (auto simp: write_data_to_gpr_def result_simps reg_kinds)
qed

lemma write_vcc_iff:
  assumes "op_value op = RegV REG_VCC"
  shows "write_data_to_gpr op data i w = Inr w' \<longleftrightarrow>
    length data = 2 \<and> w' = w\<lparr>vccReg := join_words data\<rparr>"
  using assms by (auto simp: write_data_to_gpr_def result_simps reg_kinds)

lemma write_exec_iff:
  assumes "op_value op = RegV REG_EXEC"
  shows "write_data_to_gpr op data i w = Inr w' \<longleftrightarrow>
    length data = 2 \<and> w' = w\<lparr>execReg := join_words data\<rparr>"
  using assms by (auto simp: write_data_to_gpr_def result_simps reg_kinds)

lemma write_other:
  assumes "op_value op = RegV r" and "\<not> is_s_reg r" "\<not> is_v_reg r" "r \<noteq> REG_VCC" "r \<noteq> REG_EXEC"
  shows "write_data_to_gpr op data i w = Inr w"
  using assms by (auto simp: write_data_to_gpr_def)

lemma write_vector_no_lane:
  assumes "op_value op = RegV r" and "is_v_reg r"
  shows "write_data_to_gpr op data (- 1) w \<noteq> Inr w'"
  using assms by (auto simp: write_data_to_gpr_def result_simps reg_kinds)

lemma read_scalar:
  assumes "op_type op = REGISTER" "op_value op = RegV r" and "is_s_reg r"
  shows "read_operand op i w =
    (if op_regAmount op = 0 \<or> s_index r + op_regAmount op \<le> length (scalarRegFile w)
     then Inr (get_block (s_index r) (op_regAmount op) (scalarRegFile w))
     else Inl (Assert_failed ''Scalar register is out of range''))"
proof -
  have "mapE (\<lambda>i. let curSReg = nat (r - REG_S0) + i in
           bindE (assertE (curSReg < length (scalarRegFile w)) ''Scalar register is out of range'')
             (\<lambda>_. Inr (scalarRegFile w ! curSReg))) (rev [0..<op_regAmount op]) =
    (if op_regAmount op = 0 \<or> s_index r + op_regAmount op \<le> length (scalarRegFile w)
     then Inr (get_block (s_index r) (op_regAmount op) (scalarRegFile w))
     else Inl (Assert_failed ''Scalar register is out of range''))"
    by (rule block_read) (simp add: s_index_def Let_def)
  with assms show ?thesis by (simp add: read_operand_def read_reg_operand_def)
qed

lemma read_vector:
  assumes "op_type op = REGISTER" "op_value op = RegV r" and "is_v_reg r"
  shows "read_operand op (int lane) w =
    (if op_regAmount op = 0 \<or> v_index lane r w + op_regAmount op \<le> length (vectorRegFile w)
     then Inr (get_block (v_index lane r w) (op_regAmount op) (vectorRegFile w))
     else Inl (Assert_failed ''Vector register is out of range''))"
proof -
  have "mapE (\<lambda>i. read_vgpr lane (nat (r - REG_V0) + i) w) (rev [0..<op_regAmount op]) =
    (if op_regAmount op = 0 \<or> v_index lane r w + op_regAmount op \<le> length (vectorRegFile w)
     then Inr (get_block (v_index lane r w) (op_regAmount op) (vectorRegFile w))
     else Inl (Assert_failed ''Vector register is out of range''))"
    by (rule block_read) (simp add: v_index_def read_vgpr_def Let_def ac_simps)
  with assms show ?thesis by (simp add: read_operand_def read_reg_operand_def reg_kinds)
qed

definition writable_reg :: "RegisterType \<Rightarrow> bool" where
  "writable_reg r \<longleftrightarrow> is_s_reg r \<or> is_v_reg r \<or> r = REG_VCC \<or> r = REG_EXEC"

lemma join_words_two:
  assumes "length data = 2"
  shows "[to_u32 (drop_bit 32 (join_words data)), to_u32 (join_words data)] = data"
proof -
  from assms obtain a b where "data = [a, b]" by (auto simp: length_Suc_conv numeral_2_eq_2)
  then show ?thesis by (simp add: join_words_def split_join_u64 del: drop_bit_or)
qed

text \<open>A write to a register that can be written is read back by the same lane.\<close>

lemma read_after_write:
  assumes "op_type op = REGISTER" and "op_value op = RegV r" and "writable_reg r"
    and "write_data_to_gpr op data i w = Inr w'" and "i = - 1 \<or> 0 \<le> i"
  shows "read_operand op i w' = Inr data"
proof -
  consider "is_s_reg r" | "is_v_reg r" | "r = REG_VCC" | "r = REG_EXEC"
    using assms(3) by (auto simp: writable_reg_def)
  then show ?thesis
  proof cases
    case 1
    with assms(1,2,4) show ?thesis
      by (auto simp: write_scalar_iff read_scalar get_put_block_eq)
  next
    case 2
    with assms(2,4,5) obtain lane where "i = int lane"
      using write_vector_no_lane by (metis nat_0_le)
    with 2 assms(1,2,4) show ?thesis
      by (auto simp: write_vector_iff read_vector get_put_block_eq v_index_def)
  next
    case 3
    with assms(1,2,4) show ?thesis
      by (auto simp: write_vcc_iff read_operand_def read_reg_operand_def reg_kinds join_words_two)
  next
    case 4
    with assms(1,2,4) show ?thesis
      by (auto simp: write_exec_iff read_operand_def read_reg_operand_def reg_kinds join_words_two)
  qed
qed

section \<open>What a write keeps\<close>

definition wf_frame :: "Wavefront \<Rightarrow> Wavefront \<Rightarrow> bool" where
  "wf_frame w w' \<longleftrightarrow>
     length (scalarRegFile w') = length (scalarRegFile w)
     \<and> length (vectorRegFile w') = length (vectorRegFile w)
     \<and> wf_id w' = wf_id w \<and> wf_size w' = wf_size w
     \<and> sgprsnum w' = sgprsnum w \<and> vgprsnum w' = vgprsnum w"

definition wf_inv :: "Wavefront \<Rightarrow> bool" where
  "wf_inv w \<longleftrightarrow> length (scalarRegFile w) = sgprsnum w
     \<and> length (vectorRegFile w) = WAVEFRONT_SIZE * vgprsnum w
     \<and> wf_size w \<le> WAVEFRONT_SIZE"

named_theorems frame_intros "operations that keep the sizes and identity of a wavefront"

lemma wf_frame_refl [simp, frame_intros]: "wf_frame w w"
  by (simp add: wf_frame_def)

lemma wf_frame_trans [trans]: "wf_frame a b \<Longrightarrow> wf_frame b c \<Longrightarrow> wf_frame a c"
  by (auto simp: wf_frame_def)

lemma wf_frame_inv: "wf_frame w w' \<Longrightarrow> wf_inv w \<Longrightarrow> wf_inv w'"
  by (auto simp: wf_frame_def wf_inv_def)

lemma wf_inv_new: "n \<le> WAVEFRONT_SIZE \<Longrightarrow> wf_inv (new_wavefront n i s v)"
  by (simp add: wf_inv_def new_wavefront_def)

lemma wf_frame_foldE:
  assumes "foldE f xs w = Inr w'" and "\<And>x u v. x \<in> set xs \<Longrightarrow> f x u = Inr v \<Longrightarrow> wf_frame u v"
  shows "wf_frame w w'"
  by (rule foldE_invariant [OF assms(1), where P = "wf_frame w"])
    (auto intro: wf_frame_trans assms(2))

lemma put_block_frame:
  assumes "data = [] \<or> base + length data \<le> length xs"
  shows "length (put_block base data xs) = length xs"
  using assms by (cases data) simp_all

text \<open>The special registers that an operand write leaves alone.\<close>

definition special_regs :: "Wavefront \<Rightarrow> _" where
  "special_regs w = (programCounter w, modeReg w, statusReg w, m0Reg w, sccReg w, atBarrier w,
     completed w)"

lemma write_data_to_gpr_cases:
  assumes "write_data_to_gpr op data i w = Inr w'"
  obtains (scalar) r where "op_value op = RegV r" "is_s_reg r" "length data = op_regAmount op"
      "data = [] \<or> s_index r + length data \<le> length (scalarRegFile w)"
      "w' = w\<lparr>scalarRegFile := put_block (s_index r) data (scalarRegFile w)\<rparr>"
  | (vector) r where "op_value op = RegV r" "is_v_reg r" "length data = op_regAmount op"
      "data = [] \<or> v_index (nat i) r w + length data \<le> length (vectorRegFile w)"
      "w' = w\<lparr>vectorRegFile := put_block (v_index (nat i) r w) data (vectorRegFile w)\<rparr>"
  | (vcc) "op_value op = RegV REG_VCC" "length data = 2" "w' = w\<lparr>vccReg := join_words data\<rparr>"
  | (exec) "op_value op = RegV REG_EXEC" "length data = 2" "w' = w\<lparr>execReg := join_words data\<rparr>"
  | (other) r where "op_value op = RegV r" "\<not> writable_reg r" "w' = w"
proof -
  obtain r where r: "op_value op = RegV r"
    using assms by (auto simp: write_data_to_gpr_def result_simps)
  have lane: "write_data_to_gpr op data (int (nat i)) w = Inr w'" if "is_v_reg r"
    using assms that r write_vector_no_lane [of op r]
    by (cases "i = - 1") (auto simp: write_data_to_gpr_def result_simps reg_kinds)
  consider "is_s_reg r" | "is_v_reg r" | "r = REG_VCC" | "r = REG_EXEC" | "\<not> writable_reg r"
    by (auto simp: writable_reg_def)
  then show ?thesis
  proof cases
    case 1
    with assms r show ?thesis by (intro scalar) (auto simp: write_scalar_iff)
  next
    case 2
    have "length data = op_regAmount op
        \<and> (data = [] \<or> v_index (nat i) r w + length data \<le> length (vectorRegFile w))
        \<and> w' = w\<lparr>vectorRegFile := put_block (v_index (nat i) r w) data (vectorRegFile w)\<rparr>"
      using lane [OF 2] unfolding write_vector_iff [OF r 2] .
    with r 2 show ?thesis by (intro vector) auto
  next
    case 3
    with assms r show ?thesis by (intro vcc) (simp_all add: write_vcc_iff)
  next
    case 4
    with assms r show ?thesis by (intro exec) (simp_all add: write_exec_iff)
  next
    case 5
    with assms r show ?thesis by (intro other) (auto simp: write_other writable_reg_def)
  qed
qed

lemma write_data_frame [frame_intros]:
  "write_data_to_gpr op data i w = Inr w' \<Longrightarrow> wf_frame w w'"
  by (elim write_data_to_gpr_cases) (auto simp: wf_frame_def put_block_frame)

lemma write_data_special:
  "write_data_to_gpr op data i w = Inr w' \<Longrightarrow> special_regs w' = special_regs w"
  by (elim write_data_to_gpr_cases) (auto simp: special_regs_def)

lemma write_data64_frame [frame_intros]:
  "write_data64_to_gpr op v i w = Inr w' \<Longrightarrow> wf_frame w w'"
  by (auto simp: write_data64_to_gpr_def result_simps intro: write_data_frame)

lemma write_data64_special:
  "write_data64_to_gpr op v i w = Inr w' \<Longrightarrow> special_regs w' = special_regs w"
  by (auto simp: write_data64_to_gpr_def result_simps dest: write_data_special)

lemma write_operand_frame [frame_intros]:
  "write_operand_to_gpr op v w = Inr w' \<Longrightarrow> wf_frame w w'"
  by (auto simp: write_operand_to_gpr_def intro: write_data64_frame)

lemma write_lanes_frame [frame_intros]:
  "write_lanes instr k vals w = Inr w' \<Longrightarrow> wf_frame w w'"
  unfolding write_lanes_def
  by (erule wf_frame_foldE) (auto simp: result_simps intro: write_data64_frame)

lemma set_scalar_frame [frame_intros]: "set_scalar i v w = Inr w' \<Longrightarrow> wf_frame w w'"
  by (auto simp: set_scalar_def result_simps wf_frame_def)

lemma set_sgpr_pair_frame [frame_intros]: "set_sgpr_pair i v w = Inr w' \<Longrightarrow> wf_frame w w'"
  by (auto simp: set_sgpr_pair_def result_simps intro: wf_frame_trans set_scalar_frame)

section \<open>Lanes\<close>

text \<open>
  A loop that writes one value per lane: each lane then reads what was written for it (as far as
  its registers hold it, \<open>norm\<close>), the lanes that were not written read what they read before.
\<close>

locale lane_file =
  fixes ok :: "'s \<Rightarrow> bool"
    and rd :: "nat \<Rightarrow> 's \<Rightarrow> 'e + 'v"
    and wr :: "nat \<Rightarrow> 'v \<Rightarrow> 's \<Rightarrow> 'e + 's"
    and norm :: "'v \<Rightarrow> 'v"
  assumes wr_ok: "ok s \<Longrightarrow> wr i v s = Inr t \<Longrightarrow> ok t"
    and wr_rd: "ok s \<Longrightarrow> wr i v s = Inr t \<Longrightarrow> rd i t = Inr (norm v)"
    and wr_rd_other: "ok s \<Longrightarrow> wr i v s = Inr t \<Longrightarrow> j \<noteq> i \<Longrightarrow> rd j t = rd j s"
begin

lemma write_all:
  assumes "foldE (\<lambda>i. wr i (f i)) xs s = Inr t" and "ok s"
  shows "ok t \<and> rd j t = (if j \<in> set xs then Inr (norm (f j)) else rd j s)"
  using assms
proof (induction xs arbitrary: s)
  case (Cons i xs)
  then obtain u where u: "wr i (f i) s = Inr u" "foldE (\<lambda>i. wr i (f i)) xs u = Inr t"
    by (auto simp: result_simps)
  have "ok u" using u(1) Cons.prems(2) by (rule wr_ok [rotated])
  with Cons.IH [OF u(2)] show ?case
    using wr_rd [OF Cons.prems(2) u(1)] wr_rd_other [OF Cons.prems(2) u(1)] by auto
qed simp

text \<open>Writing back, lane by lane, what each lane reads changes nothing that a lane can read.\<close>

lemma write_back:
  assumes "foldE (\<lambda>i. wr i (f i)) xs s = Inr t" and "ok s"
    and "\<And>i. i \<in> set xs \<Longrightarrow> rd i s = Inr (norm (f i))"
  shows "rd j t = rd j s"
  using write_all [OF assms(1,2), of j] assms(3) by auto

end

definition lane_operand :: "Operand \<Rightarrow> Wavefront \<Rightarrow> bool" where
  "lane_operand op w \<longleftrightarrow> op_type op = REGISTER
     \<and> (case op_value op of
           RegV r \<Rightarrow> is_v_reg r \<and> nat (r - REG_V0) + op_regAmount op \<le> vgprsnum w
         | _ \<Rightarrow> False)"

lemma lane_operandE:
  assumes "lane_operand op w"
  obtains r where "op_type op = REGISTER" "op_value op = RegV r" "is_v_reg r"
    "nat (r - REG_V0) + op_regAmount op \<le> vgprsnum w"
  using assms by (auto simp: lane_operand_def split: OperandValue.splits)

lemma lane_operand_frame:
  "wf_frame w w' \<Longrightarrow> lane_operand op w' = lane_operand op w"
  by (auto simp: lane_operand_def wf_frame_def split: OperandValue.splits)

lemma lanes_disjoint:
  assumes "i \<noteq> j" and "k + n \<le> m"
  shows "i * m + k + n \<le> j * m + k \<or> j * m + k + n \<le> i * (m :: nat) + k"
proof -
  have before: "i * m + k + n \<le> j * m" if "i < j" for i j
  proof -
    have "Suc i * m \<le> j * m" using that by (intro mult_le_mono1) simp
    then show ?thesis using assms(2) by simp
  qed
  from assms(1) consider "i < j" | "j < i" by linarith
  then show ?thesis using before [of i j] before [of j i] by cases simp_all
qed

lemma read_other_lane:
  assumes "lane_operand op w" and "write_data_to_gpr op data (int i) w = Inr w'" and "j \<noteq> i"
  shows "read_operand op (int j) w' = read_operand op (int j) w"
  using assms(1)
proof (rule lane_operandE)
  fix r
  assume r: "op_type op = REGISTER" "op_value op = RegV r" "is_v_reg r"
    "nat (r - REG_V0) + op_regAmount op \<le> vgprsnum w"
  from r assms(2) have w': "length data = op_regAmount op"
      "data = [] \<or> v_index i r w + length data \<le> length (vectorRegFile w)"
      "w' = w\<lparr>vectorRegFile := put_block (v_index i r w) data (vectorRegFile w)\<rparr>"
    by (auto simp: write_vector_iff)
  have "v_index j r w + op_regAmount op \<le> v_index i r w \<or> v_index i r w + op_regAmount op \<le> v_index j r w"
    using lanes_disjoint [OF assms(3) r(4)] by (simp add: v_index_def)
  with w'(1,2) have "get_block (v_index j r w) (op_regAmount op)
        (put_block (v_index i r w) data (vectorRegFile w))
      = get_block (v_index j r w) (op_regAmount op) (vectorRegFile w)"
    if "v_index j r w + op_regAmount op \<le> length (vectorRegFile w)"
    using that by (cases "data = []") (auto intro: get_put_block_disjoint)
  with w' r show ?thesis
    by (auto simp: read_vector v_index_def put_block_frame)
qed

definition trunc_to :: "Operand \<Rightarrow> u64 \<Rightarrow> u64" where
  "trunc_to op v = (if op_regAmount op = 2 then v else to_u64 (to_u32 v))"

definition rd_lane :: "Operand \<Rightarrow> nat \<Rightarrow> Wavefront \<Rightarrow> u64 result" where
  "rd_lane op i w = bindE (read_operand op (int i) w) to_uin64_t"

interpretation vregs: lane_file "lane_operand op" "\<lambda>i. read_operand op (int i)"
    "\<lambda>i v. write_data_to_gpr op v (int i)" "\<lambda>v. v" for op
proof
  fix s t :: Wavefront and i j v
  assume s: "lane_operand op s" and t: "write_data_to_gpr op v (int i) s = Inr t"
  show "lane_operand op t"
    using s lane_operand_frame [OF write_data_frame [OF t]] by simp
  show "read_operand op (int i) t = Inr v"
    using s by (rule lane_operandE) (auto intro: read_after_write [OF _ _ _ t] simp: writable_reg_def)
  show "j \<noteq> i \<Longrightarrow> read_operand op (int j) t = read_operand op (int j) s"
    using s t by (rule read_other_lane)
qed

lemma write_data64_iff:
  assumes "lane_operand op w"
  shows "write_data64_to_gpr op v i w = Inr w' \<longleftrightarrow> op_regAmount op \<le> 2
    \<and> write_data_to_gpr op
       ((if op_regAmount op = 2 then [to_u32 (drop_bit 32 v)] else []) @ [to_u32 v]) i w = Inr w'"
  using assms by (auto simp: write_data64_to_gpr_def result_simps lane_operand_def)

interpretation vlanes: lane_file "lane_operand op" "rd_lane op"
    "\<lambda>i v. write_data64_to_gpr op v (int i)" "trunc_to op" for op
proof
  fix s t :: Wavefront and i j v
  assume s: "lane_operand op s" and t: "write_data64_to_gpr op v (int i) s = Inr t"
  let ?data = "(if op_regAmount op = 2 then [to_u32 (drop_bit 32 v)] else []) @ [to_u32 v]"
  from s t have t': "write_data_to_gpr op ?data (int i) s = Inr t"
    by (simp add: write_data64_iff)
  show "lane_operand op t" by (rule vregs.wr_ok [OF s t'])
  show "rd_lane op i t = Inr (trunc_to op v)"
    using vregs.wr_rd [OF s t'] by (simp add: rd_lane_def trunc_to_def join_split_u64)
  show "j \<noteq> i \<Longrightarrow> rd_lane op j t = rd_lane op j s"
    using vregs.wr_rd_other [OF s t'] by (simp add: rd_lane_def)
qed

text \<open>The write-back loop of the vector instructions.\<close>

lemma write_lanes_read:
  assumes "write_lanes instr k vals w = Inr w'" and "operand instr k = Inr op" and "lane_operand op w"
  shows "rd_lane op j w' = (if j < wf_size w then Inr (trunc_to op (vals ! j)) else rd_lane op j w)"
  using vlanes.write_all [of op "\<lambda>i. vals ! i" "[0..<wf_size w]" w w' j] assms
  by (simp add: write_lanes_def)

section \<open>Reading back an operand\<close>

text \<open>
  C8: What is written to a scalar or vector register block, VCC or EXEC is read back by the
  same lane.
\<close>

theorem operand_read_after_write:
  assumes "op_type op = REGISTER" and "op_value op = RegV r" and "writable_reg r"
    and "write_data_to_gpr op data i w = Inr w'" and "i = - 1 \<or> 0 \<le> i"
  shows "read_operand op i w' = Inr data"
  using assms by (rule read_after_write)

text \<open>A small wavefront for concrete runs: two lanes of three registers, the second one active.\<close>

definition reg_op :: "RegisterType \<Rightarrow> nat \<Rightarrow> Operand" where
  "reg_op r n = \<lparr>op_type = REGISTER, op_value = RegV r, op_regAmount = n\<rparr>"
definition make_instr :: "InstrKey \<Rightarrow> InstrFormat \<Rightarrow> Operand list \<Rightarrow> Instruction" where
  "make_instr k f ops = \<lparr>in_key = k, in_format = f, in_widthInBytes = 4, in_addr = 0,
     in_rawInstruction = [], in_originalLine = [], in_operands = ops\<rparr>"
definition small_wave :: Wavefront where
  "small_wave = (new_wavefront 2 0 8 0)
     \<lparr>vgprsnum := 3, vectorRegFile := [10, 11, 12, 20, 21, 22], execReg := 2\<rparr>"

lemma operand_read_after_write_witness:
  "read_operand (reg_op (REG_S0 + 2) 2) (- 1)
     (projr (write_data_to_gpr (reg_op (REG_S0 + 2) 2) [7, 9] (- 1) small_wave)) = Inr [7, 9]"
  by (rule operand_read_after_write [OF _ _ _ returnsD])
    (simp_all add: reg_op_def writable_reg_def is_s_reg_def | code_simp)+

end
