(* ===== verification/AluSop1.thy ===== *)
theory AluSop1
  imports WavefrontProps
begin

text \<open>
  The scalar instructions with one source (\<open>emulator/src/alu/alu_sop1.cpp\<close>). An instruction
  works on its \<open>WfStateSOP1\<close>; a few also read or write the wavefront. The switch of
  \<open>run_sop1\<close> is the association list \<open>sop1_switch\<close>.
\<close>

unbundle bit_operations_syntax

section \<open>Instructions\<close>

definition run_s_abs_i32 :: "WfStateSOP1 \<Rightarrow> WfStateSOP1 result" where
  "run_s_abs_i32 state =
     (let SRC0 = to_u32 (SOP1_SSRC0 state)
      in bindE (if sint SRC0 < 0 then signed_result (- sint SRC0) else Inr SRC0) (\<lambda>r.
         let sdst = sx64 (r :: u32) AND 0xffffffff
         in Inr (state\<lparr>SOP1_SDST := sdst, SOP1_SCC := sdst \<noteq> 0\<rparr>)))"

text \<open>The instructions that save EXEC and set it, and those that set it and copy the new value.\<close>

definition saveexec :: "u64 \<Rightarrow> WfStateSOP1 \<Rightarrow> WfStateSOP1" where
  "saveexec new state =
     state\<lparr>SOP1_SDST := SOP1_EXEC state, SOP1_EXEC := new, SOP1_SCC := new \<noteq> 0\<rparr>"

definition wrexec :: "u64 \<Rightarrow> WfStateSOP1 \<Rightarrow> WfStateSOP1" where
  "wrexec new state = state\<lparr>SOP1_EXEC := new, SOP1_SDST := new, SOP1_SCC := new \<noteq> 0\<rparr>"

definition run_s_and_saveexec_b64 :: "WfStateSOP1 \<Rightarrow> WfStateSOP1" where
  "run_s_and_saveexec_b64 state = saveexec (SOP1_SSRC0 state AND SOP1_EXEC state) state"

definition run_s_andn1_saveexec_b64 :: "WfStateSOP1 \<Rightarrow> WfStateSOP1" where
  "run_s_andn1_saveexec_b64 state = saveexec (NOT (SOP1_SSRC0 state) AND SOP1_EXEC state) state"

definition run_s_andn1_wrexec_b64 :: "WfStateSOP1 \<Rightarrow> WfStateSOP1" where
  "run_s_andn1_wrexec_b64 state = wrexec (NOT (SOP1_SSRC0 state) AND SOP1_EXEC state) state"

definition run_s_andn2_saveexec_b64 :: "WfStateSOP1 \<Rightarrow> WfStateSOP1" where
  "run_s_andn2_saveexec_b64 state = saveexec (SOP1_SSRC0 state AND NOT (SOP1_EXEC state)) state"

definition run_s_andn2_wrexec_b64 :: "WfStateSOP1 \<Rightarrow> WfStateSOP1" where
  "run_s_andn2_wrexec_b64 state = wrexec (SOP1_SSRC0 state AND NOT (SOP1_EXEC state)) state"

definition set_sdst_scc :: "u64 \<Rightarrow> WfStateSOP1 \<Rightarrow> WfStateSOP1" where
  "set_sdst_scc sdst state = state\<lparr>SOP1_SDST := sdst, SOP1_SCC := sdst \<noteq> 0\<rparr>"

definition run_s_bcnt0_i32_b32 :: "WfStateSOP1 \<Rightarrow> WfStateSOP1" where
  "run_s_bcnt0_i32_b32 state =
     set_sdst_scc (to_u64 (bit_count32 (NOT (to_u32 (SOP1_SSRC0 state))))) state"

definition run_s_bcnt0_i32_b64 :: "WfStateSOP1 \<Rightarrow> WfStateSOP1" where
  "run_s_bcnt0_i32_b64 state = set_sdst_scc (to_u64 (bit_count64 (NOT (SOP1_SSRC0 state)))) state"

definition run_s_bcnt1_i32_b32 :: "WfStateSOP1 \<Rightarrow> WfStateSOP1" where
  "run_s_bcnt1_i32_b32 state =
     set_sdst_scc (to_u64 (bit_count32 (to_u32 (SOP1_SSRC0 state)))) state"

definition run_s_bcnt1_i32_b64 :: "WfStateSOP1 \<Rightarrow> WfStateSOP1" where
  "run_s_bcnt1_i32_b64 state = set_sdst_scc (to_u64 (bit_count64 (SOP1_SSRC0 state))) state"

text \<open>The 32 bit value is shifted by up to 62 before it is widened.\<close>

definition run_s_bitreplicate_b64_b32 :: "WfStateSOP1 \<Rightarrow> WfStateSOP1 result" where
  "run_s_bitreplicate_b64_b32 state =
     (let SSRC0 = to_u32 (SOP1_SSRC0 state)
      in foldE (\<lambda>i st.
           let v = (drop_bit i SSRC0 AND 1) * 3
           in bindE (shift_ok (2 * i) v) (\<lambda>_.
              Inr (st\<lparr>SOP1_SDST := SOP1_SDST st OR to_u64 (push_bit (2 * i) v)\<rparr>)))
         [0..<32] (state\<lparr>SOP1_SDST := 0\<rparr>))"

definition run_s_bitset0_b32 :: "WfStateSOP1 \<Rightarrow> WfStateSOP1" where
  "run_s_bitset0_b32 state = state\<lparr>SOP1_SDST :=
     SOP1_SDST state AND to_u64 (NOT (push_bit (unat (SOP1_SSRC0 state AND 31)) 1 :: u32))\<rparr>"

definition run_s_bitset0_b64 :: "WfStateSOP1 \<Rightarrow> WfStateSOP1" where
  "run_s_bitset0_b64 state = state\<lparr>SOP1_SDST :=
     SOP1_SDST state AND NOT (push_bit (unat (SOP1_SSRC0 state AND 63)) 1)\<rparr>"

definition run_s_bitset1_b32 :: "WfStateSOP1 \<Rightarrow> WfStateSOP1" where
  "run_s_bitset1_b32 state = state\<lparr>SOP1_SDST :=
     SOP1_SDST state OR to_u64 (push_bit (unat (SOP1_SSRC0 state AND 31)) 1 :: u32)\<rparr>"

definition run_s_bitset1_b64 :: "WfStateSOP1 \<Rightarrow> WfStateSOP1" where
  "run_s_bitset1_b64 state = state\<lparr>SOP1_SDST :=
     SOP1_SDST state OR push_bit (unat (SOP1_SSRC0 state AND 63)) 1\<rparr>"

definition run_s_brev_b32 :: "WfStateSOP1 \<Rightarrow> WfStateSOP1" where
  "run_s_brev_b32 state = state\<lparr>SOP1_SDST := to_u64 (rev_bit32 (to_u32 (SOP1_SSRC0 state)))\<rparr>"

definition run_s_brev_b64 :: "WfStateSOP1 \<Rightarrow> WfStateSOP1" where
  "run_s_brev_b64 state = state\<lparr>SOP1_SDST := rev_bit64 (SOP1_SSRC0 state)\<rparr>"

definition run_s_cbranch_join :: "WfStateSOP1 \<Rightarrow> Wavefront \<Rightarrow> WfStateSOP1 result" where
  "run_s_cbranch_join state wave =
     (let csp = mode_csp (SOP1_MODE state)
      in if to_u64 csp = SOP1_SSRC0 state
         then Inr (state\<lparr>SOP1_PC := pc_add 4 (SOP1_PC state)\<rparr>)
         else
           let csp = csp - 1
           in bindE (read_sgpr_pair (unat csp * 4) wave) (\<lambda>exec.
              bindE (read_sgpr_pair (unat csp * 4 + 2) wave) (\<lambda>value.
              Inr (state\<lparr>SOP1_EXEC := exec, SOP1_PC := pc_set_value value (SOP1_PC state)\<rparr>))))"

definition run_s_cmov_b32 :: "WfStateSOP1 \<Rightarrow> WfStateSOP1" where
  "run_s_cmov_b32 state =
     (if SOP1_SCC state then state\<lparr>SOP1_SDST := to_u64 (to_u32 (SOP1_SSRC0 state))\<rparr> else state)"

definition run_s_cmov_b64 :: "WfStateSOP1 \<Rightarrow> WfStateSOP1" where
  "run_s_cmov_b64 state =
     (if SOP1_SCC state then state\<lparr>SOP1_SDST := SOP1_SSRC0 state\<rparr> else state)"

text \<open>
  The searches leave their loop at the first hit; -1 when there is none, 32 bits of it for a 32 bit
  source, all 64 bits for a 64 bit source.
\<close>

definition first_index :: "(nat \<Rightarrow> bool) \<Rightarrow> nat list \<Rightarrow> (nat \<Rightarrow> 'a::len word) \<Rightarrow> 'a word" where
  "first_index P is f = (case find P is of Some i \<Rightarrow> f i | None \<Rightarrow> - 1)"

definition run_s_ff0_i32_b32 :: "WfStateSOP1 \<Rightarrow> WfStateSOP1" where
  "run_s_ff0_i32_b32 state =
     (let SRC0 = to_u32 (SOP1_SSRC0 state);
          SDST = first_index (\<lambda>i. push_bit i 1 AND SRC0 = 0) [0..<32] of_nat
      in state\<lparr>SOP1_SDST := to_u64 (SDST AND 0xffffffff :: u32)\<rparr>)"

definition run_s_ff0_i32_b64 :: "WfStateSOP1 \<Rightarrow> WfStateSOP1" where
  "run_s_ff0_i32_b64 state = state\<lparr>SOP1_SDST :=
     first_index (\<lambda>i. push_bit i 1 AND SOP1_SSRC0 state = 0) [0..<64] of_nat\<rparr>"

definition run_s_ff1_i32_b32 :: "WfStateSOP1 \<Rightarrow> WfStateSOP1" where
  "run_s_ff1_i32_b32 state =
     (let SRC0 = to_u32 (SOP1_SSRC0 state);
          SDST = first_index (\<lambda>i. push_bit i 1 AND SRC0 \<noteq> 0) [0..<32] of_nat
      in state\<lparr>SOP1_SDST := to_u64 (SDST AND 0xffffffff :: u32)\<rparr>)"

definition run_s_ff1_i32_b64 :: "WfStateSOP1 \<Rightarrow> WfStateSOP1" where
  "run_s_ff1_i32_b64 state = state\<lparr>SOP1_SDST :=
     first_index (\<lambda>i. push_bit i 1 AND SOP1_SSRC0 state \<noteq> 0) [0..<64] of_nat\<rparr>"

definition run_s_flbit_i32_b32 :: "WfStateSOP1 \<Rightarrow> WfStateSOP1" where
  "run_s_flbit_i32_b32 state =
     (let SRC0 = to_u32 (SOP1_SSRC0 state);
          SDST = first_index (\<lambda>i. push_bit i 1 AND SRC0 \<noteq> 0) (rev [0..<32]) (\<lambda>i. of_nat (31 - i))
      in state\<lparr>SOP1_SDST := to_u64 (SDST AND 0xffffffff :: u32)\<rparr>)"

definition run_s_flbit_i32_b64 :: "WfStateSOP1 \<Rightarrow> WfStateSOP1" where
  "run_s_flbit_i32_b64 state = state\<lparr>SOP1_SDST :=
     first_index (\<lambda>i. push_bit i 1 AND SOP1_SSRC0 state \<noteq> 0) (rev [0..<64]) (\<lambda>i. of_nat (63 - i))\<rparr>"

definition run_s_flbit_i32 :: "WfStateSOP1 \<Rightarrow> WfStateSOP1" where
  "run_s_flbit_i32 state =
     (let SRC0 = to_u32 (SOP1_SSRC0 state);
          bitval = (if sint SRC0 \<ge> 0 then 1 else 0 :: u32);
          SDST = first_index (\<lambda>i. push_bit i 1 AND SRC0 = push_bit i bitval) (rev [0..<32])
            (\<lambda>i. of_nat (31 - i))
      in state\<lparr>SOP1_SDST := to_u64 (SDST AND 0xffffffff :: u32)\<rparr>)"

definition run_s_flbit_i32_i64 :: "WfStateSOP1 \<Rightarrow> WfStateSOP1" where
  "run_s_flbit_i32_i64 state =
     (let SRC0 = SOP1_SSRC0 state; bitval = (if sint SRC0 \<ge> 0 then 1 else 0 :: u64)
      in state\<lparr>SOP1_SDST := first_index (\<lambda>i. push_bit i 1 AND SRC0 = push_bit i bitval)
           (rev [0..<64]) (\<lambda>i. of_nat (63 - i))\<rparr>)"

definition run_s_getpc_b64 :: "WfStateSOP1 \<Rightarrow> WfStateSOP1" where
  "run_s_getpc_b64 state = state\<lparr>SOP1_SDST := pc_get_value (SOP1_PC state) + 4\<rparr>"

definition run_s_mov_b32 :: "WfStateSOP1 \<Rightarrow> WfStateSOP1" where
  "run_s_mov_b32 state = state\<lparr>SOP1_SDST := to_u64 (to_u32 (SOP1_SSRC0 state))\<rparr>"

definition run_s_mov_b64 :: "WfStateSOP1 \<Rightarrow> WfStateSOP1" where
  "run_s_mov_b64 state = state\<lparr>SOP1_SDST := SOP1_SSRC0 state\<rparr>"

text \<open>
  A register index relative to M0, computed in \<open>uint32_t\<close>; reading a type that was never set
  is undefined.
\<close>

definition rel_index :: "RegisterType option \<Rightarrow> u32 \<Rightarrow> nat result" where
  "rel_index ty m0 =
     (case ty of
        None \<Rightarrow> Inl (Undefined ''indeterminate register type'')
      | Some r \<Rightarrow> bindE (assertE (is_s_reg r) ''is_s_reg'')
          (\<lambda>_. Inr (unat (of_int (r - REG_S0) + m0))))"

definition run_s_movreld_b32 :: "WfStateSOP1 \<Rightarrow> Wavefront \<Rightarrow> Wavefront result" where
  "run_s_movreld_b32 state wave =
     bindE (rel_index (SOP1_DEST_TYPE state) (SOP1_M0 state))
       (\<lambda>i. set_scalar i (to_u32 (SOP1_SSRC0 state)) wave)"

definition run_s_movreld_b64 :: "WfStateSOP1 \<Rightarrow> Wavefront \<Rightarrow> Wavefront result" where
  "run_s_movreld_b64 state wave =
     bindE (rel_index (SOP1_DEST_TYPE state) (SOP1_M0 state))
       (\<lambda>i. set_sgpr_pair i (SOP1_SSRC0 state) wave)"

definition run_s_movrels_b32 :: "WfStateSOP1 \<Rightarrow> Wavefront \<Rightarrow> WfStateSOP1 result" where
  "run_s_movrels_b32 state wave =
     bindE (rel_index (SOP1_SRC0_TYPE state) (SOP1_M0 state)) (\<lambda>i.
     bindE (definedE (i < length (scalarRegFile wave)) ''scalar register index'') (\<lambda>_.
     Inr (state\<lparr>SOP1_SDST := to_u64 (scalarRegFile wave ! i)\<rparr>)))"

definition run_s_movrels_b64 :: "WfStateSOP1 \<Rightarrow> Wavefront \<Rightarrow> WfStateSOP1 result" where
  "run_s_movrels_b64 state wave =
     bindE (rel_index (SOP1_SRC0_TYPE state) (SOP1_M0 state)) (\<lambda>i.
     bindE (read_sgpr_pair i wave) (\<lambda>v. Inr (state\<lparr>SOP1_SDST := v\<rparr>)))"

definition run_s_nand_saveexec_b64 :: "WfStateSOP1 \<Rightarrow> WfStateSOP1" where
  "run_s_nand_saveexec_b64 state = saveexec (NOT (SOP1_SSRC0 state AND SOP1_EXEC state)) state"

definition run_s_nor_saveexec_b64 :: "WfStateSOP1 \<Rightarrow> WfStateSOP1" where
  "run_s_nor_saveexec_b64 state = saveexec (NOT (SOP1_SSRC0 state OR SOP1_EXEC state)) state"

definition run_s_not_b32 :: "WfStateSOP1 \<Rightarrow> WfStateSOP1" where
  "run_s_not_b32 state = set_sdst_scc (to_u64 (NOT (to_u32 (SOP1_SSRC0 state)))) state"

definition run_s_not_b64 :: "WfStateSOP1 \<Rightarrow> WfStateSOP1" where
  "run_s_not_b64 state = set_sdst_scc (NOT (SOP1_SSRC0 state)) state"

definition run_s_or_saveexec_b64 :: "WfStateSOP1 \<Rightarrow> WfStateSOP1" where
  "run_s_or_saveexec_b64 state = saveexec (SOP1_SSRC0 state OR SOP1_EXEC state) state"

definition run_s_orn2_saveexec_b64 :: "WfStateSOP1 \<Rightarrow> WfStateSOP1" where
  "run_s_orn2_saveexec_b64 state = saveexec (NOT (SOP1_SSRC0 state) AND SOP1_EXEC state) state"

definition run_s_quadmask_b32 :: "WfStateSOP1 \<Rightarrow> WfStateSOP1" where
  "run_s_quadmask_b32 state =
     (let SRC0 = to_u32 (SOP1_SSRC0 state);
          temp = foldl (\<lambda>temp i. temp OR
              (if drop_bit (4 * i) SRC0 AND 15 \<noteq> 0 then push_bit i 1 else of_nat i)) (0 :: u32) [0..<8]
      in set_sdst_scc (to_u64 temp) state)"

definition run_s_quadmask_b64 :: "WfStateSOP1 \<Rightarrow> WfStateSOP1" where
  "run_s_quadmask_b64 state =
     (let temp = foldl (\<lambda>temp i. temp OR to_u64
              (if drop_bit (4 * i) (SOP1_SSRC0 state) AND 15 \<noteq> 0 then push_bit i 1
               else of_nat i :: u32)) (0 :: u64) [0..<16]
      in set_sdst_scc temp state)"

definition run_s_rfe_b64 :: "WfStateSOP1 \<Rightarrow> WfStateSOP1" where
  "run_s_rfe_b64 state = state\<lparr>SOP1_STATUS := set_status_priv False (SOP1_STATUS state),
     SOP1_PC := pc_set_value (SOP1_SSRC0 state) (SOP1_PC state)\<rparr>"

definition run_s_set_gpr_idx_idx :: "WfStateSOP1 \<Rightarrow> WfStateSOP1" where
  "run_s_set_gpr_idx_idx state = state\<lparr>SOP1_M0 :=
     (SOP1_M0 state AND 0xffffff00) OR (to_u32 (SOP1_SSRC0 state) AND 0xff)\<rparr>"

definition run_s_setpc_b64 :: "WfStateSOP1 \<Rightarrow> WfStateSOP1" where
  "run_s_setpc_b64 state = state\<lparr>SOP1_PC := pc_set_value (SOP1_SSRC0 state) (SOP1_PC state)\<rparr>"

definition run_s_sext_i32_i8 :: "WfStateSOP1 \<Rightarrow> WfStateSOP1" where
  "run_s_sext_i32_i8 state = state\<lparr>SOP1_SDST := sx64 (sign_ext8 (to_u8 (SOP1_SSRC0 state)))\<rparr>"

definition run_s_sext_i32_i16 :: "WfStateSOP1 \<Rightarrow> WfStateSOP1" where
  "run_s_sext_i32_i16 state = state\<lparr>SOP1_SDST := sx64 (sign_ext16 (to_u16 (SOP1_SSRC0 state)))\<rparr>"

definition run_s_swappc_b64 :: "WfStateSOP1 \<Rightarrow> WfStateSOP1" where
  "run_s_swappc_b64 state = state\<lparr>SOP1_SDST := pc_get_value (SOP1_PC state) + 4,
     SOP1_PC := pc_set_value (SOP1_SSRC0 state) (SOP1_PC state)\<rparr>"

definition run_s_wqm_b32 :: "WfStateSOP1 \<Rightarrow> WfStateSOP1" where
  "run_s_wqm_b32 state =
     (let SRC0 = to_u32 (SOP1_SSRC0 state);
          temp = foldl (\<lambda>temp i. temp OR
              (if drop_bit (4 * i) SRC0 AND 15 \<noteq> 0 then push_bit (4 * i) 15 else 0)) (0 :: u32) [0..<8]
      in set_sdst_scc (to_u64 temp) state)"

definition run_s_wqm_b64 :: "WfStateSOP1 \<Rightarrow> WfStateSOP1" where
  "run_s_wqm_b64 state =
     (let temp = foldl (\<lambda>temp i. temp OR
              (if drop_bit (4 * i) (SOP1_SSRC0 state) AND 15 \<noteq> 0 then push_bit (4 * i) 15 else 0))
              (0 :: u64) [0..<16]
      in set_sdst_scc temp state)"

definition run_s_xnor_saveexec_b64 :: "WfStateSOP1 \<Rightarrow> WfStateSOP1" where
  "run_s_xnor_saveexec_b64 state = saveexec (NOT (SOP1_SSRC0 state XOR SOP1_EXEC state)) state"

definition run_s_xor_saveexec_b64 :: "WfStateSOP1 \<Rightarrow> WfStateSOP1" where
  "run_s_xor_saveexec_b64 state = saveexec (SOP1_SSRC0 state XOR SOP1_EXEC state) state"

section \<open>Dispatch\<close>

type_synonym sop1_op =
  "Instruction \<Rightarrow> WfStateSOP1 \<Rightarrow> Wavefront \<Rightarrow> (WfStateSOP1 \<times> Wavefront) result"

definition sop1_plain :: "(WfStateSOP1 \<Rightarrow> WfStateSOP1) \<Rightarrow> sop1_op" where
  "sop1_plain f instr state wave = Inr (f state, wave)"

definition sop1_fallible :: "(WfStateSOP1 \<Rightarrow> WfStateSOP1 result) \<Rightarrow> sop1_op" where
  "sop1_fallible f instr state wave = bindE (f state) (\<lambda>st. Inr (st, wave))"

definition sop1_reads :: "(WfStateSOP1 \<Rightarrow> Wavefront \<Rightarrow> WfStateSOP1 result) \<Rightarrow> sop1_op" where
  "sop1_reads f instr state wave = bindE (f state wave) (\<lambda>st. Inr (st, wave))"

definition sop1_writes :: "(WfStateSOP1 \<Rightarrow> Wavefront \<Rightarrow> Wavefront result) \<Rightarrow> sop1_op" where
  "sop1_writes f instr state wave = bindE (f state wave) (\<lambda>w. Inr (state, w))"

text \<open>The instructions whose only operand is a source: the case reads it into SSRC0.\<close>

definition sop1_source :: "sop1_op \<Rightarrow> sop1_op" where
  "sop1_source f instr state wave =
     bindE (assertE (get_operands_count instr = 1) ''instr.get_operands_count() == 1'') (\<lambda>_.
     bindE (read_arg64 instr 0 (- 1) wave) (\<lambda>v. f instr (state\<lparr>SOP1_SSRC0 := v\<rparr>) wave))"

definition sop1_getpc :: sop1_op where
  "sop1_getpc instr state wave =
     bindE (assertE (get_operands_count instr = 1) ''instr.get_operands_count() == 1'') (\<lambda>_.
     bindE (read_arg64 instr 0 (- 1) wave) (\<lambda>v.
     let st = run_s_getpc_b64 (state\<lparr>SOP1_SDST := v\<rparr>)
     in bindE (bindE (operand instr 0) (\<lambda>op. write_operand_to_gpr op (SOP1_SDST st) wave))
          (\<lambda>w. Inr (st, w))))"

definition sop1_switch :: "(InstrKey \<times> sop1_op) list" where
  "sop1_switch =
    [(S_CBRANCH_JOIN, sop1_source (sop1_reads run_s_cbranch_join)),
     (S_SET_GPR_IDX_IDX, sop1_source (sop1_plain run_s_set_gpr_idx_idx)),
     (S_RFE_B64, sop1_source (sop1_plain run_s_rfe_b64)),
     (S_SETPC_B64, sop1_source (sop1_plain run_s_setpc_b64)),
     (S_GETPC_B64, sop1_getpc),
     (S_ABS_I32, sop1_fallible run_s_abs_i32),
     (S_AND_SAVEEXEC_B64, sop1_plain run_s_and_saveexec_b64),
     (S_ANDN1_SAVEEXEC_B64, sop1_plain run_s_andn1_saveexec_b64),
     (S_ANDN1_WREXEC_B64, sop1_plain run_s_andn1_wrexec_b64),
     (S_ANDN2_SAVEEXEC_B64, sop1_plain run_s_andn2_saveexec_b64),
     (S_ANDN2_WREXEC_B64, sop1_plain run_s_andn2_wrexec_b64),
     (S_BCNT0_I32_B32, sop1_plain run_s_bcnt0_i32_b32),
     (S_BCNT0_I32_B64, sop1_plain run_s_bcnt0_i32_b64),
     (S_BCNT1_I32_B32, sop1_plain run_s_bcnt1_i32_b32),
     (S_BCNT1_I32_B64, sop1_plain run_s_bcnt1_i32_b64),
     (S_BITREPLICATE_B64_B32, sop1_fallible run_s_bitreplicate_b64_b32),
     (S_BITSET0_B32, sop1_plain run_s_bitset0_b32),
     (S_BITSET0_B64, sop1_plain run_s_bitset0_b64),
     (S_BITSET1_B32, sop1_plain run_s_bitset1_b32),
     (S_BITSET1_B64, sop1_plain run_s_bitset1_b64),
     (S_BREV_B32, sop1_plain run_s_brev_b32),
     (S_BREV_B64, sop1_plain run_s_brev_b64),
     (S_CMOV_B32, sop1_plain run_s_cmov_b32),
     (S_CMOV_B64, sop1_plain run_s_cmov_b64),
     (S_FF0_I32_B32, sop1_plain run_s_ff0_i32_b32),
     (S_FF0_I32_B64, sop1_plain run_s_ff0_i32_b64),
     (S_FF1_I32_B32, sop1_plain run_s_ff1_i32_b32),
     (S_FF1_I32_B64, sop1_plain run_s_ff1_i32_b64),
     (S_FLBIT_I32_B32, sop1_plain run_s_flbit_i32_b32),
     (S_FLBIT_I32_B64, sop1_plain run_s_flbit_i32_b64),
     (S_FLBIT_I32, sop1_plain run_s_flbit_i32),
     (S_FLBIT_I32_I64, sop1_plain run_s_flbit_i32_i64),
     (S_MOV_B32, sop1_plain run_s_mov_b32),
     (S_MOV_B64, sop1_plain run_s_mov_b64),
     (S_MOVRELD_B32, sop1_writes run_s_movreld_b32),
     (S_MOVRELD_B64, sop1_writes run_s_movreld_b64),
     (S_MOVRELS_B32, sop1_reads run_s_movrels_b32),
     (S_MOVRELS_B64, sop1_reads run_s_movrels_b64),
     (S_NAND_SAVEEXEC_B64, sop1_plain run_s_nand_saveexec_b64),
     (S_NOR_SAVEEXEC_B64, sop1_plain run_s_nor_saveexec_b64),
     (S_NOT_B32, sop1_plain run_s_not_b32),
     (S_NOT_B64, sop1_plain run_s_not_b64),
     (S_OR_SAVEEXEC_B64, sop1_plain run_s_or_saveexec_b64),
     (S_ORN2_SAVEEXEC_B64, sop1_plain run_s_orn2_saveexec_b64),
     (S_QUADMASK_B32, sop1_plain run_s_quadmask_b32),
     (S_QUADMASK_B64, sop1_plain run_s_quadmask_b64),
     (S_SEXT_I32_I8, sop1_plain run_s_sext_i32_i8),
     (S_SEXT_I32_I16, sop1_plain run_s_sext_i32_i16),
     (S_SWAPPC_B64, sop1_plain run_s_swappc_b64),
     (S_WQM_B32, sop1_plain run_s_wqm_b32),
     (S_WQM_B64, sop1_plain run_s_wqm_b64),
     (S_XNOR_SAVEEXEC_B64, sop1_plain run_s_xnor_saveexec_b64),
     (S_XOR_SAVEEXEC_B64, sop1_plain run_s_xor_saveexec_b64)]"

definition run_sop1 :: "Instruction \<Rightarrow> Wavefront \<Rightarrow> Wavefront result" where
  "run_sop1 instr wave =
     bindE (assertE (get_operands_count instr \<le> 2) ''Unexpected amount of operands for SOP1'') (\<lambda>_.
     bindE (get_sop1_state instr wave) (\<lambda>state.
     bindE (case map_of sop1_switch (in_key instr) of
              None \<Rightarrow> unsupported_instruction ''SOP1'' (in_key instr)
            | Some f \<Rightarrow> f instr state wave) (\<lambda>(state, w).
     update_with_sop1_state instr state (sync_sop1 state w))))"

end
