(* ===== verification/PopCount.thy ===== *)
theory PopCount
  imports BitUtils
begin

text \<open>
  The two \<open>bit_count\<close> routines of \<open>emulator/src/commons/util.h\<close> count bits by adding
  neighbouring fields of a word in parallel. This theory shows that they compute the number of set
  bits. The argument is on natural numbers written in base 16: each of the first two steps works
  on one nibble at a time (\<open>swar_1\<close>, \<open>swar_2\<close>), the third joins pairs of nibbles into bytes
  (\<open>swar_3\<close>), and the multiplication sums the bytes. It holds for any number of nibbles, so the
  32 and the 64 bit versions share it.
\<close>

section \<open>The reference: how many bits are set\<close>

definition popcount :: "'a::len word \<Rightarrow> nat" where
  "popcount w = length (filter (bit w) [0..<LENGTH('a)])"

section \<open>Base 16 arithmetic\<close>


fun rep :: "nat \<Rightarrow> nat \<Rightarrow> nat \<Rightarrow> nat" where
  "rep b 0 m = 0"
| "rep b (Suc k) m = m + b * rep b k m"

lemma and_le_nat: "(a :: nat) AND b \<le> a"
proof -
  have "int (a AND b) \<le> int a" by (simp add: of_nat_and_eq AND_upper1)
  then show ?thesis by simp
qed

lemma and_split:
  fixes a b :: nat
  assumes "a < 2 ^ w" "m < 2 ^ w"
  shows "(a + 2 ^ w * x) AND (m + 2 ^ w * y) = (a AND m) + 2 ^ w * (x AND y)"
proof -
  have d: "take_bit w (a + 2 ^ w * x) = a" "take_bit w (m + 2 ^ w * y) = m"
    "drop_bit w (a + 2 ^ w * x) = x" "drop_bit w (m + 2 ^ w * y) = y"
    using assms by (simp_all add: take_bit_eq_mod drop_bit_eq_div)
  have "take_bit w ((a + 2 ^ w * x) AND (m + 2 ^ w * y)) = a AND m"
    "drop_bit w ((a + 2 ^ w * x) AND (m + 2 ^ w * y)) = x AND y"
    by (simp_all add: d take_bit_and drop_bit_and)
  moreover have "n = take_bit w n + 2 ^ w * drop_bit w n" for n :: nat
    by (simp add: take_bit_eq_mod drop_bit_eq_div)
  ultimately show ?thesis by metis
qed

lemma shift_split:
  fixes a x :: nat
  shows "(a + 2 ^ w * (2 ^ s * x)) div 2 ^ s = a div 2 ^ s + 2 ^ w * x" 
  using div_mult_self2 [of "2 ^ s" a "2 ^ w * x"] by (simp add: ac_simps)

definition swar_1 :: "nat \<Rightarrow> nat \<Rightarrow> nat" where
  "swar_1 k n = n - (n div 2 AND rep 16 k 5)"

definition swar_2 :: "nat \<Rightarrow> nat \<Rightarrow> nat" where
  "swar_2 k n = (n AND rep 16 k 3) + (n div 4 AND rep 16 k 3)"

lemma shift_and:
  fixes a x m r :: nat
  assumes a: "a < 16" and s: "s \<le> 4" and m: "m < 2 ^ (4 - s)"
  shows "(a + 16 * x) div 2 ^ s AND (m + 16 * r) = (a div 2 ^ s AND m) + 16 * (x div 2 ^ s AND r)"
proof -
  have "x = x mod 2 ^ s + 2 ^ s * (x div 2 ^ s)" by simp
  have p: "2 ^ s * (2 ^ (4 - s) :: nat) = 16" using s by (simp flip: power_add)
  have "(a + 16 * x) div 2 ^ s = (a + 2 ^ s * (2 ^ (4 - s) * x)) div 2 ^ s" using p by (simp add: mult.assoc [symmetric])
  also have "\<dots> = a div 2 ^ s + 2 ^ (4 - s) * x" by simp
  also have "2 ^ (4 - s) * x = 2 ^ (4 - s) * (x mod 2 ^ s + 2 ^ s * (x div 2 ^ s))"
    by (simp only: mod_mult_div_eq)
  also have "\<dots> = 2 ^ (4 - s) * (x mod 2 ^ s) + 2 ^ s * 2 ^ (4 - s) * (x div 2 ^ s)"
    by (simp only: distrib_left ac_simps)
  also have "\<dots> = 2 ^ (4 - s) * (x mod 2 ^ s) + 16 * (x div 2 ^ s)" by (simp only: p)
  finally have d: "(a + 16 * x) div 2 ^ s = (a div 2 ^ s + 2 ^ (4 - s) * (x mod 2 ^ s)) + 16 * (x div 2 ^ s)" by (simp only: add.assoc)
  have lt: "a div 2 ^ s < 2 ^ (4 - s)" using a p by (simp add: div_less_iff_less_mult mult.commute)
  have "2 ^ (4 - s) * (x mod 2 ^ s) + 2 ^ (4 - s) \<le> 2 ^ (4 - s) * 2 ^ s" 
    by (metis Suc_leI add.commute mod_less_divisor mult_Suc_right mult_le_mono2 zero_less_numeral zero_less_power)
  then have lt2: "a div 2 ^ s + 2 ^ (4 - s) * (x mod 2 ^ s) < 2 ^ 4" using lt p by (simp add: mult.commute)
  have m4: "m < 2 ^ 4" using m s by (meson diff_le_self less_le_trans one_le_numeral power_increasing)
  have "(a div 2 ^ s + 2 ^ (4 - s) * (x mod 2 ^ s)) AND m = a div 2 ^ s AND m"
    using and_split [OF lt m, of "x mod 2 ^ s" 0] by simp
  then show ?thesis using and_split [OF lt2 m4, of "x div 2 ^ s" r] d by simp
qed

lemma nibbles: "(\<forall>a<16. P a) \<longleftrightarrow> list_all P [0,1,2,3,4,5,6,7,8,9,10,11,12,13,14,15::nat]"
proof -
  have "[0..<16] = [0,1,2,3,4,5,6,7,8,9,10,11,12,13,14,15::nat]" by (simp add: upt_rec)
  then show ?thesis by (metis all_less_upt)
qed

lemma swar_1_step:
  assumes "a < 16"
  shows "swar_1 (Suc k) (a + 16 * x) = (a - (a div 2 AND 5)) + 16 * swar_1 k x"
proof -
  have "(a + 16 * x) div 2 AND rep 16 (Suc k) 5 = (a div 2 AND 5) + 16 * (x div 2 AND rep 16 k 5)"
    using shift_and [OF assms, of 1 5 x] by simp
  moreover have "a div 2 AND 5 \<le> a" "x div 2 AND rep 16 k 5 \<le> x"
    using and_le_nat [of "a div 2" 5] and_le_nat [of "x div 2" "rep 16 k 5"] by (meson div_le_dividend le_trans)+
  moreover have "a + 16 * x - (u + 16 * v) = a - u + 16 * (x - v)" if "u \<le> a" "v \<le> x" for u v :: nat
    using that by (simp add: diff_mult_distrib2)
  ultimately show ?thesis unfolding swar_1_def by metis
qed

lemma swar_2_step:
  assumes "a < 16"
  shows "swar_2 (Suc k) (a + 16 * x) = ((a AND 3) + (a div 4 AND 3)) + 16 * swar_2 k x"
  using shift_and [OF assms, of 2 3 x "rep 16 k 3"] shift_and [OF assms, of 0 3 x "rep 16 k 3"]
  unfolding swar_2_def by simp

definition pc4 :: "nat \<Rightarrow> nat" where
  "pc4 a = of_bool (bit a 0) + of_bool (bit a 1) + of_bool (bit a 2) + of_bool (bit a 3)"

definition pc8 :: "nat \<Rightarrow> nat" where
  "pc8 n = pc4 n + pc4 (drop_bit 4 n)"

lemma pc4_mod: "pc4 (n mod 16) = pc4 n"
proof -
  have "n mod 16 = take_bit 4 n" by (simp add: take_bit_eq_mod)
  then show ?thesis by (simp add: pc4_def bit_take_bit_iff)
qed

lemma nibble_sum: "\<forall>a<16. (a - (a div 2 AND 5)) < 16 \<and> 
  ((a - (a div 2 AND 5)) AND 3) + ((a - (a div 2 AND 5)) div 4 AND 3) = pc4 a \<and> pc4 a \<le> 4"
  unfolding nibbles by (simp add: pc4_def bit_iff_odd numeral_2_eq_2 [symmetric] numeral_3_eq_3 [symmetric])

lemma swar_12_step: "a < 16 \<Longrightarrow> swar_2 (Suc k) (swar_1 (Suc k) (a + 16 * x)) = pc4 a + 16 * swar_2 k (swar_1 k x)"
  using nibble_sum by (simp add: swar_1_step swar_2_step)

definition swar_3 :: "nat \<Rightarrow> nat \<Rightarrow> nat" where
  "swar_3 k n = (n + n div 16) AND rep 256 k 15"

lemma swar_3_step:
  assumes "p \<le> 4" "q \<le> 4" "h \<le> 4"
  shows "swar_3 (Suc k) (p + 16 * (q + 16 * (h + 16 * z))) = (p + q) + 256 * swar_3 k (h + 16 * z)"
proof -
  let ?n = "p + 16 * (q + 16 * (h + 16 * z))"
  have d: "?n div 16 = q + 16 * (h + 16 * z)" "(h + 16 * z) div 16 = z" using assms by simp_all
  have e: "?n + ?n div 16 = (p + q + 16 * (q + h)) + 256 * (h + 16 * z + z)"
    unfolding d by simp
  have "(p + q + 16 * (q + h)) AND 15 = (p + q) AND 15"
    using and_split [of "p + q" 4 15 "q + h" 0] assms by simp
  moreover have "(p + q) AND 15 = p + q" using assms take_bit_eq_mask [of 4 "p + q"] by (simp add: mask_numeral take_bit_eq_mod)
  moreover have "p + q + 16 * (q + h) < 2 ^ 8" using assms by simp
  ultimately show ?thesis unfolding swar_3_def e using and_split [of "p + q + 16 * (q + h)" 8 15 "h + 16 * z + z" "rep 256 k 15"] d by simp
qed


definition swar_all :: "nat \<Rightarrow> nat \<Rightarrow> nat" where
  "swar_all k n = swar_3 k (swar_2 (2 * k) (swar_1 (2 * k) n))"

lemma swar_12_low: "\<exists>h z. swar_2 j (swar_1 j x) = h + 16 * z \<and> h \<le> 4"
proof (cases j)
  case 0
  then show ?thesis by (simp add: swar_2_def)
next
  case (Suc i)
  have "x = x mod 16 + 16 * (x div 16)" by simp
  then have "swar_2 j (swar_1 j x) = pc4 (x mod 16) + 16 * swar_2 i (swar_1 i (x div 16))"
    using swar_12_step [of "x mod 16" i "x div 16"] Suc by simp
  moreover have "pc4 (x mod 16) \<le> 4" using nibble_sum by simp
  ultimately show ?thesis by blast
qed

lemma swar_all_Suc: "swar_all (Suc k) n = pc8 n + 256 * swar_all k (drop_bit 8 n)"
proof -
  let ?a = "n mod 16" and ?b = "n div 16 mod 16" and ?x = "n div 256"
  have "n = ?a + 16 * (n div 16)" "n div 16 = ?b + 16 * (n div 16 div 16)"
    by (simp_all only: mod_mult_div_eq)
  then have n: "n = ?a + 16 * (?b + 16 * ?x)" by (simp add: div_mult2_eq [symmetric])
  have lt: "?a < 16" "?b < 16" by simp_all
  obtain h z where hz: "swar_2 (2 * k) (swar_1 (2 * k) ?x) = h + 16 * z" "h \<le> 4" using swar_12_low by blast
  have "swar_2 (2 * Suc k) (swar_1 (2 * Suc k) n) = pc4 ?a + 16 * (pc4 ?b + 16 * (h + 16 * z))"
    using swar_12_step [OF lt(1), of "Suc (2 * k)" "?b + 16 * ?x"] swar_12_step [OF lt(2), of "2 * k" ?x] n hz(1) by simp
  moreover have "pc4 ?a \<le> 4" "pc4 ?b \<le> 4" using nibble_sum lt by simp_all
  ultimately have "swar_all (Suc k) n = (pc4 ?a + pc4 ?b) + 256 * swar_all k ?x"
    unfolding swar_all_def using swar_3_step [of "pc4 ?a" "pc4 ?b" h k z] hz by simp
  then show ?thesis by (simp add: pc8_def pc4_mod drop_bit_eq_div)
qed

lemma swar_all_0: "swar_all 0 n = 0" by (simp add: swar_all_def swar_3_def)

lemma pc8_le: "pc8 n \<le> 8" by (simp add: pc8_def pc4_def)

lemma swar_12_bound: "swar_2 j (swar_1 j x) \<le> rep 16 j 4"
proof (induction j arbitrary: x)
  case 0 show ?case by (simp add: swar_2_def)
next
  case (Suc j)
  have "x = x mod 16 + 16 * (x div 16)" by simp
  then have "swar_2 (Suc j) (swar_1 (Suc j) x) = pc4 (x mod 16) + 16 * swar_2 j (swar_1 j (x div 16))"
    using swar_12_step [of "x mod 16" j "x div 16"] by simp
  moreover have "pc4 (x mod 16) \<le> 4" using nibble_sum by simp
  ultimately show ?case using Suc.IH [of "x div 16"] by simp
qed

lemma length_filter_sum: "length (filter P xs) = sum_list (map (\<lambda>x. of_bool (P x)) xs)"
  by (induction xs) simp_all

lemma unat_and: "unat (a AND b) = unat a AND unat b" by (simp add: unsigned_and_eq)

section \<open>The two routines\<close>

lemma bytes4:
  assumes "a \<le> 8" "b \<le> 8" "c \<le> 8" "d \<le> (8::nat)"
  shows "(a + 256 * (b + 256 * (c + 256 * d))) * 0x01010101 mod 2 ^ 32 div 2 ^ 24 = a + b + c + d"
proof -
  let ?n = "(a + 256 * (b + 256 * (c + 256 * d))) * 0x01010101"
  let ?l = "a + 256 * (a + b) + 65536 * (a + b + c)"
  let ?h = "(b + c + d) + 256 * (c + d) + 65536 * d"
  have "?n = (?l + 2 ^ 24 * (a + b + c + d)) + 2 ^ 32 * ?h" by simp
  moreover have "?l + 2 ^ 24 * (a + b + c + d) < 2 ^ 32" using assms by simp
  ultimately have "?n mod 2 ^ 32 = ?l + 2 ^ 24 * (a + b + c + d)"
    by (simp only: mod_mult_self2 mod_less)
  moreover have "?l < 2 ^ 24" using assms by simp
  then have "(?l + 2 ^ 24 * (a + b + c + d)) div 2 ^ 24 = a + b + c + d"
    by (simp only: div_mult_self2 div_less)
  ultimately show ?thesis by simp
qed

lemma rep_8: "rep 16 8 m = m * 0x11111111" and rep_4: "rep 256 4 m = m * 0x01010101"
proof -
  have e: "8 = Suc (Suc (Suc (Suc (Suc (Suc (Suc (Suc 0)))))))" "4 = Suc (Suc (Suc (Suc 0)))" by simp_all
  show "rep 16 8 m = m * 0x11111111" unfolding e(1) by simp
  show "rep 256 4 m = m * 0x01010101" unfolding e(2) by simp
qed

lemma bit_count32_popcount: "unat (bit_count32 x) = popcount x"
proof -
  let ?n = "unat x"
  define n1 n2 where "n1 = x - (drop_bit 1 x AND 0x55555555)" and "n2 = (n1 AND 0x33333333) + (drop_bit 2 n1 AND 0x33333333)"
  have r: "rep 16 8 5 = 0x55555555" "rep 16 8 3 = 0x33333333" "rep 256 4 15 = 0x0F0F0F0F" "rep 16 8 4 = 0x44444444"
    by (simp_all add: rep_8 rep_4)
  have "unat (drop_bit 1 x AND 0x55555555) = (?n div 2 AND 0x55555555)" by (simp add: unat_and unat_div unsigned_drop_bit_eq drop_bit_eq_div)
  moreover from this have "drop_bit 1 x AND 0x55555555 \<le> x" 
    using and_le_nat [of "?n div 2" "0x55555555"] by (simp add: word_le_nat_alt)
  ultimately have u1: "unat n1 = swar_1 8 ?n" unfolding n1_def swar_1_def r by (simp add: unat_sub)
  have b: "swar_2 8 (swar_1 8 ?n) \<le> 0x44444444" using swar_12_bound [of 8 ?n] r by simp
  have u2: "unat n2 = swar_2 8 (swar_1 8 ?n)"
    using b unfolding n2_def swar_2_def r u1 [symmetric]
    by (subst unat_add_lem [THEN iffD1]) (simp_all add: unat_and unat_div unsigned_drop_bit_eq drop_bit_eq_div)
  have "unat (n2 + drop_bit 4 n2) = unat n2 + unat n2 div 16"
    using b u2 by (subst unat_add_lem [THEN iffD1]) (simp_all add: unat_div unsigned_drop_bit_eq drop_bit_eq_div)
  then have u3: "unat ((n2 + drop_bit 4 n2) AND 0x0F0F0F0F) = swar_all 4 ?n"
    unfolding swar_all_def swar_3_def r by (simp add: unat_and u2)
  let ?p = "\<lambda>k. pc8 (drop_bit k ?n)"
  have four: "4 = Suc (Suc (Suc (Suc 0)))" by simp
  have "swar_all 4 ?n = ?p 0 + 256 * (?p 8 + 256 * (?p 16 + 256 * ?p 24))"
    unfolding four by (simp add: swar_all_Suc swar_all_0)
  moreover have "?p 0 \<le> 8" "?p 8 \<le> 8" "?p 16 \<le> 8" "?p 24 \<le> 8" by (simp_all add: pc8_le)
  ultimately have s: "swar_all 4 ?n * 0x01010101 mod 2 ^ 32 div 2 ^ 24 = ?p 0 + ?p 8 + ?p 16 + ?p 24"
    and lt: "?p 0 + ?p 8 + ?p 16 + ?p 24 \<le> 32"
    using bytes4 [of "?p 0" "?p 8" "?p 16" "?p 24"] by simp_all
  have "unat (bit_count32 x) = swar_all 4 ?n * 0x01010101 mod 2 ^ 32 div 2 ^ 24"
    unfolding bit_count32_def Let_def n1_def [symmetric] n2_def [symmetric]
    using s lt u3 by (simp add: unsigned_ucast_eq unsigned_drop_bit_eq drop_bit_eq_div unat_word_ariths take_bit_eq_mod)
  also have "\<dots> = popcount x"
    unfolding s popcount_def length_filter_sum
    by (simp add: upto_32 pc8_def pc4_def bit_drop_bit_eq bit_unsigned_iff)
  finally show ?thesis .
qed

lemma bytes8:
  assumes "a \<le> 8" "b \<le> 8" "c \<le> 8" "d \<le> (8::nat)" "e \<le> 8" "f \<le> 8" "g \<le> 8" "h \<le> 8"
  shows "(a + 256 * (b + 256 * (c + 256 * (d + 256 * (e + 256 * (f + 256 * (g + 256 * h)))))))
    * 0x0101010101010101 mod 2 ^ 64 div 2 ^ 56 = a + b + c + d + e + f + g + h"
proof -
  let ?n = "(a + 256 * (b + 256 * (c + 256 * (d + 256 * (e + 256 * (f + 256 * (g + 256 * h)))))))
    * 0x0101010101010101"
  let ?l = "a + 2 ^ 8 * (a + b) + 2 ^ 16 * (a + b + c) + 2 ^ 24 * (a + b + c + d)
    + 2 ^ 32 * (a + b + c + d + e) + 2 ^ 40 * (a + b + c + d + e + f)
    + 2 ^ 48 * (a + b + c + d + e + f + g)"
  let ?t = "a + b + c + d + e + f + g + h"
  let ?h = "(b + c + d + e + f + g + h) + 2 ^ 8 * (c + d + e + f + g + h)
    + 2 ^ 16 * (d + e + f + g + h) + 2 ^ 24 * (e + f + g + h) + 2 ^ 32 * (f + g + h)
    + 2 ^ 40 * (g + h) + 2 ^ 48 * h"
  have "?n = (?l + 2 ^ 56 * ?t) + 2 ^ 64 * ?h" by simp
  moreover have "?l + 2 ^ 56 * ?t < 2 ^ 64" using assms by simp
  ultimately have "?n mod 2 ^ 64 = ?l + 2 ^ 56 * ?t"
    by (simp only: mod_mult_self2 mod_less)
  moreover have "?l < 2 ^ 56" using assms by simp
  then have "(?l + 2 ^ 56 * ?t) div 2 ^ 56 = ?t"
    by (simp only: div_mult_self2 div_less)
  ultimately show ?thesis by simp
qed

lemma rep_16: "rep 16 16 m = m * 0x1111111111111111" and rep_256_8: "rep 256 8 m = m * 0x0101010101010101"
proof -
  have e: "16 = Suc (Suc (Suc (Suc (Suc (Suc (Suc (Suc (Suc (Suc (Suc (Suc (Suc (Suc (Suc (Suc 0)))))))))))))))"
    "8 = Suc (Suc (Suc (Suc (Suc (Suc (Suc (Suc 0)))))))" by simp_all
  have "rep (8 + 8) (Suc (Suc (Suc (Suc (Suc (Suc (Suc (Suc (Suc (Suc (Suc (Suc (Suc (Suc (Suc (Suc 0))))))))))))))))
      m = m * 0x1111111111111111" by simp
  then show "rep 16 16 m = m * 0x1111111111111111" by (simp flip: e(1))
  show "rep 256 8 m = m * 0x0101010101010101" unfolding e(2) by simp
qed

lemma swar_all_8: "swar_all 8 n = pc8 n + 256 * (pc8 (drop_bit 8 n) + 256 * (pc8 (drop_bit 16 n) + 256 * (pc8 (drop_bit 24 n)
    + 256 * (pc8 (drop_bit 32 n) + 256 * (pc8 (drop_bit 40 n) + 256 * (pc8 (drop_bit 48 n) + 256 * pc8 (drop_bit 56 n)))))))"
proof -
  have eight: "swar_all 8 n = swar_all (Suc (Suc (Suc (Suc (Suc (Suc (Suc (Suc 0)))))))) n"
    by (rule arg_cong [of _ _ "\<lambda>k. swar_all k n"]) simp
  then show ?thesis by (simp only: swar_all_Suc swar_all_0 drop_bit_drop_bit) simp
qed

lemma bit_count64_popcount: "unat (bit_count64 x) = popcount x"
proof -
  let ?n = "unat x"
  define n1 n2 where "n1 = x - (drop_bit 1 x AND 0x5555555555555555)" and "n2 = (n1 AND 0x3333333333333333) + (drop_bit 2 n1 AND 0x3333333333333333)"
  have r: "rep 16 16 5 = 0x5555555555555555" "rep 16 16 3 = 0x3333333333333333" "rep 256 8 15 = 0x0F0F0F0F0F0F0F0F" "rep 16 16 4 = 0x4444444444444444"
    by (simp_all add: rep_16 rep_256_8)
  have "unat (drop_bit 1 x AND 0x5555555555555555) = (?n div 2 AND 0x5555555555555555)" by (simp add: unat_and unat_div unsigned_drop_bit_eq drop_bit_eq_div)
  moreover from this have "drop_bit 1 x AND 0x5555555555555555 \<le> x" 
    using and_le_nat [of "?n div 2" "0x5555555555555555"] by (simp add: word_le_nat_alt)
  ultimately have u1: "unat n1 = swar_1 16 ?n" unfolding n1_def swar_1_def r by (simp add: unat_sub)
  have b: "swar_2 16 (swar_1 16 ?n) \<le> 0x4444444444444444" using swar_12_bound [of 16 ?n] r by simp
  have u2: "unat n2 = swar_2 16 (swar_1 16 ?n)"
    using b unfolding n2_def swar_2_def r u1 [symmetric]
    by (subst unat_add_lem [THEN iffD1]) (simp_all add: unat_and unat_div unsigned_drop_bit_eq drop_bit_eq_div)
  have "unat (n2 + drop_bit 4 n2) = unat n2 + unat n2 div 16"
    using b u2 by (subst unat_add_lem [THEN iffD1]) (simp_all add: unat_div unsigned_drop_bit_eq drop_bit_eq_div)
  then have u3: "unat ((n2 + drop_bit 4 n2) AND 0x0F0F0F0F0F0F0F0F) = swar_all 8 ?n"
    unfolding swar_all_def swar_3_def r by (simp add: unat_and u2)
  let ?p = "\<lambda>k. pc8 (drop_bit k ?n)"
  have "swar_all 8 ?n = ?p 0 + 256 * (?p 8 + 256 * (?p 16 + 256 * (?p 24
    + 256 * (?p 32 + 256 * (?p 40 + 256 * (?p 48 + 256 * ?p 56))))))"
    by (simp only: swar_all_8 drop_bit_0 id_apply)
  moreover have "?p 0 \<le> 8" "?p 8 \<le> 8" "?p 16 \<le> 8" "?p 24 \<le> 8"
    "?p 32 \<le> 8" "?p 40 \<le> 8" "?p 48 \<le> 8" "?p 56 \<le> 8" by (simp_all add: pc8_le)
  ultimately have s: "swar_all 8 ?n * 0x0101010101010101 mod 2 ^ 64 div 2 ^ 56
      = ?p 0 + ?p 8 + ?p 16 + ?p 24 + ?p 32 + ?p 40 + ?p 48 + ?p 56"
    and lt: "?p 0 + ?p 8 + ?p 16 + ?p 24 + ?p 32 + ?p 40 + ?p 48 + ?p 56 \<le> 64"
    using bytes8 [of "?p 0" "?p 8" "?p 16" "?p 24" "?p 32" "?p 40" "?p 48" "?p 56"]
    by (simp_all only:)
  have "unat (bit_count64 x) = swar_all 8 ?n * 0x0101010101010101 mod 2 ^ 64 div 2 ^ 56 mod 65536"
    unfolding bit_count64_def Let_def n1_def [symmetric] n2_def [symmetric] u3 [symmetric]
    by (simp add: unsigned_ucast_eq unsigned_drop_bit_eq drop_bit_eq_div unat_word_ariths
        take_bit_eq_mod)
  also have "\<dots> = ?p 0 + ?p 8 + ?p 16 + ?p 24 + ?p 32 + ?p 40 + ?p 48 + ?p 56"
    using lt unfolding s by simp
  also have "\<dots> = popcount x"
    unfolding popcount_def length_filter_sum
    by (simp add: upto_64 pc8_def pc4_def bit_drop_bit_eq bit_unsigned_iff)
  finally show ?thesis .
qed

text \<open>Both overloads of \<open>bit_count\<close> count the bits that are set.\<close>

text \<open>
  C26: The two overloads of bit_count, done by parallel summation, count the set bits.
\<close>

theorem bit_count_is_popcount:
  "unat (bit_count32 x) = popcount x \<and> unat (bit_count64 y) = popcount y"
  by (simp add: bit_count32_popcount bit_count64_popcount)

end
