(* ===== verification/AluSop1Props.thy ===== *)
theory AluSop1Props
  imports AluSop1 PopCount
begin

text \<open>
  What the instructions of \<open>AluSop1\<close> compute: bit searches, quad masks, population counts, the
  moves, and the cases in which they are undefined or lose their result. Every instruction keeps
  the sizes and the identity of the wavefront.
\<close>

unbundle bit_operations_syntax

section \<open>Frame\<close>

named_theorems op_frames "instructions that keep the sizes and identity of a wavefront"

definition sop1_frame :: "sop1_op \<Rightarrow> bool" where
  "sop1_frame f \<longleftrightarrow> (\<forall>instr s w s' w'. f instr s w = Inr (s', w') \<longrightarrow> wf_frame w w')"

lemma sop1_plain_frame [op_frames]: "sop1_frame (sop1_plain f)"
  by (simp add: sop1_frame_def sop1_plain_def)

lemma sop1_fallible_frame [op_frames]: "sop1_frame (sop1_fallible f)"
  by (auto simp: sop1_frame_def sop1_fallible_def result_simps)

lemma sop1_reads_frame [op_frames]: "sop1_frame (sop1_reads f)"
  by (auto simp: sop1_frame_def sop1_reads_def result_simps)

lemma sop1_writes_frame [op_frames]:
  "(\<And>s w w'. f s w = Inr w' \<Longrightarrow> wf_frame w w') \<Longrightarrow> sop1_frame (sop1_writes f)"
  by (auto simp: sop1_frame_def sop1_writes_def result_simps)

lemma sop1_source_frame [op_frames]: "sop1_frame f \<Longrightarrow> sop1_frame (sop1_source f)"
  by (auto simp: sop1_frame_def sop1_source_def result_simps)

lemma sop1_getpc_frame [op_frames]: "sop1_frame sop1_getpc"
  by (auto simp: sop1_frame_def sop1_getpc_def result_simps Let_def intro: write_operand_frame)

lemma movreld_frames [op_frames]:
  "sop1_frame (sop1_writes run_s_movreld_b32)" "sop1_frame (sop1_writes run_s_movreld_b64)"
  by (rule sop1_writes_frame; auto simp: run_s_movreld_b32_def run_s_movreld_b64_def result_simps
      intro: set_scalar_frame set_sgpr_pair_frame)+

lemma sop1_switch_frame: "(k, f) \<in> set sop1_switch \<Longrightarrow> sop1_frame f"
  by (auto simp: sop1_switch_def op_frames)

lemma update_with_sop1_frame [frame_intros]:
  "update_with_sop1_state instr s (sync_sop1 t w) = Inr w' \<Longrightarrow> wf_frame w w'"
  by (auto simp: update_with_sop1_state_def sync_sop1_def result_simps Let_def wf_frame_def
      dest: write_operand_frame split: if_splits)

lemma run_sop1_frame:
  assumes "run_sop1 instr w = Inr w'"
  shows "wf_frame w w'"
proof -
  from assms obtain f s t u where f: "map_of sop1_switch (in_key instr) = Some f"
      "f instr s w = Inr (t, u)" "update_with_sop1_state instr t (sync_sop1 t u) = Inr w'"
    by (auto simp: run_sop1_def result_simps unsupported_instruction_def split: option.splits)
  from f(1) have "sop1_frame f" by (intro sop1_switch_frame) (rule map_of_SomeD)
  with f(2) have "wf_frame w u" by (auto simp: sop1_frame_def)
  also have "wf_frame u w'" using f(3) by (rule update_with_sop1_frame)
  finally show ?thesis .
qed

section \<open>Bit searches\<close>

lemma single_bit_and: "2 ^ i AND w = 0 \<longleftrightarrow> \<not> bit w i"
  for w :: "'a::len word"
  by (simp add: bit_iff_and_push_bit_not_eq_0 and.commute)

lemma find_split:
  assumes "P x" and "\<forall>y\<in>set xs. \<not> P y"
  shows "find P (xs @ x # ys) = Some x"
  using assms(2) by (induction xs) (auto simp: assms(1))

lemma upt_split: "i < n \<Longrightarrow> [0..<n] = [0..<i] @ i # [Suc i..<n]"
  using upt_add_eq_append [of 0 i "n - i"] by (simp add: upt_conv_Cons)

lemma first_index_found:
  assumes "\<exists>i<n. P i"
  shows "first_index P [0..<n] f = f (LEAST i. P i)"
proof -
  from assms obtain k where k: "k < n" "P k" by blast
  let ?i = "LEAST i. P i"
  have P: "P ?i" using k(2) by (rule LeastI)
  have i: "?i < n" using Least_le [of P k] k by simp
  have "\<forall>j\<in>set [0..<?i]. \<not> P j" by (auto dest: not_less_Least)
  with P have "find P [0..<n] = Some ?i" unfolding upt_split [OF i] by (rule find_split)
  then show ?thesis by (simp add: first_index_def)
qed

lemma first_index_none:
  assumes "\<forall>i<n. \<not> P i"
  shows "first_index P [0..<n] f = - 1"
proof -
  have "find P [0..<n] = None" using assms by (simp add: find_None_iff)
  then show ?thesis by (simp add: first_index_def)
qed

lemma mask32: "w AND 0xffffffff = (w :: u32)"
proof -
  have "(0xffffffff :: u32) = - 1" by simp
  then show ?thesis by (simp only: and.right_neutral)
qed

lemma to_u64_minus_1: "to_u64 (- 1 :: u32) = 0xffffffff"
  by code_simp

lemma to_u64_of_nat: "n < 2 ^ 32 \<Longrightarrow> to_u64 (of_nat n :: u32) = of_nat n"
  by (simp add: word_unat_eq_iff unsigned_ucast_eq unat_of_nat take_bit_eq_mod)

text \<open>
  The first set bit of a 32 bit source, counted from the least significant bit, or
  \<open>0xffffffff\<close> when there is none.
\<close>

theorem ff1_b32_spec:
  "SOP1_SDST (run_s_ff1_i32_b32 s) =
    (let src = to_u32 (SOP1_SSRC0 s)
     in if src = 0 then 0xffffffff else of_nat (LEAST i. bit src i))"
proof (cases "to_u32 (SOP1_SSRC0 s) = 0")
  case True
  then show ?thesis
    by (simp add: run_s_ff1_i32_b32_def first_index_none mask32 Let_def to_u64_minus_1)
next
  case False
  let ?src = "to_u32 (SOP1_SSRC0 s)"
  from False obtain i where i: "i < 32" "bit ?src i"
    using bit_eqI [of ?src 0] by (auto simp: bit_eq_iff dest: bit_imp_le_length)
  then have "(LEAST i. bit ?src i) < 32"
    using Least_le [of "bit ?src" i] by simp
  moreover have "first_index (bit ?src) [0..<32] of_nat = (of_nat (LEAST i. bit ?src i) :: u32)"
    using i by (intro first_index_found) blast
  ultimately show ?thesis
    using False by (simp add: run_s_ff1_i32_b32_def single_bit_and mask32 Let_def to_u64_of_nat)
qed

lemma ff0_b32_spec:
  "SOP1_SDST (run_s_ff0_i32_b32 s) = SOP1_SDST (run_s_ff1_i32_b32 (s\<lparr>SOP1_SSRC0 := NOT (SOP1_SSRC0 s)\<rparr>))"
proof -
  have "find (\<lambda>i. \<not> bit (to_u32 (SOP1_SSRC0 s)) i) [0..<32]
      = find (\<lambda>i. bit (to_u32 (NOT (SOP1_SSRC0 s))) i) [0..<32]"
    by (rule find_cong) (auto simp: bit_simps)
  then show ?thesis
    by (simp add: run_s_ff0_i32_b32_def run_s_ff1_i32_b32_def single_bit_and first_index_def Let_def)
qed

section \<open>Quad masks\<close>

lemma foldl_or_bit:
  "bit (foldl (\<lambda>t i. t OR g i) (z :: 'a::len word) is) n \<longleftrightarrow> bit z n \<or> (\<exists>i\<in>set is. bit (g i) n)"
  by (induction "is" arbitrary: z) (auto simp: bit_simps)

lemma nibble_mask: "(15 :: 'a::len word) = mask 4"
  by (simp add: mask_numeral)

lemma nibble_zero: "drop_bit m w AND 15 = 0 \<longleftrightarrow> (\<forall>k<4. \<not> bit w (m + k))"
  for w :: "'a::len word"
proof -
  have "drop_bit m w AND 15 = 0 \<longleftrightarrow> take_bit 4 (drop_bit m w) = 0"
    by (simp only: nibble_mask take_bit_eq_mask)
  also have "\<dots> \<longleftrightarrow> (\<forall>k. \<not> (k < 4 \<and> bit w (m + k)))"
  proof -
    have "k < LENGTH('a)" if "bit w (m + k)" for k using bit_imp_le_length [OF that] by simp
    then show ?thesis by (auto simp: bit_eq_iff bit_take_bit_iff bit_drop_bit_eq)
  qed
  finally show ?thesis by blast
qed

lemma bit_quad: "bit (push_bit (4 * i) 15 :: 'a::len word) n \<longleftrightarrow> n < LENGTH('a) \<and> i = n div 4"
  by (simp only: nibble_mask bit_push_bit_iff bit_mask_iff possible_bit_word) auto

lemma quads_bit:
  "bit (foldl (\<lambda>t i. t OR (if drop_bit (4 * i) w AND 15 \<noteq> 0 then push_bit (4 * i) 15 else 0)) (0 :: 'a word) [0..<m]) n
    \<longleftrightarrow> n < LENGTH('a) \<and> n div 4 < m \<and> (\<exists>k<4. bit w (4 * (n div 4) + k))"
  for w :: "'a::len word"
proof -
  have "bit (if drop_bit (4 * i) w AND 15 \<noteq> 0 then push_bit (4 * i) 15 else 0 :: 'a word) n
      \<longleftrightarrow> n < LENGTH('a) \<and> i = n div 4 \<and> (\<exists>k<4. bit w (4 * i + k))" for i
    unfolding nibble_zero using bit_quad [where 'a = 'a, of i n] by auto
  then show ?thesis unfolding foldl_or_bit by auto
qed

text \<open>Whole quad mode: a bit of the result is set when its quad has a set bit in the source.\<close>

theorem wqm_b64_spec:
  "bit (SOP1_SDST (run_s_wqm_b64 s)) n \<longleftrightarrow> n < 64 \<and> (\<exists>k<4. bit (SOP1_SSRC0 s) (4 * (n div 4) + k))"
  unfolding run_s_wqm_b64_def set_sdst_scc_def Let_def by (auto simp: quads_bit)

lemma wqm_b32_spec:
  "bit (SOP1_SDST (run_s_wqm_b32 s)) n \<longleftrightarrow>
    n < 32 \<and> (\<exists>k<4. bit (to_u32 (SOP1_SSRC0 s)) (4 * (n div 4) + k))"
  unfolding run_s_wqm_b32_def set_sdst_scc_def Let_def by (auto simp: bit_unsigned_iff quads_bit)

text \<open>
  The quad masks: when every quad of the source has a set bit the result is all ones. A quad
  without one puts its own number into the mask instead of 0, so a zero source yields a
  non-zero mask and sets SCC.
\<close>

theorem quadmask_b32_zero:
  assumes "to_u32 (SOP1_SSRC0 s) = 0"
  shows "run_s_quadmask_b32 s = s\<lparr>SOP1_SDST := 7, SOP1_SCC := True\<rparr>"
proof -
  have "foldl (\<lambda>t i. t OR of_nat i) (0 :: u32) [0..<8] = 7"
    by code_simp
  with assms show ?thesis by (simp add: run_s_quadmask_b32_def set_sdst_scc_def)
qed

section \<open>Counting, reversing, undefined cases\<close>

lemma popcount_zero: "popcount w = 0 \<longleftrightarrow> w = 0"
  by (auto simp: popcount_def filter_empty_conv intro: word_eq_bitsI)

lemma unat_to_u64_bit_count: "unat (to_u64 (bit_count64 x)) = popcount x"
  by (simp add: unsigned_ucast_eq take_bit_nat_eq_self_iff less_trans [OF unsigned_less]
    flip: bit_count64_popcount)

lemma to_u64_bit_count: "to_u64 (bit_count64 x) = of_nat (popcount x)"
proof -
  have "to_u64 (bit_count64 x) = of_nat (unat (to_u64 (bit_count64 x)))"
    by simp
  then show ?thesis by (simp only: unat_to_u64_bit_count)
qed

theorem bcnt1_b64_spec:
  "run_s_bcnt1_i32_b64 s =
    s\<lparr>SOP1_SDST := of_nat (popcount (SOP1_SSRC0 s)), SOP1_SCC := SOP1_SSRC0 s \<noteq> 0\<rparr>"
proof -
  have "to_u64 (bit_count64 x) = 0 \<longleftrightarrow> x = 0" for x
    by (simp only: word_unat_eq_iff [of "to_u64 _"] unat_to_u64_bit_count unat_0 popcount_zero)
  then show ?thesis
    by (simp add: run_s_bcnt1_i32_b64_def set_sdst_scc_def to_u64_bit_count [symmetric])
qed

text \<open>The shift leaves the 32 bits at the latest for bit 16: no source has a result.\<close>

theorem bitreplicate_undefined:
  "run_s_bitreplicate_b64_b32 s = Inl (Undefined ''shift count'')"
proof -
  let ?f = "\<lambda>i (st :: WfStateSOP1). let v = (drop_bit i (to_u32 (SOP1_SSRC0 s)) AND 1) * 3
           in bindE (shift_ok (2 * i) v) (\<lambda>_.
              Inr (st\<lparr>SOP1_SDST := SOP1_SDST st OR to_u64 (push_bit (2 * i) v)\<rparr>))"
  have "\<exists>t. foldE ?f [0..<16] st = Inr t" for st
    by (rule foldE_total) (simp add: shift_ok_def Let_def)
  then obtain t where "foldE ?f [0..<16] (s\<lparr>SOP1_SDST := 0\<rparr>) = Inr t" by blast
  moreover have "?f 16 st = Inl (Undefined ''shift count'')" for st
    by (simp add: shift_ok_def Let_def)
  ultimately have "foldE ?f ([0..<16] @ 16 # [17..<32]) (s\<lparr>SOP1_SDST := 0\<rparr>)
      = Inl (Undefined ''shift count'')"
    by (simp add: foldE_append)
  moreover have "[0..<32] = [0..<16] @ 16 # [17..<32]" using upt_split [of 16 32] by simp
  ultimately show ?thesis by (simp only: run_s_bitreplicate_b64_b32_def Let_def)
qed

lemma sign_bit_low: "n < 32 \<and> bit (r :: u32) (min 31 n) \<longleftrightarrow> bit r n"
proof (cases "n < 32")
  case True
  then have "min 31 n = n" by simp
  with True show ?thesis by simp
qed (simp add: bit_beyond_32)

lemma sx64_low: "sx64 r AND 0xffffffff = to_u64 (r :: u32)"
proof -
  have mask: "(0xffffffff :: u64) = mask 32" by (simp add: mask_numeral)
  show ?thesis unfolding mask
    by (rule word_eq_bitsI)
      (simp only: bit_and_iff bit_mask_iff possible_bit_word bit_signed_iff bit_unsigned_iff,
        use sign_bit_low [of _ r] in auto)
qed

lemma to_u64_word_of_int:
  "0 \<le> n \<Longrightarrow> n < 2 ^ 32 \<Longrightarrow> to_u64 (word_of_int n :: u32) = word_of_int n"
  by (simp add: word_uint_eq_iff unsigned_ucast_eq uint_word_of_int take_bit_eq_mod)

lemma abs_i32_spec:
  "run_s_abs_i32 s =
    (let src = to_u32 (SOP1_SSRC0 s)
     in if src = 0x80000000 then Inl (Undefined ''signed overflow'')
        else Inr (s\<lparr>SOP1_SDST := word_of_int \<bar>sint src\<bar>, SOP1_SCC := src \<noteq> 0\<rparr>))"
proof -
  let ?src = "to_u32 (SOP1_SSRC0 s)"
  have range: "- (2 ^ 31) \<le> sint ?src" "sint ?src < 2 ^ 31"
    using sint_ge [of ?src] sint_lt [of ?src] by simp_all
  have min: "?src = 0x80000000 \<longleftrightarrow> sint ?src = - (2 ^ 31)"
  proof -
    have "sint (0x80000000 :: u32) = - (2 ^ 31)" by code_simp
    then show ?thesis by (metis signed_word_eqI)
  qed
  have zero: "(word_of_int n :: u64) \<noteq> 0 \<longleftrightarrow> n \<noteq> 0" if "0 \<le> n" "n < 2 ^ 31" for n
    using that by (simp add: word_uint_eq_iff uint_word_of_int take_bit_eq_mod)
  consider "sint ?src = - (2 ^ 31)" | "- (2 ^ 31) < sint ?src" "sint ?src < 0" | "0 \<le> sint ?src"
    using range by linarith
  then show ?thesis
  proof cases
    case 1
    with min show ?thesis by (simp add: run_s_abs_i32_def Let_def signed_result_def)
  next
    case 2
    then have "?src \<noteq> 0x80000000" "?src \<noteq> 0" using min by auto
    moreover have "to_u64 (- ?src) = - sx64 ?src"
      using 2 to_u64_word_of_int [of "- sint ?src"] by simp
    ultimately show ?thesis
      using 2 zero [of "- sint ?src"] by (simp add: run_s_abs_i32_def Let_def signed_result_def sx64_low)
  next
    case 3
    then have "to_u64 ?src = word_of_int (sint ?src)"
      using range to_u64_word_of_int [of "sint ?src"] by simp
    moreover have "?src \<noteq> 0x80000000" using 3 min by auto
    moreover have "?src \<noteq> 0 \<longleftrightarrow> sint ?src \<noteq> 0" by (metis signed_0 signed_word_eqI)
    ultimately show ?thesis
      using 3 range zero [of "sint ?src"] by (simp add: run_s_abs_i32_def Let_def sx64_low)
  qed
qed

end
