(* ===== verification/AluSop2.thy ===== *)
theory AluSop2
  imports AluSop1Props
begin

text \<open>
  The scalar instructions with two sources (\<open>emulator/src/alu/alu_sop2.cpp\<close>): arithmetic with
  carry, bit fields, shifts, logic, packing, and \<open>S_CBRANCH_G_FORK\<close>, which pushes the smaller
  side of a divergent branch on a stack in the scalar registers. Operands are 64 bit; an
  instruction for 32 bits narrows them where the code does. The bit field extractions other than
  \<open>run_s_bfe_u32\<close> go on after the case of length 0 and shift by the full width.
\<close>

unbundle bit_operations_syntax

section \<open>Instructions\<close>

definition set_result :: "u64 \<Rightarrow> WfStateSOP2 \<Rightarrow> WfStateSOP2" where
  "set_result sdst state = state\<lparr>SOP2_SDST := sdst, SOP2_SCC := sdst \<noteq> 0\<rparr>"

definition run_s_absdiff_i32 :: "WfStateSOP2 \<Rightarrow> WfStateSOP2 result" where
  "run_s_absdiff_i32 state =
     bindE (signed_result (sint (to_u32 (SOP2_SSRC0 state)) - sint (to_u32 (SOP2_SSRC1 state))) :: u32 result) (\<lambda>d.
     bindE (signed_result \<bar>sint d\<bar> :: u32 result) (\<lambda>r.
     Inr (set_result (sx64 r) state)))"

definition run_s_addc_u32 :: "WfStateSOP2 \<Rightarrow> WfStateSOP2" where
  "run_s_addc_u32 state =
     (let temp = SOP2_SSRC0 state + SOP2_SSRC1 state + (if SOP2_SCC state then 1 else 0)
      in state\<lparr>SOP2_SDST := temp, SOP2_SCC := drop_bit 32 temp \<noteq> 0\<rparr>)"

definition run_s_add_i32 :: "WfStateSOP2 \<Rightarrow> WfStateSOP2 result" where
  "run_s_add_i32 state =
     bindE (signed_result (sint (SOP2_SSRC0 state) + sint (SOP2_SSRC1 state)) :: u64 result) (\<lambda>r.
     Inr (state\<lparr>SOP2_SDST := r,
       SOP2_SCC := (get_bit 31 (SOP2_SSRC0 state) = get_bit 31 (SOP2_SSRC1 state)
                    \<and> get_bit 31 (SOP2_SSRC1 state) \<noteq> get_bit 31 r)\<rparr>))"

definition run_s_add_u32 :: "WfStateSOP2 \<Rightarrow> WfStateSOP2" where
  "run_s_add_u32 state =
     (let sdst = SOP2_SSRC0 state + SOP2_SSRC1 state
      in state\<lparr>SOP2_SDST := sdst, SOP2_SCC := drop_bit 32 sdst \<noteq> 0\<rparr>)"

definition run_s_and_b32 :: "WfStateSOP2 \<Rightarrow> WfStateSOP2" where
  "run_s_and_b32 state =
     set_result (SOP2_SSRC0 state AND SOP2_SSRC1 state) state"

definition run_s_and_b64 :: "WfStateSOP2 \<Rightarrow> WfStateSOP2" where
  "run_s_and_b64 state =
     set_result (SOP2_SSRC0 state AND SOP2_SSRC1 state) state"

definition run_s_andn2_b32 :: "WfStateSOP2 \<Rightarrow> WfStateSOP2" where
  "run_s_andn2_b32 state =
     set_result (SOP2_SSRC0 state AND NOT (SOP2_SSRC1 state)) state"

definition run_s_andn2_b64 :: "WfStateSOP2 \<Rightarrow> WfStateSOP2" where
  "run_s_andn2_b64 state =
     set_result (SOP2_SSRC0 state AND NOT (SOP2_SSRC1 state)) state"

definition run_s_ashr_i32 :: "WfStateSOP2 \<Rightarrow> WfStateSOP2" where
  "run_s_ashr_i32 state =
     set_result (sx64 (sshr (to_u32 (SOP2_SSRC0 state)) (unat (SOP2_SSRC1 state AND 31)))) state"

definition run_s_ashr_i64 :: "WfStateSOP2 \<Rightarrow> WfStateSOP2" where
  "run_s_ashr_i64 state =
     set_result (sshr (SOP2_SSRC0 state) (unat (SOP2_SSRC1 state AND 63))) state"

definition run_s_bfe_i32 :: "WfStateSOP2 \<Rightarrow> WfStateSOP2 result" where
  "run_s_bfe_i32 state =
     (let shift = unat (SOP2_SSRC1 state AND 31); length = unat (drop_bit 16 (SOP2_SSRC1 state) AND 0x7f)
      in if shift + length < 32 then
           let v = to_u32 (push_bit (32 - shift - length) (SOP2_SSRC0 state))
           in bindE (shift_ok (32 - length) v) (\<lambda>_.
              Inr (set_result (sx64 (sshr v (32 - length))) state))
         else Inr (set_result (sx64 (sshr (to_u32 (SOP2_SSRC0 state)) shift)) state))"

definition run_s_bfe_i64 :: "WfStateSOP2 \<Rightarrow> WfStateSOP2 result" where
  "run_s_bfe_i64 state =
     (let shift = unat (SOP2_SSRC1 state AND 63); length = unat (drop_bit 16 (SOP2_SSRC1 state) AND 0x7f)
      in if shift + length < 64 then
           bindE (shift_ok (64 - shift - length) (SOP2_SSRC0 state)) (\<lambda>_.
           let v = push_bit (64 - shift - length) (SOP2_SSRC0 state)
           in bindE (shift_ok (64 - length) v) (\<lambda>_.
              Inr (set_result (sshr v (64 - length)) state)))
         else Inr (set_result (sshr (SOP2_SSRC0 state) shift) state))"

definition run_s_bfe_u32 :: "WfStateSOP2 \<Rightarrow> WfStateSOP2" where
  "run_s_bfe_u32 state =
     (let shift = unat (SOP2_SSRC1 state AND 31); length = unat (drop_bit 16 (SOP2_SSRC1 state) AND 0x7f);
          SRC0 = to_u32 (SOP2_SSRC0 state)
      in if length = 0 then set_result 0 state
         else if shift + length < 32
         then set_result (to_u64 (drop_bit (32 - length) (push_bit (32 - shift - length) SRC0))) state
         else set_result (to_u64 (drop_bit shift SRC0)) state)"

definition run_s_bfe_u64 :: "WfStateSOP2 \<Rightarrow> WfStateSOP2 result" where
  "run_s_bfe_u64 state =
     (let shift = unat (SOP2_SSRC1 state AND 63); length = unat (drop_bit 16 (SOP2_SSRC1 state) AND 0x7f)
      in if shift + length < 64 then
           bindE (shift_ok (64 - shift - length) (SOP2_SSRC0 state)) (\<lambda>_.
           let v = push_bit (64 - shift - length) (SOP2_SSRC0 state)
           in bindE (shift_ok (64 - length) v) (\<lambda>_.
              Inr (set_result (drop_bit (64 - length) v) state)))
         else Inr (set_result (drop_bit shift (SOP2_SSRC0 state)) state))"

definition run_s_bfm_b32 :: "WfStateSOP2 \<Rightarrow> WfStateSOP2" where
  "run_s_bfm_b32 state =
     state\<lparr>SOP2_SDST := to_u64 (push_bit (unat (SOP2_SSRC1 state AND 31))
       (push_bit (unat (SOP2_SSRC0 state AND 31)) 1 - 1 :: u32))\<rparr>"

definition run_s_bfm_b64 :: "WfStateSOP2 \<Rightarrow> WfStateSOP2" where
  "run_s_bfm_b64 state =
     state\<lparr>SOP2_SDST := push_bit (unat (SOP2_SSRC1 state AND 63))
       (push_bit (unat (SOP2_SSRC0 state AND 63)) 1 - 1)\<rparr>"

definition run_s_cbranch_g_fork ::
  "WfStateSOP2 \<Rightarrow> Wavefront \<Rightarrow> (WfStateSOP2 \<times> Wavefront) result" where
  "run_s_cbranch_g_fork state wave =
     (let exec = SOP2_EXEC state;
          passes = exec AND SOP2_SSRC0 state;
          failures = exec AND NOT (SOP2_SSRC0 state);
          csp = mode_csp (SOP2_MODE state);
          target = SOP2_SSRC1 state;
          pc = SOP2_PC state;
          pushed = set_csp (csp + 1) (SOP2_MODE state)
      in if passes = exec then Inr (state\<lparr>SOP2_PC := pc_set_value target pc\<rparr>, wave)
         else if failures = exec then Inr (state\<lparr>SOP2_PC := pc_add 4 pc\<rparr>, wave)
         else if bit_count64 failures < bit_count64 passes then
           bindE (set_sgpr_pair (unat csp * 4) passes wave) (\<lambda>w.
           bindE (set_sgpr_pair (unat csp * 4 + 2) target w) (\<lambda>w.
           Inr (state\<lparr>SOP2_EXEC := failures, SOP2_MODE := pushed, SOP2_PC := pc_add 4 pc\<rparr>, w)))
         else
           bindE (set_sgpr_pair (unat csp * 4) failures wave) (\<lambda>w.
           bindE (set_sgpr_pair (unat csp * 4 + 2) (pc_get_value pc + 4) w) (\<lambda>w.
           Inr (state\<lparr>SOP2_EXEC := passes, SOP2_MODE := pushed, SOP2_PC := pc_set_value target pc\<rparr>,
                w))))"

definition run_s_cselect_b32 :: "WfStateSOP2 \<Rightarrow> WfStateSOP2" where
  "run_s_cselect_b32 state =
     state\<lparr>SOP2_SDST := if SOP2_SCC state then SOP2_SSRC0 state else SOP2_SSRC1 state\<rparr>"

definition run_s_cselect_b64 :: "WfStateSOP2 \<Rightarrow> WfStateSOP2" where
  "run_s_cselect_b64 state =
     state\<lparr>SOP2_SDST := if SOP2_SCC state then SOP2_SSRC0 state else SOP2_SSRC1 state\<rparr>"

definition run_s_lshl_b32 :: "WfStateSOP2 \<Rightarrow> WfStateSOP2" where
  "run_s_lshl_b32 state =
     set_result (to_u64 (push_bit (unat (SOP2_SSRC1 state AND 31)) (to_u32 (SOP2_SSRC0 state)))) state"

definition run_s_lshl_b64 :: "WfStateSOP2 \<Rightarrow> WfStateSOP2" where
  "run_s_lshl_b64 state =
     set_result (push_bit (unat (SOP2_SSRC1 state AND 63)) (SOP2_SSRC0 state)) state"

definition run_s_lshl_n_add_u32 :: "WfStateSOP2 \<Rightarrow> nat \<Rightarrow> WfStateSOP2" where
  "run_s_lshl_n_add_u32 state n =
     (let temp = push_bit n (SOP2_SSRC0 state) + SOP2_SSRC1 state
      in state\<lparr>SOP2_SDST := temp AND 0xffffffff, SOP2_SCC := push_bit 32 1 \<le> temp\<rparr>)"

definition run_s_lshl1_add_u32 :: "WfStateSOP2 \<Rightarrow> WfStateSOP2" where
  "run_s_lshl1_add_u32 state =
     run_s_lshl_n_add_u32 state 1"

definition run_s_lshl2_add_u32 :: "WfStateSOP2 \<Rightarrow> WfStateSOP2" where
  "run_s_lshl2_add_u32 state =
     run_s_lshl_n_add_u32 state 2"

definition run_s_lshl3_add_u32 :: "WfStateSOP2 \<Rightarrow> WfStateSOP2" where
  "run_s_lshl3_add_u32 state =
     run_s_lshl_n_add_u32 state 3"

definition run_s_lshl4_add_u32 :: "WfStateSOP2 \<Rightarrow> WfStateSOP2" where
  "run_s_lshl4_add_u32 state =
     run_s_lshl_n_add_u32 state 4"

definition run_s_lshr_b32 :: "WfStateSOP2 \<Rightarrow> WfStateSOP2" where
  "run_s_lshr_b32 state =
     set_result (drop_bit (unat (SOP2_SSRC1 state AND 31)) (SOP2_SSRC0 state)) state"

definition run_s_lshr_b64 :: "WfStateSOP2 \<Rightarrow> WfStateSOP2" where
  "run_s_lshr_b64 state =
     set_result (drop_bit (unat (SOP2_SSRC1 state AND 63)) (SOP2_SSRC0 state)) state"

definition run_s_max_i32 :: "WfStateSOP2 \<Rightarrow> WfStateSOP2" where
  "run_s_max_i32 state =
     (let SRC0 = to_u32 (SOP2_SSRC0 state); SRC1 = to_u32 (SOP2_SSRC1 state)
      in state\<lparr>SOP2_SDST := sx64 (if sint SRC0 > sint SRC1 then SRC0 else SRC1),
           SOP2_SCC := sint SRC0 > sint SRC1\<rparr>)"

definition run_s_max_u32 :: "WfStateSOP2 \<Rightarrow> WfStateSOP2" where
  "run_s_max_u32 state =
     (let SRC0 = to_u32 (SOP2_SSRC0 state); SRC1 = to_u32 (SOP2_SSRC1 state)
      in state\<lparr>SOP2_SDST := to_u64 (max SRC0 SRC1), SOP2_SCC := SRC0 > SRC1\<rparr>)"

definition run_s_min_i32 :: "WfStateSOP2 \<Rightarrow> WfStateSOP2" where
  "run_s_min_i32 state =
     (let SRC0 = to_u32 (SOP2_SSRC0 state); SRC1 = to_u32 (SOP2_SSRC1 state)
      in state\<lparr>SOP2_SDST := sx64 (if sint SRC0 < sint SRC1 then SRC0 else SRC1),
           SOP2_SCC := sint SRC0 < sint SRC1\<rparr>)"

definition run_s_min_u32 :: "WfStateSOP2 \<Rightarrow> WfStateSOP2" where
  "run_s_min_u32 state =
     (let SRC0 = to_u32 (SOP2_SSRC0 state); SRC1 = to_u32 (SOP2_SSRC1 state)
      in state\<lparr>SOP2_SDST := to_u64 (min SRC0 SRC1), SOP2_SCC := SRC0 < SRC1\<rparr>)"

definition run_s_mul_hi_i32 :: "WfStateSOP2 \<Rightarrow> WfStateSOP2 result" where
  "run_s_mul_hi_i32 state =
     bindE (signed_result (sint (SOP2_SSRC0 state) * sint (to_u32 (SOP2_SSRC1 state))) :: u64 result) (\<lambda>p.
     Inr (state\<lparr>SOP2_SDST := sshr p 32\<rparr>))"

definition run_s_mul_hi_u32 :: "WfStateSOP2 \<Rightarrow> WfStateSOP2" where
  "run_s_mul_hi_u32 state =
     state\<lparr>SOP2_SDST := drop_bit 32 (SOP2_SSRC0 state * SOP2_SSRC1 state)\<rparr>"

definition run_s_mul_i32 :: "WfStateSOP2 \<Rightarrow> WfStateSOP2" where
  "run_s_mul_i32 state =
     state\<lparr>SOP2_SDST := sx64 (to_u32 (SOP2_SSRC0 state * SOP2_SSRC1 state))\<rparr>"

definition run_s_nand_b32 :: "WfStateSOP2 \<Rightarrow> WfStateSOP2" where
  "run_s_nand_b32 state =
     set_result (to_u64 (NOT (to_u32 (SOP2_SSRC0 state) AND to_u32 (SOP2_SSRC1 state)))) state"

definition run_s_nand_b64 :: "WfStateSOP2 \<Rightarrow> WfStateSOP2" where
  "run_s_nand_b64 state =
     set_result (NOT (SOP2_SSRC0 state AND SOP2_SSRC1 state)) state"

definition run_s_nor_b32 :: "WfStateSOP2 \<Rightarrow> WfStateSOP2" where
  "run_s_nor_b32 state =
     set_result (to_u64 (NOT (to_u32 (SOP2_SSRC0 state) OR to_u32 (SOP2_SSRC1 state)))) state"

definition run_s_nor_b64 :: "WfStateSOP2 \<Rightarrow> WfStateSOP2" where
  "run_s_nor_b64 state =
     set_result (NOT (SOP2_SSRC0 state OR SOP2_SSRC1 state)) state"

definition run_s_or_b32 :: "WfStateSOP2 \<Rightarrow> WfStateSOP2" where
  "run_s_or_b32 state =
     set_result (to_u64 (to_u32 (SOP2_SSRC0 state) OR to_u32 (SOP2_SSRC1 state))) state"

definition run_s_or_b64 :: "WfStateSOP2 \<Rightarrow> WfStateSOP2" where
  "run_s_or_b64 state =
     set_result (SOP2_SSRC0 state OR SOP2_SSRC1 state) state"

definition run_s_orn2_b32 :: "WfStateSOP2 \<Rightarrow> WfStateSOP2" where
  "run_s_orn2_b32 state =
     set_result (to_u64 (to_u32 (SOP2_SSRC0 state) OR NOT (to_u32 (SOP2_SSRC1 state)))) state"

definition run_s_orn2_b64 :: "WfStateSOP2 \<Rightarrow> WfStateSOP2" where
  "run_s_orn2_b64 state =
     set_result (SOP2_SSRC0 state OR NOT (SOP2_SSRC1 state)) state"

definition run_s_pack_hh_b32_b16 :: "WfStateSOP2 \<Rightarrow> WfStateSOP2" where
  "run_s_pack_hh_b32_b16 state =
     state\<lparr>SOP2_SDST := drop_bit 16 (SOP2_SSRC0 state) OR (SOP2_SSRC1 state AND 0xffff0000)\<rparr>"

definition run_s_pack_lh_b32_b16 :: "WfStateSOP2 \<Rightarrow> WfStateSOP2" where
  "run_s_pack_lh_b32_b16 state =
     state\<lparr>SOP2_SDST := (SOP2_SSRC0 state AND 0xffff) OR (SOP2_SSRC1 state AND 0xffff0000)\<rparr>"

definition run_s_pack_ll_b32_b16 :: "WfStateSOP2 \<Rightarrow> WfStateSOP2" where
  "run_s_pack_ll_b32_b16 state =
     state\<lparr>SOP2_SDST := (SOP2_SSRC0 state AND 0xffff)
       OR push_bit 16 (SOP2_SSRC1 state AND 0xffff)\<rparr>"

definition run_s_rfe_restore_b64 :: "WfStateSOP2 \<Rightarrow> WfStateSOP2" where
  "run_s_rfe_restore_b64 state =
     state\<lparr>SOP2_STATUS := set_status_priv False (SOP2_STATUS state),
       SOP2_PC := pc_set_value (SOP2_SSRC0 state) (SOP2_PC state)\<rparr>"

definition run_s_subb_u32 :: "WfStateSOP2 \<Rightarrow> WfStateSOP2" where
  "run_s_subb_u32 state =
     (let temp = SOP2_SSRC0 state - SOP2_SSRC1 state - of_bool (SOP2_SCC state)
      in state\<lparr>SOP2_SDST := temp, SOP2_SCC := drop_bit 32 temp AND 1 \<noteq> 0\<rparr>)"

definition run_s_sub_i32 :: "WfStateSOP2 \<Rightarrow> WfStateSOP2 result" where
  "run_s_sub_i32 state =
     (let SSRC0 = to_u32 (SOP2_SSRC0 state); SSRC1 = to_u32 (SOP2_SSRC1 state)
      in bindE (signed_result (sint SSRC0 - sint SSRC1) :: u32 result) (\<lambda>r.
         let sdst = sx64 r
         in Inr (state\<lparr>SOP2_SDST := sdst,
              SOP2_SCC := (get_bit 31 SSRC0 \<noteq> get_bit 31 SSRC1
                           \<and> get_bit 31 SSRC0 \<noteq> get_bit 31 (to_u32 sdst))\<rparr>)))"

definition run_s_sub_u32 :: "WfStateSOP2 \<Rightarrow> WfStateSOP2" where
  "run_s_sub_u32 state =
     (let temp = SOP2_SSRC0 state - SOP2_SSRC1 state
      in state\<lparr>SOP2_SDST := temp, SOP2_SCC := drop_bit 32 temp \<noteq> 0\<rparr>)"

definition run_s_xnor_b32 :: "WfStateSOP2 \<Rightarrow> WfStateSOP2" where
  "run_s_xnor_b32 state =
     set_result (to_u64 (NOT (to_u32 (SOP2_SSRC0 state) XOR to_u32 (SOP2_SSRC1 state)))) state"

definition run_s_xnor_b64 :: "WfStateSOP2 \<Rightarrow> WfStateSOP2" where
  "run_s_xnor_b64 state =
     set_result (NOT (SOP2_SSRC0 state XOR SOP2_SSRC1 state)) state"

definition run_s_xor_b32 :: "WfStateSOP2 \<Rightarrow> WfStateSOP2" where
  "run_s_xor_b32 state =
     set_result (to_u64 (to_u32 (SOP2_SSRC0 state) XOR to_u32 (SOP2_SSRC1 state))) state"

definition run_s_xor_b64 :: "WfStateSOP2 \<Rightarrow> WfStateSOP2" where
  "run_s_xor_b64 state =
     set_result (SOP2_SSRC0 state XOR SOP2_SSRC1 state) state"

section \<open>Dispatch\<close>

type_synonym sop2_op =
  "Instruction \<Rightarrow> WfStateSOP2 \<Rightarrow> Wavefront \<Rightarrow> (WfStateSOP2 \<times> Wavefront) result"

definition sop2_plain :: "(WfStateSOP2 \<Rightarrow> WfStateSOP2) \<Rightarrow> sop2_op" where
  "sop2_plain f instr state wave = Inr (f state, wave)"

definition sop2_fallible :: "(WfStateSOP2 \<Rightarrow> WfStateSOP2 result) \<Rightarrow> sop2_op" where
  "sop2_fallible f instr state wave = bindE (f state) (\<lambda>st. Inr (st, wave))"

text \<open>The fork has two operands, the mask and the target; it reads them in its case.\<close>

definition sop2_fork :: sop2_op where
  "sop2_fork instr state wave =
     bindE (read_arg64 instr 0 (- 1) wave) (\<lambda>a.
     bindE (read_arg64 instr 1 (- 1) wave) (\<lambda>b.
     run_s_cbranch_g_fork (state\<lparr>SOP2_SSRC0 := a, SOP2_SSRC1 := b\<rparr>) wave))"

definition sop2_rfe_restore :: sop2_op where
  "sop2_rfe_restore instr state wave =
     bindE (read_arg64 instr 0 (- 1) wave) (\<lambda>a.
     bindE (read_arg64 instr 1 (- 1) wave) (\<lambda>b.
     let st = run_s_rfe_restore_b64 (state\<lparr>SOP2_SDST := a, SOP2_SSRC0 := b\<rparr>)
     in bindE (bindE (operand instr 0) (\<lambda>op. write_operand_to_gpr op (SOP2_SDST st) wave))
          (\<lambda>w. Inr (st, w))))"

definition sop2_switch :: "(InstrKey \<times> sop2_op) list" where
  "sop2_switch =
    [(S_CBRANCH_G_FORK, sop2_fork),
     (S_RFE_RESTORE_B64, sop2_rfe_restore),
     (S_ABSDIFF_I32, sop2_fallible run_s_absdiff_i32),
     (S_ADDC_U32, sop2_plain run_s_addc_u32),
     (S_ADD_I32, sop2_fallible run_s_add_i32),
     (S_ADD_U32, sop2_plain run_s_add_u32),
     (S_AND_B32, sop2_plain run_s_and_b32),
     (S_AND_B64, sop2_plain run_s_and_b64),
     (S_ANDN2_B32, sop2_plain run_s_andn2_b32),
     (S_ANDN2_B64, sop2_plain run_s_andn2_b64),
     (S_ASHR_I32, sop2_plain run_s_ashr_i32),
     (S_ASHR_I64, sop2_plain run_s_ashr_i64),
     (S_BFE_I32, sop2_fallible run_s_bfe_i32),
     (S_BFE_I64, sop2_fallible run_s_bfe_i64),
     (S_BFE_U32, sop2_plain run_s_bfe_u32),
     (S_BFE_U64, sop2_fallible run_s_bfe_u64),
     (S_BFM_B32, sop2_plain run_s_bfm_b32),
     (S_BFM_B64, sop2_plain run_s_bfm_b64),
     (S_CSELECT_B32, sop2_plain run_s_cselect_b32),
     (S_CSELECT_B64, sop2_plain run_s_cselect_b64),
     (S_LSHL_B32, sop2_plain run_s_lshl_b32),
     (S_LSHL_B64, sop2_plain run_s_lshl_b64),
     (S_LSHL1_ADD_U32, sop2_plain run_s_lshl1_add_u32),
     (S_LSHL2_ADD_U32, sop2_plain run_s_lshl2_add_u32),
     (S_LSHL3_ADD_U32, sop2_plain run_s_lshl3_add_u32),
     (S_LSHL4_ADD_U32, sop2_plain run_s_lshl4_add_u32),
     (S_LSHR_B32, sop2_plain run_s_lshr_b32),
     (S_LSHR_B64, sop2_plain run_s_lshr_b64),
     (S_MAX_I32, sop2_plain run_s_max_i32),
     (S_MAX_U32, sop2_plain run_s_max_u32),
     (S_MIN_I32, sop2_plain run_s_min_i32),
     (S_MIN_U32, sop2_plain run_s_min_u32),
     (S_MUL_HI_I32, sop2_fallible run_s_mul_hi_i32),
     (S_MUL_HI_U32, sop2_plain run_s_mul_hi_u32),
     (S_MUL_I32, sop2_plain run_s_mul_i32),
     (S_NAND_B32, sop2_plain run_s_nand_b32),
     (S_NAND_B64, sop2_plain run_s_nand_b64),
     (S_NOR_B32, sop2_plain run_s_nor_b32),
     (S_NOR_B64, sop2_plain run_s_nor_b64),
     (S_OR_B32, sop2_plain run_s_or_b32),
     (S_OR_B64, sop2_plain run_s_or_b64),
     (S_ORN2_B32, sop2_plain run_s_orn2_b32),
     (S_ORN2_B64, sop2_plain run_s_orn2_b64),
     (S_PACK_HH_B32_B16, sop2_plain run_s_pack_hh_b32_b16),
     (S_PACK_LH_B32_B16, sop2_plain run_s_pack_lh_b32_b16),
     (S_PACK_LL_B32_B16, sop2_plain run_s_pack_ll_b32_b16),
     (S_SUBB_U32, sop2_plain run_s_subb_u32),
     (S_SUB_I32, sop2_fallible run_s_sub_i32),
     (S_SUB_U32, sop2_plain run_s_sub_u32),
     (S_XNOR_B32, sop2_plain run_s_xnor_b32),
     (S_XNOR_B64, sop2_plain run_s_xnor_b64),
     (S_XOR_B32, sop2_plain run_s_xor_b32),
     (S_XOR_B64, sop2_plain run_s_xor_b64)]"

definition run_sop2 :: "Instruction \<Rightarrow> Wavefront \<Rightarrow> Wavefront result" where
  "run_sop2 instr wave =
     bindE (get_sop2_state instr wave) (\<lambda>state.
     bindE (case map_of sop2_switch (in_key instr) of
              None \<Rightarrow> unsupported_instruction ''SOP2'' (in_key instr)
            | Some f \<Rightarrow> f instr state wave) (\<lambda>(state, w).
     update_with_sop2_state instr state (sync_sop2 state w)))"

end
