(* ===== verification/AluSop2Props.thy ===== *)
theory AluSop2Props
  imports AluSop2
begin

text \<open>
  What the instructions of \<open>AluSop2\<close> compute: 64 bit addition and subtraction by pairs of 32 bit
  instructions with carry, the unsigned bit field extraction, and what the fork of a divergent
  branch pushes. The stack pointer that the fork means to advance does not move.
\<close>

unbundle bit_operations_syntax

section \<open>Frame\<close>

definition sop2_frame :: "sop2_op \<Rightarrow> bool" where
  "sop2_frame f \<longleftrightarrow> (\<forall>instr s w s' w'. f instr s w = Inr (s', w') \<longrightarrow> wf_frame w w')"

lemma sop2_frames [op_frames]:
  "sop2_frame (sop2_plain f)" "sop2_frame (sop2_fallible g)" "sop2_frame sop2_rfe_restore"
  by (auto simp: sop2_frame_def sop2_plain_def sop2_fallible_def sop2_rfe_restore_def result_simps
      Let_def intro: write_operand_frame)

lemma fork_frame [frame_intros]:
  "run_s_cbranch_g_fork s w = Inr (s', w') \<Longrightarrow> wf_frame w w'"
  by (auto simp: run_s_cbranch_g_fork_def result_simps Let_def split: if_splits
      intro: wf_frame_trans set_sgpr_pair_frame)

lemma sop2_fork_frame [op_frames]: "sop2_frame sop2_fork"
  by (auto simp: sop2_frame_def sop2_fork_def result_simps intro: fork_frame)

lemma sop2_switch_frame: "(k, f) \<in> set sop2_switch \<Longrightarrow> sop2_frame f"
  by (auto simp: sop2_switch_def op_frames)

lemma update_with_sop2_frame [frame_intros]:
  "update_with_sop2_state instr s (sync_sop2 t w) = Inr w' \<Longrightarrow> wf_frame w w'"
  by (auto simp: update_with_sop2_state_def sync_sop2_def result_simps Let_def wf_frame_def
      dest: write_operand_frame split: if_splits)

lemma run_sop2_frame:
  assumes "run_sop2 instr w = Inr w'"
  shows "wf_frame w w'"
proof -
  from assms obtain f s t u where f: "map_of sop2_switch (in_key instr) = Some f"
      "f instr s w = Inr (t, u)" "update_with_sop2_state instr t (sync_sop2 t u) = Inr w'"
    by (auto simp: run_sop2_def result_simps unsupported_instruction_def split: option.splits)
  from f(1) have "sop2_frame f" by (intro sop2_switch_frame) (rule map_of_SomeD)
  with f(2) have "wf_frame w u" by (auto simp: sop2_frame_def)
  also have "wf_frame u w'" using f(3) by (rule update_with_sop2_frame)
  finally show ?thesis .
qed

section \<open>Addition and subtraction with carry\<close>

definition lo32 :: "u64 \<Rightarrow> u64" where "lo32 x = to_u64 (to_u32 x)"
definition hi32 :: "u64 \<Rightarrow> u64" where "hi32 x = drop_bit 32 x"

text \<open>A register keeps the low 32 bits of what an instruction leaves in SDST.\<close>

definition join_regs :: "u64 \<Rightarrow> u64 \<Rightarrow> u64" where
  "join_regs hi lo = push_bit 32 (to_u64 (to_u32 hi)) OR to_u64 (to_u32 lo)"

lemma unat_lo32: "unat (lo32 x) = unat x mod 2 ^ 32"
  by (simp add: lo32_def unsigned_ucast_eq take_bit_eq_mod min_def unat_mod)

lemma unat_hi32: "unat (hi32 x) = unat x div 2 ^ 32"
  by (simp add: hi32_def drop_bit_eq_div unat_div)

lemma unat_join_regs: "unat (join_regs hi lo) = (unat hi mod 2 ^ 32) * 2 ^ 32 + unat lo mod 2 ^ 32"
proof -
  have "join_regs hi lo = push_bit 32 (lo32 hi) + lo32 lo"
    unfolding join_regs_def lo32_def
    by (rule disjunctive_add_eq_or [symmetric]) (auto simp: bit_simps bit_eq_iff dest: bit_imp_le_length)
  moreover have "unat (push_bit 32 (lo32 hi)) = (unat hi mod 2 ^ 32) * 2 ^ 32"
    by (simp add: push_bit_eq_mult unat_word_ariths unat_lo32)
  ultimately show ?thesis
    by (simp add: unat_word_ariths unat_lo32)
qed

lemma halves: "x = push_bit 32 (hi32 x) + lo32 x"
proof -
  have "unat x < 2 ^ 64" using unsigned_less [of x] by simp
  then have "unat (push_bit 32 (hi32 x) + lo32 x) = unat x"
    using div_mult_mod_eq [of "unat x" "2 ^ 32"]
    by (simp add: push_bit_eq_mult unat_word_ariths unat_lo32 unat_hi32 mult.commute mod_simps)
  then show ?thesis by (simp add: word_unat_eq_iff)
qed

lemma join_regs_eq: "join_regs hi lo = push_bit 32 hi + lo32 lo"
proof -
  have "push_bit 32 (to_u64 (to_u32 hi)) = push_bit 32 hi"
    by (rule word_eq_bitsI) (auto simp: bit_simps)
  then have "join_regs hi lo = push_bit 32 hi OR lo32 lo" by (simp only: join_regs_def lo32_def)
  also have "\<dots> = push_bit 32 hi + lo32 lo"
    by (rule disjunctive_add_eq_or [symmetric])
      (auto simp: lo32_def bit_simps bit_eq_iff dest: bit_imp_le_length)
  finally show ?thesis .
qed

lemma sum_carry:
  "hi32 (lo32 x + lo32 y) = of_bool (drop_bit 32 (lo32 x + lo32 y) \<noteq> 0)"
proof -
  have "unat (lo32 x + lo32 y) < 2 * 2 ^ 32"
    by (simp add: unat_word_ariths unat_lo32)
  then have "unat (hi32 (lo32 x + lo32 y)) < 2" by (simp add: unat_hi32)
  then have "hi32 (lo32 x + lo32 y) = 0 \<or> hi32 (lo32 x + lo32 y) = 1"
    by (auto simp: word_unat_eq_iff)
  then show ?thesis by (auto simp: hi32_def)
qed

text \<open>
  A 64 bit sum from the pair \<open>s_add_u32\<close>, \<open>s_addc_u32\<close>: the first adds the low halves, the
  second the high halves and the carry that the first left in SCC.
\<close>

text \<open>
  C25: s_add_u32 followed by s_addc_u32 is 64-bit addition.
\<close>

theorem add_chain:
  fixes x y :: u64
  assumes "SOP2_SSRC0 s = lo32 x" "SOP2_SSRC1 s = lo32 y"
    and "SOP2_SSRC0 t = hi32 x" "SOP2_SSRC1 t = hi32 y"
    and "SOP2_SCC t = SOP2_SCC (run_s_add_u32 s)"
  shows "join_regs (SOP2_SDST (run_s_addc_u32 t)) (SOP2_SDST (run_s_add_u32 s)) = x + y"
proof -
  let ?lo = "lo32 x + lo32 y"
  have "SOP2_SDST (run_s_addc_u32 t) = hi32 x + hi32 y + hi32 ?lo"
    using assms by (simp add: run_s_addc_u32_def run_s_add_u32_def Let_def sum_carry)
  moreover have "SOP2_SDST (run_s_add_u32 s) = ?lo"
    using assms by (simp add: run_s_add_u32_def Let_def)
  moreover have "push_bit 32 (hi32 x + hi32 y + hi32 ?lo) + lo32 ?lo
      = (push_bit 32 (hi32 x) + lo32 x) + (push_bit 32 (hi32 y) + lo32 y)"
    using halves [of ?lo] by (simp add: push_bit_eq_mult algebra_simps)
  ultimately show ?thesis by (simp add: join_regs_eq flip: halves)
qed

lemma diff_borrow:
  fixes x y :: u64
  defines "d \<equiv> lo32 x - lo32 y"
  shows "push_bit 32 (hi32 d) = - push_bit 32 (of_bool (drop_bit 32 d \<noteq> 0))"
proof (cases "lo32 y \<le> lo32 x")
  case True
  then have "unat d < 2 ^ 32" by (simp add: d_def unat_sub unat_lo32 less_imp_diff_less)
  then have "hi32 d = 0" by (simp add: word_unat_eq_iff unat_hi32)
  then show ?thesis by (simp add: hi32_def)
next
  case False
  then have less: "unat (lo32 x) < unat (lo32 y)" by (simp add: word_le_nat_alt)
  have small: "unat (lo32 x) < 2 ^ 32" "unat (lo32 y) < 2 ^ 32" by (simp_all add: unat_lo32)
  have "unat d = 2 ^ 64 + unat (lo32 x) - unat (lo32 y)"
    using less small by (simp add: d_def unat_sub_if')
  then have "unat d div 2 ^ 32 = 2 ^ 32 - 1"
    using less small by (intro div_nat_eqI) simp_all
  then have "unat (hi32 d) = unat (0xffffffff :: u64)" by (simp add: unat_hi32)
  then have hi: "hi32 d = 0xffffffff" by (simp only: word_unat_eq_iff)
  then have "drop_bit 32 d \<noteq> 0" by (simp add: hi32_def)
  moreover have "push_bit 32 (0xffffffff :: u64) = - push_bit 32 1" by simp
  ultimately show ?thesis by (simp only: hi of_bool_eq if_True simp_thms)
qed

text \<open>The difference from the pair \<open>s_sub_u32\<close>, \<open>s_subb_u32\<close>, with the borrow in SCC.\<close>

theorem sub_chain:
  fixes x y :: u64
  assumes "SOP2_SSRC0 s = lo32 x" "SOP2_SSRC1 s = lo32 y"
    and "SOP2_SSRC0 t = hi32 x" "SOP2_SSRC1 t = hi32 y"
    and "SOP2_SCC t = SOP2_SCC (run_s_sub_u32 s)"
  shows "join_regs (SOP2_SDST (run_s_subb_u32 t)) (SOP2_SDST (run_s_sub_u32 s)) = x - y"
proof -
  let ?lo = "lo32 x - lo32 y"
  let ?b = "of_bool (drop_bit 32 ?lo \<noteq> 0) :: u64"
  have "SOP2_SDST (run_s_subb_u32 t) = hi32 x - hi32 y - ?b"
    using assms by (simp add: run_s_subb_u32_def run_s_sub_u32_def Let_def)
  moreover have "SOP2_SDST (run_s_sub_u32 s) = ?lo"
    using assms by (simp add: run_s_sub_u32_def Let_def)
  moreover have "push_bit 32 (hi32 x - hi32 y - ?b) + lo32 ?lo
      = push_bit 32 (hi32 x) - push_bit 32 (hi32 y) + (push_bit 32 (hi32 ?lo) + lo32 ?lo)"
    unfolding diff_borrow by (simp only: push_bit_eq_mult) (simp add: algebra_simps)
  moreover have "\<dots> = (push_bit 32 (hi32 x) + lo32 x) - (push_bit 32 (hi32 y) + lo32 y)"
    unfolding halves [of ?lo, symmetric] by simp
  ultimately show ?thesis by (simp add: join_regs_eq flip: halves)
qed

section \<open>Bit fields\<close>

text \<open>The offset and the width that the second source encodes.\<close>

definition field_offset :: "u64 \<Rightarrow> nat" where "field_offset c = unat (c AND 31)"
definition field_width :: "u64 \<Rightarrow> nat" where "field_width c = unat (drop_bit 16 c AND 0x7f)"

text \<open>
  s_bfe_u32 extracts the bit field of the given offset and width.
\<close>

theorem bfe_u32_spec:
  "bit (SOP2_SDST (run_s_bfe_u32 s)) i \<longleftrightarrow>
    i < field_width (SOP2_SSRC1 s)
    \<and> bit (to_u32 (SOP2_SSRC0 s)) (field_offset (SOP2_SSRC1 s) + i)"
proof -
  let ?src = "to_u32 (SOP2_SSRC0 s)" and ?n = "field_width (SOP2_SSRC1 s)"
    and ?o = "field_offset (SOP2_SSRC1 s)"
  have run: "SOP2_SDST (run_s_bfe_u32 s) =
      (if ?n = 0 then 0
       else if ?o + ?n < 32 then to_u64 (drop_bit (32 - ?n) (push_bit (32 - ?o - ?n) ?src))
       else to_u64 (drop_bit ?o ?src))"
    by (simp add: run_s_bfe_u32_def set_result_def Let_def field_offset_def field_width_def)
  have len: "k < 32" if "bit ?src k" for k using bit_imp_le_length [OF that] by simp
  consider "?n = 0" | "0 < ?n" "?o + ?n < 32" | "0 < ?n" "32 \<le> ?o + ?n" by linarith
  then show ?thesis
  proof cases
    case 1
    with run show ?thesis by simp
  next
    case 2
    then have "32 - ?n + i - (32 - ?o - ?n) = ?o + i" by linarith
    with 2 have "bit (drop_bit (32 - ?n) (push_bit (32 - ?o - ?n) ?src)) i \<longleftrightarrow> i < ?n \<and> bit ?src (?o + i)"
      by (auto simp: bit_drop_bit_eq bit_push_bit_iff add.commute)
    with 2 run show ?thesis using len by (auto simp: bit_unsigned_iff)
  next
    case 3
    then have "i < ?n" if "bit ?src (?o + i)" using len [OF that] by simp
    with 3 run show ?thesis using len [of "?o + i"] by (auto simp: bit_unsigned_iff bit_drop_bit_eq)
  qed
qed

text \<open>The signed and the 64 bit extraction have no result for a field of width 0.\<close>

lemma bfe_width_zero:
  assumes "field_width (SOP2_SSRC1 s) = 0"
  shows "run_s_bfe_i32 s = Inl (Undefined ''shift count'')"
    and "run_s_bfe_u64 s = Inl (Undefined ''shift count'')"
    and "run_s_bfe_i64 s = Inl (Undefined ''shift count'')"
proof -
  have shift: "unat (SOP2_SSRC1 s AND 31) < 32" "unat (SOP2_SSRC1 s AND 63) < 64"
    by (rule unat_and_mask_lt)+
  have w: "unat (drop_bit 16 (SOP2_SSRC1 s) AND 0x7f) = 0"
    using assms by (simp add: field_width_def)
  show "run_s_bfe_i32 s = Inl (Undefined ''shift count'')"
    using shift unfolding run_s_bfe_i32_def Let_def w by (simp add: shift_ok_def)
  show "run_s_bfe_u64 s = Inl (Undefined ''shift count'')"
    using shift unfolding run_s_bfe_u64_def Let_def w by (auto simp: shift_ok_def guardE_def)
  show "run_s_bfe_i64 s = Inl (Undefined ''shift count'')"
    using shift unfolding run_s_bfe_i64_def Let_def w by (auto simp: shift_ok_def guardE_def)
qed

section \<open>Divergent branches\<close>

lemma mode_csp_range: "mode_csp m \<in> {0, 2, 4, 6}"
proof -
  have "unat m < 2 ^ 32" using unsigned_less [of m] by simp
  then have "unat (drop_bit 29 m) < 8" by (simp add: drop_bit_eq_div unat_div less_mult_imp_div_less)
  moreover have "drop_bit 29 m = of_nat (unat (drop_bit 29 m))" by simp
  ultimately obtain k where "drop_bit 29 m = of_nat k" "k < 8" by blast
  moreover from this(2) have "k \<in> {0, 1, 2, 3, 4, 5, 6, 7}" by auto
  ultimately show ?thesis unfolding mode_csp_def by auto
qed

lemma csp_increment_lost: "mode_csp (set_csp (mode_csp m + 1) m) = mode_csp m"
  using mode_csp_range [of m] by (auto simp: mode_csp_set_csp)

lemma set_sgpr_pair_iff:
  "set_sgpr_pair i v w = Inr w' \<longleftrightarrow>
    even i \<and> i + 1 < length (scalarRegFile w)
    \<and> w' = w\<lparr>scalarRegFile := (scalarRegFile w)[i := to_u32 v, Suc i := to_u32 (drop_bit 32 v)]\<rparr>"
  by (auto simp: set_sgpr_pair_def set_scalar_def result_simps even_iff_mod_2_eq_zero)

lemma read_set_sgpr_pair:
  assumes "set_sgpr_pair i v w = Inr w'"
  shows "read_sgpr_pair i w' = Inr v"
  using assms join_split_u64 [of v]
  by (auto simp: set_sgpr_pair_iff read_sgpr_pair_def or.commute even_iff_mod_2_eq_zero)

lemma read_other_sgpr_pair:
  assumes "set_sgpr_pair i v w = Inr w'" and "even j" and "j \<noteq> i"
  shows "read_sgpr_pair j w' = read_sgpr_pair j w"
proof -
  have "Suc j \<noteq> i" "j \<noteq> Suc i" using assms by (auto simp: set_sgpr_pair_iff)
  with assms show ?thesis by (auto simp: set_sgpr_pair_iff read_sgpr_pair_def)
qed

text \<open>
  A fork with lanes on both sides goes on with the side that has fewer lanes (the branch side when
  both have the same number) and pushes the other side at the stack pointer. The stack pointer is
  not advanced, so that a second fork would push to the same place.
\<close>

lemma fork_spec:
  assumes "run_s_cbranch_g_fork s w = Inr (s', w')"
    and "SOP2_EXEC s AND SOP2_SSRC0 s \<noteq> SOP2_EXEC s"
    and "SOP2_EXEC s AND NOT (SOP2_SSRC0 s) \<noteq> SOP2_EXEC s"
  shows "read_sgpr_pair (unat (mode_csp (SOP2_MODE s)) * 4) w'
      = Inr (SOP2_EXEC s AND NOT (SOP2_EXEC s'))"
    and "popcount (SOP2_EXEC s') \<le> popcount (SOP2_EXEC s AND NOT (SOP2_EXEC s'))"
    and "mode_csp (SOP2_MODE s') = mode_csp (SOP2_MODE s)"
proof -
  let ?passes = "SOP2_EXEC s AND SOP2_SSRC0 s" and ?failures = "SOP2_EXEC s AND NOT (SOP2_SSRC0 s)"
  let ?i = "unat (mode_csp (SOP2_MODE s)) * 4"
  obtain pushed x u where run: "set_sgpr_pair ?i pushed w = Inr u" "set_sgpr_pair (?i + 2) x u = Inr w'"
      "SOP2_MODE s' = set_csp (mode_csp (SOP2_MODE s) + 1) (SOP2_MODE s)"
    and side: "SOP2_EXEC s' = ?failures \<and> pushed = ?passes \<and> bit_count64 ?failures < bit_count64 ?passes
      \<or> SOP2_EXEC s' = ?passes \<and> pushed = ?failures \<and> \<not> bit_count64 ?failures < bit_count64 ?passes"
    using assms by (auto simp: run_s_cbranch_g_fork_def Let_def result_simps split: if_splits)
  have pushed: "pushed = SOP2_EXEC s AND NOT (SOP2_EXEC s')"
    using side by (auto simp: bit_eq_iff bit_simps)
  have "read_sgpr_pair ?i w' = read_sgpr_pair ?i u"
    using run(2) by (rule read_other_sgpr_pair) simp_all
  with run(1) show "read_sgpr_pair ?i w' = Inr (SOP2_EXEC s AND NOT (SOP2_EXEC s'))"
    by (simp add: read_set_sgpr_pair pushed)
  show "popcount (SOP2_EXEC s') \<le> popcount (SOP2_EXEC s AND NOT (SOP2_EXEC s'))"
    using side unfolding pushed [symmetric]
    by (auto simp: word_less_nat_alt bit_count64_popcount)
  show "mode_csp (SOP2_MODE s') = mode_csp (SOP2_MODE s)"
    unfolding run(3) by (rule csp_increment_lost)
qed

text \<open>
  The signed subtraction sets SCC on overflow, but an overflowing subtraction is undefined: a
  result that exists always has SCC clear.
\<close>

lemma get_bit_31: "get_bit 31 w \<longleftrightarrow> sint w < 0" for w :: u32
  using bit_last_iff [of w] by (simp add: get_bit_iff)

lemma to_u32_sx64 [simp]: "to_u32 (sx64 (r :: u32)) = r"
proof (rule word_eq_bitsI)
  fix n
  assume "n < LENGTH(32)"
  then have "min 31 n = n" by simp
  with \<open>n < LENGTH(32)\<close> show "bit (to_u32 (sx64 r)) n = bit r n" by (simp add: bit_simps)
qed

theorem sub_i32_scc:
  assumes "run_s_sub_i32 s = Inr s'"
  shows "\<not> SOP2_SCC s'"
proof -
  let ?a = "to_u32 (SOP2_SSRC0 s)" and ?b = "to_u32 (SOP2_SSRC1 s)"
  obtain r where r: "signed_result (sint ?a - sint ?b) = Inr (r :: u32)"
      and s': "s' = s\<lparr>SOP2_SDST := sx64 r,
        SOP2_SCC := (get_bit 31 ?a \<noteq> get_bit 31 ?b \<and> get_bit 31 ?a \<noteq> get_bit 31 (to_u32 (sx64 r)))\<rparr>"
    using assms by (auto simp: run_s_sub_i32_def Let_def result_simps)
  have "sint r = sint ?a - sint ?b" using r by (rule signed_result_sint)
  then show ?thesis unfolding s' by (auto simp: get_bit_31)
qed

section \<open>Concrete runs\<close>

definition sop2_state :: "u64 \<Rightarrow> u64 \<Rightarrow> bool \<Rightarrow> WfStateSOP2" where
  "sop2_state a b scc = \<lparr>SOP2_SDST = 0, SOP2_SSRC0 = a, SOP2_SSRC1 = b, SOP2_EXEC = 0,
     SOP2_PC = new_pc 0, SOP2_MODE = ModeReg_new 0, SOP2_STATUS = StatusReg_new 0, SOP2_SCC = scc\<rparr>"

lemma add_chain_witness:
  "let s = sop2_state (lo32 0x1ffffffff) (lo32 2) False;
       t = sop2_state (hi32 0x1ffffffff) (hi32 2) (SOP2_SCC (run_s_add_u32 s))
   in join_regs (SOP2_SDST (run_s_addc_u32 t)) (SOP2_SDST (run_s_add_u32 s)) = 0x1ffffffff + 2"
  unfolding Let_def by (rule add_chain) (simp_all add: sop2_state_def)

lemma sub_chain_witness:
  "let s = sop2_state (lo32 0x100000000) (lo32 1) False;
       t = sop2_state (hi32 0x100000000) (hi32 1) (SOP2_SCC (run_s_sub_u32 s))
   in join_regs (SOP2_SDST (run_s_subb_u32 t)) (SOP2_SDST (run_s_sub_u32 s)) = 0x100000000 - 1"
  unfolding Let_def by (rule sub_chain) (simp_all add: sop2_state_def)

lemma sub_i32_scc_witness: "\<not> SOP2_SCC (projr (run_s_sub_i32 (sop2_state 5 7 True)))"
  by (rule sub_i32_scc [OF returnsD]) code_simp

text \<open>
  The signed and the 64-bit field extractions shift by the full width, which is undefined,
  when the field has width zero.
\<close>

theorem bfe_signed_width_zero:
  assumes "field_width (SOP2_SSRC1 s) = 0"
  shows "run_s_bfe_i32 s = Inl (Undefined ''shift count'')
    \<and> run_s_bfe_u64 s = Inl (Undefined ''shift count'')
    \<and> run_s_bfe_i64 s = Inl (Undefined ''shift count'')"
  using bfe_width_zero [OF assms] by simp

lemma bfe_signed_width_zero_witness:
  "let s = sop2_state 1 0 False
   in run_s_bfe_i32 s = Inl (Undefined ''shift count'')
    \<and> run_s_bfe_u64 s = Inl (Undefined ''shift count'')
    \<and> run_s_bfe_i64 s = Inl (Undefined ''shift count'')"
  unfolding Let_def by (rule bfe_signed_width_zero) code_simp

text \<open>
  s_cbranch_g_fork with both sides populated keeps the smaller side active and pushes the
  other one on the stack of forks, but does not advance the stack pointer.
\<close>

theorem cbranch_fork_pushes:
  assumes "run_s_cbranch_g_fork s w = Inr (s', w')"
    and "SOP2_EXEC s AND SOP2_SSRC0 s \<noteq> SOP2_EXEC s"
    and "SOP2_EXEC s AND NOT (SOP2_SSRC0 s) \<noteq> SOP2_EXEC s"
  shows "read_sgpr_pair (unat (mode_csp (SOP2_MODE s)) * 4) w'
      = Inr (SOP2_EXEC s AND NOT (SOP2_EXEC s'))
    \<and> popcount (SOP2_EXEC s') \<le> popcount (SOP2_EXEC s AND NOT (SOP2_EXEC s'))
    \<and> mode_csp (SOP2_MODE s') = mode_csp (SOP2_MODE s)"
  using fork_spec [OF assms] by simp

lemma cbranch_fork_pushes_witness:
  "let s = (sop2_state 1 64 False)\<lparr>SOP2_EXEC := 7\<rparr>; r = projr (run_s_cbranch_g_fork s small_wave)
   in read_sgpr_pair (unat (mode_csp (SOP2_MODE s)) * 4) (snd r)
      = Inr (SOP2_EXEC s AND NOT (SOP2_EXEC (fst r)))
    \<and> popcount (SOP2_EXEC (fst r)) \<le> popcount (SOP2_EXEC s AND NOT (SOP2_EXEC (fst r)))
    \<and> mode_csp (SOP2_MODE (fst r)) = mode_csp (SOP2_MODE s)"
  unfolding Let_def
  by (rule cbranch_fork_pushes, simp only: prod.collapse, rule returnsD) code_simp+

end
