(* ===== verification/AluSopk.thy ===== *)
theory AluSopk
  imports AluSop2Props
begin

text \<open>
  The scalar instructions with a 16 bit immediate (\<open>emulator/src/alu/alu_sopk.cpp\<close>). The
  immediate is kept as the 32 bits that the operand holds. The call and the fork are handled before
  the switch and write the wavefront themselves.
\<close>

unbundle bit_operations_syntax

section \<open>Instructions\<close>

definition run_s_addk_i32 :: "WfStateSOPK \<Rightarrow> WfStateSOPK result" where
  "run_s_addk_i32 state =
     bindE (signed_result (sint (to_u32 (SOPK_SDST state)) + sint (SOPK_IMM16 state)) :: u32 result) (\<lambda>r.
     let sdst = sx64 r
     in bindE (signed_result (sint sdst + uint (SOPK_IMM16 state)) :: u64 result) (\<lambda>temp.
        Inr (state\<lparr>SOPK_SDST := sdst,
          SOPK_SCC := (get_bit 31 temp = get_bit 15 (SOPK_IMM16 state)
                       \<and> get_bit 31 temp \<noteq> get_bit 31 (to_u32 sdst))\<rparr>)))"

definition run_s_call_b64 :: "WfStateSOPK \<Rightarrow> WfStateSOPK" where
  "run_s_call_b64 state =
     state\<lparr>SOPK_SDST := pc_get_value (SOPK_PC state) + 4,
       SOPK_PC := pc_set_value (SOPK_RELADDR state) (SOPK_PC state)\<rparr>"

definition run_s_cbranch_i_fork ::
  "WfStateSOPK \<Rightarrow> Wavefront \<Rightarrow> (WfStateSOPK \<times> Wavefront) result" where
  "run_s_cbranch_i_fork state wave =
     (let exec = execReg wave;
          passes = exec AND SOPK_SSRC0 state;
          failures = exec AND NOT (SOPK_SSRC0 state);
          csp = mode_csp (modeReg wave);
          target = SOPK_RELADDR state;
          pc = SOPK_PC state;
          pushed = set_csp (csp + 1) (modeReg wave)
      in if passes = exec then Inr (state\<lparr>SOPK_PC := pc_set_value target pc\<rparr>, wave)
         else if failures = exec then Inr (state\<lparr>SOPK_PC := pc_add 4 pc\<rparr>, wave)
         else if bit_count64 failures < bit_count64 passes then
           bindE (set_sgpr_pair (unat csp * 4) passes (wave\<lparr>execReg := failures\<rparr>)) (\<lambda>w.
           bindE (set_sgpr_pair (unat csp * 4 + 2) target w) (\<lambda>w.
           Inr (state\<lparr>SOPK_PC := pc_add 4 pc\<rparr>, w\<lparr>modeReg := pushed\<rparr>)))
         else
           bindE (set_sgpr_pair (unat csp * 4) failures (wave\<lparr>execReg := passes\<rparr>)) (\<lambda>w.
           bindE (set_sgpr_pair (unat csp * 4 + 2) (pc_get_value pc + 4) w) (\<lambda>w.
           Inr (state\<lparr>SOPK_PC := pc_set_value target pc\<rparr>, w\<lparr>modeReg := pushed\<rparr>))))"

definition run_s_cmovk_i32 :: "WfStateSOPK \<Rightarrow> WfStateSOPK" where
  "run_s_cmovk_i32 state =
     (if SOPK_SCC state then state\<lparr>SOPK_SDST := sx64 (SOPK_IMM16 state)\<rparr> else state)"

definition run_s_cmpk_eq_i32 :: "WfStateSOPK \<Rightarrow> WfStateSOPK" where
  "run_s_cmpk_eq_i32 state =
     state\<lparr>SOPK_SCC := (sint (to_u32 (SOPK_SDST state)) = sint (SOPK_IMM16 state))\<rparr>"

definition run_s_cmpk_eq_u32 :: "WfStateSOPK \<Rightarrow> WfStateSOPK" where
  "run_s_cmpk_eq_u32 state =
     state\<lparr>SOPK_SCC := (SOPK_SDST state = to_u64 (SOPK_IMM16 state))\<rparr>"

definition run_s_cmpk_ge_i32 :: "WfStateSOPK \<Rightarrow> WfStateSOPK" where
  "run_s_cmpk_ge_i32 state =
     state\<lparr>SOPK_SCC := (sint (to_u32 (SOPK_SDST state)) \<ge> sint (SOPK_IMM16 state))\<rparr>"

definition run_s_cmpk_ge_u32 :: "WfStateSOPK \<Rightarrow> WfStateSOPK" where
  "run_s_cmpk_ge_u32 state =
     state\<lparr>SOPK_SCC := (SOPK_SDST state \<ge> to_u64 (SOPK_IMM16 state))\<rparr>"

definition run_s_cmpk_gt_i32 :: "WfStateSOPK \<Rightarrow> WfStateSOPK" where
  "run_s_cmpk_gt_i32 state =
     state\<lparr>SOPK_SCC := (sint (to_u32 (SOPK_SDST state)) \<ge> sint (SOPK_IMM16 state))\<rparr>"

definition run_s_cmpk_gt_u32 :: "WfStateSOPK \<Rightarrow> WfStateSOPK" where
  "run_s_cmpk_gt_u32 state =
     state\<lparr>SOPK_SCC := (SOPK_SDST state > to_u64 (SOPK_IMM16 state))\<rparr>"

definition run_s_cmpk_le_i32 :: "WfStateSOPK \<Rightarrow> WfStateSOPK" where
  "run_s_cmpk_le_i32 state =
     state\<lparr>SOPK_SCC := (sint (to_u32 (SOPK_SDST state)) \<le> sint (SOPK_IMM16 state))\<rparr>"

definition run_s_cmpk_le_u32 :: "WfStateSOPK \<Rightarrow> WfStateSOPK" where
  "run_s_cmpk_le_u32 state =
     state\<lparr>SOPK_SCC := (SOPK_SDST state \<le> to_u64 (SOPK_IMM16 state))\<rparr>"

definition run_s_cmpk_lg_i32 :: "WfStateSOPK \<Rightarrow> WfStateSOPK" where
  "run_s_cmpk_lg_i32 state =
     state\<lparr>SOPK_SCC := (sint (to_u32 (SOPK_SDST state)) \<noteq> sint (SOPK_IMM16 state))\<rparr>"

definition run_s_cmpk_lg_u32 :: "WfStateSOPK \<Rightarrow> WfStateSOPK" where
  "run_s_cmpk_lg_u32 state =
     state\<lparr>SOPK_SCC := (SOPK_SDST state \<noteq> to_u64 (SOPK_IMM16 state))\<rparr>"

definition run_s_cmpk_lt_i32 :: "WfStateSOPK \<Rightarrow> WfStateSOPK" where
  "run_s_cmpk_lt_i32 state =
     state\<lparr>SOPK_SCC := (sint (to_u32 (SOPK_SDST state)) < sint (SOPK_IMM16 state))\<rparr>"

definition run_s_cmpk_lt_u32 :: "WfStateSOPK \<Rightarrow> WfStateSOPK" where
  "run_s_cmpk_lt_u32 state =
     state\<lparr>SOPK_SCC := (SOPK_SDST state < to_u64 (SOPK_IMM16 state))\<rparr>"

definition run_s_movk_i32 :: "WfStateSOPK \<Rightarrow> WfStateSOPK" where
  "run_s_movk_i32 state =
     state\<lparr>SOPK_SCC := SOPK_IMM16 state \<noteq> 0\<rparr>"

definition run_s_mulk_i32 :: "WfStateSOPK \<Rightarrow> WfStateSOPK result" where
  "run_s_mulk_i32 state =
     bindE (signed_result (sint (to_u32 (SOPK_SDST state)) * sint (SOPK_IMM16 state)) :: u32 result) (\<lambda>r.
     Inr (state\<lparr>SOPK_SDST := sx64 r\<rparr>))"

section \<open>Dispatch\<close>

type_synonym sopk_op = "WfStateSOPK \<Rightarrow> WfStateSOPK result"

definition sopk_plain :: "(WfStateSOPK \<Rightarrow> WfStateSOPK) \<Rightarrow> sopk_op" where
  "sopk_plain f state = Inr (f state)"

definition sopk_fallible :: "(WfStateSOPK \<Rightarrow> WfStateSOPK result) \<Rightarrow> sopk_op" where
  "sopk_fallible f state = f state"

definition sopk_switch :: "(InstrKey \<times> sopk_op) list" where
  "sopk_switch =
    [(S_ADDK_I32, sopk_fallible run_s_addk_i32),
     (S_CMOVK_I32, sopk_plain run_s_cmovk_i32),
     (S_CMPK_EQ_I32, sopk_plain run_s_cmpk_eq_i32),
     (S_CMPK_EQ_U32, sopk_plain run_s_cmpk_eq_u32),
     (S_CMPK_GE_I32, sopk_plain run_s_cmpk_ge_i32),
     (S_CMPK_GE_U32, sopk_plain run_s_cmpk_ge_u32),
     (S_CMPK_GT_I32, sopk_plain run_s_cmpk_gt_i32),
     (S_CMPK_GT_U32, sopk_plain run_s_cmpk_gt_u32),
     (S_CMPK_LE_I32, sopk_plain run_s_cmpk_le_i32),
     (S_CMPK_LE_U32, sopk_plain run_s_cmpk_le_u32),
     (S_CMPK_LG_I32, sopk_plain run_s_cmpk_lg_i32),
     (S_CMPK_LG_U32, sopk_plain run_s_cmpk_lg_u32),
     (S_CMPK_LT_I32, sopk_plain run_s_cmpk_lt_i32),
     (S_CMPK_LT_U32, sopk_plain run_s_cmpk_lt_u32),
     (S_MOVK_I32, sopk_plain run_s_movk_i32),
     (S_MULK_I32, sopk_fallible run_s_mulk_i32)]"

definition sopk_call :: "Instruction \<Rightarrow> Wavefront \<Rightarrow> Wavefront result" where
  "sopk_call instr wave =
     bindE (read_arg64 instr 0 (- 1) wave) (\<lambda>sdst.
     bindE (read_arg64 instr 1 (- 1) wave) (\<lambda>reladdr.
     let state = run_s_call_b64 ((get_sopk_state0 wave)\<lparr>SOPK_SDST := sdst, SOPK_RELADDR := reladdr\<rparr>)
     in bindE (operand instr 0)
          (\<lambda>op. write_operand_to_gpr op (SOPK_SDST state) (sync_sopk state wave))))"

definition sopk_fork :: "Instruction \<Rightarrow> Wavefront \<Rightarrow> Wavefront result" where
  "sopk_fork instr wave =
     bindE (read_arg64 instr 0 (- 1) wave) (\<lambda>ssrc0.
     bindE (read_arg64 instr 1 (- 1) wave) (\<lambda>reladdr.
     bindE (run_s_cbranch_i_fork
              ((get_sopk_state0 wave)\<lparr>SOPK_SSRC0 := ssrc0, SOPK_RELADDR := reladdr\<rparr>) wave)
       (\<lambda>(state, w). Inr (sync_sopk state w))))"

definition run_sopk :: "Instruction \<Rightarrow> Wavefront \<Rightarrow> Wavefront result" where
  "run_sopk instr wave =
     (if in_key instr = S_CALL_B64 then sopk_call instr wave
      else if in_key instr = S_CBRANCH_I_FORK then sopk_fork instr wave
      else
        bindE (get_sopk_state instr wave) (\<lambda>state.
        bindE (case map_of sopk_switch (in_key instr) of
                 None \<Rightarrow> unsupported_instruction ''SOPK'' (in_key instr)
               | Some f \<Rightarrow> f state) (\<lambda>state.
        update_with_sopk_state instr state (sync_sopk state wave))))"

section \<open>Frame\<close>

lemma i_fork_frame [frame_intros]:
  "run_s_cbranch_i_fork s w = Inr (s', w') \<Longrightarrow> wf_frame w w'"
  by (auto simp: run_s_cbranch_i_fork_def result_simps Let_def wf_frame_def split: if_splits
      dest!: set_sgpr_pair_frame)

lemma run_sopk_frame: "run_sopk instr w = Inr w' \<Longrightarrow> wf_frame w w'"
  by (auto simp: run_sopk_def sopk_call_def sopk_fork_def update_with_sopk_state_def sync_sopk_def
      result_simps Let_def wf_frame_def split: if_splits dest!: write_operand_frame i_fork_frame)

section \<open>What the instructions compute\<close>

text \<open>The move of an immediate leaves SDST alone and sets SCC instead.\<close>

lemma movk_sdst: "SOPK_SDST (run_s_movk_i32 s) = SOPK_SDST s"
  by (simp add: run_s_movk_i32_def)

text \<open>The signed "greater" comparison holds for equal operands.\<close>

theorem cmpk_gt_i32_equal:
  "SOPK_SCC (run_s_cmpk_gt_i32 s) \<longleftrightarrow> SOPK_SCC (run_s_cmpk_ge_i32 s)"
  by (simp add: run_s_cmpk_gt_i32_def run_s_cmpk_ge_i32_def)

end
