(* ===== verification/AluSopc.thy ===== *)
theory AluSopc
  imports AluSopk
begin

text \<open>
  The scalar comparisons (\<open>emulator/src/alu/alu_sopc.cpp\<close>). They set SCC; two of them set fields
  of the MODE register. The state they run on takes its M0 from EXEC, and M0 is written back.
\<close>

unbundle bit_operations_syntax

section \<open>Instructions\<close>

definition run_s_bitcmp0_b32 :: "WfStateSOPC \<Rightarrow> WfStateSOPC" where
  "run_s_bitcmp0_b32 state =
     state\<lparr>SOPC_SCC := (SOPC_SSRC0 state AND to_u64 (push_bit (unat (SOPC_SSRC1 state AND 31)) 1 :: u32) = 0)\<rparr>"

definition run_s_bitcmp0_b64 :: "WfStateSOPC \<Rightarrow> WfStateSOPC" where
  "run_s_bitcmp0_b64 state =
     state\<lparr>SOPC_SCC := (SOPC_SSRC0 state AND push_bit (unat (SOPC_SSRC1 state AND 63)) 1 = 0)\<rparr>"

definition run_s_bitcmp1_b32 :: "WfStateSOPC \<Rightarrow> WfStateSOPC" where
  "run_s_bitcmp1_b32 state =
     state\<lparr>SOPC_SCC := (SOPC_SSRC0 state AND to_u64 (push_bit (unat (SOPC_SSRC1 state AND 31)) 1 :: u32) \<noteq> 0)\<rparr>"

definition run_s_bitcmp1_b64 :: "WfStateSOPC \<Rightarrow> WfStateSOPC" where
  "run_s_bitcmp1_b64 state =
     state\<lparr>SOPC_SCC := (SOPC_SSRC0 state AND push_bit (unat (SOPC_SSRC1 state AND 63)) 1 \<noteq> 0)\<rparr>"

definition run_s_cmp_eq_u64 :: "WfStateSOPC \<Rightarrow> WfStateSOPC" where
  "run_s_cmp_eq_u64 state =
     state\<lparr>SOPC_SCC := (SOPC_SSRC0 state = SOPC_SSRC1 state)\<rparr>"

definition run_s_cmp_eq_i32 :: "WfStateSOPC \<Rightarrow> WfStateSOPC" where
  "run_s_cmp_eq_i32 state =
     run_s_cmp_eq_u64 state"

definition run_s_cmp_eq_u32 :: "WfStateSOPC \<Rightarrow> WfStateSOPC" where
  "run_s_cmp_eq_u32 state =
     run_s_cmp_eq_u64 state"

definition run_s_cmp_ge_i32 :: "WfStateSOPC \<Rightarrow> WfStateSOPC" where
  "run_s_cmp_ge_i32 state =
     state\<lparr>SOPC_SCC := (sint (to_u32 (SOPC_SSRC0 state)) \<ge> sint (to_u32 (SOPC_SSRC1 state)))\<rparr>"

definition run_s_cmp_ge_u32 :: "WfStateSOPC \<Rightarrow> WfStateSOPC" where
  "run_s_cmp_ge_u32 state =
     state\<lparr>SOPC_SCC := (to_u32 (SOPC_SSRC0 state) \<ge> to_u32 (SOPC_SSRC1 state))\<rparr>"

definition run_s_cmp_gt_i32 :: "WfStateSOPC \<Rightarrow> WfStateSOPC" where
  "run_s_cmp_gt_i32 state =
     state\<lparr>SOPC_SCC := (sint (to_u32 (SOPC_SSRC0 state)) > sint (to_u32 (SOPC_SSRC1 state)))\<rparr>"

definition run_s_cmp_gt_u32 :: "WfStateSOPC \<Rightarrow> WfStateSOPC" where
  "run_s_cmp_gt_u32 state =
     state\<lparr>SOPC_SCC := (to_u32 (SOPC_SSRC0 state) > to_u32 (SOPC_SSRC1 state))\<rparr>"

definition run_s_cmp_le_i32 :: "WfStateSOPC \<Rightarrow> WfStateSOPC" where
  "run_s_cmp_le_i32 state =
     state\<lparr>SOPC_SCC := (sint (to_u32 (SOPC_SSRC0 state)) \<le> sint (to_u32 (SOPC_SSRC1 state)))\<rparr>"

definition run_s_cmp_le_u32 :: "WfStateSOPC \<Rightarrow> WfStateSOPC" where
  "run_s_cmp_le_u32 state =
     state\<lparr>SOPC_SCC := (to_u32 (SOPC_SSRC0 state) \<le> to_u32 (SOPC_SSRC1 state))\<rparr>"

definition run_s_cmp_lg_u64 :: "WfStateSOPC \<Rightarrow> WfStateSOPC" where
  "run_s_cmp_lg_u64 state =
     state\<lparr>SOPC_SCC := (SOPC_SSRC0 state \<noteq> SOPC_SSRC1 state)\<rparr>"

definition run_s_cmp_lg_i32 :: "WfStateSOPC \<Rightarrow> WfStateSOPC" where
  "run_s_cmp_lg_i32 state =
     run_s_cmp_lg_u64 state"

definition run_s_cmp_lg_u32 :: "WfStateSOPC \<Rightarrow> WfStateSOPC" where
  "run_s_cmp_lg_u32 state =
     run_s_cmp_lg_u64 state"

definition run_s_cmp_ne_u64 :: "WfStateSOPC \<Rightarrow> WfStateSOPC" where
  "run_s_cmp_ne_u64 state =
     run_s_cmp_lg_u64 state"

definition run_s_cmp_lt_i32 :: "WfStateSOPC \<Rightarrow> WfStateSOPC" where
  "run_s_cmp_lt_i32 state =
     state\<lparr>SOPC_SCC := (sint (to_u32 (SOPC_SSRC0 state)) < sint (to_u32 (SOPC_SSRC1 state)))\<rparr>"

definition run_s_cmp_lt_u32 :: "WfStateSOPC \<Rightarrow> WfStateSOPC" where
  "run_s_cmp_lt_u32 state =
     state\<lparr>SOPC_SCC := (SOPC_SSRC0 state < SOPC_SSRC1 state)\<rparr>"

definition run_s_set_gpr_idx_on :: "WfStateSOPC \<Rightarrow> WfStateSOPC" where
  "run_s_set_gpr_idx_on state =
     state\<lparr>SOPC_MODE := set_gpr_idx_en True (SOPC_MODE state),
       SOPC_M0 := to_u32 (push_bit 12 (SOPC_SSRC1 state AND 15) OR (SOPC_SSRC0 state AND 0xff))\<rparr>"

text \<open>The mask is an \<open>int\<close> shifted left, which sign-extends when it becomes 64 bits wide.\<close>

definition run_s_setvskip :: "WfStateSOPC \<Rightarrow> WfStateSOPC" where
  "run_s_setvskip state =
     state\<lparr>SOPC_MODE := set_vskip
       (SOPC_SSRC0 state AND sx64 (push_bit (unat (SOPC_SSRC1 state AND 31)) 1 :: u32) \<noteq> 0) (SOPC_MODE state)\<rparr>"

section \<open>Dispatch\<close>

definition sopc_switch :: "(InstrKey \<times> (WfStateSOPC \<Rightarrow> WfStateSOPC)) list" where
  "sopc_switch =
    [(S_BITCMP0_B32, run_s_bitcmp0_b32),
     (S_BITCMP0_B64, run_s_bitcmp0_b64),
     (S_BITCMP1_B32, run_s_bitcmp1_b32),
     (S_BITCMP1_B64, run_s_bitcmp1_b64),
     (S_CMP_EQ_I32, run_s_cmp_eq_i32),
     (S_CMP_EQ_U32, run_s_cmp_eq_u32),
     (S_CMP_EQ_U64, run_s_cmp_eq_u64),
     (S_CMP_GE_I32, run_s_cmp_ge_i32),
     (S_CMP_GE_U32, run_s_cmp_ge_u32),
     (S_CMP_GT_I32, run_s_cmp_gt_i32),
     (S_CMP_GT_U32, run_s_cmp_gt_u32),
     (S_CMP_LE_I32, run_s_cmp_le_i32),
     (S_CMP_LE_U32, run_s_cmp_le_u32),
     (S_CMP_LG_I32, run_s_cmp_lg_i32),
     (S_CMP_LG_U32, run_s_cmp_lg_u32),
     (S_CMP_LG_U64, run_s_cmp_lg_u64),
     (S_CMP_NE_U64, run_s_cmp_ne_u64),
     (S_CMP_LT_I32, run_s_cmp_lt_i32),
     (S_CMP_LT_U32, run_s_cmp_lt_u32),
     (S_SET_GPR_IDX_ON, run_s_set_gpr_idx_on),
     (S_SETVSKIP, run_s_setvskip)]"

definition run_sopc :: "Instruction \<Rightarrow> Wavefront \<Rightarrow> Wavefront result" where
  "run_sopc instr wave =
     bindE (get_sopc_state instr wave) (\<lambda>state.
     bindE (case map_of sopc_switch (in_key instr) of
              None \<Rightarrow> unsupported_instruction ''SOPC'' (in_key instr)
            | Some f \<Rightarrow> Inr (f state)) (\<lambda>state.
     Inr (update_with_sopc_state state (sync_sopc state wave))))"

section \<open>Frame\<close>

lemma run_sopc_frame: "run_sopc instr w = Inr w' \<Longrightarrow> wf_frame w w'"
  by (auto simp: run_sopc_def update_with_sopc_state_def sync_sopc_def result_simps wf_frame_def)

section \<open>M0\<close>

definition keeps_m0 :: "(WfStateSOPC \<Rightarrow> WfStateSOPC) \<Rightarrow> bool" where
  "keeps_m0 f \<longleftrightarrow> (\<forall>s. SOPC_M0 (f s) = SOPC_M0 s)"

lemma sopc_keeps_m0:
  assumes "(k, f) \<in> set sopc_switch" and "k \<noteq> S_SET_GPR_IDX_ON"
  shows "keeps_m0 f"
  using assms unfolding sopc_switch_def keeps_m0_def
  by (auto simp: run_s_bitcmp0_b32_def run_s_bitcmp0_b64_def run_s_bitcmp1_b32_def
      run_s_bitcmp1_b64_def run_s_cmp_eq_i32_def run_s_cmp_eq_u32_def run_s_cmp_eq_u64_def
      run_s_cmp_ge_i32_def run_s_cmp_ge_u32_def run_s_cmp_gt_i32_def run_s_cmp_gt_u32_def
      run_s_cmp_le_i32_def run_s_cmp_le_u32_def run_s_cmp_lg_i32_def run_s_cmp_lg_u32_def
      run_s_cmp_lg_u64_def run_s_cmp_ne_u64_def run_s_cmp_lt_i32_def run_s_cmp_lt_u32_def
      run_s_setvskip_def)

text \<open>A comparison overwrites M0 with the low half of EXEC.\<close>

theorem sopc_overwrites_m0:
  assumes "run_sopc instr w = Inr w'" and "in_key instr \<noteq> S_SET_GPR_IDX_ON"
  shows "m0Reg w' = to_u32 (execReg w)"
proof -
  from assms(1) obtain s f where "get_sopc_state instr w = Inr s"
      and f: "map_of sopc_switch (in_key instr) = Some f"
      and w': "w' = update_with_sopc_state (f s) (sync_sopc (f s) w)"
    by (auto simp: run_sopc_def result_simps unsupported_instruction_def split: option.splits)
  then have s: "SOPC_M0 s = to_u32 (execReg w)"
    by (auto simp: get_sopc_state_def result_simps)
  have "keeps_m0 f" using map_of_SomeD [OF f] assms(2) by (rule sopc_keeps_m0)
  with s show ?thesis by (simp add: w' keeps_m0_def update_with_sopc_state_def)
qed

lemma sopc_overwrites_m0_witness:
  "m0Reg (projr (run_sopc (make_instr S_CMP_EQ_U32 SOPC [reg_op REG_S0 1, reg_op (REG_S0 + 1) 1]) small_wave))
     = to_u32 (execReg small_wave)"
  by (rule sopc_overwrites_m0 [OF returnsD]; code_simp)

end
