(* ===== verification/AluSopp.thy ===== *)
theory AluSopp
  imports AluSopc
begin

text \<open>
  The program control instructions (\<open>emulator/src/alu/alu_sopp.cpp\<close>): branches on SCC, VCC, EXEC
  and the debug bits, halting, and the no-ops. A branch reads its target into RELADDR. The field
  SIMM16 of the state is never filled, and M0 is not written back. \<open>S_BARRIER\<close> and
  \<open>S_ENDPGM\<close> are handled by the compute unit and are unsupported here.
\<close>

unbundle bit_operations_syntax

section \<open>Instructions\<close>

definition run_s_branch :: "WfStateSOPP \<Rightarrow> WfStateSOPP" where
  "run_s_branch state =
     state\<lparr>SOPP_PC := pc_set_value (SOPP_RELADDR state) (SOPP_PC state)\<rparr>"

definition run_s_cbranch_cdbgsys :: "WfStateSOPP \<Rightarrow> WfStateSOPP" where
  "run_s_cbranch_cdbgsys state =
     (if status_cond_dbg_sys (SOPP_STATUS state)
      then state\<lparr>SOPP_PC := pc_set_value (SOPP_RELADDR state) (SOPP_PC state)\<rparr> else state)"

definition run_s_cbranch_cdbgsys_and_user :: "WfStateSOPP \<Rightarrow> WfStateSOPP" where
  "run_s_cbranch_cdbgsys_and_user state =
     (if status_cond_dbg_sys (SOPP_STATUS state) \<and> status_cond_dbg_user (SOPP_STATUS state)
      then state\<lparr>SOPP_PC := pc_set_value (SOPP_RELADDR state) (SOPP_PC state)\<rparr> else state)"

definition run_s_cbranch_cdbgsys_or_user :: "WfStateSOPP \<Rightarrow> WfStateSOPP" where
  "run_s_cbranch_cdbgsys_or_user state =
     (if status_cond_dbg_sys (SOPP_STATUS state) \<or> status_cond_dbg_user (SOPP_STATUS state)
      then state\<lparr>SOPP_PC := pc_set_value (SOPP_RELADDR state) (SOPP_PC state)\<rparr> else state)"

definition run_s_cbranch_cdbguser :: "WfStateSOPP \<Rightarrow> WfStateSOPP" where
  "run_s_cbranch_cdbguser state =
     (if status_cond_dbg_user (SOPP_STATUS state)
      then state\<lparr>SOPP_PC := pc_set_value (SOPP_RELADDR state) (SOPP_PC state)\<rparr> else state)"

definition run_s_cbranch_execnz :: "WfStateSOPP \<Rightarrow> WfStateSOPP" where
  "run_s_cbranch_execnz state =
     (if SOPP_EXEC state \<noteq> 0
      then state\<lparr>SOPP_PC := pc_set_value (SOPP_RELADDR state) (SOPP_PC state)\<rparr> else state)"

definition run_s_cbranch_execz :: "WfStateSOPP \<Rightarrow> WfStateSOPP" where
  "run_s_cbranch_execz state =
     (if SOPP_EXEC state = 0
      then state\<lparr>SOPP_PC := pc_set_value (SOPP_RELADDR state) (SOPP_PC state)\<rparr> else state)"

definition run_s_cbranch_scc0 :: "WfStateSOPP \<Rightarrow> WfStateSOPP" where
  "run_s_cbranch_scc0 state =
     (if \<not> SOPP_SCC state
      then state\<lparr>SOPP_PC := pc_set_value (SOPP_RELADDR state) (SOPP_PC state)\<rparr> else state)"

definition run_s_cbranch_scc1 :: "WfStateSOPP \<Rightarrow> WfStateSOPP" where
  "run_s_cbranch_scc1 state =
     (if SOPP_SCC state
      then state\<lparr>SOPP_PC := pc_set_value (SOPP_RELADDR state) (SOPP_PC state)\<rparr> else state)"

definition run_s_cbranch_vccnz :: "WfStateSOPP \<Rightarrow> WfStateSOPP" where
  "run_s_cbranch_vccnz state =
     (if SOPP_VCC state \<noteq> 0
      then state\<lparr>SOPP_PC := pc_set_value (SOPP_RELADDR state) (SOPP_PC state)\<rparr> else state)"

definition run_s_cbranch_vccz :: "WfStateSOPP \<Rightarrow> WfStateSOPP" where
  "run_s_cbranch_vccz state =
     (if SOPP_VCC state = 0
      then state\<lparr>SOPP_PC := pc_set_value (SOPP_RELADDR state) (SOPP_PC state)\<rparr> else state)"

definition run_s_nop :: "WfStateSOPP \<Rightarrow> WfStateSOPP" where
  "run_s_nop state =
     state"

definition run_s_set_gpr_idx_mode :: "WfStateSOPP \<Rightarrow> WfStateSOPP" where
  "run_s_set_gpr_idx_mode state =
     state\<lparr>SOPP_M0 := (SOPP_M0 state AND 0xffff0fff)
       OR push_bit 12 (SOPP_SIMM16 state AND 15)\<rparr>"

definition run_s_set_gpr_idx_off :: "WfStateSOPP \<Rightarrow> WfStateSOPP" where
  "run_s_set_gpr_idx_off state =
     state\<lparr>SOPP_MODE := set_gpr_idx_en False (SOPP_MODE state)\<rparr>"

definition run_s_sethalt :: "WfStateSOPP \<Rightarrow> WfStateSOPP" where
  "run_s_sethalt state =
     state\<lparr>SOPP_STATUS :=
       set_status_halt (SOPP_SIMM16 state AND 1 \<noteq> 0) (SOPP_STATUS state)\<rparr>"

definition run_s_waitcnt :: "WfStateSOPP \<Rightarrow> WfStateSOPP" where
  "run_s_waitcnt state =
     state"

section \<open>Dispatch\<close>

type_synonym sopp_op = "Instruction \<Rightarrow> Wavefront \<Rightarrow> WfStateSOPP \<Rightarrow> WfStateSOPP result"

definition set_reladdr_and_exec :: "(WfStateSOPP \<Rightarrow> WfStateSOPP) \<Rightarrow> sopp_op" where
  "set_reladdr_and_exec exec instr wave state =
     bindE (read_arg64 instr 0 (- 1) wave) (\<lambda>v. Inr (exec (state\<lparr>SOPP_RELADDR := v\<rparr>)))"

definition sopp_plain :: "(WfStateSOPP \<Rightarrow> WfStateSOPP) \<Rightarrow> sopp_op" where
  "sopp_plain f instr wave state = Inr (f state)"

definition sopp_switch :: "(InstrKey \<times> sopp_op) list" where
  "sopp_switch =
    [(S_BRANCH, set_reladdr_and_exec run_s_branch),
     (S_CBRANCH_CDBGSYS, set_reladdr_and_exec run_s_cbranch_cdbgsys),
     (S_CBRANCH_CDBGSYS_AND_USER, set_reladdr_and_exec run_s_cbranch_cdbgsys_and_user),
     (S_CBRANCH_CDBGSYS_OR_USER, set_reladdr_and_exec run_s_cbranch_cdbgsys_or_user),
     (S_CBRANCH_CDBGUSER, set_reladdr_and_exec run_s_cbranch_cdbguser),
     (S_CBRANCH_EXECNZ, set_reladdr_and_exec run_s_cbranch_execnz),
     (S_CBRANCH_EXECZ, set_reladdr_and_exec run_s_cbranch_execz),
     (S_CBRANCH_SCC0, set_reladdr_and_exec run_s_cbranch_scc0),
     (S_CBRANCH_SCC1, set_reladdr_and_exec run_s_cbranch_scc1),
     (S_CBRANCH_VCCNZ, set_reladdr_and_exec run_s_cbranch_vccnz),
     (S_CBRANCH_VCCZ, set_reladdr_and_exec run_s_cbranch_vccz),
     (S_NOP, sopp_plain run_s_nop),
     (S_SET_GPR_IDX_MODE, sopp_plain run_s_set_gpr_idx_mode),
     (S_SET_GPR_IDX_OFF, sopp_plain run_s_set_gpr_idx_off),
     (S_SETHALT, sopp_plain run_s_sethalt),
     (S_WAITCNT, sopp_plain run_s_waitcnt)]"

definition run_sopp :: "Instruction \<Rightarrow> Wavefront \<Rightarrow> Wavefront result" where
  "run_sopp instr wave =
     bindE (case map_of sopp_switch (in_key instr) of
              None \<Rightarrow> unsupported_instruction ''SOPP'' (in_key instr)
            | Some f \<Rightarrow> f instr wave (get_common_sopp_state wave)) (\<lambda>state.
     Inr (update_with_common_sopp_state state (sync_sopp state wave)))"

section \<open>Frame\<close>

lemma run_sopp_frame: "run_sopp instr w = Inr w' \<Longrightarrow> wf_frame w w'"
  by (auto simp: run_sopp_def update_with_common_sopp_state_def sync_sopp_def result_simps wf_frame_def)

section \<open>Branches\<close>

text \<open>The conditional branches and the condition of each on the wavefront.\<close>

definition branch_conditions :: "(InstrKey \<times> (Wavefront \<Rightarrow> bool)) list" where
  "branch_conditions =
    [(S_BRANCH, \<lambda>w. True),
     (S_CBRANCH_CDBGSYS, \<lambda>w. status_cond_dbg_sys (statusReg w)),
     (S_CBRANCH_CDBGUSER, \<lambda>w. status_cond_dbg_user (statusReg w)),
     (S_CBRANCH_CDBGSYS_AND_USER, \<lambda>w. status_cond_dbg_sys (statusReg w) \<and> status_cond_dbg_user (statusReg w)),
     (S_CBRANCH_CDBGSYS_OR_USER, \<lambda>w. status_cond_dbg_sys (statusReg w) \<or> status_cond_dbg_user (statusReg w)),
     (S_CBRANCH_EXECNZ, \<lambda>w. execReg w \<noteq> 0),
     (S_CBRANCH_EXECZ, \<lambda>w. execReg w = 0),
     (S_CBRANCH_SCC0, \<lambda>w. \<not> sccReg w),
     (S_CBRANCH_SCC1, \<lambda>w. sccReg w),
     (S_CBRANCH_VCCNZ, \<lambda>w. vccReg w \<noteq> 0),
     (S_CBRANCH_VCCZ, \<lambda>w. vccReg w = 0)]"

definition jumps_if :: "(WfStateSOPP \<Rightarrow> WfStateSOPP) \<Rightarrow> (Wavefront \<Rightarrow> bool) \<Rightarrow> bool" where
  "jumps_if f cond \<longleftrightarrow> (\<forall>w a.
     f ((get_common_sopp_state w)\<lparr>SOPP_RELADDR := a\<rparr>) =
       (if cond w
        then (get_common_sopp_state w)\<lparr>SOPP_RELADDR := a, SOPP_PC := pc_set_value a (programCounter w)\<rparr>
        else (get_common_sopp_state w)\<lparr>SOPP_RELADDR := a\<rparr>))"

lemma branches_jump:
  "jumps_if run_s_branch (\<lambda>w. True)"
  "jumps_if run_s_cbranch_cdbgsys (\<lambda>w. status_cond_dbg_sys (statusReg w))"
  "jumps_if run_s_cbranch_cdbguser (\<lambda>w. status_cond_dbg_user (statusReg w))"
  "jumps_if run_s_cbranch_cdbgsys_and_user
     (\<lambda>w. status_cond_dbg_sys (statusReg w) \<and> status_cond_dbg_user (statusReg w))"
  "jumps_if run_s_cbranch_cdbgsys_or_user
     (\<lambda>w. status_cond_dbg_sys (statusReg w) \<or> status_cond_dbg_user (statusReg w))"
  "jumps_if run_s_cbranch_execnz (\<lambda>w. execReg w \<noteq> 0)"
  "jumps_if run_s_cbranch_execz (\<lambda>w. execReg w = 0)"
  "jumps_if run_s_cbranch_scc0 (\<lambda>w. \<not> sccReg w)"
  "jumps_if run_s_cbranch_scc1 sccReg"
  "jumps_if run_s_cbranch_vccnz (\<lambda>w. vccReg w \<noteq> 0)"
  "jumps_if run_s_cbranch_vccz (\<lambda>w. vccReg w = 0)"
  by (simp_all add: jumps_if_def get_common_sopp_state_def run_s_branch_def run_s_cbranch_cdbgsys_def
      run_s_cbranch_cdbguser_def run_s_cbranch_cdbgsys_and_user_def run_s_cbranch_cdbgsys_or_user_def
      run_s_cbranch_execnz_def run_s_cbranch_execz_def run_s_cbranch_scc0_def run_s_cbranch_scc1_def
      run_s_cbranch_vccnz_def run_s_cbranch_vccz_def)

lemma branch_case:
  assumes "(k, cond) \<in> set branch_conditions"
  obtains f where "map_of sopp_switch k = Some (set_reladdr_and_exec f)" and "jumps_if f cond"
  using assms unfolding branch_conditions_def list.set
  by (elim insertE emptyE) (auto simp: sopp_switch_def branches_jump)

lemma sopp_branch:
  assumes "(k, cond) \<in> set branch_conditions" and "in_key instr = k"
    and "read_arg64 instr 0 (- 1) w = Inr a"
  shows "run_sopp instr w =
    Inr (if cond w then w\<lparr>programCounter := pc_set_value a (programCounter w)\<rparr> else w)"
proof -
  from assms(1) obtain f where "map_of sopp_switch k = Some (set_reladdr_and_exec f)" and f: "jumps_if f cond"
    by (rule branch_case)
  with assms(2,3) have "run_sopp instr w =
      (let s = f ((get_common_sopp_state w)\<lparr>SOPP_RELADDR := a\<rparr>)
       in Inr (update_with_common_sopp_state s (sync_sopp s w)))"
    by (simp add: run_sopp_def set_reladdr_and_exec_def Let_def)
  also have "\<dots> = Inr (if cond w then w\<lparr>programCounter := pc_set_value a (programCounter w)\<rparr> else w)"
    using f by (simp add: jumps_if_def update_with_common_sopp_state_def sync_sopp_def get_common_sopp_state_def)
  finally show ?thesis .
qed

text \<open>
  A branch and the advance of the program counter that follows it: a taken branch continues at its
  target, one that is not taken continues after the instruction. In both cases the used flag is
  clear afterwards.
\<close>

text \<open>
  C20: A branch followed by the advance of the program counter continues at its target if its
  condition holds and after the instruction otherwise, and leaves the used flag clear.
\<close>

theorem branch_step:
  assumes "(k, cond) \<in> set branch_conditions" and "in_key instr = k"
    and "read_arg64 instr 0 (- 1) w = Inr a" and "get_cur_instr kc w = Inr instr"
    and "get_width instr = Inr n" and "\<not> pc_used (programCounter w)"
    and "run_sopp instr w = Inr u" and "to_next_instr kc u = (r, w')"
  shows "r = Inr () \<and> w' = w\<lparr>programCounter := new_pc
      (if cond w then a else pc_value (programCounter w) + of_nat n)\<rparr>"
proof -
  let ?pc = "programCounter w"
  have u: "u = (if cond w then w\<lparr>programCounter := pc_set_value a ?pc\<rparr> else w)"
    using assms(7) sopp_branch [OF assms(1-3)] by simp
  have pc: "?pc\<lparr>pc_used := False\<rparr> = ?pc" "\<lparr>pc_value = v, pc_used = False\<rparr> = ?pc\<lparr>pc_value := v\<rparr>" for v
    using assms(6) by (simp_all)
  show ?thesis
  proof (cases "cond w")
    case True
    have "?pc\<lparr>pc_value := a, pc_used := False\<rparr> = new_pc a" by (simp add: new_pc_def)
    with True assms(8) u show ?thesis
      by (auto simp: to_next_instr_def Let_def simp del: ProgramCounter.update_convs)
  next
    case False
    have "get_cur_instr kc (w\<lparr>programCounter := ?pc\<rparr>) = Inr instr"
      using assms(4) by simp
    with False assms(5,6,8) u show ?thesis
      by (simp add: to_next_instr_def Let_def pc_was_used_def new_pc_def pc pc_hidden_add_def)
  qed
qed

text \<open>SIMM16 is never filled, so \<open>s_sethalt\<close> clears the halt bit whatever its operand is.\<close>

theorem sethalt_clears:
  assumes "in_key instr = S_SETHALT" and "run_sopp instr w = Inr w'"
  shows "\<not> status_halt (statusReg w')"
  using assms
  by (auto simp: run_sopp_def sopp_switch_def sopp_plain_def run_s_sethalt_def sync_sopp_def
      update_with_common_sopp_state_def get_common_sopp_state_def status_halt_def
      set_status_halt_def bit_write_bit)

lemma branch_step_witness:
  "let i = make_instr S_CBRANCH_SCC0 SOPP [\<lparr>op_type = LABEL, op_value = UintV 16, op_regAmount = 0\<rparr>];
       kc = new_code\<lparr>kc_code := [0 \<mapsto> i]\<rparr>
   in fst (to_next_instr kc (projr (run_sopp i small_wave))) = Inr ()
    \<and> snd (to_next_instr kc (projr (run_sopp i small_wave))) = small_wave\<lparr>programCounter := new_pc
      (if \<not> sccReg small_wave then 16 else pc_value (programCounter small_wave) + of_nat 4)\<rparr>"
  unfolding Let_def
  by (rule branch_step [where k = S_CBRANCH_SCC0 and cond = "\<lambda>w. \<not> sccReg w",
      OF _ _ _ _ _ _ returnsD prod.collapse [symmetric]])
    (simp add: branch_conditions_def, code_simp+)

lemma sethalt_clears_witness:
  "\<not> status_halt (statusReg (projr (run_sopp (make_instr S_SETHALT SOPP []) (small_wave\<lparr>statusReg := StatusReg_new 0x2000\<rparr>))))"
  by (rule sethalt_clears [OF _ returnsD]) code_simp+

end
