(* ===== verification/Storages.thy ===== *)
theory Storages
  imports BitUtils
begin

text \<open>
  The device memory (\<open>emulator/src/gpu/storage.h\<close>, \<open>storage.cpp\<close>): a byte array of a fixed
  size behind checked accesses. Words are stored most significant byte first. A write of several
  bytes that leaves the array throws with the first bytes already written, so the writes are
  computations over the storage. The singleton is the state that the callers pass on; its size is
  undetermined before \<open>init\<close>, and the model starts after \<open>init\<close>.
\<close>

unbundle bit_operations_syntax

section \<open>The code\<close>

record Storage =
  st_size :: u64
  st_data :: "u8 list"

definition storage_init :: "u64 \<Rightarrow> Storage" where
  "storage_init bufferSize = \<lparr>st_size = bufferSize, st_data = replicate (unat bufferSize) 0\<rparr>"

definition validate_addr_safe :: "u64 \<Rightarrow> Storage \<Rightarrow> bool" where
  "validate_addr_safe addr s \<longleftrightarrow> addr < st_size s"

definition validate_addr :: "u64 \<Rightarrow> Storage \<Rightarrow> unit result" where
  "validate_addr addr s =
     guardE (validate_addr_safe addr s)
       (Runtime_error (''Invalid addr in storage: '' @ show_nat (unat addr)))"

lemma unat_Suc_less: "a < b \<Longrightarrow> unat (a + 1 :: u64) = Suc (unat a)"
proof -
  assume "a < b"
  then have "unat a < unat b" by (simp add: word_less_nat_alt)
  moreover have "unat b < 2 ^ 64" using unsigned_less [of b] by simp
  ultimately show ?thesis by (simp add: unat_word_ariths)
qed

function read_loop :: "bool \<Rightarrow> Storage \<Rightarrow> u64 \<Rightarrow> u64 \<Rightarrow> u8 list result" where
  "read_loop safe s curAddr end =
     (if curAddr < end then
        if safe \<and> \<not> validate_addr_safe curAddr s then Inr []
        else
          bindE (validate_addr curAddr s) (\<lambda>_.
          bindE (read_loop safe s (curAddr + 1) end) (\<lambda>bs.
          Inr (st_data s ! unat curAddr # bs)))
      else Inr [])"
  by pat_completeness auto

termination
  by (relation "measure (\<lambda>(safe, s, curAddr, end). unat end - unat curAddr)")
    (auto simp: unat_Suc_less word_less_nat_alt)

declare read_loop.simps [simp del]

definition read_data :: "u64 \<Rightarrow> u32 \<Rightarrow> u32 \<Rightarrow> bool \<Rightarrow> Storage \<Rightarrow> u8 list result" where
  "read_data address offset byteSize safe s =
     (let addr = address + to_u64 offset in read_loop safe s addr (addr + to_u64 byteSize))"

definition nth_byte :: "u8 list \<Rightarrow> nat \<Rightarrow> u8 result" where
  "nth_byte xs i = (if i < length xs then Inr (xs ! i) else Inl (Undefined ''vector index''))"

definition read_4_bytes :: "u64 \<Rightarrow> u32 \<Rightarrow> Storage \<Rightarrow> u32 result" where
  "read_4_bytes address offset s =
     bindE (read_data address offset 4 False s) (\<lambda>result.
     bindE (mapE (nth_byte result) [0, 1, 2, 3]) (\<lambda>b.
     Inr (push_bit 24 (to_u32 (b ! 0)) OR push_bit 16 (to_u32 (b ! 1))
          OR push_bit 8 (to_u32 (b ! 2)) OR to_u32 (b ! 3))))"

definition read_8_bytes :: "u64 \<Rightarrow> Storage \<Rightarrow> u64 result" where
  "read_8_bytes address s =
     bindE (read_data address 0 8 False s) (\<lambda>result.
     bindE (mapE (nth_byte result) [0, 1, 2, 3, 4, 5, 6, 7]) (\<lambda>b.
     Inr (push_bit 56 (to_u64 (b ! 0)) OR push_bit 48 (to_u64 (b ! 1))
          OR push_bit 40 (to_u64 (b ! 2)) OR push_bit 32 (to_u64 (b ! 3))
          OR push_bit 24 (to_u64 (b ! 4)) OR push_bit 16 (to_u64 (b ! 5))
          OR push_bit 8 (to_u64 (b ! 6)) OR to_u64 (b ! 7))))"

definition write_data8 :: "u64 \<Rightarrow> u32 \<Rightarrow> u8 \<Rightarrow> (Storage, unit) M" where
  "write_data8 addr offset value =
     bindM (liftM (validate_addr (addr + to_u64 offset))) (\<lambda>_.
     modifyM (\<lambda>s. s\<lparr>st_data := (st_data s)[unat (addr + to_u64 offset) := value]\<rparr>))"

definition write_data16 :: "u64 \<Rightarrow> u32 \<Rightarrow> u16 \<Rightarrow> (Storage, unit) M" where
  "write_data16 addr offset value =
     bindM (write_data8 addr offset (to_u8 (drop_bit 8 value))) (\<lambda>_.
     write_data8 addr (offset + 1) (to_u8 value))"

definition write_data32 :: "u64 \<Rightarrow> u32 \<Rightarrow> u32 \<Rightarrow> (Storage, unit) M" where
  "write_data32 addr offset value =
     bindM (write_data16 addr offset (to_u16 (drop_bit 16 value))) (\<lambda>_.
     write_data16 addr (offset + 2) (to_u16 value))"

definition write_data64 :: "u64 \<Rightarrow> u32 \<Rightarrow> u64 \<Rightarrow> (Storage, unit) M" where
  "write_data64 addr offset value =
     bindM (write_data32 addr offset (to_u32 (drop_bit 32 value))) (\<lambda>_.
     write_data32 addr (offset + 4) (to_u32 value))"

section \<open>The contract of a byte memory\<close>

text \<open>
  Single bytes: a byte that was written is read back, the others stay, and a failed write changes
  nothing. From this the locale derives the same for blocks of bytes at consecutive addresses.
\<close>

fun put_all :: "(u64 \<Rightarrow> u8 \<Rightarrow> ('s, unit) M) \<Rightarrow> u64 \<Rightarrow> u8 list \<Rightarrow> ('s, unit) M" where
  "put_all put a [] = retM ()"
| "put_all put a (b # bs) = bindM (put a b) (\<lambda>_. put_all put (a + 1) bs)"

locale byte_memory =
  fixes ok :: "'s \<Rightarrow> bool"
    and get :: "u64 \<Rightarrow> 's \<Rightarrow> u8 result"
    and put :: "u64 \<Rightarrow> u8 \<Rightarrow> ('s, unit) M"
  assumes put_ok: "keeps ok (put a b)"
    and put_get: "ok s \<Longrightarrow> put a b s = (Inr u, t) \<Longrightarrow> get a t = Inr b"
    and put_other: "ok s \<Longrightarrow> put a b s = (Inr u, t) \<Longrightarrow> a' \<noteq> a \<Longrightarrow> get a' t = get a' s"
    and put_fails: "put a b s = (Inl e, t) \<Longrightarrow> t = s \<and> get a s = Inl e"
begin

lemma put_all_ok: "keeps ok (put_all put a bs)"
  by (induction bs arbitrary: a) (auto intro!: keeps_intros put_ok)

lemma put_all_other:
  assumes "ok s" and "put_all put a bs s = (Inr u, t)"
    and "\<And>i. i < length bs \<Longrightarrow> a' \<noteq> a + of_nat i"
  shows "get a' t = get a' s"
  using assms
proof (induction bs arbitrary: a s)
  case (Cons b bs)
  then obtain v r where r: "put a b s = (Inr v, r)" "put_all put (a + 1) bs r = (Inr u, t)"
    by (auto simp: bindM_def split: prod.splits sum.splits)
  have "ok r" using keepsD [OF put_ok Cons.prems(1), of a b] r(1) by simp
  moreover have "a' \<noteq> a + 1 + of_nat i" if "i < length bs" for i
    using Cons.prems(3) [of "Suc i"] that by (simp add: add.assoc)
  ultimately have "get a' t = get a' r" using r(2) by (intro Cons.IH)
  also have "\<dots> = get a' s"
    using Cons.prems(1) r(1) Cons.prems(3) [of 0] by (intro put_other) auto
  finally show ?case .
qed (simp add: retM_def)

lemma put_all_get:
  assumes "ok s" and "put_all put a bs s = (Inr u, t)" and "length bs \<le> 2 ^ 64"
    and "i < length bs"
  shows "get (a + of_nat i) t = Inr (bs ! i)"
  using assms
proof (induction bs arbitrary: a s i)
  case (Cons b bs)
  then obtain v r where r: "put a b s = (Inr v, r)" "put_all put (a + 1) bs r = (Inr u, t)"
    by (auto simp: bindM_def split: prod.splits sum.splits)
  have ok: "ok r" using keepsD [OF put_ok Cons.prems(1), of a b] r(1) by simp
  show ?case
  proof (cases i)
    case 0
    have "a \<noteq> a + 1 + of_nat j" if "j < length bs" for j
    proof
      assume "a = a + 1 + of_nat j"
      then have "(of_nat (Suc j) :: u64) = 0" by (simp add: add.assoc)
      then have "2 ^ 64 dvd Suc j" using word_of_nat_eq_0_iff [where 'a = 64, of "Suc j"] by simp
      with that Cons.prems(3) show False by (auto dest: dvd_imp_le)
    qed
    with put_all_other [OF ok r(2), of a] put_get [OF Cons.prems(1) r(1)] 0 show ?thesis by simp
  next
    case (Suc j)
    with Cons.IH [OF ok r(2), of j] Cons.prems show ?thesis by (simp add: ac_simps)
  qed
qed simp

end

section \<open>The storage is a byte memory\<close>

definition storage_inv :: "Storage \<Rightarrow> bool" where
  "storage_inv s \<longleftrightarrow> length (st_data s) = unat (st_size s)"

definition get_byte :: "u64 \<Rightarrow> Storage \<Rightarrow> u8 result" where
  "get_byte a s = bindE (validate_addr a s) (\<lambda>_. Inr (st_data s ! unat a))"

lemma storage_inv_init: "storage_inv (storage_init n)"
  by (simp add: storage_inv_def storage_init_def)

lemma write_data8_eq:
  "write_data8 a off v s =
    (if a + to_u64 off < st_size s
     then (Inr (), s\<lparr>st_data := (st_data s)[unat (a + to_u64 off) := v]\<rparr>)
     else (Inl (Runtime_error (''Invalid addr in storage: '' @ show_nat (unat (a + to_u64 off)))), s))"
  by (simp add: write_data8_def bindM_def liftM_def modifyM_def validate_addr_def guardE_def
    validate_addr_safe_def)

lemma get_byte_eq:
  "get_byte a s = (if a < st_size s then Inr (st_data s ! unat a)
     else Inl (Runtime_error (''Invalid addr in storage: '' @ show_nat (unat a))))"
  by (simp add: get_byte_def validate_addr_def guardE_def validate_addr_safe_def)

interpretation mem: byte_memory storage_inv get_byte "\<lambda>a. write_data8 a 0"
proof
  fix a a' b s t e u
  show "keeps storage_inv (write_data8 a 0 b)"
    by (auto simp: keeps_def write_data8_eq storage_inv_def)
  show "storage_inv s \<Longrightarrow> write_data8 a 0 b s = (Inr u, t) \<Longrightarrow> get_byte a t = Inr b"
    by (auto simp: write_data8_eq get_byte_eq storage_inv_def word_less_nat_alt split: if_splits)
  show "storage_inv s \<Longrightarrow> write_data8 a 0 b s = (Inr u, t) \<Longrightarrow> a' \<noteq> a \<Longrightarrow> get_byte a' t = get_byte a' s"
    by (auto simp: write_data8_eq get_byte_eq word_unat_eq_iff split: if_splits)
  show "write_data8 a 0 b s = (Inl e, t) \<Longrightarrow> t = s \<and> get_byte a s = Inl e"
    by (auto simp: write_data8_eq get_byte_eq split: if_splits)
qed

abbreviation put_bytes :: "u64 \<Rightarrow> u8 list \<Rightarrow> (Storage, unit) M" where
  "put_bytes \<equiv> put_all (\<lambda>a. write_data8 a 0)"

lemma bindM_assoc: "bindM (bindM m f) g = bindM m (\<lambda>x. bindM (f x) g)"
  by (auto simp: bindM_def fun_eq_iff split: prod.splits sum.splits)

lemma bindM_ret [simp]: "bindM (retM x) f = f x"
  by (simp add: bindM_def retM_def fun_eq_iff)

lemma bindM_retM [simp]: "bindM m retM = m"
  by (auto simp: bindM_def retM_def fun_eq_iff split: prod.splits sum.splits)

lemma bindM_retM_unit [simp]: "bindM m (\<lambda>u :: unit. retM ()) = m"
  using bindM_retM [of m] by simp

lemma to_u64_add:
  assumes "unat off + n < 2 ^ 32"
  shows "to_u64 (off + of_nat n :: u32) = to_u64 off + of_nat n"
proof -
  have n: "n < 2 ^ 32" and n64: "n < 2 ^ 64" using assms by simp_all
  have "unat off + n < 2 ^ 64" using assms by simp
  with assms n n64 show ?thesis
    by (simp add: word_unat_eq_iff unat_word_ariths unsigned_ucast_eq take_bit_eq_mod unat_of_nat)
qed

lemma write_data8_at:
  "unat off + n < 2 ^ 32 \<Longrightarrow>
    write_data8 a (off + of_nat n) v = write_data8 (a + to_u64 off + of_nat n) 0 v"
  by (auto simp: fun_eq_iff write_data8_eq to_u64_add add.assoc)

definition bytes32 :: "u32 \<Rightarrow> u8 list" where
  "bytes32 v = [to_u8 (drop_bit 24 v), to_u8 (drop_bit 16 v), to_u8 (drop_bit 8 v), to_u8 v]"

lemma length_bytes32: "length (bytes32 v) = 4"
  by (simp add: bytes32_def)

definition bytes64 :: "u64 \<Rightarrow> u8 list" where
  "bytes64 v = bytes32 (to_u32 (drop_bit 32 v)) @ bytes32 (to_u32 v)"

lemma put_all_append:
  "put_all put a (xs @ ys) = bindM (put_all put a xs) (\<lambda>_. put_all put (a + of_nat (length xs)) ys)"
  by (induction xs arbitrary: a) (simp_all add: bindM_assoc ac_simps)

lemma narrow_bytes:
  "to_u8 (drop_bit 8 (to_u16 (drop_bit 16 v))) = to_u8 (drop_bit 24 (v :: u32))"
  "to_u8 (to_u16 (drop_bit 16 v)) = to_u8 (drop_bit 16 v)"
  "to_u8 (drop_bit 8 (to_u16 v)) = to_u8 (drop_bit 8 v)"
  "to_u8 (to_u16 v) = to_u8 v"
  by (rule word_eq_bitsI; auto simp: bit_simps)+

lemma write_data32_bytes:
  assumes "unat off + 3 < 2 ^ 32"
  shows "write_data32 a off v = put_bytes (a + to_u64 off) (bytes32 v)"
  using write_data8_at [of off 0 a] write_data8_at [of off 1 a] write_data8_at [of off 2 a]
    write_data8_at [of off 3 a] assms
  by (simp add: write_data32_def write_data16_def bindM_assoc bytes32_def narrow_bytes add.assoc)

lemma write_data64_bytes:
  assumes "unat off + 7 < 2 ^ 32"
  shows "write_data64 a off v = put_bytes (a + to_u64 off) (bytes64 v)"
proof -
  have "unat (off + 4) = unat off + 4" using assms by (simp add: unat_word_ariths)
  with assms show ?thesis
    using to_u64_add [of off 4]
    by (simp add: write_data64_def bytes64_def put_all_append write_data32_bytes length_bytes32 add.assoc
      del: put_all.simps)
qed

section \<open>Reading back\<close>

lemma read_loop_bytes:
  assumes "unat a + n < 2 ^ 64"
  shows "read_loop False s a (a + of_nat n) = mapE (\<lambda>i. get_byte (a + of_nat i) s) [0..<n]"
  using assms
proof (induction n arbitrary: a)
  case 0
  then show ?case by (simp add: read_loop.simps)
next
  case (Suc n)
  have less: "a < a + of_nat (Suc n)"
    using Suc.prems by (simp add: word_less_nat_alt unat_word_ariths unat_of_nat)
  have suc: "unat (a + 1) = Suc (unat a)" using less by (rule unat_Suc_less)
  have "read_loop False s (a + 1) (a + 1 + of_nat n) = mapE (\<lambda>i. get_byte (a + 1 + of_nat i) s) [0..<n]"
    using Suc.prems suc by (intro Suc.IH) simp
  then have rest: "read_loop False s (a + 1) (a + of_nat (Suc n))
      = mapE (\<lambda>i. get_byte (a + of_nat i) s) (map Suc [0..<n])"
    by (simp add: ac_simps mapE_map)
  show ?case
    using less unfolding map_Suc_upt [symmetric] upt_conv_Cons [OF zero_less_Suc]
    by (subst read_loop.simps) (auto simp: rest get_byte_def bindE_assoc simp del: of_nat_Suc)
qed

lemma bytes_in_range:
  assumes "\<And>i. i < n \<Longrightarrow> a + of_nat i < (bound :: u64)" and "0 < n"
  shows "unat a + n < 2 ^ 64 \<and> (\<forall>i<n. unat (a + of_nat i) = unat a + i)"
  using assms
proof (induction n)
  case (Suc n)
  show ?case
  proof (cases n)
    case 0
    then have "unat a < unat bound" using Suc.prems(1) [of 0] by (simp add: word_less_nat_alt)
    moreover have "unat bound < 2 ^ 64" using unsigned_less [of bound] by simp
    ultimately show ?thesis using 0 by simp
  next
    case (Suc m)
    with Suc.IH Suc.prems have IH: "unat a + n < 2 ^ 64" "\<forall>i<n. unat (a + of_nat i) = unat a + i"
      by simp_all
    from IH(1) have "unat (a + of_nat n) = unat a + n"
      by (simp add: unat_word_ariths unat_of_nat)
    moreover have "unat (a + of_nat n) < unat bound"
      using Suc.prems(1) [of n] by (simp add: word_less_nat_alt)
    moreover have "unat bound < 2 ^ 64" using unsigned_less [of bound] by simp
    ultimately show ?thesis using IH(2) by (simp add: less_Suc_eq)
  qed
qed simp

lemma read_bytes:
  assumes "\<And>i. i < length bs \<Longrightarrow> get_byte (a + of_nat i) t = Inr (bs ! i)"
  shows "read_loop False t a (a + of_nat (length bs)) = Inr bs"
proof (cases "bs = []")
  case False
  have "a + of_nat i < st_size t" if "i < length bs" for i
    using assms [OF that] by (auto simp: get_byte_eq split: if_splits)
  then have "unat a + length bs < 2 ^ 64"
    using bytes_in_range [of "length bs" a "st_size t"] False by simp
  then have "read_loop False t a (a + of_nat (length bs))
      = mapE (\<lambda>i. get_byte (a + of_nat i) t) [0..<length bs]"
    by (rule read_loop_bytes)
  also have "\<dots> = Inr (map (nth bs) [0..<length bs])"
    by (rule mapE_all_Inr) (simp add: assms)
  finally show ?thesis by (simp add: map_nth)
qed (simp add: read_loop.simps)

lemma read_after_put:
  assumes "storage_inv s" and "put_bytes a bs s = (Inr u, t)" and "length bs \<le> 2 ^ 64"
  shows "read_loop False t a (a + of_nat (length bs)) = Inr bs"
  using mem.put_all_get [OF assms] by (rule read_bytes)

lemma join_bytes32:
  "push_bit 24 (to_u32 (to_u8 (drop_bit 24 v))) OR push_bit 16 (to_u32 (to_u8 (drop_bit 16 v)))
    OR push_bit 8 (to_u32 (to_u8 (drop_bit 8 v))) OR to_u32 (to_u8 v) = (v :: u32)"
proof (rule word_eq_bitsI)
  fix n
  assume "n < LENGTH(32)"
  then consider "n < 8" | "8 \<le> n \<and> n < 16" | "16 \<le> n \<and> n < 24" | "24 \<le> n \<and> n < 32"
    by force
  then show "bit (push_bit 24 (to_u32 (to_u8 (drop_bit 24 v)))
      OR push_bit 16 (to_u32 (to_u8 (drop_bit 16 v)))
      OR push_bit 8 (to_u32 (to_u8 (drop_bit 8 v))) OR to_u32 (to_u8 v)) n = bit v n"
    by cases (simp_all add: bit_simps less_diff_conv2)
qed

lemma join_bytes64:
  "push_bit 56 (to_u64 (to_u8 (drop_bit 24 (to_u32 (drop_bit 32 v)))))
    OR push_bit 48 (to_u64 (to_u8 (drop_bit 16 (to_u32 (drop_bit 32 v)))))
    OR push_bit 40 (to_u64 (to_u8 (drop_bit 8 (to_u32 (drop_bit 32 v)))))
    OR push_bit 32 (to_u64 (to_u8 (to_u32 (drop_bit 32 v))))
    OR push_bit 24 (to_u64 (to_u8 (drop_bit 24 (to_u32 v))))
    OR push_bit 16 (to_u64 (to_u8 (drop_bit 16 (to_u32 v))))
    OR push_bit 8 (to_u64 (to_u8 (drop_bit 8 (to_u32 v)))) OR to_u64 (to_u8 (to_u32 v)) = (v :: u64)"
  (is "?join = v")
proof (rule word_eq_bitsI)
  fix n
  assume "n < LENGTH(64)"
  then consider "n < 8" | "8 \<le> n \<and> n < 16" | "16 \<le> n \<and> n < 24" | "24 \<le> n \<and> n < 32"
    | "32 \<le> n \<and> n < 40" | "40 \<le> n \<and> n < 48" | "48 \<le> n \<and> n < 56" | "56 \<le> n \<and> n < 64"
    by force
  then show "bit ?join n = bit v n"
    by cases (simp_all add: bit_simps less_diff_conv2)
qed

lemma read_4_after_write:
  assumes "storage_inv s" and "write_data32 a off v s = (Inr u, t)" and "unat off + 3 < 2 ^ 32"
  shows "read_4_bytes a off t = Inr v"
proof -
  from assms have "put_bytes (a + to_u64 off) (bytes32 v) s = (Inr u, t)"
    by (simp add: write_data32_bytes)
  with assms(1) have "read_loop False t (a + to_u64 off) (a + to_u64 off + of_nat (length (bytes32 v)))
      = Inr (bytes32 v)"
    by (rule read_after_put) (simp add: bytes32_def)
  then show ?thesis
    by (simp add: read_4_bytes_def read_data_def Let_def nth_byte_def bytes32_def join_bytes32)
qed

lemma read_8_join:
  assumes "read_loop False t a (a + of_nat (length (bytes64 v))) = Inr (bytes64 v)"
  shows "read_8_bytes a t = Inr v"
  using assms
  by (simp add: read_8_bytes_def read_data_def Let_def nth_byte_def bytes64_def bytes32_def join_bytes64)

lemma read_8_after_write:
  assumes "storage_inv s" and "write_data64 a off v s = (Inr u, t)" and "unat off + 7 < 2 ^ 32"
  shows "read_8_bytes (a + to_u64 off) t = Inr v"
proof (rule read_8_join)
  from assms have "put_bytes (a + to_u64 off) (bytes64 v) s = (Inr u, t)"
    by (simp add: write_data64_bytes)
  with assms(1) show "read_loop False t (a + to_u64 off) (a + to_u64 off + of_nat (length (bytes64 v)))
      = Inr (bytes64 v)"
    by (rule read_after_put) (simp add: bytes64_def bytes32_def)
qed

text \<open>Bytes outside the written block keep their value; the size never changes.\<close>

lemma write_data32_other:
  assumes "storage_inv s" and "write_data32 a off v s = (Inr u, t)" and "unat off + 3 < 2 ^ 32"
    and "\<And>i. i < 4 \<Longrightarrow> b \<noteq> a + to_u64 off + of_nat i"
  shows "get_byte b t = get_byte b s"
  using assms mem.put_all_other [of s "a + to_u64 off" "bytes32 v" u t b]
  by (simp add: write_data32_bytes length_bytes32)

lemma write_data_keeps [keeps_intros]:
  "keeps storage_inv (write_data8 a off x)" "keeps storage_inv (write_data16 a off y)"
  "keeps storage_inv (write_data32 a off z)" "keeps storage_inv (write_data64 a off w)"
proof -
  have *: "keeps storage_inv (write_data8 a off x)" for a off x
    by (auto simp: keeps_def write_data8_eq storage_inv_def)
  show "keeps storage_inv (write_data8 a off x)" by (rule *)
  show "keeps storage_inv (write_data16 a off y)"
    unfolding write_data16_def by (intro keeps_intros *)
  show "keeps storage_inv (write_data32 a off z)"
    unfolding write_data32_def write_data16_def by (intro keeps_intros *)
  show "keeps storage_inv (write_data64 a off w)"
    unfolding write_data64_def write_data32_def write_data16_def by (intro keeps_intros *)
qed

end
