(* ===== verification/AluMem.thy ===== *)
theory AluMem
  imports AluSopp Storages
begin

text \<open>
  The memory instructions: scalar loads (\<open>emulator/src/alu/alu_smem.cpp\<close>) and the flat loads,
  stores and atomics of the vector unit (\<open>alu_flat.cpp\<close>). The storage is a singleton in the
  code; here a machine is a wavefront and the storage. A store writes lane after lane, and what was
  written before an invalid address is met stays written. The lanes are not masked by EXEC. The
  functions for atomics exist in the code, but no instruction calls them.
\<close>

unbundle bit_operations_syntax

section \<open>The machine\<close>

record Machine =
  m_wave :: Wavefront
  m_store :: Storage

definition on_store :: "(Storage, 'a) M \<Rightarrow> (Machine, 'a) M" where
  "on_store m s = (case m (m_store s) of (r, t) \<Rightarrow> (r, s\<lparr>m_store := t\<rparr>))"

definition on_wave :: "(Wavefront \<Rightarrow> Wavefront result) \<Rightarrow> (Machine, unit) M" where
  "on_wave f s = (case f (m_wave s) of Inl e \<Rightarrow> (Inl e, s) | Inr w \<Rightarrow> (Inr (), s\<lparr>m_wave := w\<rparr>))"

section \<open>Scalar loads\<close>

definition run_s_load_dword_n :: "WfStateSMEM \<Rightarrow> u32 \<Rightarrow> Storage \<Rightarrow> WfStateSMEM result" where
  "run_s_load_dword_n state n st =
     bindE (read_data (SMEM_BASE state) (to_u32 (SMEM_OFFSET state)) n False st) (\<lambda>bs.
     bindE (to_uint32_v bs) (\<lambda>ws. Inr (state\<lparr>SMEM_SDST := ws\<rparr>)))"

definition smem_switch :: "(InstrKey \<times> u32) list" where
  "smem_switch =
    [(S_LOAD_DWORD, 4), (S_LOAD_DWORDX2, 4 * 2), (S_LOAD_DWORDX4, 4 * 4),
     (S_LOAD_DWORDX8, 4 * 8), (S_LOAD_DWORDX16, 4 * 16)]"

definition run_smem :: "Instruction \<Rightarrow> Storage \<Rightarrow> Wavefront \<Rightarrow> Wavefront result" where
  "run_smem instr st wave =
     bindE (get_smem_state instr wave) (\<lambda>state.
     bindE (case map_of smem_switch (in_key instr) of
              None \<Rightarrow> unsupported_instruction ''SMEM'' (in_key instr)
            | Some n \<Rightarrow> run_s_load_dword_n state n st) (\<lambda>state.
     update_with_smem_state instr state wave))"

section \<open>Flat stores\<close>

definition run_flat_store_dwordxn :: "nat \<Rightarrow> WfStateFLATStore \<Rightarrow> nat \<Rightarrow> (Storage, unit) M" where
  "run_flat_store_dwordxn n state wiInd =
     forM [0..<n] (\<lambda>i.
       bindM (liftM (\<lambda>_. at_index (FS_VADDR state) wiInd)) (\<lambda>addr.
       bindM (liftM (\<lambda>_. at_index (FS_VDATA state) (wiInd * FS_vdataAmountPerWi state + i))) (\<lambda>v.
       write_data32 addr 0 v)))"

definition run_flat_store_short :: "WfStateFLATStore \<Rightarrow> nat \<Rightarrow> (Storage, unit) M" where
  "run_flat_store_short state wiInd =
     bindM (liftM (\<lambda>_. assertE (FS_vdataAmountPerWi state = 1) ''state.vdataAmountPerWi == 1'')) (\<lambda>_.
     bindM (liftM (\<lambda>_. at_index (FS_VADDR state) wiInd)) (\<lambda>addr.
     bindM (liftM (\<lambda>_. at_index (FS_VDATA state) wiInd)) (\<lambda>v.
     write_data16 addr 0 (to_u16 v))))"

definition flat_store_switch :: "(InstrKey \<times> (WfStateFLATStore \<Rightarrow> nat \<Rightarrow> (Storage, unit) M)) list" where
  "flat_store_switch =
    [(FLAT_STORE_DWORD, run_flat_store_dwordxn 1), (FLAT_STORE_DWORDX2, run_flat_store_dwordxn 2),
     (FLAT_STORE_DWORDX3, run_flat_store_dwordxn 3), (FLAT_STORE_DWORDX4, run_flat_store_dwordxn 4),
     (FLAT_STORE_SHORT, run_flat_store_short)]"

definition execute_flat_store :: "Instruction \<Rightarrow> WfStateFLATStore \<Rightarrow> nat \<Rightarrow> (Storage, unit) M" where
  "execute_flat_store instr state wiInd =
     (case map_of flat_store_switch (in_key instr) of
        None \<Rightarrow> liftM (\<lambda>_. unsupported_instruction ''FLAT'' (in_key instr))
      | Some f \<Rightarrow> f state wiInd)"

section \<open>Flat loads\<close>

definition run_flat_load_dwordxn ::
  "nat \<Rightarrow> Storage \<Rightarrow> nat \<Rightarrow> WfStateFLATLoad \<Rightarrow> WfStateFLATLoad result" where
  "run_flat_load_dwordxn n st wiInd state =
     bindE (assertE (n \<le> FL_vdstAmountPerWi state) ''state.vdstAmountPerWi >= n'') (\<lambda>_.
     foldE (\<lambda>i state.
         bindE (at_index (FL_VADDR state) wiInd) (\<lambda>addr.
         bindE (read_4_bytes addr 0 st) (\<lambda>data.
         let k = wiInd * FL_vdstAmountPerWi state + i
         in bindE (definedE (k < length (FL_VDST state)) ''vector index'') (\<lambda>_.
            Inr (state\<lparr>FL_VDST := (FL_VDST state)[k := data]\<rparr>)))))
       [0..<n] state)"

definition flat_load_switch :: "(InstrKey \<times> nat) list" where
  "flat_load_switch =
    [(FLAT_LOAD_DWORD, 1), (FLAT_LOAD_DWORDX2, 2), (FLAT_LOAD_DWORDX3, 3), (FLAT_LOAD_DWORDX4, 4)]"

definition execute_flat_load ::
  "Instruction \<Rightarrow> Storage \<Rightarrow> nat \<Rightarrow> WfStateFLATLoad \<Rightarrow> WfStateFLATLoad result" where
  "execute_flat_load instr st wiInd state =
     (case map_of flat_load_switch (in_key instr) of
        None \<Rightarrow> unsupported_instruction ''FLAT'' (in_key instr)
      | Some n \<Rightarrow> run_flat_load_dwordxn n st wiInd state)"

section \<open>Atomics\<close>

definition put_vdst :: "nat \<Rightarrow> u32 \<Rightarrow> WfStateFLATAtomic \<Rightarrow> WfStateFLATAtomic result" where
  "put_vdst i v state =
     bindE (definedE (i < length (FA_VDST state)) ''vector index'') (\<lambda>_.
     Inr (state\<lparr>FA_VDST := (FA_VDST state)[i := v]\<rparr>))"

text \<open>A 32 bit and a 64 bit read-modify-write; the result depends on GLC.\<close>

definition flat_atomic :: "(u32 \<Rightarrow> u32 \<Rightarrow> u32) \<Rightarrow> WfStateFLATAtomic \<Rightarrow> nat \<Rightarrow> (Storage, WfStateFLATAtomic) M" where
  "flat_atomic f state wiInd =
     bindM (liftM (\<lambda>_. at_index (FA_VADDR state) wiInd)) (\<lambda>addr.
     bindM (liftM (read_4_bytes addr 0)) (\<lambda>data.
     bindM (liftM (\<lambda>_. at_index (FA_VDATA state) wiInd)) (\<lambda>v.
     let sum = f data v in
     bindM (write_data32 addr 0 sum) (\<lambda>_.
     liftM (\<lambda>_. put_vdst wiInd (if FA_GLC state then data else sum) state)))))"

definition flat_atomic_x2 :: "(u64 \<Rightarrow> u64 \<Rightarrow> u64) \<Rightarrow> WfStateFLATAtomic \<Rightarrow> nat \<Rightarrow> (Storage, WfStateFLATAtomic) M" where
  "flat_atomic_x2 f state wiInd =
     bindM (liftM (\<lambda>_. at_index (FA_VADDR state) wiInd)) (\<lambda>addr.
     bindM (liftM (read_8_bytes addr)) (\<lambda>data.
     bindM (liftM (\<lambda>_. at_index (FA_VDATA state) wiInd)) (\<lambda>msb.
     bindM (liftM (\<lambda>_. at_index (FA_VDATA state) (wiInd + 1))) (\<lambda>lsb.
     bindM (liftM (\<lambda>_. to_uin64_t2 msb lsb)) (\<lambda>v.
     let sum = f data v; res = (if FA_GLC state then data else sum) in
     bindM (write_data64 addr 0 sum) (\<lambda>_.
     liftM (\<lambda>_. bindE (put_vdst wiInd (to_u32 (drop_bit 32 res)) state)
       (put_vdst (wiInd + 1) (to_u32 res)))))))))"

definition run_flat_atomic_add :: "WfStateFLATAtomic \<Rightarrow> nat \<Rightarrow> (Storage, WfStateFLATAtomic) M" where
  "run_flat_atomic_add = flat_atomic (+)"

definition run_flat_atomic_add_x2 :: "WfStateFLATAtomic \<Rightarrow> nat \<Rightarrow> (Storage, WfStateFLATAtomic) M" where
  "run_flat_atomic_add_x2 = flat_atomic_x2 (+)"

definition run_flat_atomic_sub :: "WfStateFLATAtomic \<Rightarrow> nat \<Rightarrow> (Storage, WfStateFLATAtomic) M" where
  "run_flat_atomic_sub = flat_atomic (-)"

definition run_flat_atomic_sub_x2 :: "WfStateFLATAtomic \<Rightarrow> nat \<Rightarrow> (Storage, WfStateFLATAtomic) M" where
  "run_flat_atomic_sub_x2 = flat_atomic_x2 (-)"

section \<open>Dispatch\<close>

definition flat_store :: "Instruction \<Rightarrow> (Machine, unit) M" where
  "flat_store instr =
     bindM (liftM (\<lambda>s. get_flat_store_state instr (m_wave s))) (\<lambda>state.
     bindM (liftM (\<lambda>s. Inr (wf_size (m_wave s)))) (\<lambda>n.
     forM [0..<n] (\<lambda>wiInd. on_store (execute_flat_store instr state wiInd))))"

definition flat_load :: "Instruction \<Rightarrow> (Machine, unit) M" where
  "flat_load instr =
     bindM (liftM (\<lambda>s. get_flat_load_state instr (m_wave s))) (\<lambda>state.
     bindM (liftM (\<lambda>s. foldE (execute_flat_load instr (m_store s)) [0..<wf_size (m_wave s)] state)) (\<lambda>state.
     on_wave (update_with_flat_load_state instr state)))"

definition run_flat :: "Instruction \<Rightarrow> (Machine, unit) M" where
  "run_flat instr =
     (if FLAT_STORE_DWORD \<le> in_key instr \<and> in_key instr \<le> FLAT_STORE_SHORT
      then flat_store instr else flat_load instr)"

end
