(* ===== verification/AluMemProps.thy ===== *)
theory AluMemProps
  imports AluMem
begin

text \<open>
  What the memory instructions move: a scalar load brings a stored word to its register, a flat
  store writes the word of every lane (whatever EXEC says), a wider flat store keeps only the last
  of its words. All of them keep the sizes of the wavefront and of the storage.
\<close>

unbundle bit_operations_syntax

section \<open>Frames\<close>

lemma run_smem_frame: "run_smem instr st w = Inr w' \<Longrightarrow> wf_frame w w'"
  by (auto simp: run_smem_def update_with_smem_state_def result_simps intro: write_data_frame)

lemma flat_load_state_frame [frame_intros]:
  "update_with_flat_load_state instr st w = Inr w' \<Longrightarrow> wf_frame w w'"
  unfolding update_with_flat_load_state_def
  by (erule wf_frame_foldE) (auto simp: result_simps Let_def intro: write_data_frame)

lemma keeps_on_store [keeps_intros]:
  "keeps P m \<Longrightarrow> keeps (\<lambda>s. P (m_store s) \<and> Q (m_wave s)) (on_store m)"
  by (auto simp: keeps_def on_store_def split: prod.splits)

lemma keeps_on_wave [keeps_intros]:
  "(\<And>w w'. f w = Inr w' \<Longrightarrow> wf_frame w w') \<Longrightarrow>
    keeps (\<lambda>s. P (m_store s) \<and> wf_frame w0 (m_wave s)) (on_wave f)"
  by (auto simp: keeps_def on_wave_def split: sum.splits intro: wf_frame_trans)

lemma flat_store_switch_keeps:
  "(k, f) \<in> set flat_store_switch \<Longrightarrow> keeps storage_inv (f state i)"
  by (auto simp: flat_store_switch_def run_flat_store_dwordxn_def run_flat_store_short_def
      intro!: keeps_intros write_data_keeps)

lemma execute_flat_store_keeps: "keeps storage_inv (execute_flat_store instr state i)"
  by (auto simp: execute_flat_store_def split: option.splits
      intro: keeps_intros flat_store_switch_keeps dest: map_of_SomeD)

lemma run_flat_keeps:
  "keeps (\<lambda>s. storage_inv (m_store s) \<and> wf_frame w0 (m_wave s)) (run_flat instr)"
  unfolding run_flat_def flat_store_def flat_load_def
  by (auto intro!: keeps_intros execute_flat_store_keeps flat_load_state_frame)

section \<open>Scalar loads\<close>

lemma read_bytes32_after_write:
  assumes "storage_inv s" and "write_data32 a off v s = (Inr u, t)" and "unat off + 3 < 2 ^ 32"
  shows "read_loop False t (a + to_u64 off) (a + to_u64 off + 4) = Inr (bytes32 v)"
proof -
  from assms have "put_bytes (a + to_u64 off) (bytes32 v) s = (Inr u, t)"
    by (simp add: write_data32_bytes)
  then have "read_loop False t (a + to_u64 off) (a + to_u64 off + of_nat (length (bytes32 v)))
      = Inr (bytes32 v)"
    using assms(1) by (intro read_after_put) (simp_all add: length_bytes32)
  then show ?thesis by (simp add: length_bytes32)
qed

lemma to_uint32_v_bytes32: "to_uint32_v (bytes32 v) = Inr [v]"
  using join_bytes32 [of v] by (simp add: to_uint32_v_def bytes32_def upt_rec or.assoc)

text \<open>The word that was stored at an address is what a scalar load from it leaves in a register.\<close>

text \<open>
  C21: A scalar load returns the word that was stored at the address it reads.
\<close>

theorem load_after_store:
  assumes "write_data32 base off v s = (Inr u, t)" and "storage_inv s" and "unat off + 3 < 2 ^ 32"
    and "in_key instr = S_LOAD_DWORD"
    and "read_arg64 instr 1 (- 1) w = Inr base" and "read_arg64 instr 2 (- 1) w = Inr (to_u64 off)"
    and "operand instr 0 = Inr dst" and "op_type dst = REGISTER" and "op_value dst = RegV r"
    and "writable_reg r" and "run_smem instr t w = Inr w'"
  shows "read_operand dst (- 1) w' = Inr [v]"
proof -
  from assms(11) obtain state st' where state: "get_smem_state instr w = Inr state"
      and run: "run_s_load_dword_n state 4 t = Inr st'"
      and upd: "update_with_smem_state instr st' w = Inr w'"
    using assms(4) by (auto simp: run_smem_def smem_switch_def result_simps)
  have "SMEM_BASE state = base" "SMEM_OFFSET state = to_u64 off"
    using state assms(5,6) by (auto simp: get_smem_state_def read_arg64_def result_simps)
  with run have "SMEM_SDST st' = [v]"
    using read_bytes32_after_write [OF assms(2,1,3)]
    by (auto simp: run_s_load_dword_n_def read_data_def result_simps to_uint32_v_bytes32)
  with upd assms(7) have "write_data_to_gpr dst [v] (- 1) w = Inr w'"
    by (simp add: update_with_smem_state_def)
  then show ?thesis
    by (rule read_after_write [OF assms(8-10)]) simp
qed

section \<open>Flat stores\<close>

lemma no_wrap_4:
  assumes "a < a + (4 :: u64)"
  shows "unat a + 4 < 2 ^ 64"
proof (rule ccontr)
  assume "\<not> unat a + 4 < 2 ^ 64"
  moreover have "unat a < 2 ^ 64" using unsigned_less [of a] by simp
  ultimately have "unat (a + 4) < unat a" by (simp add: unat_word_ariths le_mod_geq)
  with assms show False by (simp add: word_less_nat_alt)
qed

lemma read_4_frame:
  assumes "read_4_bytes a 0 s = Inr v"
    and "\<And>k. k < 4 \<Longrightarrow> get_byte (a + of_nat k) t = get_byte (a + of_nat k) s"
  shows "read_4_bytes a 0 t = Inr v"
proof -
  have "a < a + 4"
  proof (rule ccontr)
    assume "\<not> a < a + 4"
    then have "read_loop False s a (a + 4) = Inr []" by (simp add: read_loop.simps)
    with assms(1) show False by (simp add: read_4_bytes_def read_data_def nth_byte_def)
  qed
  then have wrap: "unat a + 4 < 2 ^ 64" by (rule no_wrap_4)
  have "mapE (\<lambda>i. get_byte (a + of_nat i) t) [0..<4] = mapE (\<lambda>i. get_byte (a + of_nat i) s) [0..<4]"
    by (rule mapE_cong) (auto intro: assms(2))
  then have "read_loop False t a (a + 4) = read_loop False s a (a + 4)"
    using read_loop_bytes [OF wrap, of t] read_loop_bytes [OF wrap, of s] by simp
  with assms(1) show ?thesis by (simp add: read_4_bytes_def read_data_def)
qed

lemma bindM_InrE:
  assumes "bindM m f s = (Inr y, t)"
  obtains x r where "m s = (Inr x, r)" "f x r = (Inr y, t)"
  using assms by (auto simp: bindM_def split: prod.splits sum.splits)

lemma store_all_other:
  assumes "storage_inv s" and "forM xs (\<lambda>i. write_data32 (a i) 0 (v i)) s = (Inr u, t)"
    and "\<And>j l. j \<in> set xs \<Longrightarrow> l < 4 \<Longrightarrow> b \<noteq> a j + of_nat l"
  shows "get_byte b t = get_byte b s"
  using assms
proof (induction xs arbitrary: s)
  case (Cons x xs)
  from Cons.prems(2) obtain y r where r: "write_data32 (a x) 0 (v x) s = (Inr y, r)"
      "forM xs (\<lambda>i. write_data32 (a i) 0 (v i)) r = (Inr u, t)"
    unfolding forM.simps by (rule bindM_InrE)
  have "storage_inv r"
    using keepsD [OF write_data_keeps(3) Cons.prems(1)] r(1) by (metis snd_conv)
  then have "get_byte b t = get_byte b r" using r(2) Cons.prems(3) by (intro Cons.IH) auto
  also have "\<dots> = get_byte b s"
    using Cons.prems(1) r(1) by (rule write_data32_other) (use Cons.prems(3) in auto)
  finally show ?case .
qed (simp add: retM_def)

lemma store_all:
  assumes "storage_inv s" and "forM xs (\<lambda>i. write_data32 (a i) 0 (v i)) s = (Inr u, t)"
    and "distinct xs"
    and "\<And>i j k l. i \<in> set xs \<Longrightarrow> j \<in> set xs \<Longrightarrow> i \<noteq> j \<Longrightarrow> k < 4 \<Longrightarrow> l < 4 \<Longrightarrow>
      a i + of_nat k \<noteq> a j + of_nat l"
    and "i \<in> set xs"
  shows "read_4_bytes (a i) 0 t = Inr (v i)"
  using assms
proof (induction xs arbitrary: s i)
  case (Cons x xs)
  from Cons.prems(2) obtain y r where r: "write_data32 (a x) 0 (v x) s = (Inr y, r)"
      "forM xs (\<lambda>i. write_data32 (a i) 0 (v i)) r = (Inr u, t)"
    unfolding forM.simps by (rule bindM_InrE)
  have inv: "storage_inv r"
    using keepsD [OF write_data_keeps(3) Cons.prems(1)] r(1) by (metis snd_conv)
  show ?case
  proof (cases "i \<in> set xs")
    case True
    with Cons.IH [OF inv r(2)] Cons.prems(3,4) show ?thesis by simp
  next
    case False
    with Cons.prems(5) have i: "i = x" by simp
    have first: "read_4_bytes (a x) 0 r = Inr (v x)"
      using Cons.prems(1) r(1) by (rule read_4_after_write) simp
    have "read_4_bytes (a x) 0 t = Inr (v x)"
      using first
    proof (rule read_4_frame)
      fix k :: nat
      assume "k < 4"
      then show "get_byte (a x + of_nat k) t = get_byte (a x + of_nat k) r"
        using Cons.prems(3,4) by (intro store_all_other [OF inv r(2)]) auto
    qed
    with i show ?thesis by simp
  qed
qed simp

lemma on_store_bind: "on_store (bindM m f) = bindM (on_store m) (\<lambda>x. on_store (f x))"
  by (auto simp: on_store_def bindM_def fun_eq_iff split: prod.splits sum.splits)

lemma on_store_ret: "on_store (retM x) = retM x"
  by (simp add: on_store_def retM_def fun_eq_iff)

lemma forM_on_store: "forM xs (\<lambda>i. on_store (f i)) = on_store (forM xs f)"
  by (induction xs) (simp_all add: on_store_ret on_store_bind)

lemma forM_cong: "(\<And>x. x \<in> set xs \<Longrightarrow> f x = g x) \<Longrightarrow> forM xs f = forM xs g"
  by (induction xs) auto

lemma liftM_ok: "liftM (\<lambda>_. Inr x) = retM x"
  by (simp add: liftM_def retM_def fun_eq_iff)

lemma flat_store_stateD:
  assumes "get_flat_store_state instr w = Inr st"
  shows "length (FS_VADDR st) = wf_size w"
    and "length (FS_VDATA st) = wf_size w * FS_vdataAmountPerWi st"
  using assms by (auto simp: get_flat_store_state_def result_simps Let_def mod_eq_0_iff_dvd
      dest!: mapE_Inr_length)

text \<open>
  A flat store writes the word of every lane of the wavefront to the address of that lane, when
  the addresses do not overlap. EXEC does not occur: the lanes that it switches off write as well.
\<close>

text \<open>
  C22: After a flat store of disjoint words every lane finds its own word at its address.
\<close>

theorem flat_store_lanes:
  assumes "run_flat instr m = (Inr u, m')" and "in_key instr = FLAT_STORE_DWORD"
    and "get_flat_store_state instr (m_wave m) = Inr st" and "FS_vdataAmountPerWi st = 1"
    and "storage_inv (m_store m)"
    and "\<And>i j k l. i < wf_size (m_wave m) \<Longrightarrow> j < wf_size (m_wave m) \<Longrightarrow> i \<noteq> j \<Longrightarrow> k < 4 \<Longrightarrow> l < 4 \<Longrightarrow>
      FS_VADDR st ! i + of_nat k \<noteq> FS_VADDR st ! j + of_nat l"
    and "i < wf_size (m_wave m)"
  shows "read_4_bytes (FS_VADDR st ! i) 0 (m_store m') = Inr (FS_VDATA st ! i)"
proof -
  let ?n = "wf_size (m_wave m)"
  let ?put = "\<lambda>i. write_data32 (FS_VADDR st ! i) 0 (FS_VDATA st ! i)"
  have len: "length (FS_VADDR st) = ?n" "length (FS_VDATA st) = ?n"
    using flat_store_stateD [OF assms(3)] assms(4) by simp_all
  have "execute_flat_store instr st i = ?put i" if "i < ?n" for i
    using that len assms(2,4)
    by (simp add: execute_flat_store_def flat_store_switch_def run_flat_store_dwordxn_def at_index_def liftM_ok)
  then have "forM [0..<?n] (\<lambda>i. on_store (execute_flat_store instr st i)) = on_store (forM [0..<?n] ?put)"
    unfolding forM_on_store by (intro arg_cong [of _ _ on_store] forM_cong) simp
  moreover have "forM [0..<?n] (\<lambda>i. on_store (execute_flat_store instr st i)) m = (Inr u, m')"
    using assms(1-3) by (simp add: run_flat_def flat_store_def bindM_def liftM_def less_eq_InstrKey_def)
  ultimately have "forM [0..<?n] ?put (m_store m) = (Inr u, m_store m')"
    by (auto simp: on_store_def split: prod.splits)
  with assms(5) show ?thesis
    by (rule store_all) (use assms(6,7) in auto)
qed

text \<open>
  A store of two words writes both to the same address: the address keeps the second, and the
  four bytes behind it are not written.
\<close>

lemma store_dwordx2_same_address:
  assumes "run_flat_store_dwordxn 2 st i s = (Inr u, t)" and "storage_inv s"
  shows "read_4_bytes (FS_VADDR st ! i) 0 t = Inr (FS_VDATA st ! (i * FS_vdataAmountPerWi st + 1))"
    and "\<And>k. 4 \<le> k \<Longrightarrow> k < 8 \<Longrightarrow>
      get_byte (FS_VADDR st ! i + of_nat k) t = get_byte (FS_VADDR st ! i + of_nat k) s"
proof -
  let ?a = "FS_VADDR st ! i" and ?d = "\<lambda>k. FS_VDATA st ! (i * FS_vdataAmountPerWi st + k)"
  have "[0..<2] = [0, 1 :: nat]" by (simp add: upt_rec)
  with assms(1) obtain y r where r: "write_data32 ?a 0 (?d 0) s = (Inr y, r)"
      "write_data32 ?a 0 (?d 1) r = (Inr u, t)"
    by (auto simp: run_flat_store_dwordxn_def liftM_def at_index_def split: if_splits elim!: bindM_InrE)
  have inv: "storage_inv r"
    using keepsD [OF write_data_keeps(3) assms(2)] r(1) by (metis snd_conv)
  show "read_4_bytes ?a 0 t = Inr (?d 1)"
    using inv r(2) by (rule read_4_after_write) simp
  fix k :: nat
  assume k: "4 \<le> k" "k < 8"
  have "?a + of_nat k \<noteq> ?a + to_u64 0 + of_nat l" if "l < 4" for l
  proof -
    have "(of_nat k :: u64) \<noteq> of_nat l" using k that by (simp add: word_unat_eq_iff unat_of_nat)
    then show ?thesis by simp
  qed
  then show "get_byte (?a + of_nat k) t = get_byte (?a + of_nat k) s"
    using write_data32_other [OF inv r(2)] write_data32_other [OF assms(2) r(1)] by simp
qed

text \<open>
  A flat store of two words writes both to the same address, so the second overwrites the
  first and the next four bytes keep their value.
\<close>

theorem flat_store_dwordx2_overwrites:
  assumes "run_flat_store_dwordxn 2 st i s = (Inr u, t)" and "storage_inv s"
  shows "read_4_bytes (FS_VADDR st ! i) 0 t = Inr (FS_VDATA st ! (i * FS_vdataAmountPerWi st + 1))
    \<and> (\<forall>k \<in> {4..<8}. get_byte (FS_VADDR st ! i + of_nat k) t = get_byte (FS_VADDR st ! i + of_nat k) s)"
  using store_dwordx2_same_address [OF assms] by simp

section \<open>Concrete runs\<close>

lemma load_after_store_witness:
  "let i = make_instr S_LOAD_DWORD SMEM [reg_op REG_S0 1, reg_op (REG_S0 + 2) 2,
         \<lparr>op_type = INT_CONST, op_value = IntV 4, op_regAmount = 0\<rparr>];
       t = snd (write_data32 0 4 42 (storage_init 16))
   in read_operand (reg_op REG_S0 1) (- 1) (projr (run_smem i t small_wave)) = Inr [42]"
  unfolding Let_def
  by (rule load_after_store [OF returns_pairD storage_inv_init _ _ _ _ _ _ _ _ returnsD, where off = 4 and base = 0])
    ((simp add: make_instr_def reg_op_def operand_def writable_reg_def is_s_reg_def; fail) | code_simp)+

lemma example_addrs:
  assumes "i < 2" "j < 2" "i \<noteq> j" "k < 4" "l < 4"
  shows "([0, 8] :: u64 list) ! i + of_nat k \<noteq> [0, 8] ! j + of_nat l"
proof -
  have "k = 0 \<or> k = 1 \<or> k = 2 \<or> k = 3" "l = 0 \<or> l = 1 \<or> l = 2 \<or> l = 3"
    using assms by linarith+
  with assms(1-3) show ?thesis by (auto simp: less_2_cases_iff)
qed

lemma flat_store_lanes_witness:
  "let i = make_instr FLAT_STORE_DWORD FLAT [reg_op REG_V0 2, reg_op (REG_V0 + 2) 1];
       w = small_wave\<lparr>vectorRegFile := [0, 0, 7, 8, 0, 9]\<rparr>;
       m = \<lparr>m_wave = w, m_store = storage_init 16\<rparr>;
       st = \<lparr>FS_VADDR = [0, 8], FS_VDATA = [7, 9], FS_vdataAmountPerWi = 1\<rparr>
   in read_4_bytes (FS_VADDR st ! 1) 0 (m_store (snd (run_flat i m))) = Inr (FS_VDATA st ! 1)"
proof -
  have "wf_size small_wave = 2" by code_simp
  then show ?thesis
    unfolding Let_def
    by (intro flat_store_lanes [OF returns_pairD],
        code_simp, code_simp, code_simp, simp, simp add: storage_inv_init, simp add: example_addrs, simp)
qed

lemma flat_store_dwordx2_overwrites_witness:
  "let st = \<lparr>FS_VADDR = [0], FS_VDATA = [5, 6], FS_vdataAmountPerWi = 2\<rparr>; s = storage_init 16;
       t = snd (run_flat_store_dwordxn 2 st 0 s)
   in read_4_bytes (FS_VADDR st ! 0) 0 t = Inr (FS_VDATA st ! (0 * FS_vdataAmountPerWi st + 1))
    \<and> (\<forall>k \<in> {4..<8}. get_byte (FS_VADDR st ! 0 + of_nat k) t = get_byte (FS_VADDR st ! 0 + of_nat k) s)"
  unfolding Let_def
  by (rule flat_store_dwordx2_overwrites [OF returns_pairD storage_inv_init]) code_simp

end
