(* ===== verification/AluVop1.thy ===== *)
theory AluVop1
  imports AluSop1Props
begin

text \<open>
  The vector instructions with one source (\<open>emulator/src/alu/alu_vop1.cpp\<close>). An instruction
  works on one lane of its \<open>WfStateVOP1\<close>; \<open>run_vop1\<close> runs it for the lanes whose bit in
  EXEC is set and then writes VDST back for all lanes.
\<close>

unbundle bit_operations_syntax

section \<open>Instructions\<close>

definition vop1_put :: "WfStateVOP1 \<Rightarrow> nat \<Rightarrow> u64 \<Rightarrow> WfStateVOP1" where
  "vop1_put state i v = state\<lparr>VOP1_VDST := (VOP1_VDST state)[i := v]\<rparr>"

definition run_v_not_b32 :: "WfStateVOP1 \<Rightarrow> nat \<Rightarrow> WfStateVOP1 result" where
  "run_v_not_b32 state i =
     Inr (vop1_put state i (NOT (VOP1_SRC0 state ! i)))"

definition clamp_i16 :: "u16 \<Rightarrow> u16" where
  "clamp_i16 x = (if sint x < 0 then 0 else if sint x > 255 then 255 else x)"

definition run_v_sat_pk_u8_i16 :: "WfStateVOP1 \<Rightarrow> nat \<Rightarrow> WfStateVOP1 result" where
  "run_v_sat_pk_u8_i16 state i =
     (let lo = clamp_i16 (to_u16 (VOP1_SRC0 state ! i AND 0xffff)); hi = clamp_i16 (to_u16 (drop_bit 16 (VOP1_SRC0 state ! i)))
      in Inr (vop1_put state i (sx64 lo OR sx64 (push_bit 8 (sx32 hi)))))"

definition screen_table :: "u8 list" where
  "screen_table =
     [0x1, 0x3, 0x7, 0xf, 0x5, 0xf, 0xf, 0xf, 0x7, 0xf, 0xf, 0xf, 0xf, 0xf, 0xf, 0xf,
      0xf, 0x2, 0x6, 0xe, 0xf, 0xa, 0xf, 0xf, 0xf, 0xb, 0xf, 0xf, 0xf, 0xf, 0xf, 0xf,
      0xd, 0xf, 0x4, 0xc, 0xf, 0xf, 0x5, 0xf, 0xf, 0xf, 0xd, 0xf, 0xf, 0xf, 0xf, 0xf,
      0x9, 0xb, 0xf, 0x8, 0xf, 0xf, 0xf, 0xa, 0xf, 0xf, 0xf, 0xe, 0xf, 0xf, 0xf, 0xf,
      0xf, 0xf, 0xf, 0xf, 0x4, 0xc, 0xd, 0xf, 0x6, 0xf, 0xf, 0xf, 0xe, 0xf, 0xf, 0xf,
      0xf, 0xf, 0xf, 0xf, 0xf, 0x8, 0x9, 0xb, 0xf, 0x9, 0x9, 0xf, 0xf, 0xd, 0xf, 0xf,
      0xf, 0xf, 0xf, 0xf, 0x7, 0xf, 0x1, 0x3, 0xf, 0xf, 0x9, 0xf, 0xf, 0xf, 0xb, 0xf,
      0xf, 0xf, 0xf, 0xf, 0x6, 0xe, 0xf, 0x2, 0x6, 0xf, 0xf, 0x6, 0xf, 0xf, 0xf, 0x7,
      0xb, 0xf, 0xf, 0xf, 0xf, 0xf, 0xf, 0xf, 0x2, 0x3, 0xb, 0xf, 0xa, 0xf, 0xf, 0xf,
      0xf, 0x7, 0xf, 0xf, 0xf, 0xf, 0xf, 0xf, 0xf, 0x1, 0x9, 0xd, 0xf, 0x5, 0xf, 0xf,
      0xf, 0xf, 0xe, 0xf, 0xf, 0xf, 0xf, 0xf, 0xe, 0xf, 0x8, 0xc, 0xf, 0xf, 0xa, 0xf,
      0xf, 0xf, 0xf, 0xd, 0xf, 0xf, 0xf, 0xf, 0x6, 0x7, 0xf, 0x4, 0xf, 0xf, 0xf, 0x5,
      0x9, 0xf, 0xf, 0xf, 0xd, 0xf, 0xf, 0xf, 0xf, 0xf, 0xf, 0xf, 0x8, 0xc, 0xe, 0xf,
      0xf, 0x6, 0x6, 0xf, 0xf, 0xe, 0xf, 0xf, 0xf, 0xf, 0xf, 0xf, 0xf, 0x4, 0x6, 0x7,
      0xf, 0xf, 0x6, 0xf, 0xf, 0xf, 0x7, 0xf, 0xf, 0xf, 0xf, 0xf, 0xb, 0xf, 0x2, 0x3,
      0x9, 0xf, 0xf, 0x9, 0xf, 0xf, 0xf, 0xb, 0xf, 0xf, 0xf, 0xf, 0x9, 0xd, 0xf, 0x1]"

definition run_v_screen_partition_4se_b32 :: "WfStateVOP1 \<Rightarrow> nat \<Rightarrow> WfStateVOP1 result" where
  "run_v_screen_partition_4se_b32 state i =
     Inr (vop1_put state i (to_u64 (screen_table ! unat (VOP1_SRC0 state ! i AND 0xff))))"

definition run_v_swap_b32 :: "WfStateVOP1 \<Rightarrow> nat \<Rightarrow> WfStateVOP1 result" where
  "run_v_swap_b32 state i =
     (let tmp = to_u32 (VOP1_VDST state ! i); st = vop1_put state i (VOP1_SRC0 state ! i)
      in Inr (st\<lparr>VOP1_SRC0 := (VOP1_SRC0 st)[i := to_u64 tmp]\<rparr>))"

definition run_v_bfrev_b32 :: "WfStateVOP1 \<Rightarrow> nat \<Rightarrow> WfStateVOP1 result" where
  "run_v_bfrev_b32 state i =
     Inr (vop1_put state i (to_u64 (rev_bit32 (to_u32 (VOP1_SRC0 state ! i)))))"

text \<open>
  Two searches count \<open>uint8_t i\<close> down while \<open>i >= 0\<close>, which always holds: without a hit
  the index wraps to 255 and the shift by 255 is undefined.
\<close>

definition run_v_ffbh_u32 :: "WfStateVOP1 \<Rightarrow> nat \<Rightarrow> WfStateVOP1 result" where
  "run_v_ffbh_u32 state i =
     (case find (\<lambda>k. push_bit k 1 AND VOP1_SRC0 state ! i \<noteq> 0) (rev [0..<32]) of
        None \<Rightarrow> Inl (Undefined ''shift count'')
      | Some k \<Rightarrow> Inr (vop1_put state i (of_nat (31 - k))))"

definition run_v_ffbh_i32 :: "WfStateVOP1 \<Rightarrow> nat \<Rightarrow> WfStateVOP1 result" where
  "run_v_ffbh_i32 state i =
     (let bitval = (if sint (to_u32 (VOP1_SRC0 state ! i)) \<ge> 0 then 1 else 0 :: u32)
      in case find (\<lambda>k. push_bit k 1 AND VOP1_SRC0 state ! i = to_u64 (push_bit k bitval)) (rev [0..<32]) of
           None \<Rightarrow> Inl (Undefined ''shift count'')
         | Some k \<Rightarrow> Inr (vop1_put state i (of_nat (31 - k))))"

definition run_v_ffbl_b32 :: "WfStateVOP1 \<Rightarrow> nat \<Rightarrow> WfStateVOP1 result" where
  "run_v_ffbl_b32 state i =
     Inr (vop1_put state i (first_index (\<lambda>k. push_bit k 1 AND VOP1_SRC0 state ! i \<noteq> 0) [0..<32] of_nat))"

definition run_v_mov_b32 :: "WfStateVOP1 \<Rightarrow> nat \<Rightarrow> WfStateVOP1 result" where
  "run_v_mov_b32 state i =
     Inr (vop1_put state i (VOP1_SRC0 state ! i))"

section \<open>Dispatch\<close>

definition vop1_switch :: "(InstrKey \<times> (WfStateVOP1 \<Rightarrow> nat \<Rightarrow> WfStateVOP1 result)) list" where
  "vop1_switch =
    [(V_SWAP_B32, run_v_swap_b32),
     (V_NOT_B32, run_v_not_b32),
     (V_SAT_PK_U8_I16, run_v_sat_pk_u8_i16),
     (V_SCREEN_PARTITION_4SE_B32, run_v_screen_partition_4se_b32),
     (V_BFREV_B32, run_v_bfrev_b32),
     (V_FFBH_U32, run_v_ffbh_u32),
     (V_FFBH_I32, run_v_ffbh_i32),
     (V_FFBL_B32, run_v_ffbl_b32),
     (V_MOV_B32, run_v_mov_b32)]"

definition run_vop1 :: "Instruction \<Rightarrow> Wavefront \<Rightarrow> Wavefront result" where
  "run_vop1 instr wave =
     bindE (get_vop1_state instr wave) (\<lambda>state.
     bindE (foldE (\<lambda>wiInd st.
         if \<not> work_item_masked wave wiInd then Inr st
         else case map_of vop1_switch (in_key instr) of
                None \<Rightarrow> unsupported_instruction ''VOP1'' (in_key instr)
              | Some f \<Rightarrow> f st wiInd)
       [0..<wf_size wave] state) (\<lambda>state.
     update_with_vop1_state instr state wave))"

end
