(* ===== verification/Floats.thy ===== *)
theory Floats
  imports Prelude
begin

text \<open>
  The \<open>float\<close> arithmetic that the vector instructions use (IEEE 754 binary32, round to nearest,
  ties to even), on the 32 bits of a value. A finite value is a sign and a multiple of the smallest
  positive value, \<open>2 ^ -149\<close>, so sums are exact integers before they are rounded. The result of an
  operation on a NaN is the first NaN operand made quiet, and an invalid operation gives the default
  NaN, as the SSE instructions that the compilers emit do; the C++ standard leaves the bits of a NaN
  open. A product and the sum that follows it are rounded separately.

  \<open>round_bits\<close> is also the rounding of an integer that is converted to \<open>float\<close> or
  \<open>double\<close>.
\<close>

unbundle bit_operations_syntax

section \<open>Rounding\<close>

fun bit_length :: "nat \<Rightarrow> nat" where
  "bit_length n = (if n = 0 then 0 else Suc (bit_length (n div 2)))"

declare bit_length.simps [simp del]

text \<open>\<open>n\<close> rounded to a multiple of \<open>2 ^ e\<close>, a tie to the even multiple.\<close>

definition round_at :: "nat \<Rightarrow> nat \<Rightarrow> nat" where
  "round_at e n =
     (let q = n div 2 ^ e; r = 2 * (n mod 2 ^ e)
      in (if r > 2 ^ e \<or> r = 2 ^ e \<and> odd q then q + 1 else q) * 2 ^ e)"

definition round_bits :: "nat \<Rightarrow> nat \<Rightarrow> nat" where
  "round_bits p n = round_at (bit_length n - p) n"

section \<open>Values\<close>

text \<open>\<open>Finite s n\<close> is \<open>n * 2 ^ -149\<close>, negative if \<open>s\<close>; zero has a sign.\<close>

datatype fvalue = NaN | Infinite bool | Finite bool nat

definition f32_exponent :: "u32 \<Rightarrow> nat" where
  "f32_exponent w = unat w div 2 ^ 23 mod 2 ^ 8"

definition f32_fraction :: "u32 \<Rightarrow> nat" where
  "f32_fraction w = unat w mod 2 ^ 23"

definition f32_decode :: "u32 \<Rightarrow> fvalue" where
  "f32_decode w =
     (let s = bit w 31; e = f32_exponent w; m = f32_fraction w
      in if e = 255 then (if m = 0 then Infinite s else NaN)
         else if e = 0 then Finite s m
         else Finite s ((2 ^ 23 + m) * 2 ^ (e - 1)))"

definition with_sign :: "bool \<Rightarrow> nat \<Rightarrow> u32" where
  "with_sign s n = of_nat (n + (if s then 2 ^ 31 else 0))"

definition f32_infinity :: "bool \<Rightarrow> u32" where
  "f32_infinity s = with_sign s (255 * 2 ^ 23)"

definition f32_default_nan :: u32 where
  "f32_default_nan = 0xFFC00000"

text \<open>
  The bits of a finite value that has at most 24 significant bits; larger ones are infinite.
\<close>

definition f32_encode :: "bool \<Rightarrow> nat \<Rightarrow> u32" where
  "f32_encode s n =
     (if n < 2 ^ 23 then with_sign s n
      else if n \<ge> 2 ^ 277 then f32_infinity s
      else
        let e = bit_length n - 24
        in with_sign s ((e + 1) * 2 ^ 23 + (n div 2 ^ e - 2 ^ 23)))"

text \<open>The nearest \<open>float\<close> to \<open>n * 2 ^ -149\<close> and to \<open>n * 2 ^ -298\<close>.\<close>

definition f32_round :: "bool \<Rightarrow> nat \<Rightarrow> u32" where
  "f32_round s n = f32_encode s (round_bits 24 n)"

definition f32_round_fine :: "bool \<Rightarrow> nat \<Rightarrow> u32" where
  "f32_round_fine s n =
     (let e = max 149 (bit_length n - 24) in f32_encode s (round_at e n div 2 ^ 149))"

section \<open>Arithmetic\<close>

definition f32_is_nan :: "u32 \<Rightarrow> bool" where
  "f32_is_nan w \<longleftrightarrow> f32_exponent w = 255 \<and> f32_fraction w \<noteq> 0"

definition f32_nan_result :: "u32 \<Rightarrow> u32 \<Rightarrow> u32" where
  "f32_nan_result a b =
     (if f32_is_nan a then a OR 0x00400000
      else if f32_is_nan b then b OR 0x00400000 else f32_default_nan)"

definition signed_nat :: "bool \<Rightarrow> nat \<Rightarrow> int" where
  "signed_nat s n = (if s then - int n else int n)"

definition f32_add :: "u32 \<Rightarrow> u32 \<Rightarrow> u32" where
  "f32_add a b =
     (case (f32_decode a, f32_decode b) of
        (NaN, _) \<Rightarrow> f32_nan_result a b
      | (_, NaN) \<Rightarrow> f32_nan_result a b
      | (Infinite s, Infinite t) \<Rightarrow> if s = t then f32_infinity s else f32_default_nan
      | (Infinite s, Finite _ _) \<Rightarrow> f32_infinity s
      | (Finite _ _, Infinite t) \<Rightarrow> f32_infinity t
      | (Finite s m, Finite t n) \<Rightarrow>
          let z = signed_nat s m + signed_nat t n
          in if z = 0 then with_sign (s \<and> t) 0 else f32_round (z < 0) (nat \<bar>z\<bar>))"

definition f32_neg :: "u32 \<Rightarrow> u32" where
  "f32_neg a = a XOR 0x80000000"

text \<open>A subtraction returns a NaN operand with its own sign.\<close>

definition f32_sub :: "u32 \<Rightarrow> u32 \<Rightarrow> u32" where
  "f32_sub a b =
     (if f32_is_nan a \<or> f32_is_nan b then f32_nan_result a b else f32_add a (f32_neg b))"

definition f32_mul :: "u32 \<Rightarrow> u32 \<Rightarrow> u32" where
  "f32_mul a b =
     (case (f32_decode a, f32_decode b) of
        (NaN, _) \<Rightarrow> f32_nan_result a b
      | (_, NaN) \<Rightarrow> f32_nan_result a b
      | (Infinite s, Infinite t) \<Rightarrow> f32_infinity (s \<noteq> t)
      | (Infinite s, Finite t n) \<Rightarrow> if n = 0 then f32_default_nan else f32_infinity (s \<noteq> t)
      | (Finite s m, Infinite t) \<Rightarrow> if m = 0 then f32_default_nan else f32_infinity (s \<noteq> t)
      | (Finite s m, Finite t n) \<Rightarrow> f32_round_fine (s \<noteq> t) (m * n))"

definition f32_less :: "u32 \<Rightarrow> u32 \<Rightarrow> bool" where
  "f32_less a b =
     (case (f32_decode a, f32_decode b) of
        (NaN, _) \<Rightarrow> False
      | (_, NaN) \<Rightarrow> False
      | (Infinite s, Infinite t) \<Rightarrow> s \<and> \<not> t
      | (Infinite s, Finite _ _) \<Rightarrow> s
      | (Finite _ _, Infinite t) \<Rightarrow> \<not> t
      | (Finite s m, Finite t n) \<Rightarrow> signed_nat s m < signed_nat t n)"

text \<open>\<open>std::max\<close>, \<open>std::min\<close>: the first argument unless the other is strictly better.\<close>

definition f32_max :: "u32 \<Rightarrow> u32 \<Rightarrow> u32" where
  "f32_max a b = (if f32_less a b then b else a)"

definition f32_min :: "u32 \<Rightarrow> u32 \<Rightarrow> u32" where
  "f32_min a b = (if f32_less b a then b else a)"

text \<open>
  The conversion to \<open>uint32_t\<close> drops the fraction; a value whose integral part is out of range,
  or that is not a number, is undefined.
\<close>

definition f32_to_u32 :: "u32 \<Rightarrow> u32 result" where
  "f32_to_u32 a =
     (case f32_decode a of
        Finite s n \<Rightarrow>
          let k = n div 2 ^ 149
          in if k = 0 then Inr 0
             else if s \<or> k \<ge> 2 ^ 32 then Inl (Undefined ''float out of range'')
             else Inr (of_nat k)
      | _ \<Rightarrow> Inl (Undefined ''float out of range''))"

section \<open>Lemmas\<close>

lemma round_at_multiple: "2 ^ e dvd n \<Longrightarrow> round_at e n = n"
  by (auto simp: round_at_def Let_def dvd_eq_mod_eq_0)

lemma round_at_error:
  "2 * round_at e n \<le> 2 * n + 2 ^ e \<and> 2 * n \<le> 2 * round_at e n + 2 ^ e"
proof -
  define M where "M = (2 :: nat) ^ e"
  define q where "q = n div M"
  define m where "m = n mod M"
  have n: "n = q * M + m" unfolding q_def m_def by (rule div_mult_mod_eq [symmetric])
  have "0 < M" by (simp add: M_def)
  then have m: "m < M" by (simp add: m_def)
  show ?thesis
  proof (cases "2 * m > M \<or> 2 * m = M \<and> odd q")
    case True
    then have r: "round_at e n = q * M + M"
      unfolding round_at_def Let_def M_def [symmetric] q_def [symmetric] m_def [symmetric] by simp
    have "M \<le> 2 * m" using True by auto
    then show ?thesis unfolding r M_def [symmetric] using m n by simp
  next
    case False
    then have r: "round_at e n = q * M"
      unfolding round_at_def Let_def M_def [symmetric] q_def [symmetric] m_def [symmetric]
      by (simp only: if_False)
    have "2 * m \<le> M" using False by auto
    then show ?thesis unfolding r M_def [symmetric] using n by simp
  qed
qed

lemma bit_length_bounds: "0 < n \<Longrightarrow> 2 ^ (bit_length n - 1) \<le> n \<and> n < 2 ^ bit_length n"
proof (induction n rule: bit_length.induct)
  case (1 n)
  show ?case
  proof (cases "n div 2 = 0")
    case True
    with 1 have "n = 1" by simp
    then show ?thesis by (simp add: bit_length.simps)
  next
    case False
    let ?k = "bit_length (n div 2)"
    have IH: "2 ^ (?k - 1) \<le> n div 2" "n div 2 < 2 ^ ?k" using 1 False by simp_all
    have "0 < ?k" using False by (simp add: bit_length.simps [of "n div 2"])
    then have "2 ^ ?k = 2 * (2 ^ (?k - 1) :: nat)" by (cases ?k) simp_all
    moreover have "bit_length n = Suc ?k" using 1 by (simp add: bit_length.simps [of n])
    moreover have "2 * 2 ^ (?k - 1) \<le> n"
      using mult_le_mono2 [OF IH(1), of 2] times_div_less_eq_dividend [of 2 n] by linarith
    moreover have "n < 2 * (n div 2) + 2" by presburger
    ultimately show ?thesis using IH by auto
  qed
qed

lemma bit_length_eq:
  assumes "2 ^ k \<le> n" and "n < 2 ^ Suc k"
  shows "bit_length n = Suc k"
proof -
  have "0 < n" using assms(1) by (cases n) auto
  from bit_length_bounds [OF this] have "2 ^ (bit_length n - 1) < (2 :: nat) ^ Suc k"
    "2 ^ k < (2 :: nat) ^ bit_length n" using assms by linarith+
  then have "bit_length n - 1 < Suc k" "k < bit_length n"
    using power_less_imp_less_exp [of "2 :: nat"] by (metis one_less_numeral_iff semiring_norm(76))+
  then show ?thesis by linarith
qed

section \<open>Encoding and decoding\<close>

lemma unat_sign_parts:
  "unat w = (if bit w 31 then 2 ^ 31 else 0) + f32_exponent w * 2 ^ 23 + f32_fraction w"
proof -
  have "unat w < 2 ^ 32" using unsigned_less [of w] by simp
  then have top: "unat w div 2 ^ 31 < 2" by simp
  have "bit w 31 \<longleftrightarrow> bit (unat w) 31" by (simp add: bit_unsigned_iff)
  also have "\<dots> \<longleftrightarrow> odd (unat w div 2 ^ 31)" by (rule bit_iff_odd)
  finally have "bit w 31 \<longleftrightarrow> odd (unat w div 2 ^ 31)" .
  then have "unat w div 2 ^ 31 = (if bit w 31 then 1 else 0)"
    using top by (cases "unat w div 2 ^ 31 = 0") (auto simp: not_less_eq)
  moreover have "unat w = unat w div 2 ^ 31 * 2 ^ 31 + (unat w div 2 ^ 23 mod 2 ^ 8) * 2 ^ 23 + unat w mod 2 ^ 23"
  proof -
    let ?a = "unat w div 2 ^ 23"
    have "?a div 2 ^ 8 = unat w div 2 ^ 31" by (simp add: div_mult2_eq [symmetric])
    moreover have "?a = ?a div 2 ^ 8 * 2 ^ 8 + ?a mod 2 ^ 8" by simp
    moreover have "unat w = ?a * 2 ^ 23 + unat w mod 2 ^ 23" by simp
    ultimately have "unat w = (unat w div 2 ^ 31 * 2 ^ 8 + ?a mod 2 ^ 8) * 2 ^ 23 + unat w mod 2 ^ 23"
      by metis
    then show ?thesis by (simp add: algebra_simps)
  qed
  ultimately show ?thesis
    unfolding f32_exponent_def f32_fraction_def by (cases "bit w 31") (simp_all only: if_True if_False mult_1 mult_zero_left)
qed

lemma with_sign_parts:
  "unat w = (if s then 2 ^ 31 else 0) + k \<Longrightarrow> with_sign s k = w"
proof -
  assume "unat w = (if s then 2 ^ 31 else 0) + k"
  then have "with_sign s k = of_nat (unat w)" unfolding with_sign_def by (simp only: add.commute)
  then show ?thesis by simp
qed

text \<open>Every bit pattern of a finite value is the encoding of the value that it decodes to.\<close>

theorem f32_encode_decode:
  assumes "f32_decode w = Finite s n"
  shows "f32_encode s n = w"
proof -
  let ?e = "f32_exponent w" and ?m = "f32_fraction w"
  have m: "?m < 2 ^ 23" by (simp add: f32_fraction_def)
  have e: "?e < 256" by (simp add: f32_exponent_def)
  have s: "s = bit w 31" and e255: "?e \<noteq> 255"
    using assms by (auto simp: f32_decode_def Let_def split: if_splits)
  note parts = unat_sign_parts [of w, folded s]
  show ?thesis
  proof (cases "?e = 0")
    case True
    then have "n = ?m" using assms by (simp add: f32_decode_def Let_def)
    with True m parts show ?thesis by (simp add: f32_encode_def with_sign_parts)
  next
    case False
    let ?k = "?e - 1"
    have n: "n = (2 ^ 23 + ?m) * 2 ^ ?k"
      using assms False e255 by (simp add: f32_decode_def Let_def)
    have "2 ^ (23 + ?k) \<le> n" "n < 2 ^ Suc (23 + ?k)"
      using m by (simp_all add: n power_add)
    then have len: "bit_length n = Suc (23 + ?k)" by (rule bit_length_eq)
    have "(2 :: nat) ^ 23 \<le> 2 ^ (23 + ?k)" by (rule power_increasing) simp_all
    with \<open>2 ^ (23 + ?k) \<le> n\<close> have big: "2 ^ 23 \<le> n" by linarith
    have "Suc (23 + ?k) \<le> 277" using e e255 by simp
    then have "(2 :: nat) ^ Suc (23 + ?k) \<le> 2 ^ 277" by (rule power_increasing) simp
    with \<open>n < 2 ^ Suc (23 + ?k)\<close> have fin: "n < 2 ^ 277" by linarith
    have "n div 2 ^ ?k = 2 ^ 23 + ?m" by (simp add: n)
    with big fin have "f32_encode s n = with_sign s ((?k + 1) * 2 ^ 23 + ?m)"
      by (simp add: f32_encode_def Let_def len)
    also have "\<dots> = w" using False parts by (intro with_sign_parts) simp
    finally show ?thesis .
  qed
qed

lemma f32_encode_decode_witness: "f32_encode False 1 = 1"
  by (rule f32_encode_decode) (simp add: f32_decode_def f32_exponent_def f32_fraction_def)

end
