(* ===== verification/AluVop2.thy ===== *)
theory AluVop2
  imports AluVop1 Floats
begin

text \<open>
  The vector instructions with two sources (\<open>emulator/src/alu/alu_vop2.cpp\<close>), lane by lane as
  in \<open>AluVop1\<close>. The carry of \<open>v_addc_u32\<close> and the selector of \<open>v_cndmask_b32\<close> are bits
  of VCC.
\<close>

unbundle bit_operations_syntax

section \<open>Instructions\<close>

definition vop2_put :: "WfStateVOP2 \<Rightarrow> nat \<Rightarrow> u64 \<Rightarrow> WfStateVOP2" where
  "vop2_put state i v = state\<lparr>VOP2_VDST := (VOP2_VDST state)[i := v]\<rparr>"

definition run_v_addc_u32 :: "WfStateVOP2 \<Rightarrow> nat \<Rightarrow> WfStateVOP2 result" where
  "run_v_addc_u32 state i =
     (let mask = push_bit i 1; temp = VOP2_SRC0 state ! i + VOP2_SRC1 state ! i + (if VOP2_VCC state AND mask \<noteq> 0 then 1 else 0);
          st = vop2_put state i (temp AND 0xffffffff)
      in Inr (st\<lparr>VOP2_VCC := (if temp \<ge> 0x100000000 then VOP2_VCC st OR mask
                              else VOP2_VCC st AND NOT mask)\<rparr>))"

definition run_v_add_u32 :: "WfStateVOP2 \<Rightarrow> nat \<Rightarrow> WfStateVOP2 result" where
  "run_v_add_u32 state i =
     (let temp = VOP2_SRC0 state ! i + VOP2_SRC1 state ! i
      in Inr (vop2_put state i (if VOP2_CLAMP state then min temp 0xffffffff else temp)))"

definition run_v_ashr_i32 :: "WfStateVOP2 \<Rightarrow> nat \<Rightarrow> WfStateVOP2 result" where
  "run_v_ashr_i32 state i =
     Inr (vop2_put state i (drop_bit (unat (VOP2_SRC1 state ! i AND 31)) (VOP2_SRC0 state ! i) AND 0xffffffff))"

definition run_v_lshr_b32 :: "WfStateVOP2 \<Rightarrow> nat \<Rightarrow> WfStateVOP2 result" where
  "run_v_lshr_b32 state i =
     Inr (vop2_put state i (drop_bit (unat (VOP2_SRC1 state ! i AND 31)) (VOP2_SRC0 state ! i) AND 0xffffffff))"

definition run_v_and_b32 :: "WfStateVOP2 \<Rightarrow> nat \<Rightarrow> WfStateVOP2 result" where
  "run_v_and_b32 state i =
     Inr (vop2_put state i (VOP2_SRC0 state ! i AND VOP2_SRC1 state ! i))"

definition run_v_ashrrev_i32 :: "WfStateVOP2 \<Rightarrow> nat \<Rightarrow> WfStateVOP2 result" where
  "run_v_ashrrev_i32 state i =
     Inr (vop2_put state i (sx64 (sshr (to_u32 (VOP2_SRC1 state ! i)) (unat (VOP2_SRC0 state ! i AND 31)))))"

definition run_v_bcnt_u32_b32 :: "WfStateVOP2 \<Rightarrow> nat \<Rightarrow> WfStateVOP2 result" where
  "run_v_bcnt_u32_b32 state i =
     Inr (vop2_put state i (VOP2_SRC1 state ! i + to_u64 (bit_count64 (VOP2_SRC0 state ! i))))"

definition run_v_bfm_b32 :: "WfStateVOP2 \<Rightarrow> nat \<Rightarrow> WfStateVOP2 result" where
  "run_v_bfm_b32 state i =
     Inr (vop2_put state i (to_u64 (push_bit (unat (VOP2_SRC1 state ! i AND 31)) (push_bit (unat (VOP2_SRC0 state ! i AND 31)) 1 - 1 :: u32))))"

definition run_v_cndmask_b32 :: "WfStateVOP2 \<Rightarrow> nat \<Rightarrow> WfStateVOP2 result" where
  "run_v_cndmask_b32 state i =
     Inr (vop2_put state i ((if drop_bit i (VOP2_VCC state) = 1 then VOP2_SRC1 state ! i else VOP2_SRC0 state ! i) AND 0xffffffff))"

definition saturate_i16 :: "u32 \<Rightarrow> u16" where
  "saturate_i16 x = word_of_int (max (min (sint x) 0x7fff) (- 0x8000))"

definition run_v_cvt_pk_i16_i32 :: "WfStateVOP2 \<Rightarrow> nat \<Rightarrow> WfStateVOP2 result" where
  "run_v_cvt_pk_i16_i32 state i =
     Inr (vop2_put state i (to_u64 (sx32 (saturate_i16 (to_u32 (VOP2_SRC0 state ! i)))
       OR push_bit 16 (sx32 (saturate_i16 (to_u32 (VOP2_SRC1 state ! i)))))))"

definition run_v_cvt_pk_u16_u32 :: "WfStateVOP2 \<Rightarrow> nat \<Rightarrow> WfStateVOP2 result" where
  "run_v_cvt_pk_u16_u32 state i =
     Inr (vop2_put state i (to_u64 (to_u32 (min (VOP2_SRC0 state ! i) 0xffff) OR push_bit 16 (to_u32 (min (VOP2_SRC1 state ! i) 0xffff)))))"

definition run_v_lshlrev_b16 :: "WfStateVOP2 \<Rightarrow> nat \<Rightarrow> WfStateVOP2 result" where
  "run_v_lshlrev_b16 state i =
     Inr (vop2_put state i (push_bit (unat (VOP2_SRC0 state ! i AND 15)) (VOP2_SRC1 state ! i) AND 0xffff))"

definition run_v_lshlrev_b32 :: "WfStateVOP2 \<Rightarrow> nat \<Rightarrow> WfStateVOP2 result" where
  "run_v_lshlrev_b32 state i =
     Inr (vop2_put state i (push_bit (unat (VOP2_SRC0 state ! i AND 31)) (VOP2_SRC1 state ! i) AND 0xffffffff))"

definition run_v_lshrrev_b16 :: "WfStateVOP2 \<Rightarrow> nat \<Rightarrow> WfStateVOP2 result" where
  "run_v_lshrrev_b16 state i =
     Inr (vop2_put state i (drop_bit (unat (VOP2_SRC0 state ! i AND 15)) (VOP2_SRC1 state ! i) AND 0xffff))"

definition run_v_lshrrev_b32 :: "WfStateVOP2 \<Rightarrow> nat \<Rightarrow> WfStateVOP2 result" where
  "run_v_lshrrev_b32 state i =
     Inr (vop2_put state i (drop_bit (unat (VOP2_SRC0 state ! i AND 31)) (VOP2_SRC1 state ! i)))"

definition smax :: "'a::len word \<Rightarrow> 'a word \<Rightarrow> 'a word" where
  "smax x y = (if sint x < sint y then y else x)"

definition smin :: "'a::len word \<Rightarrow> 'a word \<Rightarrow> 'a word" where
  "smin x y = (if sint y < sint x then y else x)"

definition run_v_max_i16 :: "WfStateVOP2 \<Rightarrow> nat \<Rightarrow> WfStateVOP2 result" where
  "run_v_max_i16 state i =
     Inr (vop2_put state i (sx64 (smax (to_u16 (VOP2_SRC0 state ! i)) (to_u16 (VOP2_SRC1 state ! i)))))"

definition run_v_max_i32 :: "WfStateVOP2 \<Rightarrow> nat \<Rightarrow> WfStateVOP2 result" where
  "run_v_max_i32 state i =
     Inr (vop2_put state i (sx64 (smax (to_u32 (VOP2_SRC0 state ! i)) (to_u32 (VOP2_SRC1 state ! i)))))"

definition run_v_max_u16 :: "WfStateVOP2 \<Rightarrow> nat \<Rightarrow> WfStateVOP2 result" where
  "run_v_max_u16 state i =
     Inr (vop2_put state i (max (VOP2_SRC0 state ! i AND 0xffff) (VOP2_SRC1 state ! i AND 0xffff)))"

definition run_v_max_u32 :: "WfStateVOP2 \<Rightarrow> nat \<Rightarrow> WfStateVOP2 result" where
  "run_v_max_u32 state i =
     Inr (vop2_put state i (max (VOP2_SRC0 state ! i) (VOP2_SRC1 state ! i)))"

definition run_v_min_i16 :: "WfStateVOP2 \<Rightarrow> nat \<Rightarrow> WfStateVOP2 result" where
  "run_v_min_i16 state i =
     Inr (vop2_put state i (sx64 (smin (to_u16 (VOP2_SRC0 state ! i)) (to_u16 (VOP2_SRC1 state ! i)))))"

definition run_v_min_i32 :: "WfStateVOP2 \<Rightarrow> nat \<Rightarrow> WfStateVOP2 result" where
  "run_v_min_i32 state i =
     Inr (vop2_put state i (sx64 (smin (to_u32 (VOP2_SRC0 state ! i)) (to_u32 (VOP2_SRC1 state ! i)))))"

definition run_v_min_u16 :: "WfStateVOP2 \<Rightarrow> nat \<Rightarrow> WfStateVOP2 result" where
  "run_v_min_u16 state i =
     Inr (vop2_put state i (min (VOP2_SRC0 state ! i AND 0xffff) (VOP2_SRC1 state ! i AND 0xffff)))"

definition run_v_min_u32 :: "WfStateVOP2 \<Rightarrow> nat \<Rightarrow> WfStateVOP2 result" where
  "run_v_min_u32 state i =
     Inr (vop2_put state i (min (VOP2_SRC0 state ! i) (VOP2_SRC1 state ! i)))"

text \<open>The low 24 bits of a source, sign-extended to 32.\<close>

definition i24 :: "u64 \<Rightarrow> u32" where
  "i24 x = to_u32 ((x AND 0x7fffff) OR (if x AND 0x800000 \<noteq> 0 then 0xff800000 else 0))"

definition run_v_mul_hi_i32_i24 :: "WfStateVOP2 \<Rightarrow> nat \<Rightarrow> WfStateVOP2 result" where
  "run_v_mul_hi_i32_i24 state i =
     Inr (vop2_put state i (sshr (sx64 (i24 (VOP2_SRC0 state ! i)) * sx64 (i24 (VOP2_SRC1 state ! i))) 32))"

definition run_v_mul_hi_u32_u24 :: "WfStateVOP2 \<Rightarrow> nat \<Rightarrow> WfStateVOP2 result" where
  "run_v_mul_hi_u32_u24 state i =
     Inr (vop2_put state i (drop_bit 32 ((VOP2_SRC0 state ! i AND 0xffffff) * (VOP2_SRC1 state ! i AND 0xffffff))))"

definition run_v_mul_i32_i24 :: "WfStateVOP2 \<Rightarrow> nat \<Rightarrow> WfStateVOP2 result" where
  "run_v_mul_i32_i24 state i =
     bindE (signed_result (sint (i24 (VOP2_SRC0 state ! i)) * sint (i24 (VOP2_SRC1 state ! i))) :: u32 result) (\<lambda>r.
     Inr (vop2_put state i (sx64 r)))"

definition run_v_mul_lo_u16 :: "WfStateVOP2 \<Rightarrow> nat \<Rightarrow> WfStateVOP2 result" where
  "run_v_mul_lo_u16 state i =
     Inr (vop2_put state i (((VOP2_SRC0 state ! i AND 0xffff) * (VOP2_SRC1 state ! i AND 0xffff)) AND 0xffff))"

definition run_v_mul_u32_u24 :: "WfStateVOP2 \<Rightarrow> nat \<Rightarrow> WfStateVOP2 result" where
  "run_v_mul_u32_u24 state i =
     Inr (vop2_put state i (to_u64 (to_u32 (VOP2_SRC0 state ! i AND 0xffffff) * to_u32 (VOP2_SRC1 state ! i AND 0xffffff))))"

definition run_v_or_b32 :: "WfStateVOP2 \<Rightarrow> nat \<Rightarrow> WfStateVOP2 result" where
  "run_v_or_b32 state i =
     Inr (vop2_put state i (VOP2_SRC0 state ! i OR VOP2_SRC1 state ! i))"

definition run_v_sub_u16 :: "WfStateVOP2 \<Rightarrow> nat \<Rightarrow> WfStateVOP2 result" where
  "run_v_sub_u16 state i =
     (let temp = to_u32 ((VOP2_SRC0 state ! i AND 0xffff) - (VOP2_SRC1 state ! i AND 0xffff))
      in Inr (vop2_put state i (sx64 (if VOP2_CLAMP state then smax temp 0 else temp))))"

definition run_v_sub_u32 :: "WfStateVOP2 \<Rightarrow> nat \<Rightarrow> WfStateVOP2 result" where
  "run_v_sub_u32 state i =
     (let temp = VOP2_SRC0 state ! i - VOP2_SRC1 state ! i
      in Inr (vop2_put state i (if VOP2_CLAMP state then smax 0 temp else temp)))"

definition run_v_subrev_u16 :: "WfStateVOP2 \<Rightarrow> nat \<Rightarrow> WfStateVOP2 result" where
  "run_v_subrev_u16 state i =
     (let temp = to_u32 ((VOP2_SRC1 state ! i AND 0xffff) - (VOP2_SRC0 state ! i AND 0xffff))
      in Inr (vop2_put state i (sx64 (if VOP2_CLAMP state then smax temp 0 else temp))))"

definition run_v_subrev_u32 :: "WfStateVOP2 \<Rightarrow> nat \<Rightarrow> WfStateVOP2 result" where
  "run_v_subrev_u32 state i =
     (let temp = VOP2_SRC1 state ! i - VOP2_SRC0 state ! i
      in Inr (vop2_put state i (if VOP2_CLAMP state then smax 0 temp else temp)))"

definition run_v_xor_b32 :: "WfStateVOP2 \<Rightarrow> nat \<Rightarrow> WfStateVOP2 result" where
  "run_v_xor_b32 state i =
     Inr (vop2_put state i (VOP2_SRC0 state ! i XOR VOP2_SRC1 state ! i))"

text \<open>\<open>to_float\<close> keeps the low 32 bits; the others are only reported.\<close>

definition to_float :: "u64 \<Rightarrow> u32" where
  "to_float n = to_u32 n"

definition run_v_sub_f32 :: "WfStateVOP2 \<Rightarrow> nat \<Rightarrow> WfStateVOP2 result" where
  "run_v_sub_f32 state i =
     Inr (vop2_put state i (to_u64 (f32_sub (to_float (VOP2_SRC0 state ! i)) (to_float (VOP2_SRC1 state ! i)))))"

definition run_v_mul_f32 :: "WfStateVOP2 \<Rightarrow> nat \<Rightarrow> WfStateVOP2 result" where
  "run_v_mul_f32 state i =
     Inr (vop2_put state i (to_u64 (f32_mul (to_float (VOP2_SRC0 state ! i)) (to_float (VOP2_SRC1 state ! i)))))"

definition run_v_mac_f32 :: "WfStateVOP2 \<Rightarrow> nat \<Rightarrow> WfStateVOP2 result" where
  "run_v_mac_f32 state i =
     Inr (vop2_put state i (to_u64 (f32_add (f32_mul (to_float (VOP2_SRC0 state ! i)) (to_float (VOP2_SRC1 state ! i)))
       (to_float (VOP2_VDST state ! i)))))"

definition run_v_add_f32 :: "WfStateVOP2 \<Rightarrow> nat \<Rightarrow> WfStateVOP2 result" where
  "run_v_add_f32 state i =
     Inr (vop2_put state i (to_u64 (f32_add (to_float (VOP2_SRC0 state ! i)) (to_float (VOP2_SRC1 state ! i)))))"

definition run_v_max_f32 :: "WfStateVOP2 \<Rightarrow> nat \<Rightarrow> WfStateVOP2 result" where
  "run_v_max_f32 state i =
     Inr (vop2_put state i (to_u64 (f32_max (to_float (VOP2_SRC0 state ! i)) (to_float (VOP2_SRC1 state ! i)))))"

definition run_v_min_f32 :: "WfStateVOP2 \<Rightarrow> nat \<Rightarrow> WfStateVOP2 result" where
  "run_v_min_f32 state i =
     Inr (vop2_put state i (to_u64 (f32_min (to_float (VOP2_SRC0 state ! i)) (to_float (VOP2_SRC1 state ! i)))))"

definition run_v_subrev_f32 :: "WfStateVOP2 \<Rightarrow> nat \<Rightarrow> WfStateVOP2 result" where
  "run_v_subrev_f32 state i =
     Inr (vop2_put state i (to_u64 (f32_sub (to_float (VOP2_SRC1 state ! i)) (to_float (VOP2_SRC0 state ! i)))))"

section \<open>Dispatch\<close>

definition vop2_switch :: "(InstrKey \<times> (WfStateVOP2 \<Rightarrow> nat \<Rightarrow> WfStateVOP2 result)) list" where
  "vop2_switch =
    [(V_ADDC_U32, run_v_addc_u32),
     (V_ADD_U32, run_v_add_u32),
     (V_SUB_U32, run_v_sub_u32),
     (V_AND_B32, run_v_and_b32),
     (V_ASHRREV_I32, run_v_ashrrev_i32),
     (V_BCNT_U32_B32, run_v_bcnt_u32_b32),
     (V_BFM_B32, run_v_bfm_b32),
     (V_CNDMASK_B32, run_v_cndmask_b32),
     (V_CVT_PK_I16_I32, run_v_cvt_pk_i16_i32),
     (V_CVT_PK_U16_U32, run_v_cvt_pk_u16_u32),
     (V_LSHLREV_B16, run_v_lshlrev_b16),
     (V_LSHLREV_B32, run_v_lshlrev_b32),
     (V_LSHRREV_B16, run_v_lshrrev_b16),
     (V_LSHRREV_B32, run_v_lshrrev_b32),
     (V_MAX_I16, run_v_max_i16),
     (V_MAX_I32, run_v_max_i32),
     (V_MAX_U16, run_v_max_u16),
     (V_MAX_U32, run_v_max_u32),
     (V_MIN_I16, run_v_min_i16),
     (V_MIN_I32, run_v_min_i32),
     (V_MIN_U16, run_v_min_u16),
     (V_MIN_U32, run_v_min_u32),
     (V_MUL_HI_I32_I24, run_v_mul_hi_i32_i24),
     (V_MUL_HI_U32_U24, run_v_mul_hi_u32_u24),
     (V_MUL_I32_I24, run_v_mul_i32_i24),
     (V_MUL_LO_U16, run_v_mul_lo_u16),
     (V_MUL_U32_U24, run_v_mul_u32_u24),
     (V_OR_B32, run_v_or_b32),
     (V_SUB_U16, run_v_sub_u16),
     (V_SUBREV_U16, run_v_subrev_u16),
     (V_SUBREV_U32, run_v_subrev_u32),
     (V_XOR_B32, run_v_xor_b32),
     (V_SUB_F32, run_v_sub_f32),
     (V_MUL_F32, run_v_mul_f32),
     (V_MAC_F32, run_v_mac_f32),
     (V_ADD_F32, run_v_add_f32),
     (V_MAX_F32, run_v_max_f32),
     (V_MIN_F32, run_v_min_f32),
     (V_SUBREV_F32, run_v_subrev_f32),
     (V_LSHR_B32, run_v_lshr_b32),
     (V_ASHR_I32, run_v_ashr_i32)]"

definition run_vop2 :: "Instruction \<Rightarrow> Wavefront \<Rightarrow> Wavefront result" where
  "run_vop2 instr wave =
     bindE (get_vop2_state instr wave) (\<lambda>state.
     bindE (foldE (\<lambda>wiInd st.
         if \<not> work_item_masked wave wiInd then Inr st
         else case map_of vop2_switch (in_key instr) of
                None \<Rightarrow> unsupported_instruction ''VOP2'' (in_key instr)
              | Some f \<Rightarrow> f st wiInd)
       [0..<wf_size wave] state) (\<lambda>state.
     update_with_vop2_state instr state wave))"

end
