(* ===== verification/AluVop3.thy ===== *)
theory AluVop3
  imports AluVop2
begin

text \<open>
  The vector instructions of the VOP3 encodings (\<open>emulator/src/alu/alu_vop3.cpp\<close>), lane by lane.
  An instruction with only three operands has an empty SRC2, and reading a lane of it is
  undefined. The functions that have the name of one in \<open>AluVop2\<close> end in \<open>_vop3\<close>. The VCC
  of the state is not written back.
\<close>

unbundle bit_operations_syntax

section \<open>Instructions\<close>

definition vop3_put :: "WfStateVOP3 \<Rightarrow> nat \<Rightarrow> u64 \<Rightarrow> WfStateVOP3" where
  "vop3_put state i v = state\<lparr>VOP3_VDST := (VOP3_VDST state)[i := v]\<rparr>"

definition vop3_src2 :: "WfStateVOP3 \<Rightarrow> nat \<Rightarrow> (u64 \<Rightarrow> WfStateVOP3 result) \<Rightarrow> WfStateVOP3 result" where
  "vop3_src2 state i f = bindE (at_index (VOP3_SRC2 state) i) f"

definition run_v_add_i16 :: "WfStateVOP3 \<Rightarrow> nat \<Rightarrow> WfStateVOP3 result" where
  "run_v_add_i16 state i =
     (let sum = to_u16 ((VOP3_SRC0 state ! i AND 0xffff) + (VOP3_SRC1 state ! i AND 0xffff));
          temp = sint (sign_ext16 (to_u16 (VOP3_SRC0 state ! i AND 0xffff))) + sint (sign_ext16 (to_u16 (VOP3_SRC1 state ! i AND 0xffff)));
          r1 = (if VOP3_CLAMP state \<and> temp > 2 ^ 16 - 1 then 0x7fff else sum);
          r2 = (if VOP3_CLAMP state \<and> temp < - (2 ^ 16) then 0x8000 else r1)
      in Inr (vop3_put state i ((VOP3_VDST state ! i AND 0xffff0000) OR to_u64 r2)))"

definition run_v_add_i32 :: "WfStateVOP3 \<Rightarrow> nat \<Rightarrow> WfStateVOP3 result" where
  "run_v_add_i32 state i =
     bindE (signed_result (sint (to_u32 (VOP3_SRC0 state ! i AND 0xffffffff)) + sint (to_u32 (VOP3_SRC1 state ! i AND 0xffffffff)))
              :: u32 result) (\<lambda>r.
     let temp = sint r
     in if temp < 0
        then Inr (vop3_put state i (if VOP3_CLAMP state \<and> temp < 0x8000 then 0 else sx64 r))
        else Inr (vop3_put state i (if VOP3_CLAMP state \<and> temp > 0x7fffffff then 0 else sx64 r)))"

definition run_v_addc_co_u32 :: "WfStateVOP3 \<Rightarrow> nat \<Rightarrow> WfStateVOP3 result" where
  "run_v_addc_co_u32 state i =
     (let mask = push_bit i 1; temp = VOP3_SRC0 state ! i + VOP3_SRC1 state ! i; st = vop3_put state i (temp AND 0xffffffff)
      in Inr (st\<lparr>VOP3_VCC := (if temp \<ge> 0x100000000 then VOP3_VCC st OR mask
                              else VOP3_VCC st AND NOT mask)\<rparr>))"

definition run_v_add3_u32 :: "WfStateVOP3 \<Rightarrow> nat \<Rightarrow> WfStateVOP3 result" where
  "run_v_add3_u32 state i =
     vop3_src2 state i (\<lambda>src2. Inr (vop3_put state i (VOP3_SRC0 state ! i + VOP3_SRC1 state ! i + src2)))"

definition run_v_add_lshl_u32 :: "WfStateVOP3 \<Rightarrow> nat \<Rightarrow> WfStateVOP3 result" where
  "run_v_add_lshl_u32 state i =
     vop3_src2 state i (\<lambda>src2. Inr (vop3_put state i (push_bit (unat (src2 AND 31)) (VOP3_SRC0 state ! i + VOP3_SRC1 state ! i))))"

definition run_v_alignbit_b32 :: "WfStateVOP3 \<Rightarrow> nat \<Rightarrow> WfStateVOP3 result" where
  "run_v_alignbit_b32 state i =
     vop3_src2 state i (\<lambda>src2. Inr (vop3_put state i (drop_bit (unat (src2 AND 31)) (push_bit 32 (VOP3_SRC0 state ! i) OR VOP3_SRC1 state ! i))))"

definition run_v_alignbyte_b32 :: "WfStateVOP3 \<Rightarrow> nat \<Rightarrow> WfStateVOP3 result" where
  "run_v_alignbyte_b32 state i =
     vop3_src2 state i (\<lambda>src2. Inr (vop3_put state i (drop_bit (8 * unat (src2 AND 3)) (push_bit 32 (VOP3_SRC0 state ! i) OR VOP3_SRC1 state ! i))))"

definition run_v_and_or_b32 :: "WfStateVOP3 \<Rightarrow> nat \<Rightarrow> WfStateVOP3 result" where
  "run_v_and_or_b32 state i =
     vop3_src2 state i (\<lambda>src2. Inr (vop3_put state i ((VOP3_SRC0 state ! i AND VOP3_SRC1 state ! i) OR src2)))"

definition run_v_ashr_i64 :: "WfStateVOP3 \<Rightarrow> nat \<Rightarrow> WfStateVOP3 result" where
  "run_v_ashr_i64 state i =
     Inr (vop3_put state i (sshr (VOP3_SRC0 state ! i) (unat (VOP3_SRC1 state ! i AND 63))))"

definition run_v_ashrrev_i64 :: "WfStateVOP3 \<Rightarrow> nat \<Rightarrow> WfStateVOP3 result" where
  "run_v_ashrrev_i64 state i =
     Inr (vop3_put state i (sshr (VOP3_SRC0 state ! i) (unat (VOP3_SRC0 state ! i AND 63))))"

definition run_v_bcnt_u32_b32_vop3 :: "WfStateVOP3 \<Rightarrow> nat \<Rightarrow> WfStateVOP3 result" where
  "run_v_bcnt_u32_b32_vop3 state i =
     Inr (vop3_put state i (VOP3_SRC1 state ! i + to_u64 (bit_count64 (VOP3_SRC0 state ! i))))"

definition run_v_bfe_i32 :: "WfStateVOP3 \<Rightarrow> nat \<Rightarrow> WfStateVOP3 result" where
  "run_v_bfe_i32 state i =
     vop3_src2 state i (\<lambda>src2.
     let shift = unat (VOP3_SRC1 state ! i AND 31); length = unat (src2 AND 31)
     in if shift + length < 32 then
          let v = to_u32 (push_bit (32 - shift - length) (VOP3_SRC0 state ! i))
          in bindE (shift_ok (32 - length) v) (\<lambda>_.
             Inr (vop3_put state i (sx64 (sshr v (32 - length)))))
        else Inr (vop3_put state i (sx64 (sshr (to_u32 (VOP3_SRC0 state ! i)) shift))))"

definition run_v_bfe_u32 :: "WfStateVOP3 \<Rightarrow> nat \<Rightarrow> WfStateVOP3 result" where
  "run_v_bfe_u32 state i =
     vop3_src2 state i (\<lambda>src2.
     let shift = unat (VOP3_SRC1 state ! i AND 31); length = unat (src2 AND 31);
         st = (if length = 0 then vop3_put state i 0 else state)
     in if shift + length < 32
        then Inr (vop3_put st i (drop_bit (32 - length) (push_bit (32 - shift - length) (VOP3_SRC0 st ! i))))
        else Inr (vop3_put st i (drop_bit shift (VOP3_SRC0 st ! i))))"

definition run_v_bfi_b32 :: "WfStateVOP3 \<Rightarrow> nat \<Rightarrow> WfStateVOP3 result" where
  "run_v_bfi_b32 state i =
     vop3_src2 state i (\<lambda>src2. Inr (vop3_put state i ((VOP3_SRC0 state ! i AND VOP3_SRC1 state ! i) OR (NOT (VOP3_SRC0 state ! i) AND src2))))"

definition run_v_bfm_b32_vop3 :: "WfStateVOP3 \<Rightarrow> nat \<Rightarrow> WfStateVOP3 result" where
  "run_v_bfm_b32_vop3 state i =
     Inr (vop3_put state i (to_u64 (push_bit (unat (VOP3_SRC1 state ! i AND 31)) (push_bit (unat (VOP3_SRC0 state ! i AND 31)) 1 - 1 :: u32))))"

definition run_v_cvt_pk_i16_i32_vop3 :: "WfStateVOP3 \<Rightarrow> nat \<Rightarrow> WfStateVOP3 result" where
  "run_v_cvt_pk_i16_i32_vop3 state i =
     Inr (vop3_put state i (to_u64 (sx32 (saturate_i16 (to_u32 (VOP3_SRC0 state ! i)))
       OR push_bit 16 (sx32 (saturate_i16 (to_u32 (VOP3_SRC1 state ! i)))))))"

definition run_v_cvt_pk_u16_u32_vop3 :: "WfStateVOP3 \<Rightarrow> nat \<Rightarrow> WfStateVOP3 result" where
  "run_v_cvt_pk_u16_u32_vop3 state i =
     Inr (vop3_put state i (to_u64 (min (to_u32 (VOP3_SRC0 state ! i)) 0xffff OR push_bit 16 (min (to_u32 (VOP3_SRC1 state ! i)) 0xffff))))"

text \<open>The byte \<open>j\<close> of a source.\<close>

definition src_byte :: "nat \<Rightarrow> u64 \<Rightarrow> u64" where
  "src_byte j x = drop_bit (8 * j) x AND 0xff"

definition run_v_lerp_u8 :: "WfStateVOP3 \<Rightarrow> nat \<Rightarrow> WfStateVOP3 result" where
  "run_v_lerp_u8 state i =
     vop3_src2 state i (\<lambda>src2.
     Inr (vop3_put state i (foldl (\<lambda>vdst j.
         let sum = src_byte j (VOP3_SRC0 state ! i) + src_byte j (VOP3_SRC1 state ! i) + (drop_bit (8 * j) src2 AND 1)
         in (vdst AND to_u64 (NOT (push_bit (8 * j) 255) :: u32))
            OR sx64 (push_bit (8 * j) (to_u32 (drop_bit 1 sum))))
       (VOP3_VDST state ! i) [0..<4])))"

definition run_v_lshl_add_u32 :: "WfStateVOP3 \<Rightarrow> nat \<Rightarrow> WfStateVOP3 result" where
  "run_v_lshl_add_u32 state i =
     vop3_src2 state i (\<lambda>src2. Inr (vop3_put state i (push_bit (unat (VOP3_SRC1 state ! i AND 31)) (VOP3_SRC0 state ! i) + src2)))"

definition run_v_lshl_b64 :: "WfStateVOP3 \<Rightarrow> nat \<Rightarrow> WfStateVOP3 result" where
  "run_v_lshl_b64 state i =
     Inr (vop3_put state i (push_bit (unat (VOP3_SRC1 state ! i AND 63)) (VOP3_SRC0 state ! i)))"

definition run_v_lshl_or_b32 :: "WfStateVOP3 \<Rightarrow> nat \<Rightarrow> WfStateVOP3 result" where
  "run_v_lshl_or_b32 state i =
     vop3_src2 state i (\<lambda>src2. Inr (vop3_put state i (push_bit (unat (VOP3_SRC1 state ! i AND 31)) (VOP3_SRC0 state ! i) OR src2)))"

definition run_v_lshlrev_b64 :: "WfStateVOP3 \<Rightarrow> nat \<Rightarrow> WfStateVOP3 result" where
  "run_v_lshlrev_b64 state i =
     Inr (vop3_put state i (push_bit (unat (VOP3_SRC0 state ! i AND 63)) (VOP3_SRC1 state ! i)))"

definition run_v_lshr_b64 :: "WfStateVOP3 \<Rightarrow> nat \<Rightarrow> WfStateVOP3 result" where
  "run_v_lshr_b64 state i =
     Inr (vop3_put state i (drop_bit (unat (VOP3_SRC1 state ! i AND 63)) (VOP3_SRC0 state ! i)))"

definition run_v_lshrrev_b64 :: "WfStateVOP3 \<Rightarrow> nat \<Rightarrow> WfStateVOP3 result" where
  "run_v_lshrrev_b64 state i =
     Inr (vop3_put state i (drop_bit (unat (VOP3_SRC0 state ! i AND 63)) (VOP3_SRC1 state ! i)))"

definition run_v_mad_i16 :: "WfStateVOP3 \<Rightarrow> nat \<Rightarrow> WfStateVOP3 result" where
  "run_v_mad_i16 state i =
     vop3_src2 state i (\<lambda>src2. Inr (vop3_put state i (to_u64 (sign_ext16 (to_u16 (VOP3_SRC0 state ! i)) * sign_ext16 (to_u16 (VOP3_SRC1 state ! i))
       + sign_ext16 (to_u16 src2) AND 0xffff))))"

definition run_v_mad_legacy_i16 :: "WfStateVOP3 \<Rightarrow> nat \<Rightarrow> WfStateVOP3 result" where
  "run_v_mad_legacy_i16 state i =
     vop3_src2 state i (\<lambda>src2. Inr (vop3_put state i (to_u64 (sign_ext16 (to_u16 (VOP3_SRC0 state ! i)) * sign_ext16 (to_u16 (VOP3_SRC1 state ! i))
       + sign_ext16 (to_u16 src2) AND 0xffff))))"

definition run_v_mad_i32_i16 :: "WfStateVOP3 \<Rightarrow> nat \<Rightarrow> WfStateVOP3 result" where
  "run_v_mad_i32_i16 state i =
     vop3_src2 state i (\<lambda>src2. Inr (vop3_put state i (to_u64 (sign_ext16 (to_u16 (VOP3_SRC0 state ! i)) * sign_ext16 (to_u16 (VOP3_SRC1 state ! i))) + src2)))"

definition run_v_mad_i32_i24 :: "WfStateVOP3 \<Rightarrow> nat \<Rightarrow> WfStateVOP3 result" where
  "run_v_mad_i32_i24 state i =
     vop3_src2 state i (\<lambda>src2.
     bindE (signed_result (sint (i24 (VOP3_SRC0 state ! i)) * sint (i24 (VOP3_SRC1 state ! i))) :: u32 result) (\<lambda>r.
     Inr (vop3_put state i (sx64 r + src2))))"

definition run_v_mad_legacy_u16 :: "WfStateVOP3 \<Rightarrow> nat \<Rightarrow> WfStateVOP3 result" where
  "run_v_mad_legacy_u16 state i =
     vop3_src2 state i (\<lambda>src2.
     bindE (signed_result (uint (to_u16 (VOP3_SRC0 state ! i)) * uint (to_u16 (VOP3_SRC1 state ! i))) :: u32 result) (\<lambda>p.
     bindE (signed_result (sint p + uint (to_u16 src2)) :: u32 result) (\<lambda>temp.
     Inr (vop3_put state i (to_u64 (temp AND 0xffff))))))"

definition run_v_mad_u16 :: "WfStateVOP3 \<Rightarrow> nat \<Rightarrow> WfStateVOP3 result" where
  "run_v_mad_u16 state i =
     vop3_src2 state i (\<lambda>src2.
     bindE (signed_result (uint (to_u16 (VOP3_SRC0 state ! i)) * uint (to_u16 (VOP3_SRC1 state ! i))) :: u32 result) (\<lambda>p.
     bindE (signed_result (sint p + uint (to_u16 src2)) :: u32 result) (\<lambda>temp.
     Inr (vop3_put state i (to_u64 (temp AND 0xffff))))))"

definition run_v_mad_u32_u16 :: "WfStateVOP3 \<Rightarrow> nat \<Rightarrow> WfStateVOP3 result" where
  "run_v_mad_u32_u16 state i =
     vop3_src2 state i (\<lambda>src2. Inr (vop3_put state i (to_u64 (to_u32 ((VOP3_SRC0 state ! i AND 0xffff) * (VOP3_SRC1 state ! i AND 0xffff))) + src2)))"

definition run_v_mad_u32_u24 :: "WfStateVOP3 \<Rightarrow> nat \<Rightarrow> WfStateVOP3 result" where
  "run_v_mad_u32_u24 state i =
     vop3_src2 state i (\<lambda>src2. Inr (vop3_put state i (to_u64 (to_u32 (VOP3_SRC0 state ! i AND 0xffffff) * to_u32 (VOP3_SRC1 state ! i AND 0xffffff)) + src2)))"

definition run_v_max3_i16 :: "WfStateVOP3 \<Rightarrow> nat \<Rightarrow> WfStateVOP3 result" where
  "run_v_max3_i16 state i =
     vop3_src2 state i (\<lambda>src2.
     let s0 = to_u16 (VOP3_SRC0 state ! i); s1 = to_u16 (VOP3_SRC1 state ! i); s2 = to_u16 (src2)
     in Inr (vop3_put state i (if sint s2 > sint s0 \<and> sint s2 > sint s1 then to_u64 s2 else to_u64 (smax s1 s0))))"

definition run_v_max3_i32 :: "WfStateVOP3 \<Rightarrow> nat \<Rightarrow> WfStateVOP3 result" where
  "run_v_max3_i32 state i =
     vop3_src2 state i (\<lambda>src2.
     let s0 = to_u32 (VOP3_SRC0 state ! i); s1 = to_u32 (VOP3_SRC1 state ! i); s2 = to_u32 (src2)
     in Inr (vop3_put state i (if sint s2 > sint s0 \<and> sint s2 > sint s1 then src2 else sx64 (smax s1 s0))))"

definition run_v_max3_u16 :: "WfStateVOP3 \<Rightarrow> nat \<Rightarrow> WfStateVOP3 result" where
  "run_v_max3_u16 state i =
     vop3_src2 state i (\<lambda>src2.
     let s0 = to_u16 (VOP3_SRC0 state ! i); s1 = to_u16 (VOP3_SRC1 state ! i); s2 = to_u16 (src2)
     in Inr (vop3_put state i (if s2 > s0 \<and> s2 > s1 then to_u64 s2 else to_u64 (max s1 s0))))"

definition run_v_max3_u32 :: "WfStateVOP3 \<Rightarrow> nat \<Rightarrow> WfStateVOP3 result" where
  "run_v_max3_u32 state i =
     vop3_src2 state i (\<lambda>src2.
     let s0 = (VOP3_SRC0 state ! i); s1 = (VOP3_SRC1 state ! i); s2 = (src2)
     in Inr (vop3_put state i (if s2 > s0 \<and> s2 > s1 then s2 else max s1 s0)))"

definition run_v_min3_i16 :: "WfStateVOP3 \<Rightarrow> nat \<Rightarrow> WfStateVOP3 result" where
  "run_v_min3_i16 state i =
     vop3_src2 state i (\<lambda>src2.
     let s0 = to_u16 (VOP3_SRC0 state ! i); s1 = to_u16 (VOP3_SRC1 state ! i); s2 = to_u16 (src2)
     in Inr (vop3_put state i (if sint s2 < sint s0 \<and> sint s2 < sint s1 then to_u64 s2 else to_u64 (smin s1 s0))))"

definition run_v_min3_i32 :: "WfStateVOP3 \<Rightarrow> nat \<Rightarrow> WfStateVOP3 result" where
  "run_v_min3_i32 state i =
     vop3_src2 state i (\<lambda>src2.
     let s0 = to_u32 (VOP3_SRC0 state ! i); s1 = to_u32 (VOP3_SRC1 state ! i); s2 = to_u32 (src2)
     in Inr (vop3_put state i (if sint s2 < sint s0 \<and> sint s2 < sint s1 then src2 else sx64 (smin s1 s0))))"

definition run_v_min3_u16 :: "WfStateVOP3 \<Rightarrow> nat \<Rightarrow> WfStateVOP3 result" where
  "run_v_min3_u16 state i =
     vop3_src2 state i (\<lambda>src2.
     let s0 = to_u16 (VOP3_SRC0 state ! i); s1 = to_u16 (VOP3_SRC1 state ! i); s2 = to_u16 (src2)
     in Inr (vop3_put state i (if s2 < s0 \<and> s2 < s1 then to_u64 s2 else to_u64 (min s1 s0))))"

definition run_v_min3_u32 :: "WfStateVOP3 \<Rightarrow> nat \<Rightarrow> WfStateVOP3 result" where
  "run_v_min3_u32 state i =
     vop3_src2 state i (\<lambda>src2.
     let s0 = (VOP3_SRC0 state ! i); s1 = (VOP3_SRC1 state ! i); s2 = (src2)
     in Inr (vop3_put state i (if s2 < s0 \<and> s2 < s1 then s2 else min s1 s0)))"

definition run_v_mbcnt_hi_u32_b32 :: "WfStateVOP3 \<Rightarrow> nat \<Rightarrow> WfStateVOP3 result" where
  "run_v_mbcnt_hi_u32_b32 state i =
     Inr (vop3_put state i (let threadMask = push_bit i 1 - 1;
         mask = to_u32 (VOP3_SRC0 state ! i) AND to_u32 (drop_bit 32 threadMask :: u64)
     in VOP3_SRC1 state ! i + to_u64 (bit_count32 mask)))"

definition run_v_mbcnt_lo_u32_b32 :: "WfStateVOP3 \<Rightarrow> nat \<Rightarrow> WfStateVOP3 result" where
  "run_v_mbcnt_lo_u32_b32 state i =
     Inr (vop3_put state i (let threadMask = push_bit i 1 - 1;
         mask = to_u32 (VOP3_SRC0 state ! i) AND to_u32 (threadMask AND 0xffffffff :: u64)
     in VOP3_SRC1 state ! i + to_u64 (bit_count32 mask)))"

definition run_v_med3_i16 :: "WfStateVOP3 \<Rightarrow> nat \<Rightarrow> WfStateVOP3 result" where
  "run_v_med3_i16 state i =
     vop3_src2 state i (\<lambda>src2.
     let s0 = to_u16 (VOP3_SRC0 state ! i); s1 = to_u16 (VOP3_SRC1 state ! i); s2 = to_u16 (src2)
     in Inr (vop3_put state i (to_u64
       (if (sint s2 > sint s1 \<and> sint s2 < sint s0) \<or> (sint s2 < sint s1 \<and> sint s2 > sint s0) then s2
        else if (sint s1 > sint s2 \<and> sint s1 < sint s0) \<or> (sint s1 < sint s2 \<and> sint s1 > sint s0) then s1 else s0))))"

definition run_v_med3_i32 :: "WfStateVOP3 \<Rightarrow> nat \<Rightarrow> WfStateVOP3 result" where
  "run_v_med3_i32 state i =
     vop3_src2 state i (\<lambda>src2.
     let s0 = to_u32 (VOP3_SRC0 state ! i); s1 = to_u32 (VOP3_SRC1 state ! i); s2 = to_u32 (src2)
     in Inr (vop3_put state i (sx64
       (if (sint s2 > sint s1 \<and> sint s2 < sint s0) \<or> (sint s2 < sint s1 \<and> sint s2 > sint s0) then s2
        else if (sint s1 > sint s2 \<and> sint s1 < sint s0) \<or> (sint s1 < sint s2 \<and> sint s1 > sint s0) then s1 else s0))))"

definition run_v_med3_u16 :: "WfStateVOP3 \<Rightarrow> nat \<Rightarrow> WfStateVOP3 result" where
  "run_v_med3_u16 state i =
     vop3_src2 state i (\<lambda>src2.
     let s0 = to_u16 (VOP3_SRC0 state ! i); s1 = to_u16 (VOP3_SRC1 state ! i); s2 = to_u16 (src2)
     in Inr (vop3_put state i (to_u64
       (if (s2 > s1 \<and> s2 < s0) \<or> (s2 < s1 \<and> s2 > s0) then s2
        else if (s1 > s2 \<and> s1 < s0) \<or> (s1 < s2 \<and> s1 > s0) then s1 else s0))))"

definition run_v_med3_u32 :: "WfStateVOP3 \<Rightarrow> nat \<Rightarrow> WfStateVOP3 result" where
  "run_v_med3_u32 state i =
     vop3_src2 state i (\<lambda>src2.
     let s0 = (VOP3_SRC0 state ! i); s1 = (VOP3_SRC1 state ! i); s2 = (src2)
     in Inr (vop3_put state i (id
       (if (s2 > s1 \<and> s2 < s0) \<or> (s2 < s1 \<and> s2 > s0) then s2
        else if (s1 > s2 \<and> s1 < s0) \<or> (s1 < s2 \<and> s1 > s0) then s1 else s0))))"

definition run_v_msad_u8 :: "WfStateVOP3 \<Rightarrow> nat \<Rightarrow> WfStateVOP3 result" where
  "run_v_msad_u8 state i =
     vop3_src2 state i (\<lambda>src2.
     Inr (vop3_put state i (foldl (\<lambda>vdst j.
         if src_byte j (VOP3_SRC1 state ! i) \<noteq> 0
         then let diff = to_u8 (src_byte j (VOP3_SRC0 state ! i)) - to_u8 (src_byte j (VOP3_SRC1 state ! i))
              in vdst + word_of_int \<bar>sint diff\<bar>
         else vdst) src2 [0..<4])))"

definition run_v_mul_hi_i32 :: "WfStateVOP3 \<Rightarrow> nat \<Rightarrow> WfStateVOP3 result" where
  "run_v_mul_hi_i32 state i =
     bindE (signed_result (sint (VOP3_SRC0 state ! i) * sint (to_u32 (VOP3_SRC1 state ! i))) :: u64 result) (\<lambda>r.
     Inr (vop3_put state i (sshr r 32)))"

definition run_v_mul_hi_u32 :: "WfStateVOP3 \<Rightarrow> nat \<Rightarrow> WfStateVOP3 result" where
  "run_v_mul_hi_u32 state i =
     Inr (vop3_put state i (drop_bit 32 ((VOP3_SRC0 state ! i) * (VOP3_SRC1 state ! i))))"

definition run_v_mul_lo_i32 :: "WfStateVOP3 \<Rightarrow> nat \<Rightarrow> WfStateVOP3 result" where
  "run_v_mul_lo_i32 state i =
     bindE (signed_result (sint (to_u32 (VOP3_SRC0 state ! i)) * sint (to_u32 (VOP3_SRC1 state ! i))) :: u32 result) (\<lambda>r.
     Inr (vop3_put state i (sx64 r)))"

definition run_v_or3_b32 :: "WfStateVOP3 \<Rightarrow> nat \<Rightarrow> WfStateVOP3 result" where
  "run_v_or3_b32 state i =
     vop3_src2 state i (\<lambda>src2. Inr (vop3_put state i (VOP3_SRC0 state ! i OR VOP3_SRC1 state ! i OR src2)))"

definition run_v_pack_b32_f16 :: "WfStateVOP3 \<Rightarrow> nat \<Rightarrow> WfStateVOP3 result" where
  "run_v_pack_b32_f16 state i =
     Inr (vop3_put state i ((VOP3_SRC0 state ! i AND 0xffff) OR push_bit 16 (VOP3_SRC1 state ! i)))"

definition perm_byte :: "u64 \<Rightarrow> u8 \<Rightarrow> u8" where
  "perm_byte qword choice =
     (if choice \<ge> 13 then 0xff
      else if choice = 12 then 0
      else if choice \<ge> 8 then to_u8 (drop_bit ((unat choice - 8) * 16 + 15) (0xff * qword))
      else to_u8 (drop_bit (8 * unat choice) qword AND 0xff))"

definition run_v_perm_b32 :: "WfStateVOP3 \<Rightarrow> nat \<Rightarrow> WfStateVOP3 result" where
  "run_v_perm_b32 state i =
     vop3_src2 state i (\<lambda>src2.
     let qword = push_bit 32 (VOP3_SRC0 state ! i) OR VOP3_SRC1 state ! i
     in Inr (vop3_put state i (foldl (\<lambda>vdst j.
          vdst OR sx64 (push_bit (8 * j) (to_u32 (perm_byte qword (to_u8 (src_byte j src2))))))
        0 [0..<4])))"

definition run_v_sad_hi_u8 :: "WfStateVOP3 \<Rightarrow> nat \<Rightarrow> WfStateVOP3 result" where
  "run_v_sad_hi_u8 state i =
     vop3_src2 state i (\<lambda>src2.
     Inr (vop3_put state i (foldl (\<lambda>vdst j.
         let diff = to_u32 (src_byte j (VOP3_SRC0 state ! i)) - to_u32 (src_byte j (VOP3_SRC1 state ! i))
         in vdst + push_bit 16 (word_of_int \<bar>sint diff\<bar>)) src2 [0..<4])))"

definition abs_int :: "int \<Rightarrow> u64 result" where
  "abs_int n = bindE (signed_result n :: u32 result) (\<lambda>d.
     bindE (signed_result \<bar>sint d\<bar> :: u32 result) (\<lambda>r. Inr (sx64 r)))"

definition run_v_sad_u16 :: "WfStateVOP3 \<Rightarrow> nat \<Rightarrow> WfStateVOP3 result" where
  "run_v_sad_u16 state i =
     vop3_src2 state i (\<lambda>src2.
     bindE (abs_int (sint (to_u32 (VOP3_SRC0 state ! i AND 0xffff)) - sint (to_u32 (VOP3_SRC1 state ! i AND 0xffff)))) (\<lambda>d1.
     bindE (abs_int (sint (to_u32 (drop_bit 16 (VOP3_SRC0 state ! i))) - sint (to_u32 (drop_bit 16 (VOP3_SRC1 state ! i))))) (\<lambda>d2.
     Inr (vop3_put state i (src2 + d1 + d2)))))"

definition run_v_sad_u32 :: "WfStateVOP3 \<Rightarrow> nat \<Rightarrow> WfStateVOP3 result" where
  "run_v_sad_u32 state i =
     vop3_src2 state i (\<lambda>src2.
     bindE (abs_int (sint (to_u32 ((VOP3_SRC0 state ! i) - (VOP3_SRC1 state ! i))))) (\<lambda>d.
     Inr (vop3_put state i (src2 + d))))"

definition run_v_sad_u8 :: "WfStateVOP3 \<Rightarrow> nat \<Rightarrow> WfStateVOP3 result" where
  "run_v_sad_u8 state i =
     vop3_src2 state i (\<lambda>src2.
     Inr (vop3_put state i (foldl (\<lambda>vdst j.
         vdst + word_of_int \<bar>uint (src_byte j (VOP3_SRC0 state ! i)) - uint (src_byte j (VOP3_SRC1 state ! i))\<bar>) src2 [0..<4])))"

definition run_v_sub_i16 :: "WfStateVOP3 \<Rightarrow> nat \<Rightarrow> WfStateVOP3 result" where
  "run_v_sub_i16 state i =
     Inr (vop3_put state i (sx64 (to_u16 (VOP3_SRC0 state ! i AND 0xffff) - to_u16 (VOP3_SRC1 state ! i AND 0xffff))))"

definition run_v_sub_i32 :: "WfStateVOP3 \<Rightarrow> nat \<Rightarrow> WfStateVOP3 result" where
  "run_v_sub_i32 state i =
     Inr (vop3_put state i ((VOP3_SRC0 state ! i) - (VOP3_SRC1 state ! i)))"

definition run_v_xad_u32 :: "WfStateVOP3 \<Rightarrow> nat \<Rightarrow> WfStateVOP3 result" where
  "run_v_xad_u32 state i =
     vop3_src2 state i (\<lambda>src2. Inr (vop3_put state i ((VOP3_SRC0 state ! i XOR VOP3_SRC1 state ! i) + src2)))"

definition run_v_mul_lo_u32 :: "WfStateVOP3 \<Rightarrow> nat \<Rightarrow> WfStateVOP3 result" where
  "run_v_mul_lo_u32 state i =
     Inr (vop3_put state i (to_u64 (to_u32 ((VOP3_SRC0 state ! i) * (VOP3_SRC1 state ! i)))))"

section \<open>Dispatch\<close>

definition vop3_switch :: "(InstrKey \<times> (WfStateVOP3 \<Rightarrow> nat \<Rightarrow> WfStateVOP3 result)) list" where
  "vop3_switch =
    [(V_ADD_I16, run_v_add_i16),
     (V_ADD_I32, run_v_add_i32),
     (V_ADD3_U32, run_v_add3_u32),
     (V_ADD_LSHL_U32, run_v_add_lshl_u32),
     (V_ALIGNBIT_B32, run_v_alignbit_b32),
     (V_ALIGNBYTE_B32, run_v_alignbyte_b32),
     (V_AND_OR_B32, run_v_and_or_b32),
     (V_ASHR_I64, run_v_ashr_i64),
     (V_ASHRREV_I64, run_v_ashrrev_i64),
     (V_BCNT_U32_B32, run_v_bcnt_u32_b32_vop3),
     (V_BFE_I32, run_v_bfe_i32),
     (V_BFE_U32, run_v_bfe_u32),
     (V_BFI_B32, run_v_bfi_b32),
     (V_BFM_B32, run_v_bfm_b32_vop3),
     (V_CVT_PK_I16_I32, run_v_cvt_pk_i16_i32_vop3),
     (V_CVT_PK_U16_U32, run_v_cvt_pk_u16_u32_vop3),
     (V_LERP_U8, run_v_lerp_u8),
     (V_LSHL_ADD_U32, run_v_lshl_add_u32),
     (V_LSHL_B64, run_v_lshl_b64),
     (V_LSHL_OR_B32, run_v_lshl_or_b32),
     (V_LSHLREV_B64, run_v_lshlrev_b64),
     (V_LSHR_B64, run_v_lshr_b64),
     (V_LSHRREV_B64, run_v_lshrrev_b64),
     (V_MAD_I16, run_v_mad_i16),
     (V_MAD_I32_I16, run_v_mad_i32_i16),
     (V_MAD_I32_I24, run_v_mad_i32_i24),
     (V_MAD_LEGACY_I16, run_v_mad_legacy_i16),
     (V_MAD_LEGACY_U16, run_v_mad_legacy_u16),
     (V_MAD_U16, run_v_mad_u16),
     (V_MAD_U32_U16, run_v_mad_u32_u16),
     (V_MAD_U32_U24, run_v_mad_u32_u24),
     (V_MAX3_I16, run_v_max3_i16),
     (V_MAX3_I32, run_v_max3_i32),
     (V_MAX3_U16, run_v_max3_u16),
     (V_MAX3_U32, run_v_max3_u32),
     (V_MBCNT_HI_U32_B32, run_v_mbcnt_hi_u32_b32),
     (V_MBCNT_LO_U32_B32, run_v_mbcnt_lo_u32_b32),
     (V_MED3_I16, run_v_med3_i16),
     (V_MED3_I32, run_v_med3_i32),
     (V_MED3_U16, run_v_med3_u16),
     (V_MED3_U32, run_v_med3_u32),
     (V_MIN3_I16, run_v_min3_i16),
     (V_MIN3_I32, run_v_min3_i32),
     (V_MIN3_U16, run_v_min3_u16),
     (V_MIN3_U32, run_v_min3_u32),
     (V_MSAD_U8, run_v_msad_u8),
     (V_MUL_HI_I32, run_v_mul_hi_i32),
     (V_MUL_HI_U32, run_v_mul_hi_u32),
     (V_MUL_LO_I32, run_v_mul_lo_i32),
     (V_OR3_B32, run_v_or3_b32),
     (V_PACK_B32_F16, run_v_pack_b32_f16),
     (V_PERM_B32, run_v_perm_b32),
     (V_SAD_HI_U8, run_v_sad_hi_u8),
     (V_SAD_U16, run_v_sad_u16),
     (V_SAD_U32, run_v_sad_u32),
     (V_SAD_U8, run_v_sad_u8),
     (V_SUB_I16, run_v_sub_i16),
     (V_SUB_I32, run_v_sub_i32),
     (V_XAD_U32, run_v_xad_u32),
     (V_MUL_LO_U32, run_v_mul_lo_u32),
     (V_ADDC_CO_U32, run_v_addc_co_u32)]"

definition run_vop3 :: "Instruction \<Rightarrow> Wavefront \<Rightarrow> Wavefront result" where
  "run_vop3 instr wave =
     bindE (get_vop3_state instr wave) (\<lambda>state.
     bindE (foldE (\<lambda>wiInd st.
         if \<not> work_item_masked wave wiInd then Inr st
         else case map_of vop3_switch (in_key instr) of
                None \<Rightarrow> unsupported_instruction ''VOP3'' (in_key instr)
              | Some f \<Rightarrow> f st wiInd)
       [0..<wf_size wave] state) (\<lambda>state.
     update_with_vop3_state instr state wave))"

end
