(* ===== verification/Strings.thy ===== *)
theory Strings
  imports Prelude
begin

text \<open>
  Strings (\<open>common/common/utils/string-utils.hpp\<close>, \<open>vector-utils.hpp\<close>) and what the code uses of
  the standard library on them: \<open>std::isspace\<close> and its relatives in the C locale, \<open>std::stoi\<close> and
  \<open>std::stoul\<close>, which throw a \<open>std::logic_error\<close> when there is no number or it does not fit, and
  \<open>substr\<close>, which throws one past the end. The theorems say what \<open>split\<close> returns, and that a printed
  number is read back.
\<close>

section \<open>Characters\<close>

abbreviation code_of_char :: "char \<Rightarrow> nat" where "code_of_char \<equiv> of_char"

definition isspace :: "char \<Rightarrow> bool" where
  "isspace c \<longleftrightarrow> code_of_char c = 32 \<or> 9 \<le> code_of_char c \<and> code_of_char c \<le> 13"

definition isdigit :: "char \<Rightarrow> bool" where
  "isdigit c \<longleftrightarrow> 48 \<le> code_of_char c \<and> code_of_char c \<le> 57"

definition isalpha :: "char \<Rightarrow> bool" where
  "isalpha c \<longleftrightarrow> 65 \<le> code_of_char c \<and> code_of_char c \<le> 90 \<or> 97 \<le> code_of_char c \<and> code_of_char c \<le> 122"

definition isxdigit :: "char \<Rightarrow> bool" where
  "isxdigit c \<longleftrightarrow> isdigit c \<or> 65 \<le> code_of_char c \<and> code_of_char c \<le> 70
     \<or> 97 \<le> code_of_char c \<and> code_of_char c \<le> 102"

definition digit_value :: "char \<Rightarrow> nat" where
  "digit_value c = (if isdigit c then code_of_char c - 48
     else if code_of_char c \<le> 70 then code_of_char c - 55 else code_of_char c - 87)"

section \<open>Numbers in text\<close>

text \<open>
  The common part of \<open>strtol\<close> and \<open>strtoul\<close>: white space, a sign, for base 16 an optional
  \<open>0x\<close> that a digit follows, and then as many digits as there are. No digits is no number.
\<close>

definition is_base_digit :: "nat \<Rightarrow> char \<Rightarrow> bool" where
  "is_base_digit base c \<longleftrightarrow> (if base = 16 then isxdigit c else isdigit c)"

fun take_sign :: "string \<Rightarrow> bool \<times> string" where
  "take_sign (c # cs) = (if c = CHR ''-'' then (True, cs) else if c = CHR ''+'' then (False, cs)
     else (False, c # cs))"
| "take_sign [] = (False, [])"

fun drop_hex_prefix :: "string \<Rightarrow> string" where
  "drop_hex_prefix (a # b # c # cs) =
     (if a = CHR ''0'' \<and> (b = CHR ''x'' \<or> b = CHR ''X'') \<and> isxdigit c then c # cs
      else a # b # c # cs)"
| "drop_hex_prefix cs = cs"

definition number_of_digits :: "nat \<Rightarrow> string \<Rightarrow> nat" where
  "number_of_digits base = foldl (\<lambda>n c. n * base + digit_value c) 0"

definition strto :: "nat \<Rightarrow> string \<Rightarrow> (bool \<times> nat) option" where
  "strto base s =
     (let (negative, t) = take_sign (dropWhile isspace s);
          digits = takeWhile (is_base_digit base) (if base = 16 then drop_hex_prefix t else t)
      in if digits = [] then None else Some (negative, number_of_digits base digits))"

definition stoi_base :: "nat \<Rightarrow> string \<Rightarrow> u32 result" where
  "stoi_base base s =
     (case strto base s of
        None \<Rightarrow> Inl (Logic_error ''stoi: invalid_argument'')
      | Some (negative, n) \<Rightarrow>
          let i = (if negative then - int n else int n)
          in if - (2 ^ 31) \<le> i \<and> i < 2 ^ 31 then Inr (word_of_int i)
             else Inl (Logic_error ''stoi: out_of_range''))"

definition stoul_base :: "nat \<Rightarrow> string \<Rightarrow> u64 result" where
  "stoul_base base s =
     (case strto base s of
        None \<Rightarrow> Inl (Logic_error ''stoul: invalid_argument'')
      | Some (negative, n) \<Rightarrow>
          if n < 2 ^ 64 then Inr (if negative then - of_nat n else of_nat n)
          else Inl (Logic_error ''stoul: out_of_range''))"

abbreviation stoi :: "string \<Rightarrow> u32 result" where "stoi \<equiv> stoi_base 10"
abbreviation stoul :: "string \<Rightarrow> u64 result" where "stoul \<equiv> stoul_base 10"

definition substr_from :: "nat \<Rightarrow> string \<Rightarrow> string result" where
  "substr_from pos s = (if pos \<le> length s then Inr (drop pos s) else Inl (Logic_error ''substr''))"

fun find_char :: "char \<Rightarrow> string \<Rightarrow> nat option" where
  "find_char c [] = None"
| "find_char c (x # xs) = (if x = c then Some 0 else map_option Suc (find_char c xs))"

section \<open>Trimming and splitting\<close>

definition ltrim :: "string \<Rightarrow> string" where
  "ltrim s = dropWhile isspace s"

definition rtrim :: "string \<Rightarrow> string" where
  "rtrim s = rev (dropWhile isspace (rev s))"

definition trim :: "string \<Rightarrow> string" where
  "trim s = rtrim (ltrim s)"

definition startsWith :: "string \<Rightarrow> string \<Rightarrow> bool" where
  "startsWith s p \<longleftrightarrow> take (length p) s = p"

definition endsWith :: "string \<Rightarrow> string \<Rightarrow> bool" where
  "endsWith s suf \<longleftrightarrow> length suf \<le> length s \<and> drop (length s - length suf) s = suf"

text \<open>The loop of \<open>split\<close>: the pieces so far and the buffer of the current one.\<close>

fun split_loop :: "char \<Rightarrow> int \<Rightarrow> string \<Rightarrow> string list \<Rightarrow> string \<Rightarrow> string list \<times> string" where
  "split_loop separator maxSplitCount [] result buffer = (result, buffer)"
| "split_loop separator maxSplitCount (ch # cs) result buffer =
     (if ch \<noteq> separator then split_loop separator maxSplitCount cs result (buffer @ [ch])
      else if maxSplitCount < 0 \<or> int (length result) < maxSplitCount
        then split_loop separator maxSplitCount cs (result @ [buffer]) []
      else split_loop separator maxSplitCount cs result (buffer @ [ch]))"

definition split_max :: "int \<Rightarrow> string \<Rightarrow> char \<Rightarrow> string list" where
  "split_max maxSplitCount line separator =
     (if line = [] then [[]]
      else let (result, buffer) = split_loop separator maxSplitCount line [] []
           in if buffer \<noteq> [] then result @ [buffer] else result)"

abbreviation split :: "string \<Rightarrow> char \<Rightarrow> string list" where "split \<equiv> split_max (- 1)"

definition splitTwo :: "string \<Rightarrow> char \<Rightarrow> (string \<times> string) result" where
  "splitTwo line separator =
     (let splitLine = split line separator
      in if length splitLine < 2 then Inl (Logic_error ''Could not split line into two parts!'')
         else Inr (splitLine ! 0, splitLine ! 1))"

fun join_pieces :: "string \<Rightarrow> string list \<Rightarrow> string" where
  "join_pieces delimiter [] = []"
| "join_pieces delimiter [s] = s"
| "join_pieces delimiter (s # t # ss) = s @ delimiter @ join_pieces delimiter (t # ss)"

definition joinToString ::
  "'a list \<Rightarrow> string \<Rightarrow> string \<Rightarrow> string \<Rightarrow> ('a \<Rightarrow> string) \<Rightarrow> string" where
  "joinToString xs delimiter prefix suffix transform =
     prefix @ join_pieces delimiter (map transform xs) @ suffix"

section \<open>What split returns\<close>

lemma split_loop_pieces:
  "split_loop c m cs ps b = (qs, b') \<Longrightarrow>
     concat (map (\<lambda>p. p @ [c]) qs) @ b' = concat (map (\<lambda>p. p @ [c]) ps) @ b @ cs"
  by (induction c m cs ps b rule: split_loop.induct) (auto split: if_splits)

lemma split_loop_free:
  "split_loop c m cs ps b = (qs, b') \<Longrightarrow> m < 0 \<Longrightarrow> \<forall>p \<in> set ps. c \<notin> set p \<Longrightarrow> c \<notin> set b \<Longrightarrow>
     (\<forall>q \<in> set qs. c \<notin> set q) \<and> c \<notin> set b'"
  by (induction c m cs ps b rule: split_loop.induct) (auto split: if_splits)

lemma split_loop_limit:
  "split_loop c m cs ps b = (qs, b') \<Longrightarrow> 0 \<le> m \<Longrightarrow> int (length ps) \<le> m \<Longrightarrow> int (length qs) \<le> m"
  by (induction c m cs ps b rule: split_loop.induct) (auto split: if_splits)

lemma join_pieces_snoc:
  "join_pieces d (ps @ [q]) = concat (map (\<lambda>p. p @ d) ps) @ q"
proof (induction ps)
  case (Cons p ps)
  then show ?case by (cases ps) auto
qed simp

lemma split_max_joins:
  "line = join_pieces [c] (split_max m line c) \<or> line = join_pieces [c] (split_max m line c) @ [c]"
proof (cases "split_loop c m line [] []")
  case (Pair qs b)
  then have line: "line = concat (map (\<lambda>p. p @ [c]) qs) @ b" by (auto dest: split_loop_pieces)
  show ?thesis
  proof (cases "b = []")
    case True
    with line Pair show ?thesis
      by (cases qs rule: rev_cases) (auto simp: split_max_def join_pieces_snoc)
  next
    case False
    with line Pair show ?thesis by (auto simp: split_max_def join_pieces_snoc)
  qed
qed

lemma split_pieces_free: "p \<in> set (split line c) \<Longrightarrow> c \<notin> set p"
  by (cases "split_loop c (- 1) line [] []")
    (auto simp: split_max_def split: if_splits dest!: split_loop_free)

text \<open>A piece without the separator, and then a separator or the end.\<close>

lemma split_loop_piece:
  "c \<notin> set p \<Longrightarrow> split_loop c m (p @ cs) ps b = split_loop c m cs ps (b @ p)"
  by (induction p arbitrary: b) auto

lemma split_loop_rest:
  "\<not> (m < 0 \<or> int (length ps) < m) \<Longrightarrow> split_loop c m cs ps b = (ps, b @ cs)"
  by (induction cs arbitrary: b) auto

lemma split_loop_join:
  assumes "\<And>p. p \<in> set ps \<Longrightarrow> c \<notin> set p" and "ps \<noteq> []"
  shows "split_loop c (- 1) (join_pieces [c] ps) qs [] = (qs @ butlast ps, last ps)"
  using assms
proof (induction "[c]" ps arbitrary: qs rule: join_pieces.induct)
  case (2 s)
  then show ?case using split_loop_piece [of c s "- 1" "[]"] by simp
next
  case (3 s t ss)
  then show ?case by (simp add: split_loop_piece)
qed simp

lemma split_join:
  assumes "\<And>p. p \<in> set ps \<Longrightarrow> c \<notin> set p" and "ps \<noteq> []" and "last ps \<noteq> []"
  shows "split (join_pieces [c] ps) c = ps"
proof -
  have "join_pieces [c] ps \<noteq> []"
    using assms(2,3) by (cases ps rule: rev_cases) (auto simp: join_pieces_snoc)
  moreover have "split_loop c (- 1) (join_pieces [c] ps) [] [] = (butlast ps, last ps)"
    using split_loop_join [OF assms(1,2), where qs = "[]"] by simp
  ultimately show ?thesis
    using assms(2,3) by (simp add: split_max_def)
qed

section \<open>Reading printed numbers\<close>

lemma is_base_digit_10: "is_base_digit 10 = isdigit"
  by (simp add: fun_eq_iff is_base_digit_def)

lemma is_base_digit_16: "is_base_digit 16 = isxdigit"
  by (simp add: fun_eq_iff is_base_digit_def)

lemma digit_char: "n < 10 \<Longrightarrow> isdigit (char_of (48 + n))" "n < 10 \<Longrightarrow> digit_value (char_of (48 + n)) = n"
  by (auto simp: isdigit_def digit_value_def)

lemma digit_not_space: "isdigit c \<Longrightarrow> \<not> isspace c" "isxdigit c \<Longrightarrow> \<not> isspace c"
  by (auto simp: isdigit_def isxdigit_def isspace_def)

lemma number_of_digits_snoc:
  "number_of_digits base (ds @ [d]) = number_of_digits base ds * base + digit_value d"
  by (simp add: number_of_digits_def)

lemma show_nat_digits: "show_nat n \<noteq> []" "\<forall>c \<in> set (show_nat n). isdigit c" "number_of_digits 10 (show_nat n) = n"
proof (induction n rule: show_nat.induct)
  case (1 n)
  have step: "show_nat n = (if n < 10 then [char_of (48 + n)] else show_nat (n div 10) @ [char_of (48 + n mod 10)])"
    by (rule show_nat.simps)
  show "show_nat n \<noteq> []" unfolding step by simp
  show "\<forall>c \<in> set (show_nat n). isdigit c"
    unfolding step using 1(2) digit_char(1) by auto
  show "number_of_digits 10 (show_nat n) = n"
    unfolding step using 1(3) by (auto simp: number_of_digits_snoc digit_char)
      (simp add: number_of_digits_def digit_char)
qed

fun show_hex :: "nat \<Rightarrow> string" where
  "show_hex n = (if n < 16 then [char_of (if n < 10 then 48 + n else 87 + n)]
     else show_hex (n div 16) @ [char_of (if n mod 16 < 10 then 48 + n mod 16 else 87 + n mod 16)])"

declare show_hex.simps [simp del]

lemma xdigit_char:
  "n < 16 \<Longrightarrow> isxdigit (char_of (if n < 10 then 48 + n else 87 + n))"
  "n < 16 \<Longrightarrow> digit_value (char_of (if n < 10 then 48 + n else 87 + n)) = n"
  by (auto simp: isxdigit_def isdigit_def digit_value_def)

lemma show_hex_digits: "show_hex n \<noteq> []" "\<forall>c \<in> set (show_hex n). isxdigit c" "number_of_digits 16 (show_hex n) = n"
proof (induction n rule: show_hex.induct)
  case (1 n)
  have step: "show_hex n = (if n < 16 then [char_of (if n < 10 then 48 + n else 87 + n)]
     else show_hex (n div 16) @ [char_of (if n mod 16 < 10 then 48 + n mod 16 else 87 + n mod 16)])"
    by (rule show_hex.simps)
  have low: "n mod 16 < 16" by simp
  show "show_hex n \<noteq> []" unfolding step by simp
  show "\<forall>c \<in> set (show_hex n). isxdigit c"
  proof (cases "n < 16")
    case True
    then show ?thesis unfolding step using xdigit_char(1) [OF True] by simp
  next
    case False
    then show ?thesis unfolding step using 1(2) [OF False] xdigit_char(1) [OF low] by simp
  qed
  show "number_of_digits 16 (show_hex n) = n"
  proof (cases "n < 16")
    case True
    then show ?thesis unfolding step using xdigit_char(2) [OF True] by (simp add: number_of_digits_def)
  next
    case False
    then show ?thesis unfolding step using 1(3) [OF False] xdigit_char(2) [OF low]
      by (simp add: number_of_digits_snoc)
  qed
qed

lemma take_sign_digit: "isdigit c \<or> isxdigit c \<Longrightarrow> take_sign (c # cs) = (False, c # cs)"
  by (auto simp: isdigit_def isxdigit_def)

lemma takeWhile_all_then:
  "\<forall>c \<in> set ds. P c \<Longrightarrow> rest = [] \<or> \<not> P (hd rest) \<Longrightarrow> takeWhile P (ds @ rest) = ds"
  by (cases rest) (auto simp: takeWhile_append2)

text \<open>Digits, up to the first character that is none, give their number.\<close>

lemma strto_10_digits:
  assumes "\<forall>c \<in> set ds. isdigit c" and "ds \<noteq> []" and "rest = [] \<or> \<not> isdigit (hd rest)"
  shows "strto 10 (ds @ rest) = Some (False, number_of_digits 10 ds)"
proof -
  obtain d ds' where d: "ds = d # ds'" using assms(2) by (cases ds) auto
  with assms(1) have "isdigit d" by simp
  moreover from this have "\<not> isspace d" by (rule digit_not_space)
  ultimately have "take_sign (dropWhile isspace (ds @ rest)) = (False, ds @ rest)"
    using take_sign_digit d by simp
  moreover have "takeWhile isdigit (ds @ rest) = ds" using assms(1,3) by (rule takeWhile_all_then)
  ultimately show ?thesis using assms(2) by (simp add: strto_def is_base_digit_10)
qed

lemma drop_hex_prefix_digits:
  assumes "ds \<noteq> []" and "\<forall>c \<in> set ds. isxdigit c" and "length ds = 1 \<longrightarrow> rest = [] \<or> hd rest \<notin> {CHR ''x'', CHR ''X''}"
  shows "drop_hex_prefix (ds @ rest) = ds @ rest"
proof -
  have *: "b \<noteq> CHR ''x'' \<and> b \<noteq> CHR ''X''" if "isxdigit b" for b
    using that by (auto simp: isxdigit_def isdigit_def)
  show ?thesis
    using assms * by (cases ds; cases "tl ds"; cases rest; cases "tl rest"; cases "tl (tl ds)") auto
qed

lemma strto_16_digits:
  assumes "\<forall>c \<in> set ds. isxdigit c" and "ds \<noteq> []" and "rest = [] \<or> \<not> isxdigit (hd rest) \<and> hd rest \<notin> {CHR ''x'', CHR ''X''}"
  shows "strto 16 (ds @ rest) = Some (False, number_of_digits 16 ds)"
proof -
  obtain d ds' where d: "ds = d # ds'" using assms(2) by (cases ds) auto
  with assms(1) have "isxdigit d" by simp
  moreover from this have "\<not> isspace d" by (rule digit_not_space)
  ultimately have "take_sign (dropWhile isspace (ds @ rest)) = (False, ds @ rest)"
    using take_sign_digit d by simp
  moreover have "drop_hex_prefix (ds @ rest) = ds @ rest"
    using assms by (intro drop_hex_prefix_digits) auto
  moreover have "takeWhile isxdigit (ds @ rest) = ds" using assms by (intro takeWhile_all_then) auto
  ultimately show ?thesis using assms(2) by (simp add: strto_def is_base_digit_16)
qed

lemma stoi_show_nat: "n < 2 ^ 31 \<Longrightarrow> stoi (show_nat n) = Inr (of_nat n)"
  using strto_10_digits [of "show_nat n" "[]"] show_nat_digits [of n]
  by (simp add: stoi_base_def)

lemma stoul_show_nat: "n < 2 ^ 64 \<Longrightarrow> rest = [] \<or> \<not> isdigit (hd rest) \<Longrightarrow> stoul (show_nat n @ rest) = Inr (of_nat n)"
  using strto_10_digits [of "show_nat n" rest] show_nat_digits [of n]
  by (simp add: stoul_base_def)

lemma stoul_show_hex:
  "n < 2 ^ 64 \<Longrightarrow> rest = [] \<or> \<not> isxdigit (hd rest) \<and> hd rest \<notin> {CHR ''x'', CHR ''X''} \<Longrightarrow>
     stoul_base 16 (show_hex n @ rest) = Inr (of_nat n)"
  using strto_16_digits [of "show_hex n" rest] show_hex_digits [of n]
  by (simp add: stoul_base_def)

text \<open>Trimming leaves a string that neither begins nor ends with white space alone.\<close>

lemma trim_id: "s = [] \<or> \<not> isspace (hd s) \<and> \<not> isspace (last s) \<Longrightarrow> trim s = s"
proof -
  assume *: "s = [] \<or> \<not> isspace (hd s) \<and> \<not> isspace (last s)"
  have l: "ltrim s = s" using * by (cases s) (auto simp: ltrim_def)
  have "rtrim s = s" using * by (cases s rule: rev_cases) (auto simp: rtrim_def)
  with l show ?thesis by (simp add: trim_def)
qed

lemma trim_spaces: "\<forall>c \<in> set ws. isspace c \<Longrightarrow> trim (ws @ s) = trim s"
  by (simp add: trim_def ltrim_def)

lemma startsWith_append [simp]: "startsWith (p @ s) p"
  by (simp add: startsWith_def)

end
