(* ===== verification/AluVopc.thy ===== *)
theory AluVopc
  imports AluVop3 Strings
begin

text \<open>
  The vector comparisons (\<open>emulator/src/alu/alu_vopc.cpp\<close>). A comparison sets or clears the bit
  of its lane in SDST; the \<open>v_cmpx\<close> forms copy the bit to EXEC. \<open>run_vopc\<close> drops the state
  that it has computed, so the wavefront stays as it was.

  The operands are converted to the type of the comparison with \<open>static_cast\<close>, also for
  \<open>float\<close> and \<open>double\<close>: the number is rounded, its bits are not reinterpreted. A converted
  number is a natural number and never a NaN, so all types are integers here.
\<close>

unbundle bit_operations_syntax

section \<open>Text of the instruction\<close>

fun contains :: "string \<Rightarrow> string \<Rightarrow> bool" where
  "contains [] pat \<longleftrightarrow> pat = []"
| "contains (c # cs) pat \<longleftrightarrow> startsWith (c # cs) pat \<or> contains cs pat"

section \<open>Comparisons\<close>

datatype cmp_type = T_i16 | T_u16 | T_i32 | T_u32 | T_i64 | T_u64 | T_f32 | T_f64

fun get_as :: "cmp_type \<Rightarrow> u64 \<Rightarrow> int" where
  "get_as T_i16 v = sint (to_u16 v)"
| "get_as T_u16 v = uint (to_u16 v)"
| "get_as T_i32 v = sint (to_u32 v)"
| "get_as T_u32 v = uint (to_u32 v)"
| "get_as T_i64 v = sint v"
| "get_as T_u64 v = uint v"
| "get_as T_f32 v = int (round_bits 24 (unat v))"
| "get_as T_f64 v = int (round_bits 53 (unat v))"

definition run_F :: "WfStateVOPC \<Rightarrow> nat \<Rightarrow> WfStateVOPC" where
  "run_F state i = state\<lparr>VOPC_SDST := VOPC_SDST state AND NOT (push_bit i 1)\<rparr>"

definition run_TRU :: "WfStateVOPC \<Rightarrow> nat \<Rightarrow> WfStateVOPC" where
  "run_TRU state i = state\<lparr>VOPC_SDST := VOPC_SDST state OR push_bit i 1\<rparr>"

definition run_cmp :: "(int \<Rightarrow> int \<Rightarrow> bool) \<Rightarrow> cmp_type \<Rightarrow> WfStateVOPC \<Rightarrow> nat \<Rightarrow> WfStateVOPC" where
  "run_cmp rel ty state i =
     (if rel (get_as ty (VOPC_SRC0 state ! i)) (get_as ty (VOPC_SRC1 state ! i))
      then run_TRU state i else run_F state i)"

definition run_LT :: "cmp_type \<Rightarrow> WfStateVOPC \<Rightarrow> nat \<Rightarrow> WfStateVOPC" where
  "run_LT ty = run_cmp (\<lambda>x y. x < y) ty"

definition run_EQ :: "cmp_type \<Rightarrow> WfStateVOPC \<Rightarrow> nat \<Rightarrow> WfStateVOPC" where
  "run_EQ ty = run_cmp (\<lambda>x y. x = y) ty"

definition run_LE :: "cmp_type \<Rightarrow> WfStateVOPC \<Rightarrow> nat \<Rightarrow> WfStateVOPC" where
  "run_LE ty = run_cmp (\<lambda>x y. x \<le> y) ty"

definition run_GT :: "cmp_type \<Rightarrow> WfStateVOPC \<Rightarrow> nat \<Rightarrow> WfStateVOPC" where
  "run_GT ty = run_cmp (\<lambda>x y. x > y) ty"

definition run_LG :: "cmp_type \<Rightarrow> WfStateVOPC \<Rightarrow> nat \<Rightarrow> WfStateVOPC" where
  "run_LG ty = run_cmp (\<lambda>x y. x \<noteq> y) ty"

definition run_GE :: "cmp_type \<Rightarrow> WfStateVOPC \<Rightarrow> nat \<Rightarrow> WfStateVOPC" where
  "run_GE ty = run_cmp (\<lambda>x y. x \<ge> y) ty"

definition run_NGE :: "cmp_type \<Rightarrow> WfStateVOPC \<Rightarrow> nat \<Rightarrow> WfStateVOPC" where
  "run_NGE ty = run_cmp (\<lambda>x y. \<not> (x \<ge> y)) ty"

definition run_NLT :: "cmp_type \<Rightarrow> WfStateVOPC \<Rightarrow> nat \<Rightarrow> WfStateVOPC" where
  "run_NLT ty = run_cmp (\<lambda>x y. \<not> (x < y)) ty"

definition run_NEQ :: "cmp_type \<Rightarrow> WfStateVOPC \<Rightarrow> nat \<Rightarrow> WfStateVOPC" where
  "run_NEQ ty = run_cmp (\<lambda>x y. \<not> (x = y)) ty"

definition run_NLE :: "cmp_type \<Rightarrow> WfStateVOPC \<Rightarrow> nat \<Rightarrow> WfStateVOPC" where
  "run_NLE ty = run_cmp (\<lambda>x y. \<not> (x \<le> y)) ty"

definition run_NGT :: "cmp_type \<Rightarrow> WfStateVOPC \<Rightarrow> nat \<Rightarrow> WfStateVOPC" where
  "run_NGT ty = run_cmp (\<lambda>x y. \<not> (x > y)) ty"

definition run_NLG :: "cmp_type \<Rightarrow> WfStateVOPC \<Rightarrow> nat \<Rightarrow> WfStateVOPC" where
  "run_NLG ty = run_cmp (\<lambda>x y. \<not> (x \<noteq> y)) ty"

text \<open>
  "Ordered" and "unordered" test one operand twice, and "unordered" asks for a number where it
  means a NaN; with operands that are never NaN both always hold.
\<close>

definition converted_is_nan :: "int \<Rightarrow> bool" where
  "converted_is_nan x = False"

definition run_O :: "cmp_type \<Rightarrow> WfStateVOPC \<Rightarrow> nat \<Rightarrow> WfStateVOPC" where
  "run_O ty = run_cmp (\<lambda>x y. \<not> converted_is_nan x \<and> \<not> converted_is_nan x) ty"

definition run_U :: "cmp_type \<Rightarrow> WfStateVOPC \<Rightarrow> nat \<Rightarrow> WfStateVOPC" where
  "run_U ty = run_cmp (\<lambda>x y. \<not> converted_is_nan x \<or> \<not> converted_is_nan x) ty"

section \<open>Dispatch\<close>

definition vopc_switch :: "(InstrKey \<times> (WfStateVOPC \<Rightarrow> nat \<Rightarrow> WfStateVOPC)) list" where
  "vopc_switch =
    [(V_CMPX_LT_I16, run_LT T_i16),
     (V_CMP_LT_I16, run_LT T_i16),
     (V_CMPX_EQ_I16, run_EQ T_i16),
     (V_CMP_EQ_I16, run_EQ T_i16),
     (V_CMPX_LE_I16, run_LE T_i16),
     (V_CMP_LE_I16, run_LE T_i16),
     (V_CMPX_GT_I16, run_GT T_i16),
     (V_CMP_GT_I16, run_GT T_i16),
     (V_CMPX_LG_I16, run_LG T_i16),
     (V_CMP_LG_I16, run_LG T_i16),
     (V_CMPX_GE_I16, run_GE T_i16),
     (V_CMP_GE_I16, run_GE T_i16),
     (V_CMPX_LT_U16, run_LT T_u16),
     (V_CMP_LT_U16, run_LT T_u16),
     (V_CMPX_EQ_U16, run_EQ T_u16),
     (V_CMP_EQ_U16, run_EQ T_u16),
     (V_CMPX_LE_U16, run_LE T_u16),
     (V_CMP_LE_U16, run_LE T_u16),
     (V_CMPX_GT_U16, run_GT T_u16),
     (V_CMP_GT_U16, run_GT T_u16),
     (V_CMPX_LG_U16, run_LG T_u16),
     (V_CMP_LG_U16, run_LG T_u16),
     (V_CMPX_GE_U16, run_GE T_u16),
     (V_CMP_GE_U16, run_GE T_u16),
     (V_CMPX_LT_I32, run_LT T_i32),
     (V_CMP_LT_I32, run_LT T_i32),
     (V_CMPX_EQ_I32, run_EQ T_i32),
     (V_CMP_EQ_I32, run_EQ T_i32),
     (V_CMPX_LE_I32, run_LE T_i32),
     (V_CMP_LE_I32, run_LE T_i32),
     (V_CMPX_GT_I32, run_GT T_i32),
     (V_CMP_GT_I32, run_GT T_i32),
     (V_CMPX_LG_I32, run_LG T_i32),
     (V_CMP_LG_I32, run_LG T_i32),
     (V_CMPX_GE_I32, run_GE T_i32),
     (V_CMP_GE_I32, run_GE T_i32),
     (V_CMPX_LT_U32, run_LT T_u32),
     (V_CMP_LT_U32, run_LT T_u32),
     (V_CMPX_EQ_U32, run_EQ T_u32),
     (V_CMP_EQ_U32, run_EQ T_u32),
     (V_CMPX_LE_U32, run_LE T_u32),
     (V_CMP_LE_U32, run_LE T_u32),
     (V_CMPX_GT_U32, run_GT T_u32),
     (V_CMP_GT_U32, run_GT T_u32),
     (V_CMPX_LG_U32, run_LG T_u32),
     (V_CMP_LG_U32, run_LG T_u32),
     (V_CMPX_GE_U32, run_GE T_u32),
     (V_CMP_GE_U32, run_GE T_u32),
     (V_CMPX_LT_I64, run_LT T_i64),
     (V_CMP_LT_I64, run_LT T_i64),
     (V_CMPX_EQ_I64, run_EQ T_i64),
     (V_CMP_EQ_I64, run_EQ T_i64),
     (V_CMPX_LE_I64, run_LE T_i64),
     (V_CMP_LE_I64, run_LE T_i64),
     (V_CMPX_GT_I64, run_GT T_i64),
     (V_CMP_GT_I64, run_GT T_i64),
     (V_CMPX_LG_I64, run_LG T_i64),
     (V_CMP_LG_I64, run_LG T_i64),
     (V_CMPX_GE_I64, run_GE T_i64),
     (V_CMP_GE_I64, run_GE T_i64),
     (V_CMPX_LT_U64, run_LT T_u64),
     (V_CMP_LT_U64, run_LT T_u64),
     (V_CMPX_EQ_U64, run_EQ T_u64),
     (V_CMP_EQ_U64, run_EQ T_u64),
     (V_CMPX_LE_U64, run_LE T_u64),
     (V_CMP_LE_U64, run_LE T_u64),
     (V_CMPX_GT_U64, run_GT T_u64),
     (V_CMP_GT_U64, run_GT T_u64),
     (V_CMPX_LG_U64, run_LG T_u64),
     (V_CMP_LG_U64, run_LG T_u64),
     (V_CMPX_GE_U64, run_GE T_u64),
     (V_CMP_GE_U64, run_GE T_u64),
     (V_CMP_LT_F32, run_LT T_f32),
     (V_CMPX_LT_F32, run_LT T_f32),
     (V_CMP_EQ_F32, run_EQ T_f32),
     (V_CMPX_EQ_F32, run_EQ T_f32),
     (V_CMP_LE_F32, run_LE T_f32),
     (V_CMPX_LE_F32, run_LE T_f32),
     (V_CMP_GT_F32, run_GT T_f32),
     (V_CMPX_GT_F32, run_GT T_f32),
     (V_CMP_LG_F32, run_LG T_f32),
     (V_CMPX_LG_F32, run_LG T_f32),
     (V_CMP_GE_F32, run_GE T_f32),
     (V_CMPX_GE_F32, run_GE T_f32),
     (V_CMP_O_F32, run_O T_f32),
     (V_CMPX_O_F32, run_O T_f32),
     (V_CMP_U_F32, run_U T_f32),
     (V_CMPX_U_F32, run_U T_f32),
     (V_CMP_NGE_F32, run_NGE T_f32),
     (V_CMPX_NGE_F32, run_NGE T_f32),
     (V_CMP_NLG_F32, run_NLG T_f32),
     (V_CMPX_NLG_F32, run_NLG T_f32),
     (V_CMP_NGT_F32, run_NGT T_f32),
     (V_CMPX_NGT_F32, run_NGT T_f32),
     (V_CMP_NLE_F32, run_NLE T_f32),
     (V_CMPX_NLE_F32, run_NLE T_f32),
     (V_CMP_NEQ_F32, run_NEQ T_f32),
     (V_CMPX_NEQ_F32, run_NEQ T_f32),
     (V_CMP_NLT_F32, run_NLT T_f32),
     (V_CMPX_NLT_F32, run_NLT T_f32),
     (V_CMPS_LT_F64, run_LT T_f64),
     (V_CMPX_LT_F64, run_LT T_f64),
     (V_CMPS_EQ_F64, run_EQ T_f64),
     (V_CMPX_EQ_F64, run_EQ T_f64),
     (V_CMPS_LE_F64, run_LE T_f64),
     (V_CMPX_LE_F64, run_LE T_f64),
     (V_CMPS_GT_F64, run_GT T_f64),
     (V_CMPX_GT_F64, run_GT T_f64),
     (V_CMPS_LG_F64, run_LG T_f64),
     (V_CMPX_LG_F64, run_LG T_f64),
     (V_CMPS_GE_F64, run_GE T_f64),
     (V_CMPX_GE_F64, run_GE T_f64),
     (V_CMPS_O_F64, run_O T_f64),
     (V_CMPX_O_F64, run_O T_f64),
     (V_CMPS_U_F64, run_U T_f64),
     (V_CMPX_U_F64, run_U T_f64),
     (V_CMPS_NGE_F64, run_NGE T_f64),
     (V_CMPX_NGE_F64, run_NGE T_f64),
     (V_CMPS_NLG_F64, run_NLG T_f64),
     (V_CMPX_NLG_F64, run_NLG T_f64),
     (V_CMPS_NGT_F64, run_NGT T_f64),
     (V_CMPX_NGT_F64, run_NGT T_f64),
     (V_CMPS_NLE_F64, run_NLE T_f64),
     (V_CMPX_NLE_F64, run_NLE T_f64),
     (V_CMPS_NEQ_F64, run_NEQ T_f64),
     (V_CMPX_NEQ_F64, run_NEQ T_f64),
     (V_CMPS_NLT_F64, run_NLT T_f64),
     (V_CMPX_NLT_F64, run_NLT T_f64)]"

definition vopc_compare :: "Instruction \<Rightarrow> WfStateVOPC \<Rightarrow> nat \<Rightarrow> WfStateVOPC result" where
  "vopc_compare instr state i =
     (let raw = in_rawInstruction instr
      in case map_of vopc_switch (in_key instr) of
           Some f \<Rightarrow> Inr (f state i)
         | None \<Rightarrow>
             if contains raw ''_f_'' then Inr (run_F state i)
             else if contains raw ''_tru_'' \<or> contains raw ''_t_'' then Inr (run_TRU state i)
             else unsupported_instruction ''VOPC'' (in_key instr))"

text \<open>The bit for EXEC is an \<open>int\<close>: a shift by 32 or more is undefined.\<close>

definition vopc_exec :: "Instruction \<Rightarrow> WfStateVOPC \<Rightarrow> nat \<Rightarrow> WfStateVOPC result" where
  "vopc_exec instr state i =
     (if startsWith (in_rawInstruction instr) ''v_cmpx'' then
        bindE (shift_ok i (1 :: u32)) (\<lambda>_.
        let m = sx64 (push_bit i 1 :: u32)
        in Inr (state\<lparr>VOPC_EXEC := (if get_bit i (VOPC_SDST state) then VOPC_EXEC state OR m
                                    else VOPC_EXEC state AND NOT m)\<rparr>))
      else Inr state)"

definition run_vopc :: "Instruction \<Rightarrow> Wavefront \<Rightarrow> Wavefront result" where
  "run_vopc instr wave =
     bindE (get_vopc_state instr wave) (\<lambda>state.
     bindE (foldE (\<lambda>i st.
         if \<not> work_item_masked wave i then Inr st
         else bindE (vopc_compare instr st i) (\<lambda>st. vopc_exec instr st i))
       [0..<wf_size wave] state) (\<lambda>_.
     Inr wave))"

end
