(* ===== verification/AluVopProps.thy ===== *)
theory AluVopProps
  imports AluVop3 AluVopc
begin

text \<open>
  What the vector instructions compute lane by lane. The loop over the lanes of the three formats
  is the locale \<open>lane_loop\<close>: a step on lane \<open>i\<close> decides what is observed of lane \<open>i\<close> and
  leaves the other lanes alone. It is interpreted for the rows of the three tables (lanes that
  EXEC masks keep their destination) and for single instructions (what an active lane gets).
\<close>

unbundle bit_operations_syntax

section \<open>The loop over the lanes\<close>

definition masked_step :: "Wavefront \<Rightarrow> (nat \<Rightarrow> 's \<Rightarrow> 's result) \<Rightarrow> nat \<Rightarrow> 's \<Rightarrow> 's result" where
  "masked_step wave f i st = (if \<not> work_item_masked wave i then Inr st else f i st)"

locale lane_loop =
  fixes ok :: "'s \<Rightarrow> bool"
    and step :: "nat \<Rightarrow> 's \<Rightarrow> 's result"
    and obs :: "nat \<Rightarrow> 's \<Rightarrow> 'o"
    and eff :: "nat \<Rightarrow> 's \<Rightarrow> 'o \<Rightarrow> bool"
  assumes step_ok: "ok s \<Longrightarrow> step i s = Inr t \<Longrightarrow> ok t"
    and step_eff: "ok s \<Longrightarrow> step i s = Inr t \<Longrightarrow> eff i s (obs i t)"
    and step_other: "ok s \<Longrightarrow> step i s = Inr t \<Longrightarrow> j \<noteq> i \<Longrightarrow> obs j t = obs j s \<and> eff j t = eff j s"
begin

lemma loop_ok:
  assumes "foldE (masked_step wave step) xs s = Inr t" and "ok s"
  shows "ok t"
  using assms(1,2) by (rule foldE_invariant) (auto simp: masked_step_def step_ok split: if_splits)

lemma loop_skip:
  assumes "foldE (masked_step wave step) xs s = Inr t" and "ok s"
    and "j \<notin> set xs \<or> \<not> work_item_masked wave j"
  shows "obs j t = obs j s \<and> eff j t = eff j s"
proof -
  have "ok t \<and> obs j t = obs j s \<and> eff j t = eff j s"
    using assms(1)
  proof (rule foldE_invariant)
    fix i u v
    assume "i \<in> set xs" and u: "ok u \<and> obs j u = obs j s \<and> eff j u = eff j s"
      and step: "masked_step wave step i u = Inr v"
    show "ok v \<and> obs j v = obs j s \<and> eff j v = eff j s"
    proof (cases "work_item_masked wave i")
      case True
      with step have "step i u = Inr v" by (simp add: masked_step_def)
      moreover from True assms(3) \<open>i \<in> set xs\<close> have "j \<noteq> i" by auto
      ultimately show ?thesis using u step_ok step_other by metis
    next
      case False
      with step u show ?thesis by (simp add: masked_step_def)
    qed
  qed (use assms(2) in simp)
  then show ?thesis by simp
qed

lemma loop_active:
  assumes "foldE (masked_step wave step) xs s = Inr t" and "ok s" and "distinct xs"
    and "j \<in> set xs" and "work_item_masked wave j"
  shows "eff j s (obs j t)"
proof -
  from assms(4) obtain as bs where xs: "xs = as @ j # bs"
    by (meson split_list)
  with assms(3) have fresh: "j \<notin> set as" "j \<notin> set bs" by auto
  from assms(1,5) xs obtain u v where uv: "foldE (masked_step wave step) as s = Inr u"
      "step j u = Inr v" "foldE (masked_step wave step) bs v = Inr t"
    by (auto simp: foldE_append result_simps masked_step_def)
  have "ok u" by (rule loop_ok [OF uv(1) assms(2)])
  with uv(2) have "ok v" by (rule step_ok [rotated])
  have "obs j t = obs j v" using loop_skip [OF uv(3) \<open>ok v\<close>] fresh by blast
  moreover have "eff j u = eff j s" using loop_skip [OF uv(1) assms(2)] fresh by blast
  ultimately show ?thesis using step_eff [OF \<open>ok u\<close> uv(2)] by simp
qed

end

definition vop_step ::
  "(InstrKey \<times> ('s \<Rightarrow> nat \<Rightarrow> 's result)) list \<Rightarrow> string \<Rightarrow> InstrKey \<Rightarrow> nat \<Rightarrow> 's \<Rightarrow> 's result" where
  "vop_step table name key i st =
     (case map_of table key of None \<Rightarrow> unsupported_instruction name key | Some f \<Rightarrow> f st i)"

lemma vop_step_row: "map_of table key = Some f \<Longrightarrow> vop_step table name key = (\<lambda>i st. f st i)"
  by (simp add: vop_step_def fun_eq_iff)

lemma run_vop1_eq:
  "run_vop1 instr wave =
     bindE (get_vop1_state instr wave) (\<lambda>state.
     bindE (foldE (masked_step wave (vop_step vop1_switch ''VOP1'' (in_key instr))) [0..<wf_size wave] state)
       (\<lambda>state. update_with_vop1_state instr state wave))"
  by (simp add: run_vop1_def masked_step_def [abs_def] vop_step_def [abs_def])

lemma run_vop2_eq:
  "run_vop2 instr wave =
     bindE (get_vop2_state instr wave) (\<lambda>state.
     bindE (foldE (masked_step wave (vop_step vop2_switch ''VOP2'' (in_key instr))) [0..<wf_size wave] state)
       (\<lambda>state. update_with_vop2_state instr state wave))"
  by (simp add: run_vop2_def masked_step_def [abs_def] vop_step_def [abs_def])

lemma run_vop3_eq:
  "run_vop3 instr wave =
     bindE (get_vop3_state instr wave) (\<lambda>state.
     bindE (foldE (masked_step wave (vop_step vop3_switch ''VOP3'' (in_key instr))) [0..<wf_size wave] state)
       (\<lambda>state. update_with_vop3_state instr state wave))"
  by (simp add: run_vop3_def masked_step_def [abs_def] vop_step_def [abs_def])

section \<open>Frames\<close>

lemma run_vop1_frame: "run_vop1 i w = Inr w' \<Longrightarrow> wf_frame w w'"
  by (auto simp: run_vop1_def update_with_vop1_state_def result_simps intro: write_lanes_frame)

lemma run_vop2_frame: "run_vop2 i w = Inr w' \<Longrightarrow> wf_frame w w'"
  by (auto simp: run_vop2_def update_with_vop2_state_def result_simps wf_frame_def
      dest!: write_lanes_frame)

lemma run_vop3_frame: "run_vop3 i w = Inr w' \<Longrightarrow> wf_frame w w'"
  by (auto simp: run_vop3_def update_with_vop3_state_def result_simps intro: write_lanes_frame)

lemma run_vopc_returns_wave: "run_vopc i w = Inr w' \<Longrightarrow> w' = w"
  by (auto simp: run_vopc_def result_simps)


section \<open>Lanes that EXEC masks\<close>

text \<open>Every row of the three tables writes the destination of its own lane only.\<close>

named_theorems lane_rows "the rows of the vector tables"

lemma vop1_rows:
  assumes "(k, f) \<in> set vop1_switch" and "f st i = Inr st'"
  shows "length (VOP1_VDST st') = length (VOP1_VDST st) \<and> (j \<noteq> i \<longrightarrow> VOP1_VDST st' ! j = VOP1_VDST st ! j)"
  using assms unfolding vop1_switch_def set_simps
  by (elim insertE emptyE)
    (auto simp: vop1_put_def run_v_not_b32_def run_v_sat_pk_u8_i16_def Let_def
      run_v_screen_partition_4se_b32_def run_v_swap_b32_def run_v_bfrev_b32_def run_v_ffbh_u32_def
      run_v_ffbh_i32_def run_v_ffbl_b32_def run_v_mov_b32_def split: option.splits)

lemmas vop2_defs =
    run_v_addc_u32_def run_v_add_u32_def run_v_sub_u32_def run_v_and_b32_def
    run_v_ashrrev_i32_def run_v_bcnt_u32_b32_def run_v_bfm_b32_def run_v_cndmask_b32_def
    run_v_cvt_pk_i16_i32_def run_v_cvt_pk_u16_u32_def run_v_lshlrev_b16_def
    run_v_lshlrev_b32_def run_v_lshrrev_b16_def run_v_lshrrev_b32_def run_v_max_i16_def
    run_v_max_i32_def run_v_max_u16_def run_v_max_u32_def run_v_min_i16_def run_v_min_i32_def
    run_v_min_u16_def run_v_min_u32_def run_v_mul_hi_i32_i24_def run_v_mul_hi_u32_u24_def
    run_v_mul_i32_i24_def run_v_mul_lo_u16_def run_v_mul_u32_u24_def run_v_or_b32_def
    run_v_sub_u16_def run_v_subrev_u16_def run_v_subrev_u32_def run_v_xor_b32_def
    run_v_sub_f32_def run_v_mul_f32_def run_v_mac_f32_def run_v_add_f32_def run_v_max_f32_def
    run_v_min_f32_def run_v_subrev_f32_def run_v_lshr_b32_def run_v_ashr_i32_def Let_def
    result_simps

lemma vop2_rows:
  assumes "(k, f) \<in> set vop2_switch" and "f st i = Inr st'"
  shows "length (VOP2_VDST st') = length (VOP2_VDST st) \<and> (j \<noteq> i \<longrightarrow> VOP2_VDST st' ! j = VOP2_VDST st ! j)"
  using assms unfolding vop2_switch_def set_simps
  by (elim insertE emptyE; clarsimp simp: vop2_defs vop2_put_def)

lemmas vop3_defs =
    run_v_add_i16_def run_v_add_i32_def run_v_add3_u32_def run_v_add_lshl_u32_def
    run_v_alignbit_b32_def run_v_alignbyte_b32_def run_v_and_or_b32_def run_v_ashr_i64_def
    run_v_ashrrev_i64_def run_v_bcnt_u32_b32_vop3_def run_v_bfe_i32_def run_v_bfe_u32_def
    run_v_bfi_b32_def run_v_bfm_b32_vop3_def run_v_cvt_pk_i16_i32_vop3_def
    run_v_cvt_pk_u16_u32_vop3_def run_v_lerp_u8_def run_v_lshl_add_u32_def run_v_lshl_b64_def
    run_v_lshl_or_b32_def run_v_lshlrev_b64_def run_v_lshr_b64_def run_v_lshrrev_b64_def
    run_v_mad_i16_def run_v_mad_i32_i16_def run_v_mad_i32_i24_def run_v_mad_legacy_i16_def
    run_v_mad_legacy_u16_def run_v_mad_u16_def run_v_mad_u32_u16_def run_v_mad_u32_u24_def
    run_v_max3_i16_def run_v_max3_i32_def run_v_max3_u16_def run_v_max3_u32_def
    run_v_mbcnt_hi_u32_b32_def run_v_mbcnt_lo_u32_b32_def run_v_med3_i16_def run_v_med3_i32_def
    run_v_med3_u16_def run_v_med3_u32_def run_v_min3_i16_def run_v_min3_i32_def
    run_v_min3_u16_def run_v_min3_u32_def run_v_msad_u8_def run_v_mul_hi_i32_def
    run_v_mul_hi_u32_def run_v_mul_lo_i32_def run_v_or3_b32_def run_v_pack_b32_f16_def
    run_v_perm_b32_def run_v_sad_hi_u8_def run_v_sad_u16_def run_v_sad_u32_def run_v_sad_u8_def
    run_v_sub_i16_def run_v_sub_i32_def run_v_xad_u32_def run_v_mul_lo_u32_def
    run_v_addc_co_u32_def Let_def result_simps

lemma vop3_rows:
  assumes "(k, f) \<in> set vop3_switch" and "f st i = Inr st'"
  shows "length (VOP3_VDST st') = length (VOP3_VDST st) \<and> (j \<noteq> i \<longrightarrow> VOP3_VDST st' ! j = VOP3_VDST st ! j)"
  using assms unfolding vop3_switch_def set_simps
  by (elim insertE emptyE; clarsimp simp: vop3_defs vop3_put_def vop3_src2_def abs_int_def;
      (auto simp: vop3_put_def Let_def result_simps split: if_splits)?)


lemma vop_stepE:
  assumes "vop_step table name key i s = Inr t"
  obtains f where "(key, f) \<in> set table" "f s i = Inr t"
  using assms by (auto simp: vop_step_def unsupported_instruction_def result_simps
      dest: map_of_SomeD split: option.splits)

interpretation vop1: lane_loop "\<lambda>_. True" "vop_step vop1_switch name key" "\<lambda>j st. VOP1_VDST st ! j"
    "\<lambda>_ _ _. True" for name key
  by unfold_locales (auto elim!: vop_stepE dest: vop1_rows)

interpretation vop2: lane_loop "\<lambda>_. True" "vop_step vop2_switch name key" "\<lambda>j st. VOP2_VDST st ! j"
    "\<lambda>_ _ _. True" for name key
  by unfold_locales (auto elim!: vop_stepE dest: vop2_rows)

interpretation vop3: lane_loop "\<lambda>_. True" "vop_step vop3_switch name key" "\<lambda>j st. VOP3_VDST st ! j"
    "\<lambda>_ _ _. True" for name key
  by unfold_locales (auto elim!: vop_stepE dest: vop3_rows)

lemma rd_lane_trunc:
  assumes "lane_operand op w" and "rd_lane op j w = Inr v" and "op_regAmount op = 1 \<or> op_regAmount op = 2"
  shows "trunc_to op v = v"
proof -
  from assms(1,2) obtain data where data: "read_operand op (int j) w = Inr data"
      "length data = op_regAmount op" "to_uin64_t data = Inr v"
    by (auto simp: rd_lane_def result_simps read_vector get_block_def elim!: lane_operandE split: if_splits)
  with assms(3) show ?thesis
    by (auto simp: trunc_to_def length_Suc_conv numeral_2_eq_2)
qed

lemma read_lanes_nth:
  assumes "read_lanes instr ks w = Inr rows" and "j < wf_size w" and "m < length ks"
  shows "length rows = wf_size w"
    and "read_arg64 instr (ks ! m) (int j) w = Inr (column m rows ! j)"
proof -
  from assms(1) have len: "length rows = wf_size w"
    by (auto simp: read_lanes_def dest: mapE_Inr_length)
  then show "length rows = wf_size w" .
  from assms(1,2) have "mapE (\<lambda>k. read_arg64 instr k (int j) w) ks = Inr (rows ! j)"
    by (auto simp: read_lanes_def dest: mapE_Inr_nth [where i = j])
  with assms(2,3) len show "read_arg64 instr (ks ! m) (int j) w = Inr (column m rows ! j)"
    by (auto simp: column_def dest: mapE_Inr_nth)
qed

lemma read_arg64_lane:
  "operand instr k = Inr op \<Longrightarrow> read_arg64 instr k (int j) w = rd_lane op j w"
  by (simp add: read_arg64_def rd_lane_def)

lemma lane_write_amount:
  assumes "write_data64_to_gpr op v (int i) w = Inr u" and "lane_operand op w"
  shows "op_regAmount op = 1 \<or> op_regAmount op = 2"
  using assms(2)
  by (rule lane_operandE) (use assms in \<open>auto simp: write_data64_iff write_vector_iff split: if_splits\<close>)

lemma write_lanes_amount:
  assumes "write_lanes instr k vals w = Inr w'" and "operand instr k = Inr op" and "lane_operand op w"
    and "j < wf_size w"
  shows "op_regAmount op = 1 \<or> op_regAmount op = 2"
proof -
  obtain n where n: "wf_size w = Suc n" using assms(4) by (cases "wf_size w") auto
  then have "[0..<wf_size w] = 0 # [1..<wf_size w]" by (simp add: upt_conv_Cons)
  with assms(1,2) obtain u where u: "write_data64_to_gpr op (vals ! 0) (int 0) w = Inr u"
    by (auto simp: write_lanes_def result_simps)
  then show ?thesis using assms(3) by (rule lane_write_amount)
qed

lemma written_back:
  assumes "read_lanes instr ks w = Inr rows" and "ks \<noteq> []" and "hd ks = 0"
    and "operand instr 0 = Inr op" and "lane_operand op w"
    and "write_lanes instr 0 vals w = Inr w'"
    and "j < wf_size w \<Longrightarrow> vals ! j = column 0 rows ! j"
  shows "rd_lane op j w' = rd_lane op j w"
proof (cases "j < wf_size w")
  case True
  have "rd_lane op j w = Inr (column 0 rows ! j)"
    using read_lanes_nth(2) [OF assms(1) True, of 0] assms(2,3,4)
    by (simp add: hd_conv_nth read_arg64_lane)
  with True rd_lane_trunc [OF assms(5) this] write_lanes_amount [OF assms(6,4,5) True]
  show ?thesis using write_lanes_read [OF assms(6,4,5), of j] assms(7) by simp
next
  case False
  then show ?thesis using write_lanes_read [OF assms(6,4,5), of j] by simp
qed


lemma rd_lane_vcc:
  assumes "lane_operand op w"
  shows "rd_lane op j (w\<lparr>vccReg := v\<rparr>) = rd_lane op j w"
  using assms by (rule lane_operandE) (simp add: rd_lane_def read_vector v_index_def)

lemma get_vop2_rows:
  assumes "get_vop2_state instr w = Inr s"
  obtains ks rows where "ks = [0, 1, 2] \<or> ks = [0, 2, 3]" "read_lanes instr ks w = Inr rows"
    "s = \<lparr>VOP2_VDST = column 0 rows, VOP2_SRC0 = column 1 rows, VOP2_SRC1 = column 2 rows,
      VOP2_VCC = vccReg w, VOP2_CLAMP = mode_dx10_clamp (modeReg w)\<rparr>"
  using assms by (auto simp: get_vop2_state_def result_simps split: if_splits)

lemma get_vop3_rows:
  assumes "get_vop3_state instr w = Inr s"
  obtains ks rows where "ks = [0, 1, 2, 3] \<or> ks = [0, 1, 2]" "read_lanes instr ks w = Inr rows"
    "VOP3_VDST s = column 0 rows" "VOP3_SRC0 s = column 1 rows" "VOP3_SRC1 s = column 2 rows"
proof -
  let ?ks = "if get_operands_count instr = 4 then [0, 1, 2, 3] else [0, 1, 2]"
  from assms obtain rows where "read_lanes instr ?ks w = Inr rows"
      "VOP3_VDST s = column 0 rows" "VOP3_SRC0 s = column 1 rows" "VOP3_SRC1 s = column 2 rows"
    by (auto simp: get_vop3_state_def result_simps)
  then show thesis by (intro that [of ?ks]) auto
qed

text \<open>
  C6: A vector instruction of the formats VOP1, VOP2 and VOP3 leaves the destination of a lane
  whose EXEC bit is clear as it was.
\<close>

theorem vop_masked_lane:
  assumes "run \<in> {run_vop1, run_vop2, run_vop3}" and "run instr w = Inr w'"
    and "operand instr 0 = Inr op" and "lane_operand op w" and "\<not> work_item_masked w j"
  shows "rd_lane op j w' = rd_lane op j w"
proof -
  consider "run_vop1 instr w = Inr w'" | "run_vop2 instr w = Inr w'" | "run_vop3 instr w = Inr w'"
    using assms(1,2) by auto
  then show ?thesis
  proof cases
    case 1
    then obtain rows st where "read_lanes instr [0, 1] w = Inr rows"
        and loop: "foldE (masked_step w (vop_step vop1_switch ''VOP1'' (in_key instr))) [0..<wf_size w]
            \<lparr>VOP1_VDST = column 0 rows, VOP1_SRC0 = column 1 rows\<rparr> = Inr st"
        and "write_lanes instr 0 (VOP1_VDST st) w = Inr w'"
      by (auto simp: run_vop1_eq get_vop1_state_def update_with_vop1_state_def result_simps)
    then show ?thesis
      using assms(3-5) vop1.loop_skip [OF loop, of j] by (intro written_back [where vals = "VOP1_VDST st"]) auto
  next
    case 2
    then obtain s st u where s: "get_vop2_state instr w = Inr s"
        and loop: "foldE (masked_step w (vop_step vop2_switch ''VOP2'' (in_key instr))) [0..<wf_size w] s
          = Inr st"
        and wb: "write_lanes instr 0 (VOP2_VDST st) w = Inr u" and w': "w' = u\<lparr>vccReg := VOP2_VCC st\<rparr>"
      by (auto simp: run_vop2_eq update_with_vop2_state_def result_simps)
    from s obtain ks rows where "read_lanes instr ks w = Inr rows" "ks \<noteq> []" "hd ks = 0"
        "VOP2_VDST s = column 0 rows"
      by (auto elim!: get_vop2_rows)
    with wb have "rd_lane op j u = rd_lane op j w"
      using assms(3-5) vop2.loop_skip [OF loop, of j] by (intro written_back [where vals = "VOP2_VDST st"]) auto
    moreover have "lane_operand op u"
      using wb assms(4)
      by (simp add: lane_operand_frame [OF write_lanes_frame])
    ultimately show ?thesis unfolding w' by (simp add: rd_lane_vcc)
  next
    case 3
    then obtain s st where s: "get_vop3_state instr w = Inr s"
        and loop: "foldE (masked_step w (vop_step vop3_switch ''VOP3'' (in_key instr))) [0..<wf_size w] s
          = Inr st"
        and wb: "write_lanes instr 0 (VOP3_VDST st) w = Inr w'"
      by (auto simp: run_vop3_eq update_with_vop3_state_def result_simps)
    from s obtain ks rows where "read_lanes instr ks w = Inr rows" "ks \<noteq> []" "hd ks = 0"
        "VOP3_VDST s = column 0 rows"
      by (auto elim!: get_vop3_rows)
    with wb show ?thesis
      using assms(3-5) vop3.loop_skip [OF loop, of j] by (intro written_back [where vals = "VOP3_VDST st"]) auto
  qed
qed


section \<open>Active lanes\<close>

text \<open>What the destination of an active lane reads, for an instruction of the first table.\<close>

lemma written_lane:
  assumes "write_lanes instr 0 vals w = Inr w'" and "operand instr 0 = Inr op" and "lane_operand op w"
    and "j < wf_size w"
  shows "rd_lane op j w' = Inr (trunc_to op (vals ! j))"
  using write_lanes_read [OF assms(1-3), of j] assms(4) by simp

definition lane_in1 :: "nat \<Rightarrow> WfStateVOP1 \<Rightarrow> u64 \<times> u64" where
  "lane_in1 j st = (VOP1_VDST st ! j, VOP1_SRC0 st ! j)"

interpretation mov: lane_loop "\<lambda>st. length (VOP1_VDST st) = n" "\<lambda>i st. run_v_mov_b32 st i"
    "\<lambda>j st. VOP1_VDST st ! j" "\<lambda>j st v. j < n \<longrightarrow> v = VOP1_SRC0 st ! j" for n
  by unfold_locales (auto simp: run_v_mov_b32_def vop1_put_def)

text \<open>
  v_mov_b32 gives every active lane the value its source operand had before the instruction.
\<close>

theorem v_mov_active_lane:
  assumes "run_vop1 instr w = Inr w'" and "in_key instr = V_MOV_B32"
    and "operand instr 0 = Inr op" and "lane_operand op w"
    and "j < wf_size w" and "work_item_masked w j"
  shows "\<exists>v. read_arg64 instr 1 (int j) w = Inr v \<and> rd_lane op j w' = Inr (trunc_to op v)"
proof -
  have row: "map_of vop1_switch (in_key instr) = Some run_v_mov_b32"
    by (simp add: assms(2) vop1_switch_def)
  from assms(1) obtain rows st where rows: "read_lanes instr [0, 1] w = Inr rows"
      and loop: "foldE (masked_step w (\<lambda>i st. run_v_mov_b32 st i)) [0..<wf_size w]
          \<lparr>VOP1_VDST = column 0 rows, VOP1_SRC0 = column 1 rows\<rparr> = Inr st"
      and wb: "write_lanes instr 0 (VOP1_VDST st) w = Inr w'"
    by (auto simp: run_vop1_eq get_vop1_state_def update_with_vop1_state_def result_simps
        vop_step_row [OF row])
  have "length (column 0 rows) = wf_size w"
    using read_lanes_nth(1) [OF rows assms(5), of 0] by (simp add: column_def)
  then have "VOP1_VDST st ! j = column 1 rows ! j"
    using mov.loop_active [OF loop, of "wf_size w" j] assms(5,6) by simp
  with read_lanes_nth(2) [OF rows assms(5), of 1] written_lane [OF wb assms(3-5)]
  show ?thesis by simp
qed

text \<open>
  \<open>v_addc_u32\<close>: the lane's bit of VCC is the carry in and becomes the carry out, so that the
  33-bit sum is exact.
\<close>

lemma add_carry_words:
  fixes x y :: u64
  assumes "unat x < 2 ^ 32" and "unat y < 2 ^ 32"
    and "t = x + y + of_bool c"
  shows "unat (t AND 0xffffffff) < 2 ^ 32 \<and>
    unat (t AND 0xffffffff) + 2 ^ 32 * of_bool (t \<ge> 0x100000000) = unat x + unat y + of_bool c"
proof -
  have t: "unat t = unat x + unat y + of_bool c"
    using assms by (cases c) (simp_all add: unat_word_ariths)
  have "t AND 0xffffffff = take_bit 32 t"
    by (simp add: take_bit_eq_mask mask_eq_exp_minus_1)
  then have low: "unat (t AND 0xffffffff) = (unat x + unat y + of_bool c) mod 2 ^ 32"
    by (simp add: take_bit_eq_mod unat_mod t)
  let ?n = "unat x + unat y + of_bool c"
  have "?n < 2 * 2 ^ 32" using assms(1,2) by (cases c) simp_all
  then have "?n mod 2 ^ 32 + 2 ^ 32 * of_bool (?n \<ge> 2 ^ 32) = ?n"
    using le_mod_geq [of "2 ^ 32" ?n] by (cases "?n < 2 ^ 32") simp_all
  moreover have "t \<ge> 0x100000000 \<longleftrightarrow> ?n \<ge> 2 ^ 32"
    by (simp add: word_le_nat_alt t)
  ultimately show ?thesis
    unfolding low by simp
qed

interpretation addc: lane_loop "\<lambda>st. length (VOP2_VDST st) = n" "\<lambda>i st. run_v_addc_u32 st i"
    "\<lambda>j st. (VOP2_VDST st ! j, bit (VOP2_VCC st) j)"
    "\<lambda>j st (d, c). j < n \<longrightarrow> j < 64 \<longrightarrow>
       unat (VOP2_SRC0 st ! j) < 2 ^ 32 \<longrightarrow> unat (VOP2_SRC1 st ! j) < 2 ^ 32 \<longrightarrow>
       unat d < 2 ^ 32 \<and> unat d + 2 ^ 32 * of_bool c
         = unat (VOP2_SRC0 st ! j) + unat (VOP2_SRC1 st ! j) + of_bool (bit (VOP2_VCC st) j)" for n
proof
  fix s t :: WfStateVOP2 and i j
  assume s: "length (VOP2_VDST s) = n" and "run_v_addc_u32 s i = Inr t"
  then have t: "t = (vop2_put s i ((VOP2_SRC0 s ! i + VOP2_SRC1 s ! i + of_bool (bit (VOP2_VCC s) i)) AND 0xffffffff))
      \<lparr>VOP2_VCC := (if VOP2_SRC0 s ! i + VOP2_SRC1 s ! i + of_bool (bit (VOP2_VCC s) i) \<ge> 0x100000000
         then VOP2_VCC s OR push_bit i 1 else VOP2_VCC s AND NOT (push_bit i 1))\<rparr>"
    by (auto simp: run_v_addc_u32_def Let_def vop2_put_def and.commute [of _ "2 ^ i"] single_bit_and)
  show "length (VOP2_VDST t) = n" using s by (simp add: t vop2_put_def)
  show "case (VOP2_VDST t ! i, bit (VOP2_VCC t) i) of (d, c) \<Rightarrow> i < n \<longrightarrow> i < 64 \<longrightarrow>
       unat (VOP2_SRC0 s ! i) < 2 ^ 32 \<longrightarrow> unat (VOP2_SRC1 s ! i) < 2 ^ 32 \<longrightarrow>
       unat d < 2 ^ 32 \<and> unat d + 2 ^ 32 * of_bool c
         = unat (VOP2_SRC0 s ! i) + unat (VOP2_SRC1 s ! i) + of_bool (bit (VOP2_VCC s) i)"
    using s add_carry_words [of "VOP2_SRC0 s ! i" "VOP2_SRC1 s ! i" _ "bit (VOP2_VCC s) i", OF _ _ refl]
    by (auto simp: t vop2_put_def bit_simps)
  show "(VOP2_VDST t ! j, bit (VOP2_VCC t) j) = (VOP2_VDST s ! j, bit (VOP2_VCC s) j) \<and> (\<lambda>(d, c). j < n \<longrightarrow> j < 64 \<longrightarrow>
       unat (VOP2_SRC0 t ! j) < 2 ^ 32 \<longrightarrow> unat (VOP2_SRC1 t ! j) < 2 ^ 32 \<longrightarrow>
       unat d < 2 ^ 32 \<and> unat d + 2 ^ 32 * of_bool c
         = unat (VOP2_SRC0 t ! j) + unat (VOP2_SRC1 t ! j) + of_bool (bit (VOP2_VCC t) j))
       = (\<lambda>(d, c). j < n \<longrightarrow> j < 64 \<longrightarrow>
       unat (VOP2_SRC0 s ! j) < 2 ^ 32 \<longrightarrow> unat (VOP2_SRC1 s ! j) < 2 ^ 32 \<longrightarrow>
       unat d < 2 ^ 32 \<and> unat d + 2 ^ 32 * of_bool c
         = unat (VOP2_SRC0 s ! j) + unat (VOP2_SRC1 s ! j) + of_bool (bit (VOP2_VCC s) j))" if "j \<noteq> i"
    using that by (auto simp: t vop2_put_def bit_simps dest: bit_imp_le_length)
qed

lemma fits_u32:
  assumes "unat (d :: u64) < 2 ^ 32"
  shows "to_u64 (to_u32 d) = d"
  using assms by (simp add: unsigned_ucast_eq word_eq_iff_unsigned [where ?'a = nat] unsigned_take_bit_eq take_bit_nat_eq_self)

text \<open>
  C7: v_addc_u32 computes the exact 33-bit sum per active lane: the bit of VCC is the carry in
  and becomes the carry out.
\<close>

theorem v_addc_carry_chain:
  assumes "run_vop2 instr w = Inr w'" and "in_key instr = V_ADDC_U32" and "wf_size w \<le> 64"
    and "operand instr 0 = Inr op" and "lane_operand op w" and "op_regAmount op = 1"
    and "get_operands_count instr = 3"
    and "read_arg64 instr 1 (int j) w = Inr x" and "unat x < 2 ^ 32"
    and "read_arg64 instr 2 (int j) w = Inr y" and "unat y < 2 ^ 32"
    and "j < wf_size w" and "work_item_masked w j"
  shows "\<exists>d. rd_lane op j w' = Inr d \<and> unat d + 2 ^ 32 * of_bool (bit (vccReg w') j)
    = unat x + unat y + of_bool (bit (vccReg w) j)"
proof -
  have row: "map_of vop2_switch (in_key instr) = Some run_v_addc_u32"
    by (simp add: assms(2) vop2_switch_def)
  from assms(1) obtain s st u where s: "get_vop2_state instr w = Inr s"
      and loop: "foldE (masked_step w (\<lambda>i st. run_v_addc_u32 st i)) [0..<wf_size w] s = Inr st"
      and wb: "write_lanes instr 0 (VOP2_VDST st) w = Inr u" and w': "w' = u\<lparr>vccReg := VOP2_VCC st\<rparr>"
    by (auto simp: run_vop2_eq update_with_vop2_state_def result_simps vop_step_row [OF row])
  from s assms(7) obtain rows where rows: "read_lanes instr [0, 1, 2] w = Inr rows"
      and sv: "VOP2_VDST s = column 0 rows" "VOP2_SRC0 s = column 1 rows" "VOP2_SRC1 s = column 2 rows"
        "VOP2_VCC s = vccReg w"
    by (auto simp: get_vop2_state_def result_simps)
  have src: "VOP2_SRC0 s ! j = x" "VOP2_SRC1 s ! j = y"
    using read_lanes_nth(2) [OF rows assms(12), of 1] read_lanes_nth(2) [OF rows assms(12), of 2]
      assms(8,10) sv by simp_all
  have "length (VOP2_VDST s) = wf_size w"
    using read_lanes_nth(1) [OF rows assms(12), of 0] by (simp add: column_def sv)
  then have sum: "unat (VOP2_VDST st ! j) < 2 ^ 32 \<and> unat (VOP2_VDST st ! j) + 2 ^ 32 * of_bool (bit (VOP2_VCC st) j)
      = unat x + unat y + of_bool (bit (vccReg w) j)"
    using addc.loop_active [OF loop, of "wf_size w" j] assms(3,9,11-13) src sv by simp
  then have "trunc_to op (VOP2_VDST st ! j) = VOP2_VDST st ! j"
    using assms(6) by (simp add: trunc_to_def fits_u32)
  moreover have "lane_operand op u"
    using wb assms(5) by (simp add: lane_operand_frame [OF write_lanes_frame])
  ultimately show ?thesis
    using written_lane [OF wb assms(4,5,12)] sum by (simp add: w' rd_lane_vcc)
qed

section \<open>Single instructions\<close>

theorem cndmask_selects:
  assumes "i < length (VOP2_VDST st)" and "run_v_cndmask_b32 st i = Inr st'"
  shows "VOP2_VDST st' ! i = (if bit (VOP2_VCC st) i \<and> (\<forall>k > i. \<not> bit (VOP2_VCC st) k)
      then VOP2_SRC1 st ! i else VOP2_SRC0 st ! i) AND 0xffffffff"
proof -
  have "drop_bit i v = 1 \<longleftrightarrow> bit v i \<and> (\<forall>k > i. \<not> bit v k)" for v :: u64
  proof
    assume one: "drop_bit i v = 1"
    have "bit v k = bit (1 :: u64) (k - i)" if "k \<ge> i" for k
      using arg_cong [OF one, of "\<lambda>w. bit w (k - i)"] that by (simp add: bit_drop_bit_eq)
    then show "bit v i \<and> (\<forall>k > i. \<not> bit v k)" by (auto simp: bit_1_iff)
  next
    assume top: "bit v i \<and> (\<forall>k > i. \<not> bit v k)"
    show "drop_bit i v = 1"
      by (rule bit_eqI) (use top in \<open>auto simp: bit_drop_bit_eq bit_1_iff less_add_same_cancel1 dest: spec [of _ "i + _"]\<close>)
  qed
  with assms show ?thesis by (auto simp: run_v_cndmask_b32_def vop2_put_def)
qed

text \<open>
  The VOP3 v_bfe_u32 on a 32-bit source shifts by the offset and ignores the width of the
  field.
\<close>

theorem v_bfe_u32_ignores_width:
  assumes "i < length (VOP3_SRC2 st)" and "VOP3_SRC0 st ! i = to_u64 (x :: u32)"
  shows "run_v_bfe_u32 st i = Inr (vop3_put st i (to_u64 (drop_bit (unat (VOP3_SRC1 st ! i AND 31)) x)))"
proof -
  let ?s = "unat (VOP3_SRC1 st ! i AND 31)" and ?l = "unat (VOP3_SRC2 st ! i AND 31)"
  have wide: "drop_bit (32 - l) (push_bit (32 - s - l) (to_u64 x)) = to_u64 (drop_bit s x)"
    if "s + l < 32" for s l
    using that by (intro word_eq_bitsI) (auto simp: bit_simps add.commute [of s] dest: bit_imp_le_length)
  have "drop_bit s (to_u64 x) = to_u64 (drop_bit s x)" for s
    by (intro word_eq_bitsI) (auto simp: bit_simps dest: bit_imp_le_length)
  with wide [of ?s ?l] wide [of ?s 0] assms show ?thesis
    by (auto simp: run_v_bfe_u32_def vop3_src2_def at_index_def vop3_put_def Let_def)
qed

theorem med3_u32_median:
  assumes "i < length (VOP3_SRC2 st)" and "i < length (VOP3_VDST st)"
    and "VOP3_SRC0 st ! i = a" "VOP3_SRC1 st ! i = b" "VOP3_SRC2 st ! i = c"
    and "run_v_med3_u32 st i = Inr st'"
  shows "VOP3_VDST st' ! i = (if b = c then a else sort [a, b, c] ! 1)"
  using assms by (auto simp: run_v_med3_u32_def vop3_src2_def at_index_def vop3_put_def Let_def)


text \<open>
  The comparisons compute SDST and EXEC in their record and drop it: no comparison has an effect.
\<close>

theorem vopc_discards: "run_vopc i w = Inr w' \<Longrightarrow> w' = w"
  by (rule run_vopc_returns_wave)

section \<open>Concrete runs\<close>

lemma vop_masked_lane_witness:
  "let i = make_instr V_MOV_B32 VOP1 [reg_op REG_V0 1, reg_op (REG_V0 + 1) 1]
   in rd_lane (reg_op REG_V0 1) 0 (projr (run_vop1 i small_wave)) = rd_lane (reg_op REG_V0 1) 0 small_wave"
  unfolding Let_def
  by (rule vop_masked_lane [OF insertI1 returnsD]; code_simp)

lemma v_mov_active_lane_witness:
  "let i = make_instr V_MOV_B32 VOP1 [reg_op REG_V0 1, reg_op (REG_V0 + 1) 1]
   in \<exists>v. read_arg64 i 1 (int 1) small_wave = Inr v
     \<and> rd_lane (reg_op REG_V0 1) 1 (projr (run_vop1 i small_wave)) = Inr (trunc_to (reg_op REG_V0 1) v)"
  unfolding Let_def
  by (rule v_mov_active_lane [OF returnsD]; code_simp)

lemma v_addc_carry_chain_witness:
  "let i = make_instr V_ADDC_U32 VOP2 [reg_op REG_V0 1, reg_op (REG_V0 + 1) 1, reg_op (REG_V0 + 2) 1];
       w' = projr (run_vop2 i small_wave)
   in \<exists>d. rd_lane (reg_op REG_V0 1) 1 w' = Inr d \<and>
      unat d + 2 ^ 32 * of_bool (bit (vccReg w') 1) = unat (21 :: u64) + unat (22 :: u64) + of_bool (bit (vccReg small_wave) 1)"
  unfolding Let_def
  by (rule v_addc_carry_chain [OF returnsD]; (simp; fail)?; code_simp?)

lemma cndmask_selects_witness:
  "let st = \<lparr>VOP2_VDST = [0, 0], VOP2_SRC0 = [1, 2], VOP2_SRC1 = [3, 4], VOP2_VCC = 3, VOP2_CLAMP = False\<rparr>
   in VOP2_VDST (projr (run_v_cndmask_b32 st 0)) ! 0 = (if bit (VOP2_VCC st) 0 \<and> (\<forall>k > 0. \<not> bit (VOP2_VCC st) k)
      then VOP2_SRC1 st ! 0 else VOP2_SRC0 st ! 0) AND 0xffffffff"
  unfolding Let_def
  by (rule cndmask_selects [OF _ returnsD]) (simp_all add: run_v_cndmask_b32_def returns_def)

lemma v_bfe_u32_ignores_width_witness:
  "let st = \<lparr>VOP3_CLAMP = False, VOP3_VDST = [0], VOP3_SRC0 = [to_u64 (0xff00 :: u32)], VOP3_SRC1 = [4], VOP3_SRC2 = [4], VOP3_VCC = 0\<rparr>
   in run_v_bfe_u32 st 0 = Inr (vop3_put st 0 (to_u64 (drop_bit (unat (VOP3_SRC1 st ! 0 AND 31)) (0xff00 :: u32))))"
  unfolding Let_def by (rule v_bfe_u32_ignores_width) simp_all

lemma med3_u32_median_witness:
  "let st = \<lparr>VOP3_CLAMP = False, VOP3_VDST = [0], VOP3_SRC0 = [1], VOP3_SRC1 = [5], VOP3_SRC2 = [5], VOP3_VCC = 0\<rparr>
   in VOP3_VDST (projr (run_v_med3_u32 st 0)) ! 0 = (if (5 :: u64) = 5 then 1 else sort [1, 5, 5] ! 1)"
  unfolding Let_def
  by (rule med3_u32_median [OF _ _ _ _ _ returnsD]; code_simp)

lemma vopc_discards_witness:
  "projr (run_vopc (make_instr V_CMP_LT_I32 VOPC [reg_op REG_VCC 2, reg_op REG_V0 1, reg_op (REG_V0 + 1) 1])
     small_wave) = small_wave"
  by (rule vopc_discards [OF returnsD]) code_simp

end
