(* ===== verification/Alu.thy ===== *)
theory Alu
  imports AluMemProps AluSop2Props AluVopProps
begin

text \<open>
  The dispatch of an instruction on its format (\<open>emulator/src/alu/alu.cpp\<close>) and what every
  instruction keeps: the sizes and the identity of the wavefront and the shape of the storage.

  An exception that the emulator survives, a \<open>Runtime_error\<close>, is raised by an instruction only
  before it writes to the wavefront (a wrong operand count, an invalid address of a load, a key
  without mnemonic), so a failed instruction leaves the wavefront as it was; a store may already
  have written some of its lanes.
\<close>

section \<open>Dispatch\<close>

definition unsupported_format :: "Instruction \<Rightarrow> (Machine, unit) M" where
  "unsupported_format instr =
     liftM (\<lambda>_. bindE (get_mnemonic (in_key instr)) (\<lambda>_. Inl (Assert_failed ''false'')))"

definition run_instr :: "Instruction \<Rightarrow> (Machine, unit) M" where
  "run_instr instr =
     (case in_format instr of
        SOP1 \<Rightarrow> on_wave (run_sop1 instr)
      | SOP2 \<Rightarrow> on_wave (run_sop2 instr)
      | SOPK \<Rightarrow> on_wave (run_sopk instr)
      | SOPP \<Rightarrow> on_wave (run_sopp instr)
      | SMEM \<Rightarrow> bindM (liftM (\<lambda>s. Inr (m_store s))) (\<lambda>st. on_wave (run_smem instr st))
      | SOPC \<Rightarrow> on_wave (run_sopc instr)
      | VOP1 \<Rightarrow> on_wave (run_vop1 instr)
      | VOP2 \<Rightarrow> on_wave (run_vop2 instr)
      | VOP3A \<Rightarrow> on_wave (run_vop3 instr)
      | VOP3B \<Rightarrow> on_wave (run_vop3 instr)
      | FLAT \<Rightarrow> run_flat instr
      | VOPC \<Rightarrow> on_wave (run_vopc instr)
      | _ \<Rightarrow> unsupported_format instr)"

section \<open>What every instruction keeps\<close>

definition machine_inv :: "Wavefront \<Rightarrow> Machine \<Rightarrow> bool" where
  "machine_inv w0 s \<longleftrightarrow> storage_inv (m_store s) \<and> wf_frame w0 (m_wave s)"

lemma on_wave_keeps [keeps_intros]:
  assumes "\<And>w w'. f w = Inr w' \<Longrightarrow> wf_frame w w'"
  shows "keeps (machine_inv w0) (on_wave f)"
  unfolding keeps_def on_wave_def machine_inv_def
  using assms by (auto split: sum.splits intro: wf_frame_trans)

lemma run_vopc_frame: "run_vopc instr w = Inr w' \<Longrightarrow> wf_frame w w'"
  by (drule run_vopc_returns_wave) simp

lemmas run_frames = run_sop1_frame run_sop2_frame run_sopk_frame run_sopp_frame run_smem_frame
  run_sopc_frame run_vop1_frame run_vop2_frame run_vop3_frame run_vopc_frame

lemma run_instr_inv: "keeps (machine_inv w0) (run_instr instr)"
proof -
  have "keeps (machine_inv w0) (run_flat instr)"
    using run_flat_keeps unfolding machine_inv_def .
  then show ?thesis
    unfolding run_instr_def unsupported_format_def
    by (cases "in_format instr") (auto intro!: keeps_intros dest: run_frames)
qed



end
