(* ===== verification/KernelConfigs.thy ===== *)
theory KernelConfigs
  imports BitUtils
begin

text \<open>
  The launch configuration of a kernel (\<open>common/model/kernel/KernelConfig.h\<close>): the sizes of the
  index space and of a work-group, the register counts and the bits of \<open>pgmrsrc2\<close> that say which
  values the hardware preloads. A dimension that the kernel does not use counts as size 1.
  \<open>size_t\<close> is a 64 bit word here.
\<close>

record KernelConfig =
  cfg_kernArgAddr :: u64
  cfg_kernSetupPtr :: u64
  cfg_dims :: u32
  cfg_globalWorkOffset :: "u64 list"
  cfg_globalWorkSize :: "u64 list"
  cfg_localWorkSize :: "u64 list"
  cfg_sgprsnum :: u64
  cfg_vgprsnum :: u64
  cfg_pgmrsrc2 :: u32
  cfg_priority :: u8
  cfg_dx10clamp :: bool
  cfg_ieeemode :: bool
  cfg_useargs :: bool
  cfg_usesetup :: bool
  cfg_usegeneric :: bool

text \<open>The member initialisers; \<open>dims\<close> and \<open>priority\<close> have none and are arguments.\<close>

definition new_config :: "u32 \<Rightarrow> u8 \<Rightarrow> KernelConfig" where
  "new_config dims priority =
     \<lparr>cfg_kernArgAddr = 0, cfg_kernSetupPtr = 0, cfg_dims = dims,
      cfg_globalWorkOffset = [0, 0, 0], cfg_globalWorkSize = [1, 1, 1],
      cfg_localWorkSize = [1, 1, 1], cfg_sgprsnum = 0, cfg_vgprsnum = 0, cfg_pgmrsrc2 = 0,
      cfg_priority = priority, cfg_dx10clamp = False, cfg_ieeemode = False, cfg_useargs = False,
      cfg_usesetup = False, cfg_usegeneric = False\<rparr>"

definition get_user_sgpr :: "KernelConfig \<Rightarrow> u8" where
  "get_user_sgpr c = to_u8 (drop_bit 1 (cfg_pgmrsrc2 c) AND 0x1f)"

definition is_enabled_scratch :: "KernelConfig \<Rightarrow> bool" where
  "is_enabled_scratch c = get_bit 0 (cfg_pgmrsrc2 c)"

definition is_enabled_idx :: "KernelConfig \<Rightarrow> bool" where
  "is_enabled_idx c = get_bit 7 (cfg_pgmrsrc2 c)"

definition is_enabled_idy :: "KernelConfig \<Rightarrow> bool" where
  "is_enabled_idy c = get_bit 8 (cfg_pgmrsrc2 c)"

definition is_enabled_idz :: "KernelConfig \<Rightarrow> bool" where
  "is_enabled_idz c = get_bit 9 (cfg_pgmrsrc2 c)"

definition is_enabled_sgpr_workgroup_info :: "KernelConfig \<Rightarrow> bool" where
  "is_enabled_sgpr_workgroup_info c = get_bit 10 (cfg_pgmrsrc2 c)"

text \<open>The kinds of kernel arguments (\<open>common/model/kernel/arg/KernelArgumentKind.h\<close>).\<close>

datatype KernelArgumentKind = SCALAR | VECTOR | STRUCT | IMAGE | SAMPLER | EVENT | POINTER

text \<open>Reading a size vector at a fixed index is undefined when the vector is too short.\<close>

definition size_at :: "u64 list \<Rightarrow> nat \<Rightarrow> u64 result" where
  "size_at xs i = (if i < length xs then Inr (xs ! i) else Inl (Undefined ''vector index''))"

definition get_NDRange_X_size :: "KernelConfig \<Rightarrow> u64 result" where
  "get_NDRange_X_size c = size_at (cfg_globalWorkSize c) 0"

definition get_NDRange_Y_size :: "KernelConfig \<Rightarrow> u64 result" where
  "get_NDRange_Y_size c = (if 1 < cfg_dims c then size_at (cfg_globalWorkSize c) 1 else Inr 1)"

definition get_NDRange_Z_size :: "KernelConfig \<Rightarrow> u64 result" where
  "get_NDRange_Z_size c = (if 2 < cfg_dims c then size_at (cfg_globalWorkSize c) 2 else Inr 1)"

definition get_wg_X_size :: "KernelConfig \<Rightarrow> u64 result" where
  "get_wg_X_size c = size_at (cfg_localWorkSize c) 0"

definition get_wg_Y_size :: "KernelConfig \<Rightarrow> u64 result" where
  "get_wg_Y_size c = (if 1 < cfg_dims c then size_at (cfg_localWorkSize c) 1 else Inr 1)"

definition get_wg_Z_size :: "KernelConfig \<Rightarrow> u64 result" where
  "get_wg_Z_size c = (if 2 < cfg_dims c then size_at (cfg_localWorkSize c) 2 else Inr 1)"

definition get_X_offset :: "KernelConfig \<Rightarrow> u64 result" where
  "get_X_offset c = size_at (cfg_globalWorkOffset c) 0"

definition get_Y_offset :: "KernelConfig \<Rightarrow> u64 result" where
  "get_Y_offset c = (if 1 < cfg_dims c then size_at (cfg_globalWorkOffset c) 1 else Inr 1)"

definition get_Z_offset :: "KernelConfig \<Rightarrow> u64 result" where
  "get_Z_offset c = (if 2 < cfg_dims c then size_at (cfg_globalWorkOffset c) 2 else Inr 1)"

end
