(* ===== verification/WorkGroups.thy ===== *)
theory WorkGroups
  imports Wavefronts KernelConfigs
begin

text \<open>
  Work-groups (\<open>WorkGroup\<close> and \<open>WorkItem\<close> of \<open>emulator/src/flow/wavefront.h\<close> and
  \<open>wavefront.cpp\<close>): the work-items of a group in the order of their local ids, and its wavefronts
  of at most 64 work-items with the registers that the hardware preloads.

  \<open>size_t\<close> is a 64 bit word; the counters of the loops over the sizes are \<open>int\<close>, so a size of
  \<open>2 ^ 31\<close> or more makes the counter overflow. The variable \<open>wfInd\<close> of \<open>init_wavefronts\<close> is
  never incremented, so every wavefront gets the id 0.
\<close>

unbundle bit_operations_syntax

section \<open>The work-group\<close>

record WorkItem =
  localIdX :: u64
  localIdY :: u64
  localIdZ :: u64

record WorkGroup =
  wg_code :: KernelCode
  wg_sizeX :: u64
  wg_sizeY :: u64
  wg_sizeZ :: u64
  wg_idX :: u64
  wg_idY :: u64
  wg_idZ :: u64
  wg_wavefronts :: "Wavefront list"
  wg_workItems :: "WorkItem list"

definition new_work_group :: "KernelCode \<Rightarrow> u64 \<Rightarrow> u64 \<Rightarrow> u64 \<Rightarrow> u64 \<Rightarrow> u64 \<Rightarrow> u64 \<Rightarrow> WorkGroup" where
  "new_work_group kc sizeX sizeY sizeZ idX idY idZ =
     \<lparr>wg_code = kc, wg_sizeX = sizeX, wg_sizeY = sizeY, wg_sizeZ = sizeZ,
      wg_idX = idX, wg_idY = idY, wg_idZ = idZ, wg_wavefronts = [], wg_workItems = []\<rparr>"

definition all_wf_completed :: "WorkGroup \<Rightarrow> bool" where
  "all_wf_completed wg = list_all completed (wg_wavefronts wg)"

definition get_workitem_for_wf :: "nat \<Rightarrow> nat \<Rightarrow> WorkGroup \<Rightarrow> WorkItem result" where
  "get_workitem_for_wf wiId wfId wg =
     (let ind = wfId * WAVEFRONT_SIZE + wiId
      in bindE (assertE (ind < length (wg_workItems wg)) ''Index of work item is out of bound'')
           (\<lambda>_. Inr (wg_workItems wg ! ind)))"

section \<open>Work-items\<close>

text \<open>The values of an \<open>int\<close> counter that runs up to a size.\<close>

definition int_range :: "u64 \<Rightarrow> u64 list result" where
  "int_range n =
     (if unat n < 2 ^ 31 then Inr (map of_nat [0..<unat n]) else Inl (Undefined ''signed overflow''))"

definition init_workitems :: "WorkGroup \<Rightarrow> WorkGroup result" where
  "init_workitems wg =
     bindE (int_range (wg_sizeX wg)) (\<lambda>xs.
     bindE (mapE (\<lambda>x.
         bindE (int_range (wg_sizeY wg)) (\<lambda>ys.
         bindE (mapE (\<lambda>y.
             bindE (int_range (wg_sizeZ wg)) (\<lambda>zs.
             Inr (map (\<lambda>z. \<lparr>localIdX = x, localIdY = y, localIdZ = z\<rparr>) zs))) ys) (\<lambda>rows.
         Inr (concat rows)))) xs) (\<lambda>slices.
     Inr (wg\<lparr>wg_workItems := wg_workItems wg @ concat slices\<rparr>)))"

section \<open>Wavefronts\<close>

text \<open>A preloaded scalar register and the index after it.\<close>

definition preload :: "bool \<Rightarrow> u64 \<Rightarrow> nat \<times> Wavefront \<Rightarrow> (nat \<times> Wavefront) result" where
  "preload enabled v s =
     (case s of (sgprInd, w) \<Rightarrow>
        if enabled then bindE (set_scalar sgprInd (to_u32 v) w) (\<lambda>w. Inr (Suc sgprInd, w))
        else Inr (sgprInd, w))"

definition init_lane :: "WorkGroup \<Rightarrow> nat \<Rightarrow> Wavefront \<Rightarrow> Wavefront result" where
  "init_lane wg i w =
     bindE (get_workitem_for_wf i (wf_id w) wg) (\<lambda>workItem.
     bindE (set_vgpr i 0 (to_u32 (localIdX workItem)) w) (\<lambda>w.
     bindE (set_vgpr i 1 (to_u32 (localIdY workItem)) w) (\<lambda>w.
     set_vgpr i 2 (to_u32 (localIdZ workItem)) w)))"

definition init_args :: "KernelConfig \<Rightarrow> Wavefront \<Rightarrow> Wavefront result" where
  "init_args cfg w =
     bindE (if cfg_useargs cfg then set_sgpr_pair 4 (cfg_kernArgAddr cfg) w else Inr w) (\<lambda>w.
     if cfg_usesetup cfg
     then bindE (set_sgpr_pair 4 (cfg_kernSetupPtr cfg) w) (set_sgpr_pair 6 (cfg_kernArgAddr cfg))
     else Inr w)"

text \<open>
  The two unsupported parameters only advance the register index, which is not read after them.
\<close>

definition init_wf_regs :: "WorkGroup \<Rightarrow> KernelConfig \<Rightarrow> Wavefront \<Rightarrow> Wavefront result" where
  "init_wf_regs wg cfg w =
     bindE (preload (is_enabled_idx cfg) (wg_idX wg) (unat (get_user_sgpr cfg), w)) (\<lambda>s.
     bindE (preload (is_enabled_idy cfg) (wg_idY wg) s) (\<lambda>s.
     bindE (preload (is_enabled_idz cfg) (wg_idZ wg) s) (\<lambda>(sgprInd, w).
     bindE (init_args cfg w) (\<lambda>w.
     let w = w\<lparr>modeReg := set_dx10_clamp (cfg_dx10clamp cfg) (set_ieee (cfg_ieeemode cfg) (modeReg w))\<rparr>
     in foldE (init_lane wg) [0..<wf_size w] w))))"

definition init_wavefront :: "WorkGroup \<Rightarrow> KernelConfig \<Rightarrow> nat \<Rightarrow> Wavefront result" where
  "init_wavefront wg cfg wfSize =
     (let wfInd = 0
      in bindE (init_wf_regs wg cfg
             (new_wavefront wfSize wfInd (unat (cfg_sgprsnum cfg)) (unat (cfg_vgprsnum cfg)))) (\<lambda>w.
         bindE (evaluate_exec_reg_value wfSize) (\<lambda>e. Inr (w\<lparr>execReg := e\<rparr>))))"

text \<open>The sizes of the wavefronts that the loop over \<open>workitemInd\<close> makes of \<open>n\<close> work-items.\<close>

fun wavefront_sizes :: "nat \<Rightarrow> nat list" where
  "wavefront_sizes n =
     (if n = 0 then [] else if WAVEFRONT_SIZE \<le> n then WAVEFRONT_SIZE # wavefront_sizes (n - WAVEFRONT_SIZE)
      else [n])"

declare wavefront_sizes.simps [simp del]

definition init_wavefronts :: "KernelConfig \<Rightarrow> WorkGroup \<Rightarrow> WorkGroup result" where
  "init_wavefronts cfg wg =
     bindE (mapE (init_wavefront wg cfg) (wavefront_sizes (length (wg_workItems wg)))) (\<lambda>ws.
     Inr (wg\<lparr>wg_wavefronts := wg_wavefronts wg @ ws\<rparr>))"

end
