(* ===== verification/Breakpoints.thy ===== *)
theory Breakpoints
  imports Prelude
begin

text \<open>
  Breakpoints (\<open>common/debugger/breakpoint\<close>): \<open>Breakpoint.h\<close>, the storage that the emulator
  and the debugger use (\<open>BreakpointStorage.h\<close>, \<open>BreakpointStorage.cpp\<close>) and the one of a
  single work-group (\<open>WorkGroupBreakpointStorage.h\<close>, \<open>WorkGroupBreakpointStorage.cpp\<close>).

  A \<open>std::set\<close> of addresses is a set, whose iteration is in ascending order; a \<open>std::map\<close> is
  a map, and its \<open>operator[]\<close> inserts an empty set at an absent key. Both storages implement one
  contract: they are sets of breakpoints, up to the key under which they file a breakpoint.
\<close>

section \<open>The code\<close>

datatype BreakpointType = GLOBAL | LOCAL

record Breakpoint =
  bp_type :: BreakpointType
  bp_address :: u32
  bp_wfId :: int

definition global_breakpoint :: "u32 \<Rightarrow> Breakpoint" where
  "global_breakpoint address = \<lparr>bp_type = GLOBAL, bp_address = address, bp_wfId = 0\<rparr>"

definition local_breakpoint :: "u32 \<Rightarrow> int \<Rightarrow> Breakpoint" where
  "local_breakpoint address wavefrontId =
     \<lparr>bp_type = LOCAL, bp_address = address, bp_wfId = wavefrontId\<rparr>"

record BreakpointStorage =
  globalBreakpoints :: "u32 set"
  localBreakpoints :: "int \<rightharpoonup> u32 set"

definition new_breakpoints :: BreakpointStorage where
  "new_breakpoints = \<lparr>globalBreakpoints = {}, localBreakpoints = Map.empty\<rparr>"

text \<open>\<open>localBreakpoints[wfId]\<close>, as a value; the entry it leaves behind is written back by the caller.\<close>

definition local_set :: "int \<Rightarrow> BreakpointStorage \<Rightarrow> u32 set" where
  "local_set wfId s = (case localBreakpoints s wfId of None \<Rightarrow> {} | Some as \<Rightarrow> as)"

definition addBreakpoint :: "Breakpoint \<Rightarrow> BreakpointStorage \<Rightarrow> BreakpointStorage" where
  "addBreakpoint b s =
     (case bp_type b of
        GLOBAL \<Rightarrow> s\<lparr>globalBreakpoints := insert (bp_address b) (globalBreakpoints s)\<rparr>
      | LOCAL \<Rightarrow> s\<lparr>localBreakpoints := (localBreakpoints s)
          (bp_wfId b \<mapsto> insert (bp_address b) (local_set (bp_wfId b) s))\<rparr>)"

definition removeBreakpoint :: "Breakpoint \<Rightarrow> BreakpointStorage \<Rightarrow> BreakpointStorage" where
  "removeBreakpoint b s =
     (case bp_type b of
        GLOBAL \<Rightarrow> s\<lparr>globalBreakpoints := globalBreakpoints s - {bp_address b}\<rparr>
      | LOCAL \<Rightarrow> s\<lparr>localBreakpoints := (localBreakpoints s)
          (bp_wfId b \<mapsto> local_set (bp_wfId b) s - {bp_address b})\<rparr>)"

definition getWavefrontBreakpoints :: "int \<Rightarrow> BreakpointStorage \<Rightarrow> Breakpoint list \<times> BreakpointStorage" where
  "getWavefrontBreakpoints wfId s =
     (map global_breakpoint (sorted_list_of_set (globalBreakpoints s))
        @ map (\<lambda>a. local_breakpoint a wfId) (sorted_list_of_set (local_set wfId s)),
      s\<lparr>localBreakpoints := (localBreakpoints s)(wfId \<mapsto> local_set wfId s)\<rparr>)"

definition clear_breakpoints :: "BreakpointStorage \<Rightarrow> BreakpointStorage" where
  "clear_breakpoints s = s\<lparr>globalBreakpoints := {}, localBreakpoints := Map.empty\<rparr>"

text \<open>The two overloads of \<open>hasBreakpoint\<close>. The second one inserts an entry unless a global one hits.\<close>

definition hasBreakpoint :: "u32 \<Rightarrow> BreakpointStorage \<Rightarrow> bool" where
  "hasBreakpoint address s = (address \<in> globalBreakpoints s)"

definition hasBreakpoint_wf :: "u32 \<Rightarrow> int \<Rightarrow> BreakpointStorage \<Rightarrow> bool \<times> BreakpointStorage" where
  "hasBreakpoint_wf address wfId s =
     (if address \<in> globalBreakpoints s then (True, s)
      else (address \<in> local_set wfId s,
            s\<lparr>localBreakpoints := (localBreakpoints s)(wfId \<mapsto> local_set wfId s)\<rparr>))"

type_synonym WorkGroupBreakpointStorage = "(BreakpointType \<times> u32) set"

definition wg_addBreakpoint :: "Breakpoint \<Rightarrow> WorkGroupBreakpointStorage \<Rightarrow> WorkGroupBreakpointStorage" where
  "wg_addBreakpoint b s = insert (bp_type b, bp_address b) s"

definition wg_removeBreakpoint :: "Breakpoint \<Rightarrow> WorkGroupBreakpointStorage \<Rightarrow> WorkGroupBreakpointStorage" where
  "wg_removeBreakpoint b s = s - {(bp_type b, bp_address b)}"

definition wg_checkBreakpoint :: "u32 \<Rightarrow> WorkGroupBreakpointStorage \<Rightarrow> bool" where
  "wg_checkBreakpoint address s \<longleftrightarrow> (LOCAL, address) \<in> s \<or> (GLOBAL, address) \<in> s"

section \<open>The contract of a breakpoint storage\<close>

text \<open>
  A storage is seen as the set of the keys of its breakpoints: adding inserts the key, removing
  deletes it. A sequence of edits then leaves the keys whose last edit was an addition.
\<close>

type_synonym edit = "Breakpoint \<times> bool"

fun last_edit :: "('k \<Rightarrow> bool) \<Rightarrow> ('k \<times> bool) list \<Rightarrow> bool option" where
  "last_edit p [] = None"
| "last_edit p ((k, removed) # es) =
     (case last_edit p es of Some r \<Rightarrow> Some r | None \<Rightarrow> if p k then Some removed else None)"

locale breakpoint_store =
  fixes add remove :: "Breakpoint \<Rightarrow> 's \<Rightarrow> 's"
    and key :: "Breakpoint \<Rightarrow> 'k"
    and view :: "'s \<Rightarrow> 'k set"
  assumes view_add: "view (add b s) = insert (key b) (view s)"
    and view_remove: "view (remove b s) = view s - {key b}"
begin

fun edit :: "edit list \<Rightarrow> 's \<Rightarrow> 's" where
  "edit [] s = s"
| "edit ((b, removed) # es) s = edit es (if removed then remove b s else add b s)"

lemma view_edit:
  "k \<in> view (edit es s) \<longleftrightarrow>
     (case last_edit ((=) k) (map (map_prod key id) es) of None \<Rightarrow> k \<in> view s | Some removed \<Rightarrow> \<not> removed)"
proof (induction es arbitrary: s)
  case (Cons e es)
  obtain b r where e: "e = (b, r)" by (cases e)
  show ?case
    using Cons.IH [of "if r then remove b s else add b s"]
    by (auto simp: e view_add view_remove split: option.splits)
qed simp

lemma add_remove_cancel: "key b \<notin> view s \<Longrightarrow> view (remove b (add b s)) = view s"
  by (simp add: view_add view_remove)

lemma edits_commute:
  assumes "key b \<noteq> key c"
  shows "view (edit [(b, r), (c, q)] s) = view (edit [(c, q), (b, r)] s)"
  using assms by (auto simp: view_add view_remove)

end

text \<open>A global breakpoint is filed under its address, a local one under its wavefront too.\<close>

definition bp_key :: "Breakpoint \<Rightarrow> int option \<times> u32" where
  "bp_key b = (case bp_type b of GLOBAL \<Rightarrow> (None, bp_address b) | LOCAL \<Rightarrow> (Some (bp_wfId b), bp_address b))"

definition bp_view :: "BreakpointStorage \<Rightarrow> (int option \<times> u32) set" where
  "bp_view s = {(None, a) | a. a \<in> globalBreakpoints s} \<union> {(Some w, a) | w a. a \<in> local_set w s}"

interpretation bps: breakpoint_store addBreakpoint removeBreakpoint bp_key bp_view
proof
  fix b s
  show "bp_view (addBreakpoint b s) = insert (bp_key b) (bp_view s)"
    by (cases "bp_type b") (auto simp: bp_view_def addBreakpoint_def bp_key_def local_set_def)
  show "bp_view (removeBreakpoint b s) = bp_view s - {bp_key b}"
    by (cases "bp_type b") (auto simp: bp_view_def removeBreakpoint_def bp_key_def local_set_def split: if_splits)
qed

interpretation wgs: breakpoint_store wg_addBreakpoint wg_removeBreakpoint
  "\<lambda>b. (bp_type b, bp_address b)" "\<lambda>s. s"
  by unfold_locales (auto simp: wg_addBreakpoint_def wg_removeBreakpoint_def)

section \<open>Queries\<close>

lemma hasBreakpoint_view: "hasBreakpoint a s \<longleftrightarrow> (None, a) \<in> bp_view s"
  by (simp add: hasBreakpoint_def bp_view_def)

lemma local_set_upd [simp]:
  "local_set v (s\<lparr>localBreakpoints := (localBreakpoints s)(w \<mapsto> as)\<rparr>) = (if v = w then as else local_set v s)"
  by (simp add: local_set_def)

lemma bp_view_keys:
  "(None, a) \<in> bp_view s \<longleftrightarrow> a \<in> globalBreakpoints s" "(Some w, a) \<in> bp_view s \<longleftrightarrow> a \<in> local_set w s"
  by (auto simp: bp_view_def)

lemma bp_view_touch [simp]:
  "bp_view (s\<lparr>localBreakpoints := (localBreakpoints s)(w \<mapsto> local_set w s)\<rparr>) = bp_view s"
  by (auto simp: bp_view_def)

lemma hasBreakpoint_wf_view:
  "hasBreakpoint_wf a w s = (h, s') \<Longrightarrow>
     (h \<longleftrightarrow> (None, a) \<in> bp_view s \<or> (Some w, a) \<in> bp_view s) \<and> bp_view s' = bp_view s"
  by (auto simp: hasBreakpoint_wf_def bp_view_keys split: if_splits)

lemma getWavefrontBreakpoints_view:
  assumes "finite (globalBreakpoints s)" and "finite (local_set w s)"
    and "getWavefrontBreakpoints w s = (bs, s')"
  shows "bp_key ` set bs = {k \<in> bp_view s. fst k = None \<or> fst k = Some w} \<and> distinct bs
    \<and> bp_view s' = bp_view s"
proof -
  have bs: "bs = map global_breakpoint (sorted_list_of_set (globalBreakpoints s))
        @ map (\<lambda>a. local_breakpoint a w) (sorted_list_of_set (local_set w s))"
      "s' = s\<lparr>localBreakpoints := (localBreakpoints s)(w \<mapsto> local_set w s)\<rparr>"
    using assms(3) by (simp_all add: getWavefrontBreakpoints_def)
  have "bp_key ` set bs = Pair None ` globalBreakpoints s \<union> Pair (Some w) ` local_set w s"
    using assms(1,2)
    by (simp add: bs(1) image_Un image_image bp_key_def global_breakpoint_def local_breakpoint_def)
  also have "\<dots> = {k \<in> bp_view s. fst k = None \<or> fst k = Some w}"
    by (auto simp: bp_view_def)
  finally show ?thesis
    by (auto simp: bs distinct_map inj_on_def global_breakpoint_def local_breakpoint_def)
qed

text \<open>The edits of a debugging session, run on the storage of the emulator.\<close>

definition edit_breakpoints :: "edit list \<Rightarrow> BreakpointStorage \<Rightarrow> BreakpointStorage" where
  "edit_breakpoints es s = foldl (\<lambda>s (b, removed). if removed then removeBreakpoint b s else addBreakpoint b s) s es"

lemma edit_breakpoints_edit: "edit_breakpoints es s = bps.edit es s"
  unfolding edit_breakpoints_def by (induction es arbitrary: s) auto

lemma new_breakpoints_view: "bp_view new_breakpoints = {}"
  by (simp add: bp_view_def new_breakpoints_def local_set_def)

text \<open>
  C39: A query finds a breakpoint iff the last edit of its key was an addition.
\<close>

theorem breakpoints_follow_last_edit:
  "(hasBreakpoint a (edit_breakpoints es new_breakpoints)
      \<longleftrightarrow> last_edit ((=) (None, a)) (map (map_prod bp_key id) es) = Some False)
   \<and> (fst (hasBreakpoint_wf a w (edit_breakpoints es new_breakpoints))
      \<longleftrightarrow> last_edit ((=) (None, a)) (map (map_prod bp_key id) es) = Some False
        \<or> last_edit ((=) (Some w, a)) (map (map_prod bp_key id) es) = Some False)"
  using hasBreakpoint_wf_view [of a w "bps.edit es new_breakpoints", OF prod.collapse [symmetric]]
  by (auto simp: edit_breakpoints_edit hasBreakpoint_view bps.view_edit new_breakpoints_view
      split: option.splits)

text \<open>The query that the emulator makes before an instruction does not see a local breakpoint.\<close>

theorem local_breakpoints_unseen:
  assumes "\<forall>(b, removed) \<in> set es. bp_type b = LOCAL"
  shows "\<not> hasBreakpoint a (edit_breakpoints es new_breakpoints)"
proof -
  have "last_edit ((=) (None, a)) (map (map_prod bp_key id) es) = None"
    using assms by (induction es) (auto simp: bp_key_def)
  then show ?thesis
    by (simp add: edit_breakpoints_edit hasBreakpoint_view bps.view_edit new_breakpoints_view)
qed

lemma local_breakpoints_unseen_witness:
  "\<not> hasBreakpoint 8 (edit_breakpoints [(local_breakpoint 8 0, False)] new_breakpoints)
   \<and> fst (hasBreakpoint_wf 8 0 (edit_breakpoints [(local_breakpoint 8 0, False)] new_breakpoints))"
proof
  show "\<not> hasBreakpoint 8 (edit_breakpoints [(local_breakpoint 8 0, False)] new_breakpoints)"
    by (rule local_breakpoints_unseen) (simp add: local_breakpoint_def)
qed (simp add: edit_breakpoints_def hasBreakpoint_wf_def local_breakpoint_def addBreakpoint_def local_set_def
    new_breakpoints_def)

end
