(* ===== verification/Channels.thy ===== *)
theory Channels
  imports Prelude
begin

text \<open>
  The channel between the debugger and the emulator (\<open>common/debugger/channel/Channel.h\<close>): a
  single slot under a mutex. A reader waits until the slot is full, a writer until it is empty, and
  closing wakes both. Every operation runs under the mutex after its wait, so it is one atomic step;
  \<open>None\<close> is the operation that is still waiting.

  The section on interleavings runs any number of readers, writers and closers against one channel
  and shows that it is a first-in first-out buffer of capacity one that loses nothing but what is
  still in the slot, and delivers nothing twice.
\<close>

section \<open>The code\<close>

record 'a Channel =
  ch_isClosed :: bool
  ch_isEmpty :: bool
  ch_value :: "'a option"

definition new_channel :: "'a Channel" where
  "new_channel = \<lparr>ch_isClosed = False, ch_isEmpty = True, ch_value = None\<rparr>"

text \<open>\<open>value.value()\<close> throws when the optional is empty.\<close>

definition take_value :: "'a Channel \<Rightarrow> 'a option result \<times> 'a Channel" where
  "take_value c =
     (case ch_value c of
        None \<Rightarrow> (Inl Bad_optional_access, c)
      | Some x \<Rightarrow> (Inr (Some x), c\<lparr>ch_value := None, ch_isEmpty := True\<rparr>))"

definition ch_read :: "'a Channel \<Rightarrow> ('a option result \<times> 'a Channel) option" where
  "ch_read c =
     (if \<not> ch_isEmpty c \<or> ch_isClosed c
      then Some (if ch_isEmpty c \<and> ch_isClosed c then (Inr None, c) else take_value c)
      else None)"

definition ch_tryRead :: "'a Channel \<Rightarrow> 'a option result \<times> 'a Channel" where
  "ch_tryRead c = (if ch_isEmpty c \<or> ch_isClosed c then (Inr None, c) else take_value c)"

definition ch_write :: "'a \<Rightarrow> 'a Channel \<Rightarrow> (bool \<times> 'a Channel) option" where
  "ch_write data c =
     (if ch_isEmpty c \<or> ch_isClosed c
      then Some (if ch_isClosed c then (False, c)
                 else (True, c\<lparr>ch_isEmpty := False, ch_value := Some data\<rparr>))
      else None)"

definition ch_close :: "'a Channel \<Rightarrow> 'a Channel" where
  "ch_close c = c\<lparr>ch_isClosed := True\<rparr>"

definition ch_isExhausted :: "'a Channel \<Rightarrow> bool" where
  "ch_isExhausted c \<longleftrightarrow> ch_isClosed c \<and> ch_isEmpty c"

section \<open>The slot\<close>

text \<open>The two fields agree on whether the slot is full; the abstract channel is its content.\<close>

definition ch_inv :: "'a Channel \<Rightarrow> bool" where
  "ch_inv c \<longleftrightarrow> (ch_isEmpty c \<longleftrightarrow> ch_value c = None)"

definition pending :: "'a Channel \<Rightarrow> 'a list" where
  "pending c = (case ch_value c of None \<Rightarrow> [] | Some x \<Rightarrow> [x])"

named_theorems channel_simps "the operations on a channel that is not waiting"

lemma ch_inv_new [simp]: "ch_inv new_channel" "pending new_channel = []"
  by (simp_all add: ch_inv_def new_channel_def pending_def)

lemma pending_length: "length (pending c) \<le> 1"
  by (simp add: pending_def split: option.splits)

lemma isExhausted_pending: "ch_inv c \<Longrightarrow> ch_isExhausted c \<longleftrightarrow> ch_isClosed c \<and> pending c = []"
  by (auto simp: ch_isExhausted_def ch_inv_def pending_def split: option.splits)

lemma ch_write_Some [channel_simps]:
  assumes "ch_inv c" and "ch_write x c = Some (b, d)"
  shows "ch_inv d \<and> ch_isClosed d = ch_isClosed c \<and> (b \<longleftrightarrow> \<not> ch_isClosed c)
    \<and> pending d = pending c @ (if b then [x] else [])"
  using assms by (auto simp: ch_write_def ch_inv_def pending_def split: if_splits option.splits)

lemma ch_read_Some [channel_simps]:
  assumes "ch_inv c" and "ch_read c = Some (r, d)"
  shows "ch_inv d \<and> ch_isClosed d = ch_isClosed c
    \<and> (\<exists>x. r = Inr x \<and> pending c = (case x of None \<Rightarrow> [] | Some x \<Rightarrow> [x]) @ pending d
        \<and> (x = None \<longrightarrow> ch_isClosed c))"
  using assms by (auto simp: ch_read_def take_value_def ch_inv_def pending_def split: if_splits option.splits)

lemma ch_tryRead_result [channel_simps]:
  assumes "ch_inv c" and "ch_tryRead c = (r, d)"
  shows "ch_inv d \<and> ch_isClosed d = ch_isClosed c
    \<and> (\<exists>x. r = Inr x \<and> pending c = (case x of None \<Rightarrow> [] | Some x \<Rightarrow> [x]) @ pending d
        \<and> (x = None \<longleftrightarrow> ch_isClosed c \<or> pending c = []))"
  using assms by (auto simp: ch_tryRead_def take_value_def ch_inv_def pending_def split: if_splits option.splits)

lemma ch_close_inv [simp]:
  "ch_inv (ch_close c) = ch_inv c" "pending (ch_close c) = pending c" "ch_isClosed (ch_close c)"
  "ch_isEmpty (ch_close c) = ch_isEmpty c"
  by (simp_all add: ch_inv_def ch_close_def pending_def)

text \<open>An operation waits only when the other side has to act first, and never once closed.\<close>

lemma ch_waits:
  assumes "ch_inv c"
  shows "ch_read c = None \<longleftrightarrow> \<not> ch_isClosed c \<and> pending c = []"
    and "ch_write x c = None \<longleftrightarrow> \<not> ch_isClosed c \<and> pending c \<noteq> []"
  using assms by (auto simp: ch_read_def ch_write_def ch_inv_def pending_def split: option.splits)

section \<open>Interleavings\<close>

text \<open>
  A run of a channel: its state, the values accepted by \<open>write\<close> and the values returned by
  \<open>read\<close> and \<open>tryRead\<close>, in order. A step is one operation of any thread that is not waiting.
\<close>

record 'a Run =
  run_channel :: "'a Channel"
  run_accepted :: "'a list"
  run_delivered :: "'a list"

definition new_run :: "'a Run" where
  "new_run = \<lparr>run_channel = new_channel, run_accepted = [], run_delivered = []\<rparr>"

datatype 'a event = Written 'a bool | Read "'a option" | Tried "'a option" | Closed

inductive run_step :: "'a event \<Rightarrow> 'a Run \<Rightarrow> 'a Run \<Rightarrow> bool" where
  "ch_write x (run_channel s) = Some (b, c) \<Longrightarrow>
     run_step (Written x b) s
       (s\<lparr>run_channel := c, run_accepted := run_accepted s @ (if b then [x] else [])\<rparr>)"
| "ch_read (run_channel s) = Some (Inr v, c) \<Longrightarrow>
     run_step (Read v) s
       (s\<lparr>run_channel := c, run_delivered := run_delivered s @ (case v of None \<Rightarrow> [] | Some x \<Rightarrow> [x])\<rparr>)"
| "ch_tryRead (run_channel s) = (Inr v, c) \<Longrightarrow>
     run_step (Tried v) s
       (s\<lparr>run_channel := c, run_delivered := run_delivered s @ (case v of None \<Rightarrow> [] | Some x \<Rightarrow> [x])\<rparr>)"
| "run_step Closed s (s\<lparr>run_channel := ch_close (run_channel s)\<rparr>)"

inductive_cases run_step_WrittenE: "run_step (Written x b) s t"
inductive_cases run_step_ReadE: "run_step (Read v) s t"
inductive_cases run_step_TriedE: "run_step (Tried v) s t"

inductive_simps run_step_simps [simp]:
  "run_step (Written x b) s t" "run_step (Read v) s t" "run_step (Tried v) s t" "run_step Closed s t"

inductive runs :: "'a event list \<Rightarrow> 'a Run \<Rightarrow> bool" where
  runs_start: "runs [] new_run"
| runs_step: "runs es s \<Longrightarrow> run_step e s t \<Longrightarrow> runs (es @ [e]) t"

text \<open>The invariant of a run, and the events that the two value lists record.\<close>

definition run_inv :: "'a Run \<Rightarrow> bool" where
  "run_inv s \<longleftrightarrow> ch_inv (run_channel s) \<and> run_accepted s = run_delivered s @ pending (run_channel s)"

lemma run_step_inv: "run_step e s t \<Longrightarrow> run_inv s \<Longrightarrow> run_inv t"
  by (cases rule: run_step.cases, assumption)
    (auto simp: run_inv_def dest: ch_write_Some ch_read_Some ch_tryRead_result)

lemma runs_inv: "runs es s \<Longrightarrow> run_inv s"
proof (induction rule: runs.induct)
  case runs_start
  show ?case by (simp add: run_inv_def new_run_def)
qed (rule run_step_inv)

fun written :: "'a event \<Rightarrow> 'a list" where
  "written (Written x True) = [x]"
| "written _ = []"

fun delivered :: "'a event \<Rightarrow> 'a list" where
  "delivered (Read (Some x)) = [x]"
| "delivered (Tried (Some x)) = [x]"
| "delivered _ = []"

lemma runs_events:
  "runs es s \<Longrightarrow> run_accepted s = concat (map written es) \<and> run_delivered s = concat (map delivered es)"
proof (induction rule: runs.induct)
  case (runs_step es s e t)
  from runs_step.hyps(2) show ?case
    by cases (use runs_step.IH in \<open>auto split: option.splits\<close>)
qed (simp add: new_run_def)

text \<open>
  Whatever the threads do: what was delivered is what was accepted, in that order, up to the one
  value that may still be in the slot; and after the channel is exhausted nothing is missing.
\<close>

text \<open>
  C17: In every interleaving of readers, writers and closers the delivered values are the
  accepted ones in order, up to the one still in the slot.
\<close>

theorem channel_is_fifo:
  assumes "runs es s"
  shows "(\<exists>rest. concat (map written es) = concat (map delivered es) @ rest \<and> length rest \<le> 1)
    \<and> (ch_isExhausted (run_channel s) \<longrightarrow> concat (map written es) = concat (map delivered es))"
proof -
  from runs_inv [OF assms] have inv: "ch_inv (run_channel s)"
    and eq: "run_accepted s = run_delivered s @ pending (run_channel s)"
    by (simp_all add: run_inv_def)
  from runs_events [OF assms] eq have
    "concat (map written es) = concat (map delivered es) @ pending (run_channel s)" by metis
  with pending_length [of "run_channel s"] isExhausted_pending [OF inv] show ?thesis by auto
qed

definition sample_run :: "nat event list" where
  "sample_run = [Written 5 True, Tried (Some 5), Written 6 True, Closed, Written 7 False, Read (Some 6), Read None]"

lemma sample_run_runs: "\<exists>s. runs sample_run s \<and> ch_isExhausted (run_channel s)"
proof -
  define at :: "bool \<Rightarrow> nat option \<Rightarrow> nat list \<Rightarrow> nat list \<Rightarrow> nat Run" where
    "at = (\<lambda>cl v a d. \<lparr>run_channel = \<lparr>ch_isClosed = cl, ch_isEmpty = (v = None), ch_value = v\<rparr>,
       run_accepted = a, run_delivered = d\<rparr>)"
  note op = at_def ch_write_def ch_read_def ch_tryRead_def take_value_def ch_close_def
  have "runs [] (at False None [] [])"
    using runs_start by (simp add: at_def new_run_def new_channel_def)
  from runs_step [OF this, of "Written 5 True" "at False (Some 5) [5] []"]
  have "runs [Written 5 True] (at False (Some 5) [5] [])" by (simp add: op)
  from runs_step [OF this, of "Tried (Some 5)" "at False None [5] [5]"]
  have "runs (take 2 sample_run) (at False None [5] [5])" by (simp add: op sample_run_def)
  from runs_step [OF this, of "Written 6 True" "at False (Some 6) [5, 6] [5]"]
  have "runs (take 3 sample_run) (at False (Some 6) [5, 6] [5])" by (simp add: op sample_run_def)
  from runs_step [OF this, of Closed "at True (Some 6) [5, 6] [5]"]
  have "runs (take 4 sample_run) (at True (Some 6) [5, 6] [5])" by (simp add: op sample_run_def)
  from runs_step [OF this, of "Written 7 False" "at True (Some 6) [5, 6] [5]"]
  have "runs (take 5 sample_run) (at True (Some 6) [5, 6] [5])" by (simp add: op sample_run_def)
  from runs_step [OF this, of "Read (Some 6)" "at True None [5, 6] [5, 6]"]
  have "runs (take 6 sample_run) (at True None [5, 6] [5, 6])" by (simp add: op sample_run_def)
  from runs_step [OF this, of "Read None" "at True None [5, 6] [5, 6]"]
  have "runs sample_run (at True None [5, 6] [5, 6])" by (simp add: op sample_run_def)
  then show ?thesis by (intro exI [of _ "at True None [5, 6] [5, 6]"]) (simp add: at_def ch_isExhausted_def)
qed

lemma channel_is_fifo_witness:
  "\<exists>rest. concat (map written sample_run) = concat (map delivered sample_run) @ rest \<and> length rest \<le> 1"
  using sample_run_runs channel_is_fifo by blast

text \<open>
  After \<open>close\<close>, a value that is still in the slot is returned by \<open>read\<close> but never by
  \<open>tryRead\<close>: the loop of \<open>readMessages\<close>, which polls, leaves it there.
\<close>

theorem tryRead_misses_pending:
  assumes "ch_write x c = Some (True, d)" and "ch_inv c"
  shows "ch_tryRead (ch_close d) = (Inr None, ch_close d)
    \<and> (\<exists>e. ch_read (ch_close d) = Some (Inr (Some x), e) \<and> ch_isExhausted e)
    \<and> \<not> ch_isExhausted (ch_close d)"
  using assms
  by (auto simp: ch_write_def ch_tryRead_def ch_read_def ch_close_def take_value_def ch_isExhausted_def
      split: if_splits)

lemma tryRead_misses_pending_witness:
  "let d = snd (the (ch_write (3 :: nat) new_channel))
   in ch_tryRead (ch_close d) = (Inr None, ch_close d)
    \<and> (\<exists>e. ch_read (ch_close d) = Some (Inr (Some 3), e) \<and> ch_isExhausted e)
    \<and> \<not> ch_isExhausted (ch_close d)"
  unfolding Let_def
  by (rule tryRead_misses_pending [of _ new_channel]) (simp_all add: ch_write_def new_channel_def ch_inv_def)

end
