(* ===== verification/DebugContexts.thy ===== *)
theory DebugContexts
  imports AluMem WorkGroups Breakpoints Channels
begin

text \<open>
  The emulator's side of the debugger (\<open>emulator/src/flow/debug_context.h\<close>,
  \<open>debug_context.cpp\<close>) with the messages of \<open>common/debugger/message\<close>, the execution context of
  \<open>common/debugger/exec\<close> and the register dump of \<open>common/model/reg/RegData.h\<close>.

  The debugger runs in other threads and talks to the emulator over two channels. What it does, and
  when, is a script: the operations of its threads in the order in which they take effect, with a
  \<open>Yield\<close> where the emulator gets to try its next channel operation. An operation of the emulator
  that waits lets the script go on; if the script ends first, the wait never ends. The lists
  \<open>ln_sent\<close>, \<open>ln_taken\<close> and \<open>ln_received\<close> record the messages that passed the channels; the code
  does not have them and no operation reads them. An \<open>int\<close> of the C++ code is the word of its bits.
\<close>

section \<open>Messages\<close>

datatype ExecutionMode = STOP | PAUSE | RUN | STEP | EXC

record ExecutionInfo =
  ei_wfSize :: u32
  ei_sizeX :: u32
  ei_sizeY :: u32
  ei_sizeZ :: u32

record ExecutionContext =
  ec_wavefrontId :: u32
  ec_workItemX :: u32
  ec_workItemY :: u32
  ec_workItemZ :: u32
  ec_address :: u64
  ec_info :: ExecutionInfo

record RegData =
  rd_sFile :: "u32 list"
  rd_vFile :: "u32 list"
  rd_RELADDR :: u64
  rd_EXEC :: u64
  rd_VCC :: u64
  rd_M0 :: u32
  rd_SIMM16 :: u32
  rd_SCC :: bool

datatype DebuggerMessage =
  OnStop
| OnPause ExecutionContext
| RequestMemory u64
| RequestRegisters ExecutionContext
| SetBreakpoint Breakpoint bool
| Run bool
| Stop
| OnRespondMemory u64 "u8 list"
| OnRespondRegisters RegData
| OnException string

section \<open>The channels and the other threads\<close>

datatype action = Send DebuggerMessage | Receive | Close_in | Close_out | Yield

record Link =
  ln_out :: "DebuggerMessage Channel"
  ln_in :: "DebuggerMessage Channel"
  ln_script :: "action list"
  ln_sent :: "DebuggerMessage list"
  ln_taken :: "DebuggerMessage list"
  ln_received :: "DebuggerMessage list"

definition new_link :: "action list \<Rightarrow> Link" where
  "new_link script = \<lparr>ln_out = new_channel, ln_in = new_channel, ln_script = script,
     ln_sent = [], ln_taken = [], ln_received = []\<rparr>"

fun act :: "action \<Rightarrow> Link \<Rightarrow> Link option" where
  "act (Send m) l = (case ch_write m (ln_in l) of
      None \<Rightarrow> None | Some (_, c) \<Rightarrow> Some (l\<lparr>ln_in := c\<rparr>))"
| "act Receive l = (case ch_read (ln_out l) of
      Some (Inr v, c) \<Rightarrow> Some (l\<lparr>ln_out := c,
        ln_received := ln_received l @ (case v of None \<Rightarrow> [] | Some m \<Rightarrow> [m])\<rparr>)
    | _ \<Rightarrow> None)"
| "act Close_in l = Some (l\<lparr>ln_in := ch_close (ln_in l)\<rparr>)"
| "act Close_out l = Some (l\<lparr>ln_out := ch_close (ln_out l)\<rparr>)"
| "act Yield l = None"

text \<open>
  The threads act until the script yields or its next operation waits; then the emulator's operation
  is tried. An operation that waits gives the threads another turn.
\<close>

fun await :: "(Link \<Rightarrow> ('a result \<times> Link) option) \<Rightarrow> action list \<Rightarrow> Link \<Rightarrow> 'a result \<times> Link" where
  "await op [] l = (case op l of
      Some (r, l') \<Rightarrow> (r, l'\<lparr>ln_script := []\<rparr>)
    | None \<Rightarrow> (Inl Waits_forever, l\<lparr>ln_script := []\<rparr>))"
| "await op (a # as) l = (case act a l of
      Some l' \<Rightarrow> await op as l'
    | None \<Rightarrow> (case op l of
        Some (r, l') \<Rightarrow> (r, l'\<lparr>ln_script := if a = Yield then as else a # as\<rparr>)
      | None \<Rightarrow> if a = Yield then await op as l else (Inl Waits_forever, l\<lparr>ln_script := a # as\<rparr>)))"

definition try_isExhausted :: "Link \<Rightarrow> (bool result \<times> Link) option" where
  "try_isExhausted l = Some (Inr (ch_isExhausted (ln_in l)), l)"

text \<open>What a read of the incoming channel does to the link, once it does not wait.\<close>

definition take_message ::
  "DebuggerMessage option result \<times> DebuggerMessage Channel \<Rightarrow> Link \<Rightarrow> DebuggerMessage option result \<times> Link" where
  "take_message rc l = (case rc of (r, c) \<Rightarrow>
     (r, l\<lparr>ln_in := c, ln_taken := ln_taken l @ (case r of Inr (Some m) \<Rightarrow> [m] | _ \<Rightarrow> [])\<rparr>))"

definition try_tryRead :: "Link \<Rightarrow> (DebuggerMessage option result \<times> Link) option" where
  "try_tryRead l = Some (take_message (ch_tryRead (ln_in l)) l)"

definition try_read :: "Link \<Rightarrow> (DebuggerMessage option result \<times> Link) option" where
  "try_read l = map_option (\<lambda>rc. take_message rc l) (ch_read (ln_in l))"

definition try_write :: "DebuggerMessage \<Rightarrow> Link \<Rightarrow> (bool result \<times> Link) option" where
  "try_write m l = map_option (\<lambda>(b, c).
     (Inr b, l\<lparr>ln_out := c, ln_sent := ln_sent l @ (if b then [m] else [])\<rparr>)) (ch_write m (ln_out l))"

section \<open>The debug context\<close>

text \<open>
  The state that the debug context and the compute unit work on: the current work-group (the
  pointer \<open>currentWorkGroup\<close>), the device memory, and the debug context itself.
\<close>

record DebugContext =
  dc_link :: Link
  dc_breakpoints :: BreakpointStorage
  dc_mode :: ExecutionMode

record Emulation =
  em_group :: WorkGroup
  em_store :: Storage
  em_debug :: DebugContext

definition new_debug :: "Link \<Rightarrow> BreakpointStorage \<Rightarrow> DebugContext" where
  "new_debug link bps = \<lparr>dc_link = link, dc_breakpoints = bps, dc_mode = RUN\<rparr>"

definition setWorkGroup :: "WorkGroup \<Rightarrow> Emulation \<Rightarrow> Emulation" where
  "setWorkGroup wg s = s\<lparr>em_group := wg\<rparr>"

definition on_channel :: "(Link \<Rightarrow> ('a result \<times> Link) option) \<Rightarrow> (Emulation, 'a) M" where
  "on_channel op s =
     (let l = dc_link (em_debug s)
      in case await op (ln_script l) l of (r, l') \<Rightarrow> (r, s\<lparr>em_debug := (em_debug s)\<lparr>dc_link := l'\<rparr>\<rparr>))"

definition send_out :: "DebuggerMessage \<Rightarrow> (Emulation, unit) M" where
  "send_out m = bindM (on_channel (try_write m)) (\<lambda>_. retM ())"

definition set_mode :: "ExecutionMode \<Rightarrow> (Emulation, unit) M" where
  "set_mode mode = modifyM (\<lambda>s. s\<lparr>em_debug := (em_debug s)\<lparr>dc_mode := mode\<rparr>\<rparr>)"

definition isTerminal :: "DebugContext \<Rightarrow> bool" where
  "isTerminal d \<longleftrightarrow> dc_mode d = STOP \<or> dc_mode d = EXC"

text \<open>The index of the work-item with the local ids of the context, 0 if there is none.\<close>

definition work_item_index :: "ExecutionContext \<Rightarrow> WorkItem list \<Rightarrow> nat" where
  "work_item_index ctx wis =
     (case find (\<lambda>i. sx64 (ec_workItemX ctx) = localIdX (wis ! i) \<and> sx64 (ec_workItemY ctx) = localIdY (wis ! i)
        \<and> sx64 (ec_workItemZ ctx) = localIdZ (wis ! i)) [0..<length wis] of None \<Rightarrow> 0 | Some i \<Rightarrow> i)"

definition getRegisters :: "ExecutionContext \<Rightarrow> WorkGroup \<Rightarrow> RegData result" where
  "getRegisters ctx wg =
     bindE (at_index (wg_wavefronts wg) (unat (sx64 (ec_wavefrontId ctx)))) (\<lambda>wf.
     let sopp = get_common_sopp_state wf;
         vStart = work_item_index ctx (wg_workItems wg) * vgprsnum wf;
         vEnd = vStart + vgprsnum wf
     in bindE (definedE (vEnd \<le> length (vectorRegFile wf)) ''vector iterator'') (\<lambda>_.
        Inr \<lparr>rd_sFile = scalarRegFile wf, rd_vFile = take (vEnd - vStart) (drop vStart (vectorRegFile wf)),
          rd_RELADDR = SOPP_RELADDR sopp, rd_EXEC = SOPP_EXEC sopp, rd_VCC = SOPP_VCC sopp,
          rd_M0 = SOPP_M0 sopp, rd_SIMM16 = SOPP_SIMM16 sopp, rd_SCC = SOPP_SCC sopp\<rparr>))"

definition createContext :: "u32 \<Rightarrow> Wavefront \<Rightarrow> WorkGroup \<Rightarrow> ExecutionContext result" where
  "createContext address w wg =
     bindE (get_workitem_for_wf 0 (wf_id w) wg) (\<lambda>wi.
     Inr \<lparr>ec_wavefrontId = of_nat (wf_id w),
       ec_workItemX = to_u32 (localIdX wi), ec_workItemY = to_u32 (localIdY wi), ec_workItemZ = to_u32 (localIdZ wi),
       ec_address = to_u64 address,
       ec_info = \<lparr>ei_wfSize = of_nat (length (wg_wavefronts wg)), ei_sizeX = to_u32 (wg_sizeX wg),
         ei_sizeY = to_u32 (wg_sizeY wg), ei_sizeZ = to_u32 (wg_sizeZ wg)\<rparr>\<rparr>)"

definition unless_terminal :: "(Emulation, unit) M \<Rightarrow> (Emulation, unit) M" where
  "unless_terminal m s = (if isTerminal (em_debug s) then retM () s else m s)"

definition edit_breakpoint :: "Breakpoint \<Rightarrow> bool \<Rightarrow> (Emulation, unit) M" where
  "edit_breakpoint b removed = modifyM (\<lambda>s. s\<lparr>em_debug := (em_debug s)\<lparr>dc_breakpoints :=
     (if removed then removeBreakpoint else addBreakpoint) b (dc_breakpoints (em_debug s))\<rparr>\<rparr>)"

fun processMessage :: "DebuggerMessage \<Rightarrow> (Emulation, unit) M" where
  "processMessage (RequestMemory address) =
     bindM (liftM (\<lambda>s. read_data address 0 512 True (em_store s))) (\<lambda>mem.
     send_out (OnRespondMemory address mem))"
| "processMessage (RequestRegisters ctx) =
     bindM (liftM (\<lambda>s. getRegisters ctx (em_group s))) (\<lambda>data. send_out (OnRespondRegisters data))"
| "processMessage (SetBreakpoint b removed) = unless_terminal (edit_breakpoint b removed)"
| "processMessage (Run stepping) = unless_terminal (set_mode (if stepping then STEP else RUN))"
| "processMessage Stop = set_mode STOP"
| "processMessage _ = retM ()"

text \<open>
  The loops over the incoming messages. Each round takes a message that the script sends, so the
  loops end: \<open>potential\<close> counts the messages that can still be taken.
\<close>

definition sends :: "action list \<Rightarrow> nat" where
  "sends as = length (filter (\<lambda>a. case a of Send _ \<Rightarrow> True | _ \<Rightarrow> False) as)"

definition slot :: "Link \<Rightarrow> nat" where
  "slot l = length (pending (ln_in l))"

definition potential :: "Emulation \<Rightarrow> nat" where
  "potential s = (let l = dc_link (em_debug s) in sends (ln_script l) + slot l)"

lemma act_slot: "act a l = Some l' \<Longrightarrow> slot l' \<le> slot l + sends [a]"
  by (cases a) (auto simp: slot_def sends_def pending_def ch_write_def ch_close_def split: if_splits option.splits sum.splits)

lemma sends_Cons: "sends (a # as) = sends [a] + sends as"
  by (simp add: sends_def)

lemma await_slot:
  assumes op: "\<And>l r l'. op l = Some (r, l') \<Longrightarrow> slot l' + d r \<le> slot l" and "d (Inl Waits_forever) = 0"
    and "await op as l = (r, l')"
  shows "sends (ln_script l') + slot l' + d r \<le> sends as + slot l"
  using assms(3)
proof (induction as arbitrary: l)
  case Nil
  then show ?case
    using op [of l] assms(2) by (auto simp: slot_def sends_def split: option.splits)
next
  case (Cons a as)
  show ?case
  proof (cases "act a l")
    case None
    then show ?thesis
      using Cons.prems Cons.IH [of l] op [of l] assms(2) sends_Cons [of a as]
      by (auto simp: slot_def split: option.splits if_splits)
  next
    case (Some k)
    with Cons.prems Cons.IH [of k] act_slot [OF Some] sends_Cons [of a as] show ?thesis by simp
  qed
qed

definition took :: "DebuggerMessage option result \<Rightarrow> nat" where
  "took r = (case r of Inr (Some m) \<Rightarrow> 1 | _ \<Rightarrow> 0)"

lemma took_Inl [simp]: "took (Inl e) = 0"
  by (simp add: took_def)

lemma channel_ops_slot:
  "try_isExhausted l = Some (b, l') \<Longrightarrow> slot l' = slot l"
  "try_write m l = Some (b, l') \<Longrightarrow> slot l' = slot l"
  "try_tryRead l = Some (r, l') \<Longrightarrow> slot l' + took r \<le> slot l"
  "try_read l = Some (r, l') \<Longrightarrow> slot l' + took r \<le> slot l"
  by (auto simp: try_isExhausted_def try_write_def try_tryRead_def try_read_def take_message_def ch_tryRead_def
      ch_read_def take_value_def slot_def pending_def took_def split: option.splits if_splits)

lemma on_channel_potential:
  assumes "\<And>l r l'. op l = Some (r, l') \<Longrightarrow> slot l' + d r \<le> slot l" and "d (Inl Waits_forever) = 0"
    and "on_channel op s = (r, t)"
  shows "potential t + d r \<le> potential s"
  using assms(3) await_slot [of op d, OF assms(1,2)]
  by (auto simp: on_channel_def potential_def Let_def split: prod.splits)

lemma channel_potential:
  "on_channel try_isExhausted s = (b, t) \<Longrightarrow> potential t \<le> potential s"
  "on_channel (try_write m) s = (b, t) \<Longrightarrow> potential t \<le> potential s"
  "on_channel try_tryRead s = (r, t) \<Longrightarrow> potential t + took r \<le> potential s"
  "on_channel try_read s = (r, t) \<Longrightarrow> potential t + took r \<le> potential s"
proof -
  show "potential t \<le> potential s" if "on_channel try_isExhausted s = (b, t)"
    using on_channel_potential [of try_isExhausted "\<lambda>_. 0", OF _ _ that] channel_ops_slot(1) by simp
  show "potential t \<le> potential s" if "on_channel (try_write m) s = (b, t)"
    using on_channel_potential [of "try_write m" "\<lambda>_. 0", OF _ _ that] channel_ops_slot(2) by simp
  show "potential t + took r \<le> potential s" if "on_channel try_tryRead s = (r, t)"
    using on_channel_potential [of try_tryRead took, OF _ _ that] channel_ops_slot(3) by simp
  show "potential t + took r \<le> potential s" if "on_channel try_read s = (r, t)"
    using on_channel_potential [of try_read took, OF _ _ that] channel_ops_slot(4) by simp
qed

lemma send_out_potential: "keeps (\<lambda>s. potential s \<le> n) (send_out m)"
proof -
  have "keeps (\<lambda>s. potential s \<le> n) (on_channel (try_write m))"
    using channel_potential(2) [OF prod.collapse [symmetric]] le_trans unfolding keeps_def by blast
  then show ?thesis unfolding send_out_def by (intro keeps_intros)
qed

lemma processMessage_potential: "keeps (\<lambda>s. potential s \<le> n) (processMessage m)"
proof (cases m)
  case (SetBreakpoint b r)
  then show ?thesis
    by (simp add: keeps_def unless_terminal_def edit_breakpoint_def modifyM_def retM_def potential_def Let_def)
next
  case (Run b)
  then show ?thesis
    by (simp add: keeps_def unless_terminal_def set_mode_def modifyM_def retM_def potential_def Let_def)
next
  case Stop
  then show ?thesis by (simp add: keeps_def set_mode_def modifyM_def potential_def Let_def)
qed (auto intro!: keeps_intros send_out_potential)

lemma processMessage_potential_le: "processMessage m s = (r, t) \<Longrightarrow> potential t \<le> potential s"
  using keepsD [OF processMessage_potential [of "potential s" m], of s] by simp

function readMessages :: "(Emulation, unit) M" where
  "readMessages s =
     bindM (on_channel try_isExhausted) (\<lambda>exhausted s.
     if exhausted then retM () s
     else bindM (on_channel try_tryRead) (\<lambda>msg s.
       case msg of None \<Rightarrow> retM () s
       | Some m \<Rightarrow> bindM (processMessage m) (\<lambda>_. readMessages) s) s) s"
  by pat_completeness auto

termination
  by (relation "measure potential")
    (auto simp: took_def dest!: channel_potential processMessage_potential_le)

declare readMessages.simps [simp del]

function waitForResume :: "(Emulation, unit) M" where
  "waitForResume s =
     bindM (on_channel try_isExhausted) (\<lambda>exhausted s.
     if \<not> exhausted \<and> dc_mode (em_debug s) = PAUSE then
       bindM (on_channel try_read) (\<lambda>msg s.
       case msg of None \<Rightarrow> retM () s
       | Some m \<Rightarrow> bindM (processMessage m) (\<lambda>_. waitForResume) s) s
     else readMessages s) s"
  by pat_completeness auto

termination
  by (relation "measure potential")
    (auto simp: took_def dest!: channel_potential processMessage_potential_le)

declare waitForResume.simps [simp del]

definition processInstruction :: "ExecutionContext \<Rightarrow> (Emulation, unit) M" where
  "processInstruction ctx = unless_terminal (\<lambda>s.
     (if dc_mode (em_debug s) = STEP \<or> hasBreakpoint (to_u32 (ec_address ctx)) (dc_breakpoints (em_debug s))
      then bindM (set_mode PAUSE) (\<lambda>_. bindM (send_out (OnPause ctx)) (\<lambda>_. waitForResume)) s
      else retM () s))"

definition processException :: "string \<Rightarrow> ExecutionContext \<Rightarrow> (Emulation, unit) M" where
  "processException what ctx = bindM (set_mode EXC) (\<lambda>_. send_out (OnException what))"

end
