(* ===== verification/WorkGroupProps.thy ===== *)
theory WorkGroupProps
  imports WorkGroups WavefrontProps
begin

text \<open>
  What the initialisation of a work-group gives: the work-items are the points of the local index
  space, each once; the wavefronts split them into blocks of at most 64; and every wavefront has the
  id 0 and the local ids of the first work-items, whatever block it stands for.
\<close>

section \<open>Work-items\<close>

definition local_points :: "nat \<Rightarrow> nat \<Rightarrow> nat \<Rightarrow> WorkItem list" where
  "local_points X Y Z =
     concat (map (\<lambda>x. concat (map (\<lambda>y. map (\<lambda>z. \<lparr>localIdX = of_nat x, localIdY = of_nat y,
       localIdZ = of_nat z\<rparr>) [0..<Z]) [0..<Y])) [0..<X])"

lemma int_range_Inr: "unat n < 2 ^ 31 \<Longrightarrow> int_range n = Inr (map of_nat [0..<unat n])"
  by (simp add: int_range_def)

lemma init_workitems_points:
  assumes "unat (wg_sizeX wg) < 2 ^ 31" and "unat (wg_sizeY wg) < 2 ^ 31" and "unat (wg_sizeZ wg) < 2 ^ 31"
  shows "init_workitems wg = Inr (wg\<lparr>wg_workItems := wg_workItems wg
    @ local_points (unat (wg_sizeX wg)) (unat (wg_sizeY wg)) (unat (wg_sizeZ wg))\<rparr>)"
  using assms
  by (simp add: init_workitems_def int_range_Inr mapE_map mapE_all_Inr [where g = g for g] local_points_def
      comp_def)

lemma length_concat_const: "length (concat (map (\<lambda>x. f x) xs)) = length xs * n"
  if "\<And>x. x \<in> set xs \<Longrightarrow> length (f x) = n"
  using that by (induction xs) auto

lemma length_local_points: "length (local_points X Y Z) = X * Y * Z"
  unfolding local_points_def
  by (subst length_concat_const [where n = "Y * Z"]; (subst length_concat_const [where n = Z])?; simp)

lemma distinct_concat_map:
  assumes "distinct xs" and "\<And>x. x \<in> set xs \<Longrightarrow> distinct (f x)"
    and "\<And>x y v. x \<in> set xs \<Longrightarrow> y \<in> set xs \<Longrightarrow> v \<in> set (f x) \<Longrightarrow> v \<in> set (f y) \<Longrightarrow> x = y"
  shows "distinct (concat (map f xs))"
  using assms
proof (induction xs)
  case (Cons a xs)
  have "distinct (concat (map f xs))" by (rule Cons.IH) (use Cons.prems in auto)
  moreover have "v \<notin> set (f x)" if "x \<in> set xs" and "v \<in> set (f a)" for x v
    using Cons.prems(3) [of a x v] Cons.prems(1) that by auto
  then have "set (f a) \<inter> (\<Union>x\<in>set xs. set (f x)) = {}" by blast
  moreover have "distinct (f a)" by (simp add: Cons.prems(2))
  ultimately show ?case by simp
qed simp

lemma set_local_points:
  "set (local_points X Y Z) = {\<lparr>localIdX = of_nat x, localIdY = of_nat y, localIdZ = of_nat z\<rparr> | x y z.
     x < X \<and> y < Y \<and> z < Z}"
  unfolding local_points_def set_concat set_map set_upt
  by auto (blast, intro bexI image_eqI [OF refl], auto)

lemma of_nat_u64_inj: "a < 2 ^ 31 \<Longrightarrow> b < 2 ^ 31 \<Longrightarrow> (of_nat a :: u64) = of_nat b \<longleftrightarrow> a = b"
  by (simp add: word_of_nat_eq_iff take_bit_nat_eq_self)

lemma local_points_distinct:
  assumes "X < 2 ^ 31" and "Y < 2 ^ 31" and "Z < 2 ^ 31"
  shows "distinct (local_points X Y Z)"
  unfolding local_points_def using assms
  by (auto intro!: distinct_concat_map simp: distinct_map inj_on_def of_nat_u64_inj)

theorem work_items_are_local_points:
  assumes "unat (wg_sizeX wg) < 2 ^ 31" and "unat (wg_sizeY wg) < 2 ^ 31" and "unat (wg_sizeZ wg) < 2 ^ 31"
    and "wg_workItems wg = []"
  shows "\<exists>wg'. init_workitems wg = Inr wg' \<and> distinct (wg_workItems wg')
    \<and> length (wg_workItems wg') = unat (wg_sizeX wg) * unat (wg_sizeY wg) * unat (wg_sizeZ wg)
    \<and> set (wg_workItems wg') = {\<lparr>localIdX = x, localIdY = y, localIdZ = z\<rparr> | x y z.
        x < wg_sizeX wg \<and> y < wg_sizeY wg \<and> z < wg_sizeZ wg}"
proof -
  have below: "x < n \<longleftrightarrow> (\<exists>k < unat n. x = of_nat k)" for x n :: u64
  proof
    assume "x < n"
    then show "\<exists>k < unat n. x = of_nat k"
      by (intro exI [of _ "unat x"]) (simp add: word_less_nat_alt)
  next
    assume "\<exists>k < unat n. x = of_nat k"
    then obtain k where "k < unat n" "x = of_nat k" by blast
    moreover have "unat n < 2 ^ 64" using unsigned_less [of n] by simp
    ultimately show "x < n"
      by (simp add: word_less_nat_alt unsigned_of_nat take_bit_nat_eq_self)
  qed
  show ?thesis
    unfolding init_workitems_points [OF assms(1-3)]
    using local_points_distinct [OF assms(1-3)] assms(4)
    by (simp add: length_local_points set_local_points below) blast
qed


section \<open>Wavefronts\<close>

lemma wavefront_sizes_sum: "sum_list (wavefront_sizes n) = n"
  by (induction n rule: wavefront_sizes.induct) (subst wavefront_sizes.simps, simp)

lemma wavefront_sizes_bound: "k \<in> set (wavefront_sizes n) \<Longrightarrow> 0 < k \<and> k \<le> WAVEFRONT_SIZE"
proof (induction n rule: wavefront_sizes.induct)
  case (1 n)
  have "k \<in> set (if n = 0 then [] else if WAVEFRONT_SIZE \<le> n
      then WAVEFRONT_SIZE # wavefront_sizes (n - WAVEFRONT_SIZE) else [n])"
    using "1.prems" by (subst (asm) wavefront_sizes.simps)
  with "1.IH" show ?case by (auto split: if_splits)
qed

text \<open>The three registers of a lane that hold its local id.\<close>

definition read_ids :: "nat \<Rightarrow> Wavefront \<Rightarrow> (u32 \<times> u32 \<times> u32) result" where
  "read_ids i w = bindE (read_vgpr i 0 w) (\<lambda>x. bindE (read_vgpr i 1 w) (\<lambda>y.
     bindE (read_vgpr i 2 w) (\<lambda>z. Inr (x, y, z))))"

definition write_ids :: "nat \<Rightarrow> u32 \<times> u32 \<times> u32 \<Rightarrow> Wavefront \<Rightarrow> Wavefront result" where
  "write_ids i v w = (case v of (x, y, z) \<Rightarrow>
     bindE (set_vgpr i 0 x w) (\<lambda>w. bindE (set_vgpr i 1 y w) (\<lambda>w. set_vgpr i 2 z w)))"

definition work_item_ids :: "WorkItem \<Rightarrow> u32 \<times> u32 \<times> u32" where
  "work_item_ids wi = (to_u32 (localIdX wi), to_u32 (localIdY wi), to_u32 (localIdZ wi))"

lemma set_vgpr_iff:
  "set_vgpr i k v w = Inr w' \<longleftrightarrow> i * vgprsnum w + k < length (vectorRegFile w)
    \<and> w' = w\<lparr>vectorRegFile := (vectorRegFile w)[i * vgprsnum w + k := v]\<rparr>"
  by (auto simp: set_vgpr_def result_simps Let_def)

lemma write_ids_iff:
  "write_ids i (x, y, z) w = Inr w' \<longleftrightarrow> (let b = i * vgprsnum w in b + 2 < length (vectorRegFile w)
    \<and> w' = w\<lparr>vectorRegFile := (vectorRegFile w)[b := x, b + 1 := y, b + 2 := z]\<rparr>)"
  by (auto simp: write_ids_def result_simps set_vgpr_iff Let_def)

lemma lane_registers_disjoint:
  assumes "i \<noteq> j" and "3 \<le> n" and "k < 3" and "l < 3"
  shows "i * n + k \<noteq> j * n + (l :: nat)"
  using lanes_disjoint [OF assms(1), of 0 3 n] assms(2-4) by auto

interpretation ids: lane_file "\<lambda>w. 3 \<le> vgprsnum w" read_ids write_ids "\<lambda>v. v"
proof
  fix s t :: Wavefront and i j v
  assume ok: "3 \<le> vgprsnum s" and t: "write_ids i v s = Inr t"
  obtain x y z where v: "v = (x, y, z)" by (cases v) auto
  let ?b = "i * vgprsnum s"
  from t v have t': "?b + 2 < length (vectorRegFile s)"
      "t = s\<lparr>vectorRegFile := (vectorRegFile s)[?b := x, ?b + 1 := y, ?b + 2 := z]\<rparr>"
    by (simp_all add: write_ids_iff Let_def)
  show "3 \<le> vgprsnum t" using ok by (simp add: t')
  show "read_ids i t = Inr v"
    using t' v by (simp add: read_ids_def read_vgpr_def Let_def)
  show "read_ids j t = read_ids j s" if "j \<noteq> i"
  proof -
    let ?c = "j * vgprsnum s"
    have "vectorRegFile t ! (?c + l) = vectorRegFile s ! (?c + l)" if "l < 3" for l
      using lane_registers_disjoint [of i j "vgprsnum s" 0 l] lane_registers_disjoint [of i j "vgprsnum s" 1 l]
        lane_registers_disjoint [of i j "vgprsnum s" 2 l] that ok \<open>j \<noteq> i\<close> by (simp add: t'(2))
    from this [of 0] this [of 1] this [of 2] show ?thesis
      by (simp add: read_ids_def read_vgpr_def Let_def t'(2) del: nth_list_update_eq)
  qed
qed


lemma init_lane_iff:
  "init_lane wg i w = Inr w' \<longleftrightarrow> wf_id w * WAVEFRONT_SIZE + i < length (wg_workItems wg)
    \<and> write_ids i (work_item_ids (wg_workItems wg ! (wf_id w * WAVEFRONT_SIZE + i))) w = Inr w'"
  by (auto simp: init_lane_def get_workitem_for_wf_def write_ids_def work_item_ids_def result_simps Let_def)

lemma write_ids_frame [frame_intros]: "write_ids i v w = Inr w' \<Longrightarrow> wf_frame w w'"
  by (cases v) (auto simp: write_ids_iff wf_frame_def Let_def)

lemma init_lanes:
  assumes "foldE (init_lane wg) xs w = Inr w'" and "wf_id w = 0"
  shows "foldE (\<lambda>i. write_ids i (work_item_ids (wg_workItems wg ! i))) xs w = Inr w'
    \<and> (\<forall>i \<in> set xs. i < length (wg_workItems wg))"
  using assms
proof (induction xs arbitrary: w)
  case (Cons i xs)
  then obtain u where u: "init_lane wg i w = Inr u" "foldE (init_lane wg) xs u = Inr w'"
    by (auto simp: result_simps)
  then have *: "i < length (wg_workItems wg)" "write_ids i (work_item_ids (wg_workItems wg ! i)) w = Inr u"
    using Cons.prems(2) by (auto simp: init_lane_iff)
  have "wf_id u = 0" using write_ids_frame [OF *(2)] Cons.prems(2) by (simp add: wf_frame_def)
  with Cons.IH [OF u(2)] * show ?case by simp
qed simp

lemma preload_frame: "preload b v (k, w) = Inr (k', w') \<Longrightarrow> wf_frame w w'"
  by (auto simp: preload_def result_simps intro: set_scalar_frame split: if_splits)

lemma init_args_frame: "init_args cfg w = Inr w' \<Longrightarrow> wf_frame w w'"
  by (auto simp: init_args_def result_simps wf_frame_def dest!: set_sgpr_pair_frame split: if_splits)

lemma init_wf_regs_lanes:
  assumes "init_wf_regs wg cfg w = Inr w'"
  obtains u where "wf_frame w u" "foldE (init_lane wg) [0..<wf_size u] u = Inr w'"
proof -
  from assms obtain k1 w1 k2 w2 k3 w3 w4 where
    steps: "preload (is_enabled_idx cfg) (wg_idX wg) (unat (get_user_sgpr cfg), w) = Inr (k1, w1)"
      "preload (is_enabled_idy cfg) (wg_idY wg) (k1, w1) = Inr (k2, w2)"
      "preload (is_enabled_idz cfg) (wg_idZ wg) (k2, w2) = Inr (k3, w3)"
      "init_args cfg w3 = Inr w4"
    and last: "foldE (init_lane wg) [0..<wf_size w4]
      (w4\<lparr>modeReg := set_dx10_clamp (cfg_dx10clamp cfg) (set_ieee (cfg_ieeemode cfg) (modeReg w4))\<rparr>) = Inr w'"
    by (auto simp: init_wf_regs_def result_simps Let_def)
  have "wf_frame w w4"
    using preload_frame [OF steps(1)] preload_frame [OF steps(2)] preload_frame [OF steps(3)]
      init_args_frame [OF steps(4)] by (blast intro: wf_frame_trans)
  with last show thesis
    by (intro that [of "w4\<lparr>modeReg := set_dx10_clamp (cfg_dx10clamp cfg) (set_ieee (cfg_ieeemode cfg) (modeReg w4))\<rparr>"])
      (simp_all add: wf_frame_def)
qed

lemma exec_mask:
  assumes "evaluate_exec_reg_value n = Inr e" and "i < n"
  shows "bit e i"
proof -
  have "bit (push_bit n 1 - 1 :: u64) i" if "n < 64"
    using that assms(2) mask_eq_exp_minus_1 [of n, where 'a = u64, symmetric]
    by (simp add: push_bit_of_1 bit_mask_iff)
  with assms show ?thesis
    by (auto simp: evaluate_exec_reg_value_def split: if_splits)
qed

lemma init_wavefront_spec:
  assumes "init_wavefront wg cfg n = Inr w" and "3 \<le> unat (cfg_vgprsnum cfg)" and "i < n"
  shows "wf_id w = 0 \<and> wf_size w = n \<and> work_item_masked w i \<and> i < length (wg_workItems wg)
    \<and> read_ids i w = Inr (work_item_ids (wg_workItems wg ! i))"
proof -
  let ?w0 = "new_wavefront n 0 (unat (cfg_sgprsnum cfg)) (unat (cfg_vgprsnum cfg))"
  from assms(1) obtain v e where v: "init_wf_regs wg cfg ?w0 = Inr v" and e: "evaluate_exec_reg_value n = Inr e"
      and w: "w = v\<lparr>execReg := e\<rparr>"
    by (auto simp: init_wavefront_def result_simps)
  from v obtain u where u: "wf_frame ?w0 u" "foldE (init_lane wg) [0..<wf_size u] u = Inr v"
    by (rule init_wf_regs_lanes)
  then have start: "wf_id u = 0" "wf_size u = n" "vgprsnum u = unat (cfg_vgprsnum cfg)"
    by (simp_all add: wf_frame_def new_wavefront_def)
  note lanes = init_lanes [OF u(2) start(1)]
  have "read_ids i v = Inr (work_item_ids (wg_workItems wg ! i))"
    using ids.write_all [of "\<lambda>i. work_item_ids (wg_workItems wg ! i)" "[0..<wf_size u]" u v i] lanes start assms(2,3)
    by simp
  moreover have "wf_frame u v"
    using lanes by (blast intro: wf_frame_foldE write_ids_frame)
  moreover have "bit e i" using e assms(3) by (rule exec_mask)
  ultimately show ?thesis
    using lanes start assms(3)
    by (auto simp: w wf_frame_def work_item_masked_def bit_iff_and_push_bit_not_eq_0 read_ids_def read_vgpr_def)
qed

text \<open>A configuration with registers for everything that is preloaded.\<close>

definition launchable :: "KernelConfig \<Rightarrow> bool" where
  "launchable cfg \<longleftrightarrow> 3 \<le> unat (cfg_vgprsnum cfg) \<and> 8 \<le> unat (cfg_sgprsnum cfg)
     \<and> unat (get_user_sgpr cfg) + 3 \<le> unat (cfg_sgprsnum cfg)"

lemma set_scalar_total:
  assumes "i < length (scalarRegFile w)"
  obtains w' where "set_scalar i v w = Inr w'" "length (scalarRegFile w') = length (scalarRegFile w)"
  using assms by (simp add: set_scalar_def)

lemma preload_total:
  assumes "k < length (scalarRegFile w)"
  obtains k' w' where "preload b v (k, w) = Inr (k', w')" "k' \<le> Suc k"
    "length (scalarRegFile w') = length (scalarRegFile w)"
  using assms by (cases b) (auto simp: preload_def set_scalar_def)

lemma set_sgpr_pair_total:
  assumes "i mod 2 = 0" and "Suc i < length (scalarRegFile w)"
  obtains w' where "set_sgpr_pair i v w = Inr w'" "length (scalarRegFile w') = length (scalarRegFile w)"
  using assms by (simp add: set_sgpr_pair_def set_scalar_def)

lemma init_args_total:
  assumes "8 \<le> length (scalarRegFile w)"
  obtains w' where "init_args cfg w = Inr w'"
  using assms by (cases "cfg_useargs cfg"; cases "cfg_usesetup cfg")
    (simp_all add: init_args_def set_sgpr_pair_def set_scalar_def)

lemma init_lanes_total:
  assumes "wf_id w = 0" and "length (vectorRegFile w) = 64 * vgprsnum w" and "3 \<le> vgprsnum w"
    and "\<And>i. i \<in> set xs \<Longrightarrow> i < 64 \<and> i < length (wg_workItems wg)"
  shows "\<exists>w'. foldE (init_lane wg) xs w = Inr w'"
  using assms
proof (induction xs arbitrary: w)
  case (Cons i xs)
  from Cons.prems(4) [of i] have i: "i < 64" "i < length (wg_workItems wg)" by simp_all
  have "Suc i * vgprsnum w \<le> 64 * vgprsnum w" using i(1) by (intro mult_le_mono1) simp
  then have "i * vgprsnum w + 2 < length (vectorRegFile w)"
    unfolding Cons.prems(2) using Cons.prems(3) by (simp only: mult_Suc)
  then obtain u where u: "init_lane wg i w = Inr u" and "wf_frame w u"
    using i(2) Cons.prems(1) write_ids_frame
    by (cases "work_item_ids (wg_workItems wg ! i)") (auto simp: init_lane_iff write_ids_iff Let_def wf_frame_def)
  then have "\<exists>w'. foldE (init_lane wg) xs u = Inr w'"
    by (intro Cons.IH) (use Cons.prems in \<open>auto simp: wf_frame_def\<close>)
  with u show ?case by simp
qed simp

lemma init_wf_regs_total:
  assumes "launchable cfg" and "n \<le> 64" and "n \<le> length (wg_workItems wg)"
  shows "\<exists>w. init_wf_regs wg cfg (new_wavefront n 0 (unat (cfg_sgprsnum cfg)) (unat (cfg_vgprsnum cfg))) = Inr w"
proof -
  let ?w = "new_wavefront n 0 (unat (cfg_sgprsnum cfg)) (unat (cfg_vgprsnum cfg))" and ?k = "unat (get_user_sgpr cfg)"
  have len: "length (scalarRegFile ?w) = unat (cfg_sgprsnum cfg)" by (simp add: new_wavefront_def)
  note room = assms(1) [unfolded launchable_def]
  obtain k1 w1 where 1: "preload (is_enabled_idx cfg) (wg_idX wg) (?k, ?w) = Inr (k1, w1)" "k1 \<le> Suc ?k"
      "length (scalarRegFile w1) = length (scalarRegFile ?w)"
    by (rule preload_total [of ?k ?w]) (use room len in auto)
  obtain k2 w2 where 2: "preload (is_enabled_idy cfg) (wg_idY wg) (k1, w1) = Inr (k2, w2)" "k2 \<le> Suc k1"
      "length (scalarRegFile w2) = length (scalarRegFile w1)"
    by (rule preload_total [of k1 w1]) (use room len 1 in auto)
  obtain k3 w3 where 3: "preload (is_enabled_idz cfg) (wg_idZ wg) (k2, w2) = Inr (k3, w3)"
      "length (scalarRegFile w3) = length (scalarRegFile w2)"
    by (rule preload_total [of k2 w2]) (use room len 1 2 in auto)
  obtain w4 where 4: "init_args cfg w3 = Inr w4"
    by (rule init_args_total [of w3]) (use room len 1 2 3 in auto)
  have "wf_frame ?w w4"
    using preload_frame [OF 1(1)] preload_frame [OF 2(1)] preload_frame [OF 3(1)] init_args_frame [OF 4]
    by (blast intro: wf_frame_trans)
  then have f: "wf_id w4 = 0" "wf_size w4 = n" "length (vectorRegFile w4) = 64 * vgprsnum w4"
      "vgprsnum w4 = unat (cfg_vgprsnum cfg)"
    by (simp_all add: wf_frame_def new_wavefront_def)
  then have "\<exists>w'. foldE (init_lane wg) [0..<n]
      (w4\<lparr>modeReg := set_dx10_clamp (cfg_dx10clamp cfg) (set_ieee (cfg_ieeemode cfg) (modeReg w4))\<rparr>) = Inr w'"
    by (intro init_lanes_total) (use assms(2,3) room in auto)
  then show ?thesis by (simp add: init_wf_regs_def 1(1) 2(1) 3(1) 4 Let_def f(2))
qed

lemma init_wavefronts_total:
  assumes "launchable cfg"
  shows "\<exists>wg'. init_wavefronts cfg wg = Inr wg'"
proof -
  have "\<exists>w. init_wavefront wg cfg n = Inr w" if "n \<in> set (wavefront_sizes (length (wg_workItems wg)))" for n
  proof -
    have "n \<le> 64" using wavefront_sizes_bound [OF that] by simp
    moreover have "n \<le> length (wg_workItems wg)"
      using member_le_sum_list [OF that] by (simp add: wavefront_sizes_sum)
    ultimately show ?thesis
      using init_wf_regs_total [OF assms]
      by (fastforce simp: init_wavefront_def Let_def evaluate_exec_reg_value_def)
  qed
  then have "\<exists>ws. mapE (init_wavefront wg cfg) (wavefront_sizes (length (wg_workItems wg))) = Inr ws"
    by (rule mapE_total)
  then show ?thesis by (auto simp: init_wavefronts_def)
qed

text \<open>
  Every wavefront of a work-group gets the id 0 and the local ids of the first work-items,
  whichever block it stands for.
\<close>

theorem wavefronts_start_at_item_0:
  assumes "init_wavefronts cfg wg = Inr wg'" and "wg_wavefronts wg = []"
    and "3 \<le> unat (cfg_vgprsnum cfg)" and "k < length (wg_wavefronts wg')"
    and "i < wf_size (wg_wavefronts wg' ! k)"
  shows "wf_id (wg_wavefronts wg' ! k) = 0
    \<and> wf_size (wg_wavefronts wg' ! k) = wavefront_sizes (length (wg_workItems wg)) ! k
    \<and> work_item_masked (wg_wavefronts wg' ! k) i
    \<and> read_ids i (wg_wavefronts wg' ! k) = Inr (work_item_ids (wg_workItems wg ! i))"
proof -
  from assms(1,2) obtain ws where ws: "mapE (init_wavefront wg cfg) (wavefront_sizes (length (wg_workItems wg))) = Inr ws"
      "wg_wavefronts wg' = ws"
    by (auto simp: init_wavefronts_def result_simps)
  then have klen: "k < length (wavefront_sizes (length (wg_workItems wg)))"
    using assms(4) by (simp add: mapE_Inr_length)
  with ws klen have w: "init_wavefront wg cfg (wavefront_sizes (length (wg_workItems wg)) ! k) = Inr (ws ! k)"
    by (simp add: mapE_Inr_nth)
  have "wf_size (ws ! k) = wavefront_sizes (length (wg_workItems wg)) ! k"
    using wavefront_sizes_bound [of "wavefront_sizes (length (wg_workItems wg)) ! k" "length (wg_workItems wg)"]
      init_wavefront_spec [OF w assms(3), of 0] klen by simp
  with init_wavefront_spec [OF w assms(3), of i] assms(5) show ?thesis
    by (simp add: ws(2))
qed

definition point_group :: WorkGroup where
  "point_group = projr (init_workitems (new_work_group new_code 3 2 1 0 0 0))"

definition small_config :: KernelConfig where
  "small_config = (new_config 1 0)\<lparr>cfg_sgprsnum := 8, cfg_vgprsnum := 3\<rparr>"

lemma point_group_waves:
  "returns (init_wavefronts small_config point_group)" "wg_wavefronts point_group = []"
  "length (wg_workItems point_group) = 6" "unat (cfg_vgprsnum small_config) = 3"
proof -
  have "launchable small_config" by code_simp
  then show "returns (init_wavefronts small_config point_group)"
    using init_wavefronts_total [of small_config point_group] by (auto simp: returns_def)
  show "wg_wavefronts point_group = []" and "length (wg_workItems point_group) = 6"
    unfolding point_group_def
    by (subst init_workitems_points; simp add: new_work_group_def length_local_points)+
  show "unat (cfg_vgprsnum small_config) = 3" by (simp add: small_config_def new_config_def)
qed

lemma work_items_are_local_points_witness:
  "\<exists>wg'. init_workitems (new_work_group new_code 3 2 1 0 0 0) = Inr wg' \<and> distinct (wg_workItems wg')
    \<and> length (wg_workItems wg') = 3 * 2 * 1
    \<and> set (wg_workItems wg') = {\<lparr>localIdX = x, localIdY = y, localIdZ = z\<rparr> | x y z. x < 3 \<and> y < 2 \<and> z < 1}"
  using work_items_are_local_points [of "new_work_group new_code 3 2 1 0 0 0"]
  by (simp add: new_work_group_def)

lemma wavefronts_start_at_item_0_witness:
  "let ws = wg_wavefronts (projr (init_wavefronts small_config point_group))
   in wf_id (ws ! 0) = 0 \<and> wf_size (ws ! 0) = wavefront_sizes (length (wg_workItems point_group)) ! 0
    \<and> work_item_masked (ws ! 0) 2 \<and> read_ids 2 (ws ! 0) = Inr (work_item_ids (wg_workItems point_group ! 2))"
proof -
  let ?wg = "projr (init_wavefronts small_config point_group)"
  note run = returnsD [OF point_group_waves(1)]
  have six: "wavefront_sizes 6 = [6]" by (subst wavefront_sizes.simps) simp
  from run point_group_waves(2,3) six obtain ws where ws: "mapE (init_wavefront point_group small_config) [6] = Inr ws"
      "wg_wavefronts ?wg = ws"
    by (cases "mapE (init_wavefront point_group small_config) [6]") (simp_all add: init_wavefronts_def)
  then have len: "0 < length (wg_wavefronts ?wg)" using mapE_Inr_length [OF ws(1)] by simp
  have "init_wavefront point_group small_config 6 = Inr (ws ! 0)"
    using mapE_Inr_nth [OF ws(1), of 0] by simp
  then have "wf_size (wg_wavefronts ?wg ! 0) = 6"
    using init_wavefront_spec [of point_group small_config 6 "ws ! 0" 0] point_group_waves(4) ws(2) by simp
  then show ?thesis
    unfolding Let_def using wavefronts_start_at_item_0 [OF run point_group_waves(2) _ len, of 2] point_group_waves(4)
    by simp
qed

end
