(* ===== verification/DebugContextProps.thy ===== *)
theory DebugContextProps
  imports DebugContexts WorkGroupProps
begin

text \<open>
  What the debug context guarantees to the emulation it interrupts: it never changes the work-group
  or the memory, its mode and breakpoints are the fold of the messages in the order in which they
  were taken, the messages it sent reach the debugger in order, and an instruction is let through
  only in a mode that is not \<open>PAUSE\<close>, unless the debugger has closed its channel.
\<close>

section \<open>Invariants of the loops\<close>

lemma await_induct:
  assumes "await op as l = (r, l')" and "P l"
    and act: "\<And>a l k. act a l = Some k \<Longrightarrow> P l \<Longrightarrow> P k"
    and script: "\<And>l as. P l \<Longrightarrow> P (l\<lparr>ln_script := as\<rparr>)"
  shows "(\<exists>k k'. P k \<and> op k = Some (r, k') \<and> l' = k'\<lparr>ln_script := ln_script l'\<rparr>)
    \<or> (r = Inl Waits_forever \<and> P l')"
  using assms(1,2)
proof (induction as arbitrary: l)
  case Nil
  then show ?case using script by (auto split: option.splits)
next
  case (Cons a as)
  show ?case
  proof (cases "act a l")
    case None
    then show ?thesis
      using Cons.prems Cons.IH [of l] script
      by (cases "op l") (fastforce split: if_splits)+
  next
    case (Some k)
    then show ?thesis using Cons.IH [of k] Cons.prems act [OF Some] by simp
  qed
qed

text \<open>A predicate of the link that the other threads keep, across one operation of the emulator.\<close>

definition on_link :: "(Link \<Rightarrow> bool) \<Rightarrow> Emulation \<Rightarrow> bool" where
  "on_link P s \<longleftrightarrow> P (dc_link (em_debug s))"

definition threads_keep :: "(Link \<Rightarrow> bool) \<Rightarrow> bool" where
  "threads_keep P \<longleftrightarrow> (\<forall>a l k. act a l = Some k \<longrightarrow> P l \<longrightarrow> P k) \<and> (\<forall>l as. P (l\<lparr>ln_script := as\<rparr>) = P l)"

lemma on_channel_link:
  assumes "on_channel op s = (r, t)" and "on_link P s" and "threads_keep P"
  obtains k k' where "P k" "op k = Some (r, k')" "dc_link (em_debug t) = k'\<lparr>ln_script := ln_script (dc_link (em_debug t))\<rparr>"
  | "r = Inl Waits_forever" "on_link P t"
proof -
  let ?l = "dc_link (em_debug s)"
  from assms(1) have run: "await op (ln_script ?l) ?l = (r, dc_link (em_debug t))"
    by (auto simp: on_channel_def Let_def split: prod.splits)
  with assms(2,3) await_induct [OF run, of P] that show thesis
    unfolding on_link_def threads_keep_def by blast
qed

lemma on_channel_frame:
  "on_channel op s = (r, t) \<Longrightarrow> t = s\<lparr>em_debug := (em_debug s)\<lparr>dc_link := dc_link (em_debug t)\<rparr>\<rparr>"
  by (auto simp: on_channel_def Let_def split: prod.splits)

lemma keeps_on_channel:
  assumes "threads_keep P" and "\<And>l r l'. op l = Some (r, l') \<Longrightarrow> P l \<Longrightarrow> P l'"
  shows "keeps (on_link P) (on_channel op)"
  unfolding keeps_def
proof (intro allI impI)
  fix s
  assume "on_link P s"
  then show "on_link P (snd (on_channel op s))"
  proof (rule on_channel_link [OF prod.collapse [symmetric] _ assms(1)])
    fix k k'
    assume "P k" and "op k = Some (fst (on_channel op s), k')"
      and link: "dc_link (em_debug (snd (on_channel op s)))
        = k'\<lparr>ln_script := ln_script (dc_link (em_debug (snd (on_channel op s))))\<rparr>"
    then have "P k'" using assms(2) by blast
    with assms(1) show "on_link P (snd (on_channel op s))"
      unfolding on_link_def by (subst link) (simp add: threads_keep_def)
  qed
qed

text \<open>A predicate that every round of the loops keeps is kept by the loops.\<close>

definition rounds_keep :: "(Emulation \<Rightarrow> bool) \<Rightarrow> bool" where
  "rounds_keep P \<longleftrightarrow> keeps P (on_channel try_isExhausted)
     \<and> (\<forall>op s r t. op \<in> {try_tryRead, try_read} \<longrightarrow> on_channel op s = (r, t) \<longrightarrow> P s \<longrightarrow>
          (case r of Inr (Some m) \<Rightarrow> P (snd (processMessage m t)) | _ \<Rightarrow> P t))"

lemma rounds_keepD:
  assumes "rounds_keep P"
  shows "keeps P (on_channel try_isExhausted)"
    and "on_channel try_tryRead s = (r, t) \<Longrightarrow> P s \<Longrightarrow>
      (case r of Inr (Some m) \<Rightarrow> P (snd (processMessage m t)) | _ \<Rightarrow> P t)"
    and "on_channel try_read s = (r, t) \<Longrightarrow> P s \<Longrightarrow>
      (case r of Inr (Some m) \<Rightarrow> P (snd (processMessage m t)) | _ \<Rightarrow> P t)"
  using assms unfolding rounds_keep_def by (blast, blast, blast)

lemma rounds_keepI:
  assumes "keeps P (on_channel try_isExhausted)" "keeps P (on_channel try_tryRead)" "keeps P (on_channel try_read)"
    and "\<And>m. keeps P (processMessage m)"
  shows "rounds_keep P"
  unfolding rounds_keep_def
  using assms by (auto split: sum.splits option.splits) (metis keepsD snd_conv)+

lemma keeps_readMessages:
  assumes "rounds_keep P"
  shows "keeps P readMessages"
  unfolding keeps_def
proof (intro allI impI)
  fix s
  show "P s \<Longrightarrow> P (snd (readMessages s))"
  proof (induction s rule: readMessages.induct)
    case (1 s)
    obtain e t where e: "on_channel try_isExhausted s = (e, t)" by force
    have t: "P t" using keepsD [OF rounds_keepD(1) [OF assms] "1.prems"] e by simp
    obtain r u where r: "on_channel try_tryRead t = (r, u)" by force
    note u = rounds_keepD(2) [OF assms r t]
    show ?case
    proof (cases "e = Inr False \<and> (\<exists>m. r = Inr (Some m))")
      case True
      then obtain m where m: "e = Inr False" "r = Inr (Some m)" by blast
      obtain q v where q: "processMessage m u = (q, v)" by force
      with u m have v: "P v" by simp
      show ?thesis
      proof (cases q)
        case (Inl x)
        then show ?thesis using e r q m v by (simp add: readMessages.simps [of s] bindM_def)
      next
        case (Inr x)
        have "P (snd (readMessages v))"
          using "1.IH" [of False t "Some m" u m x v] e r q m v Inr by simp
        then show ?thesis using e r q m Inr by (simp add: readMessages.simps [of s] bindM_def)
      qed
    next
      case False
      then show ?thesis
        using e r t u by (subst readMessages.simps) (auto simp: bindM_def retM_def split: sum.splits option.splits)
    qed
  qed
qed

lemma keeps_waitForResume:
  assumes "rounds_keep P"
  shows "keeps P waitForResume"
  unfolding keeps_def
proof (intro allI impI)
  fix s
  show "P s \<Longrightarrow> P (snd (waitForResume s))"
  proof (induction s rule: waitForResume.induct)
    case (1 s)
    obtain e t where e: "on_channel try_isExhausted s = (e, t)" by force
    have t: "P t" using keepsD [OF rounds_keepD(1) [OF assms] "1.prems"] e by simp
    then have polled: "P (snd (readMessages t))"
      using keepsD [OF keeps_readMessages [OF assms]] by blast
    obtain r u where r: "on_channel try_read t = (r, u)" by force
    note u = rounds_keepD(3) [OF assms r t]
    show ?case
    proof (cases "e = Inr False \<and> dc_mode (em_debug t) = PAUSE \<and> (\<exists>m. r = Inr (Some m))")
      case True
      then obtain m where m: "e = Inr False" "dc_mode (em_debug t) = PAUSE" "r = Inr (Some m)" by blast
      obtain q v where q: "processMessage m u = (q, v)" by force
      with u m have v: "P v" by simp
      show ?thesis
      proof (cases q)
        case (Inl x)
        then show ?thesis using e r q m v by (simp add: waitForResume.simps [of s] bindM_def)
      next
        case (Inr x)
        have "P (snd (waitForResume v))"
          using "1.IH" [of False t "Some m" u m x v] e r q m v Inr by simp
        then show ?thesis using e r q m Inr by (simp add: waitForResume.simps [of s] bindM_def)
      qed
    next
      case False
      then show ?thesis
        using e r t u polled
        by (subst waitForResume.simps) (auto simp: bindM_def retM_def split: sum.splits option.splits)
    qed
  qed
qed


lemma keeps_processInstruction:
  assumes "rounds_keep P" and "keeps P (set_mode PAUSE)" and "keeps P (send_out (OnPause ctx))"
  shows "keeps P (processInstruction ctx)"
proof -
  have "keeps P (bindM (set_mode PAUSE) (\<lambda>_. bindM (send_out (OnPause ctx)) (\<lambda>_. waitForResume)))"
    by (intro keeps_bind assms(2,3) keeps_waitForResume assms(1))
  then show ?thesis
    by (auto simp: keeps_def processInstruction_def unless_terminal_def retM_def)
qed

lemma keeps_processMessage:
  assumes "\<And>m. keeps P (send_out m)" and "\<And>mode. mode \<noteq> PAUSE \<Longrightarrow> keeps P (set_mode mode)"
    and "\<And>b r. keeps P (edit_breakpoint b r)"
  shows "keeps P (processMessage m)"
proof -
  have unless: "keeps P (unless_terminal m)" if "keeps P m" for m
    using that by (simp add: keeps_def unless_terminal_def retM_def)
  show ?thesis
    by (cases m) (auto intro!: keeps_intros assms unless)
qed

lemmas debug_steps = send_out_def set_mode_def edit_breakpoint_def

section \<open>The machine is left alone\<close>

definition same_machine :: "Emulation \<Rightarrow> Emulation \<Rightarrow> bool" where
  "same_machine s0 s \<longleftrightarrow> em_group s = em_group s0 \<and> em_store s = em_store s0"

lemma same_machine_steps:
  "keeps (same_machine s0) (on_channel op)" "keeps (same_machine s0) (send_out m)"
  "keeps (same_machine s0) (set_mode mode)" "keeps (same_machine s0) (edit_breakpoint b r)"
proof -
  show ch: "keeps (same_machine s0) (on_channel op)" for op :: "Link \<Rightarrow> ('b result \<times> Link) option"
    by (auto simp: keeps_def same_machine_def on_channel_def Let_def split: prod.splits)
  show "keeps (same_machine s0) (send_out m)"
    unfolding send_out_def by (intro keeps_intros ch)
  show "keeps (same_machine s0) (set_mode mode)" "keeps (same_machine s0) (edit_breakpoint b r)"
    by (simp_all add: keeps_def same_machine_def debug_steps modifyM_def)
qed

lemma processInstruction_same_machine: "keeps (same_machine s0) (processInstruction ctx)"
  by (intro keeps_processInstruction rounds_keepI keeps_processMessage same_machine_steps)

theorem debugger_leaves_machine:
  "em_group (snd (processInstruction ctx s)) = em_group s
   \<and> em_store (snd (processInstruction ctx s)) = em_store s"
  using keepsD [OF processInstruction_same_machine [of s], of s] by (simp add: same_machine_def)

section \<open>An instruction is let through\<close>

text \<open>Once the incoming channel is exhausted it stays so.\<close>

lemma exhausted_threads: "threads_keep (\<lambda>l. ch_isExhausted (ln_in l))"
  unfolding threads_keep_def
proof (intro conjI allI impI)
  fix a l k
  assume "act a l = Some k" and "ch_isExhausted (ln_in l)"
  then show "ch_isExhausted (ln_in k)"
    by (cases a) (auto simp: ch_isExhausted_def ch_write_def ch_close_def split: option.splits sum.splits if_splits)
qed simp

lemma exhausted_ops:
  assumes "ch_isExhausted (ln_in l)"
  shows "try_isExhausted l = Some (b, l') \<Longrightarrow> ch_isExhausted (ln_in l')"
    and "try_write m l = Some (b, l') \<Longrightarrow> ch_isExhausted (ln_in l')"
    and "try_tryRead l = Some (r, l') \<Longrightarrow> ch_isExhausted (ln_in l')"
    and "try_read l = Some (r, l') \<Longrightarrow> ch_isExhausted (ln_in l')"
  using assms
  by (auto simp: try_isExhausted_def try_write_def try_tryRead_def try_read_def take_message_def ch_tryRead_def
      ch_read_def ch_isExhausted_def)

definition resumed :: "Emulation \<Rightarrow> bool" where
  "resumed s \<longleftrightarrow> dc_mode (em_debug s) \<noteq> PAUSE \<or> on_link (\<lambda>l. ch_isExhausted (ln_in l)) s"

lemma on_channel_mode: "dc_mode (em_debug (snd (on_channel op s))) = dc_mode (em_debug s)"
  by (simp add: on_channel_def Let_def split: prod.splits)

lemma resumed_steps:
  "keeps resumed (on_channel try_isExhausted)" "keeps resumed (on_channel (try_write m))"
  "keeps resumed (on_channel try_tryRead)" "keeps resumed (on_channel try_read)"
  "mode \<noteq> PAUSE \<Longrightarrow> keeps resumed (set_mode mode)" "keeps resumed (edit_breakpoint b q)"
proof -
  have *: "keeps resumed (on_channel op)" if "\<And>l r l'. op l = Some (r, l') \<Longrightarrow> ch_isExhausted (ln_in l) \<Longrightarrow> ch_isExhausted (ln_in l')"
    for op :: "Link \<Rightarrow> ('b result \<times> Link) option"
  proof -
    have "keeps (on_link (\<lambda>l. ch_isExhausted (ln_in l))) (on_channel op)"
      by (rule keeps_on_channel [OF exhausted_threads]) (rule that)
    then show ?thesis unfolding keeps_def resumed_def on_channel_mode by blast
  qed
  show "keeps resumed (on_channel try_isExhausted)" "keeps resumed (on_channel (try_write m))"
    "keeps resumed (on_channel try_tryRead)" "keeps resumed (on_channel try_read)"
    by (rule *, erule exhausted_ops [rotated], assumption)+
  show "mode \<noteq> PAUSE \<Longrightarrow> keeps resumed (set_mode mode)" "keeps resumed (edit_breakpoint b q)"
    by (simp_all add: keeps_def resumed_def debug_steps modifyM_def on_link_def)
qed

lemma resumed_rounds: "rounds_keep resumed"
proof -
  have "keeps resumed (send_out m)" for m
    unfolding send_out_def by (intro keeps_intros resumed_steps)
  then show ?thesis
    by (intro rounds_keepI keeps_processMessage resumed_steps)
qed

lemma waitForResume_resumed: "waitForResume s = (Inr (), t) \<Longrightarrow> resumed t"
proof (induction s rule: waitForResume.induct)
  case (1 s)
  obtain e u where e: "on_channel try_isExhausted s = (e, u)" by force
  show ?case
  proof (cases "e = Inr False \<and> dc_mode (em_debug u) = PAUSE")
    case True
    obtain r v where r: "on_channel try_read u = (r, v)" by force
    from "1.prems" True e r obtain msg where msg: "r = Inr msg"
      by (subst (asm) waitForResume.simps) (auto simp: bindM_def split: sum.splits)
    show ?thesis
    proof (cases msg)
      case None
      with "1.prems" True e r msg have t: "t = v"
        by (subst (asm) waitForResume.simps) (auto simp: bindM_def retM_def)
      have all: "threads_keep (\<lambda>_. True)" by (simp add: threads_keep_def)
      show ?thesis
      proof (rule on_channel_link [OF r _ all])
        fix k k'
        assume "try_read k = Some (r, k')"
          and link: "dc_link (em_debug v) = k'\<lparr>ln_script := ln_script (dc_link (em_debug v))\<rparr>"
        then have "ch_isExhausted (ln_in k')"
          by (auto simp: try_read_def take_message_def ch_read_def take_value_def ch_isExhausted_def msg None
              split: if_splits option.splits)
        then show ?thesis
          unfolding resumed_def on_link_def t by (subst link) simp
      qed (auto simp: on_link_def msg)
    next
      case (Some m)
      obtain q w where q: "processMessage m v = (q, w)" by force
      from "1.prems" True e r msg Some q obtain x where "q = Inr x" "waitForResume w = (Inr (), t)"
        by (subst (asm) waitForResume.simps) (auto simp: bindM_def split: sum.splits)
      with "1.IH" [of False u "Some m" v m x w] e True r msg Some q show ?thesis by simp
    qed
  next
    case False
    with "1.prems" e obtain b where b: "e = Inr b" "readMessages u = (Inr (), t)"
      by (subst (asm) waitForResume.simps) (auto simp: bindM_def split: sum.splits if_splits)
    have "resumed u"
    proof (cases b)
      case True
      have all: "threads_keep (\<lambda>_. True)" by (simp add: threads_keep_def)
      have "on_link (\<lambda>l. ch_isExhausted (ln_in l)) u"
      proof (rule on_channel_link [OF e _ all])
        fix k k'
        assume "try_isExhausted k = Some (e, k')"
          and link: "dc_link (em_debug u) = k'\<lparr>ln_script := ln_script (dc_link (em_debug u))\<rparr>"
        then have "ch_isExhausted (ln_in k')" using b True by (auto simp: try_isExhausted_def)
        then show ?thesis unfolding on_link_def by (subst link) simp
      qed (auto simp: on_link_def b)
      then show ?thesis by (simp add: resumed_def)
    qed (use False b in \<open>simp add: resumed_def\<close>)
    then show ?thesis
      using keepsD [OF keeps_readMessages [OF resumed_rounds]] b(2) by (metis snd_conv)
  qed
qed

definition will_pause :: "ExecutionContext \<Rightarrow> DebugContext \<Rightarrow> bool" where
  "will_pause ctx d \<longleftrightarrow> \<not> isTerminal d
     \<and> (dc_mode d = STEP \<or> hasBreakpoint (to_u32 (ec_address ctx)) (dc_breakpoints d))"

lemma processInstruction_pause:
  "processInstruction ctx s =
     (if will_pause ctx (em_debug s)
      then bindM (set_mode PAUSE) (\<lambda>_. bindM (send_out (OnPause ctx)) (\<lambda>_. waitForResume)) s
      else (Inr (), s))"
  by (simp add: processInstruction_def will_pause_def unless_terminal_def retM_def)

lemma processInstruction_resumed:
  assumes "processInstruction ctx s = (Inr (), t)" and "dc_mode (em_debug s) \<noteq> PAUSE"
  shows "dc_mode (em_debug t) \<noteq> PAUSE \<or> ch_isExhausted (ln_in (dc_link (em_debug t)))"
proof -
  have "resumed t"
  proof (cases "will_pause ctx (em_debug s)")
    case True
    with assms(1) obtain u where "waitForResume u = (Inr (), t)"
      by (auto simp: processInstruction_pause bindM_def split: prod.splits sum.splits)
    then show ?thesis by (rule waitForResume_resumed)
  qed (use assms in \<open>simp add: processInstruction_pause resumed_def\<close>)
  then show ?thesis by (simp add: resumed_def on_link_def)
qed

text \<open>
  C19: An instruction is let through only in a mode other than PAUSE, unless the debugger
  closed its channel.
\<close>

theorem pause_holds_instruction:
  assumes "processInstruction ctx s = (Inr (), t)" and "dc_mode (em_debug s) \<noteq> PAUSE"
    and "\<not> ch_isExhausted (ln_in (dc_link (em_debug t)))"
  shows "dc_mode (em_debug t) \<noteq> PAUSE"
  using processInstruction_resumed [OF assms(1,2)] assms(3) by simp

section \<open>The control state follows the messages\<close>

text \<open>The abstract debugger control: what each message does to the mode and the breakpoints.\<close>

fun control_step :: "DebuggerMessage \<Rightarrow> ExecutionMode \<times> BreakpointStorage \<Rightarrow> ExecutionMode \<times> BreakpointStorage" where
  "control_step (SetBreakpoint b removed) (mode, bps) =
     (if mode = STOP \<or> mode = EXC then (mode, bps)
      else (mode, (if removed then removeBreakpoint else addBreakpoint) b bps))"
| "control_step (Run stepping) (mode, bps) =
     (if mode = STOP \<or> mode = EXC then (mode, bps) else (if stepping then STEP else RUN, bps))"
| "control_step Stop (mode, bps) = (STOP, bps)"
| "control_step _ c = c"

definition control :: "Emulation \<Rightarrow> ExecutionMode \<times> BreakpointStorage" where
  "control s = (dc_mode (em_debug s), dc_breakpoints (em_debug s))"

definition taken :: "Emulation \<Rightarrow> DebuggerMessage list" where
  "taken s = ln_taken (dc_link (em_debug s))"

lemma on_channel_control: "on_channel op s = (r, t) \<Longrightarrow> control t = control s"
  by (auto simp: control_def on_channel_def Let_def split: prod.splits)

lemma taken_threads: "threads_keep (\<lambda>l. ln_taken l = ms)"
  unfolding threads_keep_def
proof (intro conjI allI impI)
  fix a l k
  assume "act a l = Some k" and "ln_taken l = ms"
  then show "ln_taken k = ms" by (cases a) (auto split: option.splits sum.splits)
qed simp

lemma on_channel_taken:
  assumes "on_channel op s = (r, t)"
    and "\<And>l r l'. op l = Some (r, l') \<Longrightarrow> ln_taken l' = ln_taken l @ new r" and "new (Inl Waits_forever) = []"
  shows "taken t = taken s @ new r"
proof (rule on_channel_link [OF assms(1) _ taken_threads, of "taken s"])
  show "on_link (\<lambda>l. ln_taken l = taken s) s" by (simp add: on_link_def taken_def)
next
  fix k k'
  assume "ln_taken k = taken s" "op k = Some (r, k')"
    and link: "dc_link (em_debug t) = k'\<lparr>ln_script := ln_script (dc_link (em_debug t))\<rparr>"
  then have "ln_taken k' = taken s @ new r" using assms(2) by metis
  then show ?thesis unfolding taken_def [of t] by (subst link) simp
qed (simp add: assms(3) on_link_def taken_def)

lemma read_taken:
  assumes "op \<in> {try_tryRead, try_read}" and "on_channel op s = (r, t)"
  shows "taken t = taken s @ (case r of Inr (Some m) \<Rightarrow> [m] | _ \<Rightarrow> [])"
  by (rule on_channel_taken [OF assms(2)])
    (use assms(1) in \<open>auto simp: try_tryRead_def try_read_def take_message_def split: prod.splits\<close>)

lemma other_taken:
  "on_channel try_isExhausted s = (b, t) \<Longrightarrow> taken t = taken s"
  "on_channel (try_write m) s = (b, t) \<Longrightarrow> taken t = taken s"
proof -
  show "taken t = taken s" if "on_channel try_isExhausted s = (b, t)"
    using on_channel_taken [OF that, of "\<lambda>_. []"] by (auto simp: try_isExhausted_def)
  show "taken t = taken s" if "on_channel (try_write m) s = (b, t)"
  proof -
    have "ln_taken l' = ln_taken l" if "try_write m l = Some (r, l')" for l r l'
      using that by (auto simp: try_write_def)
    then show ?thesis using on_channel_taken [OF that, of "\<lambda>_. []"] by simp
  qed
qed

lemma send_out_control: "send_out m s = (r, t) \<Longrightarrow> control t = control s \<and> taken t = taken s"
  by (cases "on_channel (try_write m) s")
    (auto simp: send_out_def bindM_def retM_def dest: on_channel_control other_taken split: sum.splits)

lemma processMessage_control:
  assumes "processMessage m s = (r, t)"
  shows "control t = control_step m (control s) \<and> taken t = taken s"
proof -
  have plain: "control t = control s \<and> taken t = taken s"
    if "bindM (liftM f) (\<lambda>x. send_out (g x)) s = (r, t)" for f :: "Emulation \<Rightarrow> error + 'a" and g
    using that by (cases "f s") (auto simp: bindM_def liftM_def dest: send_out_control)
  show ?thesis
  proof (cases m)
    case (RequestMemory a)
    then show ?thesis using plain assms by (simp add: RequestMemory)
  next
    case (RequestRegisters ctx)
    then show ?thesis using plain assms by (simp add: RequestRegisters)
  qed (use assms in \<open>auto simp: unless_terminal_def isTerminal_def set_mode_def edit_breakpoint_def modifyM_def
      retM_def control_def taken_def split: if_splits\<close>)
qed

definition follows :: "Emulation \<Rightarrow> Emulation \<Rightarrow> bool" where
  "follows s0 s \<longleftrightarrow> (\<exists>ms. taken s = taken s0 @ ms \<and> control s = fold control_step ms (control s0))"

lemma follows_refl: "follows s s"
  unfolding follows_def by (rule exI [of _ "[]"]) simp

lemma follows_rounds: "rounds_keep (follows s0)"
  unfolding rounds_keep_def
proof (intro conjI allI impI)
  show "keeps (follows s0) (on_channel try_isExhausted)"
    unfolding keeps_def follows_def
    using other_taken(1) [OF prod.collapse [symmetric]] on_channel_control [OF prod.collapse [symmetric]] by metis
next
  fix op s r t
  assume op: "op \<in> {try_tryRead, try_read}" "on_channel op s = (r, t)" and "follows s0 s"
  then obtain ms where ms: "taken s = taken s0 @ ms" "control s = fold control_step ms (control s0)"
    unfolding follows_def by blast
  note new = read_taken [OF op] on_channel_control [OF op(2)]
  show "case r of Inr (Some m) \<Rightarrow> follows s0 (snd (processMessage m t)) | _ \<Rightarrow> follows s0 t"
  proof (cases "\<exists>m. r = Inr (Some m)")
    case True
    then obtain m where m: "r = Inr (Some m)" by blast
    obtain q u where u: "processMessage m t = (q, u)" by force
    from processMessage_control [OF u] new ms m have
      "taken u = taken s0 @ ms @ [m] \<and> control u = fold control_step (ms @ [m]) (control s0)" by simp
    with m u show ?thesis unfolding follows_def by auto
  next
    case False
    then have "taken t = taken s" using new(1) by (auto split: sum.splits option.splits)
    with new(2) ms have "follows s0 t" unfolding follows_def by auto
    with False show ?thesis by (auto split: sum.splits option.splits)
  qed
qed

text \<open>
  The mode and the breakpoints after a pause are those of the abstract control, run over the
  messages taken during it in their order, from the mode \<open>PAUSE\<close>.
\<close>

text \<open>
  C18: The mode and breakpoints after a pause are those of the abstract control run over the
  taken messages in order.
\<close>

theorem control_follows_messages:
  assumes "processInstruction ctx s = (r, t)"
  shows "\<exists>ms. taken t = taken s @ ms \<and> control t = fold control_step ms
    (if will_pause ctx (em_debug s) then PAUSE else fst (control s), snd (control s))"
proof (cases "will_pause ctx (em_debug s)")
  case True
  define s1 where "s1 = snd (set_mode PAUSE s)"
  have s1: "set_mode PAUSE s = (Inr (), s1)" "taken s1 = taken s" "control s1 = (PAUSE, snd (control s))"
    by (simp_all add: s1_def set_mode_def modifyM_def taken_def control_def)
  obtain q u where u: "send_out (OnPause ctx) s1 = (q, u)" by force
  note same = send_out_control [OF u]
  have "follows u t"
  proof (cases q)
    case (Inl e)
    then have "t = u" using assms True s1(1) u by (simp add: processInstruction_pause bindM_def)
    then show ?thesis by (simp add: follows_refl)
  next
    case (Inr x)
    then have "waitForResume u = (r, t)" using assms True s1(1) u by (simp add: processInstruction_pause bindM_def)
    then show ?thesis
      using keepsD [OF keeps_waitForResume [OF follows_rounds] follows_refl [of u]] by simp
  qed
  with same s1 True show ?thesis unfolding follows_def by simp
next
  case False
  with assms show ?thesis by (intro exI [of _ "[]"]) (simp add: processInstruction_pause)
qed

section \<open>The messages to the debugger\<close>

text \<open>
  The outgoing channel is first in, first out (the invariant of \<open>Channels\<close>, now with the emulator as
  the writer), and a pause is the first thing the debugger hears.
\<close>

definition out_inv :: "Link \<Rightarrow> bool" where
  "out_inv l \<longleftrightarrow> ch_inv (ln_out l) \<and> ln_sent l = ln_received l @ pending (ln_out l)"

definition announced :: "DebuggerMessage \<Rightarrow> DebuggerMessage list \<Rightarrow> Link \<Rightarrow> bool" where
  "announced m old l \<longleftrightarrow> out_inv l
     \<and> ((\<exists>new. ln_sent l = old @ m # new) \<or> ch_isClosed (ln_out l) \<and> ln_sent l = old)"

lemma out_inv_upd [simp]:
  "out_inv (l\<lparr>ln_in := c\<rparr>) = out_inv l" "out_inv (l\<lparr>ln_script := as\<rparr>) = out_inv l"
  "out_inv (l\<lparr>ln_out := ch_close (ln_out l)\<rparr>) = out_inv l"
  by (simp_all add: out_inv_def)

lemma out_inv_receive:
  assumes "ch_read (ln_out l) = Some (Inr v, c)" and "out_inv l"
  shows "out_inv (l\<lparr>ln_out := c, ln_received := ln_received l @ (case v of None \<Rightarrow> [] | Some m \<Rightarrow> [m])\<rparr>)"
    and "ch_isClosed c = ch_isClosed (ln_out l)"
  using assms ch_read_Some [of "ln_out l" "Inr v" c] by (auto simp: out_inv_def)

lemma act_out:
  assumes "act a l = Some k" and "out_inv l"
  shows "out_inv k \<and> ln_sent k = ln_sent l \<and> (ch_isClosed (ln_out l) \<longrightarrow> ch_isClosed (ln_out k))"
proof (cases a)
  case Receive
  with assms(1) obtain v c where c: "ch_read (ln_out l) = Some (Inr v, c)"
      "k = l\<lparr>ln_out := c, ln_received := ln_received l @ (case v of None \<Rightarrow> [] | Some m \<Rightarrow> [m])\<rparr>"
    by (simp split: option.splits prod.splits sum.splits)
  have "out_inv k" unfolding c(2) by (rule out_inv_receive [OF c(1) assms(2)])
  with out_inv_receive(2) [OF c(1) assms(2)] show ?thesis by (simp add: c(2))
qed (use assms in \<open>auto split: option.splits\<close>)

lemma out_threads: "threads_keep (\<lambda>l. out_inv l \<and> ln_sent l = old)"
  unfolding threads_keep_def using act_out by auto

lemma announced_threads: "threads_keep (announced m old)"
  unfolding threads_keep_def
proof (intro conjI allI impI)
  fix a l k
  assume "act a l = Some k" and "announced m old l"
  then show "announced m old k" using act_out [of a l k] by (auto simp: announced_def)
qed (simp add: announced_def)

lemma in_ops_out:
  "try_isExhausted l = Some (b, l') \<Longrightarrow> ln_out l' = ln_out l \<and> ln_sent l' = ln_sent l \<and> ln_received l' = ln_received l"
  "try_tryRead l = Some (r, l') \<Longrightarrow> ln_out l' = ln_out l \<and> ln_sent l' = ln_sent l \<and> ln_received l' = ln_received l"
  "try_read l = Some (r, l') \<Longrightarrow> ln_out l' = ln_out l \<and> ln_sent l' = ln_sent l \<and> ln_received l' = ln_received l"
  by (auto simp: try_isExhausted_def try_tryRead_def try_read_def take_message_def split: prod.splits)

lemma try_write_out:
  assumes "try_write x l = Some (b, l')" and "out_inv l"
  shows "out_inv l' \<and> ch_isClosed (ln_out l') = ch_isClosed (ln_out l)
    \<and> ln_sent l' = ln_sent l @ (if ch_isClosed (ln_out l) then [] else [x])"
proof -
  from assms(1) obtain ok c where c: "ch_write x (ln_out l) = Some (ok, c)"
      "l' = l\<lparr>ln_out := c, ln_sent := ln_sent l @ (if ok then [x] else [])\<rparr>"
    by (auto simp: try_write_def)
  from assms(2) have l: "ch_inv (ln_out l)" "ln_sent l = ln_received l @ pending (ln_out l)"
    by (simp_all add: out_inv_def)
  from ch_write_Some [OF l(1) c(1)] have w: "ch_inv c" "ch_isClosed c = ch_isClosed (ln_out l)"
      "ok \<longleftrightarrow> \<not> ch_isClosed (ln_out l)" "pending c = pending (ln_out l) @ (if ok then [x] else [])"
    by blast+
  have "out_inv l'" using w l(2) by (simp add: out_inv_def c(2))
  with w show ?thesis by (simp add: c(2))
qed

lemma announced_rounds: "rounds_keep (on_link (announced m old))"
proof -
  have same: "announced m old l'" if "announced m old l" and
      "ln_out l' = ln_out l \<and> ln_sent l' = ln_sent l \<and> ln_received l' = ln_received l" for l l'
  proof -
    have "out_inv l' = out_inv l" unfolding out_inv_def using that(2) by metis
    with that show ?thesis by (simp add: announced_def)
  qed
  have "keeps (on_link (announced m old)) (send_out x)" for x
    unfolding send_out_def
    by (intro keeps_intros keeps_on_channel announced_threads)
      (auto simp: announced_def dest: try_write_out)
  moreover have "keeps (on_link (announced m old)) (set_mode mode)"
    "keeps (on_link (announced m old)) (edit_breakpoint b q)" for mode b q
    by (simp_all add: keeps_def set_mode_def edit_breakpoint_def modifyM_def on_link_def)
  ultimately show ?thesis
    by (intro rounds_keepI keeps_processMessage keeps_on_channel announced_threads)
      (blast intro: same dest: in_ops_out)+
qed

text \<open>
  A pause is the first message the debugger gets, on an outgoing channel that stays first in,
  first out.
\<close>

theorem pause_is_announced:
  assumes "processInstruction ctx s = (Inr (), t)" and "will_pause ctx (em_debug s)"
    and "out_inv (dc_link (em_debug s))"
  shows "announced (OnPause ctx) (ln_sent (dc_link (em_debug s))) (dc_link (em_debug t))"
proof -
  let ?old = "ln_sent (dc_link (em_debug s))"
  define s1 where "s1 = snd (set_mode PAUSE s)"
  have s1: "set_mode PAUSE s = (Inr (), s1)" "dc_link (em_debug s1) = dc_link (em_debug s)"
    by (simp_all add: s1_def set_mode_def modifyM_def)
  obtain q u where u: "on_channel (try_write (OnPause ctx)) s1 = (q, u)" by force
  have q: "\<exists>b. q = Inr b" and run: "waitForResume u = (Inr (), t)"
    using assms(1,2) s1(1) u
    by (auto simp: processInstruction_pause send_out_def bindM_def retM_def split: sum.splits)
  have "on_link (announced (OnPause ctx) ?old) u"
  proof (rule on_channel_link [OF u _ out_threads [of ?old]])
    show "on_link (\<lambda>l. out_inv l \<and> ln_sent l = ?old) s1" by (simp add: on_link_def s1(2) assms(3))
  next
    fix k k'
    assume k: "out_inv k \<and> ln_sent k = ?old" "try_write (OnPause ctx) k = Some (q, k')"
      and link: "dc_link (em_debug u) = k'\<lparr>ln_script := ln_script (dc_link (em_debug u))\<rparr>"
    have "announced (OnPause ctx) ?old k'"
      using k try_write_out [of "OnPause ctx" k] q by (auto simp: announced_def split: if_splits)
    then show ?thesis unfolding on_link_def by (subst link) (simp add: announced_def)
  qed (use q in auto)
  then show ?thesis
    using keepsD [OF keeps_waitForResume [OF announced_rounds]] run by (metis on_link_def snd_conv)
qed

section \<open>The registers of a lane\<close>

theorem registers_of_lane:
  assumes "unat (sx64 (ec_wavefrontId ctx) :: u64) < length (wg_wavefronts wg)"
    and "w = wg_wavefronts wg ! unat (sx64 (ec_wavefrontId ctx) :: u64)" and "wf_inv w"
    and "i = work_item_index ctx (wg_workItems wg)"
  shows "if i < 64
     then \<exists>rd. getRegisters ctx wg = Inr rd \<and> rd_sFile rd = scalarRegFile w \<and> rd_EXEC rd = execReg w
        \<and> length (rd_vFile rd) = vgprsnum w
        \<and> (\<forall>v < vgprsnum w. read_vgpr i v w = Inr (rd_vFile rd ! v))
     else vgprsnum w = 0 \<or> getRegisters ctx wg = Inl (Undefined ''vector iterator'')"
proof -
  have len: "length (vectorRegFile w) = 64 * vgprsnum w" using assms(3) by (simp add: wf_inv_def)
  have end_le: "i * vgprsnum w + vgprsnum w \<le> length (vectorRegFile w) \<longleftrightarrow> i < 64 \<or> vgprsnum w = 0"
    using mult_le_cancel2 [of "Suc i" "vgprsnum w" 64] by (auto simp: len)
  have regs: "getRegisters ctx wg = bindE (definedE (i * vgprsnum w + vgprsnum w \<le> length (vectorRegFile w))
      ''vector iterator'') (\<lambda>_. Inr \<lparr>rd_sFile = scalarRegFile w,
        rd_vFile = take (vgprsnum w) (drop (i * vgprsnum w) (vectorRegFile w)), rd_RELADDR = 0,
        rd_EXEC = execReg w, rd_VCC = vccReg w, rd_M0 = m0Reg w, rd_SIMM16 = 0, rd_SCC = sccReg w\<rparr>)"
    using assms(1,2,4) by (simp add: getRegisters_def at_index_def get_common_sopp_state_def Let_def)
  show ?thesis
  proof (cases "i < 64")
    case True
    then have le: "i * vgprsnum w + vgprsnum w \<le> length (vectorRegFile w)" using end_le by simp
    then have "read_vgpr i v w = Inr (vectorRegFile w ! (i * vgprsnum w + v))" if "v < vgprsnum w" for v
      using that by (simp add: read_vgpr_def)
    with True le show ?thesis by (simp add: regs)
  next
    case False
    with end_le show ?thesis by (auto simp: regs)
  qed
qed

section \<open>A concrete session\<close>

definition idle_emulation :: "ExecutionMode \<Rightarrow> action list \<Rightarrow> Emulation" where
  "idle_emulation mode script =
     \<lparr>em_group = new_work_group new_code 1 1 1 0 0 0, em_store = storage_init 0,
      em_debug = (new_debug (new_link script) new_breakpoints)\<lparr>dc_mode := mode\<rparr>\<rparr>"

definition here :: ExecutionContext where
  "here = \<lparr>ec_wavefrontId = 0, ec_workItemX = 0, ec_workItemY = 0, ec_workItemZ = 0, ec_address = 8,
     ec_info = \<lparr>ei_wfSize = 1, ei_sizeX = 1, ei_sizeY = 1, ei_sizeZ = 1\<rparr>\<rparr>"

definition stepping :: Emulation where
  "stepping = idle_emulation STEP [Send (SetBreakpoint (global_breakpoint 8) False), Yield, Receive, Yield, Send (Run True), Yield]"

lemma stepping_runs:
  "returns (fst (processInstruction here stepping))" "dc_mode (em_debug stepping) = STEP"
  "ch_isExhausted (ln_in (dc_link (em_debug (snd (processInstruction here stepping))))) = False"
  "will_pause here (em_debug stepping)" "out_inv (dc_link (em_debug stepping))"
  by code_simp+

lemma pause_holds_instruction_witness:
  "dc_mode (em_debug (snd (processInstruction here stepping))) \<noteq> PAUSE"
  by (rule pause_holds_instruction [OF returns_unitD])
    (simp_all add: stepping_runs)

lemma control_follows_messages_witness:
  "\<exists>ms. taken (snd (processInstruction here stepping)) = taken stepping @ ms
    \<and> control (snd (processInstruction here stepping)) = fold control_step ms
    (if will_pause here (em_debug stepping) then PAUSE else fst (control stepping), snd (control stepping))"
  by (rule control_follows_messages [OF prod.collapse [symmetric]])

lemma pause_is_announced_witness:
  "announced (OnPause here) (ln_sent (dc_link (em_debug stepping)))
     (dc_link (em_debug (snd (processInstruction here stepping))))"
  by (rule pause_is_announced [OF returns_unitD]) (simp_all add: stepping_runs)

definition two_lane_group :: WorkGroup where
  "two_lane_group = (new_work_group new_code 2 1 1 0 0 0)\<lparr>wg_wavefronts := [new_wavefront 2 0 4 1],
     wg_workItems := [\<lparr>localIdX = 0, localIdY = 0, localIdZ = 0\<rparr>, \<lparr>localIdX = 1, localIdY = 0, localIdZ = 0\<rparr>]\<rparr>"

lemma registers_of_lane_witness:
  "let ctx = here\<lparr>ec_workItemX := 1\<rparr> in if work_item_index ctx (wg_workItems two_lane_group) < 64
     then \<exists>rd. getRegisters ctx two_lane_group = Inr rd \<and> rd_sFile rd = scalarRegFile (new_wavefront 2 0 4 1)
        \<and> rd_EXEC rd = execReg (new_wavefront 2 0 4 1) \<and> length (rd_vFile rd) = vgprsnum (new_wavefront 2 0 4 1)
        \<and> (\<forall>v < vgprsnum (new_wavefront 2 0 4 1). read_vgpr (work_item_index ctx (wg_workItems two_lane_group)) v
             (new_wavefront 2 0 4 1) = Inr (rd_vFile rd ! v))
     else vgprsnum (new_wavefront 2 0 4 1) = 0
       \<or> getRegisters ctx two_lane_group = Inl (Undefined ''vector iterator'')"
  unfolding Let_def
  by (rule registers_of_lane) (simp_all add: two_lane_group_def here_def new_work_group_def wf_inv_new)

end
