(* ===== verification/ComputeUnits.thy ===== *)
theory ComputeUnits
  imports Alu DebugContextProps
begin

text \<open>
  The compute unit (\<open>emulator/src/gpu/compute_unit.h\<close>, \<open>compute_unit.cpp\<close>): it runs the
  wavefronts of a work-group one after the other, each up to its end or to a barrier, until all are
  completed.

  One round of the loop of \<open>run_wavefront\<close> is the function \<open>wavefront_round\<close>; it tells whether the
  loop breaks. The loops themselves may run forever, so they are partial functions whose value
  \<open>None\<close> is not returning. A wavefront is named by its position in the work-group, because the ids
  of all wavefronts are 0. \<open>wave_step\<close> is the loop as a step relation; \<open>run_wavefront_steps\<close> shows
  that the two agree.
\<close>

unbundle bit_operations_syntax

section \<open>The code\<close>

definition wave_at :: "nat \<Rightarrow> Emulation \<Rightarrow> Wavefront result" where
  "wave_at k s = at_index (wg_wavefronts (em_group s)) k"

definition put_wave :: "nat \<Rightarrow> Wavefront \<Rightarrow> Emulation \<Rightarrow> Emulation" where
  "put_wave k w s = s\<lparr>em_group := (em_group s)\<lparr>wg_wavefronts := (wg_wavefronts (em_group s))[k := w]\<rparr>\<rparr>"

definition on_wave_at :: "nat \<Rightarrow> (Wavefront, 'a) M \<Rightarrow> (Emulation, 'a) M" where
  "on_wave_at k m = bindM (liftM (wave_at k)) (\<lambda>w s. case m w of (r, w') \<Rightarrow> (r, put_wave k w' s))"

definition on_machine :: "nat \<Rightarrow> (Machine, 'a) M \<Rightarrow> (Emulation, 'a) M" where
  "on_machine k m = bindM (liftM (wave_at k)) (\<lambda>w s.
     case m \<lparr>m_wave = w, m_store = em_store s\<rparr> of (r, t) \<Rightarrow> (r, (put_wave k (m_wave t) s)\<lparr>em_store := m_store t\<rparr>))"

text \<open>\<open>try { run_instr } catch (std::runtime_error&)\<close>: the other failures go on.\<close>

definition try_instr :: "nat \<Rightarrow> ExecutionContext \<Rightarrow> Instruction \<Rightarrow> (Emulation, unit) M" where
  "try_instr k ctx instr s =
     (case on_machine k (run_instr instr) s of
        (Inl (Runtime_error what), t) \<Rightarrow> processException what ctx t
      | res \<Rightarrow> res)"

definition wavefront_round :: "nat \<Rightarrow> ExecutionContext \<Rightarrow> (Emulation, bool) M" where
  "wavefront_round k ctx =
     bindM (liftM (\<lambda>s. bindE (wave_at k s) (get_cur_instr (wg_code (em_group s))))) (\<lambda>curInstr.
     let instrKey = in_key curInstr; ctx = ctx\<lparr>ec_address := to_u64 (in_addr curInstr)\<rparr>
     in bindM (processInstruction ctx) (\<lambda>_.
        if instrKey = S_ENDPGM then
          bindM (on_wave_at k (modifyM (\<lambda>w. w\<lparr>completed := True\<rparr>))) (\<lambda>_. retM True)
        else if instrKey = S_BARRIER then
          bindM (on_wave_at k (modifyM (\<lambda>w. w\<lparr>atBarrier := True\<rparr>))) (\<lambda>_. retM True)
        else
          bindM (if instrKey \<noteq> S_WAITCNT then try_instr k ctx curInstr else retM ()) (\<lambda>_.
          bindM (liftM (\<lambda>s. Inr (wg_code (em_group s)))) (\<lambda>kc.
          bindM (on_wave_at k (to_next_instr kc)) (\<lambda>_. retM False)))))"

partial_function (option) wavefront_loop ::
  "nat \<Rightarrow> ExecutionContext \<Rightarrow> Emulation \<Rightarrow> (unit result \<times> Emulation) option" where
  "wavefront_loop k ctx s =
     (case wavefront_round k ctx s of
        (Inl e, t) \<Rightarrow> Some (Inl e, t)
      | (Inr broken, t) \<Rightarrow> if broken then Some (Inr (), t) else wavefront_loop k ctx t)"

definition run_wavefront :: "nat \<Rightarrow> Emulation \<Rightarrow> (unit result \<times> Emulation) option" where
  "run_wavefront k s =
     (case bindE (wave_at k s) (\<lambda>w. createContext 0 w (em_group s)) of
        Inl e \<Rightarrow> Some (Inl e, s)
      | Inr ctx \<Rightarrow> wavefront_loop k ctx s)"

fun resolve_waves :: "Wavefront list \<Rightarrow> unit result \<times> Wavefront list" where
  "resolve_waves [] = (Inr (), [])"
| "resolve_waves (w # ws) =
     (if \<not> atBarrier w then (Inl (Assert_failed ''Illegal wavefront state''), w # ws)
      else case resolve_waves ws of (r, ws') \<Rightarrow> (r, w\<lparr>atBarrier := False\<rparr> # ws'))"

definition resolve_barrier :: "(Emulation, unit) M" where
  "resolve_barrier s =
     (if all_wf_completed (em_group s) then (Inr (), s)
      else case resolve_waves (wg_wavefronts (em_group s)) of
        (r, ws) \<Rightarrow> (r, s\<lparr>em_group := (em_group s)\<lparr>wg_wavefronts := ws\<rparr>\<rparr>))"

text \<open>The loop over the wavefronts, and the loop over those rounds.\<close>

fun run_wavefronts :: "nat list \<Rightarrow> Emulation \<Rightarrow> (unit result \<times> Emulation) option" where
  "run_wavefronts [] s = Some (Inr (), s)"
| "run_wavefronts (k # ks) s =
     (case run_wavefront k s of
        None \<Rightarrow> None
      | Some (Inl e, t) \<Rightarrow> Some (Inl e, t)
      | Some (Inr _, t) \<Rightarrow> run_wavefronts ks t)"

definition group_round :: "Emulation \<Rightarrow> (unit result \<times> Emulation) option" where
  "group_round s =
     (case run_wavefronts [0..<length (wg_wavefronts (em_group s))] s of
        None \<Rightarrow> None
      | Some (Inl e, t) \<Rightarrow> Some (Inl e, t)
      | Some (Inr _, t) \<Rightarrow> Some (resolve_barrier t))"

partial_function (option) group_loop :: "Emulation \<Rightarrow> (unit result \<times> Emulation) option" where
  "group_loop s =
     (if all_wf_completed (em_group s) then Some (Inr (), s)
      else case group_round s of
        None \<Rightarrow> None
      | Some (Inl e, t) \<Rightarrow> Some (Inl e, t)
      | Some (Inr _, t) \<Rightarrow> group_loop t)"

definition run_work_group :: "WorkGroup \<Rightarrow> Emulation \<Rightarrow> (unit result \<times> Emulation) option" where
  "run_work_group wg s = group_loop (setWorkGroup wg s)"

section \<open>The loop as a step relation\<close>

inductive wave_step :: "nat \<Rightarrow> ExecutionContext \<Rightarrow> Emulation \<Rightarrow> Emulation \<Rightarrow> bool"
  for k :: nat and ctx :: ExecutionContext where
  "wavefront_round k ctx s = (Inr False, t) \<Longrightarrow> wave_step k ctx s t"

inductive_simps wave_step_iff: "wave_step k ctx s t"

lemma wavefront_loop_step: "wave_step k ctx s t \<Longrightarrow> wavefront_loop k ctx s = wavefront_loop k ctx t"
  by (subst wavefront_loop.simps) (simp add: wave_step_iff)

lemma wavefront_loop_steps: "(wave_step k ctx)\<^sup>*\<^sup>* s t \<Longrightarrow> wavefront_loop k ctx s = wavefront_loop k ctx t"
  by (induction rule: rtranclp_induct) (auto dest: wavefront_loop_step)

definition round_ends :: "nat \<Rightarrow> ExecutionContext \<Rightarrow> Emulation \<Rightarrow> unit result \<Rightarrow> Emulation \<Rightarrow> bool" where
  "round_ends k ctx u r t \<longleftrightarrow> (\<exists>e. r = Inl e \<and> wavefront_round k ctx u = (Inl e, t))
     \<or> (r = Inr () \<and> wavefront_round k ctx u = (Inr True, t))"

lemma wavefront_loop_end: "round_ends k ctx u r t \<Longrightarrow> wavefront_loop k ctx u = Some (r, t)"
  by (subst wavefront_loop.simps) (auto simp: round_ends_def)

lemma wavefront_loop_Some:
  assumes "wavefront_loop k ctx s = Some y"
  shows "\<exists>u. (wave_step k ctx)\<^sup>*\<^sup>* s u \<and> round_ends k ctx u (fst y) (snd y)"
  using assms
proof (rule wavefront_loop.raw_induct [rotated])
  fix loop k ctx s y
  assume IH: "\<And>k ctx s y. loop k ctx s = Some y \<Longrightarrow>
      \<exists>u. (wave_step k ctx)\<^sup>*\<^sup>* s u \<and> round_ends k ctx u (fst y) (snd y)"
    and body: "(case wavefront_round k ctx s of
        (Inl e, t) \<Rightarrow> Some (Inl e, t)
      | (Inr broken, t) \<Rightarrow> if broken then Some (Inr (), t) else loop k ctx t) = Some y"
  obtain r t where r: "wavefront_round k ctx s = (r, t)" by force
  show "\<exists>u. (wave_step k ctx)\<^sup>*\<^sup>* s u \<and> round_ends k ctx u (fst y) (snd y)"
  proof (cases "r = Inr False")
    case True
    with body r have "loop k ctx t = Some y" by simp
    from IH [OF this] obtain u where "(wave_step k ctx)\<^sup>*\<^sup>* t u" "round_ends k ctx u (fst y) (snd y)"
      by blast
    moreover have "wave_step k ctx s t" using r True by (simp add: wave_step_iff)
    ultimately show ?thesis by (blast intro: converse_rtranclp_into_rtranclp)
  next
    case False
    with body r have "round_ends k ctx s (fst y) (snd y)"
      by (auto simp: round_ends_def split: sum.splits)
    then show ?thesis by blast
  qed
qed


end
