(* ===== verification/ComputeUnitProps.thy ===== *)
theory ComputeUnitProps
  imports ComputeUnits
begin

text \<open>
  What a run of the compute unit keeps and what it reaches: a wavefront never touches the others,
  the loop of a wavefront whose program has no branches ends, an exception only costs the
  instruction that raised it, and a wavefront that stops at a barrier stops there for good, because
  the program counter is not advanced past the barrier.
\<close>

unbundle bit_operations_syntax

section \<open>Isolation of the wavefronts\<close>

definition group_frame :: "nat \<Rightarrow> WorkGroup \<Rightarrow> WorkGroup \<Rightarrow> bool" where
  "group_frame k g g' \<longleftrightarrow> (\<exists>w. g' = g\<lparr>wg_wavefronts := (wg_wavefronts g)[k := w]\<rparr>
     \<and> (k < length (wg_wavefronts g) \<longrightarrow> wf_frame (wg_wavefronts g ! k) w))"

definition emulation_inv :: "nat \<Rightarrow> WorkGroup \<Rightarrow> Emulation \<Rightarrow> bool" where
  "emulation_inv k g s \<longleftrightarrow> storage_inv (em_store s) \<and> group_frame k g (em_group s)"

lemma group_frame_refl: "group_frame k g g"
  unfolding group_frame_def by (rule exI [of _ "wg_wavefronts g ! k"]) simp

lemma group_frame_put:
  assumes "group_frame k g g'" and "at_index (wg_wavefronts g') k = Inr w" and "wf_frame w w'"
  shows "group_frame k g (g'\<lparr>wg_wavefronts := (wg_wavefronts g')[k := w']\<rparr>)"
  using assms unfolding group_frame_def
  by (auto simp: at_index_Inr_iff intro!: exI [of _ w'] intro: wf_frame_trans)

lemma on_wave_at_keeps:
  assumes "\<And>w. wf_frame w (snd (m w))"
  shows "keeps (emulation_inv k g) (on_wave_at k m)"
  unfolding keeps_def
proof (intro allI impI)
  fix s
  assume s: "emulation_inv k g s"
  show "emulation_inv k g (snd (on_wave_at k m s))"
  proof (cases "wave_at k s")
    case (Inr w)
    then show ?thesis
      using s group_frame_put [of k g "em_group s" w "snd (m w)"] assms [of w]
      by (cases "m w") (simp add: on_wave_at_def bindM_def liftM_def put_wave_def emulation_inv_def wave_at_def)
  qed (use s in \<open>simp add: on_wave_at_def bindM_def liftM_def\<close>)
qed

lemma on_machine_keeps:
  assumes "\<And>w0. keeps (machine_inv w0) m"
  shows "keeps (emulation_inv k g) (on_machine k m)"
  unfolding keeps_def
proof (intro allI impI)
  fix s
  assume s: "emulation_inv k g s"
  show "emulation_inv k g (snd (on_machine k m s))"
  proof (cases "wave_at k s")
    case (Inr w)
    obtain r t where t: "m \<lparr>m_wave = w, m_store = em_store s\<rparr> = (r, t)" by force
    have "machine_inv w t"
      using keepsD [OF assms [of w], of "\<lparr>m_wave = w, m_store = em_store s\<rparr>"] s t
      by (simp add: machine_inv_def emulation_inv_def)
    then show ?thesis
      using s group_frame_put [of k g "em_group s" w "m_wave t"] Inr t
      by (simp add: on_machine_def bindM_def liftM_def put_wave_def emulation_inv_def wave_at_def machine_inv_def)
  qed (use s in \<open>simp add: on_machine_def bindM_def liftM_def\<close>)
qed

lemma same_machine_inv: "keeps (same_machine s0) m \<Longrightarrow> (\<And>s0. keeps (same_machine s0) m) \<Longrightarrow> keeps (emulation_inv k g) m"
  unfolding keeps_def same_machine_def emulation_inv_def by metis

lemma processInstruction_inv: "keeps (emulation_inv k g) (processInstruction ctx)"
  using processInstruction_same_machine by (rule same_machine_inv) (rule processInstruction_same_machine)

lemma processException_same_machine: "keeps (same_machine s0) (processException what ctx)"
  unfolding processException_def by (intro keeps_intros same_machine_steps)

lemma processException_inv: "keeps (emulation_inv k g) (processException what ctx)"
  using processException_same_machine by (rule same_machine_inv) (rule processException_same_machine)

lemma try_instr_keeps: "keeps (emulation_inv k g) (try_instr k ctx instr)"
proof -
  note run = on_machine_keeps [OF run_instr_inv, of k g instr]
  show ?thesis
    unfolding keeps_def
  proof (intro allI impI)
    fix s
    assume "emulation_inv k g s"
    then have "emulation_inv k g (snd (on_machine k (run_instr instr) s))" by (rule keepsD [OF run])
    then show "emulation_inv k g (snd (try_instr k ctx instr s))"
      using keepsD [OF processException_inv]
      by (auto simp: try_instr_def split: prod.splits sum.splits error.splits)
  qed
qed

lemma to_next_instr_frame: "wf_frame w (snd (to_next_instr kc w))"
  by (auto simp: to_next_instr_def wf_frame_def Let_def split: prod.splits sum.splits)

lemma keeps_if: "keeps P m \<Longrightarrow> keeps P n \<Longrightarrow> keeps P (if b then m else n)"
  by simp

lemma wavefront_round_inv: "keeps (emulation_inv k g) (wavefront_round k ctx)"
proof -
  have mark: "keeps (emulation_inv k g) (on_wave_at k (modifyM (\<lambda>w. w\<lparr>completed := True\<rparr>)))"
    "keeps (emulation_inv k g) (on_wave_at k (modifyM (\<lambda>w. w\<lparr>atBarrier := True\<rparr>)))"
    "keeps (emulation_inv k g) (on_wave_at k (to_next_instr kc))" for kc
    by (rule on_wave_at_keeps; simp add: modifyM_def wf_frame_def [of w "w\<lparr>completed := True\<rparr>" for w]
      wf_frame_def [of w "w\<lparr>atBarrier := True\<rparr>" for w] to_next_instr_frame)+
  show ?thesis
    unfolding wavefront_round_def Let_def
    by (intro keeps_bind keeps_if keeps_ret keeps_lift processInstruction_inv mark try_instr_keeps)
qed

lemma wavefront_loop_inv:
  assumes "wavefront_loop k ctx s = Some (r, t)" and "emulation_inv k g s"
  shows "emulation_inv k g t"
proof -
  from assms(1) obtain u where steps: "(wave_step k ctx)\<^sup>*\<^sup>* s u" and last: "round_ends k ctx u r t"
    using wavefront_loop_Some by fastforce
  from steps assms(2) have "emulation_inv k g u"
  proof (induction rule: rtranclp_induct)
    case (step v w)
    then show ?case using keepsD [OF wavefront_round_inv, of k g v ctx] by (simp add: wave_step_iff)
  qed
  then show ?thesis
    using last keepsD [OF wavefront_round_inv, of k g u ctx] by (auto simp: round_ends_def)
qed

lemma wavefront_isolated_run:
  assumes "run_wavefront k s = Some (r, t)" and "storage_inv (em_store s)"
  shows "storage_inv (em_store t) \<and> group_frame k (em_group s) (em_group t)"
proof (cases "bindE (wave_at k s) (\<lambda>w. createContext 0 w (em_group s))")
  case (Inr ctx)
  with assms(1) have "wavefront_loop k ctx s = Some (r, t)" by (simp add: run_wavefront_def)
  then have "emulation_inv k (em_group s) t"
    by (rule wavefront_loop_inv) (simp add: emulation_inv_def assms(2) group_frame_refl)
  then show ?thesis by (simp add: emulation_inv_def)
qed (use assms in \<open>simp add: run_wavefront_def group_frame_refl\<close>)



section \<open>Instructions that leave the program counter alone\<close>

definition data_formats :: "InstrFormat set" where
  "data_formats = {VOP1, VOP2, VOP3A, VOP3B, VOPC, SOPC, SMEM, FLAT}"

lemma write_data_pc: "write_data_to_gpr op data i w = Inr w' \<Longrightarrow> programCounter w' = programCounter w"
  by (drule write_data_special) (simp add: special_regs_def)

lemma write_data64_pc: "write_data64_to_gpr op v i w = Inr w' \<Longrightarrow> programCounter w' = programCounter w"
  by (drule write_data64_special) (simp add: special_regs_def)

lemma foldE_pc:
  assumes "foldE f xs w = Inr w'" and "\<And>x u v. f x u = Inr v \<Longrightarrow> programCounter v = programCounter u"
  shows "programCounter w' = programCounter (w :: Wavefront)"
  by (rule foldE_invariant [OF assms(1), where P = "\<lambda>u. programCounter u = programCounter w"])
    (auto dest: assms(2))

lemma write_lanes_pc: "write_lanes instr k vals w = Inr w' \<Longrightarrow> programCounter w' = programCounter w"
  unfolding write_lanes_def by (erule foldE_pc) (auto simp: result_simps dest: write_data64_pc)

lemma flat_load_state_pc: "update_with_flat_load_state instr st w = Inr w' \<Longrightarrow> programCounter w' = programCounter w"
  unfolding update_with_flat_load_state_def
  by (erule foldE_pc) (auto simp: result_simps Let_def dest: write_data_pc)

lemma vop_pc:
  "run_vop1 instr w = Inr w' \<Longrightarrow> programCounter w' = programCounter w"
  "run_vop2 instr w = Inr w' \<Longrightarrow> programCounter w' = programCounter w"
  "run_vop3 instr w = Inr w' \<Longrightarrow> programCounter w' = programCounter w"
  "run_vopc instr w = Inr w' \<Longrightarrow> programCounter w' = programCounter w"
  "run_sopc instr w = Inr w' \<Longrightarrow> programCounter w' = programCounter w"
  "run_smem instr st w = Inr w' \<Longrightarrow> programCounter w' = programCounter w"
  by (auto simp: run_vop1_eq run_vop2_eq run_vop3_eq run_sopc_def run_smem_def result_simps
      update_with_vop1_state_def update_with_vop2_state_def update_with_vop3_state_def update_with_sopc_state_def
      update_with_smem_state_def sync_sopc_def dest: write_lanes_pc write_data_pc dest!: run_vopc_returns_wave)

lemma on_wave_pc:
  assumes "\<And>w w'. f w = Inr w' \<Longrightarrow> programCounter w' = programCounter w"
  shows "keeps (\<lambda>s. programCounter (m_wave s) = p) (on_wave f)"
  using assms by (auto simp: keeps_def on_wave_def split: sum.splits)

lemma on_store_pc: "keeps (\<lambda>s. programCounter (m_wave s) = p) (on_store m)"
  by (simp add: keeps_def on_store_def split: prod.splits)

lemma run_instr_pc:
  assumes "in_format instr \<in> data_formats"
  shows "keeps (\<lambda>s. programCounter (m_wave s) = p) (run_instr instr)"
proof -
  have flat: "keeps (\<lambda>s. programCounter (m_wave s) = p) (run_flat instr)"
    unfolding run_flat_def flat_store_def flat_load_def
    by (auto intro!: keeps_intros on_store_pc on_wave_pc dest: flat_load_state_pc)
  show ?thesis
    using assms unfolding data_formats_def run_instr_def
    by (auto intro!: keeps_intros on_wave_pc flat dest: vop_pc)
qed


section \<open>One round\<close>

text \<open>The wavefront \<open>k\<close> stands at the instruction \<open>i\<close>.\<close>

definition at_instr :: "nat \<Rightarrow> Instruction \<Rightarrow> Wavefront \<Rightarrow> Emulation \<Rightarrow> bool" where
  "at_instr k i w s \<longleftrightarrow> wave_at k s = Inr w \<and> get_cur_instr (wg_code (em_group s)) w = Inr i"

lemma processInstruction_group: "processInstruction ctx s = (r, t) \<Longrightarrow> em_group t = em_group s \<and> em_store t = em_store s"
  using keepsD [OF processInstruction_same_machine [of s ctx], of s] by (simp add: same_machine_def)

lemma processException_group: "processException what ctx s = (r, t) \<Longrightarrow> em_group t = em_group s \<and> em_store t = em_store s"
  using keepsD [OF processException_same_machine [of s what ctx], of s] by (simp add: same_machine_def)

lemma at_instr_cong: "em_group t = em_group s \<Longrightarrow> at_instr k i w t = at_instr k i w s"
  by (simp add: at_instr_def wave_at_def)

lemma wave_at_put [simp]: "wave_at k s = Inr w \<Longrightarrow> wave_at k (put_wave k v s) = Inr v"
  by (simp add: wave_at_def put_wave_def at_index_Inr_iff)

lemma put_wave_same [simp]: "wg_code (em_group (put_wave k v s)) = wg_code (em_group s)" "em_debug (put_wave k v s) = em_debug s"
  by (simp_all add: put_wave_def)

lemma on_wave_at_run: "wave_at k s = Inr w \<Longrightarrow> m w = (r, w') \<Longrightarrow> on_wave_at k m s = (r, put_wave k w' s)"
  by (simp add: on_wave_at_def bindM_def liftM_def)

text \<open>The cases of a round, by the instruction that it finds.\<close>

lemma round_stops:
  assumes "at_instr k i w s" and "in_key i = S_ENDPGM \<or> in_key i = S_BARRIER"
    and "wavefront_round k ctx s = (Inr b, t)"
  shows "b \<and> (\<exists>u. em_group u = em_group s
    \<and> t = put_wave k (if in_key i = S_ENDPGM then w\<lparr>completed := True\<rparr> else w\<lparr>atBarrier := True\<rparr>) u)"
proof -
  let ?ctx = "ctx\<lparr>ec_address := to_u64 (in_addr i)\<rparr>"
  obtain q u where u: "processInstruction ?ctx s = (q, u)" by force
  from processInstruction_group [OF u] have g: "em_group u = em_group s" by simp
  with assms(1) have here: "wave_at k u = Inr w" by (simp add: at_instr_def wave_at_def)
  have mark: "on_wave_at k (modifyM f) u = (Inr (), put_wave k (f w) u)" for f
    by (rule on_wave_at_run [OF here]) (simp add: modifyM_def)
  from assms(1,3) u have "q = Inr ()"
    by (cases q) (simp_all add: wavefront_round_def bindM_def liftM_def at_instr_def Let_def)
  with assms u g show ?thesis
    by (auto simp: wavefront_round_def bindM_def liftM_def at_instr_def Let_def mark retM_def)
qed

lemma round_goes_on:
  assumes "at_instr k i w s" and "in_key i \<noteq> S_ENDPGM" and "in_key i \<noteq> S_BARRIER"
    and "wavefront_round k ctx s = (Inr b, t)"
  obtains u v w' w'' where "\<not> b" "em_group u = em_group s"
    "(if in_key i \<noteq> S_WAITCNT then try_instr k (ctx\<lparr>ec_address := to_u64 (in_addr i)\<rparr>) i else retM ()) u = (Inr (), v)"
    "wave_at k v = Inr w'" "to_next_instr (wg_code (em_group v)) w' = (Inr (), w'')" "t = put_wave k w'' v"
    "processInstruction (ctx\<lparr>ec_address := to_u64 (in_addr i)\<rparr>) s = (Inr (), u)"
proof -
  let ?ctx = "ctx\<lparr>ec_address := to_u64 (in_addr i)\<rparr>"
  obtain q u where u: "processInstruction ?ctx s = (q, u)" by force
  from assms(1,4) u have q: "q = Inr ()"
    by (cases q) (simp_all add: wavefront_round_def bindM_def liftM_def at_instr_def Let_def)
  obtain p v where v: "(if in_key i \<noteq> S_WAITCNT then try_instr k ?ctx i else retM ()) u = (p, v)" by force
  from assms(1-4) u q v have p: "p = Inr ()"
    by (cases p) (simp_all add: wavefront_round_def bindM_def liftM_def at_instr_def Let_def)
  have rest: "bindM (on_wave_at k (to_next_instr (wg_code (em_group v)))) (\<lambda>_. retM False) v = (Inr b, t)"
    using assms u q v p by (simp add: wavefront_round_def bindM_def liftM_def at_instr_def Let_def)
  then obtain w' where w': "wave_at k v = Inr w'"
    by (cases "wave_at k v") (simp_all add: on_wave_at_def bindM_def liftM_def)
  obtain n w'' where n: "to_next_instr (wg_code (em_group v)) w' = (n, w'')" by force
  with rest w' have "n = Inr ()" "t = put_wave k w'' v" "\<not> b"
    by (cases n; simp add: on_wave_at_def bindM_def liftM_def retM_def)+
  with u q v p w' n show thesis
    by (intro that [of u v w' w'']) (simp_all only: processInstruction_group [OF u] not_False_eq_True)
qed

section \<open>The end of a wavefront\<close>

lemma round_end_cases:
  assumes "wavefront_round k ctx s = (Inr True, t)"
  obtains w i u where "at_instr k i w s" "em_group u = em_group s"
    "in_key i = S_ENDPGM \<and> t = put_wave k (w\<lparr>completed := True\<rparr>) u
     \<or> in_key i = S_BARRIER \<and> t = put_wave k (w\<lparr>atBarrier := True\<rparr>) u"
proof -
  from assms obtain i where "bindE (wave_at k s) (get_cur_instr (wg_code (em_group s))) = Inr i"
    by (cases "bindE (wave_at k s) (get_cur_instr (wg_code (em_group s)))")
      (simp_all add: wavefront_round_def bindM_def liftM_def)
  then obtain w where here: "at_instr k i w s" by (auto simp: at_instr_def result_simps)
  show thesis
  proof (cases "in_key i = S_ENDPGM \<or> in_key i = S_BARRIER")
    case True
    with round_stops [OF here True assms] that here show thesis by (auto split: if_splits)
  next
    case False
    then show thesis using round_goes_on [OF here _ _ assms] by blast
  qed
qed

theorem wavefront_stops:
  assumes "run_wavefront k s = Some (Inr (), t)"
  shows "\<exists>w i. at_instr k i w t \<and> (in_key i = S_ENDPGM \<and> completed w \<or> in_key i = S_BARRIER \<and> atBarrier w)"
proof -
  from assms obtain ctx where "wavefront_loop k ctx s = Some (Inr (), t)"
    by (auto simp: run_wavefront_def split: sum.splits)
  then obtain u where "wavefront_round k ctx u = (Inr True, t)"
    using wavefront_loop_Some by (fastforce simp: round_ends_def)
  then show ?thesis
    by (rule round_end_cases)
      (auto simp: at_instr_def wave_at_def put_wave_def at_index_Inr_iff get_cur_instr_def)
qed


section \<open>A barrier is never passed\<close>

definition stuck :: "nat \<Rightarrow> Emulation \<Rightarrow> bool" where
  "stuck k s \<longleftrightarrow> (\<exists>w i. at_instr k i w s \<and> in_key i = S_BARRIER \<and> \<not> completed w)"

lemma stuck_not_completed: "stuck k s \<Longrightarrow> \<not> all_wf_completed (em_group s)"
  by (auto simp: stuck_def at_instr_def wave_at_def at_index_Inr_iff all_wf_completed_def list_all_length)

lemma run_wavefront_stuck:
  assumes "run_wavefront j s = Some (Inr (), t)" and "stuck k s" and "storage_inv (em_store s)"
  shows "stuck k t"
proof (cases "j = k")
  case False
  from wavefront_isolated_run [OF assms(1,3), THEN conjunct2] obtain w where
    "em_group t = (em_group s)\<lparr>wg_wavefronts := (wg_wavefronts (em_group s))[j := w]\<rparr>"
    unfolding group_frame_def by blast
  with assms(2) False show ?thesis
    by (auto simp: stuck_def at_instr_def wave_at_def at_index_Inr_iff)
next
  case True
  from assms(2) obtain w i where here: "at_instr k i w s" "in_key i = S_BARRIER" "\<not> completed w"
    by (auto simp: stuck_def)
  from assms(1) True obtain ctx where loop: "wavefront_loop k ctx s = Some (Inr (), t)"
    by (auto simp: run_wavefront_def split: sum.splits)
  obtain r u where r: "wavefront_round k ctx s = (r, u)" by force
  with loop obtain b where b: "r = Inr b"
    by (subst (asm) wavefront_loop.simps) (auto split: sum.splits)
  from round_stops [OF here(1) disjI2 [OF here(2)] r [unfolded b]] obtain v where
    "b" "em_group v = em_group s" "u = put_wave k (w\<lparr>atBarrier := True\<rparr>) v"
    using here(2) by auto
  with loop r b have "t = put_wave k (w\<lparr>atBarrier := True\<rparr>) v" "em_group v = em_group s"
    by (subst (asm) wavefront_loop.simps, simp)+
  with here show ?thesis
    by (auto simp: stuck_def at_instr_def wave_at_def put_wave_def at_index_Inr_iff get_cur_instr_def
        intro!: exI [of _ i])
qed


lemma run_wavefronts_stuck:
  "run_wavefronts ks s = Some (Inr (), t) \<Longrightarrow> stuck k s \<Longrightarrow> storage_inv (em_store s) \<Longrightarrow>
     stuck k t \<and> storage_inv (em_store t)"
proof (induction ks arbitrary: s)
  case (Cons j ks)
  from Cons.prems(1) obtain x u where u: "run_wavefront j s = Some (Inr x, u)" "run_wavefronts ks u = Some (Inr (), t)"
    by (auto split: option.splits sum.splits)
  with Cons.prems show ?case
    using Cons.IH [OF u(2)] run_wavefront_stuck [of j s u k] wavefront_isolated_run [of j s "Inr x" u] by simp
qed simp

lemma resolve_waves_nth:
  "resolve_waves ws = (Inr (), ws') \<Longrightarrow> ws' = map (\<lambda>w. w\<lparr>atBarrier := False\<rparr>) ws \<and> list_all atBarrier ws"
  by (induction ws arbitrary: ws') (auto split: if_splits prod.splits)

lemma resolve_barrier_stuck: "resolve_barrier s = (Inr (), t) \<Longrightarrow> stuck k s \<Longrightarrow> stuck k t \<and> em_store t = em_store s"
proof -
  assume run: "resolve_barrier s = (Inr (), t)" and st: "stuck k s"
  then obtain ws where "resolve_waves (wg_wavefronts (em_group s)) = (Inr (), ws)"
      "t = s\<lparr>em_group := (em_group s)\<lparr>wg_wavefronts := ws\<rparr>\<rparr>"
    using stuck_not_completed by (auto simp: resolve_barrier_def split: prod.splits)
  with resolve_waves_nth st show ?thesis
    by (fastforce simp: stuck_def at_instr_def wave_at_def at_index_Inr_iff get_cur_instr_def)
qed

lemma group_loop_stuck:
  assumes "group_loop s = Some y"
  shows "stuck k s \<and> storage_inv (em_store s) \<longrightarrow> fst y \<noteq> Inr ()"
  using assms
proof (rule group_loop.raw_induct [rotated])
  fix loop s y
  assume IH: "\<And>s y. loop s = Some y \<Longrightarrow> stuck k s \<and> storage_inv (em_store s) \<longrightarrow> fst y \<noteq> Inr ()"
    and body: "(if all_wf_completed (em_group s) then Some (Inr (), s)
      else case group_round s of
        None \<Rightarrow> None | Some (Inl e, t) \<Rightarrow> Some (Inl e, t) | Some (Inr _, t) \<Rightarrow> loop t) = Some y"
  show "stuck k s \<and> storage_inv (em_store s) \<longrightarrow> fst y \<noteq> Inr ()"
  proof (intro impI notI)
    assume st: "stuck k s \<and> storage_inv (em_store s)" and returned: "fst y = Inr ()"
    have "\<not> all_wf_completed (em_group s)" using stuck_not_completed st by blast
    with body obtain q t where t: "group_round s = Some (q, t)"
      by (auto split: option.splits)
    with body returned \<open>\<not> all_wf_completed (em_group s)\<close> have q: "q = Inr ()" "loop t = Some y"
      by (auto split: sum.splits)
    from t q(1) obtain u where u: "run_wavefronts [0..<length (wg_wavefronts (em_group s))] s = Some (Inr (), u)"
        "resolve_barrier u = (Inr (), t)"
      by (auto simp: group_round_def split: option.splits sum.splits)
    have "stuck k t \<and> storage_inv (em_store t)"
      using run_wavefronts_stuck [OF u(1), of k] resolve_barrier_stuck [OF u(2), of k] st by simp
    with IH [OF q(2)] returned show False by simp
  qed
qed

text \<open>
  C28: A work-group with a wavefront that stands at an s_barrier never completes: the program
  counter is not moved past the barrier.
\<close>

theorem barrier_never_passed:
  assumes "at_instr k i w s" and "in_key i = S_BARRIER" and "\<not> completed w" and "storage_inv (em_store s)"
  shows "\<nexists>t. group_loop s = Some (Inr (), t)"
proof
  assume "\<exists>t. group_loop s = Some (Inr (), t)"
  then obtain t where "group_loop s = Some (Inr (), t)" by blast
  moreover have "stuck k s" using assms(1-3) by (auto simp: stuck_def)
  ultimately show False using group_loop_stuck assms(4) by fastforce
qed

section \<open>After an exception\<close>

text \<open>An instruction that throws is skipped: the debugger is told and the next instruction runs.\<close>

text \<open>
  C27: An instruction that throws a runtime_error is skipped: the mode becomes EXC, the memory
  keeps what was written before, and the program goes on with the next instruction.
\<close>

theorem exception_skips_instruction:
  assumes "at_instr k i w s" and "in_key i \<notin> {S_ENDPGM, S_BARRIER, S_WAITCNT}"
    and "processInstruction (ctx\<lparr>ec_address := to_u64 (in_addr i)\<rparr>) s = (Inr (), u)"
    and "run_instr i \<lparr>m_wave = w, m_store = em_store u\<rparr> = (Inl (Runtime_error what), m)"
    and "wavefront_round k ctx s = (Inr b, t)"
  shows "\<not> b \<and> dc_mode (em_debug t) = EXC \<and> em_store t = m_store m
    \<and> wave_at k t = Inr (snd (to_next_instr (wg_code (em_group s)) (m_wave m)))"
proof (rule round_goes_on [OF assms(1) _ _ assms(5)])
  fix u' v w' w''
  let ?ctx = "ctx\<lparr>ec_address := to_u64 (in_addr i)\<rparr>"
  assume "\<not> b" and g: "em_group u' = em_group s"
    and body: "(if in_key i \<noteq> S_WAITCNT then try_instr k ?ctx i else retM ()) u' = (Inr (), v)"
    and next_instr: "wave_at k v = Inr w'" "to_next_instr (wg_code (em_group v)) w' = (Inr (), w'')"
    and t: "t = put_wave k w'' v" and "processInstruction ?ctx s = (Inr (), u')"
  then have u: "u' = u" using assms(3) by simp
  have wave: "wave_at k u = Inr w" using assms(1) g u by (simp add: at_instr_def wave_at_def)
  let ?x = "(put_wave k (m_wave m) u)\<lparr>em_store := m_store m\<rparr>"
  have "on_machine k (run_instr i) u = (Inl (Runtime_error what), ?x)"
    using wave assms(4) by (simp add: on_machine_def bindM_def liftM_def)
  with body u assms(2) have exc: "processException what ?ctx ?x = (Inr (), v)"
    by (simp add: try_instr_def)
  from processException_group [OF exc] have v: "em_group v = em_group ?x" "em_store v = m_store m" by simp_all
  have "wave_at k v = Inr (m_wave m)"
    using wave_at_put [OF wave, of "m_wave m"] unfolding wave_at_def v(1) by simp
  moreover have "wg_code (em_group v) = wg_code (em_group s)" using g u by (simp add: v(1) put_wave_def)
  moreover have "dc_mode (em_debug v) = EXC"
    using exc by (auto simp: processException_def bindM_def set_mode_def modifyM_def control_def
        dest: send_out_control split: prod.splits sum.splits)
  ultimately show ?thesis
    using \<open>\<not> b\<close> next_instr by (simp add: t v(2) put_wave_def [of k w'' v] wave_at_def at_index_def split: if_splits)
qed (use assms(2) in auto)

text \<open>
  In the modes \<open>STOP\<close> and \<open>EXC\<close> the emulator does not listen any more, and does not stop either: no
  round takes a message or leaves these modes.
\<close>

definition deaf :: "DebuggerMessage list \<Rightarrow> Emulation \<Rightarrow> bool" where
  "deaf ms s \<longleftrightarrow> isTerminal (em_debug s) \<and> taken s = ms"

lemma deaf_processInstruction: "keeps (deaf ms) (processInstruction ctx)"
  by (simp add: keeps_def deaf_def processInstruction_def unless_terminal_def retM_def)

lemma deaf_debug: "em_debug t = em_debug s \<Longrightarrow> deaf ms t = deaf ms s"
  by (simp add: deaf_def taken_def)

lemma deaf_on_wave_at: "keeps (deaf ms) (on_wave_at k m)" and deaf_on_machine: "keeps (deaf ms) (on_machine k n)"
  by (auto simp: keeps_def on_wave_at_def on_machine_def bindM_def liftM_def deaf_def taken_def split: sum.splits prod.splits)

lemma deaf_processException: "keeps (deaf ms) (processException what ctx)"
proof -
  have "keeps (deaf ms) (set_mode EXC)"
    by (simp add: keeps_def deaf_def set_mode_def modifyM_def isTerminal_def taken_def)
  moreover have "keeps (deaf ms) (send_out m)" for m
    unfolding keeps_def
  proof (intro allI impI)
    fix s
    assume "deaf ms s"
    then show "deaf ms (snd (send_out m s))"
      using send_out_control [of m s "fst (send_out m s)" "snd (send_out m s)"]
      by (simp add: deaf_def control_def isTerminal_def)
  qed
  ultimately show ?thesis unfolding processException_def by (intro keeps_intros)
qed

lemma deaf_round: "keeps (deaf ms) (wavefront_round k ctx)"
proof -
  have "keeps (deaf ms) (try_instr k ctx i)" for ctx i
    unfolding keeps_def
  proof (intro allI impI)
    fix s
    assume "deaf ms s"
    then have "deaf ms (snd (on_machine k (run_instr i) s))" by (rule keepsD [OF deaf_on_machine])
    then show "deaf ms (snd (try_instr k ctx i s))"
      using keepsD [OF deaf_processException]
      by (auto simp: try_instr_def split: prod.splits sum.splits error.splits)
  qed
  then show ?thesis
    unfolding wavefront_round_def Let_def
    by (intro keeps_bind keeps_if keeps_ret keeps_lift deaf_processInstruction deaf_on_wave_at)
qed

lemma loop_deaf:
  assumes "wavefront_loop k ctx s = Some (r, t)" and "deaf ms s"
  shows "deaf ms t"
proof -
  from assms(1) obtain u where steps: "(wave_step k ctx)\<^sup>*\<^sup>* s u" and last: "round_ends k ctx u r t"
    using wavefront_loop_Some by fastforce
  from steps assms(2) have "deaf ms u"
  proof (induction rule: rtranclp_induct)
    case (step v w)
    then show ?case using keepsD [OF deaf_round, of ms v k ctx] by (simp add: wave_step_iff)
  qed
  then show ?thesis
    using last keepsD [OF deaf_round, of ms u k ctx] by (auto simp: round_ends_def)
qed


section \<open>Programs without branches\<close>

text \<open>
  From address \<open>a\<close> the code runs straight to its end: every instruction up to an \<open>S_ENDPGM\<close> has a
  valid width and a format that leaves the program counter alone (or is the ignored \<open>S_WAITCNT\<close>).
\<close>

inductive leads_to_end :: "KernelCode \<Rightarrow> u64 \<Rightarrow> bool" for kc :: KernelCode where
  at_end: "get_instr kc a = Inr i \<Longrightarrow> in_key i = S_ENDPGM \<Longrightarrow> leads_to_end kc a"
| before_end: "get_instr kc a = Inr i \<Longrightarrow> in_key i \<noteq> S_ENDPGM \<Longrightarrow> in_key i \<noteq> S_BARRIER
    \<Longrightarrow> in_format i \<in> data_formats \<or> in_key i = S_WAITCNT
    \<Longrightarrow> in_widthInBytes i = 4 \<or> in_widthInBytes i = 8
    \<Longrightarrow> leads_to_end kc (a + of_nat (in_widthInBytes i)) \<Longrightarrow> leads_to_end kc a"

definition pc_at :: "nat \<Rightarrow> KernelCode \<Rightarrow> u64 \<Rightarrow> Emulation \<Rightarrow> bool" where
  "pc_at k kc a s \<longleftrightarrow> wg_code (em_group s) = kc
     \<and> (\<exists>w. wave_at k s = Inr w \<and> programCounter w = new_pc a)"

lemma on_machine_pc:
  assumes "on_machine k (run_instr i) s = (r, t)" and "in_format i \<in> data_formats" and "pc_at k kc a s"
  shows "pc_at k kc a t"
proof -
  from assms(3) obtain w where w: "wave_at k s = Inr w" "programCounter w = new_pc a"
    by (auto simp: pc_at_def)
  obtain q m where m: "run_instr i \<lparr>m_wave = w, m_store = em_store s\<rparr> = (q, m)" by force
  have "programCounter (m_wave m) = new_pc a"
    using keepsD [OF run_instr_pc [OF assms(2), of "new_pc a"], of "\<lparr>m_wave = w, m_store = em_store s\<rparr>"] w(2) m by simp
  moreover have t: "t = (put_wave k (m_wave m) s)\<lparr>em_store := m_store m\<rparr>"
    using assms(1) w(1) m by (simp add: on_machine_def bindM_def liftM_def)
  moreover have "wave_at k t = Inr (m_wave m)"
    using wave_at_put [OF w(1), of "m_wave m"] by (simp add: t wave_at_def)
  ultimately show ?thesis using assms(3) by (simp add: pc_at_def)
qed

lemma pc_at_cong: "em_group t = em_group s \<Longrightarrow> pc_at k kc a t = pc_at k kc a s"
  by (simp add: pc_at_def wave_at_def)

lemma try_instr_pc:
  assumes "try_instr k ctx i s = (Inr (), t)" and "in_format i \<in> data_formats" and "pc_at k kc a s"
  shows "pc_at k kc a t"
proof -
  obtain r u where u: "on_machine k (run_instr i) s = (r, u)" by force
  note here = on_machine_pc [OF u assms(2,3)]
  show ?thesis
    using assms(1) u here
    by (auto simp: try_instr_def pc_at_cong [OF conjunct1 [OF processException_group]]
        split: sum.splits error.splits)
qed

lemma round_straight:
  assumes "pc_at k kc a s" and "get_instr kc a = Inr i" and "in_key i \<noteq> S_ENDPGM" and "in_key i \<noteq> S_BARRIER"
    and "in_format i \<in> data_formats \<or> in_key i = S_WAITCNT"
    and "in_widthInBytes i = 4 \<or> in_widthInBytes i = 8" and "wavefront_round k ctx s = (Inr b, t)"
  shows "\<not> b \<and> pc_at k kc (a + of_nat (in_widthInBytes i)) t"
proof -
  from assms(1,2) obtain w where here: "at_instr k i w s"
    by (auto simp: pc_at_def at_instr_def get_cur_instr_def pc_get_value_def new_pc_def)
  show ?thesis
  proof (rule round_goes_on [OF here assms(3,4,7)])
    fix u v w' w''
    assume b: "\<not> b" and g: "em_group u = em_group s"
      and body: "(if in_key i \<noteq> S_WAITCNT then try_instr k (ctx\<lparr>ec_address := to_u64 (in_addr i)\<rparr>) i else retM ()) u
        = (Inr (), v)"
      and w': "wave_at k v = Inr w'" and nxt: "to_next_instr (wg_code (em_group v)) w' = (Inr (), w'')"
      and t: "t = put_wave k w'' v"
    have u: "pc_at k kc a u" using assms(1) pc_at_cong [OF g] by simp
    have v: "pc_at k kc a v"
    proof (cases "in_key i = S_WAITCNT")
      case True
      with body u show ?thesis by (simp add: retM_def)
    next
      case False
      with body assms(5) have "try_instr k (ctx\<lparr>ec_address := to_u64 (in_addr i)\<rparr>) i u = (Inr (), v)"
        "in_format i \<in> data_formats" by simp_all
      then show ?thesis using u by (rule try_instr_pc)
    qed
    then have pc: "programCounter w' = new_pc a" "wg_code (em_group v) = kc"
      using w' by (simp_all add: pc_at_def)
    have "programCounter w'' = new_pc (a + of_nat (in_widthInBytes i))"
      using nxt pc assms(2,6)
      by (auto simp: to_next_instr_def pc_was_used_def new_pc_def get_cur_instr_def pc_get_value_def get_width_def
          pc_hidden_add_def Let_def)
    then show ?thesis using b w' pc(2) by (simp add: t pc_at_def)
  qed
qed

lemma straight_line_loop:
  assumes "leads_to_end kc a" and "pc_at k kc a s"
  shows "wavefront_loop k ctx s \<noteq> None"
  using assms
proof (induction arbitrary: s rule: leads_to_end.induct)
  case (at_end a i)
  obtain r t where r: "wavefront_round k ctx s = (r, t)" by force
  from at_end obtain w where here: "at_instr k i w s"
    by (auto simp: pc_at_def at_instr_def get_cur_instr_def pc_get_value_def new_pc_def)
  show ?case
  proof (cases r)
    case (Inl e)
    with r have "round_ends k ctx s (Inl e) t" by (simp add: round_ends_def)
    then show ?thesis by (simp add: wavefront_loop_end)
  next
    case (Inr b)
    then have "b" using round_stops [OF here disjI1 [OF at_end.hyps(2)]] r by blast
    with r Inr have "round_ends k ctx s (Inr ()) t" by (simp add: round_ends_def)
    then show ?thesis by (simp add: wavefront_loop_end)
  qed
next
  case (before_end a i)
  obtain r t where r: "wavefront_round k ctx s = (r, t)" by force
  show ?case
  proof (cases r)
    case (Inl e)
    with r have "round_ends k ctx s (Inl e) t" by (simp add: round_ends_def)
    then show ?thesis by (simp add: wavefront_loop_end)
  next
    case (Inr b)
    with round_straight [OF before_end.prems before_end.hyps(1-5)] r
    have step: "wave_step k ctx s t" and t: "pc_at k kc (a + of_nat (in_widthInBytes i)) t"
      by (auto simp: wave_step_iff)
    show ?thesis using before_end.IH [OF t] wavefront_loop_step [OF step] by simp
  qed
qed



section \<open>Concrete runs\<close>

definition code_of :: "Instruction list \<Rightarrow> KernelCode" where
  "code_of is = new_code\<lparr>kc_code := (\<lambda>a. if unat a div 4 < length is then Some (is ! (unat a div 4)) else None)\<rparr>"

definition one_wave :: "Instruction list \<Rightarrow> ExecutionMode \<Rightarrow> Emulation" where
  "one_wave is mode = (idle_emulation mode [])\<lparr>em_group := (new_work_group (code_of is) 1 1 1 0 0 0)
     \<lparr>wg_wavefronts := [new_wavefront 1 0 4 1], wg_workItems := [\<lparr>localIdX = 0, localIdY = 0, localIdZ = 0\<rparr>]\<rparr>\<rparr>"

abbreviation endpgm :: Instruction where "endpgm \<equiv> make_instr S_ENDPGM SOPP []"
abbreviation barrier :: Instruction where "barrier \<equiv> make_instr S_BARRIER SOPP []"
abbreviation bad_load :: Instruction where
  "bad_load \<equiv> make_instr S_LOAD_DWORD SMEM [reg_op REG_S0 1, reg_op (REG_S0 + 2) 2,
     \<lparr>op_type = INT_CONST, op_value = IntV 4, op_regAmount = 0\<rparr>]"

lemma one_wave_instr:
  "at_instr 0 i (new_wavefront 1 0 4 1) (one_wave (i # is) mode)"
  "storage_inv (em_store (one_wave (i # is) mode))"
  by (simp_all add: at_instr_def wave_at_def one_wave_def idle_emulation_def new_work_group_def at_index_def
      get_cur_instr_def get_instr_def code_of_def new_code_def new_wavefront_def new_pc_def pc_get_value_def storage_inv_init)


text \<open>The round at an \<open>S_ENDPGM\<close>, evaluated.\<close>

lemma end_rounds:
  "returns (fst (wavefront_round 0 ctx (one_wave [endpgm] RUN)))"
  "projr (fst (wavefront_round 0 ctx (one_wave [endpgm] RUN)))"
  "returns (fst (wavefront_round 0 ctx (one_wave [endpgm] STOP)))"
  "projr (fst (wavefront_round 0 ctx (one_wave [endpgm] STOP)))"
  by code_simp+

lemma end_runs:
  assumes "\<And>ctx. returns (fst (wavefront_round 0 ctx (one_wave [endpgm] mode)))"
    and "\<And>ctx. projr (fst (wavefront_round 0 ctx (one_wave [endpgm] mode)))"
  obtains t where "run_wavefront 0 (one_wave [endpgm] mode) = Some (Inr (), t)"
proof -
  let ?s = "one_wave [endpgm] mode"
  have "bindE (wave_at 0 ?s) (\<lambda>w. createContext 0 w (em_group ?s)) = Inr
      (projr (createContext 0 (new_wavefront 1 0 4 1) (em_group ?s)))"
    by (simp add: one_wave_def wave_at_def at_index_def createContext_def get_workitem_for_wf_def
      new_wavefront_def new_work_group_def)
  moreover have "round_ends 0 ctx ?s (Inr ()) (snd (wavefront_round 0 ctx ?s))" for ctx
    using returns_pairD [OF assms(1), of ctx] assms(2) [of ctx] by (simp add: round_ends_def)
  ultimately show thesis
    using that by (fastforce simp: run_wavefront_def dest: wavefront_loop_end)
qed


lemma wavefront_stops_witness:
  "\<exists>t w i. at_instr 0 i w t \<and> (in_key i = S_ENDPGM \<and> completed w \<or> in_key i = S_BARRIER \<and> atBarrier w)"
proof -
  obtain t where "run_wavefront 0 (one_wave [endpgm] RUN) = Some (Inr (), t)"
    by (rule end_runs) (rule end_rounds)+
  then show ?thesis using wavefront_stops by blast
qed


lemma barrier_never_passed_witness: "\<nexists>t. group_loop (one_wave [barrier] RUN) = Some (Inr (), t)"
  by (rule barrier_never_passed [OF one_wave_instr(1)])
    (simp_all add: one_wave_instr(2), simp_all add: make_instr_def new_wavefront_def)


lemma catchable_Inl: "\<not> returns r \<Longrightarrow> catchable (projl r) \<Longrightarrow> \<exists>what. r = Inl (Runtime_error what)"
  by (cases r; cases "projl r") (auto simp: returns_def)

definition load_run :: "unit result \<times> Machine" where
  "load_run = run_instr bad_load \<lparr>m_wave = new_wavefront 1 0 4 1, m_store = storage_init 0\<rparr>"

lemma load_run_throws: "\<not> returns (fst load_run)" "catchable (projl (fst load_run))"
  by code_simp+

lemma exception_skips_instruction_witness:
  "\<exists>t. dc_mode (em_debug t) = EXC \<and> wavefront_round 0 here (one_wave [bad_load, endpgm] RUN) = (Inr False, t)"
proof -
  let ?s = "one_wave [bad_load, endpgm] RUN"
  have "returns (fst (wavefront_round 0 here ?s))" by code_simp
  then obtain b t where t: "wavefront_round 0 here ?s = (Inr b, t)" by (blast dest: returns_pairD)
  obtain what m where m: "run_instr bad_load \<lparr>m_wave = new_wavefront 1 0 4 1, m_store = storage_init 0\<rparr>
      = (Inl (Runtime_error what), m)"
    using catchable_Inl [OF load_run_throws] prod.collapse [of load_run] unfolding load_run_def by metis
  have quiet: "processInstruction (here\<lparr>ec_address := to_u64 (in_addr bad_load)\<rparr>) ?s = (Inr (), ?s)"
    by (simp add: processInstruction_pause will_pause_def one_wave_def idle_emulation_def new_debug_def
      new_breakpoints_def hasBreakpoint_def)
  have store: "em_store ?s = storage_init 0" by (simp add: one_wave_def idle_emulation_def)
  have "\<not> b \<and> dc_mode (em_debug t) = EXC"
    using exception_skips_instruction [OF one_wave_instr(1) _ quiet m [folded store] t]
    by (simp add: make_instr_def)
  with t show ?thesis by auto
qed

end
