(* ===== verification/Dispatchers.thy ===== *)
theory Dispatchers
  imports WorkGroupProps
begin

text \<open>
  The dispatcher (\<open>emulator/src/gpu/dispatcher.h\<close>, \<open>dispatcher.cpp\<close>): it cuts the index space of
  a kernel into work-groups and hands them out one after the other, X fastest. The groups at the
  border are smaller. All sizes are 64 bit words; a work-group size of 0 is a division by zero.
\<close>

section \<open>The code\<close>

record Dispatcher =
  curIdX :: u64
  curIdY :: u64
  curIdZ :: u64
  dispatchedWg :: u64
  wgAmount :: u64
  dp_config :: KernelConfig
  dp_code :: KernelCode

text \<open>The number of groups along one dimension.\<close>

definition groups_along :: "u64 \<Rightarrow> u64 \<Rightarrow> u64 result" where
  "groups_along n wgSize =
     bindE (definedE (wgSize \<noteq> 0) ''division by zero'') (\<lambda>_. Inr ((n - 1) div wgSize + 1))"

definition new_dispatcher :: "KernelConfig \<Rightarrow> KernelCode \<Rightarrow> Dispatcher result" where
  "new_dispatcher cfg kc =
     bindE (get_NDRange_X_size cfg) (\<lambda>gx. bindE (get_wg_X_size cfg) (\<lambda>lx.
     bindE (groups_along gx lx) (\<lambda>wgAmountX.
     bindE (get_NDRange_Y_size cfg) (\<lambda>gy. bindE (get_wg_Y_size cfg) (\<lambda>ly.
     bindE (groups_along gy ly) (\<lambda>wgAmountY.
     bindE (get_NDRange_Z_size cfg) (\<lambda>gz. bindE (get_wg_Z_size cfg) (\<lambda>lz.
     bindE (groups_along gz lz) (\<lambda>wgAmountZ.
     Inr \<lparr>curIdX = 0, curIdY = 0, curIdZ = 0, dispatchedWg = 0,
          wgAmount = wgAmountX * wgAmountY * wgAmountZ, dp_config = cfg, dp_code = kc\<rparr>)))))))))"

definition has_next_wg :: "Dispatcher \<Rightarrow> bool" where
  "has_next_wg d = (dispatchedWg d < wgAmount d)"

text \<open>What is left of each dimension, and the position after a group of the given size.\<close>

definition left_size :: "u64 result \<Rightarrow> u64 \<Rightarrow> u64 result \<Rightarrow> u64 result" where
  "left_size n cur wgSize = bindE n (\<lambda>g. bindE wgSize (\<lambda>l. Inr (g - cur * l)))"

definition advance :: "u64 \<Rightarrow> u64 \<Rightarrow> u64 \<Rightarrow> u64 \<Rightarrow> Dispatcher \<Rightarrow> Dispatcher" where
  "advance leftX sizeX leftY sizeY d =
     (let d = d\<lparr>curIdX := curIdX d + 1\<rparr>;
          d = (if leftX - sizeX = 0 then
                 (let d = d\<lparr>curIdY := curIdY d + 1, curIdX := 0\<rparr>
                  in if leftY - sizeY = 0 then d\<lparr>curIdZ := curIdZ d + 1, curIdY := 0\<rparr> else d)
               else d)
      in d\<lparr>dispatchedWg := dispatchedWg d + 1\<rparr>)"

definition next_wg :: "Dispatcher \<Rightarrow> (WorkGroup option \<times> Dispatcher) result" where
  "next_wg d =
     (let cfg = dp_config d
      in bindE (left_size (get_NDRange_X_size cfg) (curIdX d) (get_wg_X_size cfg)) (\<lambda>leftX.
         bindE (left_size (get_NDRange_Y_size cfg) (curIdY d) (get_wg_Y_size cfg)) (\<lambda>leftY.
         bindE (left_size (get_NDRange_Z_size cfg) (curIdZ d) (get_wg_Z_size cfg)) (\<lambda>leftZ.
         if leftX \<le> 0 \<or> leftY \<le> 0 \<or> leftZ \<le> 0 then Inr (None, d)
         else
           bindE (get_wg_X_size cfg) (\<lambda>lx. bindE (get_wg_Y_size cfg) (\<lambda>ly. bindE (get_wg_Z_size cfg) (\<lambda>lz.
           let wg = new_work_group (dp_code d) (min lx leftX) (min ly leftY) (min lz leftZ)
                      (curIdX d) (curIdY d) (curIdZ d)
           in bindE (init_workitems wg) (\<lambda>wg.
              bindE (init_wavefronts cfg wg) (\<lambda>wg.
              Inr (Some wg, advance leftX (wg_sizeX wg) leftY (wg_sizeY wg) d))))))))))"

end
