(* ===== verification/DispatcherProps.thy ===== *)
theory DispatcherProps
  imports Dispatchers
begin

text \<open>
  The dispatcher enumerates the cells of a grid: for a configuration with sizes \<open>gx, gy, gz\<close> and
  work-group sizes \<open>lx, ly, lz\<close>, the group number \<open>k\<close> is the cell whose coordinates are the
  digits of \<open>k\<close> in the mixed radix of the group counts, and the groups together cover every point
  of the index space once.
\<close>

section \<open>Positions\<close>

definition cells :: "nat \<Rightarrow> nat \<Rightarrow> nat" where
  "cells g l = (g - 1) div l + 1"

lemma cell_start:
  assumes "0 < l" and "0 < g" and "x < cells g l"
  shows "x * l < g" and "g - x * l \<le> l \<longleftrightarrow> Suc x = cells g l"
proof -
  from assms(3) have x: "x \<le> (g - 1) div l" by (simp add: cells_def)
  then have "x * l \<le> (g - 1) div l * l" by simp
  also have "\<dots> \<le> g - 1" by simp
  finally show start: "x * l < g" using assms(2) by simp
  have "g - x * l \<le> l \<longleftrightarrow> g - 1 < Suc x * l" using assms(2) start by auto
  also have "\<dots> \<longleftrightarrow> (g - 1) div l < Suc x" using assms(1) by (simp add: div_less_iff_less_mult)
  finally show "g - x * l \<le> l \<longleftrightarrow> Suc x = cells g l" using x by (auto simp: cells_def)
qed

lemma cell_of_point:
  assumes "0 < l" and "p < g"
  shows "p div l < cells g l"
proof -
  have "p div l \<le> (g - 1) div l" using assms by (intro div_le_mono) simp
  then show ?thesis by (simp add: cells_def)
qed

lemma in_cell_iff:
  fixes x l p g :: nat
  assumes "0 < l" and "p < g"
  shows "x * l \<le> p \<and> p < x * l + min l (g - x * l) \<longleftrightarrow> x = p div l"
proof
  assume x: "x * l \<le> p \<and> p < x * l + min l (g - x * l)"
  then have "p < x * l + l" "x * l \<le> p" by (auto simp: min_def split: if_splits)
  then have "p div l < Suc x" "x \<le> p div l"
    using assms(1) by (simp_all add: div_less_iff_less_mult less_eq_div_iff_mult_less_eq)
  then show "x = p div l" by simp
next
  assume "x = p div l"
  then have "p = x * l + p mod l" "p mod l < l" using assms(1) by simp_all
  moreover have "p = m + r \<Longrightarrow> r < l \<Longrightarrow> p < g \<Longrightarrow> m \<le> p \<and> p < m + min l (g - m)" for m r :: nat
    by linarith
  ultimately show "x * l \<le> p \<and> p < x * l + min l (g - x * l)"
    using assms(2) by blast
qed

type_synonym sizes3 = "u64 \<times> u64 \<times> u64"

definition grid :: "KernelConfig \<Rightarrow> sizes3 \<Rightarrow> sizes3 \<Rightarrow> bool" where
  "grid cfg g l \<longleftrightarrow> (case (g, l) of ((gx, gy, gz), (lx, ly, lz)) \<Rightarrow>
     get_NDRange_X_size cfg = Inr gx \<and> get_NDRange_Y_size cfg = Inr gy \<and> get_NDRange_Z_size cfg = Inr gz
     \<and> get_wg_X_size cfg = Inr lx \<and> get_wg_Y_size cfg = Inr ly \<and> get_wg_Z_size cfg = Inr lz
     \<and> 0 < gx \<and> 0 < gy \<and> 0 < gz \<and> 0 < lx \<and> 0 < ly \<and> 0 < lz)"

text \<open>The counts of cells per dimension, and the coordinates of the cell number \<open>k\<close>.\<close>

definition counts :: "sizes3 \<Rightarrow> sizes3 \<Rightarrow> nat \<times> nat \<times> nat" where
  "counts g l = (case (g, l) of ((gx, gy, gz), (lx, ly, lz)) \<Rightarrow>
     (cells (unat gx) (unat lx), cells (unat gy) (unat ly), cells (unat gz) (unat lz)))"

definition cell :: "nat \<times> nat \<times> nat \<Rightarrow> nat \<Rightarrow> nat \<times> nat \<times> nat" where
  "cell n k = (case n of (nx, ny, nz) \<Rightarrow> (k mod nx, k div nx mod ny, k div nx div ny))"

definition cell_count :: "nat \<times> nat \<times> nat \<Rightarrow> nat" where
  "cell_count n = (case n of (nx, ny, nz) \<Rightarrow> nx * ny * nz)"

lemma cells_pos [simp]: "0 < cells g l"
  by (simp add: cells_def)

lemma cell_Suc:
  assumes "cell (nx, ny, nz) k = (x, y, z)" and "0 < nx" and "0 < ny"
  shows "cell (nx, ny, nz) (Suc k) =
    (if Suc x = nx then (if Suc y = ny then (0, 0, Suc z) else (0, Suc y, z)) else (Suc x, y, z))"
  using assms by (auto simp: cell_def mod_Suc div_Suc)

lemma cell_bounds:
  assumes "cell (nx, ny, nz) k = (x, y, z)" and "k < cell_count (nx, ny, nz)" and "0 < nx" and "0 < ny"
  shows "x < nx" and "y < ny" and "z < nz"
  using assms by (auto simp: cell_def cell_count_def div_mult2_eq [symmetric] div_less_iff_less_mult ac_simps)

text \<open>Each cell has one number.\<close>

lemma cell_inverse:
  assumes "x < nx" and "y < ny" and "z < nz"
  shows "\<exists>!k. k < cell_count (nx, ny, nz) \<and> cell (nx, ny, nz) k = (x, y, z)"
proof (rule ex1I)
  let ?k = "x + nx * (y + ny * z)"
  have "y + ny * z < ny * nz"
  proof -
    have "y + ny * z < ny * Suc z" using assms(2) by simp
    also have "\<dots> \<le> ny * nz" using assms(3) by (intro mult_le_mono2) simp
    finally show ?thesis .
  qed
  then have "x + nx * (y + ny * z) < nx * (ny * nz)"
  proof -
    assume *: "y + ny * z < ny * nz"
    have "x + nx * (y + ny * z) < nx * Suc (y + ny * z)" using assms(1) by simp
    also have "\<dots> \<le> nx * (ny * nz)" using * by (intro mult_le_mono2) simp
    finally show ?thesis .
  qed
  then show "?k < cell_count (nx, ny, nz) \<and> cell (nx, ny, nz) ?k = (x, y, z)"
    using assms by (simp add: cell_count_def cell_def)
next
  fix k
  assume "k < cell_count (nx, ny, nz) \<and> cell (nx, ny, nz) k = (x, y, z)"
  then have *: "x = k mod nx" "y = k div nx mod ny" "z = k div nx div ny" by (auto simp: cell_def)
  have "k = k mod nx + nx * (k div nx)" by simp
  also have "k div nx = k div nx mod ny + ny * (k div nx div ny)" by simp
  finally show "k = x + nx * (y + ny * z)" using * by simp
qed


section \<open>The dispatcher at a cell\<close>

definition at_cell :: "sizes3 \<Rightarrow> sizes3 \<Rightarrow> nat \<Rightarrow> Dispatcher \<Rightarrow> bool" where
  "at_cell g l k d \<longleftrightarrow> grid (dp_config d) g l
     \<and> cell (counts g l) k = (unat (curIdX d), unat (curIdY d), unat (curIdZ d))
     \<and> unat (dispatchedWg d) = k \<and> unat (wgAmount d) = cell_count (counts g l)
     \<and> cell_count (counts g l) < 2 ^ 64"

text \<open>The size that a group has along one dimension.\<close>

definition cell_size :: "u64 \<Rightarrow> u64 \<Rightarrow> u64 \<Rightarrow> nat" where
  "cell_size g l x = min (unat l) (unat g - unat x * unat l)"

lemma left_along:
  fixes g l x :: u64
  assumes "0 < l" and "0 < g" and "unat x < cells (unat g) (unat l)"
  shows "unat (g - x * l) = unat g - unat x * unat l" and "0 < g - x * l"
    and "g - x * l - min l (g - x * l) = 0 \<longleftrightarrow> Suc (unat x) = cells (unat g) (unat l)"
    and "unat (min l (g - x * l)) = cell_size g l x"
proof -
  have pos: "0 < unat l" "0 < unat g" using assms(1,2) by (simp_all add: word_less_nat_alt)
  note start = cell_start [OF pos assms(3)]
  have "unat g < 2 ^ 64" using unsigned_less [of g] by simp
  with start(1) have mult: "unat (x * l) = unat x * unat l"
    by (simp add: unat_word_ariths)
  with start(1) have "x * l \<le> g" by (simp add: word_le_nat_alt)
  then show left: "unat (g - x * l) = unat g - unat x * unat l"
    by (simp add: unat_sub mult)
  show "0 < g - x * l" using left start(1) by (simp add: word_less_nat_alt)
  have "g - x * l - min l (g - x * l) = 0 \<longleftrightarrow> g - x * l \<le> l" by (auto simp: min_def)
  with left start(2) show "g - x * l - min l (g - x * l) = 0 \<longleftrightarrow> Suc (unat x) = cells (unat g) (unat l)"
    by (simp add: word_le_nat_alt)
  show "unat (min l (g - x * l)) = cell_size g l x"
    using left by (auto simp: cell_size_def min_def word_le_nat_alt)
qed

lemma unat_Suc_cell:
  assumes "unat (x :: u64) < n" and "n < 2 ^ 64"
  shows "unat (x + 1) = Suc (unat x)"
  using assms by (simp add: unat_word_ariths)

lemma cell_count_bounds:
  assumes "0 < nx" "0 < ny" "0 < nz"
  shows "nx \<le> cell_count (nx, ny, nz)" "ny \<le> cell_count (nx, ny, nz)" "nz \<le> cell_count (nx, ny, nz)"
  using assms by (simp_all add: cell_count_def)

lemma advance_cell:
  assumes "at_cell (gx, gy, gz) (lx, ly, lz) k d" and "k < cell_count (counts (gx, gy, gz) (lx, ly, lz))"
  shows "at_cell (gx, gy, gz) (lx, ly, lz) (Suc k)
    (advance (gx - curIdX d * lx) (min lx (gx - curIdX d * lx))
       (gy - curIdY d * ly) (min ly (gy - curIdY d * ly)) d)"
proof -
  let ?nx = "cells (unat gx) (unat lx)" and ?ny = "cells (unat gy) (unat ly)"
    and ?nz = "cells (unat gz) (unat lz)"
  have n: "counts (gx, gy, gz) (lx, ly, lz) = (?nx, ?ny, ?nz)" by (simp add: counts_def)
  from assms have c: "cell (?nx, ?ny, ?nz) k = (unat (curIdX d), unat (curIdY d), unat (curIdZ d))"
      and k: "unat (dispatchedWg d) = k" "k < cell_count (?nx, ?ny, ?nz)" "cell_count (?nx, ?ny, ?nz) < 2 ^ 64"
      and pos: "0 < gx" "0 < lx" "0 < gy" "0 < ly" and cfg: "grid (dp_config d) (gx, gy, gz) (lx, ly, lz)"
    by (auto simp: at_cell_def n grid_def)
  note b = cell_bounds [OF c k(2) cells_pos cells_pos]
  have "?nx < 2 ^ 64" "?ny < 2 ^ 64" "?nz < 2 ^ 64"
    using cell_count_bounds [of ?nx ?ny ?nz] k(3) by (simp_all add: le_less_trans)
  then have suc: "unat (curIdX d + 1) = Suc (unat (curIdX d))" "unat (curIdY d + 1) = Suc (unat (curIdY d))"
      "unat (curIdZ d + 1) = Suc (unat (curIdZ d))" "unat (dispatchedWg d + 1) = Suc k"
    using b k unat_Suc_cell by blast+
  show ?thesis
    using assms(1) cfg cell_Suc [OF c cells_pos cells_pos]
      left_along(3) [OF pos(2,1) b(1)] left_along(3) [OF pos(4,3) b(2)] suc
    by (simp add: at_cell_def n advance_def Let_def)
qed


section \<open>What is handed out\<close>

text \<open>A call at a cell of the grid gives the group of that cell and moves to the next cell.\<close>

definition group_of_cell :: "KernelConfig \<Rightarrow> sizes3 \<Rightarrow> sizes3 \<Rightarrow> nat \<Rightarrow> WorkGroup \<Rightarrow> bool" where
  "group_of_cell cfg g l k wg \<longleftrightarrow> (case (g, l) of ((gx, gy, gz), (lx, ly, lz)) \<Rightarrow>
     cell (counts g l) k = (unat (wg_idX wg), unat (wg_idY wg), unat (wg_idZ wg))
     \<and> unat (wg_sizeX wg) = cell_size gx lx (wg_idX wg)
     \<and> unat (wg_sizeY wg) = cell_size gy ly (wg_idY wg)
     \<and> unat (wg_sizeZ wg) = cell_size gz lz (wg_idZ wg))"

lemma init_workitems_keeps:
  assumes "init_workitems wg = Inr wg'"
  shows "wg_code wg' = wg_code wg" "wg_sizeX wg' = wg_sizeX wg" "wg_sizeY wg' = wg_sizeY wg"
    "wg_sizeZ wg' = wg_sizeZ wg" "wg_idX wg' = wg_idX wg" "wg_idY wg' = wg_idY wg" "wg_idZ wg' = wg_idZ wg"
    "wg_wavefronts wg' = wg_wavefronts wg"
  using assms by (auto simp: init_workitems_def result_simps)

lemma init_wavefronts_keeps:
  assumes "init_wavefronts cfg wg = Inr wg'"
  shows "wg_code wg' = wg_code wg" "wg_sizeX wg' = wg_sizeX wg" "wg_sizeY wg' = wg_sizeY wg"
    "wg_sizeZ wg' = wg_sizeZ wg" "wg_idX wg' = wg_idX wg" "wg_idY wg' = wg_idY wg" "wg_idZ wg' = wg_idZ wg"
    "wg_workItems wg' = wg_workItems wg"
  using assms by (auto simp: init_wavefronts_def result_simps)

lemma next_wg_step:
  assumes "at_cell (gx, gy, gz) (lx, ly, lz) k d" and "k < cell_count (counts (gx, gy, gz) (lx, ly, lz))"
    and "next_wg d = Inr (r, d')"
  shows "\<exists>wg. r = Some wg \<and> group_of_cell (dp_config d) (gx, gy, gz) (lx, ly, lz) k wg
    \<and> at_cell (gx, gy, gz) (lx, ly, lz) (Suc k) d' \<and> dp_config d' = dp_config d"
proof -
  let ?nx = "cells (unat gx) (unat lx)" and ?ny = "cells (unat gy) (unat ly)"
    and ?nz = "cells (unat gz) (unat lz)"
  have n: "counts (gx, gy, gz) (lx, ly, lz) = (?nx, ?ny, ?nz)" by (simp add: counts_def)
  from assms(1) have g: "grid (dp_config d) (gx, gy, gz) (lx, ly, lz)"
      and c: "cell (?nx, ?ny, ?nz) k = (unat (curIdX d), unat (curIdY d), unat (curIdZ d))"
    by (simp_all add: at_cell_def n)
  note b = cell_bounds [OF c assms(2) [unfolded n] cells_pos cells_pos]
  from g have pos: "0 < gx" "0 < gy" "0 < gz" "0 < lx" "0 < ly" "0 < lz"
    and cfg: "get_NDRange_X_size (dp_config d) = Inr gx" "get_NDRange_Y_size (dp_config d) = Inr gy"
      "get_NDRange_Z_size (dp_config d) = Inr gz" "get_wg_X_size (dp_config d) = Inr lx"
      "get_wg_Y_size (dp_config d) = Inr ly" "get_wg_Z_size (dp_config d) = Inr lz"
    by (auto simp: grid_def)
  note along = left_along [OF pos(4,1) b(1)] left_along [OF pos(5,2) b(2)] left_along [OF pos(6,3) b(3)]
  let ?wg = "new_work_group (dp_code d) (min lx (gx - curIdX d * lx)) (min ly (gy - curIdY d * ly))
    (min lz (gz - curIdZ d * lz)) (curIdX d) (curIdY d) (curIdZ d)"
  have "\<not> gx - curIdX d * lx \<le> 0" "\<not> gy - curIdY d * ly \<le> 0" "\<not> gz - curIdZ d * lz \<le> 0"
    using along(2,6,10) by (simp_all only: not_le)
  then have run: "next_wg d = bindE (init_workitems ?wg) (\<lambda>wg1. bindE (init_wavefronts (dp_config d) wg1) (\<lambda>wg2.
      Inr (Some wg2, advance (gx - curIdX d * lx) (wg_sizeX wg2) (gy - curIdY d * ly) (wg_sizeY wg2) d)))"
    by (simp only: next_wg_def left_size_def cfg bindE.simps Let_def if_False simp_thms)
  obtain wg1 wg2 where wg: "init_workitems ?wg = Inr wg1"
      "init_wavefronts (dp_config d) wg1 = Inr wg2" "r = Some wg2"
      "d' = advance (gx - curIdX d * lx) (wg_sizeX wg2) (gy - curIdY d * ly) (wg_sizeY wg2) d"
    using assms(3) unfolding run bindE_Inr_iff by blast
  have fields: "wg_sizeX wg2 = min lx (gx - curIdX d * lx)" "wg_sizeY wg2 = min ly (gy - curIdY d * ly)"
    "wg_sizeZ wg2 = min lz (gz - curIdZ d * lz)" "wg_idX wg2 = curIdX d" "wg_idY wg2 = curIdY d"
    "wg_idZ wg2 = curIdZ d"
    using init_workitems_keeps [OF wg(1)] init_wavefronts_keeps [OF wg(2)] by (simp_all add: new_work_group_def)
  have "dp_config d' = dp_config d" by (simp add: wg(4) advance_def Let_def)
  with advance_cell [OF assms(1,2)] c along(4,8,12) show ?thesis
    by (simp add: wg(3,4) fields group_of_cell_def n)
qed


text \<open>With local sizes that an \<open>int\<close> counter reaches, and room for the preloads, a group is made.\<close>

lemma next_wg_total:
  assumes "grid (dp_config d) (gx, gy, gz) (lx, ly, lz)" and "launchable (dp_config d)"
    and "lx < 2 ^ 31" and "ly < 2 ^ 31" and "lz < 2 ^ 31"
  shows "\<exists>r d'. next_wg d = Inr (r, d')"
proof -
  from assms(1) have cfg: "get_NDRange_X_size (dp_config d) = Inr gx" "get_NDRange_Y_size (dp_config d) = Inr gy"
      "get_NDRange_Z_size (dp_config d) = Inr gz" "get_wg_X_size (dp_config d) = Inr lx"
      "get_wg_Y_size (dp_config d) = Inr ly" "get_wg_Z_size (dp_config d) = Inr lz"
    by (auto simp: grid_def)
  have small: "unat (min l v) < 2 ^ 31" if "l < 2 ^ 31" for l v :: u64
    using le_less_trans [OF min.cobounded1 that, of v] by (simp add: word_less_nat_alt)
  have "\<exists>wg2. bindE (init_workitems (new_work_group (dp_code d) (min lx x) (min ly y) (min lz z) i j k))
      (init_wavefronts (dp_config d)) = Inr wg2" for x y z i j k
    using init_wavefronts_total [OF assms(2)] small assms(3-5)
    by (simp add: init_workitems_points new_work_group_def)
  then show ?thesis
    unfolding next_wg_def left_size_def cfg Let_def bindE.simps bindE_assoc [symmetric]
    by (metis (no_types, lifting) bindE.simps(2))
qed

text \<open>The groups of \<open>n\<close> calls, and the points of the index space that a group covers.\<close>

fun next_wgs :: "nat \<Rightarrow> Dispatcher \<Rightarrow> (WorkGroup option list \<times> Dispatcher) result" where
  "next_wgs 0 d = Inr ([], d)"
| "next_wgs (Suc n) d = bindE (next_wg d) (\<lambda>(wg, d). bindE (next_wgs n d) (\<lambda>(wgs, d). Inr (wg # wgs, d)))"

fun covers :: "sizes3 \<Rightarrow> WorkGroup \<Rightarrow> nat \<times> nat \<times> nat \<Rightarrow> bool" where
  "covers (lx, ly, lz) wg (px, py, pz) \<longleftrightarrow>
     (let bx = unat (wg_idX wg) * unat lx; by' = unat (wg_idY wg) * unat ly; bz = unat (wg_idZ wg) * unat lz
      in bx \<le> px \<and> px < bx + unat (wg_sizeX wg) \<and> by' \<le> py \<and> py < by' + unat (wg_sizeY wg)
         \<and> bz \<le> pz \<and> pz < bz + unat (wg_sizeZ wg))"

lemma next_wgs_cells:
  assumes "at_cell g l k d" and "next_wgs n d = Inr (wgs, d')" and "k + n \<le> cell_count (counts g l)"
  shows "length wgs = n \<and> at_cell g l (k + n) d' \<and> (\<forall>i < n. \<exists>wg. wgs ! i = Some wg
    \<and> group_of_cell (dp_config d) g l (k + i) wg)"
  using assms
proof (induction n arbitrary: k d wgs)
  case (Suc n)
  obtain gx gy gz lx ly lz where gl: "g = (gx, gy, gz)" "l = (lx, ly, lz)" by (metis prod.exhaust)
  from Suc.prems(2) obtain r e ws where step: "next_wg d = Inr (r, e)" "next_wgs n e = Inr (ws, d')"
      "wgs = r # ws"
    by (auto simp: result_simps)
  have "k < cell_count (counts g l)" using Suc.prems(3) by simp
  with Suc.prems(1) step(1) obtain wg where wg: "r = Some wg" "group_of_cell (dp_config d) g l k wg"
      "at_cell g l (Suc k) e" "dp_config e = dp_config d"
    using next_wg_step unfolding gl by blast
  have "length ws = n \<and> at_cell g l (Suc k + n) d' \<and> (\<forall>i < n. \<exists>wg. ws ! i = Some wg
      \<and> group_of_cell (dp_config e) g l (Suc k + i) wg)"
    using Suc.prems(3) by (intro Suc.IH [OF wg(3) step(2)]) simp
  with wg show ?case by (auto simp: step(3) nth_Cons split: nat.splits)
qed simp

lemma next_wgs_total:
  assumes "at_cell g (lx, ly, lz) k d" and "k + n \<le> cell_count (counts g (lx, ly, lz))"
    and "launchable (dp_config d)" and "lx < 2 ^ 31" and "ly < 2 ^ 31" and "lz < 2 ^ 31"
  shows "\<exists>wgs d'. next_wgs n d = Inr (wgs, d')"
  using assms
proof (induction n arbitrary: k d)
  case (Suc n)
  obtain gx gy gz where g: "g = (gx, gy, gz)" by (metis prod.exhaust)
  with Suc.prems(1) have "grid (dp_config d) (gx, gy, gz) (lx, ly, lz)" by (simp add: at_cell_def)
  then obtain r e where r: "next_wg d = Inr (r, e)"
    using next_wg_total Suc.prems(3-6) by blast
  have "k < cell_count (counts (gx, gy, gz) (lx, ly, lz))" using Suc.prems(2) g by simp
  with next_wg_step [OF Suc.prems(1) [unfolded g] _ r]
  have e: "at_cell g (lx, ly, lz) (Suc k) e" "dp_config e = dp_config d" unfolding g by auto
  have "Suc k + n \<le> cell_count (counts g (lx, ly, lz))" using Suc.prems(2) by simp
  then have "\<exists>wgs d'. next_wgs n e = Inr (wgs, d')"
    using Suc.IH [OF e(1)] Suc.prems(3-6) e(2) by simp
  with r show ?case by auto
qed simp

lemma new_dispatcher_cell:
  assumes "new_dispatcher cfg kc = Inr d" and "grid cfg g l" and "cell_count (counts g l) < 2 ^ 64"
  shows "at_cell g l 0 d" and "dp_config d = cfg"
proof -
  obtain gx gy gz lx ly lz where gl: "g = (gx, gy, gz)" "l = (lx, ly, lz)" by (metis prod.exhaust)
  have amount: "unat ((a - 1) div b + 1) = cells (unat a) (unat b)"
    if "0 < a" "0 < b" "cells (unat a) (unat b) < 2 ^ 64" for a b :: u64
  proof -
    have "unat (a - 1) = unat a - 1" using that(1) by (intro unat_minus_one) auto
    then have "unat ((a - 1) div b) = (unat a - 1) div unat b" by (simp add: unat_div)
    then show ?thesis using that(3) by (simp add: cells_def unat_word_ariths)
  qed
  from assms(2) have cfg: "get_NDRange_X_size cfg = Inr gx" "get_NDRange_Y_size cfg = Inr gy"
      "get_NDRange_Z_size cfg = Inr gz" "get_wg_X_size cfg = Inr lx" "get_wg_Y_size cfg = Inr ly"
      "get_wg_Z_size cfg = Inr lz" and pos: "0 < gx" "0 < gy" "0 < gz" "0 < lx" "0 < ly" "0 < lz"
    by (auto simp: grid_def gl)
  let ?nx = "cells (unat gx) (unat lx)" and ?ny = "cells (unat gy) (unat ly)"
    and ?nz = "cells (unat gz) (unat lz)"
  have n: "counts g l = (?nx, ?ny, ?nz)" by (simp add: counts_def gl)
  have small: "?nx < 2 ^ 64" "?ny < 2 ^ 64" "?nz < 2 ^ 64" "?nx * ?ny * ?nz < 2 ^ 64"
  proof -
    have "cell_count (?nx, ?ny, ?nz) < 2 ^ 64" using assms(3) by (simp only: n)
    moreover have "?nx \<le> cell_count (?nx, ?ny, ?nz)" "?ny \<le> cell_count (?nx, ?ny, ?nz)"
        "?nz \<le> cell_count (?nx, ?ny, ?nz)"
      by (rule cell_count_bounds; rule cells_pos)+
    ultimately show "?nx < 2 ^ 64" "?ny < 2 ^ 64" "?nz < 2 ^ 64" "?nx * ?ny * ?nz < 2 ^ 64"
      by (simp_all only: le_less_trans) (simp only: cell_count_def prod.case)
  qed
  have "?nx * ?ny * 1 \<le> ?nx * ?ny * ?nz"
    by (intro mult_le_mono le_refl) (simp add: cells_def)
  then have "?nx * ?ny < 2 ^ 64" using small(4) by (simp only: mult_1_right)
  with small have prod: "unat (((gx - 1) div lx + 1) * ((gy - 1) div ly + 1) * ((gz - 1) div lz + 1))
      = ?nx * ?ny * ?nz"
    using amount pos by (simp add: unat_mult_lem [THEN iffD1] amount)
  have d: "d = \<lparr>curIdX = 0, curIdY = 0, curIdZ = 0, dispatchedWg = 0,
      wgAmount = ((gx - 1) div lx + 1) * ((gy - 1) div ly + 1) * ((gz - 1) div lz + 1),
      dp_config = cfg, dp_code = kc\<rparr>"
    using assms(1) pos by (auto simp: new_dispatcher_def groups_along_def cfg result_simps)
  then show "dp_config d = cfg" by simp
  show "at_cell g l 0 d"
    using assms(2,3) prod by (simp add: at_cell_def d n cell_def cell_count_def)
qed

lemma group_covers:
  assumes "group_of_cell cfg (gx, gy, gz) (lx, ly, lz) k wg" and "grid cfg (gx, gy, gz) (lx, ly, lz)"
    and "px < unat gx" and "py < unat gy" and "pz < unat gz"
  shows "covers (lx, ly, lz) wg (px, py, pz) \<longleftrightarrow>
    cell (counts (gx, gy, gz) (lx, ly, lz)) k = (px div unat lx, py div unat ly, pz div unat lz)"
proof -
  from assms(2) have pos: "0 < unat lx" "0 < unat ly" "0 < unat lz"
    by (auto simp: grid_def word_less_nat_alt)
  from assms(1) show ?thesis
    using in_cell_iff [OF pos(1) assms(3), of "unat (wg_idX wg)"]
      in_cell_iff [OF pos(2) assms(4), of "unat (wg_idY wg)"]
      in_cell_iff [OF pos(3) assms(5), of "unat (wg_idZ wg)"]
    by (auto simp: group_of_cell_def cell_size_def Let_def)
qed


text \<open>A line of points, cut into groups.\<close>

definition line_config :: "u64 \<Rightarrow> u64 \<Rightarrow> KernelConfig" where
  "line_config n l = (new_config 1 0)\<lparr>cfg_globalWorkSize := [n], cfg_localWorkSize := [l],
     cfg_sgprsnum := 8, cfg_vgprsnum := 3\<rparr>"

definition line_dispatcher :: "u64 \<Rightarrow> u64 \<Rightarrow> Dispatcher" where
  "line_dispatcher n l = projr (new_dispatcher (line_config n l) new_code)"


end
