(* ===== verification/Executors.thy ===== *)
theory Executors
  imports ComputeUnitProps DispatcherProps
begin

text \<open>
  The executor (\<open>emulator/src/Executor.h\<close>, \<open>Executor.cpp\<close>) and the kernel it runs
  (\<open>common/model/kernel/Kernel.h\<close>, \<open>arg/KernelArgumentStore.h\<close>): it
  lays the arguments out in the device memory, runs the work-groups that the dispatcher hands out,
  and copies the buffers back.

  The memory starts with the three offsets of the index space, then from address 48 one slot of
  8 bytes per pointer argument, then the data of the arguments. A slot holds the address of its data.
\<close>

unbundle bit_operations_syntax

section \<open>The code\<close>

record KernelArgumentStore =
  ka_name :: string
  ka_kind :: KernelArgumentKind
  ka_size :: u64
  ka_readPermission :: bool
  ka_writePermission :: bool
  ka_data :: "u8 list option"
  ka_output :: "u8 list option"

record Kernel =
  kn_name :: string
  kn_code :: KernelCode
  kn_config :: KernelConfig
  kn_arguments :: "KernelArgumentStore list"

definition unsupported_argument :: "KernelArgumentStore \<Rightarrow> error" where
  "unsupported_argument arg = Runtime_error (''Unsupported argument type: '' @ ka_name arg)"

definition evaluateArgSize :: "KernelArgumentStore list \<Rightarrow> u64 result" where
  "evaluateArgSize args =
     foldE (\<lambda>arg size.
       if ka_data arg = None then Inr size
       else case ka_kind arg of
           POINTER \<Rightarrow> Inr (size + 8)
         | SCALAR \<Rightarrow> Inr (size + ka_size arg)
         | _ \<Rightarrow> Inl (unsupported_argument arg)) args 0"

text \<open>The loop that copies \<open>size\<close> bytes behind the slots, advancing the offset.\<close>

definition write_byte :: "u64 \<Rightarrow> u8 list \<Rightarrow> nat \<Rightarrow> u64 \<times> Storage \<Rightarrow> (u64 \<times> Storage) result" where
  "write_byte addr bytes i s =
     (case s of (offsetForValue, st) \<Rightarrow>
        bindE (at_index bytes i) (\<lambda>b.
        case write_data8 addr (to_u32 offsetForValue) b st of
          (Inl e, _) \<Rightarrow> Inl e
        | (Inr _, st) \<Rightarrow> Inr (offsetForValue + 1, st)))"

definition write_bytes :: "u64 \<Rightarrow> u8 list \<Rightarrow> nat \<Rightarrow> u64 \<times> Storage \<Rightarrow> (u64 \<times> Storage) result" where
  "write_bytes addr bytes n = foldE (write_byte addr bytes) [0..<n]"

text \<open>The two reference parameters of \<open>writeArg\<close> are the first components of its state.\<close>

definition writeArg :: "KernelArgumentStore \<Rightarrow> u64 \<times> u64 \<times> Storage \<Rightarrow> (u64 \<times> u64 \<times> Storage) result" where
  "writeArg arg s =
     (case s of (addr, offsetForValue, st) \<Rightarrow>
        case ka_data arg of
          None \<Rightarrow> Inr s
        | Some bytes \<Rightarrow>
            (case ka_kind arg of
               POINTER \<Rightarrow>
                 (case write_data64 addr 0 (addr + offsetForValue) st of
                    (Inl e, _) \<Rightarrow> Inl e
                  | (Inr _, st) \<Rightarrow>
                      bindE (if ka_readPermission arg
                             then write_bytes addr bytes (unat (ka_size arg)) (offsetForValue, st)
                             else Inr (offsetForValue, st)) (\<lambda>(offsetForValue, st).
                      Inr (addr + 8, offsetForValue, st)))
             | SCALAR \<Rightarrow>
                 bindE (write_bytes addr bytes (unat (ka_size arg)) (offsetForValue, st)) (\<lambda>(offsetForValue, st).
                 Inr (addr, offsetForValue, st))
             | _ \<Rightarrow> Inl (unsupported_argument arg)))"

text \<open>The argument addresses, and the state after all arguments are written.\<close>

fun write_args ::
  "KernelArgumentStore list \<Rightarrow> u64 \<times> u64 \<times> Storage \<Rightarrow> (u64 list \<times> (u64 \<times> u64 \<times> Storage)) result" where
  "write_args [] s = Inr ([], s)"
| "write_args (arg # args) s =
     bindE (writeArg arg s) (\<lambda>t. bindE (write_args args t) (\<lambda>(as, u). Inr (fst s # as, u)))"

definition readArgs :: "u64 \<Rightarrow> Storage \<Rightarrow> KernelArgumentStore \<Rightarrow> KernelArgumentStore result" where
  "readArgs addr st arg =
     (if ka_data arg = None then Inr arg
      else case ka_kind arg of
          SCALAR \<Rightarrow> Inl (Assert_failed ''todo'')
        | POINTER \<Rightarrow>
            if \<not> ka_writePermission arg then Inr arg
            else bindE (read_8_bytes addr st) (\<lambda>realAddr.
                 bindE (read_data realAddr 0 (to_u32 (ka_size arg)) False st) (\<lambda>data.
                 Inr (arg\<lparr>ka_output := Some data\<rparr>)))
        | _ \<Rightarrow> Inl (unsupported_argument arg))"

definition init_storage :: "KernelConfig \<Rightarrow> Storage result" where
  "init_storage cfg =
     bindE (get_X_offset cfg) (\<lambda>x. bindE (get_Y_offset cfg) (\<lambda>y. bindE (get_Z_offset cfg) (\<lambda>z.
     case bindM (write_data64 0 0 x) (\<lambda>_. bindM (write_data64 0 8 y) (\<lambda>_. write_data64 0 16 z))
            (storage_init 10000000) of
       (Inl e, _) \<Rightarrow> Inl e
     | (Inr _, st) \<Rightarrow> Inr st)))"

text \<open>
  The loop over the work-groups. A dispatcher that has a group left but returns none gives a null
  pointer that \<open>run_work_group\<close> follows.
\<close>

partial_function (option) dispatch_loop ::
  "Dispatcher \<Rightarrow> Emulation \<Rightarrow> (unit result \<times> Emulation) option" where
  "dispatch_loop d s =
     (if \<not> has_next_wg d then Some (Inr (), s)
      else case next_wg d of
        Inl e \<Rightarrow> Some (Inl e, s)
      | Inr (wg, d) \<Rightarrow> (case wg of
          None \<Rightarrow> Some (Inl (Undefined ''null pointer''), s)
        | Some wg \<Rightarrow> (case run_work_group wg s of
            None \<Rightarrow> None
          | Some (Inl e, s) \<Rightarrow> Some (Inl e, s)
          | Some (Inr _, s) \<Rightarrow> dispatch_loop d s)))"

definition start_emulation :: "Kernel \<Rightarrow> Storage \<Rightarrow> Link \<Rightarrow> BreakpointStorage \<Rightarrow> Emulation" where
  "start_emulation krn st link bps =
     \<lparr>em_group = new_work_group (kn_code krn) 0 0 0 0 0 0, em_store = st, em_debug = new_debug link bps\<rparr>"

definition finish_kernel :: "u64 list \<Rightarrow> Kernel \<Rightarrow> (Emulation, Kernel) M" where
  "finish_kernel argAddresses krn =
     bindM (liftM (\<lambda>s. mapE (\<lambda>(a, arg). readArgs a (em_store s) arg) (zip argAddresses (kn_arguments krn)))) (\<lambda>args s.
     bindM (if dc_mode (em_debug s) = STOP then send_out OnStop else retM ()) (\<lambda>_.
     retM (krn\<lparr>kn_arguments := args\<rparr>)) s)"

definition executeKernel :: "Kernel \<Rightarrow> Link \<Rightarrow> BreakpointStorage \<Rightarrow> (Kernel result \<times> Emulation) option" where
  "executeKernel krn link bps =
     (case bindE (init_storage (kn_config krn)) (\<lambda>st.
           bindE (evaluateArgSize (kn_arguments krn)) (\<lambda>offsetForValues.
           bindE (write_args (kn_arguments krn) (8 * 6, offsetForValues, st)) (\<lambda>(argAddresses, _, _, st).
           bindE (new_dispatcher (kn_config krn) (kn_code krn)) (\<lambda>dispatcher.
           Inr (argAddresses, dispatcher, st))))) of
        Inl e \<Rightarrow> Some (Inl e, start_emulation krn (storage_init 10000000) link bps)
      | Inr (argAddresses, dispatcher, st) \<Rightarrow>
          (case dispatch_loop dispatcher (start_emulation krn st link bps) of
             None \<Rightarrow> None
           | Some (Inl e, s) \<Rightarrow> Some (Inl e, s)
           | Some (Inr _, s) \<Rightarrow> Some (finish_kernel argAddresses krn s)))"

end
