(* ===== verification/ExecutorProps.thy ===== *)
theory ExecutorProps
  imports Executors
begin

text \<open>
  The launch of a kernel: buffers that are copied into the memory come back unchanged when nothing
  writes to them, a buffer that the kernel may not read overlaps its successor, and a scalar
  argument makes every launch fail at the end.
\<close>

unbundle bit_operations_syntax

section \<open>Blocks of bytes in the memory\<close>

lemma bindM_Inr_unit:
  "bindM m f s = (Inr y, t) \<longleftrightarrow> (\<exists>x u. m s = (Inr x, u) \<and> f x u = (Inr y, t))"
  by (auto simp: bindM_def split: prod.splits sum.splits)

lemma put_bytes_total:
  assumes "unat a + length bs \<le> unat (st_size st)"
  shows "\<exists>t. put_bytes a bs st = (Inr (), t) \<and> st_size t = st_size st"
  using assms
proof (induction bs arbitrary: a st)
  case (Cons b bs)
  then have a: "a < st_size st" by (simp add: word_less_nat_alt)
  let ?t = "st\<lparr>st_data := (st_data st)[unat a := b]\<rparr>"
  have "unat (a + 1) = Suc (unat a)" using a by (rule unat_Suc_less)
  with Cons.prems obtain u where "put_bytes (a + 1) bs ?t = (Inr (), u)" "st_size u = st_size ?t"
    using Cons.IH [of "a + 1" ?t] by auto
  with a show ?case by (simp add: bindM_Inr_unit write_data8_eq [of a])
qed (simp add: retM_def)

lemma to_u64_to_u32: "unat x < 2 ^ 32 \<Longrightarrow> to_u64 (to_u32 x) = (x :: u64)"
  by (simp add: word_unat_eq_iff unsigned_ucast_eq unsigned_take_bit_eq take_bit_nat_eq_self)

lemma write_bytes_put:
  assumes "unat off + length bs < 2 ^ 32" and "i \<le> length bs"
  shows "foldE (write_byte addr bs) [i..<length bs] (off + of_nat i, st) =
    (case put_bytes (addr + off + of_nat i) (drop i bs) st of
       (Inl e, _) \<Rightarrow> Inl e | (Inr _, t) \<Rightarrow> Inr (off + of_nat (length bs), t))"
  using assms
proof (induction "length bs - i" arbitrary: i st)
  case 0
  then show ?case by (simp add: retM_def)
next
  case (Suc n)
  then have i: "i < length bs" by simp
  have small: "unat (off + of_nat i) < 2 ^ 32"
    using Suc.prems(1) i by (simp add: unat_word_ariths unat_of_nat)
  have "foldE (write_byte addr bs) [Suc i..<length bs] (off + of_nat (Suc i), t) =
    (case put_bytes (addr + off + of_nat (Suc i)) (drop (Suc i) bs) t of
       (Inl e, _) \<Rightarrow> Inl e | (Inr _, t) \<Rightarrow> Inr (off + of_nat (length bs), t))" for t
    using Suc.hyps(2) Suc.prems by (intro Suc.hyps(1)) simp_all
  moreover have "write_data8 addr (to_u32 (off + of_nat i)) v st = write_data8 (addr + off + of_nat i) 0 v st" for v
    by (simp add: write_data8_eq to_u64_to_u32 [OF small] add.assoc)
  ultimately show ?case
    using i by (auto simp: upt_conv_Cons Cons_nth_drop_Suc [symmetric] write_byte_def at_index_def bindM_def ac_simps
      split: prod.splits sum.splits)
qed

section \<open>The layout of the arguments\<close>

text \<open>The slot at \<open>a\<close> holds the address \<open>d\<close>, and the block at \<open>d\<close> holds \<open>bs\<close>.\<close>

definition holds_block :: "u64 \<Rightarrow> u8 list \<Rightarrow> Storage \<Rightarrow> bool" where
  "holds_block a bs st \<longleftrightarrow> (\<forall>i < length bs. get_byte (a + of_nat i) st = Inr (bs ! i))"

definition same_outside :: "(nat \<Rightarrow> bool) \<Rightarrow> Storage \<Rightarrow> Storage \<Rightarrow> bool" where
  "same_outside R s t \<longleftrightarrow> st_size t = st_size s \<and> (\<forall>b. \<not> R (unat b) \<longrightarrow> get_byte b t = get_byte b s)"

lemma same_outside_trans: "same_outside R s t \<Longrightarrow> same_outside R t u \<Longrightarrow> same_outside R s u"
  by (simp add: same_outside_def)

lemma same_outside_mono: "same_outside R s t \<Longrightarrow> (\<And>b. R b \<Longrightarrow> R' b) \<Longrightarrow> same_outside R' s t"
  unfolding same_outside_def by blast

lemma unat_add_of_nat:
  assumes "unat (a :: u64) + i < 2 ^ 64"
  shows "unat (a + of_nat i) = unat a + i"
  using assms by (simp add: unat_word_ariths unat_of_nat)

lemma holds_block_same:
  assumes "holds_block a bs s" and "same_outside R s t" and "unat a + length bs \<le> 2 ^ 64"
    and "\<And>i. i < length bs \<Longrightarrow> \<not> R (unat a + i)"
  shows "holds_block a bs t"
  using assms unfolding holds_block_def same_outside_def by (simp add: unat_add_of_nat)

lemma put_block:
  assumes "storage_inv s" and "unat a + length bs \<le> unat (st_size s)"
  obtains t where "put_bytes a bs s = (Inr (), t)" "storage_inv t" "holds_block a bs t"
    "same_outside (\<lambda>b. unat a \<le> b \<and> b < unat a + length bs) s t"
proof -
  obtain t where t: "put_bytes a bs s = (Inr (), t)" "st_size t = st_size s"
    using put_bytes_total assms(2) by blast
  have "storage_inv t" using keepsD [OF mem.put_all_ok assms(1), of a bs] t(1) by simp
  have size: "unat (st_size s) < 2 ^ 64" using unsigned_less [of "st_size s"] by simp
  then have len: "length bs \<le> 2 ^ 64" using assms(2) by simp
  have "holds_block a bs t"
    unfolding holds_block_def using mem.put_all_get [OF assms(1) t(1) len] by blast
  moreover have "get_byte b t = get_byte b s" if "\<not> (unat a \<le> unat b \<and> unat b < unat a + length bs)" for b
  proof (rule mem.put_all_other [OF assms(1) t(1)])
    fix i
    assume i: "i < length bs"
    with assms(2) size have "unat (a + of_nat i) = unat a + i" by (intro unat_add_of_nat) simp
    with that i show "b \<noteq> a + of_nat i" by auto
  qed
  ultimately show thesis
    using that [OF t(1) \<open>storage_inv t\<close>] t(2) by (simp add: same_outside_def)
qed

lemma length_bytes64: "length (bytes64 v) = 8"
  by (simp add: bytes64_def bytes32_def)

text \<open>A buffer argument: readable, writable, with as many bytes as its size says.\<close>

definition buffer_arg :: "KernelArgumentStore \<Rightarrow> bool" where
  "buffer_arg arg \<longleftrightarrow> ka_kind arg = POINTER \<and> ka_readPermission arg \<and> ka_writePermission arg
     \<and> (\<exists>bs. ka_data arg = Some bs \<and> length bs = unat (ka_size arg))"

definition holds_arg :: "u64 \<Rightarrow> KernelArgumentStore \<Rightarrow> Storage \<Rightarrow> bool" where
  "holds_arg a arg st \<longleftrightarrow> (\<exists>d. holds_block a (bytes64 d) st \<and> holds_block d (the (ka_data arg)) st)"

lemma write_buffer:
  assumes "buffer_arg arg" and "storage_inv s" and "8 \<le> unat off" and "unat off + unat (ka_size arg) < 2 ^ 32"
    and "unat a + unat off + unat (ka_size arg) \<le> unat (st_size s)"
  obtains t where "writeArg arg (a, off, s) = Inr (a + 8, off + ka_size arg, t)" "storage_inv t"
    "holds_block a (bytes64 (a + off)) t" "holds_block (a + off) (the (ka_data arg)) t"
    "same_outside (\<lambda>b. unat a \<le> b \<and> b < unat a + 8
       \<or> unat a + unat off \<le> b \<and> b < unat a + unat off + unat (ka_size arg)) s t"
proof -
  obtain bs where bs: "ka_data arg = Some bs" "length bs = unat (ka_size arg)"
      "ka_kind arg = POINTER" "ka_readPermission arg"
    using assms(1) by (auto simp: buffer_arg_def)
  have size: "unat (st_size s) < 2 ^ 64" using unsigned_less [of "st_size s"] by simp
  have sum: "unat (a + off) = unat a + unat off"
    using assms(5) size by (simp add: unat_word_ariths)
  obtain u where u: "put_bytes a (bytes64 (a + off)) s = (Inr (), u)" "storage_inv u"
      "holds_block a (bytes64 (a + off)) u" "same_outside (\<lambda>b. unat a \<le> b \<and> b < unat a + 8) s u"
    using put_block [OF assms(2), of a "bytes64 (a + off)"] assms(3,5) by (auto simp: length_bytes64)
  then have "unat (a + off) + length bs \<le> unat (st_size u)"
    using assms(5) sum bs(2) by (simp add: same_outside_def)
  from put_block [OF u(2) this] obtain t where t: "put_bytes (a + off) bs u = (Inr (), t)" "storage_inv t"
      "holds_block (a + off) bs t"
      "same_outside (\<lambda>b. unat (a + off) \<le> b \<and> b < unat (a + off) + length bs) u t"
    by blast
  have slot: "holds_block a (bytes64 (a + off)) t"
    by (rule holds_block_same [OF u(3) t(4)])
      (use assms(3,5) size sum in \<open>simp_all add: length_bytes64\<close>)
  have "write_data64 a 0 (a + off) s = (Inr (), u)"
    using u(1) write_data64_bytes [of 0 a "a + off"] by simp
  moreover have "write_bytes a bs (unat (ka_size arg)) (off, u) = Inr (off + ka_size arg, t)"
  proof -
    have small: "unat off + length bs < 2 ^ 32" using assms(4) bs(2) by simp
    have "foldE (write_byte a bs) [0..<length bs] (off, u) = Inr (off + of_nat (length bs), t)"
      using write_bytes_put [OF small le0, of a u] t(1) by simp
    moreover have "of_nat (length bs) = ka_size arg" unfolding bs(2) by simp
    ultimately show ?thesis by (simp only: write_bytes_def bs(2))
  qed
  ultimately have "writeArg arg (a, off, s) = Inr (a + 8, off + ka_size arg, t)"
    using bs by (simp add: writeArg_def)
  moreover have "same_outside (\<lambda>b. unat a \<le> b \<and> b < unat a + 8
       \<or> unat a + unat off \<le> b \<and> b < unat a + unat off + unat (ka_size arg)) s t"
    using u(4) t(4) sum bs(2) by (auto simp: same_outside_def)
  ultimately show thesis using that t(2,3) slot bs(1) by simp
qed

definition args_size :: "KernelArgumentStore list \<Rightarrow> nat" where
  "args_size args = (\<Sum>arg\<leftarrow>args. unat (ka_size arg))"

lemma write_args_layout:
  assumes "list_all buffer_arg args" and "storage_inv s" and "8 * length args \<le> unat off"
    and "unat off + args_size args < 2 ^ 32"
    and "unat a + unat off + 8 * length args + args_size args \<le> unat (st_size s)"
  shows "\<exists>as a' off' t. write_args args (a, off, s) = Inr (as, a', off', t) \<and> storage_inv t
    \<and> list_all2 (\<lambda>a arg. holds_arg a arg t) as args
    \<and> same_outside (\<lambda>b. unat a \<le> b \<and> b < unat a + 8 * length args \<or> unat a + unat off \<le> b) s t"
  using assms
proof (induction args arbitrary: a off s)
  case Nil
  then show ?case by (simp add: same_outside_def)
next
  case (Cons arg args)
  have size: "unat (st_size s) < 2 ^ 64" using unsigned_less [of "st_size s"] by simp
  have sizes: "args_size (arg # args) = unat (ka_size arg) + args_size args" by (simp add: args_size_def)
  let ?off = "off + ka_size arg" and ?a = "a + 8"
  have nums: "unat ?off = unat off + unat (ka_size arg)" "unat ?a = unat a + 8"
    using Cons.prems(3-5) size by (simp_all add: sizes unat_word_ariths)
  have buffer: "buffer_arg arg" "list_all buffer_arg args" using Cons.prems(1) by simp_all
  obtain t where t: "writeArg arg (a, off, s) = Inr (?a, ?off, t)" "storage_inv t"
      "holds_block a (bytes64 (a + off)) t" "holds_block (a + off) (the (ka_data arg)) t"
      "same_outside (\<lambda>b. unat a \<le> b \<and> b < unat a + 8
         \<or> unat a + unat off \<le> b \<and> b < unat a + unat off + unat (ka_size arg)) s t"
    by (rule write_buffer [OF buffer(1) Cons.prems(2)]) (use Cons.prems(3-5) sizes in auto)
  have st: "st_size t = st_size s" using t(5) by (simp add: same_outside_def)
  have "\<exists>as a' off' u. write_args args (?a, ?off, t) = Inr (as, a', off', u) \<and> storage_inv u
      \<and> list_all2 (\<lambda>a arg. holds_arg a arg u) as args
      \<and> same_outside (\<lambda>b. unat ?a \<le> b \<and> b < unat ?a + 8 * length args \<or> unat ?a + unat ?off \<le> b) t u"
    by (rule Cons.IH [OF buffer(2) t(2)]) (use Cons.prems(3-5) sizes nums st in simp_all)
  then obtain as a' off' u where u: "write_args args (?a, ?off, t) = Inr (as, a', off', u)" "storage_inv u"
      "list_all2 (\<lambda>a arg. holds_arg a arg u) as args"
      "same_outside (\<lambda>b. unat ?a \<le> b \<and> b < unat ?a + 8 * length args \<or> unat ?a + unat ?off \<le> b) t u"
    by blast
  have data: "length (the (ka_data arg)) = unat (ka_size arg)" using buffer(1) by (auto simp: buffer_arg_def)
  have sum: "unat (a + off) = unat a + unat off"
    using Cons.prems(5) size by (simp add: unat_word_ariths)
  have "holds_block a (bytes64 (a + off)) u"
    by (rule holds_block_same [OF t(3) u(4)]) (use Cons.prems(3,5) size nums in \<open>simp_all add: length_bytes64\<close>)
  moreover have "holds_block (a + off) (the (ka_data arg)) u"
    by (rule holds_block_same [OF t(4) u(4)])
      (use Cons.prems(3,5) size nums sum sizes in \<open>simp_all add: data\<close>)
  ultimately have "holds_arg a arg u" unfolding holds_arg_def by blast
  moreover have "same_outside (\<lambda>b. unat a \<le> b \<and> b < unat a + 8 * length (arg # args) \<or> unat a + unat off \<le> b) s u"
    by (rule same_outside_trans) (use t(5) u(4) nums in \<open>auto elim!: same_outside_mono\<close>)
  ultimately show ?case using t(1) u by (simp add: bindE_Inr_iff)
qed

lemma readArgs_holds:
  assumes "holds_arg a arg t" and "buffer_arg arg" and "unat (ka_size arg) < 2 ^ 32"
  shows "readArgs a t arg = Inr (arg\<lparr>ka_output := ka_data arg\<rparr>)"
proof -
  obtain bs where bs: "ka_data arg = Some bs" "length bs = unat (ka_size arg)"
      "ka_kind arg = POINTER" "ka_writePermission arg"
    using assms(2) by (auto simp: buffer_arg_def)
  obtain d where d: "holds_block a (bytes64 d) t" "holds_block d bs t"
    using assms(1) bs(1) by (auto simp: holds_arg_def)
  have "read_8_bytes a t = Inr d"
    using d(1) unfolding holds_block_def by (intro read_8_join read_bytes) blast
  moreover have "read_data d 0 (to_u32 (ka_size arg)) False t = Inr bs"
  proof -
    have "of_nat (length bs) = ka_size arg" unfolding bs(2) by simp
    moreover have "read_loop False t d (d + of_nat (length bs)) = Inr bs"
      using d(2) unfolding holds_block_def by (intro read_bytes) blast
    ultimately show ?thesis using to_u64_to_u32 [OF assms(3)] by (simp add: read_data_def)
  qed
  ultimately show ?thesis using bs by (simp add: readArgs_def)
qed

lemma evaluateArgSize_buffers:
  assumes "list_all buffer_arg args"
  shows "evaluateArgSize args = Inr (8 * of_nat (length args))"
proof -
  have "foldE (\<lambda>arg size. if ka_data arg = None then Inr size
      else case ka_kind arg of POINTER \<Rightarrow> Inr (size + 8) | SCALAR \<Rightarrow> Inr (size + ka_size arg)
         | _ \<Rightarrow> Inl (unsupported_argument arg)) args n = Inr (n + 8 * of_nat (length args))" for n
    using assms by (induction args arbitrary: n) (auto simp: buffer_arg_def algebra_simps)
  from this [of 0] show ?thesis by (simp add: evaluateArgSize_def)
qed

lemma map_zip_right: "length xs = length ys \<Longrightarrow> map (\<lambda>(x, y). f y) (zip xs ys) = map f ys"
  by (induction xs ys rule: list_induct2) simp_all

text \<open>
  C23: Buffer arguments copied into the memory come back unchanged when nothing writes to
  them.
\<close>

theorem arguments_copied_out:
  assumes "list_all buffer_arg args" and "storage_inv s" and "unat (st_size s) = 10000000"
    and "48 + 16 * length args + args_size args \<le> 10000000"
  shows "\<exists>off as a' off' t. evaluateArgSize args = Inr off
    \<and> write_args args (8 * 6, off, s) = Inr (as, a', off', t)
    \<and> mapE (\<lambda>(a, arg). readArgs a t arg) (zip as args) = Inr (map (\<lambda>arg. arg\<lparr>ka_output := ka_data arg\<rparr>) args)"
proof -
  have n: "length args < 2 ^ 20" using assms(4) by simp
  then have off: "unat (8 * of_nat (length args) :: u64) = 8 * length args"
    by (simp add: unat_word_ariths unat_of_nat)
  obtain as a' off' t where t: "write_args args (48, 8 * of_nat (length args), s) = Inr (as, a', off', t)"
      "list_all2 (\<lambda>a arg. holds_arg a arg t) as args"
    using write_args_layout [OF assms(1,2), of "8 * of_nat (length args)" 48] assms(3,4) off by auto
  have small: "unat (ka_size arg) < 2 ^ 32" if "arg \<in> set args" for arg
    using member_le_sum_list [of "unat (ka_size arg)" "map (\<lambda>arg. unat (ka_size arg)) args"] that assms(4)
    by (force simp: args_size_def)
  have "mapE (\<lambda>(a, arg). readArgs a t arg) (zip as args) = Inr (map (\<lambda>(a, arg). arg\<lparr>ka_output := ka_data arg\<rparr>) (zip as args))"
  proof (rule mapE_all_Inr, clarify)
    fix a arg
    assume "(a, arg) \<in> set (zip as args)"
    with t(2) assms(1) small show "readArgs a t arg = Inr (arg\<lparr>ka_output := ka_data arg\<rparr>)"
      by (intro readArgs_holds) (auto simp: list_all2_iff list_all_iff dest: set_zip_rightD)
  qed
  also have "map (\<lambda>(a, arg). arg\<lparr>ka_output := ka_data arg\<rparr>) (zip as args) = map (\<lambda>arg. arg\<lparr>ka_output := ka_data arg\<rparr>) args"
    using list_all2_lengthD [OF t(2)] by (rule map_zip_right)
  finally show ?thesis
    using evaluateArgSize_buffers [OF assms(1)] t(1) by (simp add: eval_nat_numeral)
qed

lemma size_storage_init: "st_size (storage_init n) = n"
  by (simp add: storage_init_def)

definition two_buffers :: "KernelArgumentStore list" where
  "two_buffers = [\<lparr>ka_name = ''a'', ka_kind = POINTER, ka_size = 3, ka_readPermission = True,
       ka_writePermission = True, ka_data = Some [1, 2, 3], ka_output = None\<rparr>,
     \<lparr>ka_name = ''b'', ka_kind = POINTER, ka_size = 1, ka_readPermission = True,
       ka_writePermission = True, ka_data = Some [9], ka_output = None\<rparr>]"

lemma arguments_copied_out_witness:
  "\<exists>off as a' off' t. evaluateArgSize two_buffers = Inr off
    \<and> write_args two_buffers (8 * 6, off, storage_init 10000000) = Inr (as, a', off', t)
    \<and> mapE (\<lambda>(a, arg). readArgs a t arg) (zip as two_buffers)
      = Inr (map (\<lambda>arg. arg\<lparr>ka_output := ka_data arg\<rparr>) two_buffers)"
  by (rule arguments_copied_out)
    (simp_all add: two_buffers_def buffer_arg_def storage_inv_init size_storage_init args_size_def)

section \<open>Arguments that go wrong\<close>

text \<open>
  A buffer that the kernel may not read does not advance the offset, so its block overlaps the block
  of the next argument whenever it is longer than the slot.
\<close>

theorem write_only_buffers_overlap:
  assumes "ka_kind wo = POINTER" and "\<not> ka_readPermission wo" and "ka_data wo \<noteq> None"
    and "buffer_arg arg" and "storage_inv s" and "16 \<le> unat off" and "unat off + unat (ka_size arg) < 2 ^ 32"
    and "unat a + 8 + unat off + unat (ka_size arg) \<le> unat (st_size s)"
  shows "\<exists>as s' t. write_args [wo, arg] (a, off, s) = Inr (as, s', off + ka_size arg, t)
    \<and> read_8_bytes a t = Inr (a + off) \<and> read_8_bytes (a + 8) t = Inr (a + off + 8)"
proof -
  have size: "unat (st_size s) < 2 ^ 64" using unsigned_less [of "st_size s"] by simp
  obtain u where u: "put_bytes a (bytes64 (a + off)) s = (Inr (), u)" "storage_inv u"
      "holds_block a (bytes64 (a + off)) u" "same_outside (\<lambda>b. unat a \<le> b \<and> b < unat a + 8) s u"
    using put_block [OF assms(5), of a "bytes64 (a + off)"] assms(6,8) by (auto simp: length_bytes64)
  have nums: "unat (a + 8) = unat a + 8" using assms(8) size by (simp add: unat_word_ariths)
  obtain t where t: "writeArg arg (a + 8, off, u) = Inr (a + 8 + 8, off + ka_size arg, t)" "storage_inv t"
      "holds_block (a + 8) (bytes64 (a + 8 + off)) t"
      "same_outside (\<lambda>b. unat (a + 8) \<le> b \<and> b < unat (a + 8) + 8
       \<or> unat (a + 8) + unat off \<le> b \<and> b < unat (a + 8) + unat off + unat (ka_size arg)) u t"
  proof (rule write_buffer [OF assms(4) u(2), of off "a + 8"])
    show "8 \<le> unat off" "unat off + unat (ka_size arg) < 2 ^ 32" using assms(6,7) by simp_all
    show "unat (a + 8) + unat off + unat (ka_size arg) \<le> unat (st_size u)"
      using assms(8) nums u(4) by (simp add: same_outside_def)
  qed
  have "holds_block a (bytes64 (a + off)) t"
    by (rule holds_block_same [OF u(3) t(4)]) (use assms(6,8) size nums in \<open>simp_all add: length_bytes64\<close>)
  with t(3) have slots: "read_8_bytes a t = Inr (a + off)" "read_8_bytes (a + 8) t = Inr (a + 8 + off)"
    unfolding holds_block_def by (blast intro: read_8_join read_bytes)+
  have "write_data64 a 0 (a + off) s = (Inr (), u)"
    using u(1) write_data64_bytes [of 0 a "a + off"] by simp
  then have "writeArg wo (a, off, s) = Inr (a + 8, off, u)"
    using assms(1-3) by (auto simp: writeArg_def)
  with t(1) slots show ?thesis by (simp add: ac_simps)
qed

definition write_only :: KernelArgumentStore where
  "write_only = \<lparr>ka_name = ''out'', ka_kind = POINTER, ka_size = 16, ka_readPermission = False,
     ka_writePermission = True, ka_data = Some (replicate 16 0), ka_output = None\<rparr>"

lemma write_only_buffers_overlap_witness:
  "\<exists>as s' t. write_args [write_only, hd two_buffers] (48, 16, storage_init 10000000)
      = Inr (as, s', 16 + ka_size (hd two_buffers), t)
    \<and> read_8_bytes 48 t = Inr (48 + 16) \<and> read_8_bytes (48 + 8) t = Inr (48 + 16 + 8)"
  by (rule write_only_buffers_overlap)
    (simp_all add: write_only_def two_buffers_def buffer_arg_def storage_inv_init size_storage_init)

text \<open>A kernel with a scalar argument never ends well: copying the arguments back asserts.\<close>

lemma write_args_length: "write_args args s = Inr (as, t) \<Longrightarrow> length as = length args"
  by (induction args s arbitrary: as t rule: write_args.induct) (auto simp: result_simps)

text \<open>
  A kernel with a scalar argument never ends well: copying the arguments back asserts.
\<close>

theorem scalar_kernels_fail:
  assumes "arg \<in> set (kn_arguments krn)" and "ka_kind arg = SCALAR" and "ka_data arg \<noteq> None"
  shows "\<nexists>krn' s. executeKernel krn link bps = Some (Inr krn', s)"
proof
  assume "\<exists>krn' s. executeKernel krn link bps = Some (Inr krn', s)"
  then obtain krn' s as d st u where prep: "bindE (init_storage (kn_config krn)) (\<lambda>st.
           bindE (evaluateArgSize (kn_arguments krn)) (\<lambda>offsetForValues.
           bindE (write_args (kn_arguments krn) (8 * 6, offsetForValues, st)) (\<lambda>(argAddresses, _, _, st).
           bindE (new_dispatcher (kn_config krn) (kn_code krn)) (\<lambda>dispatcher.
           Inr (argAddresses, dispatcher, st))))) = Inr (as, d, st)"
      and finish: "finish_kernel as krn u = (Inr krn', s)"
    unfolding executeKernel_def by (auto split: sum.splits option.splits)
  from prep have len: "length as = length (kn_arguments krn)"
    by (auto simp: result_simps dest: write_args_length)
  from finish obtain args where args: "mapE (\<lambda>(a, arg). readArgs a (em_store u) arg) (zip as (kn_arguments krn)) = Inr args"
    by (auto simp: finish_kernel_def bindM_def liftM_def split: sum.splits)
  from assms(1) obtain i where i: "i < length (kn_arguments krn)" "kn_arguments krn ! i = arg"
    by (auto simp: in_set_conv_nth)
  with mapE_Inr_nth [OF args, of i] len have "readArgs (as ! i) (em_store u) arg = Inr (args ! i)" by simp
  with assms(2,3) show False by (auto simp: readArgs_def)
qed

definition scalar_kernel :: Kernel where
  "scalar_kernel = \<lparr>kn_name = ''k'', kn_code = new_code, kn_config = new_config 1 0,
     kn_arguments = [write_only\<lparr>ka_kind := SCALAR\<rparr>]\<rparr>"

lemma scalar_kernels_fail_witness:
  "\<nexists>krn' s. executeKernel scalar_kernel (new_link []) new_breakpoints = Some (Inr krn', s)"
  by (rule scalar_kernels_fail [of "write_only\<lparr>ka_kind := SCALAR\<rparr>"])
    (simp_all add: scalar_kernel_def write_only_def)

end
