(* ===== verification/ClInfo.thy ===== *)
theory ClInfo
  imports Strings
begin

text \<open>
  What the functions of the OpenCL runtime share (\<open>driver/src/runtime/common/runtime-commons\<close>,
  \<open>CLObjectInfoParameterValue.hpp\<close>): return codes, the check of exclusive flags, and the answer to
  an information query. Codes and flags are the numbers of the OpenCL standard.

  The value of a query is a number held in a \<open>void*\<close>, a string, or the bytes that a pointer refers
  to (the values with \<open>isPointer\<close>). The buffer of the caller is given with its contents: writing
  more bytes than it has, or reading more than there are, is undefined.
\<close>

unbundle bit_operations_syntax

type_synonym cl_int = int

abbreviation (input) CL_SUCCESS :: cl_int where "CL_SUCCESS \<equiv> 0"
abbreviation (input) CL_DEVICE_NOT_FOUND :: cl_int where "CL_DEVICE_NOT_FOUND \<equiv> - 1"
abbreviation (input) CL_MEM_OBJECT_ALLOCATION_FAILURE :: cl_int where "CL_MEM_OBJECT_ALLOCATION_FAILURE \<equiv> - 4"
abbreviation (input) CL_PROFILING_INFO_NOT_AVAILABLE :: cl_int where "CL_PROFILING_INFO_NOT_AVAILABLE \<equiv> - 7"
abbreviation (input) CL_EXEC_STATUS_ERROR_FOR_EVENTS_IN_WAIT_LIST :: cl_int
  where "CL_EXEC_STATUS_ERROR_FOR_EVENTS_IN_WAIT_LIST \<equiv> - 14"
abbreviation (input) CL_INVALID_VALUE :: cl_int where "CL_INVALID_VALUE \<equiv> - 30"
abbreviation (input) CL_INVALID_PLATFORM :: cl_int where "CL_INVALID_PLATFORM \<equiv> - 32"
abbreviation (input) CL_INVALID_DEVICE :: cl_int where "CL_INVALID_DEVICE \<equiv> - 33"
abbreviation (input) CL_INVALID_CONTEXT :: cl_int where "CL_INVALID_CONTEXT \<equiv> - 34"
abbreviation (input) CL_INVALID_COMMAND_QUEUE :: cl_int where "CL_INVALID_COMMAND_QUEUE \<equiv> - 36"
abbreviation (input) CL_INVALID_HOST_PTR :: cl_int where "CL_INVALID_HOST_PTR \<equiv> - 37"
abbreviation (input) CL_INVALID_MEM_OBJECT :: cl_int where "CL_INVALID_MEM_OBJECT \<equiv> - 38"
abbreviation (input) CL_INVALID_BINARY :: cl_int where "CL_INVALID_BINARY \<equiv> - 42"
abbreviation (input) CL_INVALID_PROGRAM :: cl_int where "CL_INVALID_PROGRAM \<equiv> - 44"
abbreviation (input) CL_INVALID_KERNEL_NAME :: cl_int where "CL_INVALID_KERNEL_NAME \<equiv> - 46"
abbreviation (input) CL_INVALID_KERNEL :: cl_int where "CL_INVALID_KERNEL \<equiv> - 48"
abbreviation (input) CL_INVALID_ARG_INDEX :: cl_int where "CL_INVALID_ARG_INDEX \<equiv> - 49"
abbreviation (input) CL_INVALID_KERNEL_ARGS :: cl_int where "CL_INVALID_KERNEL_ARGS \<equiv> - 52"
abbreviation (input) CL_INVALID_WORK_DIMENSION :: cl_int where "CL_INVALID_WORK_DIMENSION \<equiv> - 53"
abbreviation (input) CL_INVALID_WORK_GROUP_SIZE :: cl_int where "CL_INVALID_WORK_GROUP_SIZE \<equiv> - 54"
abbreviation (input) CL_INVALID_WORK_ITEM_SIZE :: cl_int where "CL_INVALID_WORK_ITEM_SIZE \<equiv> - 55"
abbreviation (input) CL_INVALID_EVENT :: cl_int where "CL_INVALID_EVENT \<equiv> - 58"
abbreviation (input) CL_INVALID_OPERATION :: cl_int where "CL_INVALID_OPERATION \<equiv> - 59"
abbreviation (input) CL_INVALID_BUFFER_SIZE :: cl_int where "CL_INVALID_BUFFER_SIZE \<equiv> - 61"
abbreviation (input) CL_INVALID_GLOBAL_WORK_SIZE :: cl_int where "CL_INVALID_GLOBAL_WORK_SIZE \<equiv> - 63"
abbreviation (input) CL_INVALID_DEVICE_PARTITION_COUNT :: cl_int where "CL_INVALID_DEVICE_PARTITION_COUNT \<equiv> - 68"

section \<open>Flags\<close>

fun exclusive_loop :: "u64 \<Rightarrow> u64 list \<Rightarrow> bool \<Rightarrow> bool" where
  "exclusive_loop flags [] foundFlag = False"
| "exclusive_loop flags (flag # checkFlags) foundFlag =
     (let flagIsSet = (flags AND flag \<noteq> 0)
      in if flagIsSet \<and> \<not> foundFlag then exclusive_loop flags checkFlags True
         else if flagIsSet then True
         else exclusive_loop flags checkFlags foundFlag)"

definition hasMutuallyExclusiveFlags :: "u64 \<Rightarrow> u64 list \<Rightarrow> bool" where
  "hasMutuallyExclusiveFlags flags checkFlags = exclusive_loop flags checkFlags False"

lemma exclusive_loop_iff:
  "exclusive_loop flags fs found \<longleftrightarrow> 2 \<le> length (filter (\<lambda>f. flags AND f \<noteq> 0) fs) + of_bool found"
proof (induction fs arbitrary: found)
  case (Cons f fs)
  then show ?case by (auto simp: Let_def)
qed simp

text \<open>Two of the flags are set.\<close>

lemma mutually_exclusive_iff:
  "hasMutuallyExclusiveFlags flags fs \<longleftrightarrow> 2 \<le> length (filter (\<lambda>f. flags AND f \<noteq> 0) fs)"
  by (simp add: hasMutuallyExclusiveFlags_def exclusive_loop_iff)

section \<open>Information queries\<close>

datatype InfoValue = NumV u64 | StrV string | ArrV "u8 list"

record CLObjectInfoParameterValue =
  iv_val :: InfoValue
  iv_size :: u64

abbreviation info_value :: "InfoValue \<Rightarrow> u64 \<Rightarrow> CLObjectInfoParameterValue" where
  "info_value v n \<equiv> \<lparr>iv_val = v, iv_size = n\<rparr>"

text \<open>The bytes of a number in memory, lowest first, and the zero-terminated bytes of a string.\<close>

definition word_bytes :: "u64 \<Rightarrow> u8 list" where
  "word_bytes n = map (\<lambda>i. to_u8 (drop_bit (8 * i) n)) [0..<8]"

definition c_str :: "string \<Rightarrow> u8 list" where
  "c_str s = map (\<lambda>c. of_nat (code_of_char c)) (takeWhile (\<lambda>c. c \<noteq> CHR 0x00) s) @ [0]"

definition memcpy_bytes :: "u64 \<Rightarrow> u8 list \<Rightarrow> u8 list \<Rightarrow> u8 list result" where
  "memcpy_bytes n from to =
     (if unat n \<le> length from \<and> unat n \<le> length to then Inr (take (unat n) from @ drop (unat n) to)
      else Inl (Undefined ''memcpy''))"

definition info_bytes :: "InfoValue \<Rightarrow> u8 list" where
  "info_bytes v = (case v of NumV n \<Rightarrow> word_bytes n | ArrV bs \<Rightarrow> bs | StrV s \<Rightarrow> c_str s)"

definition info_size :: "CLObjectInfoParameterValue \<Rightarrow> u64" where
  "info_size p = (case iv_val p of StrV s \<Rightarrow> of_nat (length (c_str s)) | _ \<Rightarrow> iv_size p)"

text \<open>
  The return code, the buffer of the caller afterwards, and the size written for the caller. The
  value is only computed when it is asked for.
\<close>

definition getParamInfo ::
  "u64 \<Rightarrow> u8 list option \<Rightarrow> bool \<Rightarrow> CLObjectInfoParameterValue option result
   \<Rightarrow> (cl_int \<times> u8 list option \<times> u64 option) result" where
  "getParamInfo param_value_size param_value wants_size parameterValueGetter =
     (if param_value = None \<and> \<not> wants_size then Inr (CL_SUCCESS, param_value, None)
      else bindE parameterValueGetter (\<lambda>parameterValue.
        case parameterValue of
          None \<Rightarrow> Inr (CL_INVALID_VALUE, param_value, None)
        | Some p \<Rightarrow>
            let resultSize = info_size p
            in if param_value_size \<noteq> 0 \<and> param_value_size < resultSize
               then Inr (CL_INVALID_VALUE, param_value, None)
               else bindE (case param_value of
                        None \<Rightarrow> Inr None
                      | Some buffer \<Rightarrow>
                          bindE (memcpy_bytes resultSize (info_bytes (iv_val p)) buffer) (\<lambda>b. Inr (Some b)))
                      (\<lambda>param_value.
                    Inr (CL_SUCCESS, param_value, if wants_size then Some resultSize else None))))"

section \<open>Properties of a query\<close>

lemma length_word_bytes: "length (word_bytes n) = 8"
  by (simp add: word_bytes_def)

text \<open>A value is well formed if it has the bytes that its size says.\<close>

definition info_ok :: "CLObjectInfoParameterValue \<Rightarrow> bool" where
  "info_ok p \<longleftrightarrow> (case iv_val p of NumV _ \<Rightarrow> iv_size p \<le> 8
     | ArrV bs \<Rightarrow> unat (iv_size p) \<le> length bs | StrV s \<Rightarrow> length (c_str s) < 2 ^ 64)"

lemma info_ok_bytes: "info_ok p \<Longrightarrow> unat (info_size p) \<le> length (info_bytes (iv_val p))"
  by (auto simp: info_ok_def info_size_def info_bytes_def length_word_bytes unsigned_of_nat word_le_nat_alt
      take_bit_nat_eq_self split: InfoValue.splits)

text \<open>
  A query with the true size of the buffer writes the value to its front or refuses; it never
  writes outside the buffer.
\<close>

text \<open>
  C36: A query with a buffer of the stated size never writes past it: it either fills exactly
  the size of the answer or refuses with CL_INVALID_VALUE and leaves the buffer alone.
\<close>

theorem query_stays_in_buffer:
  assumes "info_ok p" and "n = of_nat (length buffer)" and "length buffer < 2 ^ 64" and "buffer \<noteq> []"
  shows "\<exists>code buffer' sz. getParamInfo n (Some buffer) w (Inr (Some p)) = Inr (code, Some buffer', sz)
    \<and> length buffer' = length buffer
    \<and> (if code = CL_SUCCESS
       then take (unat (info_size p)) buffer' = take (unat (info_size p)) (info_bytes (iv_val p))
         \<and> drop (unat (info_size p)) buffer' = drop (unat (info_size p)) buffer
       else code = CL_INVALID_VALUE \<and> buffer' = buffer \<and> n < info_size p)"
proof -
  have n: "unat n = length buffer" "n \<noteq> 0"
    using assms(2-4) by (auto simp: unsigned_of_nat take_bit_nat_eq_self dest: arg_cong [of _ 0 unat])
  show ?thesis
  proof (cases "n < info_size p")
    case True
    then show ?thesis using n(2) by (simp add: getParamInfo_def Let_def)
  next
    case False
    then have "unat (info_size p) \<le> length buffer" using n(1) by (simp add: word_less_nat_alt)
    then show ?thesis
      using info_ok_bytes [OF assms(1)] False by (auto simp: getParamInfo_def Let_def memcpy_bytes_def)
  qed
qed

text \<open>A size of zero switches the check off: a buffer that is too small is written past its end.\<close>

theorem query_size_zero_overflows:
  assumes "info_ok p" and "length buffer < unat (info_size p)"
  shows "getParamInfo 0 (Some buffer) w (Inr (Some p)) = Inl (Undefined ''memcpy'')"
  using assms by (simp add: getParamInfo_def Let_def memcpy_bytes_def)

lemma query_stays_in_buffer_witness:
  "\<exists>code buffer' sz. getParamInfo 4 (Some [9, 9, 9, 9]) True (Inr (Some (info_value (StrV ''abc'') 0))) = Inr (code, Some buffer', sz)
    \<and> length buffer' = 4"
proof -
  have "info_ok (info_value (StrV ''abc'') 0)" by (simp add: info_ok_def c_str_def)
  from query_stays_in_buffer [OF this, of 4 "[9, 9, 9, 9]" True] show ?thesis by fastforce
qed

lemma query_size_zero_overflows_witness:
  "getParamInfo 0 (Some [9]) True (Inr (Some (info_value (NumV 5) 4))) = Inl (Undefined ''memcpy'')"
  by (rule query_size_zero_overflows) (simp_all add: info_ok_def info_size_def)

end
