(* ===== verification/DeviceConfigs.thy ===== *)
theory DeviceConfigs
  imports ClInfo
begin

text \<open>
  The reader of the device configuration (\<open>driver/src/runtime/device/DeviceConfigurationParser\<close>): lines
  \<open>name = value\<close> become the answers to device queries, after which the values that the driver fixes
  are put in. The file is given as its lines. Parameter numbers and flags are those of the OpenCL
  standard and of its AMD extension; an array and a structure is given by the bytes it has in memory.
\<close>

unbundle bit_operations_syntax

section \<open>The platform\<close>

record CLPlatformId =
  pf_profile :: string
  pf_openClVersion :: string
  pf_driverVersion :: string
  pf_name :: string
  pf_vendor :: string
  pf_extensions :: string
  pf_suffix :: string

section \<open>Values\<close>

abbreviation parse_failure :: "string \<Rightarrow> 'a result" where
  "parse_failure msg \<equiv> Inl (Runtime_error msg)"

text \<open>\<open>parseNumber\<close> of an unsigned type of the given width; other failures than a missing number escape.\<close>

definition parseNumber :: "nat \<Rightarrow> string \<Rightarrow> u64 result" where
  "parseNumber width s =
     (if strto 10 s = None then parse_failure (''Failed to parse number: '' @ s)
      else bindE (stoul s) (\<lambda>n. Inr (take_bit width n)))"

definition parse_named :: "string \<Rightarrow> (string \<times> u64) list \<Rightarrow> string \<Rightarrow> u64 result" where
  "parse_named what names s =
     (case map_of names s of Some v \<Rightarrow> Inr v | None \<Rightarrow> parse_failure (what @ s))"

definition parseBitfield :: "(string \<Rightarrow> u64 result) \<Rightarrow> string \<Rightarrow> u64 result" where
  "parseBitfield parseFunction s =
     bindE (foldE (\<lambda>v acc :: u32. bindE (parseFunction (trim v)) (\<lambda>b. Inr (to_u32 (sx64 acc OR b))))
       (split s (CHR ''|'')) 0) (\<lambda>acc. Inr (sx64 acc))"

definition parseArray :: "(string \<Rightarrow> u64 result) \<Rightarrow> string \<Rightarrow> u64 list result" where
  "parseArray parseFunction s = mapE (\<lambda>v. parseFunction (trim v)) (split s (CHR '' ''))"

definition parseClBool :: "string \<Rightarrow> u64 result" where
  "parseClBool = parse_named ''Failed to parse cl_bool: '' [(''CL_TRUE'', 1), (''CL_FALSE'', 0)]"

definition parseDeviceType :: "string \<Rightarrow> u64 result" where
  "parseDeviceType = parse_named ''Unknown cl_device_type value: ''
     [(''CL_DEVICE_TYPE_CPU'', 2), (''CL_DEVICE_TYPE_GPU'', 4), (''CL_DEVICE_TYPE_ACCELERATOR'', 8),
      (''CL_DEVICE_TYPE_DEFAULT'', 1), (''CL_DEVICE_TYPE_CUSTOM'', 16)]"

definition parseDeviceLocalMemType :: "string \<Rightarrow> u64 result" where
  "parseDeviceLocalMemType = parse_named ''Unknown cl_device_local_mem_type value: ''
     [(''CL_LOCAL'', 1), (''CL_GLOBAL'', 2), (''CL_NONE'', 0)]"

definition parseDeviceExecCapabilities :: "string \<Rightarrow> u64 result" where
  "parseDeviceExecCapabilities = parse_named ''Unknown cl_device_exec_capabilities value: ''
     [(''CL_EXEC_KERNEL'', 1), (''CL_EXEC_NATIVE_KERNEL'', 2)]"

definition parseCommandQueueProperties :: "string \<Rightarrow> u64 result" where
  "parseCommandQueueProperties = parse_named ''Unknown cl_command_queue_properties value: ''
     [(''CL_QUEUE_OUT_OF_ORDER_EXEC_MODE_ENABLE'', 1), (''CL_QUEUE_PROFILING_ENABLE'', 2)]"

definition parseDeviceMemCacheType :: "string \<Rightarrow> u64 result" where
  "parseDeviceMemCacheType = parse_named ''Unknown cl_device_mem_cache_type value: ''
     [(''CL_READ_ONLY_CACHE'', 1), (''CL_READ_WRITE_CACHE'', 2), (''CL_NONE'', 0)]"

definition parseDevicePartitionProperty :: "string \<Rightarrow> u64 result" where
  "parseDevicePartitionProperty = parse_named ''Unknown cl_device_partition_property value: ''
     [(''CL_DEVICE_PARTITION_EQUALLY'', 0x1086), (''CL_DEVICE_PARTITION_BY_COUNTS'', 0x1087),
      (''CL_DEVICE_PARTITION_BY_AFFINITY_DOMAIN'', 0x1088), (''CL_NONE'', 0), (''0'', 0)]"

definition parseDeviceAffinityDomain :: "string \<Rightarrow> u64 result" where
  "parseDeviceAffinityDomain = parse_named ''Unknown cl_device_affinity_domain value: ''
     [(''CL_DEVICE_AFFINITY_DOMAIN_NUMA'', 1), (''CL_DEVICE_AFFINITY_DOMAIN_L4_CACHE'', 2),
      (''CL_DEVICE_AFFINITY_DOMAIN_L3_CACHE'', 4), (''CL_DEVICE_AFFINITY_DOMAIN_L2_CACHE'', 8),
      (''CL_DEVICE_AFFINITY_DOMAIN_L1_CACHE'', 16), (''CL_DEVICE_AFFINITY_DOMAIN_NEXT_PARTITIONABLE'', 32),
      (''CL_NONE'', 0), (''0'', 0)]"

definition parseDeviceFpConfig :: "string \<Rightarrow> u64 result" where
  "parseDeviceFpConfig = parse_named ''Unknown cl_device_fp_config value: ''
     [(''CL_FP_DENORM'', 1), (''CL_FP_INF_NAN'', 2), (''CL_FP_ROUND_TO_NEAREST'', 4), (''CL_FP_ROUND_TO_ZERO'', 8),
      (''CL_FP_ROUND_TO_INF'', 16), (''CL_FP_FMA'', 32), (''CL_FP_SOFT_FLOAT'', 64),
      (''CL_FP_CORRECTLY_ROUNDED_DIVIDE_SQRT'', 128), (''CL_NONE'', 0), (''0'', 0)]"

text \<open>
  The structure \<open>cl_device_topology_amd\<close>: its type, 17 unused bytes, bus, device and function, each
  a \<open>cl_char\<close>.
\<close>

definition parse_topology :: "string \<Rightarrow> CLObjectInfoParameterValue result" where
  "parse_topology parameterValue =
     (let errorString = ''Invalid topology! Should follow format \"PCI-E, xxxx:bb:dd.f\" where x -- domain, ''
            @ ''b -- bus, d -- device, f -- function'';
          info = split parameterValue (CHR '':'')
      in if length info \<noteq> 3 then parse_failure errorString
         else let suffix = split (info ! 2) (CHR ''.'')
              in if length suffix \<noteq> 2 then parse_failure errorString
                 else bindE (parseNumber 8 (info ! 1)) (\<lambda>bus.
                      bindE (parseNumber 8 (suffix ! 0)) (\<lambda>device.
                      bindE (parseNumber 8 (suffix ! 1)) (\<lambda>function.
                      Inr (info_value (ArrV ([1, 0, 0, 0] @ replicate 17 0 @ [to_u8 bus, to_u8 device, to_u8 function])) 24)))))"

section \<open>Parameters\<close>

text \<open>How a parameter is parsed: by the macro that the code uses for it. The number is the width in bits.\<close>

datatype ParameterMacro =
  PARSE_PARAMETER nat "string \<Rightarrow> u64 result"
| PARSE_BITFIELD_PARAMETER nat "string \<Rightarrow> u64 result"
| PARSE_NUMBER_PARAMETER nat
| PARSE_BOOL_PARAMETER
| PARSE_STRING_PARAMETER
| PARSE_SIZES
| PARSE_BUILT_IN_KERNELS
| PARSE_TOPOLOGY
| IGNORE_PARAMETER

fun parse_macro :: "ParameterMacro \<Rightarrow> string \<Rightarrow> CLObjectInfoParameterValue result" where
  "parse_macro (PARSE_PARAMETER width f) s = bindE (f s) (\<lambda>n. Inr (info_value (NumV n) (of_nat (width div 8))))"
| "parse_macro (PARSE_BITFIELD_PARAMETER width f) s =
     bindE (parseBitfield f s) (\<lambda>n. Inr (info_value (NumV n) (of_nat (width div 8))))"
| "parse_macro (PARSE_NUMBER_PARAMETER width) s =
     bindE (parseNumber width s) (\<lambda>n. Inr (info_value (NumV n) (of_nat (width div 8))))"
| "parse_macro PARSE_BOOL_PARAMETER s = bindE (parseClBool s) (\<lambda>n. Inr (info_value (NumV n) 4))"
| "parse_macro PARSE_STRING_PARAMETER s =
     Inr (info_value (StrV (if s = ''\"\"'' then [] else s)) (of_nat (length (c_str (if s = ''\"\"'' then [] else s)))))"
| "parse_macro PARSE_SIZES s =
     bindE (parseArray (parseNumber 64) s) (\<lambda>vs.
     Inr (info_value (ArrV (concat (map word_bytes vs))) (of_nat (length vs * 8))))"
| "parse_macro PARSE_BUILT_IN_KERNELS s =
     Inr (info_value (StrV (if s = ''0'' then [] else s)) (of_nat (length (c_str (if s = ''0'' then [] else s)))))"
| "parse_macro PARSE_TOPOLOGY s = parse_topology s"
| "parse_macro IGNORE_PARAMETER s = Inr (info_value (NumV 0) 0)"

abbreviation (input) "cl_uint_width \<equiv> 32 :: nat"
abbreviation (input) "size_t_width \<equiv> 64 :: nat"

definition standard_parameters :: "(string \<times> u32 \<times> ParameterMacro) list" where
  "standard_parameters =
    [(''CL_DEVICE_TYPE'', 0x1000, PARSE_PARAMETER 64 parseDeviceType),
     (''CL_DEVICE_NAME'', 0x102B, PARSE_STRING_PARAMETER),
     (''CL_DEVICE_VENDOR'', 0x102C, PARSE_STRING_PARAMETER),
     (''CL_DEVICE_PROFILE'', 0x102E, PARSE_STRING_PARAMETER),
     (''CL_DEVICE_VERSION'', 0x102F, PARSE_STRING_PARAMETER),
     (''CL_DEVICE_EXTENSIONS'', 0x1030, PARSE_STRING_PARAMETER),
     (''CL_DEVICE_MAX_COMPUTE_UNITS'', 0x1002, PARSE_NUMBER_PARAMETER cl_uint_width),
     (''CL_DEVICE_MAX_WORK_ITEM_DIMENSIONS'', 0x1003, PARSE_NUMBER_PARAMETER cl_uint_width),
     (''CL_DEVICE_MAX_WORK_ITEM_SIZES'', 0x1005, PARSE_SIZES),
     (''CL_DEVICE_MAX_WORK_GROUP_SIZE'', 0x1004, PARSE_NUMBER_PARAMETER size_t_width),
     (''CL_DEVICE_PREFERRED_VECTOR_WIDTH_CHAR'', 0x1006, PARSE_NUMBER_PARAMETER cl_uint_width),
     (''CL_DEVICE_PREFERRED_VECTOR_WIDTH_SHORT'', 0x1007, PARSE_NUMBER_PARAMETER cl_uint_width),
     (''CL_DEVICE_PREFERRED_VECTOR_WIDTH_INT'', 0x1008, PARSE_NUMBER_PARAMETER cl_uint_width),
     (''CL_DEVICE_PREFERRED_VECTOR_WIDTH_LONG'', 0x1009, PARSE_NUMBER_PARAMETER cl_uint_width),
     (''CL_DEVICE_PREFERRED_VECTOR_WIDTH_FLOAT'', 0x100A, PARSE_NUMBER_PARAMETER cl_uint_width),
     (''CL_DEVICE_PREFERRED_VECTOR_WIDTH_DOUBLE'', 0x100B, PARSE_NUMBER_PARAMETER cl_uint_width),
     (''CL_DEVICE_PREFERRED_VECTOR_WIDTH_HALF'', 0x1034, PARSE_NUMBER_PARAMETER cl_uint_width),
     (''CL_DEVICE_NATIVE_VECTOR_WIDTH_CHAR'', 0x1036, PARSE_NUMBER_PARAMETER cl_uint_width),
     (''CL_DEVICE_NATIVE_VECTOR_WIDTH_SHORT'', 0x1037, PARSE_NUMBER_PARAMETER cl_uint_width),
     (''CL_DEVICE_NATIVE_VECTOR_WIDTH_INT'', 0x1038, PARSE_NUMBER_PARAMETER cl_uint_width),
     (''CL_DEVICE_NATIVE_VECTOR_WIDTH_LONG'', 0x1039, PARSE_NUMBER_PARAMETER cl_uint_width),
     (''CL_DEVICE_NATIVE_VECTOR_WIDTH_FLOAT'', 0x103A, PARSE_NUMBER_PARAMETER cl_uint_width),
     (''CL_DEVICE_NATIVE_VECTOR_WIDTH_DOUBLE'', 0x103B, PARSE_NUMBER_PARAMETER cl_uint_width),
     (''CL_DEVICE_NATIVE_VECTOR_WIDTH_HALF'', 0x103C, PARSE_NUMBER_PARAMETER cl_uint_width),
     (''CL_DEVICE_MAX_CLOCK_FREQUENCY'', 0x100C, PARSE_NUMBER_PARAMETER cl_uint_width),
     (''CL_DEVICE_ADDRESS_BITS'', 0x100D, PARSE_NUMBER_PARAMETER cl_uint_width),
     (''CL_DEVICE_MAX_MEM_ALLOC_SIZE'', 0x1010, PARSE_NUMBER_PARAMETER size_t_width),
     (''CL_DEVICE_MAX_READ_IMAGE_ARGS'', 0x100E, PARSE_NUMBER_PARAMETER cl_uint_width),
     (''CL_DEVICE_MAX_WRITE_IMAGE_ARGS'', 0x100F, PARSE_NUMBER_PARAMETER cl_uint_width),
     (''CL_DEVICE_IMAGE2D_MAX_WIDTH'', 0x1011, PARSE_NUMBER_PARAMETER size_t_width),
     (''CL_DEVICE_IMAGE2D_MAX_HEIGHT'', 0x1012, PARSE_NUMBER_PARAMETER size_t_width),
     (''CL_DEVICE_IMAGE3D_MAX_WIDTH'', 0x1013, PARSE_NUMBER_PARAMETER size_t_width),
     (''CL_DEVICE_IMAGE3D_MAX_HEIGHT'', 0x1014, PARSE_NUMBER_PARAMETER size_t_width),
     (''CL_DEVICE_IMAGE3D_MAX_DEPTH'', 0x1015, PARSE_NUMBER_PARAMETER size_t_width),
     (''CL_DEVICE_IMAGE_MAX_BUFFER_SIZE'', 0x1040, PARSE_NUMBER_PARAMETER size_t_width),
     (''CL_DEVICE_IMAGE_MAX_ARRAY_SIZE'', 0x1041, PARSE_NUMBER_PARAMETER size_t_width),
     (''CL_DEVICE_MAX_SAMPLERS'', 0x1018, PARSE_NUMBER_PARAMETER cl_uint_width),
     (''CL_DEVICE_MAX_PARAMETER_SIZE'', 0x1017, PARSE_NUMBER_PARAMETER size_t_width),
     (''CL_DEVICE_MEM_BASE_ADDR_ALIGN'', 0x1019, PARSE_NUMBER_PARAMETER cl_uint_width),
     (''CL_DEVICE_SINGLE_FP_CONFIG'', 0x101B, PARSE_BITFIELD_PARAMETER 64 parseDeviceFpConfig),
     (''CL_DEVICE_DOUBLE_FP_CONFIG'', 0x1032, PARSE_BITFIELD_PARAMETER 64 parseDeviceFpConfig),
     (''CL_DEVICE_GLOBAL_MEM_CACHE_TYPE'', 0x101C, PARSE_PARAMETER 32 parseDeviceMemCacheType),
     (''CL_DEVICE_GLOBAL_MEM_CACHELINE_SIZE'', 0x101D, PARSE_NUMBER_PARAMETER cl_uint_width),
     (''CL_DEVICE_GLOBAL_MEM_CACHE_SIZE'', 0x101E, PARSE_NUMBER_PARAMETER size_t_width),
     (''CL_DEVICE_GLOBAL_MEM_SIZE'', 0x101F, PARSE_NUMBER_PARAMETER size_t_width),
     (''CL_DEVICE_MAX_CONSTANT_BUFFER_SIZE'', 0x1020, PARSE_NUMBER_PARAMETER size_t_width),
     (''CL_DEVICE_MAX_CONSTANT_ARGS'', 0x1021, PARSE_NUMBER_PARAMETER cl_uint_width),
     (''CL_DEVICE_LOCAL_MEM_TYPE'', 0x1022, PARSE_PARAMETER 32 parseDeviceLocalMemType),
     (''CL_DEVICE_LOCAL_MEM_SIZE'', 0x1023, PARSE_NUMBER_PARAMETER size_t_width),
     (''CL_DEVICE_PROFILING_TIMER_RESOLUTION'', 0x1025, PARSE_NUMBER_PARAMETER size_t_width),
     (''CL_DEVICE_ENDIAN_LITTLE'', 0x1026, PARSE_PARAMETER 32 parseClBool),
     (''CL_DEVICE_EXECUTION_CAPABILITIES'', 0x1029, PARSE_BITFIELD_PARAMETER 64 parseDeviceExecCapabilities),
     (''CL_DEVICE_BUILT_IN_KERNELS'', 0x103F, PARSE_BUILT_IN_KERNELS),
     (''CL_DEVICE_PRINTF_BUFFER_SIZE'', 0x1049, PARSE_NUMBER_PARAMETER size_t_width),
     (''CL_DEVICE_PREFERRED_INTEROP_USER_SYNC'', 0x1048, PARSE_BOOL_PARAMETER),
     (''CL_DEVICE_PARTITION_PROPERTIES'', 0x1044, PARSE_PARAMETER 64 parseDevicePartitionProperty),
     (''CL_DEVICE_PARTITION_AFFINITY_DOMAIN'', 0x1045, PARSE_BITFIELD_PARAMETER 64 parseDeviceAffinityDomain),
     (''CL_DEVICE_PARTITION_TYPE'', 0x1046, PARSE_NUMBER_PARAMETER cl_uint_width),
     (''CL_DEVICE_REFERENCE_COUNT'', 0x1047, PARSE_NUMBER_PARAMETER cl_uint_width),
     (''CL_DEVICE_QUEUE_PROPERTIES'', 0x102A, PARSE_PARAMETER 64 parseCommandQueueProperties)]"

definition amd_parameters :: "(string \<times> u32 \<times> ParameterMacro) list" where
  "amd_parameters =
    [(''CL_DEVICE_PROFILING_TIMER_OFFSET_AMD'', 0x4036, PARSE_NUMBER_PARAMETER cl_uint_width),
     (''CL_DEVICE_TOPOLOGY_AMD'', 0x4037, PARSE_TOPOLOGY),
     (''CL_DEVICE_BOARD_NAME_AMD'', 0x4038, PARSE_STRING_PARAMETER),
     (''CL_DEVICE_SIMD_PER_COMPUTE_UNIT_AMD'', 0x4040, PARSE_NUMBER_PARAMETER cl_uint_width),
     (''CL_DEVICE_SIMD_WIDTH_AMD'', 0x4041, PARSE_NUMBER_PARAMETER cl_uint_width),
     (''CL_DEVICE_SIMD_INSTRUCTION_WIDTH_AMD'', 0x4042, PARSE_NUMBER_PARAMETER cl_uint_width),
     (''CL_DEVICE_WAVEFRONT_WIDTH_AMD'', 0x4043, PARSE_NUMBER_PARAMETER cl_uint_width),
     (''CL_DEVICE_GLOBAL_MEM_CHANNELS_AMD'', 0x4044, PARSE_NUMBER_PARAMETER cl_uint_width),
     (''CL_DEVICE_GLOBAL_MEM_CHANNEL_BANKS_AMD'', 0x4045, PARSE_NUMBER_PARAMETER cl_uint_width),
     (''CL_DEVICE_GLOBAL_MEM_CHANNEL_BANK_WIDTH_AMD'', 0x4046, PARSE_NUMBER_PARAMETER cl_uint_width),
     (''CL_DEVICE_LOCAL_MEM_SIZE_PER_COMPUTE_UNIT_AMD'', 0x4047, PARSE_NUMBER_PARAMETER cl_uint_width),
     (''CL_DEVICE_LOCAL_MEM_BANKS_AMD'', 0x4048, PARSE_NUMBER_PARAMETER cl_uint_width),
     (''CL_DEVICE_MAX_GLOBAL_VARIABLE_SIZE'', 0x104D, PARSE_NUMBER_PARAMETER cl_uint_width)]"

definition ignored_parameters :: "(string \<times> u32 \<times> ParameterMacro) list" where
  "ignored_parameters =
    [(''CL_DEVICE_PLATFORM'', 0x1031, IGNORE_PARAMETER), (''CL_DEVICE_VENDOR_ID'', 0x1001, IGNORE_PARAMETER),
     (''CL_DEVICE_PARENT_DEVICE'', 0x1042, IGNORE_PARAMETER),
     (''CL_DEVICE_OPENCL_C_VERSION'', 0x103D, IGNORE_PARAMETER), (''CL_DRIVER_VERSION'', 0x102D, IGNORE_PARAMETER),
     (''CL_DEVICE_PARTITION_MAX_SUB_DEVICES'', 0x1043, IGNORE_PARAMETER),
     (''CL_DEVICE_AVAILABLE'', 0x1027, IGNORE_PARAMETER), (''CL_DEVICE_LINKER_AVAILABLE'', 0x103E, IGNORE_PARAMETER),
     (''CL_DEVICE_COMPILER_AVAILABLE'', 0x1028, IGNORE_PARAMETER),
     (''CL_DEVICE_IMAGE_SUPPORT'', 0x1016, IGNORE_PARAMETER),
     (''CL_DEVICE_HOST_UNIFIED_MEMORY'', 0x1035, IGNORE_PARAMETER),
     (''CL_DEVICE_ERROR_CORRECTION_SUPPORT'', 0x1024, IGNORE_PARAMETER),
     (''CL_DEVICE_GLOBAL_FREE_MEMORY_AMD'', 0x4039, IGNORE_PARAMETER)]"

definition parseParameter :: "string \<Rightarrow> string \<Rightarrow> (u32 \<times> CLObjectInfoParameterValue) result" where
  "parseParameter parameterName parameterValue =
     (case map_of (standard_parameters @ amd_parameters @ ignored_parameters) parameterName of
        None \<Rightarrow> Inr (0, info_value (NumV 0) 0)
      | Some (clParameter, how) \<Rightarrow> bindE (parse_macro how parameterValue) (\<lambda>v. Inr (clParameter, v)))"

section \<open>The configuration file\<close>

type_synonym parameters = "u32 \<rightharpoonup> CLObjectInfoParameterValue"

text \<open>\<open>emplace\<close> keeps a value that is there.\<close>

definition load_line :: "string \<Rightarrow> parameters \<Rightarrow> parameters result" where
  "load_line line parameters =
     (if line = [] \<or> hd line = CHR ''#'' \<or> hd line = CHR '';'' then Inr parameters
      else bindE (splitTwo line (CHR ''='')) (\<lambda>(parameterName, parameterValue).
           bindE (parseParameter (trim parameterName) (trim parameterValue)) (\<lambda>(name, v).
           Inr (if name \<in> dom parameters then parameters else parameters(name \<mapsto> v)))))"

definition deviceVersion :: "CLPlatformId \<Rightarrow> string" where
  "deviceVersion pf = pf_openClVersion pf @ '' AMD-APP ('' @ pf_driverVersion pf @ '')''"

text \<open>The values that the driver fixes; the platform handle is a number here.\<close>

definition hardcoded_parameters :: "u64 \<Rightarrow> CLPlatformId \<Rightarrow> (u32 \<times> CLObjectInfoParameterValue) list" where
  "hardcoded_parameters platform pf =
    [(0x1031, info_value (NumV platform) 8), (0x1001, info_value (NumV 0x1002) 4), (0x1042, info_value (NumV 0) 8),
     (0x103D, info_value (StrV (pf_openClVersion pf)) (of_nat (length (pf_openClVersion pf)))),
     (0x102D, info_value (StrV (pf_driverVersion pf)) (of_nat (length (pf_driverVersion pf) + 1))),
     (0x102F, info_value (StrV (deviceVersion pf)) (of_nat (length (deviceVersion pf) + 1))),
     (0x1027, info_value (NumV 1) 4), (0x103E, info_value (NumV 0) 4), (0x1028, info_value (NumV 0) 4),
     (0x1043, info_value (NumV 0) 4), (0x1016, info_value (NumV 0) 4), (0x1035, info_value (NumV 1) 4),
     (0x1024, info_value (NumV 0) 4)]"

definition load_extensions :: "CLPlatformId \<Rightarrow> parameters \<Rightarrow> parameters result" where
  "load_extensions pf parameters =
     bindE (case parameters 0x1030 of
              None \<Rightarrow> Inr (pf_extensions pf)
            | Some p \<Rightarrow> (case iv_val p of StrV s \<Rightarrow> Inr (pf_extensions pf @ '' '' @ s) | _ \<Rightarrow> Inl Bad_variant_access))
       (\<lambda>extensions. Inr (parameters(0x1030 \<mapsto> info_value (StrV extensions) (of_nat (length extensions)))))"

definition load_config :: "u64 \<Rightarrow> CLPlatformId \<Rightarrow> string \<Rightarrow> string list option \<Rightarrow> parameters result" where
  "load_config platform pf path configurationFile =
     (case configurationFile of
        None \<Rightarrow> parse_failure (''Failed to open '' @ path)
      | Some ls \<Rightarrow>
          bindE (foldE load_line ls Map.empty) (\<lambda>parameters.
          load_extensions pf (fold (\<lambda>(name, v) ps. ps(name \<mapsto> v)) (hardcoded_parameters platform pf) parameters)))"

text \<open>A parameter that the file does not name is empty if its number is in a known range.\<close>

definition getParameter :: "parameters \<Rightarrow> u32 \<Rightarrow> CLObjectInfoParameterValue option" where
  "getParameter parameters parameter =
     (case parameters parameter of
        Some v \<Rightarrow> Some v
      | None \<Rightarrow>
          let isBasicOpenCLParameter = (0x1000 \<le> parameter \<and> parameter \<le> 0x1049);
              isAmdParameter = (0x4036 \<le> parameter \<and> parameter \<le> 0x4048)
          in if isBasicOpenCLParameter \<or> isAmdParameter then Some (info_value (NumV 0) 0) else None)"

text \<open>\<open>requireParameter\<close> of a number; without a parameter the function ends without a value.\<close>

definition requireParameter :: "parameters \<Rightarrow> u32 \<Rightarrow> InfoValue result" where
  "requireParameter parameters parameter =
     (case getParameter parameters parameter of
        Some p \<Rightarrow> Inr (iv_val p)
      | None \<Rightarrow> Inl (Undefined ''no return value''))"

section \<open>What a configuration says\<close>

definition skipped :: "string \<Rightarrow> bool" where
  "skipped line \<longleftrightarrow> line = [] \<or> hd line = CHR ''#'' \<or> hd line = CHR '';''"

definition entry_of :: "string \<Rightarrow> (u32 \<times> CLObjectInfoParameterValue) result" where
  "entry_of line = bindE (splitTwo line (CHR ''='')) (\<lambda>(name, val). parseParameter (trim name) (trim val))"

lemma load_line_entry:
  "load_line line ps = (if skipped line then Inr ps
     else bindE (entry_of line) (\<lambda>(name, v). Inr (if name \<in> dom ps then ps else ps(name \<mapsto> v))))"
  by (simp add: load_line_def skipped_def entry_of_def bindE_assoc split_def)

lemma map_add_first: "(if name \<in> dom ps then ps else ps(name \<mapsto> v)) = [name \<mapsto> v] ++ ps"
  by (auto simp: fun_eq_iff map_add_def split: option.splits)

text \<open>Reading the lines collects their entries; the first entry of a parameter stays.\<close>

lemma load_lines:
  "foldE load_line ls ps = bindE (mapE entry_of (filter (\<lambda>l. \<not> skipped l) ls)) (\<lambda>es. Inr (map_of es ++ ps))"
proof (induction ls arbitrary: ps)
  case (Cons l ls)
  show ?case
  proof (cases "skipped l \<or> \<not> returns (entry_of l)")
    case True
    then show ?thesis using Cons by (cases "entry_of l") (auto simp: load_line_entry returns_def)
  next
    case False
    then obtain name v where e: "entry_of l = Inr (name, v)" using returnsD by (metis surj_pair)
    have "map_of es ++ ([name \<mapsto> v] ++ ps) = map_of ((name, v) # es) ++ ps" for es
      by (simp add: map_add_assoc [symmetric])
    then show ?thesis using False e Cons
      by (simp add: load_line_entry map_add_first bindE_assoc)
  qed
qed simp

text \<open>
  A parameter has the value that the driver fixes for it, and otherwise that of the first line of the
  file that names it.
\<close>

definition fixed_numbers :: "u32 set" where
  "fixed_numbers = {0x1031, 0x1001, 0x1042, 0x103D, 0x102D, 0x102F, 0x1027, 0x103E, 0x1028, 0x1043, 0x1016, 0x1035, 0x1024}"

lemma fold_hardcoded:
  "distinct (map fst es) \<Longrightarrow> fold (\<lambda>(name, v) ps. ps(name \<mapsto> v)) es ps = ps ++ map_of es"
proof (induction es arbitrary: ps)
  case (Cons e es)
  obtain name v where e: "e = (name, v)" by (cases e)
  have "name \<notin> dom (map_of es)" using Cons.prems e by (simp add: dom_map_of_conv_image_fst)
  then have "ps(name \<mapsto> v) ++ map_of es = ps ++ map_of (e # es)"
    by (auto simp: e fun_eq_iff map_add_def split: option.splits)
  moreover have "fold (\<lambda>(name, v) ps. ps(name \<mapsto> v)) (e # es) ps
      = fold (\<lambda>(name, v) ps. ps(name \<mapsto> v)) es (ps(name \<mapsto> v))"
    by (simp only: e fold.simps comp_def prod.case)
  ultimately show ?case using Cons by (simp only: list.map distinct.simps)
qed simp

lemma hardcoded_numbers: "fst ` set (hardcoded_parameters platform pf) = fixed_numbers"
  "distinct (map fst (hardcoded_parameters platform pf))"
  by (simp_all add: hardcoded_parameters_def fixed_numbers_def)


text \<open>
  A line that gives a name and no value does not end in the error that the caller handles: the part
  after the equals sign is missing, and \<open>splitTwo\<close> throws a logic error.
\<close>

theorem empty_value_escapes:
  assumes "name \<noteq> []" and "CHR ''='' \<notin> set name" and "hd name \<notin> {CHR ''#'', CHR '';''}"
    and "\<forall>l \<in> set ls. skipped l"
  shows "load_config platform pf path (Some (ls @ (name @ ''='') # ls')) =
    Inl (Logic_error ''Could not split line into two parts!'')"
proof -
  have "split (name @ ''='') (CHR ''='') = [name]"
    using split_loop_piece [OF assms(2), of "- 1" "''=''" "[]" "[]"] assms(1) by (simp add: split_max_def)
  then have "entry_of (name @ ''='') = Inl (Logic_error ''Could not split line into two parts!'')"
    by (simp add: entry_of_def splitTwo_def)
  moreover have "filter (\<lambda>l. \<not> skipped l) ls = []" using assms(4) by simp
  moreover have "\<not> skipped (name @ ''='')" using assms(1,3) by (simp add: skipped_def)
  ultimately show ?thesis by (simp add: load_config_def load_lines)
qed

definition test_platform :: CLPlatformId where
  "test_platform = \<lparr>pf_profile = ''FULL_PROFILE'', pf_openClVersion = ''OpenCL 1.2'', pf_driverVersion = ''1'',
     pf_name = ''n'', pf_vendor = ''v'', pf_extensions = ''e'', pf_suffix = ''s''\<rparr>"


lemma empty_value_escapes_witness:
  "load_config 1 test_platform ''f'' (Some ([''# device''] @ (''CL_DEVICE_NAME'' @ ''='') # [])) =
    Inl (Logic_error ''Could not split line into two parts!'')"
  by (rule empty_value_escapes) (simp_all add: skipped_def)

end
