(* ===== verification/KernelArgs.thy ===== *)
theory KernelArgs
  imports Strings KernelConfigs
begin

text \<open>
  The description of kernel arguments in a disassembled program
  (\<open>driver/src/runtime/kernel/KernelArgumentInfo\<close>, \<open>program/KernelArgumentInfoParser\<close>): the classes
  of arguments with their members, the names of the types, and the parser of one argument line. A
  qualifier is the number that the OpenCL standard gives it. Using a null pointer and reading a
  vector outside of its elements is undefined.
\<close>

section \<open>Argument descriptions\<close>

abbreviation (input) CL_KERNEL_ARG_ADDRESS_GLOBAL :: u32 where "CL_KERNEL_ARG_ADDRESS_GLOBAL \<equiv> 0x119B"
abbreviation (input) CL_KERNEL_ARG_ADDRESS_LOCAL :: u32 where "CL_KERNEL_ARG_ADDRESS_LOCAL \<equiv> 0x119C"
abbreviation (input) CL_KERNEL_ARG_ADDRESS_CONSTANT :: u32 where "CL_KERNEL_ARG_ADDRESS_CONSTANT \<equiv> 0x119D"
abbreviation (input) CL_KERNEL_ARG_ADDRESS_PRIVATE :: u32 where "CL_KERNEL_ARG_ADDRESS_PRIVATE \<equiv> 0x119E"
abbreviation (input) CL_KERNEL_ARG_ACCESS_READ_ONLY :: u32 where "CL_KERNEL_ARG_ACCESS_READ_ONLY \<equiv> 0x11A0"
abbreviation (input) CL_KERNEL_ARG_ACCESS_WRITE_ONLY :: u32 where "CL_KERNEL_ARG_ACCESS_WRITE_ONLY \<equiv> 0x11A1"
abbreviation (input) CL_KERNEL_ARG_ACCESS_READ_WRITE :: u32 where "CL_KERNEL_ARG_ACCESS_READ_WRITE \<equiv> 0x11A2"
abbreviation (input) CL_KERNEL_ARG_ACCESS_NONE :: u32 where "CL_KERNEL_ARG_ACCESS_NONE \<equiv> 0x11A3"
abbreviation (input) CL_KERNEL_ARG_TYPE_NONE :: u64 where "CL_KERNEL_ARG_TYPE_NONE \<equiv> 0"
abbreviation (input) CL_KERNEL_ARG_TYPE_CONST :: u64 where "CL_KERNEL_ARG_TYPE_CONST \<equiv> 1"
abbreviation (input) CL_KERNEL_ARG_TYPE_RESTRICT :: u64 where "CL_KERNEL_ARG_TYPE_RESTRICT \<equiv> 2"
abbreviation (input) CL_KERNEL_ARG_TYPE_VOLATILE :: u64 where "CL_KERNEL_ARG_TYPE_VOLATILE \<equiv> 4"

record StructureKernelArgumentInfo =
  si_structSize :: u64

record ImageKernelArgumentInfo =
  ii_accessQualifier :: u32
  ii_resId :: u32

record PointerKernelArgumentInfo =
  pi_addressQualifier :: u32
  pi_accessQualifier :: u32
  pi_argTypeQualifier :: u64
  pi_structSize :: u64
  pi_constSize :: u64

text \<open>The subclasses, each with its own members.\<close>

datatype KernelArgumentClass =
  ScalarInfo
| VectorInfo
| StructureInfo StructureKernelArgumentInfo
| ImageInfo ImageKernelArgumentInfo
| SamplerInfo u32
| EventInfo
| PointerInfo PointerKernelArgumentInfo

record KernelArgumentInfo =
  ai_kind :: KernelArgumentKind
  ai_index :: u32
  ai_typeName :: string
  ai_type :: string
  ai_argumentName :: string
  ai_unused :: bool
  ai_class :: KernelArgumentClass

definition cartesianProduct :: "string list \<Rightarrow> string list \<Rightarrow> string list" where
  "cartesianProduct first second = concat (map (\<lambda>s1. map (\<lambda>s2. s1 @ s2) second) first)"

definition scalar_typeNameVariants :: "string list" where
  "scalar_typeNameVariants =
     [''char'', ''uchar'', ''short'', ''ushort'', ''int'', ''uint'', ''ulong'', ''long'', ''float'', ''double'',
      ''bool'', ''half'', ''size_t'', ''ptrdiff_t'', ''intptr_t'', ''uintptr_t'', ''void'']"

definition typeNamePrefixVariants :: "string list" where
  "typeNamePrefixVariants =
     [''char'', ''uchar'', ''short'', ''ushort'', ''int'', ''uint'', ''ulong'', ''long'', ''float'', ''double'']"

definition typeNameSuffixVariants :: "string list" where
  "typeNameSuffixVariants = [''2'', ''3'', ''4'', ''8'', ''16'']"

definition vector_typeNameVariants :: "string list" where
  "vector_typeNameVariants = cartesianProduct typeNamePrefixVariants typeNameSuffixVariants"

definition structure_typeNameVariants :: "string list" where
  "structure_typeNameVariants = [''structure'']"

definition image_typeNameVariants :: "string list" where
  "image_typeNameVariants =
     [''image1d_t'', ''image1d_array_t'', ''image1d_buffer_t'', ''image2d_t'', ''image2d_array_t'', ''image3d_t'']"

definition sampler_typeNameVariants :: "string list" where
  "sampler_typeNameVariants = [''sampler_t'']"

definition event_typeNameVariants :: "string list" where
  "event_typeNameVariants = [''event_t'']"

section \<open>The parameters of an argument\<close>

definition throwParseError :: "string \<Rightarrow> string \<Rightarrow> 'a result" where
  "throwParseError argumentType parameter =
     Inl (Runtime_error (''Unknown parameter value for '' @ argumentType @ '' kernel argument: '' @ parameter))"

text \<open>A scalar or vector argument has no parameters other than empty ones.\<close>

definition parse_plain :: "string \<Rightarrow> string list \<Rightarrow> unit result" where
  "parse_plain what params =
     foldE (\<lambda>param _. if param = [] then Inr () else throwParseError what param) params ()"

definition parse_structure :: "string list \<Rightarrow> StructureKernelArgumentInfo result" where
  "parse_structure params =
     foldE (\<lambda>param out.
       if param = [] then Inr out
       else if isdigit (hd param) then bindE (stoi param) (\<lambda>n. Inr (out\<lparr>si_structSize := sx64 n\<rparr>))
       else throwParseError ''structure'' param) params \<lparr>si_structSize = 0\<rparr>"

definition image_param :: "string \<Rightarrow> ImageKernelArgumentInfo \<Rightarrow> ImageKernelArgumentInfo result" where
  "image_param param out =
     (if param = [] then Inr out
      else if param = ''read_only'' \<or> param = ''rdonly''
        then Inr (out\<lparr>ii_accessQualifier := CL_KERNEL_ARG_ACCESS_READ_ONLY\<rparr>)
      else if param = ''write_only'' \<or> param = ''wronly''
        then Inr (out\<lparr>ii_accessQualifier := CL_KERNEL_ARG_ACCESS_WRITE_ONLY\<rparr>)
      else if param = ''read_write'' \<or> param = ''rdwr''
        then Inr (out\<lparr>ii_accessQualifier := CL_KERNEL_ARG_ACCESS_READ_WRITE\<rparr>)
      else if isdigit (hd param) then bindE (stoi param) (\<lambda>n. Inr (out\<lparr>ii_resId := n\<rparr>))
      else throwParseError ''image'' param)"

definition parse_image :: "string list \<Rightarrow> ImageKernelArgumentInfo result" where
  "parse_image params =
     foldE image_param params \<lparr>ii_accessQualifier = CL_KERNEL_ARG_ACCESS_READ_WRITE, ii_resId = 0\<rparr>"

definition parse_sampler :: "string list \<Rightarrow> u32 result" where
  "parse_sampler params =
     foldE (\<lambda>param resId.
       if param = [] then Inr resId
       else if isdigit (hd param) then stoi param
       else throwParseError ''sampler'' param) params 0"

definition parsePointerAccessParam ::
  "string \<Rightarrow> PointerKernelArgumentInfo \<Rightarrow> bool \<times> PointerKernelArgumentInfo" where
  "parsePointerAccessParam param out =
     (if param = [] then (False, out)
      else if param = ''const'' then (True, out\<lparr>pi_argTypeQualifier := CL_KERNEL_ARG_TYPE_CONST\<rparr>)
      else if param = ''restrict'' then (True, out\<lparr>pi_argTypeQualifier := CL_KERNEL_ARG_TYPE_RESTRICT\<rparr>)
      else if param = ''volatile'' then (True, out\<lparr>pi_argTypeQualifier := CL_KERNEL_ARG_TYPE_VOLATILE\<rparr>)
      else (False, out))"

definition pointer_param :: "string \<Rightarrow> PointerKernelArgumentInfo \<Rightarrow> PointerKernelArgumentInfo result" where
  "pointer_param param out =
     (if param = ''local'' then Inr (out\<lparr>pi_addressQualifier := CL_KERNEL_ARG_ADDRESS_LOCAL\<rparr>)
      else if param = ''constant'' then Inr (out\<lparr>pi_addressQualifier := CL_KERNEL_ARG_ADDRESS_CONSTANT\<rparr>)
      else if param = ''global'' then Inr (out\<lparr>pi_addressQualifier := CL_KERNEL_ARG_ADDRESS_GLOBAL\<rparr>)
      else if param = ''read_only'' \<or> param = ''rdonly''
        then Inr (out\<lparr>pi_accessQualifier := CL_KERNEL_ARG_ACCESS_READ_ONLY\<rparr>)
      else if param = ''write_only'' \<or> param = ''wronly''
        then Inr (out\<lparr>pi_accessQualifier := CL_KERNEL_ARG_ACCESS_WRITE_ONLY\<rparr>)
      else if param = ''read_write'' \<or> param = ''rdwr''
        then Inr (out\<lparr>pi_accessQualifier := CL_KERNEL_ARG_ACCESS_READ_WRITE\<rparr>)
      else if isdigit (hd param) \<and> pi_accessQualifier out = CL_KERNEL_ARG_ADDRESS_CONSTANT
        then bindE (stoi param) (\<lambda>n. Inr (out\<lparr>pi_constSize := sx64 n\<rparr>))
      else if isdigit (hd param)
        then bindE (stoi param) (\<lambda>n. Inr (out\<lparr>pi_structSize := sx64 n\<rparr>))
      else let (known, out) = parsePointerAccessParam param out
           in if known then Inr out else throwParseError ''pointer'' param)"

text \<open>The loop over the parameters; one that holds several words ends it.\<close>

fun pointer_params :: "string list \<Rightarrow> PointerKernelArgumentInfo \<Rightarrow> PointerKernelArgumentInfo result" where
  "pointer_params [] out = Inr out"
| "pointer_params (param # params) out =
     (if param = [] then pointer_params params out
      else let maybeSplit = split param (CHR '' '')
           in if 1 < length maybeSplit
              then Inr (fold (\<lambda>accessParam out. snd (parsePointerAccessParam accessParam out)) maybeSplit out)
              else bindE (pointer_param param out) (pointer_params params))"

definition new_pointer_info :: PointerKernelArgumentInfo where
  "new_pointer_info =
     \<lparr>pi_addressQualifier = CL_KERNEL_ARG_ADDRESS_GLOBAL,
      pi_accessQualifier = CL_KERNEL_ARG_ACCESS_READ_WRITE,
      pi_argTypeQualifier = CL_KERNEL_ARG_TYPE_NONE, pi_structSize = 0, pi_constSize = 0\<rparr>"

section \<open>An argument line\<close>

text \<open>The class of an argument type and the kind that its parser sets.\<close>

definition parse_class :: "string \<Rightarrow> string list \<Rightarrow> (KernelArgumentKind \<times> KernelArgumentClass) result" where
  "parse_class argType params =
     (if endsWith argType ''*''
      then bindE (pointer_params params new_pointer_info) (\<lambda>p. Inr (POINTER, PointerInfo p))
      else if argType \<in> set scalar_typeNameVariants
      then bindE (parse_plain ''scalar'' params) (\<lambda>_. Inr (SCALAR, ScalarInfo))
      else if argType \<in> set vector_typeNameVariants
      then bindE (parse_plain ''vector'' params) (\<lambda>_. Inr (VECTOR, VectorInfo))
      else if argType \<in> set structure_typeNameVariants
      then bindE (parse_structure params) (\<lambda>s. Inr (STRUCT, StructureInfo s))
      else if argType \<in> set image_typeNameVariants
      then bindE (parse_image params) (\<lambda>i. Inr (IMAGE, ImageInfo i))
      else if argType \<in> set sampler_typeNameVariants
      then bindE (parse_sampler params) (\<lambda>r. Inr (SAMPLER, SamplerInfo r))
      else if argType \<in> set event_typeNameVariants
      then Inl (Runtime_error ''Event parsing is not supported yet'')
      else Inl (Undefined ''null pointer''))"

definition parse_argument :: "u32 \<Rightarrow> string \<Rightarrow> KernelArgumentInfo result" where
  "parse_argument argIndex asmLine =
     (let splitLine = map trim (split asmLine (CHR '','')) in
      bindE (at_index splitLine 0) (\<lambda>argName.
      bindE (at_index splitLine 1) (\<lambda>second.
      let quoted = second \<noteq> [] \<and> hd second = CHR ''\"'';
          argTypeName = (if quoted then (if length second = 1 then [] else take (length second - 2) (drop 1 second)) else []);
          shift = (if quoted then 0 else 1 :: nat);
          unused = (last splitLine = ''unused'')
      in bindE (at_index splitLine (2 - shift)) (\<lambda>argType.
         let params = drop (2 - shift + 1) (if unused then butlast splitLine else splitLine)
         in bindE (parse_class argType params) (\<lambda>(kind, cls).
            Inr \<lparr>ai_kind = kind, ai_index = argIndex, ai_typeName = argTypeName, ai_type = argType,
                 ai_argumentName = argName, ai_unused = False, ai_class = cls\<rparr>)))))"

section \<open>Properties\<close>

text \<open>
  The size of a constant buffer is looked for under a test that compares the access qualifier with
  an address qualifier; it never holds.
\<close>

definition access_ok :: "PointerKernelArgumentInfo \<Rightarrow> bool" where
  "access_ok p \<longleftrightarrow> pi_constSize p = 0 \<and> pi_accessQualifier p \<in>
     {CL_KERNEL_ARG_ACCESS_READ_ONLY, CL_KERNEL_ARG_ACCESS_WRITE_ONLY, CL_KERNEL_ARG_ACCESS_READ_WRITE}"

lemma parsePointerAccessParam_ok: "access_ok p \<Longrightarrow> access_ok (snd (parsePointerAccessParam s p))"
  by (auto simp: parsePointerAccessParam_def access_ok_def)

lemma fold_access_ok: "access_ok p \<Longrightarrow> access_ok (fold (\<lambda>s p. snd (parsePointerAccessParam s p)) ss p)"
  by (induction ss arbitrary: p) (auto simp: parsePointerAccessParam_ok)

definition returns_ok :: "PointerKernelArgumentInfo result \<Rightarrow> bool" where
  "returns_ok r \<longleftrightarrow> (\<forall>q. r = Inr q \<longrightarrow> access_ok q)"

lemma returns_ok_intros:
  "access_ok q \<Longrightarrow> returns_ok (Inr q)"
  "returns_ok (throwParseError t s)"
  "returns_ok x \<Longrightarrow> returns_ok y \<Longrightarrow> returns_ok (if b then x else y)"
  "(\<And>x. returns_ok (f x)) \<Longrightarrow> returns_ok (bindE m f)"
  by (auto simp: returns_ok_def throwParseError_def result_simps)

lemma access_ok_updates:
  "access_ok p \<Longrightarrow> access_ok (p\<lparr>pi_addressQualifier := a\<rparr>)"
  "access_ok p \<Longrightarrow> access_ok (p\<lparr>pi_accessQualifier := CL_KERNEL_ARG_ACCESS_READ_ONLY\<rparr>)"
  "access_ok p \<Longrightarrow> access_ok (p\<lparr>pi_accessQualifier := CL_KERNEL_ARG_ACCESS_WRITE_ONLY\<rparr>)"
  "access_ok p \<Longrightarrow> access_ok (p\<lparr>pi_accessQualifier := CL_KERNEL_ARG_ACCESS_READ_WRITE\<rparr>)"
  "access_ok p \<Longrightarrow> access_ok (p\<lparr>pi_structSize := n\<rparr>)"
  by (simp_all add: access_ok_def)

lemma not_constant: "access_ok p \<Longrightarrow> pi_accessQualifier p \<noteq> CL_KERNEL_ARG_ADDRESS_CONSTANT"
  by (auto simp: access_ok_def)

lemma pointer_param_ok:
  assumes "pointer_param s p = Inr q" and "access_ok p"
  shows "access_ok q"
proof -
  have "access_ok (snd (parsePointerAccessParam s p))" using assms(2) by (rule parsePointerAccessParam_ok)
  then have "returns_ok (let (known, out) = parsePointerAccessParam s p in if known then Inr out else throwParseError ''pointer'' s)"
    by (cases "parsePointerAccessParam s p") (auto intro: returns_ok_intros)
  then have "returns_ok (pointer_param s p)"
    by (simp only: pointer_param_def not_constant [OF assms(2)] simp_thms if_False)
      (intro returns_ok_intros access_ok_updates assms(2))
  with assms(1) show ?thesis by (simp add: returns_ok_def)
qed

lemma pointer_params_ok: "pointer_params ss p = Inr q \<Longrightarrow> access_ok p \<Longrightarrow> access_ok q"
  by (induction ss p rule: pointer_params.induct)
    (auto simp: Let_def result_simps fold_access_ok pointer_param_ok split: if_splits)

theorem constant_size_never_read:
  assumes "parse_argument i line = Inr info" and "ai_class info = PointerInfo p"
  shows "pi_constSize p = 0"
proof -
  have "access_ok new_pointer_info" by (simp add: access_ok_def new_pointer_info_def)
  then have "access_ok p"
    using assms pointer_params_ok
    by (auto simp: parse_argument_def parse_class_def Let_def result_simps split: if_splits)
  then show ?thesis by (simp add: access_ok_def)
qed

lemma constant_size_never_read_witness:
  "pi_constSize (case ai_class (projr (parse_argument 0 ''data, float*, constant, 256'')) of PointerInfo p \<Rightarrow> p) = 0"
proof -
  let ?r = "parse_argument 0 ''data, float*, constant, 256''"
  have "returns ?r" by code_simp
  then have r: "?r = Inr (projr ?r)" by (rule returnsD)
  have "case ai_class (projr ?r) of PointerInfo p \<Rightarrow> True | _ \<Rightarrow> False" by code_simp
  then obtain p where "ai_class (projr ?r) = PointerInfo p" by (cases "ai_class (projr ?r)") auto
  with constant_size_never_read [OF r this] show ?thesis by simp
qed

end
