(* ===== verification/KernelParsers.thy ===== *)
theory KernelParsers
  imports Strings Instructions KernelConfigs
begin

text \<open>
  The reader of disassembled kernels (\<open>emulator/src/commons/parser.cpp\<close>): operands, the lines of
  instructions and labels, and the parameters of the launch configuration. The members of
  \<open>KernelConfig\<close> that have no initialiser are arguments (\<open>new_config\<close>). An integer that is cast to
  \<open>RegisterType\<close> must be in the range of the nine bits of that enumeration.
\<close>

section \<open>Operands\<close>

text \<open>The constants of \<open>float_values\<close> with the value that \<open>std::stof\<close> gives them.\<close>

definition float_values :: "(string \<times> u32) list" where
  "float_values =
     [(''0.5'', 0x3F000000), (''-0.5'', 0xBF000000), (''1.0'', 0x3F800000), (''-1.0'', 0xBF800000),
      (''2.0'', 0x40000000), (''-2.0'', 0xC0000000), (''4.0'', 0x40800000), (''-4.0'', 0xC0800000)]"

definition is_float :: "string \<Rightarrow> bool" where
  "is_float arg \<longleftrightarrow> map_of float_values arg \<noteq> None"

definition is_scalar :: "string \<Rightarrow> bool" where
  "is_scalar arg \<longleftrightarrow> 2 \<le> length arg \<and> (arg ! 0 = CHR ''S'' \<or> arg ! 0 = CHR ''s'') \<and> \<not> isalpha (arg ! 1)"

definition is_vector :: "string \<Rightarrow> bool" where
  "is_vector arg \<longleftrightarrow> 2 \<le> length arg \<and> (arg ! 0 = CHR ''v'' \<or> arg ! 0 = CHR ''V'') \<and> \<not> isalpha (arg ! 1)"

definition is_label :: "string \<Rightarrow> bool" where
  "is_label arg \<longleftrightarrow> startsWith arg ''.L''"

definition is_hex :: "string \<Rightarrow> bool" where
  "is_hex str \<longleftrightarrow> (if startsWith str ''0x'' then 2 < length str \<and> list_all isxdigit (drop 2 str)
     else list_all isxdigit str)"

definition is_integer :: "string \<Rightarrow> bool" where
  "is_integer str \<longleftrightarrow> (if str \<noteq> [] \<and> startsWith str ''-'' then list_all isdigit (drop 1 str)
     else list_all isdigit str)"

text \<open>\<open>RegisterType(i + base)\<close> of an \<open>int\<close>: signed addition, then the cast to the enumeration.\<close>

definition register_at :: "u32 \<Rightarrow> RegisterType \<Rightarrow> RegisterType result" where
  "register_at i base =
     bindE (signed_result (sint i + base) :: u32 result) (\<lambda>r.
     if 0 \<le> sint r \<and> sint r < 512 then Inr (sint r) else Inl (Undefined ''enumeration value''))"

text \<open>
  The range in brackets: the first index, unset without brackets, and the number of registers,
  a \<open>size_t\<close> to which the difference of two \<open>int\<close>s is added.
\<close>

definition register_range :: "string \<Rightarrow> (u32 option \<times> u64) result" where
  "register_range arg =
     (case find_char (CHR ''['') arg of
        None \<Rightarrow> Inr (None, 1)
      | Some bracketPos \<Rightarrow>
          case find_char (CHR '':'') arg of
            None \<Rightarrow> Inl (Runtime_error (''Invalid instruction argument: '' @ arg))
          | Some colonPos \<Rightarrow>
              bindE (stoi (drop (bracketPos + 1) arg)) (\<lambda>fromRegInd.
              bindE (stoi (drop (colonPos + 1) arg)) (\<lambda>toRegInd.
              bindE (signed_result (sint toRegInd - sint fromRegInd) :: u32 result) (\<lambda>d.
              let regCount = 1 + sx64 d
              in if regCount = 0 then Inl (Runtime_error (''Invalid register range: '' @ arg))
                 else Inr (Some fromRegInd, regCount)))))"

definition register_index :: "string \<Rightarrow> u32 option \<Rightarrow> u64 \<Rightarrow> u32 result" where
  "register_index arg fromRegInd regCount =
     (if 1 < regCount
      then (case fromRegInd of None \<Rightarrow> Inl (Undefined ''uninitialised'') | Some i \<Rightarrow> Inr i)
      else stoi (drop 1 arg))"

definition get_register :: "string \<Rightarrow> (RegisterType \<times> u64) result" where
  "get_register arg =
     (if arg = ''vcc'' then Inr (REG_VCC, 2)
      else if arg = ''scc'' then Inr (REG_SCC, 1)
      else if arg = ''exec'' then Inr (REG_EXEC, 2)
      else if startsWith arg ''lgkmcnt'' then Inr (REG_LGKMCNT, 1)
      else if startsWith arg ''vmcnt'' then Inr (REG_VMCNT, 1)
      else bindE (register_range arg) (\<lambda>(fromRegInd, regCount).
        if is_scalar arg then
          bindE (register_index arg fromRegInd regCount) (\<lambda>sgprInd.
          bindE (register_at sgprInd REG_S0) (\<lambda>registerType.
          if registerType > REG_S103 then Inl (Runtime_error (''Unsupported register: '' @ arg))
          else Inr (registerType, regCount)))
        else if is_vector arg then
          bindE (register_index arg fromRegInd regCount) (\<lambda>vgprInd.
          bindE (register_at vgprInd REG_V0) (\<lambda>registerType. Inr (registerType, regCount)))
        else Inl (Runtime_error (''Unsupported instruction argument: '' @ arg))))"

definition parseOperand :: "string \<Rightarrow> Operand result" where
  "parseOperand arg =
     bindE (assertE (arg \<noteq> []) ''Instruction argument can not be empty'') (\<lambda>_.
     if is_float arg
     then Inr \<lparr>op_type = FLOAT_CONST, op_value = FloatV (the (map_of float_values arg)), op_regAmount = 0\<rparr>
     else if is_integer arg
     then bindE (stoi arg) (\<lambda>i. Inr \<lparr>op_type = INT_CONST, op_value = IntV i, op_regAmount = 0\<rparr>)
     else if is_hex arg
     then bindE (stoul_base 16 arg) (\<lambda>u.
            Inr \<lparr>op_type = LITERAL_CONST, op_value = UintV (to_u32 u), op_regAmount = 0\<rparr>)
     else if is_label arg
     then bindE (stoul (drop 2 arg)) (\<lambda>u.
            Inr \<lparr>op_type = LABEL, op_value = UintV (to_u32 u), op_regAmount = 0\<rparr>)
     else bindE (get_register arg) (\<lambda>(r, n).
            Inr \<lparr>op_type = REGISTER, op_value = RegV r, op_regAmount = unat n\<rparr>))"

section \<open>The lines of a kernel\<close>

text \<open>
  Instructions are kept in the code map; the width of one is set, in place, when the next is read.
\<close>

definition set_width_at :: "u32 \<Rightarrow> u64 \<Rightarrow> KernelCode \<Rightarrow> (Instruction \<times> KernelCode) result" where
  "set_width_at addr width kc =
     bindE (get_instr kc (sx64 addr)) (\<lambda>i.
     bindE (set_width_and_format (unat width) i) (\<lambda>i.
     Inr (i, kc\<lparr>kc_code := (kc_code kc)(sx64 addr \<mapsto> i)\<rparr>)))"

definition parse_instruction :: "string \<Rightarrow> KernelCode \<times> u32 \<Rightarrow> (KernelCode \<times> u32) result" where
  "parse_instruction instr = (\<lambda>(kernelCode, prevInstrAddr).
     let dividedInstr = map trim (split_max 2 instr (CHR '' ''))
     in bindE (assertE (2 \<le> length dividedInstr) ''Unsupported asm instruction format'') (\<lambda>_.
        bindE (substr_from 2 (dividedInstr ! 0)) (\<lambda>addressStr.
        bindE (stoul_base 16 addressStr) (\<lambda>address.
        let mnemonic = dividedInstr ! 1
        in bindE (if length dividedInstr = 3
                  then bindE (mapE (\<lambda>arg. parseOperand (trim arg)) (split (dividedInstr ! 2) (CHR '','')))
                         (\<lambda>args. add_instr (to_u32 address) mnemonic
                           (mnemonic @ '' '' @ dividedInstr ! 2) args kernelCode)
                  else add_instr (to_u32 address) mnemonic mnemonic [] kernelCode) (\<lambda>kernelCode.
        bindE (if prevInstrAddr \<noteq> - 1
               then bindE (set_width_at prevInstrAddr (address - sx64 prevInstrAddr) kernelCode)
                      (\<lambda>(_, kernelCode). Inr kernelCode)
               else Inr kernelCode) (\<lambda>kernelCode.
        Inr (kernelCode, to_u32 address)))))))"

definition parse_line :: "string \<Rightarrow> KernelCode \<times> u32 \<Rightarrow> (KernelCode \<times> u32) result" where
  "parse_line instr = (\<lambda>(kernelCode, prevInstrAddr).
     if is_label instr
     then bindE (stoul (drop 2 instr)) (\<lambda>u. Inr (add_label (to_u32 u) instr kernelCode, prevInstrAddr))
     else parse_instruction instr (kernelCode, prevInstrAddr))"

definition parseKernelCode :: "string list \<Rightarrow> KernelCode result" where
  "parseKernelCode instructions =
     bindE (foldE parse_line instructions (new_code, - 1)) (\<lambda>(kernelCode, prevInstrAddr).
     bindE (set_width_at prevInstrAddr 4 kernelCode) (\<lambda>(lastInstr, kernelCode).
     if in_key lastInstr \<noteq> S_ENDPGM
     then bindE (get_mnemonic (in_key lastInstr)) (\<lambda>_. Inr kernelCode)
     else Inr kernelCode))"

section \<open>The launch configuration\<close>

text \<open>Checks the first \<open>dims\<close> sizes, in order.\<close>

definition validateSizes :: "u32 \<Rightarrow> u64 list \<Rightarrow> string \<Rightarrow> unit result" where
  "validateSizes dims sizes name =
     foldE (\<lambda>i _.
       bindE (size_at sizes i) (\<lambda>n.
       if n = 0 then Inl (Runtime_error (''Invalid '' @ name @ '' for '' @ [''XYZ'' ! i])) else Inr ()))
       [0..<unat dims] ()"

text \<open>\<open>std::copy_n\<close> to the front of a vector, undefined past the end of either.\<close>

definition copy_n :: "nat \<Rightarrow> 'a list \<Rightarrow> 'a list \<Rightarrow> 'a list result" where
  "copy_n n from to =
     (if n \<le> length from \<and> n \<le> length to then Inr (take n from @ drop n to)
      else Inl (Undefined ''copy_n''))"

definition parse_param :: "string \<Rightarrow> KernelConfig \<Rightarrow> KernelConfig result" where
  "parse_param param config =
     bindE (substr_from 1 param) (\<lambda>s.
     let dividedParam = split_max 1 s (CHR '' '') in
     bindE (at_index dividedParam 0) (\<lambda>paramName.
     let value = at_index dividedParam 1 in
     if paramName = ''sgprsnum''
     then bindE value (\<lambda>v. bindE (stoi v) (\<lambda>n. Inr (config\<lparr>cfg_sgprsnum := sx64 n\<rparr>)))
     else if paramName = ''vgprsnum''
     then bindE value (\<lambda>v. bindE (stoi v) (\<lambda>n. Inr (config\<lparr>cfg_vgprsnum := sx64 n\<rparr>)))
     else if paramName = ''priority''
     then bindE value (\<lambda>v. bindE (stoi v) (\<lambda>n.
            bindE (assertE (0 \<le> sint n \<and> sint n \<le> 3) ''priorityValue >= 0 && priorityValue <= 3'') (\<lambda>_.
            Inr (config\<lparr>cfg_priority := to_u8 n\<rparr>))))
     else if paramName = ''cws''
     then bindE value (\<lambda>v.
            let workGroupSizes = split v (CHR '','') in
            bindE (bindE (at_index workGroupSizes 0) stoul) (\<lambda>x.
            bindE (if 1 < length workGroupSizes then stoul (workGroupSizes ! 1) else Inr 1) (\<lambda>y.
            bindE (if 2 < length workGroupSizes then stoul (workGroupSizes ! 2) else Inr 1) (\<lambda>z.
            Inr (config\<lparr>cfg_localWorkSize := [x, y, z]\<rparr>)))))
     else if paramName = ''pgmrsrc2''
     then bindE value (\<lambda>v. bindE (stoi_base 16 v) (\<lambda>n. Inr (config\<lparr>cfg_pgmrsrc2 := n\<rparr>)))
     else if paramName = ''dx10clamp'' then Inr (config\<lparr>cfg_dx10clamp := True\<rparr>)
     else if paramName = ''ieeemode'' then Inr (config\<lparr>cfg_ieeemode := True\<rparr>)
     else if paramName = ''useargs'' then Inr (config\<lparr>cfg_useargs := True\<rparr>)
     else if paramName = ''usegeneric'' then Inr (config\<lparr>cfg_usegeneric := True\<rparr>)
     else if paramName = ''usesetup'' then Inr (config\<lparr>cfg_usesetup := True\<rparr>)
     else Inr config))"

definition parseKernelConfig ::
  "u8 \<Rightarrow> u32 \<Rightarrow> u64 list \<Rightarrow> u64 list \<Rightarrow> u64 list \<Rightarrow> string list \<Rightarrow> KernelConfig result" where
  "parseKernelConfig priority0 dims globalWorkOffset globalWorkSize localWorkSize configParams =
     (let config = new_config dims priority0 in
      bindE (if globalWorkOffset \<noteq> []
             then bindE (copy_n (unat dims) globalWorkOffset (cfg_globalWorkOffset config))
                    (\<lambda>v. Inr (config\<lparr>cfg_globalWorkOffset := v\<rparr>))
             else Inr config) (\<lambda>config.
      if globalWorkSize = [] then Inl (Runtime_error ''Global work size parameter can not be empty!'')
      else
      bindE (validateSizes dims (cfg_globalWorkSize config) ''Global work size'') (\<lambda>_.
      bindE (copy_n (unat dims) globalWorkSize (cfg_globalWorkSize config)) (\<lambda>v.
      let config = config\<lparr>cfg_globalWorkSize := v\<rparr> in
      bindE (if localWorkSize \<noteq> []
             then bindE (copy_n (unat dims) localWorkSize (cfg_localWorkSize config)) (\<lambda>v.
                    bindE (validateSizes dims v ''Local work size'') (\<lambda>_.
                    Inr (config\<lparr>cfg_localWorkSize := v\<rparr>)))
             else Inr config) (\<lambda>config.
      bindE (foldE parse_param configParams config) (\<lambda>config.
      if cfg_sgprsnum config = 0 \<or> cfg_vgprsnum config = 0
      then Inl (Runtime_error ''SGPRs and VGPRs amount should be specified'')
      else Inr config))))))"

end
