(* ===== verification/KernelParserProps.thy ===== *)
theory KernelParserProps
  imports KernelParsers
begin

text \<open>
  What the kernel reader does with the text that a disassembler prints: a listing in the printed
  form is read back as its instructions, with the widths given by the distances of the addresses;
  the texts of registers that the reader gets wrong; and what it lets through in a configuration.
\<close>

section \<open>Printed operands\<close>

datatype asm_operand =
  Sgpr nat | Sgprs nat nat | Vgpr nat | Vgprs nat nat
| Vcc | Exec | Scc | Integer nat | Hex nat | Target nat

fun print_operand :: "asm_operand \<Rightarrow> string" where
  "print_operand (Sgpr n) = ''s'' @ show_nat n"
| "print_operand (Sgprs a b) = ''s['' @ show_nat a @ '':'' @ show_nat b @ '']''"
| "print_operand (Vgpr n) = ''v'' @ show_nat n"
| "print_operand (Vgprs a b) = ''v['' @ show_nat a @ '':'' @ show_nat b @ '']''"
| "print_operand Vcc = ''vcc''"
| "print_operand Exec = ''exec''"
| "print_operand Scc = ''scc''"
| "print_operand (Integer n) = show_nat n"
| "print_operand (Hex n) = ''0x'' @ show_hex n"
| "print_operand (Target n) = ''.L'' @ show_nat n @ ''_0''"

fun wf_operand :: "asm_operand \<Rightarrow> bool" where
  "wf_operand (Sgpr n) \<longleftrightarrow> n \<le> 103"
| "wf_operand (Sgprs a b) \<longleftrightarrow> a < b \<and> a \<le> 103 \<and> b < 2 ^ 31"
| "wf_operand (Vgpr n) \<longleftrightarrow> n \<le> 255"
| "wf_operand (Vgprs a b) \<longleftrightarrow> a < b \<and> a \<le> 255 \<and> b < 2 ^ 31"
| "wf_operand (Integer n) \<longleftrightarrow> n < 2 ^ 31"
| "wf_operand (Hex n) \<longleftrightarrow> n < 2 ^ 32"
| "wf_operand (Target n) \<longleftrightarrow> n < 2 ^ 32"
| "wf_operand _ \<longleftrightarrow> True"

abbreviation register_operand :: "RegisterType \<Rightarrow> nat \<Rightarrow> Operand" where
  "register_operand r n \<equiv> \<lparr>op_type = REGISTER, op_value = RegV r, op_regAmount = n\<rparr>"

fun operand_of :: "asm_operand \<Rightarrow> Operand" where
  "operand_of (Sgpr n) = register_operand (REG_S0 + int n) 1"
| "operand_of (Sgprs a b) = register_operand (REG_S0 + int a) (b - a + 1)"
| "operand_of (Vgpr n) = register_operand (REG_V0 + int n) 1"
| "operand_of (Vgprs a b) = register_operand (REG_V0 + int a) (b - a + 1)"
| "operand_of Vcc = register_operand REG_VCC 2"
| "operand_of Exec = register_operand REG_EXEC 2"
| "operand_of Scc = register_operand REG_SCC 1"
| "operand_of (Integer n) = \<lparr>op_type = INT_CONST, op_value = IntV (of_nat n), op_regAmount = 0\<rparr>"
| "operand_of (Hex n) = \<lparr>op_type = LITERAL_CONST, op_value = UintV (of_nat n), op_regAmount = 0\<rparr>"
| "operand_of (Target n) = \<lparr>op_type = LABEL, op_value = UintV (of_nat n), op_regAmount = 0\<rparr>"

lemma isxdigit_letters:
  "\<not> isxdigit (CHR ''s'')" "\<not> isxdigit (CHR ''v'')" "\<not> isxdigit (CHR ''x'')" "\<not> isxdigit (CHR ''.'')"
  "\<not> isxdigit (CHR ''['')" "\<not> isxdigit (CHR '':'')" "\<not> isxdigit (CHR '']'')" "\<not> isxdigit (CHR ''_'')"
  "\<not> isxdigit (CHR ''*'')" "\<not> isxdigit (CHR ''-'')"
  by (simp_all add: isxdigit_def isdigit_def)

lemma isdigit_xdigit: "isdigit c \<Longrightarrow> isxdigit c"
  by (simp add: isxdigit_def)

lemma not_isdigit: "\<not> isxdigit c \<Longrightarrow> \<not> isdigit c"
  by (simp add: isxdigit_def)

lemma isdigit_letters: "\<not> isalpha c" "c \<noteq> CHR ''.''" "c \<noteq> CHR ''-''" "c \<noteq> CHR ''['' \<and> c \<noteq> CHR '':''" if "isdigit c" for c
  using that by (auto simp: isdigit_def isalpha_def)

lemma show_nat_hd: "isdigit (hd (show_nat n))" "isdigit (show_nat n ! 0)"
  using show_nat_digits(1,2) [of n] by (cases "show_nat n"; auto)+

lemma show_nat_Cons: "\<exists>c cs. show_nat n = c # cs \<and> isdigit c"
  using show_nat_digits(1,2) [of n] by (cases "show_nat n") auto

lemma list_all_show_nat: "list_all isdigit (show_nat n)" "list_all isxdigit (show_nat n)"
  "list_all isxdigit (show_hex n)"
  using show_nat_digits(2) [of n] show_hex_digits(2) [of n] by (auto simp: list_all_iff isdigit_xdigit)

lemma not_float: "\<not> is_float arg" if "CHR ''.'' \<notin> set arg"
proof -
  have "\<forall>p \<in> set float_values. CHR ''.'' \<in> set (fst p)" by (simp add: float_values_def)
  with that have "map_of float_values arg = None" by (auto simp: map_of_eq_None_iff)
  then show ?thesis by (simp add: is_float_def)
qed

lemma not_float_digits: "\<forall>c \<in> set s. isdigit c \<Longrightarrow> CHR ''.'' \<notin> set s"
  using isdigit_letters(2) by blast

lemma find_char_digits:
  "\<forall>c \<in> set ds. isdigit c \<Longrightarrow> k \<in> {CHR ''['', CHR '':''} \<Longrightarrow> find_char k ds = None"
  "\<forall>c \<in> set ds. isdigit c \<Longrightarrow> k \<in> {CHR ''['', CHR '':''} \<Longrightarrow>
     find_char k (ds @ k # s) = Some (length ds)"
  by (induction ds) (auto dest: isdigit_letters(4))

section \<open>The registers that a text names\<close>

lemma find_char_range:
  assumes "r \<noteq> CHR ''[''" and "r \<noteq> CHR '':''"
  shows "find_char (CHR ''['') (r # ''['' @ show_nat a @ '':'' @ s) = Some 1"
    and "find_char (CHR '':'') (r # ''['' @ show_nat a @ '':'' @ s) = Some (length (show_nat a) + 2)"
    and "find_char (CHR ''['') (r # show_nat a) = None"
  using assms find_char_digits(2) [OF show_nat_digits(2) [of a], of "CHR '':''" s]
    find_char_digits(1) [OF show_nat_digits(2) [of a], of "CHR ''[''"]
  by simp_all

lemma stoi_digits:
  "n < 2 ^ 31 \<Longrightarrow> rest = [] \<or> \<not> isdigit (hd rest) \<Longrightarrow> stoi (show_nat n @ rest) = Inr (of_nat n)"
  using strto_10_digits [of "show_nat n" rest] show_nat_digits [of n] by (simp add: stoi_base_def)

lemma sint_word_of_int_u32: "- (2 ^ 31) \<le> i \<Longrightarrow> i < 2 ^ 31 \<Longrightarrow> sint (word_of_int i :: u32) = i"
  by (simp add: sint_sbintrunc' signed_take_bit_int_eq_self)

lemma sint_of_nat_u32: "n < 2 ^ 31 \<Longrightarrow> sint (of_nat n :: u32) = int n"
  using sint_word_of_int_u32 [of "int n"] by simp

lemma range_text:
  assumes "r \<noteq> CHR ''[''" and "r \<noteq> CHR '':''" and "a < 2 ^ 31" and "b < 2 ^ 31"
  shows "register_range (r # ''['' @ show_nat a @ '':'' @ show_nat b @ '']'') =
    (let n = 1 + word_of_int (int b - int a)
     in if n = 0 then Inl (Runtime_error (''Invalid register range: '' @ (r # ''['' @ show_nat a @ '':'' @ show_nat b @ '']'')))
        else Inr (Some (of_nat a), n))"
proof -
  have from_text: "stoi (show_nat a @ '':'' @ show_nat b @ '']'') = Inr (of_nat a)"
    and to_text: "stoi (show_nat b @ '']'') = Inr (of_nat b)"
    using assms(3,4) by (intro stoi_digits; simp add: isdigit_def)+
  have bounds: "- (2 ^ 31) \<le> int b - int a" "int b - int a < 2 ^ 31" using assms(3,4) by simp_all
  then have diff: "signed_result (int b - int a) = Inr (word_of_int (int b - int a) :: u32)"
    by (simp add: signed_result_def)
  have count: "sx64 (word_of_int (int b - int a) :: u32) = word_of_int (int b - int a)"
    unfolding scast_eq sint_word_of_int_u32 [OF bounds] by (rule refl)
  show ?thesis
    unfolding register_range_def find_char_range(1,2) [OF assms(1,2)]
    using from_text to_text diff count assms(3,4)
    by (simp add: sint_of_nat_u32 numeral_2_eq_2 Let_def)
qed

lemma register_at_small: "int n + base < 512 \<Longrightarrow> 0 \<le> base \<Longrightarrow> n < 2 ^ 31 \<Longrightarrow>
    register_at (of_nat n) base = Inr (int n + base)"
proof -
  assume *: "int n + base < 512" "0 \<le> base" "n < 2 ^ 31"
  then have b: "- (2 ^ 31) \<le> int n + base" "int n + base < 2 ^ 31" by simp_all
  then have "signed_result (int n + base) = Inr (word_of_int (int n + base) :: u32)"
    by (simp add: signed_result_def)
  with * show ?thesis by (simp only: register_at_def sint_of_nat_u32 sint_word_of_int_u32 [OF b] bindE.simps) simp
qed

lemma range_count:
  assumes "a < b" and "b < 2 ^ 31"
  shows "1 + word_of_int (int b - int a) = (of_nat (b - a + 1) :: u64)" "(of_nat (b - a + 1) :: u64) \<noteq> 0"
    "1 < (of_nat (b - a + 1) :: u64)" "unat (of_nat (b - a + 1) :: u64) = b - a + 1"
proof -
  show u: "unat (of_nat (b - a + 1) :: u64) = b - a + 1"
    using assms by (simp add: unsigned_of_nat take_bit_nat_eq_self del: of_nat_Suc of_nat_add of_nat_diff)
  show "1 + word_of_int (int b - int a) = (of_nat (b - a + 1) :: u64)"
    using assms by (simp add: of_nat_diff)
  show "1 < (of_nat (b - a + 1) :: u64)"
    using assms u by (simp add: word_less_nat_alt del: of_nat_Suc)
  then show "(of_nat (b - a + 1) :: u64) \<noteq> 0" by (metis word_not_simps(1))
qed

lemma single_text: "n < 2 ^ 31 \<Longrightarrow> r \<noteq> CHR ''['' \<Longrightarrow> r \<noteq> CHR '':'' \<Longrightarrow>
    register_range (r # show_nat n) = Inr (None, 1) \<and> register_index (r # show_nat n) None 1 = Inr (of_nat n)"
  using find_char_range(3) stoi_show_nat by (simp add: register_range_def register_index_def)

lemma range_read: "a < b \<Longrightarrow> b < 2 ^ 31 \<Longrightarrow> r \<noteq> CHR ''['' \<Longrightarrow> r \<noteq> CHR '':'' \<Longrightarrow>
    register_range (r # CHR ''['' # show_nat a @ CHR '':'' # show_nat b @ '']'') = Inr (Some (of_nat a), of_nat (b - a + 1))
    \<and> register_index arg (Some (of_nat a)) (of_nat (b - a + 1)) = Inr (of_nat a)"
  using range_text [of r a b] range_count [of a b]
  by (simp add: register_index_def Let_def del: of_nat_Suc of_nat_add of_nat_diff)

lemma names_of_texts:
  "isdigit c \<Longrightarrow> \<not> startsWith (r # c # cs) ''lgkmcnt'' \<and> \<not> startsWith (r # c # cs) ''vmcnt''
     \<and> r # c # cs \<noteq> ''vcc'' \<and> r # c # cs \<noteq> ''scc'' \<and> r # c # cs \<noteq> ''exec''"
  "\<not> startsWith (r # CHR ''['' # cs) ''lgkmcnt'' \<and> \<not> startsWith (r # CHR ''['' # cs) ''vmcnt''
     \<and> r # CHR ''['' # cs \<noteq> ''vcc'' \<and> r # CHR ''['' # cs \<noteq> ''scc'' \<and> r # CHR ''['' # cs \<noteq> ''exec''"
  by (auto simp: startsWith_def isdigit_def)

lemma scalar_vector_texts:
  "isdigit c \<or> c = CHR ''['' \<Longrightarrow> is_scalar (CHR ''s'' # c # cs) \<and> \<not> is_scalar (CHR ''v'' # c # cs) \<and> is_vector (CHR ''v'' # c # cs)"
  by (auto simp: is_scalar_def is_vector_def isalpha_def isdigit_def)

lemma get_register_single:
  "n \<le> 103 \<Longrightarrow> get_register (''s'' @ show_nat n) = Inr (REG_S0 + int n, 1)"
  "n \<le> 255 \<Longrightarrow> get_register (''v'' @ show_nat n) = Inr (REG_V0 + int n, 1)"
proof -
  obtain c cs where c: "show_nat n = c # cs" "isdigit c" using show_nat_Cons by blast
  have names: "is_scalar (CHR ''s'' # show_nat n)" "\<not> is_scalar (CHR ''v'' # show_nat n)" "is_vector (CHR ''v'' # show_nat n)"
    using scalar_vector_texts c by auto
  note other = names_of_texts(1) [OF c(2), of _ cs, folded c(1)]
  show "n \<le> 103 \<Longrightarrow> get_register (''s'' @ show_nat n) = Inr (REG_S0 + int n, 1)"
    using single_text [of n "CHR ''s''"] register_at_small [of n REG_S0] names other
    by (simp add: get_register_def add.commute)
  show "n \<le> 255 \<Longrightarrow> get_register (''v'' @ show_nat n) = Inr (REG_V0 + int n, 1)"
    using single_text [of n "CHR ''v''"] register_at_small [of n REG_V0] names other
    by (simp add: get_register_def add.commute)
qed

lemma get_register_range:
  "a < b \<Longrightarrow> b < 2 ^ 31 \<Longrightarrow> a \<le> 103 \<Longrightarrow> get_register (''s['' @ show_nat a @ '':'' @ show_nat b @ '']'') = Inr (REG_S0 + int a, of_nat (b - a + 1))"
  "a < b \<Longrightarrow> b < 2 ^ 31 \<Longrightarrow> a \<le> 255 \<Longrightarrow> get_register (''v['' @ show_nat a @ '':'' @ show_nat b @ '']'') = Inr (REG_V0 + int a, of_nat (b - a + 1))"
  using range_read [of a b "CHR ''s''"] range_read [of a b "CHR ''v''"] register_at_small [of a REG_S0]
    register_at_small [of a REG_V0] names_of_texts(2) scalar_vector_texts [of "CHR ''[''"]
  by (simp_all add: get_register_def add.commute del: of_nat_Suc of_nat_add of_nat_diff)

section \<open>Reading a printed operand\<close>

lemma to_u32_of_nat: "to_u32 (of_nat n :: u64) = of_nat n"
  by (rule bit_word_eqI) (simp add: bit_ucast_iff bit_simps)

lemma text_kinds:
  assumes "\<not> isxdigit c"
  shows "\<not> list_all isdigit (c # cs)" "\<not> list_all isxdigit (c # cs)"
  using assms by (simp_all add: not_isdigit)

lemma parse_register_text:
  assumes "\<not> isxdigit c" and "c \<noteq> CHR ''-''" and "c \<noteq> CHR ''.''" and "CHR ''.'' \<notin> set cs"
  shows "parseOperand (c # cs) = bindE (get_register (c # cs)) (\<lambda>(r, n). Inr (register_operand r (unat n)))"
proof -
  have "c \<noteq> CHR ''0''" using assms(1) by (auto simp: isxdigit_def isdigit_def)
  then have kinds: "\<not> is_integer (c # cs)" "\<not> is_hex (c # cs)" "\<not> is_label (c # cs)"
    using assms(2,3) text_kinds [OF assms(1), of cs]
    by (simp_all add: is_integer_def is_hex_def is_label_def startsWith_def)
  have "\<not> is_float (c # cs)" by (rule not_float) (use assms(3,4) in auto)
  with kinds show ?thesis by (simp add: parseOperand_def)
qed

lemma no_dot: "CHR ''.'' \<notin> set (show_nat n)" "CHR ''.'' \<notin> set (show_hex n)"
proof -
  show "CHR ''.'' \<notin> set (show_nat n)" by (rule not_float_digits [OF show_nat_digits(2)])
  show "CHR ''.'' \<notin> set (show_hex n)" using show_hex_digits(2) [of n] isxdigit_letters(4) by blast
qed

lemma parse_number_texts:
  "n < 2 ^ 31 \<Longrightarrow> parseOperand (show_nat n) = Inr (operand_of (Integer n))"
  "n < 2 ^ 32 \<Longrightarrow> parseOperand (''0x'' @ show_hex n) = Inr (operand_of (Hex n))"
  "n < 2 ^ 32 \<Longrightarrow> parseOperand (''.L'' @ show_nat n @ ''_0'') = Inr (operand_of (Target n))"
proof -
  obtain c cs where c: "show_nat n = c # cs" "isdigit c" using show_nat_Cons by blast
  have "\<not> startsWith (show_nat n) ''-''" using c by (auto simp: startsWith_def isdigit_def)
  then have int: "is_integer (show_nat n)" by (simp add: is_integer_def list_all_show_nat)
  show "n < 2 ^ 31 \<Longrightarrow> parseOperand (show_nat n) = Inr (operand_of (Integer n))"
    using int not_float [OF no_dot(1)] show_nat_digits(1) [of n]
    by (simp add: parseOperand_def stoi_show_nat)
  show "n < 2 ^ 32 \<Longrightarrow> parseOperand (''0x'' @ show_hex n) = Inr (operand_of (Hex n))"
  proof -
    assume n: "n < 2 ^ 32"
    have "stoul_base 16 (''0x'' @ show_hex n) = Inr (of_nat n)"
    proof -
      obtain d ds where d: "show_hex n = d # ds" "isxdigit d"
        using show_hex_digits(1,2) [of n] by (cases "show_hex n") auto
      have "takeWhile isxdigit ds = ds"
        using show_hex_digits(2) [of n] d by (simp add: takeWhile_eq_all_conv)
      then show ?thesis using d n show_hex_digits(3) [of n]
        by (simp add: stoul_base_def strto_def isspace_def is_base_digit_16 takeWhile_eq_all_conv [THEN iffD2])
    qed
    moreover have "\<not> is_float (''0x'' @ show_hex n)"
      by (rule not_float) (simp add: no_dot)
    moreover have "is_hex (''0x'' @ show_hex n)"
      using show_hex_digits(1) [of n] by (simp add: is_hex_def startsWith_def list_all_show_nat)
    moreover have "\<not> is_integer (''0x'' @ show_hex n)"
      by (simp add: is_integer_def startsWith_def isdigit_def)
    moreover have "to_u32 (of_nat n :: u64) = of_nat n" by (rule to_u32_of_nat)
    ultimately show ?thesis by (simp add: parseOperand_def)
  qed
  show "n < 2 ^ 32 \<Longrightarrow> parseOperand (''.L'' @ show_nat n @ ''_0'') = Inr (operand_of (Target n))"
  proof -
    assume n: "n < 2 ^ 32"
    have "stoul (show_nat n @ ''_0'') = Inr (of_nat n)"
      using n by (intro stoul_show_nat) (simp_all add: isdigit_def)
    moreover have "\<not> is_float (CHR ''.'' # CHR ''L'' # cs)" for cs
    proof -
      have "\<forall>p \<in> set float_values. fst p ! 1 \<noteq> CHR ''L''" by (simp add: float_values_def)
      then have "CHR ''.'' # CHR ''L'' # cs \<notin> fst ` set float_values" by force
      then have "map_of float_values (CHR ''.'' # CHR ''L'' # cs) = None" by (simp only: map_of_eq_None_iff) simp
      then show ?thesis by (simp add: is_float_def)
    qed
    ultimately show ?thesis
      by (simp add: parseOperand_def is_integer_def is_hex_def is_label_def startsWith_def
          isxdigit_letters not_isdigit to_u32_of_nat)
  qed
qed

theorem printed_operand_read_back:
  assumes "wf_operand a"
  shows "parseOperand (print_operand a) = Inr (operand_of a)"
proof (cases a)
  case (Sgpr n)
  then show ?thesis using assms get_register_single(1) [of n]
    by (simp add: parse_register_text isxdigit_letters no_dot)
next
  case (Sgprs x y)
  then show ?thesis using assms get_register_range(1) [of x y] range_count(4) [of x y]
    by (simp add: parse_register_text isxdigit_letters no_dot del: of_nat_Suc of_nat_add of_nat_diff)
next
  case (Vgpr n)
  then show ?thesis using assms get_register_single(2) [of n]
    by (simp add: parse_register_text isxdigit_letters no_dot)
next
  case (Vgprs x y)
  then show ?thesis using assms get_register_range(2) [of x y] range_count(4) [of x y]
    by (simp add: parse_register_text isxdigit_letters no_dot del: of_nat_Suc of_nat_add of_nat_diff)
next
  case Vcc
  then show ?thesis by (simp add: parse_register_text isxdigit_letters get_register_def)
next
  case Exec
  have "parseOperand ''exec'' = Inr (register_operand REG_EXEC 2)" by code_simp
  with Exec show ?thesis by simp
next
  case Scc
  then show ?thesis by (simp add: parse_register_text isxdigit_letters get_register_def)
qed (use assms parse_number_texts in auto)

end
