(* ===== verification/KernelListings.thy ===== *)
theory KernelListings
  imports KernelParserProps
begin

text \<open>
  Whole listings: what \<open>parseKernelCode\<close> returns for the lines that a disassembler prints, labels
  and instructions in the order of their addresses.
\<close>

section \<open>Listings\<close>

datatype asm_line = Label_line nat | Instr_line nat string "asm_operand list"

type_synonym asm_instr = "nat \<times> string \<times> asm_operand list"

definition print_args :: "asm_operand list \<Rightarrow> string" where
  "print_args as = join_pieces '', '' (map print_operand as)"

text \<open>The address is printed with at least twelve digits.\<close>

definition print_addr :: "nat \<Rightarrow> string" where
  "print_addr a = replicate (12 - length (show_hex a)) (CHR ''0'') @ show_hex a"

fun print_line :: "asm_line \<Rightarrow> string" where
  "print_line (Label_line n) = ''.L'' @ show_nat n @ ''_0:''"
| "print_line (Instr_line a m as) =
     ''/*'' @ print_addr a @ ''*/ '' @ m @ (if as = [] then [] else '' '' @ print_args as)"

fun wf_line :: "asm_line \<Rightarrow> bool" where
  "wf_line (Label_line n) \<longleftrightarrow> n < 2 ^ 32"
| "wf_line (Instr_line a m as) \<longleftrightarrow> a < 2 ^ 31 \<and> a mod 4 = 0 \<and> returns (get_instr_key m) \<and> m \<noteq> []
     \<and> (\<forall>c \<in> set m. \<not> isspace c) \<and> (\<forall>x \<in> set as. wf_operand x)"

fun instrs_of :: "asm_line list \<Rightarrow> asm_instr list" where
  "instrs_of [] = []"
| "instrs_of (Label_line n # ls) = instrs_of ls"
| "instrs_of (Instr_line a m as # ls) = (a, m, as) # instrs_of ls"

fun labels_of :: "asm_line list \<Rightarrow> nat list" where
  "labels_of [] = []"
| "labels_of (Label_line n # ls) = n # labels_of ls"
| "labels_of (Instr_line a m as # ls) = labels_of ls"

definition wf_listing :: "asm_line list \<Rightarrow> bool" where
  "wf_listing ls \<longleftrightarrow> (\<forall>l \<in> set ls. wf_line l) \<and> sorted_wrt (<) (map fst (instrs_of ls)) \<and> instrs_of ls \<noteq> []"

definition read_instr :: "asm_instr \<Rightarrow> nat \<Rightarrow> Instruction" where
  "read_instr = (\<lambda>(a, m, as) width.
     let key = projr (get_instr_key m) in
     \<lparr>in_key = key, in_format = projr (get_instr_format key width), in_widthInBytes = width, in_addr = of_nat a,
      in_rawInstruction = m, in_originalLine = (if as = [] then m else m @ '' '' @ print_args as),
      in_operands = map operand_of as\<rparr>)"

definition raw_instr :: "asm_instr \<Rightarrow> Instruction" where
  "raw_instr x = (read_instr x 0)\<lparr>in_format := UNDEFINED\<rparr>"

text \<open>The width of an instruction is the distance to the next one, and four for the last.\<close>

definition width_of :: "asm_instr list \<Rightarrow> nat \<Rightarrow> nat" where
  "width_of is k = (if Suc k < length is then fst (is ! Suc k) - fst (is ! k) else 4)"

section \<open>Reading one line\<close>

lemma digits_plain:
  "isxdigit c \<Longrightarrow> \<not> isspace c \<and> c \<noteq> CHR '' '' \<and> c \<noteq> CHR '',''"
  by (auto simp: isxdigit_def isdigit_def isspace_def)

lemma show_plain: "c \<in> set (show_nat n) \<Longrightarrow> \<not> isspace c \<and> c \<noteq> CHR '' '' \<and> c \<noteq> CHR '',''"
  "c \<in> set (show_hex n) \<Longrightarrow> \<not> isspace c \<and> c \<noteq> CHR '' '' \<and> c \<noteq> CHR '',''"
  using show_nat_digits(2) [of n] show_hex_digits(2) [of n] digits_plain isdigit_xdigit by blast+

lemma print_operand_plain:
  "c \<in> set (print_operand a) \<Longrightarrow> \<not> isspace c \<and> c \<noteq> CHR '' '' \<and> c \<noteq> CHR '',''"
  by (cases a) (auto dest: show_plain simp: isspace_def)

lemma print_operand_nonempty: "print_operand a \<noteq> []"
  using show_nat_digits(1) by (cases a) auto

lemma trim_plain: "(\<And>c. c \<in> set s \<Longrightarrow> \<not> isspace c) \<Longrightarrow> trim s = s"
  by (cases "s = []") (auto intro!: trim_id)

lemma join_pieces_first: "join_pieces d ((x # p) # ps) = x # join_pieces d (p # ps)"
  by (cases ps) auto

lemma join_comma_space:
  "join_pieces '', '' (p # ps) = join_pieces '','' (p # map (\<lambda>q. CHR '' '' # q) ps)"
  by (induction ps arbitrary: p) (auto simp: join_pieces_first)

lemma split_args:
  assumes "as \<noteq> []"
  shows "mapE (\<lambda>arg. parseOperand (trim arg)) (split (print_args as) (CHR '',''))
    = mapE (\<lambda>a. parseOperand (print_operand a)) as"
proof -
  obtain b bs where as: "as = b # bs" using assms by (cases as) auto
  let ?ps = "print_operand b # map (\<lambda>q. CHR '' '' # q) (map print_operand bs)"
  have free: "CHR '','' \<notin> set p" if "p \<in> set ?ps" for p
    using that by (auto dest: print_operand_plain)
  have end_piece: "last ?ps \<noteq> []"
    using print_operand_nonempty by (auto simp: last_map)
  have "split (print_args as) (CHR '','') = ?ps"
    unfolding as print_args_def list.map join_comma_space by (rule split_join [OF free _ end_piece]) auto
  moreover have "trim (print_operand x) = print_operand x" "trim (CHR '' '' # print_operand x) = print_operand x" for x
  proof -
    show plain: "trim (print_operand x) = print_operand x"
      by (rule trim_plain) (use print_operand_plain in blast)
    show "trim (CHR '' '' # print_operand x) = print_operand x"
      using trim_spaces [of "'' ''" "print_operand x"] plain by (simp add: isspace_def)
  qed
  ultimately show ?thesis by (simp add: as mapE_map)
qed

lemma print_args_trim:
  assumes "as \<noteq> []"
  shows "trim (print_args as) = print_args as" and "print_args as \<noteq> []"
proof -
  obtain b bs where b: "as = b # bs" using assms by (cases as) auto
  obtain cs d where d: "as = cs @ [d]" using assms by (cases as rule: rev_cases) auto
  have front: "\<exists>r. print_args as = print_operand b @ r"
    by (cases bs) (auto simp: b print_args_def)
  have rear: "\<exists>r. print_args as = r @ print_operand d"
    by (simp add: d print_args_def join_pieces_snoc)
  show ne: "print_args as \<noteq> []" using front print_operand_nonempty [of b] by auto
  have "hd (print_args as) \<in> set (print_operand b)" using front print_operand_nonempty [of b] by auto
  moreover have "last (print_args as) \<in> set (print_operand d)" using rear print_operand_nonempty [of d] by auto
  ultimately show "trim (print_args as) = print_args as"
    using ne print_operand_plain by (intro trim_id) blast
qed

lemma print_addr_digits: "\<forall>c \<in> set (print_addr a). isxdigit c" "print_addr a \<noteq> []"
  "number_of_digits 16 (print_addr a) = a"
proof -
  show "\<forall>c \<in> set (print_addr a). isxdigit c" "print_addr a \<noteq> []"
    using show_hex_digits(1,2) [of a] by (auto simp: print_addr_def isxdigit_def isdigit_def)
  have "number_of_digits 16 (replicate k (CHR ''0'') @ ds) = number_of_digits 16 ds" for k ds
  proof -
    have "foldl (\<lambda>n c. n * 16 + digit_value c) 0 (replicate k (CHR ''0'')) = 0"
      by (induction k) (simp_all add: digit_value_def isdigit_def)
    then show ?thesis by (simp add: number_of_digits_def)
  qed
  then show "number_of_digits 16 (print_addr a) = a" by (simp add: print_addr_def show_hex_digits(3))
qed

lemma addr_text_plain: "c \<in> set (''/*'' @ print_addr a @ ''*/'') \<Longrightarrow> \<not> isspace c \<and> c \<noteq> CHR '' ''"
proof (cases "c \<in> set (print_addr a)")
  case True
  then show ?thesis using print_addr_digits(1) [of a] digits_plain by blast
next
  case False
  assume "c \<in> set (''/*'' @ print_addr a @ ''*/'')"
  with False have "c = CHR ''/'' \<or> c = CHR ''*''" by auto
  then show ?thesis by (auto simp: isspace_def)
qed

lemma split_line_raw:
  assumes "\<forall>c \<in> set m. \<not> isspace c" and "m \<noteq> []"
  shows "split_max 2 (print_line (Instr_line a m as)) (CHR '' '') =
    (''/*'' @ print_addr a @ ''*/'') # m # (if as = [] then [] else [print_args as])"
proof -
  let ?p = "''/*'' @ print_addr a @ ''*/''"
  have p: "CHR '' '' \<notin> set ?p" using addr_text_plain by blast
  have m: "CHR '' '' \<notin> set m" using assms(1) by (auto simp: isspace_def)
  have line: "print_line (Instr_line a m as) =
      ?p @ CHR '' '' # m @ (if as = [] then [] else CHR '' '' # print_args as)" by simp
  have "split_loop (CHR '' '') 2 (print_line (Instr_line a m as)) [] [] =
      (if as = [] then ([?p], m) else ([?p, m], print_args as))"
  proof (cases "as = []")
    case True
    then show ?thesis
      unfolding line split_loop_piece [OF p] using split_loop_piece [OF m, of 2 "[]"] by simp
  next
    case False
    then show ?thesis
      unfolding line split_loop_piece [OF p] using split_loop_piece [OF m, of 2 "CHR '' '' # print_args as"]
      by (simp add: split_loop_rest)
  qed
  moreover have "print_line (Instr_line a m as) \<noteq> []" by simp
  ultimately show ?thesis
    using assms(2) print_args_trim(2) [of as] by (simp add: split_max_def del: print_line.simps)
qed

lemma split_line:
  assumes "\<forall>c \<in> set m. \<not> isspace c" and "m \<noteq> []"
  shows "map trim (split_max 2 (print_line (Instr_line a m as)) (CHR '' '')) =
    (''/*'' @ print_addr a @ ''*/'') # m # (if as = [] then [] else [print_args as])"
proof -
  have "trim (''/*'' @ print_addr a @ ''*/'') = ''/*'' @ print_addr a @ ''*/''"
    by (rule trim_plain) (use addr_text_plain in blast)
  moreover have "trim m = m" by (rule trim_plain) (use assms(1) in blast)
  ultimately show ?thesis
    using split_line_raw [OF assms] print_args_trim [of as] by (simp del: print_line.simps)
qed

lemma new_instr:
  assumes "returns (get_instr_key m)"
  shows "new_instruction (of_nat a) m (if as = [] then m else m @ '' '' @ print_args as) (map operand_of as)
    = Inr (raw_instr (a, m, as))"
proof -
  obtain k where "get_instr_key m = Inr k" using returnsD [OF assms] by blast
  then show ?thesis by (simp add: new_instruction_def raw_instr_def read_instr_def Let_def)
qed

lemma parse_instr_line:
  assumes "wf_line (Instr_line a m as)"
  shows "parse_line (print_line (Instr_line a m as)) (kc, prev) =
    (let kc = kc\<lparr>kc_code := (kc_code kc)(of_nat a \<mapsto> raw_instr (a, m, as))\<rparr>
     in bindE (if prev \<noteq> - 1 then bindE (set_width_at prev (of_nat a - sx64 prev) kc) (\<lambda>(_, kc). Inr kc) else Inr kc)
          (\<lambda>kc. Inr (kc, of_nat a)))"
proof -
  have not_label: "\<not> is_label (print_line (Instr_line a m as))" by (simp add: is_label_def startsWith_def)
  have addr: "stoul_base 16 (print_addr a @ ''*/'') = Inr (of_nat a)"
    using strto_16_digits [of "print_addr a" "''*/''"] print_addr_digits [of a] assms
    by (simp add: stoul_base_def isxdigit_letters)
  have args: "mapE (\<lambda>arg. parseOperand (trim arg)) (split (print_args as) (CHR '','')) = Inr (map operand_of as)"
    if "as \<noteq> []"
    unfolding split_args [OF that] using assms by (intro mapE_all_Inr printed_operand_read_back) auto
  have word: "to_u32 (of_nat a :: u64) = of_nat a" "to_u64 (of_nat a :: u32) = of_nat a"
    using assms by (simp_all add: to_u32_of_nat word_unat_eq_iff unsigned_ucast_eq unsigned_of_nat take_bit_nat_eq_self)
  have parts: "map trim (split_max 2 (print_line (Instr_line a m as)) (CHR '' '')) =
    (''/*'' @ print_addr a @ ''*/'') # m # (if as = [] then [] else [print_args as])"
    by (rule split_line) (use assms in auto)
  have "add_instr (of_nat a) m (if as = [] then m else m @ '' '' @ print_args as) (map operand_of as) kc
      = Inr (kc\<lparr>kc_code := (kc_code kc)(of_nat a \<mapsto> raw_instr (a, m, as))\<rparr>)"
    using new_instr [of m a as] assms word by (simp add: add_instr_def)
  with not_label parts addr args word show ?thesis
    by (cases "as = []") (simp_all add: parse_line_def parse_instruction_def substr_from_def Let_def del: print_line.simps)
qed

lemma parse_label_line:
  assumes "n < 2 ^ 32"
  shows "parse_line (print_line (Label_line n)) (kc, prev) = Inr (add_label (of_nat n) (print_line (Label_line n)) kc, prev)"
proof -
  have "stoul (show_nat n @ ''_0:'') = Inr (of_nat n)"
    using assms by (intro stoul_show_nat) (simp_all add: isdigit_def)
  then show ?thesis by (simp add: parse_line_def is_label_def startsWith_def to_u32_of_nat)
qed

section \<open>Reading a listing\<close>

lemma sx64_of_nat: "a < 2 ^ 31 \<Longrightarrow> sx64 (of_nat a :: u32) = of_nat a"
  by (simp add: scast_eq sint_of_nat_u32)

lemma set_width_raw:
  assumes "kc_code kc (of_nat a) = Some (raw_instr (a, m, as))" and "wf_line (Instr_line a m as)"
  shows "set_width_at (of_nat a) width kc = Inr (read_instr (a, m, as) (unat width),
     kc\<lparr>kc_code := (kc_code kc)(of_nat a \<mapsto> read_instr (a, m, as) (unat width))\<rparr>)"
proof -
  obtain k where k: "get_instr_key m = Inr k" using returnsD assms(2) by auto
  obtain f where f: "get_instr_format k (unat width) = Inr f" using get_instr_format_row [OF k] by blast
  have "unat (of_nat a :: u64) = a" using assms(2) by (simp add: unsigned_of_nat take_bit_nat_eq_self)
  then have "get_instr kc (sx64 (of_nat a :: u32)) = Inr (raw_instr (a, m, as))"
    using assms by (simp add: sx64_of_nat get_instr_def)
  moreover have "set_width_and_format (unat width) (raw_instr (a, m, as)) = Inr (read_instr (a, m, as) (unat width))"
    using k f by (simp add: set_width_and_format_def raw_instr_def read_instr_def Let_def)
  ultimately show ?thesis using assms(2) by (simp add: set_width_at_def sx64_of_nat)
qed

abbreviation key_of :: "asm_instr \<Rightarrow> u64" where "key_of x \<equiv> of_nat (fst x)"

text \<open>The map of the instructions read so far: all but the last have their width.\<close>

definition holds_code :: "asm_instr list \<Rightarrow> (u64 \<rightharpoonup> Instruction) \<Rightarrow> bool" where
  "holds_code xs code \<longleftrightarrow> dom code = key_of ` set xs \<and> (\<forall>k < length xs. code (key_of (xs ! k)) =
     Some (if Suc k < length xs then read_instr (xs ! k) (width_of xs k) else raw_instr (xs ! k)))"

lemma holds_code_start: "holds_code [] Map.empty" "holds_code [] code \<Longrightarrow> holds_code [x] (code(key_of x \<mapsto> raw_instr x))"
  by (auto simp: holds_code_def)

definition read_so_far :: "asm_line list \<Rightarrow> KernelCode \<times> u32 \<Rightarrow> bool" where
  "read_so_far ls = (\<lambda>(kc, prev). let xs = instrs_of ls in
     prev = (if xs = [] then - 1 else of_nat (fst (last xs))) \<and> holds_code xs (kc_code kc)
     \<and> dom (kc_labels kc) = of_nat ` set (labels_of ls)
     \<and> (\<forall>n \<in> set (labels_of ls). kc_labels kc (of_nat n) =
         Some \<lparr>lb_name = print_line (Label_line n), lb_addr = of_nat n\<rparr>))"

lemma instrs_of_append: "instrs_of (ls @ ls') = instrs_of ls @ instrs_of ls'"
  by (induction ls rule: instrs_of.induct) auto

lemma labels_of_append: "labels_of (ls @ ls') = labels_of ls @ labels_of ls'"
  by (induction ls rule: labels_of.induct) auto

lemma in_instrs_of: "x \<in> set (instrs_of ls) \<Longrightarrow> Instr_line (fst x) (fst (snd x)) (snd (snd x)) \<in> set ls"
  by (induction ls rule: instrs_of.induct) auto

lemma in_labels_of: "n \<in> set (labels_of ls) \<Longrightarrow> Label_line n \<in> set ls"
  by (induction ls rule: labels_of.induct) auto

text \<open>Addresses below 2 to the 31 are distinct keys of the map.\<close>

lemma of_nat_u64_eq: "a < 2 ^ 31 \<Longrightarrow> b < 2 ^ 31 \<Longrightarrow> (of_nat a :: u64) = of_nat b \<longleftrightarrow> a = b"
  by (simp add: word_unat_eq_iff unsigned_of_nat take_bit_nat_eq_self)

lemma of_nat_u64_label_eq: "a < 2 ^ 32 \<Longrightarrow> b < 2 ^ 32 \<Longrightarrow> (of_nat a :: u64) = of_nat b \<longleftrightarrow> a = b"
  by (simp add: word_unat_eq_iff unsigned_of_nat take_bit_nat_eq_self)

lemma to_u64_of_small_nat: "n < 2 ^ 32 \<Longrightarrow> to_u64 (of_nat n :: u32) = of_nat n"
  by (simp add: word_unat_eq_iff unsigned_ucast_eq unsigned_of_nat take_bit_nat_eq_self)

lemma width_of_snoc: "k + 1 < length is \<Longrightarrow> width_of (is @ [x]) k = width_of is k"
  by (simp add: width_of_def nth_append)

lemma read_label:
  assumes "read_so_far ls (kc, prev)" and "n < 2 ^ 32" and "\<forall>l \<in> set ls. wf_line l"
  shows "read_so_far (ls @ [Label_line n]) (add_label (of_nat n) (print_line (Label_line n)) kc, prev)"
proof -
  have "m < 2 ^ 32" if "m \<in> set (labels_of ls)" for m using in_labels_of [OF that] assms(3) by auto
  then show ?thesis
    using assms(1,2) of_nat_u64_label_eq [of _ n]
    by (auto simp: read_so_far_def Let_def instrs_of_append labels_of_append add_label_def to_u64_of_small_nat)
qed

lemma unat_distance: "b \<le> a \<Longrightarrow> a < 2 ^ 31 \<Longrightarrow> unat (of_nat a - of_nat b :: u64) = a - b"
  by (simp add: of_nat_diff [symmetric] unsigned_of_nat take_bit_nat_eq_self del: of_nat_diff)

lemma wf_instr:
  assumes "\<forall>l \<in> set ls. wf_line l" and "x \<in> set (instrs_of ls)"
  shows "wf_line (Instr_line (fst x) (fst (snd x)) (snd (snd x)))"
  using in_instrs_of [OF assms(2)] assms(1) by blast

lemma wf_addr: "\<forall>l \<in> set ls. wf_line l \<Longrightarrow> x \<in> set (instrs_of ls) \<Longrightarrow> fst x < 2 ^ 31 \<and> fst x mod 4 = 0"
  using wf_instr by fastforce

definition addresses_ok :: "asm_instr list \<Rightarrow> bool" where
  "addresses_ok xs \<longleftrightarrow> sorted_wrt (<) (map fst xs) \<and> (\<forall>x \<in> set xs. fst x < 2 ^ 31)"

lemma addresses_ok_keys:
  assumes "addresses_ok xs" and "k < length xs" and "l < length xs"
  shows "key_of (xs ! k) = key_of (xs ! l) \<longleftrightarrow> k = l"
proof -
  have "fst (xs ! i) < fst (xs ! j)" if "i < j" "j < length xs" for i j
    using assms(1) that by (auto simp: addresses_ok_def sorted_wrt_iff_nth_less)
  then have "fst (xs ! k) = fst (xs ! l) \<longleftrightarrow> k = l"
    using assms(2,3) by (metis nat_neq_iff)
  moreover have "fst (xs ! k) < 2 ^ 31" "fst (xs ! l) < 2 ^ 31"
    using assms by (auto simp: addresses_ok_def)
  ultimately show ?thesis by (simp add: of_nat_u64_eq)
qed

text \<open>One more instruction: it is put in without a width, and the one before it gets its width.\<close>

lemma holds_code_snoc:
  assumes "holds_code xs code" and "xs \<noteq> []" and "addresses_ok (xs @ [x])"
  shows "holds_code (xs @ [x]) (code(key_of x \<mapsto> raw_instr x,
           key_of (last xs) \<mapsto> read_instr (last xs) (fst x - fst (last xs))))"
  unfolding holds_code_def
proof (intro conjI allI impI)
  define j where "j = length xs - 1"
  have j: "j < length xs" "last xs = xs ! j" "length xs = Suc j"
    using assms(2) by (auto simp: j_def last_conv_nth)
  have keys: "key_of ((xs @ [x]) ! k) = key_of ((xs @ [x]) ! l) \<longleftrightarrow> k = l" if "k \<le> length xs" "l \<le> length xs" for k l
    using that by (intro addresses_ok_keys [OF assms(3)]) auto
  show "dom (code(key_of x \<mapsto> raw_instr x, key_of (last xs) \<mapsto> read_instr (last xs) (fst x - fst (last xs))))
      = key_of ` set (xs @ [x])"
    using assms(1) j(1,2) nth_mem [OF j(1)] by (auto simp: holds_code_def)
  fix k
  assume k: "k < length (xs @ [x])"
  show "(code(key_of x \<mapsto> raw_instr x, key_of (last xs) \<mapsto> read_instr (last xs) (fst x - fst (last xs))))
      (key_of ((xs @ [x]) ! k)) = Some (if Suc k < length (xs @ [x])
        then read_instr ((xs @ [x]) ! k) (width_of (xs @ [x]) k) else raw_instr ((xs @ [x]) ! k))"
  proof (cases "k < length xs")
    case True
    then have other: "key_of (xs ! k) \<noteq> key_of x" "key_of (xs ! k) = key_of (last xs) \<longleftrightarrow> k = j"
      using keys [of k "length xs"] keys [of k j] j by (auto simp: nth_append)
    have "code (key_of (xs ! k)) =
        Some (if Suc k < length xs then read_instr (xs ! k) (width_of xs k) else raw_instr (xs ! k))"
      using assms(1) True by (simp add: holds_code_def)
    with True other j show ?thesis
      by (cases "k = j") (auto simp: nth_append width_of_def)
  next
    case False
    then have "k = length xs" using k by simp
    moreover have "key_of x \<noteq> key_of (last xs)" using keys [of "length xs" j] j by (simp add: nth_append)
    ultimately show ?thesis by simp
  qed
qed

lemma read_first:
  assumes "read_so_far ls (kc, prev)" and "instrs_of ls = []" and "wf_line (Instr_line a m as)"
  shows "\<exists>st. parse_line (print_line (Instr_line a m as)) (kc, prev) = Inr st
    \<and> read_so_far (ls @ [Instr_line a m as]) st"
  using assms parse_instr_line [OF assms(3), of kc prev] holds_code_start(2) [of _ "(a, m, as)"]
  by (auto simp: read_so_far_def Let_def instrs_of_append labels_of_append simp del: print_line.simps)

lemma holds_code_last_raw:
  assumes "holds_code xs code" and "xs \<noteq> []"
  shows "code (key_of (last xs)) = Some (raw_instr (last xs))"
  using assms by (cases xs rule: rev_cases) (auto simp: holds_code_def)

lemma of_nat_not_minus_1: "b < 2 ^ 31 \<Longrightarrow> (of_nat b :: u32) \<noteq> - 1"
proof
  assume b: "b < 2 ^ 31" and "(of_nat b :: u32) = - 1"
  from this(2) have "sint (of_nat b :: u32) = sint (- 1 :: u32)" by (rule arg_cong)
  with b show False by (simp add: sint_of_nat_u32)
qed

lemma read_next:
  assumes "read_so_far ls (kc, prev)" and "instrs_of ls \<noteq> []" and "\<forall>l \<in> set (ls @ [Instr_line a m as]). wf_line l"
    and "sorted_wrt (<) (map fst (instrs_of ls @ [(a, m, as)]))"
  shows "\<exists>st. parse_line (print_line (Instr_line a m as)) (kc, prev) = Inr st
    \<and> read_so_far (ls @ [Instr_line a m as]) st"
proof -
  define xs where "xs = instrs_of ls"
  obtain b m' as' where last_xs: "last xs = (b, m', as')" by (metis prod_cases3)
  have in_xs: "(b, m', as') \<in> set xs" using assms(2) last_xs by (metis last_in_set xs_def)
  then have wf: "wf_line (Instr_line b m' as')" using wf_instr [of ls "(b, m', as')"] assms(3) by (simp add: xs_def)
  have addrs: "addresses_ok (xs @ [(a, m, as)])"
    using assms(3,4) wf_addr [of ls] by (auto simp: addresses_ok_def xs_def)
  have ab: "b < a" "a < 2 ^ 31" "b < 2 ^ 31"
    using addrs in_xs by (auto simp: addresses_ok_def sorted_wrt_append)
  have st: "prev = of_nat b" "holds_code xs (kc_code kc)"
    using assms(1,2) last_xs by (auto simp: read_so_far_def Let_def xs_def)
  define kc1 where "kc1 = kc\<lparr>kc_code := (kc_code kc)(of_nat a \<mapsto> raw_instr (a, m, as))\<rparr>"
  have "kc_code kc1 (of_nat b) = Some (raw_instr (b, m', as'))"
  proof -
    have "kc_code kc (of_nat b) = Some (raw_instr (b, m', as'))"
      using holds_code_last_raw [OF st(2)] assms(2) last_xs by (simp add: xs_def)
    with ab show ?thesis by (simp add: kc1_def of_nat_u64_eq)
  qed
  then have "set_width_at (of_nat b) (of_nat a - sx64 (of_nat b :: u32)) kc1 =
      Inr (read_instr (b, m', as') (a - b), kc1\<lparr>kc_code := (kc_code kc1)(of_nat b \<mapsto> read_instr (b, m', as') (a - b))\<rparr>)"
    using set_width_raw [of kc1 b m' as'] wf ab by (simp add: sx64_of_nat unat_distance)
  then have "parse_line (print_line (Instr_line a m as)) (kc, prev) =
      Inr (kc1\<lparr>kc_code := (kc_code kc1)(of_nat b \<mapsto> read_instr (b, m', as') (a - b))\<rparr>, of_nat a)"
    using parse_instr_line [of a m as kc prev] assms(3) st(1) of_nat_not_minus_1 [OF ab(3)]
    by (simp add: kc1_def Let_def)
  moreover have "holds_code (xs @ [(a, m, as)]) ((kc_code kc1)(of_nat b \<mapsto> read_instr (b, m', as') (a - b)))"
    using holds_code_snoc [OF st(2) _ addrs] assms(2) last_xs by (simp add: kc1_def xs_def)
  ultimately show ?thesis
    using assms(1) by (simp add: read_so_far_def Let_def instrs_of_append labels_of_append kc1_def xs_def)
qed

lemma read_lines:
  assumes "\<forall>l \<in> set ls. wf_line l" and "sorted_wrt (<) (map fst (instrs_of ls))"
  shows "\<exists>st. foldE parse_line (map print_line ls) (new_code, - 1) = Inr st \<and> read_so_far ls st"
  using assms
proof (induction ls rule: rev_induct)
  case Nil
  then show ?case by (simp add: read_so_far_def new_code_def holds_code_start)
next
  case (snoc l ls)
  have "sorted_wrt (<) (map fst (instrs_of ls))"
    using snoc.prems(2) by (simp add: instrs_of_append sorted_wrt_append)
  with snoc obtain kc prev where st: "foldE parse_line (map print_line ls) (new_code, - 1) = Inr (kc, prev)"
    "read_so_far ls (kc, prev)" by auto
  have "\<exists>st. parse_line (print_line l) (kc, prev) = Inr st \<and> read_so_far (ls @ [l]) st"
  proof (cases l)
    case (Label_line n)
    then show ?thesis using read_label [OF st(2), of n] parse_label_line [of n kc prev] snoc.prems(1) by simp
  next
    case (Instr_line a m as)
    then show ?thesis
      using read_first [OF st(2), of a m as] read_next [OF st(2), of a m as] snoc.prems
      by (cases "instrs_of ls = []") (auto simp: instrs_of_append simp del: print_line.simps)
  qed
  then show ?case using st(1) by (auto simp: foldE_append simp del: print_line.simps)
qed

lemma holds_code_last:
  assumes "holds_code xs code" and "xs \<noteq> []" and "addresses_ok xs"
  shows "dom (code(key_of (last xs) \<mapsto> read_instr (last xs) 4)) = key_of ` set xs"
    and "k < length xs \<Longrightarrow> (code(key_of (last xs) \<mapsto> read_instr (last xs) 4)) (key_of (xs ! k))
      = Some (read_instr (xs ! k) (width_of xs k))"
proof -
  define j where "j = length xs - 1"
  have j: "j < length xs" "last xs = xs ! j" "length xs = Suc j"
    using assms(2) by (auto simp: j_def last_conv_nth)
  show "dom (code(key_of (last xs) \<mapsto> read_instr (last xs) 4)) = key_of ` set xs"
    using assms(1,2) by (auto simp: holds_code_def)
  show "k < length xs \<Longrightarrow> (code(key_of (last xs) \<mapsto> read_instr (last xs) 4)) (key_of (xs ! k))
      = Some (read_instr (xs ! k) (width_of xs k))"
    using addresses_ok_keys [OF assms(3), of k j] assms(1) j
    by (cases "k = j") (auto simp: holds_code_def width_of_def)
qed

lemma printed_listing_read:
  assumes "wf_listing ls"
  shows "\<exists>kc. parseKernelCode (map print_line ls) = Inr kc
    \<and> dom (kc_code kc) = key_of ` set (instrs_of ls)
    \<and> (\<forall>k < length (instrs_of ls). get_instr kc (key_of (instrs_of ls ! k))
        = Inr (read_instr (instrs_of ls ! k) (width_of (instrs_of ls) k)))
    \<and> (\<forall>n \<in> set (labels_of ls). kc_labels kc (of_nat n) = Some \<lparr>lb_name = print_line (Label_line n), lb_addr = of_nat n\<rparr>)"
proof -
  define xs where "xs = instrs_of ls"
  have wf: "\<forall>l \<in> set ls. wf_line l" "sorted_wrt (<) (map fst xs)" "xs \<noteq> []"
    using assms by (auto simp: wf_listing_def xs_def)
  obtain kc prev where st: "foldE parse_line (map print_line ls) (new_code, - 1) = Inr (kc, prev)"
    "read_so_far ls (kc, prev)" using read_lines [of ls] wf by (auto simp: xs_def)
  have addrs: "addresses_ok xs" using wf wf_addr [of ls] by (auto simp: addresses_ok_def xs_def)
  obtain b m as where last_xs: "last xs = (b, m, as)" by (metis prod_cases3)
  have last_wf: "wf_line (Instr_line b m as)"
    using wf_instr [OF wf(1), of "last xs"] last_xs wf(3) by (metis fst_conv last_in_set snd_conv xs_def)
  have kc: "prev = of_nat b" "holds_code xs (kc_code kc)"
    using st(2) wf(3) last_xs by (auto simp: read_so_far_def Let_def xs_def)
  have code_b: "kc_code kc (of_nat b) = Some (raw_instr (b, m, as))"
    using holds_code_last_raw [OF kc(2) wf(3)] by (simp add: last_xs)
  note final = holds_code_last [OF kc(2) wf(3) addrs, unfolded last_xs fst_conv]
  let ?kc = "kc\<lparr>kc_code := (kc_code kc)(of_nat b \<mapsto> read_instr (b, m, as) 4)\<rparr>"
  obtain i where i: "get_instr_key m = Inr i" using last_wf returnsD by auto
  then obtain v where "v \<in> set instructionRepo" "iv_key v = i" by (rule get_instr_key_row)
  with i have "get_mnemonic (in_key (read_instr (b, m, as) 4)) = Inr (iv_mnemonic v)"
    using get_mnemonic_row [of v] by (simp add: read_instr_def Let_def)
  then have run: "parseKernelCode (map print_line ls) = Inr ?kc"
    using st(1) kc(1) set_width_raw [OF code_b last_wf, of 4]
    by (simp add: parseKernelCode_def del: print_line.simps)
  have "get_instr ?kc (key_of (xs ! k)) = Inr (read_instr (xs ! k) (width_of xs k))" if k: "k < length xs" for k
  proof -
    have "fst (xs ! k) < 2 ^ 31" "fst (xs ! k) mod 4 = 0"
      using wf_addr [OF wf(1), of "xs ! k"] k by (auto simp: xs_def)
    moreover from this(1) have "unat (key_of (xs ! k)) = fst (xs ! k)"
      by (simp add: unsigned_of_nat take_bit_nat_eq_self)
    ultimately show ?thesis using final(2) [OF k] by (simp add: get_instr_def)
  qed
  with run final(1) st(2) show ?thesis
    by (auto simp: read_so_far_def Let_def xs_def)
qed

text \<open>
  C11: A printed kernel listing is read back: every instruction stands at its address with its
  mnemonic, operands and the width up to the next one, and every label is entered.
\<close>

theorem listing_read_back:
  assumes "wf_listing ls"
  shows "\<exists>kc. parseKernelCode (map print_line ls) = Inr kc
    \<and> dom (kc_code kc) = key_of ` set (instrs_of ls)
    \<and> (\<forall>k < length (instrs_of ls). get_instr kc (key_of (instrs_of ls ! k))
        = Inr (read_instr (instrs_of ls ! k) (width_of (instrs_of ls) k)))
    \<and> (\<forall>n \<in> set (labels_of ls). kc_labels kc (of_nat n) = Some \<lparr>lb_name = print_line (Label_line n), lb_addr = of_nat n\<rparr>)"
  by (rule printed_listing_read [OF assms])

definition sample_listing :: "asm_line list" where
  "sample_listing = [Instr_line 0 ''s_load_dword'' [Sgpr 0, Sgprs 4 5, Hex 8], Label_line 8,
     Instr_line 8 ''s_endpgm'' []]"

lemma known_mnemonic: "v \<in> set instructionRepo \<Longrightarrow> iv_mnemonic v = m \<Longrightarrow> returns (get_instr_key m)"
  by (auto simp: get_instr_key_def returns_def find_None_iff split: option.splits)

lemma sample_mnemonics: "returns (get_instr_key ''s_load_dword'')" "returns (get_instr_key ''s_endpgm'')"
  by (rule known_mnemonic [of "view ''s_load_dword'' S_LOAD_DWORD UNDEFINED SMEM"];
      simp add: instructionRepo_def repo_smem_def view_def)
    (rule known_mnemonic [of "view ''s_endpgm'' S_ENDPGM SOPP UNDEFINED"];
      simp add: instructionRepo_def repo_sopp_def view_def)

lemma listing_read_back_witness:
  "\<exists>kc. parseKernelCode (map print_line sample_listing) = Inr kc \<and> dom (kc_code kc) = {0, 8}
    \<and> get_instr kc 0 = Inr (read_instr (0, ''s_load_dword'', [Sgpr 0, Sgprs 4 5, Hex 8]) 8)
    \<and> get_instr kc 8 = Inr (read_instr (8, ''s_endpgm'', []) 4)"
proof -
  have "wf_listing sample_listing"
    using sample_mnemonics by (simp add: wf_listing_def sample_listing_def isspace_def)
  from listing_read_back [OF this] show ?thesis
    by (auto simp: sample_listing_def width_of_def less_Suc_eq all_conj_distrib)
qed

section \<open>What the reader gets wrong\<close>

lemma get_register_bad_range:
  assumes "r \<in> {CHR ''s'', CHR ''v''}"
  shows "get_register (r # ''['' @ t) = bindE (register_range (r # ''['' @ t)) (\<lambda>(fromRegInd, regCount).
     bindE (register_index (r # ''['' @ t) fromRegInd regCount) (\<lambda>i.
     bindE (register_at i (if r = CHR ''s'' then REG_S0 else REG_V0)) (\<lambda>registerType.
     if r = CHR ''s'' \<and> registerType > REG_S103 then Inl (Runtime_error (''Unsupported register: '' @ r # ''['' @ t))
     else Inr (registerType, regCount))))"
  using assms names_of_texts(2) [of r t] scalar_vector_texts [of "CHR ''[''" t]
  by (auto simp: get_register_def intro!: bindE_cong)

text \<open>A range of one register is not read: the index is taken from the text after the letter.\<close>

theorem one_register_range_fails:
  assumes "n < 2 ^ 31" and "r \<in> {CHR ''s'', CHR ''v''}"
  shows "get_register (r # ''['' @ show_nat n @ '':'' @ show_nat n @ '']'') = Inl (Logic_error ''stoi: invalid_argument'')"
proof -
  have "r \<noteq> CHR ''[''" "r \<noteq> CHR '':''" using assms(2) by auto
  note range = range_text [OF this assms(1,1)]
  have "stoi (''['' @ t) = Inl (Logic_error ''stoi: invalid_argument'')" for t
    by (simp add: stoi_base_def strto_def isspace_def is_base_digit_def isdigit_def)
  then show ?thesis
    using get_register_bad_range [OF assms(2), of "show_nat n @ '':'' @ show_nat n @ '']''"] range
    by (simp add: register_index_def Let_def)
qed

lemma one_register_range_fails_witness: "get_register ''s[5:5]'' = Inl (Logic_error ''stoi: invalid_argument'')"
proof -
  have "show_nat 5 = ''5''" by code_simp
  then show ?thesis using one_register_range_fails [of 5 "CHR ''s''"] by simp
qed

text \<open>
  The check of a range is on an unsigned number: only the range that ends one below its start is
  refused, any other that runs backwards is a range of almost 2 to the 64 registers.
\<close>

theorem backward_range_accepted:
  assumes "b + 1 < a" and "a \<le> 103"
  shows "get_register (''s['' @ show_nat a @ '':'' @ show_nat b @ '']'')
    = Inr (REG_S0 + int a, - of_nat (a - b - 1))"
proof -
  define c :: u64 where "c = 1 + word_of_int (int b - int a)"
  have c: "c = - of_nat (a - b - 1)" using assms(1) by (simp add: c_def of_nat_diff)
  have "unat (of_nat (a - b - 1) :: u64) = a - b - 1"
    using assms by (simp add: unsigned_of_nat take_bit_nat_eq_self del: of_nat_diff)
  then have "of_nat (a - b - 1) \<noteq> (0 :: u64)" "of_nat (a - b - 1) \<noteq> (- 1 :: u64)"
    using assms by (auto simp: unsigned_minus_1_eq_mask mask_eq_exp_minus_1 simp del: of_nat_diff)
  then have "c \<noteq> 0" "c \<noteq> 1" by (auto simp: c minus_equation_iff [of _ 1] simp del: of_nat_diff)
  then have big: "c \<noteq> 0" "1 < c" by (simp_all add: word_less_nat_alt word_unat_eq_iff)
  have "a < 2 ^ 31" "b < 2 ^ 31" using assms by simp_all
  then have "register_range (''s['' @ show_nat a @ '':'' @ show_nat b @ '']'') = Inr (Some (of_nat a), c)"
    using range_text [of "CHR ''s''" a b] big by (simp add: c_def Let_def)
  then show ?thesis
    using get_register_bad_range [of "CHR ''s''" "show_nat a @ '':'' @ show_nat b @ '']''"] big assms(2)
      register_at_small [of a REG_S0] by (simp add: register_index_def add.commute c)
qed

text \<open>
  The global size is checked before it is stored, so that the check sees the default of the
  configuration and lets every size through, zero included.
\<close>

theorem zero_global_size_accepted:
  assumes "n \<noteq> 0" and "m \<noteq> 0" and "n < 2 ^ 31" and "m < 2 ^ 31"
  shows "\<exists>c. parseKernelConfig p0 1 [] [0] [] [''.sgprsnum '' @ show_nat n, ''.vgprsnum '' @ show_nat m] = Inr c
     \<and> get_NDRange_X_size c = Inr 0"
proof -
  have split_s: "split_max 1 (name @ '' '' @ show_nat k) (CHR '' '') = [name, show_nat k]"
    if "CHR '' '' \<notin> set name" for name k
    using split_loop_piece [OF that, of 1 "'' '' @ show_nat k" "[]" "[]"] show_nat_digits(1) [of k]
    by (simp add: split_max_def split_loop_rest)
  have sg: "parse_param (''.sgprsnum '' @ show_nat n) c = Inr (c\<lparr>cfg_sgprsnum := of_nat n\<rparr>)" for c
    using split_s [of "''sgprsnum''" n] assms(3)
    by (simp add: parse_param_def substr_from_def at_index_def Let_def stoi_show_nat sx64_of_nat)
  have vg: "parse_param (''.vgprsnum '' @ show_nat m) c = Inr (c\<lparr>cfg_vgprsnum := of_nat m\<rparr>)" for c
    using split_s [of "''vgprsnum''" m] assms(4)
    by (simp add: parse_param_def substr_from_def at_index_def Let_def stoi_show_nat sx64_of_nat)
  have nz: "(of_nat k :: u64) \<noteq> 0" if "k \<noteq> 0" "k < 2 ^ 31" for k
    using of_nat_u64_eq [of k 0] that by simp
  have dims: "[0..<unat (1 :: u32)] = [0]" by simp
  show ?thesis
    using sg vg nz assms
    by (simp add: parseKernelConfig_def validateSizes_def dims size_at_def copy_n_def new_config_def Let_def
        get_NDRange_X_size_def)
qed

lemma backward_range_accepted_witness: "get_register ''s[7:5]'' = Inr (8, - of_nat (7 - 5 - 1))"
proof -
  have "show_nat 7 = ''7''" "show_nat 5 = ''5''" by code_simp+
  then show ?thesis using backward_range_accepted [of 5 7] by simp
qed

lemma zero_global_size_accepted_witness:
  "\<exists>c. parseKernelConfig 0 1 [] [0] [] [''.sgprsnum '' @ show_nat 8, ''.vgprsnum '' @ show_nat 4] = Inr c
     \<and> get_NDRange_X_size c = Inr 0"
  by (rule zero_global_size_accepted) simp_all

end
