(* ===== verification/BinaryAsms.thy ===== *)
theory BinaryAsms
  imports KernelArgs KernelListings
begin

text \<open>
  The reader of a disassembled program (\<open>driver/src/runtime/program/BinaryAsmParser\<close>): it cuts the
  text of the disassembler into the parameters of the binary and, per kernel, its name, its
  configuration, its argument descriptions and its instruction lines
  (\<open>CLKernelBuilder\<close> in \<open>icd/CLKernel.h\<close>). The parser is a state machine over the lines. A
  \<open>std::string\<close> read at its size gives the null character.
\<close>

section \<open>The state\<close>

record KernelWorkGroupSize =
  wgs_x :: u64
  wgs_y :: u64
  wgs_z :: u64

record CLKernelBuilder =
  kb_name :: string
  kb_requiredWorkGroupSize :: KernelWorkGroupSize
  kb_config :: "string list"
  kb_instructions :: "string list"
  kb_argumentInfo :: "KernelArgumentInfo list"

record BinaryDisassemblingResult =
  bd_gpuName :: string
  bd_compileOptions :: string
  bd_parameters :: "string list"
  bd_kernelBuilders :: "CLKernelBuilder list"
  bd_rawOutput :: string

datatype ParsingState = BinaryParameters | KernelConfigLines | KernelInstructions

record BinaryAsmParser =
  ap_alreadyParsed :: bool
  ap_parsingResult :: BinaryDisassemblingResult
  ap_parsingState :: ParsingState
  ap_currentKernelBuilder :: "CLKernelBuilder option"

definition new_builder :: "string \<Rightarrow> CLKernelBuilder" where
  "new_builder name = \<lparr>kb_name = name, kb_requiredWorkGroupSize = \<lparr>wgs_x = 0, wgs_y = 0, wgs_z = 0\<rparr>,
     kb_config = [], kb_instructions = [], kb_argumentInfo = []\<rparr>"

definition new_result :: BinaryDisassemblingResult where
  "new_result = \<lparr>bd_gpuName = [], bd_compileOptions = [], bd_parameters = [], bd_kernelBuilders = [], bd_rawOutput = []\<rparr>"

definition new_asm_parser :: BinaryAsmParser where
  "new_asm_parser = \<lparr>ap_alreadyParsed = False, ap_parsingResult = new_result,
     ap_parsingState = BinaryParameters, ap_currentKernelBuilder = None\<rparr>"

text \<open>Changes the current builder, which a null pointer does not have.\<close>

definition on_builder ::
  "(CLKernelBuilder \<Rightarrow> CLKernelBuilder result) \<Rightarrow> BinaryAsmParser \<Rightarrow> BinaryAsmParser result" where
  "on_builder f p =
     (case ap_currentKernelBuilder p of
        None \<Rightarrow> Inl (Undefined ''null pointer'')
      | Some b \<Rightarrow> bindE (f b) (\<lambda>b. Inr (p\<lparr>ap_currentKernelBuilder := Some b\<rparr>)))"

definition on_result ::
  "(BinaryDisassemblingResult \<Rightarrow> BinaryDisassemblingResult) \<Rightarrow> BinaryAsmParser \<Rightarrow> BinaryAsmParser" where
  "on_result f p = p\<lparr>ap_parsingResult := f (ap_parsingResult p)\<rparr>"

definition push_instruction :: "string \<Rightarrow> BinaryAsmParser \<Rightarrow> BinaryAsmParser result" where
  "push_instruction line = on_builder (\<lambda>b. Inr (b\<lparr>kb_instructions := kb_instructions b @ [line]\<rparr>))"

section \<open>The lines\<close>

definition parseKernelInstruction ::
  "string \<Rightarrow> string \<Rightarrow> string \<Rightarrow> string \<Rightarrow> BinaryAsmParser \<Rightarrow> BinaryAsmParser result" where
  "parseKernelInstruction line address instruction values p =
     (if instruction \<noteq> [] \<and> hd instruction = CHR ''.'' then push_instruction line p
      else bindE (assertE (startsWith address ''/*'') ''utils::startsWith(address)'') (\<lambda>_.
           bindE (assertE (endsWith address ''*/'') ''utils::endsWith(address)'') (\<lambda>_.
           bindE (substr_from 2 address) (\<lambda>_. push_instruction line p))))"

definition parseBinaryParameter :: "string \<Rightarrow> string \<Rightarrow> string \<Rightarrow> BinaryAsmParser \<Rightarrow> BinaryAsmParser" where
  "parseBinaryParameter line parameterName parameterValue =
     (if parameterName = ''.gpu'' then on_result (\<lambda>r. r\<lparr>bd_gpuName := parameterValue\<rparr>)
      else if parameterName = ''.compile_options'' then on_result (\<lambda>r. r\<lparr>bd_compileOptions := parameterValue\<rparr>)
      else on_result (\<lambda>r. r\<lparr>bd_parameters := bd_parameters r @ [line]\<rparr>))"

definition parseKernelArgument :: "string \<Rightarrow> CLKernelBuilder \<Rightarrow> CLKernelBuilder result" where
  "parseKernelArgument argumentConfigLine b =
     bindE (parse_argument (of_nat (length (kb_argumentInfo b))) argumentConfigLine)
       (\<lambda>info. Inr (b\<lparr>kb_argumentInfo := kb_argumentInfo b @ [info]\<rparr>))"

definition set_required_size :: "string \<Rightarrow> CLKernelBuilder \<Rightarrow> CLKernelBuilder result" where
  "set_required_size parameterValue b =
     bindE (mapE (\<lambda>value. stoul (trim value)) (split parameterValue (CHR '',''))) (\<lambda>values.
     bindE (at_index values 0) (\<lambda>x.
     let s = (kb_requiredWorkGroupSize b)\<lparr>wgs_x := x\<rparr>;
         s = (if 1 < length values then s\<lparr>wgs_y := values ! 1\<rparr> else s);
         s = (if 2 < length values then s\<lparr>wgs_z := values ! 2\<rparr> else s)
     in Inr (b\<lparr>kb_requiredWorkGroupSize := s\<rparr>)))"

definition parseKernelConfigParameter ::
  "string \<Rightarrow> string \<Rightarrow> string \<Rightarrow> BinaryAsmParser \<Rightarrow> BinaryAsmParser result" where
  "parseKernelConfigParameter line parameterName parameterValue =
     on_builder (\<lambda>b.
       bindE (if parameterName = ''.cws'' \<or> parameterName = ''.reqd_work_group_size''
              then set_required_size parameterValue b else Inr b) (\<lambda>b.
       bindE (if parameterName = ''.arg'' \<and> \<not> startsWith parameterValue ''_''
              then parseKernelArgument parameterValue b else Inr b) (\<lambda>b.
       Inr (b\<lparr>kb_config := kb_config b @ [line]\<rparr>))))"

abbreviation assert_builder :: "bool \<Rightarrow> BinaryAsmParser \<Rightarrow> unit result" where
  "assert_builder present p \<equiv>
     assertE ((ap_currentKernelBuilder p \<noteq> None) = present) ''currentKernelBuilder''"

definition parseSingleInstruction :: "string \<Rightarrow> BinaryAsmParser \<Rightarrow> BinaryAsmParser result" where
  "parseSingleInstruction instruction p =
     (if instruction = ''.config'' then Inr (p\<lparr>ap_parsingState := KernelConfigLines\<rparr>)
      else if instruction = ''.text'' then Inr (p\<lparr>ap_parsingState := KernelInstructions\<rparr>)
      else case ap_parsingState p of
          BinaryParameters \<Rightarrow> bindE (assert_builder False p) (\<lambda>_.
            Inr (parseBinaryParameter instruction instruction [] p))
        | KernelConfigLines \<Rightarrow> bindE (assert_builder True p) (\<lambda>_.
            parseKernelConfigParameter instruction instruction [] p)
        | KernelInstructions \<Rightarrow> bindE (assert_builder True p) (\<lambda>_.
            parseKernelInstruction instruction [] instruction [] p))"

text \<open>The current builder, if there is one, goes to the result.\<close>

definition finish_builder :: "BinaryAsmParser \<Rightarrow> BinaryAsmParser" where
  "finish_builder p =
     (case ap_currentKernelBuilder p of
        None \<Rightarrow> p
      | Some b \<Rightarrow> (on_result (\<lambda>r. r\<lparr>bd_kernelBuilders := bd_kernelBuilders r @ [b]\<rparr>) p)
          \<lparr>ap_currentKernelBuilder := None\<rparr>)"

definition parseParameter :: "string \<Rightarrow> string \<Rightarrow> string \<Rightarrow> BinaryAsmParser \<Rightarrow> BinaryAsmParser result" where
  "parseParameter line parameterName parameterValue p =
     (if startsWith parameterName ''.kernel''
      then Inr ((finish_builder p)\<lparr>ap_currentKernelBuilder := Some (new_builder parameterValue)\<rparr>)
      else case ap_parsingState p of
          BinaryParameters \<Rightarrow> bindE (assert_builder False p) (\<lambda>_.
            Inr (parseBinaryParameter line parameterName parameterValue p))
        | KernelConfigLines \<Rightarrow> bindE (assert_builder True p) (\<lambda>_.
            parseKernelConfigParameter line parameterName parameterValue p)
        | KernelInstructions \<Rightarrow> bindE (assert_builder True p) (\<lambda>_.
            if startsWith line ''/*'' then parseKernelInstruction line parameterName parameterValue [] p
            else parseKernelInstruction line ''/*unknown*/'' parameterName parameterValue p))"

definition parse_asm_line :: "string \<Rightarrow> BinaryAsmParser \<Rightarrow> BinaryAsmParser result" where
  "parse_asm_line line p =
     (if line = [] then Inr p
      else let splitLine = (if ap_parsingState p = KernelInstructions \<and> startsWith line ''/*''
                            then split_max 2 line (CHR '' '') else split_max 1 line (CHR '' ''))
           in if length splitLine = 1
              then bindE (at_index splitLine 0) (\<lambda>s. parseSingleInstruction s p)
              else if length splitLine = 2
              then bindE (at_index splitLine 0) (\<lambda>name. bindE (at_index splitLine 1) (\<lambda>value.
                     parseParameter line name value p))
              else bindE (at_index splitLine 0) (\<lambda>address. bindE (at_index splitLine 1) (\<lambda>instruction.
                     bindE (at_index splitLine 2) (\<lambda>values.
                     parseKernelInstruction line address instruction values p))))"

definition parseAsm :: "string \<Rightarrow> BinaryAsmParser \<Rightarrow> (BinaryDisassemblingResult \<times> BinaryAsmParser) result" where
  "parseAsm input p =
     (if ap_alreadyParsed p
      then Inl (Runtime_error ''Binary was parsed before so parser is invalidated.'')
      else bindE (foldE parse_asm_line (map trim (split input (CHR 0x0A)))
             (p\<lparr>ap_parsingResult := new_result\<rparr>)) (\<lambda>p.
           let p = (finish_builder p)\<lparr>ap_alreadyParsed := True\<rparr>
           in Inr (ap_parsingResult p, p)))"

section \<open>The text of a program\<close>

text \<open>
  A kernel as the disassembler prints it. A configuration line is a key with a value, or a key
  alone; the keys that are read as more than text are left out.
\<close>

record kernel_text =
  kt_name :: string
  kt_config :: "string list"
  kt_lines :: "asm_line list"

definition plain_word :: "string \<Rightarrow> bool" where
  "plain_word s \<longleftrightarrow> s \<noteq> [] \<and> (\<forall>c \<in> set s. \<not> isspace c)"

definition config_line :: "string \<Rightarrow> bool" where
  "config_line line \<longleftrightarrow> (\<exists>key value. plain_word key \<and> plain_word value \<and> line = key @ '' '' @ value
     \<and> \<not> startsWith key ''.kernel'' \<and> key \<notin> {''.cws'', ''.reqd_work_group_size'', ''.arg''})
   \<or> plain_word line \<and> line \<notin> {''.config'', ''.text'', ''.cws'', ''.reqd_work_group_size'', ''.arg''}"

definition kernel_lines :: "kernel_text \<Rightarrow> string list" where
  "kernel_lines k = [''.kernel '' @ kt_name k, ''.config''] @ kt_config k @ [''.text''] @ map print_line (kt_lines k)"

definition wf_kernel_text :: "kernel_text \<Rightarrow> bool" where
  "wf_kernel_text k \<longleftrightarrow> plain_word (kt_name k) \<and> (\<forall>l \<in> set (kt_config k). config_line l)
     \<and> wf_listing (kt_lines k)"

definition builder_of :: "kernel_text \<Rightarrow> CLKernelBuilder" where
  "builder_of k = (new_builder (kt_name k))
     \<lparr>kb_config := kt_config k, kb_instructions := map print_line (kt_lines k)\<rparr>"

lemma plain_word_split: "plain_word w \<Longrightarrow> split_max m w (CHR '' '') = [w]"
proof -
  assume w: "plain_word w"
  then have "CHR '' '' \<notin> set w" by (auto simp: plain_word_def isspace_def)
  from split_loop_piece [OF this, of m "[]" "[]" "[]"] w show ?thesis
    by (simp add: plain_word_def split_max_def)
qed

lemma plain_words_split:
  assumes "plain_word a" and "rest \<noteq> []"
  shows "split_max 1 (a @ CHR '' '' # rest) (CHR '' '') = [a, rest]"
proof -
  have "CHR '' '' \<notin> set a" using assms(1) by (auto simp: plain_word_def isspace_def)
  from split_loop_piece [OF this, of 1 "CHR '' '' # rest" "[]" "[]"] show ?thesis
    using assms by (simp add: split_max_def split_loop_rest)
qed

lemma config_line_read:
  assumes "config_line line" and "ap_parsingState p = KernelConfigLines" and "ap_currentKernelBuilder p = Some b"
  shows "parse_asm_line line p = Inr (p\<lparr>ap_currentKernelBuilder := Some (b\<lparr>kb_config := kb_config b @ [line]\<rparr>)\<rparr>)"
  using assms(1) unfolding config_line_def
proof (elim disjE exE conjE)
  fix key val
  assume key: "plain_word key" "plain_word val" "line = key @ '' '' @ val" "\<not> startsWith key ''.kernel''"
    "key \<notin> {''.cws'', ''.reqd_work_group_size'', ''.arg''}"
  then have "split_max 1 line (CHR '' '') = [key, val]"
    using plain_words_split [of key val] by (simp add: plain_word_def)
  moreover have "line \<noteq> []" using key(3) by simp
  ultimately show ?thesis
    using key(4,5) assms(2,3)
    by (simp add: parse_asm_line_def Let_def at_index_def parseParameter_def parseKernelConfigParameter_def on_builder_def)
next
  assume line: "plain_word line" "line \<notin> {''.config'', ''.text'', ''.cws'', ''.reqd_work_group_size'', ''.arg''}"
  then show ?thesis
    using plain_word_split [OF line(1)] assms(2,3)
    by (simp add: parse_asm_line_def Let_def at_index_def parseSingleInstruction_def parseKernelConfigParameter_def
        on_builder_def plain_word_def)
qed

lemma config_lines_read:
  assumes "\<forall>l \<in> set ls. config_line l" and "ap_parsingState p = KernelConfigLines" and "ap_currentKernelBuilder p = Some b"
  shows "foldE parse_asm_line ls p = Inr (p\<lparr>ap_currentKernelBuilder := Some (b\<lparr>kb_config := kb_config b @ ls\<rparr>)\<rparr>)"
  using assms
proof (induction ls arbitrary: p b)
  case (Cons l ls)
  then show ?case using config_line_read [of l p b] by simp
qed simp

lemma instr_line_read:
  assumes "wf_line l" and "ap_parsingState p = KernelInstructions" and "ap_currentKernelBuilder p = Some b"
  shows "parse_asm_line (print_line l) p =
    Inr (p\<lparr>ap_currentKernelBuilder := Some (b\<lparr>kb_instructions := kb_instructions b @ [print_line l]\<rparr>)\<rparr>)"
proof (cases l)
  case (Label_line n)
  have "plain_word (print_line l)" "\<not> startsWith (print_line l) ''/*''"
    using show_plain(1) by (auto simp: Label_line plain_word_def isspace_def startsWith_def)
  then show ?thesis using plain_word_split [of "print_line l" 1] assms(2,3)
    by (simp add: parse_asm_line_def Let_def at_index_def parseSingleInstruction_def parseKernelInstruction_def
        push_instruction_def on_builder_def Label_line)
next
  case (Instr_line a m as)
  let ?addr = "''/*'' @ print_addr a @ ''*/''"
  have m: "\<forall>c \<in> set m. \<not> isspace c" "m \<noteq> []" using assms(1) Instr_line by auto
  have addr: "startsWith (print_line l) ''/*''" "startsWith ?addr ''/*''" "endsWith ?addr ''*/''"
    "\<not> startsWith ?addr ''.kernel''" "print_line l \<noteq> []" "substr_from 2 ?addr = Inr (print_addr a @ ''*/'')"
    by (simp_all add: Instr_line startsWith_def endsWith_def substr_from_def)
  have "split_max 2 (print_line l) (CHR '' '') = ?addr # m # (if as = [] then [] else [print_args as])"
    unfolding Instr_line by (rule split_line_raw [OF m])
  then show ?thesis using assms(2,3) addr
    by (cases "as = []") (simp_all add: parse_asm_line_def Let_def at_index_def parseParameter_def
        parseKernelInstruction_def push_instruction_def on_builder_def del: append.simps print_line.simps)
qed

lemma instr_lines_read:
  assumes "\<forall>l \<in> set ls. wf_line l" and "ap_parsingState p = KernelInstructions" and "ap_currentKernelBuilder p = Some b"
  shows "foldE parse_asm_line (map print_line ls) p =
    Inr (p\<lparr>ap_currentKernelBuilder := Some (b\<lparr>kb_instructions := kb_instructions b @ map print_line ls\<rparr>)\<rparr>)"
  using assms
proof (induction ls arbitrary: p b)
  case (Cons l ls)
  then show ?case using instr_line_read [of l p b] by simp
qed simp

lemma kernel_line_read:
  assumes "plain_word n"
  shows "parse_asm_line (''.kernel '' @ n) p = Inr ((finish_builder p)\<lparr>ap_currentKernelBuilder := Some (new_builder n)\<rparr>)"
proof -
  have "plain_word ''.kernel''" by (simp add: plain_word_def isspace_def)
  then have "split_max 1 (''.kernel '' @ n) (CHR '' '') = [''.kernel'', n]"
    using plain_words_split [of "''.kernel''" n] assms by (simp add: plain_word_def)
  moreover have "\<not> startsWith (''.kernel '' @ n) ''/*''" "startsWith ''.kernel'' ''.kernel''" by (simp_all add: startsWith_def)
  ultimately show ?thesis by (simp add: parse_asm_line_def Let_def at_index_def parseParameter_def)
qed

lemma section_lines_read:
  "parse_asm_line ''.config'' p = Inr (p\<lparr>ap_parsingState := KernelConfigLines\<rparr>)"
  "parse_asm_line ''.text'' p = Inr (p\<lparr>ap_parsingState := KernelInstructions\<rparr>)"
proof -
  have "plain_word ''.config''" "plain_word ''.text''" by (simp_all add: plain_word_def isspace_def)
  then have "split_max 1 ''.config'' (CHR '' '') = [''.config'']" "split_max 1 ''.text'' (CHR '' '') = [''.text'']"
    by (simp_all only: plain_word_split)
  then show "parse_asm_line ''.config'' p = Inr (p\<lparr>ap_parsingState := KernelConfigLines\<rparr>)"
    "parse_asm_line ''.text'' p = Inr (p\<lparr>ap_parsingState := KernelInstructions\<rparr>)"
    by (simp_all add: parse_asm_line_def Let_def at_index_def parseSingleInstruction_def startsWith_def)
qed

text \<open>One kernel: what was current is finished, and the kernel is current.\<close>

lemma kernel_read:
  assumes "wf_kernel_text k"
  shows "foldE parse_asm_line (kernel_lines k) p = Inr ((finish_builder p)
    \<lparr>ap_parsingState := KernelInstructions, ap_currentKernelBuilder := Some (builder_of k)\<rparr>)"
proof -
  let ?q = "(finish_builder p)\<lparr>ap_currentKernelBuilder := Some (new_builder (kt_name k)), ap_parsingState := KernelConfigLines\<rparr>"
  let ?b = "(new_builder (kt_name k))\<lparr>kb_config := kt_config k\<rparr>"
  have config: "foldE parse_asm_line (kt_config k) ?q = Inr (?q\<lparr>ap_currentKernelBuilder := Some ?b\<rparr>)"
    using config_lines_read [of "kt_config k" ?q "new_builder (kt_name k)"] assms
    by (simp add: wf_kernel_text_def new_builder_def)
  let ?r = "(finish_builder p)\<lparr>ap_currentKernelBuilder := Some ?b, ap_parsingState := KernelInstructions\<rparr>"
  have "foldE parse_asm_line (map print_line (kt_lines k)) ?r = Inr (?r\<lparr>ap_currentKernelBuilder := Some (builder_of k)\<rparr>)"
    using instr_lines_read [of "kt_lines k" ?r ?b] assms
    by (simp add: wf_kernel_text_def wf_listing_def builder_of_def new_builder_def)
  then show ?thesis
    unfolding kernel_lines_def foldE_append foldE.simps
    using kernel_line_read [of "kt_name k" p] assms config by (simp add: section_lines_read wf_kernel_text_def)
qed

lemma kernels_read:
  assumes "\<forall>k \<in> set ks. wf_kernel_text k"
  shows "\<exists>q. foldE parse_asm_line (concat (map kernel_lines ks)) p = Inr q
    \<and> ap_parsingResult (finish_builder q) = (ap_parsingResult (finish_builder p))
        \<lparr>bd_kernelBuilders := bd_kernelBuilders (ap_parsingResult (finish_builder p)) @ map builder_of ks\<rparr>"
  using assms
proof (induction ks arbitrary: p)
  case Nil
  then show ?case by simp
next
  case (Cons k ks)
  let ?p = "(finish_builder p)\<lparr>ap_parsingState := KernelInstructions, ap_currentKernelBuilder := Some (builder_of k)\<rparr>"
  obtain q where "foldE parse_asm_line (concat (map kernel_lines ks)) ?p = Inr q"
    "ap_parsingResult (finish_builder q) = (ap_parsingResult (finish_builder ?p))
       \<lparr>bd_kernelBuilders := bd_kernelBuilders (ap_parsingResult (finish_builder ?p)) @ map builder_of ks\<rparr>"
    using Cons by (meson list.set_intros(2))
  moreover have "ap_parsingResult (finish_builder ?p) = (ap_parsingResult (finish_builder p))
       \<lparr>bd_kernelBuilders := bd_kernelBuilders (ap_parsingResult (finish_builder p)) @ [builder_of k]\<rparr>"
    by (simp add: finish_builder_def on_result_def split: option.splits)
  ultimately show ?case using kernel_read [of k p] Cons.prems by (simp add: foldE_append)
qed

text \<open>A line that trimming leaves alone and that holds no line break.\<close>

definition clean :: "string \<Rightarrow> bool" where
  "clean l \<longleftrightarrow> l \<noteq> [] \<and> \<not> isspace (hd l) \<and> \<not> isspace (last l) \<and> CHR 0x0A \<notin> set l"

lemma clean_plain: "plain_word w \<Longrightarrow> clean w"
  by (auto simp: clean_def plain_word_def isspace_def)

lemma clean_join: "clean a \<Longrightarrow> clean b \<Longrightarrow> CHR 0x0A \<notin> set d \<Longrightarrow> clean (a @ d @ b)"
  by (auto simp: clean_def)

lemma clean_args: "as \<noteq> [] \<Longrightarrow> clean (print_args as)"
proof -
  assume "as \<noteq> []"
  moreover have operand_clean: "clean (print_operand a)" for a
    using print_operand_plain print_operand_nonempty [of a] by (intro clean_plain) (auto simp: plain_word_def)
  ultimately show ?thesis unfolding print_args_def
  proof (induction as rule: induct_list012)
    case (3 a b as)
    then show ?case using clean_join [OF operand_clean [of a], of _ "'', ''"] by simp
  qed (simp_all add: operand_clean)
qed

lemma clean_print_line: "wf_line l \<Longrightarrow> clean (print_line l)"
proof (cases l)
  case (Label_line n)
  then have "plain_word (print_line l)"
    using show_plain(1) by (auto simp: plain_word_def isspace_def)
  then show ?thesis by (rule clean_plain)
next
  case (Instr_line a m as)
  assume "wf_line l"
  then have "plain_word m" using Instr_line by (simp add: plain_word_def)
  moreover have "plain_word (''/*'' @ print_addr a @ ''*/'')"
    using addr_text_plain by (simp only: plain_word_def) simp
  ultimately have "clean ((''/*'' @ print_addr a @ ''*/'') @ '' '' @ m)"
    by (intro clean_join clean_plain) simp_all
  then show ?thesis
    using Instr_line clean_args [of as] clean_join [of _ "print_args as" "'' ''"] by (cases "as = []") fastforce+
qed

lemma kernel_lines_clean:
  assumes "wf_kernel_text k" and "l \<in> set (kernel_lines k)"
  shows "clean l"
proof -
  have "clean (''.kernel'' @ '' '' @ kt_name k)"
    using assms(1) by (intro clean_join clean_plain) (simp_all add: wf_kernel_text_def plain_word_def isspace_def)
  moreover have "clean ''.config''" "clean ''.text''" by (simp_all add: clean_def isspace_def)
  moreover have "clean c" if "config_line c" for c
    using that unfolding config_line_def by (auto intro: clean_plain clean_join [of _ _ "'' ''", simplified])
  ultimately show ?thesis
    using assms clean_print_line by (auto simp: kernel_lines_def wf_kernel_text_def wf_listing_def)
qed

lemma clean_trim: "clean l \<Longrightarrow> trim l = l"
  by (rule trim_id) (simp add: clean_def)

text \<open>
  C12: A disassembled program text gives one kernel builder per kernel, with its name,
  configuration lines and code, and the code of each parses to the listed instructions.
\<close>

theorem program_text_read:
  assumes "\<forall>k \<in> set ks. wf_kernel_text k" and "ks \<noteq> []"
  shows "\<exists>r p. parseAsm (join_pieces [CHR 0x0A] (concat (map kernel_lines ks))) new_asm_parser = Inr (r, p)
    \<and> bd_kernelBuilders r = map builder_of ks
    \<and> (\<forall>k \<in> set ks. \<exists>kc. parseKernelCode (kb_instructions (builder_of k)) = Inr kc
        \<and> (\<forall>i < length (instrs_of (kt_lines k)). get_instr kc (key_of (instrs_of (kt_lines k) ! i))
            = Inr (read_instr (instrs_of (kt_lines k) ! i) (width_of (instrs_of (kt_lines k)) i))))"
proof -
  let ?ls = "concat (map kernel_lines ks)"
  have clean: "trim l = l \<and> CHR 0x0A \<notin> set l \<and> l \<noteq> []" if "l \<in> set ?ls" for l
    using that assms(1) kernel_lines_clean clean_trim by (auto simp: clean_def)
  have ls: "?ls \<noteq> []" using assms(2) by (auto simp: kernel_lines_def neq_Nil_conv)
  then have "last ?ls \<noteq> []" using clean [OF last_in_set] by blast
  then have "split (join_pieces [CHR 0x0A] ?ls) (CHR 0x0A) = ?ls"
    using clean ls by (intro split_join) blast+
  moreover have "map trim ?ls = ?ls" by (rule map_idI) (use clean in blast)
  moreover obtain q where "foldE parse_asm_line ?ls new_asm_parser = Inr q"
    "bd_kernelBuilders (ap_parsingResult (finish_builder q)) = map builder_of ks"
    using kernels_read [OF assms(1), of new_asm_parser]
    by (auto simp: new_asm_parser_def new_result_def finish_builder_def)
  moreover have "\<exists>kc. parseKernelCode (kb_instructions (builder_of k)) = Inr kc
        \<and> (\<forall>i < length (instrs_of (kt_lines k)). get_instr kc (key_of (instrs_of (kt_lines k) ! i))
            = Inr (read_instr (instrs_of (kt_lines k) ! i) (width_of (instrs_of (kt_lines k)) i)))" if "k \<in> set ks" for k
    using printed_listing_read [of "kt_lines k"] that assms(1) by (auto simp: wf_kernel_text_def builder_of_def)
  ultimately show ?thesis
    by (auto simp: parseAsm_def Let_def new_asm_parser_def)
qed

definition sample_text :: kernel_text where
  "sample_text = \<lparr>kt_name = ''k'', kt_config = [''.sgprsnum 8'', ''.useargs''], kt_lines = sample_listing\<rparr>"

lemma program_text_read_witness:
  "\<exists>r p. parseAsm (join_pieces [CHR 0x0A] (concat (map kernel_lines [sample_text]))) new_asm_parser = Inr (r, p)
    \<and> bd_kernelBuilders r = [builder_of sample_text]"
proof -
  have "config_line ''.sgprsnum 8''"
    unfolding config_line_def
    by (intro disjI1 exI [of _ "''.sgprsnum''"] exI [of _ "''8''"])
      (simp add: plain_word_def isspace_def startsWith_def)
  moreover have "config_line ''.useargs''"
    unfolding config_line_def by (simp add: plain_word_def isspace_def)
  moreover have "wf_listing sample_listing"
    using sample_mnemonics by (simp add: wf_listing_def sample_listing_def isspace_def)
  ultimately have "wf_kernel_text sample_text"
    by (simp add: wf_kernel_text_def sample_text_def plain_word_def isspace_def)
  with program_text_read [of "[sample_text]"] show ?thesis by fastforce
qed

end
