(* ===== verification/ClObjects.thy ===== *)
theory ClObjects
  imports DeviceConfigs BinaryAsms
begin

text \<open>
  The objects of the OpenCL runtime (\<open>driver/src/runtime/icd\<close>, \<open>command/Command.h\<close>,
  \<open>kernel/KernelArgument.hpp\<close>) and the operations of their classes that touch no other object.

  The state holds one map per class from references to objects; reference 0 is the null pointer, and
  using a reference that is null or whose object was deleted is undefined. Host memory is a map from
  block numbers to bytes; a pointer is a block and an offset in it. Blocks that the runtime allocated
  with \<open>new[]\<close> are recorded, because only those may be deleted. Work sizes that the host passes are
  in blocks of their own. Calls of callbacks are recorded, not run: a callback that uses the API
  itself is not modelled. Time is a sequence of clock readings.
\<close>

unbundle bit_operations_syntax

section \<open>The objects\<close>

type_synonym ref = nat
type_synonym pointer = "nat \<times> nat"

abbreviation null_ref :: ref where "null_ref \<equiv> 0"
abbreviation null_pointer :: pointer where "null_pointer \<equiv> (0, 0)"

abbreviation (input) CL_COMPLETE :: cl_int where "CL_COMPLETE \<equiv> 0"
abbreviation (input) CL_RUNNING :: cl_int where "CL_RUNNING \<equiv> 1"
abbreviation (input) CL_SUBMITTED :: cl_int where "CL_SUBMITTED \<equiv> 2"
abbreviation (input) CL_QUEUED :: cl_int where "CL_QUEUED \<equiv> 3"

record Callback =
  cb_function :: ref
  cb_userData :: ref

record CLDeviceId =
  dv_deviceType :: u64
  dv_globalMemorySize :: u64
  dv_constantMemorySize :: u64
  dv_localMemorySize :: u64
  dv_usedGlobalMemory :: u64
  dv_usedLocalMemory :: u64

record CLContext =
  cx_callback :: "ref option"
  cx_callbackUserData :: ref
  cx_referenceCount :: u32

record CLMem =
  mo_context :: ref
  mo_address :: pointer
  mo_size :: u64
  mo_kernelCanRead :: bool
  mo_kernelCanWrite :: bool
  mo_hostCanRead :: bool
  mo_hostCanWrite :: bool
  mo_referenceCount :: u32
  mo_destructorCallbacks :: "Callback list"

record CLEvent =
  ev_command :: ref
  ev_context :: ref
  ev_commandQueue :: ref
  ev_isUserEvent :: bool
  ev_referenceCount :: u32
  ev_status :: cl_int
  ev_timeQueued :: u64
  ev_timeSubmitted :: u64
  ev_timeStart :: u64
  ev_timeEnd :: u64
  ev_callbacks :: "cl_int \<rightharpoonup> Callback list"

datatype CommandClass =
  BufferReadCommand ref u64 u64 pointer
| BufferWriteCommand ref u64 u64 pointer
| BufferFillCommand ref pointer u64 u64 u64
| BufferCopyCommand ref ref u64 u64 u64
| KernelExecutionCommand ref u32 ref ref ref

record Command =
  cm_commandQueue :: ref
  cm_waitList :: "ref list"
  cm_event :: ref
  cm_class :: CommandClass

record CLCommandQueue =
  cq_context :: ref
  cq_properties :: u64
  cq_referenceCount :: u32
  cq_commands :: "ref list"
  cq_flushInProcess :: bool

datatype KernelArgumentValueType = BytesValue pointer | MemValue ref | NullValue

record KernelArgumentValue =
  av_index :: u32
  av_size :: u64
  av_value :: KernelArgumentValueType

record KernelArgument =
  ag_info :: KernelArgumentInfo
  ag_value :: "KernelArgumentValue option"

record CLKernel =
  kr_name :: string
  kr_requiredWorkGroupSize :: KernelWorkGroupSize
  kr_config :: "string list"
  kr_instructions :: "string list"
  kr_program :: ref
  kr_referenceCount :: u32
  kr_arguments :: "KernelArgument list"

record CLProgram =
  pg_context :: ref
  pg_binarySize :: u64
  pg_binary :: pointer
  pg_buildStatus :: cl_int
  pg_buildLog :: string
  pg_disassembledBinary :: "BinaryDisassemblingResult option"
  pg_createdKernels :: "ref list"
  pg_referenceCount :: u32

text \<open>What the driver sends to the emulator process (\<open>common/ipc/proto/KernelProto.h\<close>).\<close>

record ConfigProto =
  pr_dims :: u32
  pr_globalWorkOffset :: "u64 list"
  pr_globalWorkSize :: "u64 list"
  pr_localWorkSize :: "u64 list"
  pr_parameters :: "string list"

datatype ArgumentKind = POINTER_ARG | SCALAR_ARG

record ArgumentProto =
  pr_argName :: string
  pr_kind :: ArgumentKind
  pr_data :: "u8 list"
  pr_size :: u32
  pr_readPermission :: bool
  pr_writePermission :: bool

record KernelProto =
  pr_name :: string
  pr_config :: ConfigProto
  pr_instructions :: "string list"
  pr_args :: "ArgumentProto list"

record callback_call =
  cl_callback :: Callback
  cl_object :: ref
  cl_status :: cl_int

record Runtime =
  rt_platform :: "CLPlatformId option"
  rt_device :: "CLDeviceId option"
  rt_parameters :: parameters
  rt_contexts :: "ref \<rightharpoonup> CLContext"
  rt_mems :: "ref \<rightharpoonup> CLMem"
  rt_events :: "ref \<rightharpoonup> CLEvent"
  rt_commands :: "ref \<rightharpoonup> Command"
  rt_queues :: "ref \<rightharpoonup> CLCommandQueue"
  rt_kernels :: "ref \<rightharpoonup> CLKernel"
  rt_programs :: "ref \<rightharpoonup> CLProgram"
  rt_blocks :: "nat \<rightharpoonup> u8 list"
  rt_new_blocks :: "nat set"
  rt_sizes :: "ref \<rightharpoonup> u64 list"
  rt_next :: nat
  rt_clock :: "nat \<Rightarrow> u64"
  rt_ticks :: nat
  rt_calls :: "callback_call list"
  rt_sent :: "KernelProto list"

section \<open>Using objects\<close>

definition deref :: "(Runtime \<Rightarrow> ref \<rightharpoonup> 'a) \<Rightarrow> ref \<Rightarrow> (Runtime, 'a) M" where
  "deref heap r = liftM (\<lambda>s. if r = null_ref then Inl (Undefined ''null pointer'')
     else case heap s r of None \<Rightarrow> Inl (Undefined ''dangling pointer'') | Some x \<Rightarrow> Inr x)"

abbreviation the_device :: "(Runtime, CLDeviceId) M" where
  "the_device \<equiv> liftM (\<lambda>s. case rt_device s of None \<Rightarrow> Inl (Undefined ''null pointer'') | Some d \<Rightarrow> Inr d)"

definition put_context :: "ref \<Rightarrow> CLContext option \<Rightarrow> (Runtime, unit) M" where
  "put_context r x = modifyM (\<lambda>s. s\<lparr>rt_contexts := (rt_contexts s)(r := x)\<rparr>)"

definition put_mem :: "ref \<Rightarrow> CLMem option \<Rightarrow> (Runtime, unit) M" where
  "put_mem r x = modifyM (\<lambda>s. s\<lparr>rt_mems := (rt_mems s)(r := x)\<rparr>)"

definition put_event :: "ref \<Rightarrow> CLEvent option \<Rightarrow> (Runtime, unit) M" where
  "put_event r x = modifyM (\<lambda>s. s\<lparr>rt_events := (rt_events s)(r := x)\<rparr>)"

definition put_command :: "ref \<Rightarrow> Command option \<Rightarrow> (Runtime, unit) M" where
  "put_command r x = modifyM (\<lambda>s. s\<lparr>rt_commands := (rt_commands s)(r := x)\<rparr>)"

definition put_queue :: "ref \<Rightarrow> CLCommandQueue option \<Rightarrow> (Runtime, unit) M" where
  "put_queue r x = modifyM (\<lambda>s. s\<lparr>rt_queues := (rt_queues s)(r := x)\<rparr>)"

definition put_kernel :: "ref \<Rightarrow> CLKernel option \<Rightarrow> (Runtime, unit) M" where
  "put_kernel r x = modifyM (\<lambda>s. s\<lparr>rt_kernels := (rt_kernels s)(r := x)\<rparr>)"

definition put_program :: "ref \<Rightarrow> CLProgram option \<Rightarrow> (Runtime, unit) M" where
  "put_program r x = modifyM (\<lambda>s. s\<lparr>rt_programs := (rt_programs s)(r := x)\<rparr>)"

text \<open>A number that no object and no block has yet.\<close>

definition fresh :: "(Runtime, ref) M" where
  "fresh s = (Inr (rt_next s), s\<lparr>rt_next := rt_next s + 1\<rparr>)"

definition now :: "(Runtime, u64) M" where
  "now s = (Inr (rt_clock s (rt_ticks s)), s\<lparr>rt_ticks := rt_ticks s + 1\<rparr>)"

section \<open>Host memory\<close>

definition new_block :: "u8 list \<Rightarrow> (Runtime, pointer) M" where
  "new_block bs = bindM fresh (\<lambda>b. bindM (modifyM (\<lambda>s. s\<lparr>rt_blocks := (rt_blocks s)(b \<mapsto> bs),
     rt_new_blocks := insert b (rt_new_blocks s)\<rparr>)) (\<lambda>_. retM (b, 0)))"

definition read_block :: "pointer \<Rightarrow> nat \<Rightarrow> Runtime \<Rightarrow> u8 list result" where
  "read_block p n s =
     (case rt_blocks s (fst p) of
        None \<Rightarrow> Inl (Undefined ''dangling pointer'')
      | Some bs \<Rightarrow> if snd p + n \<le> length bs then Inr (take n (drop (snd p) bs)) else Inl (Undefined ''memcpy''))"

definition write_block :: "pointer \<Rightarrow> u8 list \<Rightarrow> (Runtime, unit) M" where
  "write_block p xs s =
     (case rt_blocks s (fst p) of
        None \<Rightarrow> (Inl (Undefined ''dangling pointer''), s)
      | Some bs \<Rightarrow>
          if snd p + length xs \<le> length bs
          then (Inr (), s\<lparr>rt_blocks := (rt_blocks s)(fst p \<mapsto>
                  take (snd p) bs @ xs @ drop (snd p + length xs) bs)\<rparr>)
          else (Inl (Undefined ''memcpy''), s))"

text \<open>\<open>memcpy\<close>: the two areas must not overlap.\<close>

definition memcpy :: "pointer \<Rightarrow> pointer \<Rightarrow> nat \<Rightarrow> (Runtime, unit) M" where
  "memcpy dst src n =
     (if fst dst = fst src \<and> snd dst < snd src + n \<and> snd src < snd dst + n
      then throwM (Undefined ''memcpy of overlapping areas'')
      else bindM (liftM (read_block src n)) (write_block dst))"

text \<open>\<open>delete[]\<close>: a null pointer is ignored, anything but the start of a \<open>new[]\<close> is undefined.\<close>

definition delete_block :: "pointer \<Rightarrow> (Runtime, unit) M" where
  "delete_block p s =
     (if p = null_pointer then (Inr (), s)
      else if snd p = 0 \<and> fst p \<in> rt_new_blocks s \<and> rt_blocks s (fst p) \<noteq> None
      then (Inr (), s\<lparr>rt_blocks := (rt_blocks s)(fst p := None), rt_new_blocks := rt_new_blocks s - {fst p}\<rparr>)
      else (Inl (Undefined ''delete''), s))"

definition plus_pointer :: "pointer \<Rightarrow> u64 \<Rightarrow> pointer" where
  "plus_pointer p n = (fst p, snd p + unat n)"

section \<open>Events\<close>

definition isQueued :: "CLEvent \<Rightarrow> bool" where
  "isQueued e \<longleftrightarrow> ev_status e = CL_QUEUED"

definition isSubmitted :: "CLEvent \<Rightarrow> bool" where
  "isSubmitted e \<longleftrightarrow> ev_status e = CL_SUBMITTED"

definition isRunning :: "CLEvent \<Rightarrow> bool" where
  "isRunning e \<longleftrightarrow> ev_status e = CL_RUNNING"

definition isCompleted :: "CLEvent \<Rightarrow> bool" where
  "isCompleted e \<longleftrightarrow> ev_status e = CL_COMPLETE \<or> ev_status e < 0"

text \<open>\<open>setCallback\<close> puts a new stack with this one callback.\<close>

definition setCallback :: "ref \<Rightarrow> cl_int \<Rightarrow> Callback \<Rightarrow> (Runtime, unit) M" where
  "setCallback event status callback =
     bindM (deref rt_events event) (\<lambda>e.
     put_event event (Some (e\<lparr>ev_callbacks := (ev_callbacks e)(status \<mapsto> [callback])\<rparr>)))"

definition callCallback :: "ref \<Rightarrow> cl_int \<Rightarrow> (Runtime, unit) M" where
  "callCallback event status =
     (let statusType = (if status < 0 then CL_COMPLETE else status)
      in bindM (deref rt_events event) (\<lambda>e.
         let callbacks = (case ev_callbacks e statusType of None \<Rightarrow> [] | Some cs \<Rightarrow> cs)
         in bindM (put_event event (Some (e\<lparr>ev_callbacks := (ev_callbacks e)(statusType \<mapsto> callbacks)\<rparr>))) (\<lambda>_.
            modifyM (\<lambda>s. s\<lparr>rt_calls := rt_calls s @ map (\<lambda>c. \<lparr>cl_callback = c, cl_object = event, cl_status = status\<rparr>)
              callbacks\<rparr>))))"

definition setQueued :: "ref \<Rightarrow> (Runtime, unit) M" where
  "setQueued event =
     bindM (deref rt_events event) (\<lambda>e. bindM now (\<lambda>t.
     put_event event (Some (e\<lparr>ev_status := CL_QUEUED, ev_timeQueued := t\<rparr>))))"

definition setSubmitted :: "ref \<Rightarrow> (Runtime, unit) M" where
  "setSubmitted event =
     bindM (deref rt_events event) (\<lambda>e. bindM now (\<lambda>t.
     bindM (put_event event (Some (e\<lparr>ev_status := CL_SUBMITTED, ev_timeSubmitted := t\<rparr>))) (\<lambda>_.
     callCallback event CL_SUBMITTED)))"

definition setRunning :: "ref \<Rightarrow> (Runtime, unit) M" where
  "setRunning event =
     bindM (deref rt_events event) (\<lambda>e. bindM now (\<lambda>t.
     bindM (put_event event (Some (e\<lparr>ev_status := CL_RUNNING, ev_timeStart := t\<rparr>))) (\<lambda>_.
     callCallback event CL_RUNNING)))"

definition setCompleted :: "ref \<Rightarrow> cl_int \<Rightarrow> (Runtime, unit) M" where
  "setCompleted event status =
     bindM (liftM (\<lambda>_. assertE (status = CL_COMPLETE \<or> status < 0) ''status == CL_COMPLETE || status < 0'')) (\<lambda>_.
     bindM (deref rt_events event) (\<lambda>e. bindM now (\<lambda>t.
     bindM (put_event event (Some (e\<lparr>ev_status := status, ev_timeEnd := t\<rparr>))) (\<lambda>_.
     callCallback event status))))"

section \<open>Queues\<close>

definition isProfilingEnabled :: "CLCommandQueue \<Rightarrow> bool" where
  "isProfilingEnabled q \<longleftrightarrow> cq_properties q AND 2 \<noteq> 0"

definition isOutOfOrder :: "CLCommandQueue \<Rightarrow> bool" where
  "isOutOfOrder q \<longleftrightarrow> cq_properties q AND 1 \<noteq> 0"

section \<open>Reference counts that touch no other object\<close>

definition clRetainContext :: "ref \<Rightarrow> (Runtime, cl_int) M" where
  "clRetainContext context =
     (if context = null_ref then retM CL_INVALID_CONTEXT
      else bindM (deref rt_contexts context) (\<lambda>c.
           bindM (put_context context (Some (c\<lparr>cx_referenceCount := cx_referenceCount c + 1\<rparr>))) (\<lambda>_. retM CL_SUCCESS)))"

definition clReleaseContext :: "ref \<Rightarrow> (Runtime, cl_int) M" where
  "clReleaseContext context =
     (if context = null_ref then retM CL_INVALID_CONTEXT
      else bindM (deref rt_contexts context) (\<lambda>c.
           let n = cx_referenceCount c - 1
           in bindM (put_context context (if n = 0 then None else Some (c\<lparr>cx_referenceCount := n\<rparr>))) (\<lambda>_.
              retM CL_SUCCESS)))"

definition clRetainCommandQueue :: "ref \<Rightarrow> (Runtime, cl_int) M" where
  "clRetainCommandQueue command_queue =
     (if command_queue = null_ref then retM CL_INVALID_COMMAND_QUEUE
      else bindM (deref rt_queues command_queue) (\<lambda>q.
           bindM (put_queue command_queue (Some (q\<lparr>cq_referenceCount := cq_referenceCount q + 1\<rparr>))) (\<lambda>_.
           retM CL_SUCCESS)))"

definition clRetainEvent :: "ref \<Rightarrow> (Runtime, cl_int) M" where
  "clRetainEvent event =
     (if event = null_ref then retM CL_INVALID_EVENT
      else bindM (deref rt_events event) (\<lambda>e.
           bindM (put_event event (Some (e\<lparr>ev_referenceCount := ev_referenceCount e + 1\<rparr>))) (\<lambda>_. retM CL_SUCCESS)))"

definition clRetainMemObject :: "ref \<Rightarrow> (Runtime, cl_int) M" where
  "clRetainMemObject memobj =
     (if memobj = null_ref then retM CL_INVALID_MEM_OBJECT
      else bindM (deref rt_mems memobj) (\<lambda>m.
           bindM (put_mem memobj (Some (m\<lparr>mo_referenceCount := mo_referenceCount m + 1\<rparr>))) (\<lambda>_. retM CL_SUCCESS)))"

definition clRetainKernel :: "ref \<Rightarrow> (Runtime, cl_int) M" where
  "clRetainKernel krn =
     (if krn = null_ref then retM CL_INVALID_KERNEL
      else bindM (deref rt_kernels krn) (\<lambda>k.
           bindM (put_kernel krn (Some (k\<lparr>kr_referenceCount := kr_referenceCount k + 1\<rparr>))) (\<lambda>_. retM CL_SUCCESS)))"

definition clRetainProgram :: "ref \<Rightarrow> (Runtime, cl_int) M" where
  "clRetainProgram program =
     (if program = null_ref then retM CL_INVALID_PROGRAM
      else bindM (deref rt_programs program) (\<lambda>p.
           bindM (put_program program (Some (p\<lparr>pg_referenceCount := pg_referenceCount p + 1\<rparr>))) (\<lambda>_. retM CL_SUCCESS)))"

section \<open>Memory objects\<close>

definition set_used :: "(u64 \<Rightarrow> u64) \<Rightarrow> (Runtime, unit) M" where
  "set_used f = bindM the_device (\<lambda>d.
     modifyM (\<lambda>s. s\<lparr>rt_device := Some (d\<lparr>dv_usedGlobalMemory := f (dv_usedGlobalMemory d)\<rparr>)\<rparr>))"

text \<open>The destructor calls the callbacks, the last registered first, and releases the context.\<close>

definition delete_mem :: "ref \<Rightarrow> (Runtime, unit) M" where
  "delete_mem memobj =
     bindM (deref rt_mems memobj) (\<lambda>m.
     bindM (modifyM (\<lambda>s. s\<lparr>rt_calls := rt_calls s @ map (\<lambda>c. \<lparr>cl_callback = c, cl_object = memobj, cl_status = 0\<rparr>)
       (mo_destructorCallbacks m)\<rparr>)) (\<lambda>_.
     bindM (clReleaseContext (mo_context m)) (\<lambda>_.
     put_mem memobj None)))"

definition clReleaseMemObject :: "ref \<Rightarrow> (Runtime, cl_int) M" where
  "clReleaseMemObject memobj =
     (if memobj = null_ref then retM CL_INVALID_MEM_OBJECT
      else bindM (deref rt_mems memobj) (\<lambda>m.
           let n = mo_referenceCount m - 1
           in bindM (put_mem memobj (Some (m\<lparr>mo_referenceCount := n\<rparr>))) (\<lambda>_.
              bindM (if n = 0
                     then bindM (delete_block (mo_address m)) (\<lambda>_.
                          bindM (deref rt_contexts (mo_context m)) (\<lambda>_.
                          bindM (set_used (\<lambda>used. used - mo_size m)) (\<lambda>_.
                          delete_mem memobj)))
                     else retM ()) (\<lambda>_.
              retM CL_SUCCESS))))"

definition registerCallback :: "ref \<Rightarrow> Callback \<Rightarrow> (Runtime, unit) M" where
  "registerCallback memobj callback =
     bindM (deref rt_mems memobj) (\<lambda>m.
     put_mem memobj (Some (m\<lparr>mo_destructorCallbacks := callback # mo_destructorCallbacks m\<rparr>)))"

definition clSetMemObjectDestructorCallback :: "ref \<Rightarrow> ref \<Rightarrow> ref \<Rightarrow> (Runtime, cl_int) M" where
  "clSetMemObjectDestructorCallback memobj pfn_notify user_data =
     (if memobj = null_ref then retM CL_INVALID_MEM_OBJECT
      else if pfn_notify = null_ref then retM CL_INVALID_VALUE
      else bindM (registerCallback memobj \<lparr>cb_function = pfn_notify, cb_userData = user_data\<rparr>) (\<lambda>_.
           retM CL_SUCCESS))"

end
