(* ===== verification/ClRelease.thy ===== *)
theory ClRelease
  imports ClObjects
begin

text \<open>
  Running commands and giving objects back (\<open>driver/src/runtime/command\<close>, \<open>icd/CLCommandQueue.cpp\<close>,
  \<open>icd/CLEvent.cpp\<close>, \<open>icd/CLKernel.cpp\<close>, \<open>icd/CLProgram.hpp\<close>). These functions call each other: a
  released queue is flushed, a flushed queue runs and deletes its commands, a command runs the
  commands it waits for, and every deleted object releases those it refers to. Each function is a
  definition over the calls it makes; \<open>run_call\<close> ties them together. The recursion follows the
  references of the objects, which nothing in the code bounds, so it takes a bound on its depth and
  fails with \<open>Out_of_fuel\<close> when that is too small. The return codes of these calls, which only
  tell a null argument, are ignored inside the runtime and are added in the functions of the interface.
\<close>

unbundle bit_operations_syntax

datatype call =
  ExecuteCommand ref
| WaitLoop ref
| FlushQueue ref
| FlushLoop ref "ref list"
| DeleteCommands "ref list"
| DeleteCommand ref
| ReleaseEvent ref
| ReleaseCommandQueue ref
| ReleaseKernel ref
| ReleaseProgram ref
| ReleaseKernels "ref list"

type_synonym calls = "call \<Rightarrow> (Runtime, unit) M"

section \<open>Kernels and programs\<close>

definition releaseArgument :: "KernelArgument \<Rightarrow> (Runtime, unit) M" where
  "releaseArgument argument =
     (case ag_value argument of
        None \<Rightarrow> retM ()
      | Some v \<Rightarrow> (case av_value v of
            BytesValue p \<Rightarrow> delete_block p
          | MemValue m \<Rightarrow> bindM (clReleaseMemObject m) (\<lambda>_. retM ())
          | NullValue \<Rightarrow> retM ()))"

definition delete_kernel :: "calls \<Rightarrow> ref \<Rightarrow> (Runtime, unit) M" where
  "delete_kernel do krn =
     bindM (deref rt_kernels krn) (\<lambda>k.
     bindM (forM (kr_arguments k) releaseArgument) (\<lambda>_.
     bindM (if kr_program k \<noteq> null_ref then do (ReleaseProgram (kr_program k)) else retM ()) (\<lambda>_.
     put_kernel krn None)))"

definition release_kernel :: "calls \<Rightarrow> ref \<Rightarrow> (Runtime, unit) M" where
  "release_kernel do krn =
     (if krn = null_ref then retM ()
      else bindM (deref rt_kernels krn) (\<lambda>k.
           let count = kr_referenceCount k - 1
           in bindM (put_kernel krn (Some (k\<lparr>kr_referenceCount := count\<rparr>))) (\<lambda>_.
              if count = 0 then delete_kernel do krn else retM ())))"

definition delete_program :: "calls \<Rightarrow> ref \<Rightarrow> (Runtime, unit) M" where
  "delete_program do program =
     bindM (deref rt_programs program) (\<lambda>p.
     bindM (liftM (\<lambda>_. assertE (pg_disassembledBinary p \<noteq> None) ''disassembledBinary'')) (\<lambda>_.
     bindM (do (ReleaseKernels (pg_createdKernels p))) (\<lambda>_.
     bindM (delete_block (pg_binary p)) (\<lambda>_.
     bindM (clReleaseContext (pg_context p)) (\<lambda>_.
     put_program program None)))))"

definition release_program :: "calls \<Rightarrow> ref \<Rightarrow> (Runtime, unit) M" where
  "release_program do program =
     (if program = null_ref then retM ()
      else bindM (deref rt_programs program) (\<lambda>p.
           let count = pg_referenceCount p - 1
           in bindM (put_program program (Some (p\<lparr>pg_referenceCount := count\<rparr>))) (\<lambda>_.
              if count = 0 then delete_program do program else retM ())))"

section \<open>What a command does\<close>

text \<open>The counter of the loop is an \<open>int\<close>.\<close>

definition fill_loop :: "pointer \<Rightarrow> pointer \<Rightarrow> u64 \<Rightarrow> u64 \<Rightarrow> (Runtime, unit) M" where
  "fill_loop dst pattern patternSize count =
     bindM (forM [0..<min (unat count) (2 ^ 31)] (\<lambda>i.
       memcpy (plus_pointer dst (of_nat i * patternSize)) pattern (unat patternSize))) (\<lambda>_.
     liftM (\<lambda>_. definedE (unat count < 2 ^ 31) ''signed overflow''))"

text \<open>The first \<open>workDim\<close> elements of an array of sizes, none for a null pointer.\<close>

definition read_sizes :: "ref \<Rightarrow> u32 \<Rightarrow> (Runtime, u64 list) M" where
  "read_sizes r workDim =
     (if r = null_ref then retM []
      else bindM (deref rt_sizes r) (\<lambda>xs.
           liftM (\<lambda>_. if unat workDim \<le> length xs then Inr (take (unat workDim) xs)
             else Inl (Undefined ''array index''))))"

definition argument_proto :: "KernelArgument \<Rightarrow> (Runtime, ArgumentProto list) M" where
  "argument_proto arg =
     (case ag_value arg of
        None \<Rightarrow> throwM Bad_optional_access
      | Some v \<Rightarrow>
          (case (ai_class (ag_info arg), av_value v) of
             (PointerInfo _, MemValue m) \<Rightarrow>
               bindM (deref rt_mems m) (\<lambda>mem.
               bindM (liftM (read_block (mo_address mem) (unat (to_u32 (mo_size mem))))) (\<lambda>bs.
               retM [\<lparr>pr_argName = ai_argumentName (ag_info arg), pr_kind = POINTER_ARG, pr_data = bs,
                      pr_size = to_u32 (mo_size mem), pr_readPermission = mo_kernelCanRead mem,
                      pr_writePermission = mo_kernelCanWrite mem\<rparr>]))
           | _ \<Rightarrow> retM []))"

fun argument_protos :: "KernelArgument list \<Rightarrow> (Runtime, ArgumentProto list) M" where
  "argument_protos [] = retM []"
| "argument_protos (arg # args) =
     bindM (argument_proto arg) (\<lambda>a. bindM (argument_protos args) (\<lambda>as. retM (a @ as)))"

text \<open>The request goes to the emulator process; it is recorded.\<close>

definition send_kernel :: "ref \<Rightarrow> u32 \<Rightarrow> ref \<Rightarrow> ref \<Rightarrow> ref \<Rightarrow> (Runtime, unit) M" where
  "send_kernel krn workDim globalWorkOffset globalWorkSize localWorkSize =
     bindM (deref rt_kernels krn) (\<lambda>k.
     bindM (read_sizes globalWorkOffset workDim) (\<lambda>offset.
     bindM (read_sizes globalWorkSize workDim) (\<lambda>global.
     bindM (read_sizes localWorkSize workDim) (\<lambda>lcl.
     bindM (argument_protos (kr_arguments k)) (\<lambda>args.
     modifyM (\<lambda>s. s\<lparr>rt_sent := rt_sent s @ [\<lparr>pr_name = kr_name k,
       pr_config = \<lparr>pr_dims = workDim, pr_globalWorkOffset = offset, pr_globalWorkSize = global,
         pr_localWorkSize = lcl, pr_parameters = kr_config k\<rparr>,
       pr_instructions = kr_instructions k, pr_args = args\<rparr>]\<rparr>))))))"

fun executeImpl :: "CommandClass \<Rightarrow> (Runtime, unit) M" where
  "executeImpl (BufferReadCommand buffer sz offset outputPtr) =
     bindM (deref rt_mems buffer) (\<lambda>m. memcpy outputPtr (plus_pointer (mo_address m) offset) (unat sz))"
| "executeImpl (BufferWriteCommand buffer sz offset dataPtr) =
     bindM (deref rt_mems buffer) (\<lambda>m. memcpy (plus_pointer (mo_address m) offset) dataPtr (unat sz))"
| "executeImpl (BufferFillCommand buffer pattern patternSize offset sz) =
     bindM (liftM (\<lambda>_. definedE (patternSize \<noteq> 0) ''division by zero'')) (\<lambda>_.
     bindM (deref rt_mems buffer) (\<lambda>m.
     fill_loop (plus_pointer (mo_address m) offset) pattern patternSize (sz div patternSize)))"
| "executeImpl (BufferCopyCommand srcBuffer dstBuffer srcOffset dstOffset sz) =
     bindM (deref rt_mems dstBuffer) (\<lambda>d. bindM (deref rt_mems srcBuffer) (\<lambda>s.
     memcpy (plus_pointer (mo_address d) dstOffset) (plus_pointer (mo_address s) srcOffset) (unat sz)))"
| "executeImpl (KernelExecutionCommand krn workDim globalWorkOffset globalWorkSize localWorkSize) =
     send_kernel krn workDim globalWorkOffset globalWorkSize localWorkSize"

text \<open>The destructor of the class of a command, before that of \<open>Command\<close>.\<close>

fun delete_class :: "calls \<Rightarrow> CommandClass \<Rightarrow> (Runtime, unit) M" where
  "delete_class do (BufferReadCommand buffer sz offset outputPtr) =
     bindM (clReleaseMemObject buffer) (\<lambda>_. retM ())"
| "delete_class do (BufferWriteCommand buffer sz offset dataPtr) =
     bindM (clReleaseMemObject buffer) (\<lambda>_. retM ())"
| "delete_class do (BufferFillCommand buffer pattern patternSize offset sz) =
     bindM (clReleaseMemObject buffer) (\<lambda>_. delete_block pattern)"
| "delete_class do (BufferCopyCommand srcBuffer dstBuffer srcOffset dstOffset sz) =
     bindM (clReleaseMemObject srcBuffer) (\<lambda>_. bindM (clReleaseMemObject dstBuffer) (\<lambda>_. retM ()))"
| "delete_class do (KernelExecutionCommand krn workDim globalWorkOffset globalWorkSize localWorkSize) =
     do (ReleaseKernel krn)"

section \<open>Executing and flushing\<close>

definition requireEvent :: "ref \<Rightarrow> (Runtime, ref) M" where
  "requireEvent command =
     bindM (deref rt_commands command) (\<lambda>c.
     bindM (liftM (\<lambda>_. assertE (cm_event c \<noteq> null_ref) ''mEvent != nullptr'')) (\<lambda>_. retM (cm_event c)))"

definition execute_command :: "calls \<Rightarrow> ref \<Rightarrow> (Runtime, unit) M" where
  "execute_command do command =
     bindM (requireEvent command) (\<lambda>event.
     bindM (deref rt_events event) (\<lambda>e.
     bindM (deref rt_commands command) (\<lambda>c.
     if \<not> isQueued e
     then liftM (\<lambda>_. assertE (cm_waitList c = []) ''waitList.empty()'')
     else bindM (deref rt_queues (cm_commandQueue c)) (\<lambda>q.
          bindM (if isOutOfOrder q then do (WaitLoop command) else retM ()) (\<lambda>_.
          bindM (setSubmitted event) (\<lambda>_.
          bindM (setRunning event) (\<lambda>_.
          bindM (executeImpl (cm_class c)) (\<lambda>_.
          setCompleted event CL_COMPLETE))))))))"

text \<open>One turn of the loop over the wait list, whose top is the head of the list.\<close>

definition wait_loop :: "calls \<Rightarrow> ref \<Rightarrow> (Runtime, unit) M" where
  "wait_loop do command =
     bindM (deref rt_commands command) (\<lambda>c.
     case cm_waitList c of
       [] \<Rightarrow> retM ()
     | waitEvent # rest \<Rightarrow>
         bindM (put_command command (Some (c\<lparr>cm_waitList := rest\<rparr>))) (\<lambda>_.
         bindM (deref rt_events waitEvent) (\<lambda>w.
         if ev_isUserEvent w \<and> \<not> isCompleted w then do (WaitLoop command)
         else bindM (if isQueued w then do (ExecuteCommand (ev_command w)) else retM ()) (\<lambda>_.
              bindM (do (ReleaseEvent waitEvent)) (\<lambda>_.
              do (WaitLoop command))))))"

definition flush_queue :: "calls \<Rightarrow> ref \<Rightarrow> (Runtime, unit) M" where
  "flush_queue do queue =
     bindM (deref rt_queues queue) (\<lambda>q.
     if cq_flushInProcess q then retM ()
     else bindM (put_queue queue (Some (q\<lparr>cq_flushInProcess := True\<rparr>))) (\<lambda>_.
          do (FlushLoop queue [])))"

text \<open>
  One turn of the loop over the commands; when there are none left, the executed ones are deleted
  and the flush is over.
\<close>

definition flush_loop :: "calls \<Rightarrow> ref \<Rightarrow> ref list \<Rightarrow> (Runtime, unit) M" where
  "flush_loop do queue executedCommands =
     bindM (deref rt_queues queue) (\<lambda>q.
     if cq_commands q \<noteq> []
     then let command = (if isOutOfOrder q then last (cq_commands q) else hd (cq_commands q));
              rest = (if isOutOfOrder q then butlast (cq_commands q) else tl (cq_commands q))
          in bindM (put_queue queue (Some (q\<lparr>cq_commands := rest\<rparr>))) (\<lambda>_.
             bindM (do (ExecuteCommand command)) (\<lambda>_.
             do (FlushLoop queue (executedCommands @ [command]))))
     else bindM (do (DeleteCommands executedCommands)) (\<lambda>_.
          bindM (deref rt_queues queue) (\<lambda>q.
          put_queue queue (Some (q\<lparr>cq_flushInProcess := False\<rparr>)))))"

fun delete_commands :: "calls \<Rightarrow> ref list \<Rightarrow> (Runtime, unit) M" where
  "delete_commands do [] = retM ()"
| "delete_commands do (command # commands) =
     bindM (requireEvent command) (\<lambda>event.
     bindM (deref rt_events event) (\<lambda>e.
     bindM (put_event event (Some (e\<lparr>ev_command := null_ref\<rparr>))) (\<lambda>_.
     bindM (do (DeleteCommand command)) (\<lambda>_.
     do (DeleteCommands commands)))))"

definition delete_command :: "calls \<Rightarrow> ref \<Rightarrow> (Runtime, unit) M" where
  "delete_command do command =
     bindM (deref rt_commands command) (\<lambda>c.
     bindM (delete_class do (cm_class c)) (\<lambda>_.
     bindM (liftM (\<lambda>_. assertE (cm_waitList c = []) ''waitList.empty()'')) (\<lambda>_.
     bindM (if cm_event c \<noteq> null_ref then do (ReleaseEvent (cm_event c)) else retM ()) (\<lambda>_.
     bindM (do (ReleaseCommandQueue (cm_commandQueue c))) (\<lambda>_.
     put_command command None)))))"

definition delete_event :: "calls \<Rightarrow> ref \<Rightarrow> (Runtime, unit) M" where
  "delete_event do event =
     bindM (deref rt_events event) (\<lambda>e.
     bindM (clReleaseContext (ev_context e)) (\<lambda>_.
     bindM (do (ReleaseCommandQueue (ev_commandQueue e))) (\<lambda>_.
     put_event event None)))"

definition release_event :: "calls \<Rightarrow> ref \<Rightarrow> (Runtime, unit) M" where
  "release_event do event =
     (if event = null_ref then retM ()
      else bindM (deref rt_events event) (\<lambda>e.
           let count = ev_referenceCount e - 1
           in bindM (put_event event (Some (e\<lparr>ev_referenceCount := count\<rparr>))) (\<lambda>_.
              if count = 0 then delete_event do event else retM ())))"

definition release_command_queue :: "calls \<Rightarrow> ref \<Rightarrow> (Runtime, unit) M" where
  "release_command_queue do command_queue =
     (if command_queue = null_ref then retM ()
      else bindM (do (FlushQueue command_queue)) (\<lambda>_.
           bindM (deref rt_queues command_queue) (\<lambda>q.
           let count = cq_referenceCount q - 1
           in bindM (put_queue command_queue (Some (q\<lparr>cq_referenceCount := count\<rparr>))) (\<lambda>_.
              if count = 0
              then bindM (clReleaseContext (cq_context q)) (\<lambda>_. put_queue command_queue None)
              else retM ()))))"

fun call_body :: "calls \<Rightarrow> calls" where
  "call_body do (ExecuteCommand c) = execute_command do c"
| "call_body do (WaitLoop c) = wait_loop do c"
| "call_body do (FlushQueue q) = flush_queue do q"
| "call_body do (FlushLoop q cs) = flush_loop do q cs"
| "call_body do (DeleteCommands cs) = delete_commands do cs"
| "call_body do (DeleteCommand c) = delete_command do c"
| "call_body do (ReleaseEvent e) = release_event do e"
| "call_body do (ReleaseCommandQueue q) = release_command_queue do q"
| "call_body do (ReleaseKernel k) = release_kernel do k"
| "call_body do (ReleaseProgram p) = release_program do p"
| "call_body do (ReleaseKernels []) = retM ()"
| "call_body do (ReleaseKernels (k # ks)) = bindM (do (ReleaseKernel k)) (\<lambda>_. do (ReleaseKernels ks))"

primrec run_call :: "nat \<Rightarrow> calls" where
  "run_call 0 = (\<lambda>_. throwM Out_of_fuel)"
| "run_call (Suc n) = call_body (run_call n)"

section \<open>The functions of the interface\<close>

definition clReleaseEvent :: "nat \<Rightarrow> ref \<Rightarrow> (Runtime, cl_int) M" where
  "clReleaseEvent n event =
     (if event = null_ref then retM CL_INVALID_EVENT
      else bindM (run_call n (ReleaseEvent event)) (\<lambda>_. retM CL_SUCCESS))"

definition clReleaseCommandQueue :: "nat \<Rightarrow> ref \<Rightarrow> (Runtime, cl_int) M" where
  "clReleaseCommandQueue n command_queue =
     (if command_queue = null_ref then retM CL_INVALID_COMMAND_QUEUE
      else bindM (run_call n (ReleaseCommandQueue command_queue)) (\<lambda>_. retM CL_SUCCESS))"

definition clReleaseKernel :: "nat \<Rightarrow> ref \<Rightarrow> (Runtime, cl_int) M" where
  "clReleaseKernel n krn =
     (if krn = null_ref then retM CL_INVALID_KERNEL
      else bindM (run_call n (ReleaseKernel krn)) (\<lambda>_. retM CL_SUCCESS))"

definition clReleaseProgram :: "nat \<Rightarrow> ref \<Rightarrow> (Runtime, cl_int) M" where
  "clReleaseProgram n program =
     (if program = null_ref then retM CL_INVALID_PROGRAM
      else bindM (run_call n (ReleaseProgram program)) (\<lambda>_. retM CL_SUCCESS))"

definition clFinish :: "nat \<Rightarrow> ref \<Rightarrow> (Runtime, cl_int) M" where
  "clFinish n command_queue =
     (if command_queue = null_ref then retM CL_INVALID_COMMAND_QUEUE
      else bindM (run_call n (FlushQueue command_queue)) (\<lambda>_. retM CL_SUCCESS))"

definition clFlush :: "nat \<Rightarrow> ref \<Rightarrow> (Runtime, cl_int) M" where
  "clFlush n command_queue = clFinish n command_queue"

end
