(* ===== verification/ClCommands.thy ===== *)
theory ClCommands
  imports ClRelease
begin

text \<open>
  The commands of the OpenCL runtime on queues, events and buffers (\<open>driver/src/runtime/runtime-event.cpp\<close>,
  \<open>runtime-command-queue.cpp\<close>, \<open>runtime-memory-buffer.cpp\<close>, \<open>enqueueCommand\<close> of
  \<open>common/runtime-commons.cpp\<close> and the constructors of \<open>command/\<close> and \<open>icd/\<close>).

  A function that returns an object and sets \<open>*errcode_ret\<close> returns the pair of both; the code is
  None where the function leaves it as it was. A list of events is passed with its count; reading
  past its end is undefined. Allocation succeeds.
\<close>

unbundle bit_operations_syntax

section \<open>Flags\<close>

abbreviation (input) CL_MEM_READ_WRITE :: u64 where "CL_MEM_READ_WRITE \<equiv> 1"
abbreviation (input) CL_MEM_WRITE_ONLY :: u64 where "CL_MEM_WRITE_ONLY \<equiv> 2"
abbreviation (input) CL_MEM_READ_ONLY :: u64 where "CL_MEM_READ_ONLY \<equiv> 4"
abbreviation (input) CL_MEM_USE_HOST_PTR :: u64 where "CL_MEM_USE_HOST_PTR \<equiv> 8"
abbreviation (input) CL_MEM_ALLOC_HOST_PTR :: u64 where "CL_MEM_ALLOC_HOST_PTR \<equiv> 16"
abbreviation (input) CL_MEM_COPY_HOST_PTR :: u64 where "CL_MEM_COPY_HOST_PTR \<equiv> 32"
abbreviation (input) CL_MEM_HOST_WRITE_ONLY :: u64 where "CL_MEM_HOST_WRITE_ONLY \<equiv> 128"
abbreviation (input) CL_MEM_HOST_READ_ONLY :: u64 where "CL_MEM_HOST_READ_ONLY \<equiv> 256"
abbreviation (input) CL_MEM_HOST_NO_ACCESS :: u64 where "CL_MEM_HOST_NO_ACCESS \<equiv> 512"

definition has_flag :: "u64 \<Rightarrow> u64 \<Rightarrow> bool" where
  "has_flag flags flag \<longleftrightarrow> flags AND flag \<noteq> 0"

section \<open>New commands\<close>

definition new_command :: "ref \<Rightarrow> CommandClass \<Rightarrow> (Runtime, ref) M" where
  "new_command commandQueue cls =
     bindM fresh (\<lambda>command.
     bindM (put_command command
       (Some \<lparr>cm_commandQueue = commandQueue, cm_waitList = [], cm_event = null_ref, cm_class = cls\<rparr>)) (\<lambda>_.
     retM command))"

definition BufferReadCommand_new :: "ref \<Rightarrow> ref \<Rightarrow> u64 \<Rightarrow> u64 \<Rightarrow> pointer \<Rightarrow> (Runtime, ref) M" where
  "BufferReadCommand_new commandQueue buffer sz offset outputPtr =
     bindM (clRetainCommandQueue commandQueue) (\<lambda>_.
     bindM (clRetainMemObject buffer) (\<lambda>_.
     new_command commandQueue (BufferReadCommand buffer sz offset outputPtr)))"

definition BufferWriteCommand_new :: "ref \<Rightarrow> ref \<Rightarrow> u64 \<Rightarrow> u64 \<Rightarrow> pointer \<Rightarrow> (Runtime, ref) M" where
  "BufferWriteCommand_new commandQueue buffer sz offset dataPtr =
     bindM (clRetainCommandQueue commandQueue) (\<lambda>_.
     bindM (clRetainMemObject buffer) (\<lambda>_.
     new_command commandQueue (BufferWriteCommand buffer sz offset dataPtr)))"

text \<open>The pattern is copied into an array of the command.\<close>

definition BufferFillCommand_new :: "ref \<Rightarrow> ref \<Rightarrow> pointer \<Rightarrow> u64 \<Rightarrow> u64 \<Rightarrow> u64 \<Rightarrow> (Runtime, ref) M" where
  "BufferFillCommand_new commandQueue buffer pattern patternSize offset sz =
     bindM (clRetainCommandQueue commandQueue) (\<lambda>_.
     bindM (new_block (replicate (unat patternSize) 0)) (\<lambda>copy.
     bindM (memcpy copy pattern (unat patternSize)) (\<lambda>_.
     bindM (clRetainMemObject buffer) (\<lambda>_.
     new_command commandQueue (BufferFillCommand buffer copy patternSize offset sz)))))"

definition BufferCopyCommand_new :: "ref \<Rightarrow> ref \<Rightarrow> ref \<Rightarrow> u64 \<Rightarrow> u64 \<Rightarrow> u64 \<Rightarrow> (Runtime, ref) M" where
  "BufferCopyCommand_new commandQueue srcBuffer dstBuffer srcOffset dstOffset sz =
     bindM (clRetainCommandQueue commandQueue) (\<lambda>_.
     bindM (clRetainMemObject srcBuffer) (\<lambda>_.
     bindM (clRetainMemObject dstBuffer) (\<lambda>_.
     new_command commandQueue (BufferCopyCommand srcBuffer dstBuffer srcOffset dstOffset sz))))"

definition KernelExecutionCommand_new :: "ref \<Rightarrow> ref \<Rightarrow> u32 \<Rightarrow> ref \<Rightarrow> ref \<Rightarrow> ref \<Rightarrow> (Runtime, ref) M" where
  "KernelExecutionCommand_new commandQueue krn workDim globalWorkOffset globalWorkSize localWorkSize =
     bindM (clRetainCommandQueue commandQueue) (\<lambda>_.
     bindM (clRetainKernel krn) (\<lambda>_.
     new_command commandQueue (KernelExecutionCommand krn workDim globalWorkOffset globalWorkSize localWorkSize)))"

text \<open>The constructor of an event reads the queue of its command.\<close>

definition CLEvent_new :: "ref \<Rightarrow> ref \<Rightarrow> (Runtime, ref) M" where
  "CLEvent_new context command =
     bindM (deref rt_commands command) (\<lambda>c.
     bindM fresh (\<lambda>event.
     bindM (clRetainContext context) (\<lambda>_.
     bindM (clRetainCommandQueue (cm_commandQueue c)) (\<lambda>_.
     bindM (put_event event (Some \<lparr>ev_command = command, ev_context = context, ev_commandQueue = cm_commandQueue c,
       ev_isUserEvent = False, ev_referenceCount = 1, ev_status = CL_QUEUED, ev_timeQueued = 0, ev_timeSubmitted = 0,
       ev_timeStart = 0, ev_timeEnd = 0, ev_callbacks = Map.empty\<rparr>)) (\<lambda>_.
     retM event)))))"

definition setEvent :: "ref \<Rightarrow> ref \<Rightarrow> (Runtime, unit) M" where
  "setEvent command event =
     bindM (deref rt_commands command) (\<lambda>c.
     bindM (put_command command (Some (c\<lparr>cm_event := event\<rparr>))) (\<lambda>_.
     bindM (clRetainEvent event) (\<lambda>_. retM ())))"

text \<open>The wait list is a stack: the top is the head of the list.\<close>

definition push_waited :: "ref \<Rightarrow> ref \<Rightarrow> (Runtime, unit) M" where
  "push_waited command event =
     bindM (deref rt_commands command) (\<lambda>c.
     bindM (put_command command (Some (c\<lparr>cm_waitList := event # cm_waitList c\<rparr>))) (\<lambda>_.
     bindM (clRetainEvent event) (\<lambda>_. retM ())))"

definition addEventsToWaitList :: "ref \<Rightarrow> u32 \<Rightarrow> ref list \<Rightarrow> (Runtime, unit) M" where
  "addEventsToWaitList command count originWaitList =
     forM [0..<unat count] (\<lambda>i.
       bindM (liftM (\<lambda>_. at_index originWaitList i)) (push_waited command))"

definition enqueue :: "ref \<Rightarrow> ref \<Rightarrow> (Runtime, unit) M" where
  "enqueue queue command =
     bindM (requireEvent command) (\<lambda>event.
     bindM (setQueued event) (\<lambda>_.
     bindM (deref rt_queues queue) (\<lambda>q.
     put_queue queue (Some (q\<lparr>cq_commands := cq_commands q @ [command]\<rparr>)))))"

text \<open>Returns the new event, which the caller gets if it asked for it.\<close>

definition enqueueCommand :: "ref \<Rightarrow> u32 \<Rightarrow> ref list \<Rightarrow> (Runtime, ref) M \<Rightarrow> (Runtime, ref) M" where
  "enqueueCommand queue waitListEventsCount waitList commandGetter =
     bindM commandGetter (\<lambda>command.
     bindM (deref rt_queues queue) (\<lambda>q.
     bindM (CLEvent_new (cq_context q) command) (\<lambda>event.
     bindM (setEvent command event) (\<lambda>_.
     bindM (addEventsToWaitList command waitListEventsCount waitList) (\<lambda>_.
     bindM (enqueue queue command) (\<lambda>_.
     retM event))))))"

section \<open>Events\<close>

text \<open>A user event has no command, whose queue the constructor reads.\<close>

definition clCreateUserEvent :: "ref \<Rightarrow> (Runtime, ref \<times> cl_int option) M" where
  "clCreateUserEvent context =
     (if context = null_ref then retM (null_ref, Some CL_INVALID_CONTEXT)
      else bindM (CLEvent_new context null_ref) (\<lambda>event.
           bindM (deref rt_events event) (\<lambda>e.
           bindM (put_event event (Some (e\<lparr>ev_isUserEvent := True\<rparr>))) (\<lambda>_.
           bindM (setSubmitted event) (\<lambda>_.
           retM (event, None))))))"

definition clSetUserEventStatus :: "ref \<Rightarrow> cl_int \<Rightarrow> (Runtime, cl_int) M" where
  "clSetUserEventStatus event execution_status =
     (if event = null_ref then retM CL_INVALID_EVENT
      else bindM (deref rt_events event) (\<lambda>e.
           if \<not> ev_isUserEvent e then retM CL_INVALID_EVENT
           else if execution_status \<noteq> CL_COMPLETE \<and> 0 \<le> execution_status then retM CL_INVALID_VALUE
           else if isCompleted e then retM CL_INVALID_OPERATION
           else bindM (setCompleted event execution_status) (\<lambda>_. retM CL_SUCCESS)))"

fun wait_for_events :: "nat \<Rightarrow> ref list \<Rightarrow> nat \<Rightarrow> nat \<Rightarrow> (Runtime, cl_int) M" where
  "wait_for_events n event_list i 0 = retM CL_SUCCESS"
| "wait_for_events n event_list i (Suc left) =
     bindM (liftM (\<lambda>_. at_index event_list i)) (\<lambda>event.
     if event = null_ref then retM CL_INVALID_EVENT
     else bindM (deref rt_events event) (\<lambda>e.
          if ev_command e = null_ref then wait_for_events n event_list (i + 1) left
          else bindM (run_call n (ExecuteCommand (ev_command e))) (\<lambda>_.
               bindM (deref rt_events event) (\<lambda>e.
               if ev_status e < 0 then retM CL_EXEC_STATUS_ERROR_FOR_EVENTS_IN_WAIT_LIST
               else wait_for_events n event_list (i + 1) left))))"

definition clWaitForEvents :: "nat \<Rightarrow> u32 \<Rightarrow> ref list option \<Rightarrow> (Runtime, cl_int) M" where
  "clWaitForEvents n num_events event_list =
     (case event_list of
        None \<Rightarrow> retM CL_INVALID_VALUE
      | Some es \<Rightarrow> if num_events = 0 then retM CL_INVALID_VALUE else wait_for_events n es 0 (unat num_events))"

definition clSetEventCallback :: "ref \<Rightarrow> cl_int \<Rightarrow> ref \<Rightarrow> ref \<Rightarrow> (Runtime, cl_int) M" where
  "clSetEventCallback event command_exec_callback_type pfn_notify user_data =
     (if event = null_ref then retM CL_INVALID_EVENT
      else if pfn_notify = null_ref then retM CL_INVALID_VALUE
      else if command_exec_callback_type \<noteq> CL_SUBMITTED \<and> command_exec_callback_type \<noteq> CL_RUNNING
          \<and> command_exec_callback_type \<noteq> CL_COMPLETE then retM CL_INVALID_VALUE
      else bindM (setCallback event command_exec_callback_type \<lparr>cb_function = pfn_notify, cb_userData = user_data\<rparr>) (\<lambda>_.
           retM CL_SUCCESS))"

section \<open>Queues\<close>

text \<open>The handle of the only device and that of the only platform.\<close>

definition kDevice :: "Runtime \<Rightarrow> ref" where
  "kDevice s = (case rt_device s of None \<Rightarrow> null_ref | Some _ \<Rightarrow> 1)"

definition kPlatform :: "Runtime \<Rightarrow> ref" where
  "kPlatform s = (case rt_platform s of None \<Rightarrow> null_ref | Some _ \<Rightarrow> 1)"

definition clCreateCommandQueue :: "ref \<Rightarrow> ref \<Rightarrow> u64 \<Rightarrow> (Runtime, ref \<times> cl_int) M" where
  "clCreateCommandQueue context device properties =
     (if context = null_ref then retM (null_ref, CL_INVALID_CONTEXT)
      else bindM (liftM (\<lambda>s. Inr (kDevice s))) (\<lambda>dev.
           if device \<noteq> dev then retM (null_ref, CL_INVALID_DEVICE)
           else bindM fresh (\<lambda>queue.
                bindM (clRetainContext context) (\<lambda>_.
                bindM (put_queue queue (Some \<lparr>cq_context = context, cq_properties = properties,
                  cq_referenceCount = 1, cq_commands = [], cq_flushInProcess = False\<rparr>)) (\<lambda>_.
                retM (queue, CL_SUCCESS))))))"

section \<open>Buffers\<close>

text \<open>The checks of \<open>clCreateBuffer\<close> in their order, before the one of the free memory.\<close>

definition buffer_error :: "ref \<Rightarrow> u64 \<Rightarrow> u64 \<Rightarrow> pointer \<Rightarrow> cl_int option" where
  "buffer_error context flags sz host_ptr =
     (let from_host = has_flag flags CL_MEM_COPY_HOST_PTR \<or> has_flag flags CL_MEM_USE_HOST_PTR
      in if context = null_ref then Some CL_INVALID_CONTEXT
         else if sz = 0 then Some CL_INVALID_BUFFER_SIZE
         else if host_ptr = null_pointer \<and> from_host then Some CL_INVALID_HOST_PTR
         else if host_ptr \<noteq> null_pointer \<and> \<not> from_host then Some CL_INVALID_HOST_PTR
         else if hasMutuallyExclusiveFlags flags [CL_MEM_READ_WRITE, CL_MEM_READ_ONLY, CL_MEM_WRITE_ONLY]
         then Some CL_INVALID_VALUE
         else if hasMutuallyExclusiveFlags flags [CL_MEM_HOST_WRITE_ONLY, CL_MEM_HOST_READ_ONLY, CL_MEM_HOST_NO_ACCESS]
         then Some CL_INVALID_VALUE
         else if hasMutuallyExclusiveFlags flags [CL_MEM_USE_HOST_PTR, CL_MEM_ALLOC_HOST_PTR]
         then Some CL_INVALID_VALUE
         else if hasMutuallyExclusiveFlags flags [CL_MEM_USE_HOST_PTR, CL_MEM_COPY_HOST_PTR]
         then Some CL_INVALID_VALUE
         else None)"

definition new_mem :: "ref \<Rightarrow> u64 \<Rightarrow> u64 \<Rightarrow> pointer \<Rightarrow> CLMem" where
  "new_mem context flags sz address =
     (let kernelRWAccess = (flags = 0 \<or> has_flag flags CL_MEM_READ_WRITE);
          hostRWAccess = (flags AND (CL_MEM_HOST_WRITE_ONLY OR CL_MEM_HOST_READ_ONLY OR CL_MEM_HOST_NO_ACCESS) = 0)
      in \<lparr>mo_context = context, mo_address = address, mo_size = sz,
          mo_kernelCanRead = (kernelRWAccess \<or> has_flag flags CL_MEM_READ_ONLY),
          mo_kernelCanWrite = (kernelRWAccess \<or> has_flag flags CL_MEM_WRITE_ONLY),
          mo_hostCanRead = (hostRWAccess \<or> has_flag flags CL_MEM_HOST_READ_ONLY),
          mo_hostCanWrite = (hostRWAccess \<or> has_flag flags CL_MEM_HOST_WRITE_ONLY),
          mo_referenceCount = 1, mo_destructorCallbacks = []\<rparr>)"

text \<open>The memory of a buffer: that of the host, a copy of it, or zeroes.\<close>

definition buffer_memory :: "u64 \<Rightarrow> u64 \<Rightarrow> pointer \<Rightarrow> (Runtime, pointer) M" where
  "buffer_memory flags sz host_ptr =
     (if has_flag flags CL_MEM_USE_HOST_PTR then retM host_ptr
      else bindM (new_block (replicate (unat sz) 0)) (\<lambda>address.
           bindM (if has_flag flags CL_MEM_COPY_HOST_PTR then memcpy address host_ptr (unat sz) else retM ()) (\<lambda>_.
           retM address)))"

definition clCreateBuffer :: "ref \<Rightarrow> u64 \<Rightarrow> u64 \<Rightarrow> pointer \<Rightarrow> (Runtime, ref \<times> cl_int) M" where
  "clCreateBuffer context flags sz host_ptr =
     (case buffer_error context flags sz host_ptr of
        Some code \<Rightarrow> retM (null_ref, code)
      | None \<Rightarrow>
          bindM (deref rt_contexts context) (\<lambda>_.
          bindM the_device (\<lambda>d.
          if dv_usedGlobalMemory d + sz > dv_globalMemorySize d
          then retM (null_ref, CL_MEM_OBJECT_ALLOCATION_FAILURE)
          else bindM fresh (\<lambda>mem.
               bindM (clRetainContext context) (\<lambda>_.
               bindM (buffer_memory flags sz host_ptr) (\<lambda>address.
               bindM (put_mem mem (Some (new_mem context flags sz address))) (\<lambda>_.
               if address = null_pointer
               then bindM (delete_mem mem) (\<lambda>_. retM (null_ref, CL_MEM_OBJECT_ALLOCATION_FAILURE))
               else bindM (set_used (\<lambda>used. used + sz)) (\<lambda>_. retM (mem, CL_SUCCESS)))))))))"

text \<open>
  The range is compared after an addition that can wrap around. Every function that
  puts a command on a queue returns its code and the event, null where no command was made.
\<close>

definition clEnqueueReadBuffer ::
  "nat \<Rightarrow> ref \<Rightarrow> ref \<Rightarrow> bool \<Rightarrow> u64 \<Rightarrow> u64 \<Rightarrow> pointer \<Rightarrow> u32 \<Rightarrow> ref list \<Rightarrow> (Runtime, cl_int \<times> ref) M" where
  "clEnqueueReadBuffer n command_queue buffer blocking_read offset sz ptr num_events_in_wait_list event_wait_list =
     (if ptr = null_pointer \<or> sz = 0 then retM (CL_INVALID_VALUE, null_ref)
      else bindM (deref rt_mems buffer) (\<lambda>m.
           if offset + sz > mo_size m then retM (CL_INVALID_VALUE, null_ref)
           else if \<not> mo_hostCanRead m then retM (CL_INVALID_OPERATION, null_ref)
           else bindM (enqueueCommand command_queue num_events_in_wait_list event_wait_list
                        (BufferReadCommand_new command_queue buffer sz offset ptr)) (\<lambda>event.
                bindM (if blocking_read then bindM (clFlush n command_queue) (\<lambda>_. retM ()) else retM ()) (\<lambda>_.
                retM (CL_SUCCESS, event)))))"

definition clEnqueueWriteBuffer ::
  "nat \<Rightarrow> ref \<Rightarrow> ref \<Rightarrow> bool \<Rightarrow> u64 \<Rightarrow> u64 \<Rightarrow> pointer \<Rightarrow> u32 \<Rightarrow> ref list \<Rightarrow> (Runtime, cl_int \<times> ref) M" where
  "clEnqueueWriteBuffer n command_queue buffer blocking_write offset sz ptr num_events_in_wait_list event_wait_list =
     (if ptr = null_pointer \<or> sz = 0 then retM (CL_INVALID_VALUE, null_ref)
      else bindM (deref rt_mems buffer) (\<lambda>m.
           if offset + sz > mo_size m then retM (CL_INVALID_VALUE, null_ref)
           else if \<not> mo_hostCanWrite m then retM (CL_INVALID_OPERATION, null_ref)
           else bindM (enqueueCommand command_queue num_events_in_wait_list event_wait_list
                        (BufferWriteCommand_new command_queue buffer sz offset ptr)) (\<lambda>event.
                bindM (if blocking_write then bindM (clFlush n command_queue) (\<lambda>_. retM ()) else retM ()) (\<lambda>_.
                retM (CL_SUCCESS, event)))))"

definition clEnqueueFillBuffer ::
  "ref \<Rightarrow> ref \<Rightarrow> pointer \<Rightarrow> u64 \<Rightarrow> u64 \<Rightarrow> u64 \<Rightarrow> u32 \<Rightarrow> ref list \<Rightarrow> (Runtime, cl_int \<times> ref) M" where
  "clEnqueueFillBuffer command_queue buffer pattern pattern_size offset sz num_events_in_wait_list event_wait_list =
     (if command_queue = null_ref then retM (CL_INVALID_COMMAND_QUEUE, null_ref)
      else bindM (enqueueCommand command_queue num_events_in_wait_list event_wait_list
                   (BufferFillCommand_new command_queue buffer pattern pattern_size offset sz)) (\<lambda>event.
           retM (CL_SUCCESS, event)))"

definition clEnqueueCopyBuffer ::
  "ref \<Rightarrow> ref \<Rightarrow> ref \<Rightarrow> u64 \<Rightarrow> u64 \<Rightarrow> u64 \<Rightarrow> u32 \<Rightarrow> ref list \<Rightarrow> (Runtime, cl_int \<times> ref) M" where
  "clEnqueueCopyBuffer command_queue src_buffer dst_buffer src_offset dst_offset sz num_events_in_wait_list event_wait_list =
     (if command_queue = null_ref then retM (CL_INVALID_COMMAND_QUEUE, null_ref)
      else bindM (enqueueCommand command_queue num_events_in_wait_list event_wait_list
                   (BufferCopyCommand_new command_queue src_buffer dst_buffer src_offset dst_offset sz)) (\<lambda>event.
           retM (CL_SUCCESS, event)))"

text \<open>These three only flush the queue; mapping returns null, the others a code.\<close>

definition clEnqueueMapBuffer :: "nat \<Rightarrow> ref \<Rightarrow> bool \<Rightarrow> (Runtime, pointer) M" where
  "clEnqueueMapBuffer n command_queue blocking_map =
     bindM (if blocking_map then bindM (clFlush n command_queue) (\<lambda>_. retM ()) else retM ()) (\<lambda>_. retM null_pointer)"

definition clEnqueueReadBufferRect :: "nat \<Rightarrow> ref \<Rightarrow> bool \<Rightarrow> (Runtime, cl_int) M" where
  "clEnqueueReadBufferRect n command_queue blocking_read =
     bindM (if blocking_read then bindM (clFlush n command_queue) (\<lambda>_. retM ()) else retM ()) (\<lambda>_. retM CL_INVALID_PLATFORM)"

definition clEnqueueWriteBufferRect :: "nat \<Rightarrow> ref \<Rightarrow> bool \<Rightarrow> (Runtime, cl_int) M" where
  "clEnqueueWriteBufferRect n command_queue blocking_write =
     bindM (if blocking_write then bindM (clFlush n command_queue) (\<lambda>_. retM ()) else retM ()) (\<lambda>_. retM CL_INVALID_PLATFORM)"

end
