(* ===== verification/ClKernels.thy ===== *)
theory ClKernels
  imports ClCommands
begin

text \<open>
  Platforms, devices, contexts, programs and kernels of the OpenCL runtime (\<open>driver/src/runtime\<close>:
  \<open>runtime-platform.cpp\<close>, \<open>runtime-device.cpp\<close>, \<open>runtime-context.cpp\<close>, \<open>runtime-program.cpp\<close>,
  \<open>runtime-kernel.cpp\<close>, \<open>icd/CLKernel.cpp\<close>, \<open>program/BinaryDisassembler.cpp\<close>), without the information
  queries.

  The disassembler is a library (CLRX): a parameter \<open>disasm\<close> from the bytes of a binary to its
  listing or an exception. The environment gives the path of the device configuration and the lines
  of that file. A copy of each program that the driver writes to a file is not modelled.
\<close>

unbundle bit_operations_syntax

section \<open>Catching\<close>

definition catchM :: "('s, 'a) M \<Rightarrow> (string \<Rightarrow> ('s, 'a) M) \<Rightarrow> ('s, 'a) M" where
  "catchM m handler s = (case m s of (Inl (Runtime_error what), t) \<Rightarrow> handler what t | r \<Rightarrow> r)"

section \<open>Platforms and devices\<close>

definition the_platform :: CLPlatformId where
  "the_platform = \<lparr>pf_profile = ''FULL_PROFILE'', pf_openClVersion = ''OpenCL 1.2'', pf_driverVersion = ''3075.13'',
     pf_name = ''AMD Accelerated Parallel Processing'', pf_vendor = ''sudo-team-company'',
     pf_extensions = ''cl_khr_icd cl_amd_device_attribute_query'', pf_suffix = ''red-o-lator''\<rparr>"

text \<open>The code, the platform that is stored and the number that is stored, if they are asked for.\<close>

definition clGetPlatformIDs :: "u32 \<Rightarrow> bool \<Rightarrow> bool \<Rightarrow> (Runtime, cl_int \<times> ref option \<times> u32 option) M" where
  "clGetPlatformIDs num_entries platforms num_platforms =
     (if \<not> platforms \<and> \<not> num_platforms then retM (CL_INVALID_VALUE, None, None)
      else if platforms \<and> num_entries = 0 then retM (CL_INVALID_VALUE, None, None)
      else bindM (modifyM (\<lambda>s. if rt_platform s = None then s\<lparr>rt_platform := Some the_platform\<rparr> else s)) (\<lambda>_.
           bindM (liftM (\<lambda>s. Inr (kPlatform s))) (\<lambda>p.
           retM (CL_SUCCESS, if platforms then Some p else None, if num_platforms then Some 1 else None))))"

text \<open>A parameter of the device as the number that its \<open>void*\<close> holds.\<close>

definition require_number :: "u32 \<Rightarrow> (Runtime, u64) M" where
  "require_number parameter = liftM (\<lambda>s.
     bindE (requireParameter (rt_parameters s) parameter) (\<lambda>v.
     case v of NumV n \<Rightarrow> Inr n | _ \<Rightarrow> Inl (Undefined ''pointer as number'')))"

definition matchesType :: "CLDeviceId \<Rightarrow> u64 \<Rightarrow> bool" where
  "matchesType d type \<longleftrightarrow> type AND dv_deviceType d \<noteq> 0"

record environment =
  en_path :: "string option"
  en_file :: "string list option"

definition load_device :: "string list option \<Rightarrow> string \<Rightarrow> (Runtime, cl_int option) M" where
  "load_device file path =
     bindM (catchM (bindM (liftM (\<lambda>s. case rt_platform s of
                None \<Rightarrow> Inl (Undefined ''null pointer'')
              | Some pf \<Rightarrow> load_config (of_nat (kPlatform s)) pf path file))
              (\<lambda>ps. bindM (modifyM (\<lambda>s. s\<lparr>rt_parameters := ps\<rparr>)) (\<lambda>_. retM None)))
            (\<lambda>_. retM (Some CL_INVALID_DEVICE))) (\<lambda>failed.
     if failed \<noteq> None then retM failed
     else bindM (require_number 0x1000) (\<lambda>deviceType.
          bindM (require_number 0x101F) (\<lambda>globalMem.
          bindM (require_number 0x1020) (\<lambda>constantMem.
          bindM (require_number 0x1023) (\<lambda>localMem.
          bindM (modifyM (\<lambda>s. s\<lparr>rt_device := Some \<lparr>dv_deviceType = deviceType, dv_globalMemorySize = globalMem,
            dv_constantMemorySize = constantMem, dv_localMemorySize = localMem, dv_usedGlobalMemory = 0,
            dv_usedLocalMemory = 0\<rparr>\<rparr>)) (\<lambda>_.
          retM None))))))"

definition clGetDeviceIDs ::
  "environment \<Rightarrow> ref \<Rightarrow> u64 \<Rightarrow> u32 \<Rightarrow> bool \<Rightarrow> bool \<Rightarrow> (Runtime, cl_int \<times> ref option \<times> u32 option) M" where
  "clGetDeviceIDs env platform device_type num_entries devices num_devices =
     bindM (liftM (\<lambda>s. Inr (kPlatform s, rt_device s))) (\<lambda>(pf, device).
     if platform = null_ref \<or> platform \<noteq> pf then retM (CL_INVALID_PLATFORM, None, None)
     else if devices \<and> num_entries = 0 then retM (CL_INVALID_VALUE, None, None)
     else bindM (if device \<noteq> None then retM None
                 else case en_path env of
                        None \<Rightarrow> retM (Some CL_INVALID_DEVICE)
                      | Some path \<Rightarrow> load_device (en_file env) path) (\<lambda>failed.
          case failed of
            Some code \<Rightarrow> retM (code, None, None)
          | None \<Rightarrow>
              bindM the_device (\<lambda>d.
              if \<not> matchesType d device_type then retM (CL_DEVICE_NOT_FOUND, None, None)
              else bindM (liftM (\<lambda>s. Inr (kDevice s))) (\<lambda>dev.
                   retM (CL_SUCCESS, if devices then Some dev else None, if num_devices then Some 1 else None)))))"

definition clCreateSubDevices :: "u32 \<Rightarrow> bool \<Rightarrow> cl_int \<times> u32 option" where
  "clCreateSubDevices num_devices num_devices_ret =
     (if num_devices > 0 then (CL_INVALID_DEVICE_PARTITION_COUNT, None)
      else (CL_SUCCESS, if num_devices_ret then Some 0 else None))"

definition clRetainDevice :: "ref \<Rightarrow> (Runtime, cl_int) M" where
  "clRetainDevice device =
     bindM (liftM (\<lambda>s. Inr (kDevice s))) (\<lambda>dev. retM (if device = dev then CL_SUCCESS else CL_INVALID_DEVICE))"

definition clReleaseDevice :: "ref \<Rightarrow> (Runtime, cl_int) M" where
  "clReleaseDevice device =
     bindM (liftM (\<lambda>s. Inr (kDevice s))) (\<lambda>dev. retM (if device = dev then CL_SUCCESS else CL_INVALID_DEVICE))"

section \<open>Contexts\<close>

text \<open>The loop over the properties, whose values are not used.\<close>

fun property_loop :: "u64 list \<Rightarrow> unit result" where
  "property_loop [] = Inl (Undefined ''array index'')"
| "property_loop (name # rest) =
     (if name = 0 then Inr ()
      else case rest of [] \<Rightarrow> Inl (Undefined ''array index'') | _ # properties \<Rightarrow> property_loop properties)"

definition createContext :: "u64 list option \<Rightarrow> ref \<Rightarrow> ref \<Rightarrow> (Runtime, ref \<times> cl_int) M" where
  "createContext properties pfn_notify user_data =
     bindM fresh (\<lambda>context.
     bindM (liftM (\<lambda>_. case properties of None \<Rightarrow> Inr () | Some ps \<Rightarrow> property_loop ps)) (\<lambda>_.
     bindM (put_context context (Some \<lparr>cx_callback = (if pfn_notify = null_ref then None else Some pfn_notify),
       cx_callbackUserData = user_data, cx_referenceCount = 1\<rparr>)) (\<lambda>_.
     retM (context, CL_SUCCESS))))"

definition clCreateContext ::
  "u64 list option \<Rightarrow> u32 \<Rightarrow> ref list option \<Rightarrow> ref \<Rightarrow> ref \<Rightarrow> (Runtime, ref \<times> cl_int) M" where
  "clCreateContext properties num_devices devices pfn_notify user_data =
     (case devices of
        None \<Rightarrow> retM (null_ref, CL_INVALID_VALUE)
      | Some ds \<Rightarrow>
          if num_devices = 0 then retM (null_ref, CL_INVALID_VALUE)
          else if pfn_notify = null_ref \<and> user_data \<noteq> null_ref then retM (null_ref, CL_INVALID_VALUE)
          else bindM (liftM (\<lambda>_. at_index ds 0)) (\<lambda>d.
               bindM (liftM (\<lambda>s. Inr (kDevice s))) (\<lambda>dev.
               if d \<noteq> dev then retM (null_ref, CL_INVALID_VALUE)
               else createContext properties pfn_notify user_data)))"

text \<open>A device of another type is refused only if the caller wants the code.\<close>

definition clCreateContextFromType ::
  "environment \<Rightarrow> u64 list option \<Rightarrow> u64 \<Rightarrow> ref \<Rightarrow> ref \<Rightarrow> bool \<Rightarrow> (Runtime, ref \<times> cl_int) M" where
  "clCreateContextFromType env properties device_type pfn_notify user_data errcode_ret =
     bindM (liftM (\<lambda>s. Inr (kDevice s, kPlatform s))) (\<lambda>(dev, pf).
     bindM (if dev = null_ref then bindM (clGetDeviceIDs env pf device_type 0 False False) (\<lambda>_. retM ()) else retM ()) (\<lambda>_.
     bindM the_device (\<lambda>d.
     if \<not> matchesType d device_type \<and> errcode_ret then retM (null_ref, CL_DEVICE_NOT_FOUND)
     else createContext properties pfn_notify user_data)))"

section \<open>Programs\<close>

definition disassemble ::
  "(u8 list \<Rightarrow> string result) \<Rightarrow> u8 list \<Rightarrow> BinaryDisassemblingResult result" where
  "disassemble disasm binary =
     bindE (disasm binary) (\<lambda>input.
     bindE (parseAsm input new_asm_parser) (\<lambda>(parsingResult, _).
     Inr (parsingResult\<lparr>bd_rawOutput := input\<rparr>)))"

definition CLProgram_new :: "ref \<Rightarrow> (Runtime, ref) M" where
  "CLProgram_new context =
     bindM fresh (\<lambda>program.
     bindM (clRetainContext context) (\<lambda>_.
     bindM (put_program program (Some \<lparr>pg_context = context, pg_binarySize = 0, pg_binary = null_pointer,
       pg_buildStatus = - 1, pg_buildLog = [], pg_disassembledBinary = None, pg_createdKernels = [],
       pg_referenceCount = 1\<rparr>)) (\<lambda>_.
     retM program)))"

text \<open>
  The program or null, the status of the binary and the code. A program whose binary could not be
  disassembled is not given back to anyone.
\<close>

definition clCreateProgramWithBinary ::
  "(u8 list \<Rightarrow> string result) \<Rightarrow> ref \<Rightarrow> u32 \<Rightarrow> bool \<Rightarrow> u64 list option \<Rightarrow> pointer list option
   \<Rightarrow> (Runtime, ref \<times> cl_int \<times> cl_int) M" where
  "clCreateProgramWithBinary disasm context num_devices device_list lengths binaries =
     (if \<not> device_list \<or> num_devices = 0 then retM (null_ref, CL_INVALID_VALUE, CL_INVALID_VALUE)
      else case (lengths, binaries) of
        (Some ls, Some bs) \<Rightarrow>
          bindM (CLProgram_new context) (\<lambda>program.
          bindM (liftM (\<lambda>_. at_index ls 0)) (\<lambda>binarySize.
          bindM (new_block (replicate (unat binarySize) 0)) (\<lambda>buffer.
          bindM (liftM (\<lambda>_. at_index bs 0)) (\<lambda>source.
          bindM (memcpy buffer source (unat binarySize)) (\<lambda>_.
          bindM (deref rt_programs program) (\<lambda>p.
          bindM (put_program program (Some (p\<lparr>pg_binarySize := binarySize, pg_binary := buffer\<rparr>))) (\<lambda>_.
          catchM
            (bindM (liftM (\<lambda>s. bindE (read_block buffer (unat binarySize) s) (disassemble disasm))) (\<lambda>result.
             bindM (deref rt_programs program) (\<lambda>p.
             bindM (put_program program (Some (p\<lparr>pg_disassembledBinary := Some result,
               pg_buildLog := ''Success disassembling binary''\<rparr>))) (\<lambda>_.
             retM (program, CL_SUCCESS, CL_SUCCESS)))))
            (\<lambda>what.
             bindM (deref rt_programs program) (\<lambda>p.
             bindM (put_program program (Some (p\<lparr>pg_buildLog := what\<rparr>))) (\<lambda>_.
             retM (null_ref, CL_INVALID_BINARY, CL_INVALID_BINARY)))))))))))
      | _ \<Rightarrow> retM (null_ref, CL_INVALID_VALUE, CL_INVALID_VALUE))"

definition clCreateProgramWithSource :: "ref \<Rightarrow> u32 \<Rightarrow> bool \<Rightarrow> ref \<times> cl_int" where
  "clCreateProgramWithSource context count strings =
     (if context = null_ref then (null_ref, CL_INVALID_CONTEXT)
      else if \<not> strings \<or> count = 0 then (null_ref, CL_INVALID_VALUE)
      else (null_ref, CL_INVALID_OPERATION))"

definition clBuildProgram :: "ref \<Rightarrow> (Runtime, cl_int) M" where
  "clBuildProgram program =
     (if program = null_ref then retM CL_INVALID_PROGRAM
      else bindM (deref rt_programs program) (\<lambda>p.
           bindM (put_program program (Some (p\<lparr>pg_buildStatus := 0\<rparr>))) (\<lambda>_. retM CL_SUCCESS)))"

section \<open>Kernels\<close>

definition build :: "CLKernelBuilder \<Rightarrow> CLKernel" where
  "build kb = \<lparr>kr_name = kb_name kb, kr_requiredWorkGroupSize = kb_requiredWorkGroupSize kb,
     kr_config = kb_config kb, kr_instructions = kb_instructions kb, kr_program = null_ref, kr_referenceCount = 1,
     kr_arguments = map (\<lambda>info. \<lparr>ag_info = info, ag_value = None\<rparr>) (kb_argumentInfo kb)\<rparr>"

definition built_kernel :: "ref \<Rightarrow> CLKernelBuilder \<Rightarrow> (Runtime, ref) M" where
  "built_kernel program kb =
     bindM fresh (\<lambda>krn.
     bindM (put_kernel krn (Some ((build kb)\<lparr>kr_program := program\<rparr>))) (\<lambda>_.
     bindM (deref rt_programs program) (\<lambda>p.
     bindM (put_program program (Some (p\<lparr>pg_createdKernels := pg_createdKernels p @ [krn]\<rparr>))) (\<lambda>_.
     bindM (clRetainProgram program) (\<lambda>_.
     retM krn)))))"

definition the_disassembled :: "ref \<Rightarrow> (Runtime, BinaryDisassemblingResult) M" where
  "the_disassembled program =
     bindM (deref rt_programs program) (\<lambda>p.
     liftM (\<lambda>_. case pg_disassembledBinary p of None \<Rightarrow> Inl (Undefined ''null pointer'') | Some d \<Rightarrow> Inr d))"

definition clCreateKernel :: "ref \<Rightarrow> string option \<Rightarrow> (Runtime, ref \<times> cl_int) M" where
  "clCreateKernel program kernel_name =
     (if program = null_ref then retM (null_ref, CL_INVALID_PROGRAM)
      else case kernel_name of
        None \<Rightarrow> retM (null_ref, CL_INVALID_VALUE)
      | Some name \<Rightarrow>
          bindM (the_disassembled program) (\<lambda>d.
          case find (\<lambda>kb. kb_name kb = name) (bd_kernelBuilders d) of
            None \<Rightarrow> retM (null_ref, CL_INVALID_KERNEL_NAME)
          | Some kb \<Rightarrow> bindM (built_kernel program kb) (\<lambda>krn. retM (krn, CL_SUCCESS))))"

fun build_kernels :: "ref \<Rightarrow> CLKernelBuilder list \<Rightarrow> (Runtime, ref list) M" where
  "build_kernels program [] = retM []"
| "build_kernels program (kb # kbs) =
     bindM (built_kernel program kb) (\<lambda>krn.
     bindM (build_kernels program kbs) (\<lambda>krns. retM (krn # krns)))"

text \<open>The code, the kernels stored and the number stored.\<close>

definition clCreateKernelsInProgram ::
  "ref \<Rightarrow> u32 \<Rightarrow> bool \<Rightarrow> bool \<Rightarrow> (Runtime, cl_int \<times> ref list \<times> u32 option) M" where
  "clCreateKernelsInProgram program num_kernels kernels num_kernels_ret =
     (if program = null_ref then retM (CL_INVALID_PROGRAM, [], None)
      else bindM (the_disassembled program) (\<lambda>d.
           let disassembledKernels = bd_kernelBuilders d
           in if kernels \<and> unat num_kernels < length disassembledKernels then retM (CL_INVALID_VALUE, [], None)
              else bindM (if kernels then build_kernels program disassembledKernels else retM []) (\<lambda>krns.
                   retM (CL_SUCCESS, krns,
                     if num_kernels_ret then Some (of_nat (length disassembledKernels)) else None))))"

text \<open>A \<open>cl_mem\<close> in memory is eight bytes, the lowest first.\<close>

definition read_handle :: "pointer \<Rightarrow> Runtime \<Rightarrow> ref result" where
  "read_handle p s = bindE (read_block p 8 s) (\<lambda>bs. Inr (unat (word_rcat (rev bs) :: u64)))"

definition is_pointer_info :: "KernelArgumentInfo \<Rightarrow> bool" where
  "is_pointer_info info = (case ai_class info of PointerInfo _ \<Rightarrow> True | _ \<Rightarrow> False)"

definition argument_value :: "KernelArgumentInfo \<Rightarrow> u64 \<Rightarrow> pointer \<Rightarrow> (Runtime, KernelArgumentValueType) M" where
  "argument_value argInfo sz val =
     (if val = null_pointer then retM NullValue
      else if is_pointer_info argInfo
      then bindM (liftM (read_handle val)) (\<lambda>memObject.
           bindM (clRetainMemObject memObject) (\<lambda>_. retM (MemValue memObject)))
      else bindM (new_block (replicate (unat sz) 0)) (\<lambda>temp.
           bindM (memcpy temp val (unat sz)) (\<lambda>_. retM (BytesValue temp))))"

definition setArgument :: "ref \<Rightarrow> u32 \<Rightarrow> u64 \<Rightarrow> pointer \<Rightarrow> (Runtime, unit) M" where
  "setArgument krn index sz val =
     bindM (deref rt_kernels krn) (\<lambda>k.
     if unat index \<ge> length (kr_arguments k)
     then throwM (Runtime_error (''Attempt to set argument at index '' @ show_nat (unat index) @ '' of kernel with ''
            @ show_nat (length (kr_arguments k)) @ '' arguments''))
     else let argument = kr_arguments k ! unat index
          in bindM (argument_value (ag_info argument) sz val) (\<lambda>data.
             bindM (releaseArgument argument) (\<lambda>_.
             bindM (deref rt_kernels krn) (\<lambda>k.
             put_kernel krn (Some (k\<lparr>kr_arguments := (kr_arguments k)[unat index :=
               argument\<lparr>ag_value := Some \<lparr>av_index = index, av_size = sz, av_value = data\<rparr>\<rparr>]\<rparr>))))))"

definition getArgument :: "CLKernel \<Rightarrow> u32 \<Rightarrow> KernelArgument result" where
  "getArgument k index =
     (if unat index \<ge> length (kr_arguments k)
      then Inl (Runtime_error (''Attempt to get argument at index '' @ show_nat (unat index) @ '' of kernel with ''
             @ show_nat (length (kr_arguments k)) @ '' arguments''))
      else Inr (kr_arguments k ! unat index))"

definition argumentCount :: "CLKernel \<Rightarrow> u32" where
  "argumentCount k = of_nat (length (kr_arguments k))"

definition clSetKernelArg :: "ref \<Rightarrow> u32 \<Rightarrow> u64 \<Rightarrow> pointer \<Rightarrow> (Runtime, cl_int) M" where
  "clSetKernelArg krn arg_index arg_size arg_value =
     (if krn = null_ref then retM CL_INVALID_KERNEL
      else catchM (bindM (setArgument krn arg_index arg_size arg_value) (\<lambda>_. retM CL_SUCCESS))
             (\<lambda>_. retM CL_INVALID_ARG_INDEX))"

text \<open>The sizes of an array parameter of the device; a missing array is a null pointer.\<close>

definition max_item_size :: "nat \<Rightarrow> (Runtime, u64) M" where
  "max_item_size i = liftM (\<lambda>s.
     bindE (requireParameter (rt_parameters s) 0x1005) (\<lambda>v.
     case v of
       ArrV bs \<Rightarrow> if 8 * i + 8 \<le> length bs then Inr (word_rcat (rev (take 8 (drop (8 * i) bs))))
                 else Inl (Undefined ''array index'')
     | _ \<Rightarrow> Inl (Undefined ''null pointer'')))"

text \<open>The loop over the dimensions: an error code, or the size of a work-group, kept in 32 bits.\<close>

fun check_sizes :: "ref \<Rightarrow> ref \<Rightarrow> nat \<Rightarrow> nat \<Rightarrow> u32 \<Rightarrow> (Runtime, cl_int + u32) M" where
  "check_sizes global_work_size local_work_size i 0 workGroupSize = retM (Inr workGroupSize)"
| "check_sizes global_work_size local_work_size i (Suc left) workGroupSize =
     bindM (deref rt_sizes global_work_size) (\<lambda>gs.
     bindM (liftM (\<lambda>_. at_index gs i)) (\<lambda>g.
     if g = 0 then retM (Inl CL_INVALID_GLOBAL_WORK_SIZE)
     else if local_work_size = null_ref then check_sizes global_work_size local_work_size (i + 1) left workGroupSize
     else bindM (deref rt_sizes local_work_size) (\<lambda>ls.
          bindM (liftM (\<lambda>_. at_index ls i)) (\<lambda>l.
          let workGroupSize = to_u32 (to_u64 workGroupSize * l)
          in bindM (max_item_size i) (\<lambda>m.
             if l > m then retM (Inl CL_INVALID_WORK_ITEM_SIZE)
             else check_sizes global_work_size local_work_size (i + 1) left workGroupSize)))))"

definition clEnqueueNDRangeKernel ::
  "ref \<Rightarrow> ref \<Rightarrow> u32 \<Rightarrow> ref \<Rightarrow> ref \<Rightarrow> ref \<Rightarrow> u32 \<Rightarrow> ref list \<Rightarrow> (Runtime, cl_int \<times> ref) M" where
  "clEnqueueNDRangeKernel command_queue krn work_dim global_work_offset global_work_size local_work_size
     num_events_in_wait_list event_wait_list =
     (if command_queue = null_ref then retM (CL_INVALID_COMMAND_QUEUE, null_ref)
      else if krn = null_ref then retM (CL_INVALID_KERNEL, null_ref)
      else if work_dim < 1 \<or> work_dim > 3 then retM (CL_INVALID_WORK_DIMENSION, null_ref)
      else if global_work_size = null_ref then retM (CL_INVALID_GLOBAL_WORK_SIZE, null_ref)
      else bindM (require_number 0x1004) (\<lambda>maxWorkGroupSize.
           bindM (check_sizes global_work_size local_work_size 0 (unat work_dim) 1) (\<lambda>checked.
           case checked of
             Inl code \<Rightarrow> retM (code, null_ref)
           | Inr workGroupSize \<Rightarrow>
               if local_work_size \<noteq> null_ref \<and> to_u64 workGroupSize > maxWorkGroupSize
               then retM (CL_INVALID_WORK_GROUP_SIZE, null_ref)
               else bindM (deref rt_kernels krn) (\<lambda>k.
                    if \<exists>a\<in>set (kr_arguments k). ag_value a = None then retM (CL_INVALID_KERNEL_ARGS, null_ref)
                    else bindM (enqueueCommand command_queue num_events_in_wait_list event_wait_list
                           (KernelExecutionCommand_new command_queue krn work_dim global_work_offset
                             global_work_size local_work_size)) (\<lambda>event.
                         retM (CL_SUCCESS, event))))))"

text \<open>The sizes of a task are a local array, which is gone when the function returns.\<close>

definition clEnqueueTask :: "ref \<Rightarrow> ref \<Rightarrow> u32 \<Rightarrow> ref list \<Rightarrow> (Runtime, cl_int \<times> ref) M" where
  "clEnqueueTask command_queue krn num_events_in_wait_list event_wait_list =
     bindM fresh (\<lambda>workSize.
     bindM (modifyM (\<lambda>s. s\<lparr>rt_sizes := (rt_sizes s)(workSize \<mapsto> [1])\<rparr>)) (\<lambda>_.
     bindM (clEnqueueNDRangeKernel command_queue krn 1 null_ref workSize workSize
              num_events_in_wait_list event_wait_list) (\<lambda>result.
     bindM (modifyM (\<lambda>s. s\<lparr>rt_sizes := (rt_sizes s)(workSize := None)\<rparr>)) (\<lambda>_.
     retM result))))"

end
