(* ===== verification/ClQueries.thy ===== *)
theory ClQueries
  imports ClKernels
begin

text \<open>
  The information queries of the OpenCL runtime (\<open>clGet...Info\<close> in the \<open>runtime-*.cpp\<close> files of
  \<open>driver/src/runtime\<close>). Every query first checks its object and then calls \<open>getParamInfo\<close> with a
  function from the parameter number to the value; that function only runs when the caller wants an
  answer. Parameter numbers are those of the OpenCL standard. The handle of an object is its
  reference as a number, and the address of a byte array is given by \<open>address_of\<close>.

  A query is given the size and the bytes of the caller's buffer, and whether the caller wants the
  size; it returns the code, the buffer afterwards and the size.
\<close>

unbundle bit_operations_syntax

type_synonym answer = "cl_int \<times> u8 list option \<times> u64 option"

abbreviation no_answer :: "cl_int \<Rightarrow> u8 list option \<Rightarrow> answer" where
  "no_answer code buffer \<equiv> (code, buffer, None)"

abbreviation handle :: "ref \<Rightarrow> u64 \<Rightarrow> CLObjectInfoParameterValue option result" where
  "handle r sz \<equiv> Inr (Some (info_value (NumV (of_nat r)) sz))"

abbreviation num :: "u64 \<Rightarrow> u64 \<Rightarrow> CLObjectInfoParameterValue option result" where
  "num n sz \<equiv> Inr (Some (info_value (NumV n) sz))"

abbreviation str :: "string \<Rightarrow> CLObjectInfoParameterValue option result" where
  "str s \<equiv> Inr (Some (info_value (StrV s) 0))"

definition obj :: "('a \<Rightarrow> 'b option) \<Rightarrow> 'a \<Rightarrow> 'b result" where
  "obj heap r = (case heap r of None \<Rightarrow> Inl (Undefined ''dangling pointer'') | Some x \<Rightarrow> Inr x)"

section \<open>Platform and device\<close>

definition platform_value :: "CLPlatformId \<Rightarrow> u32 \<Rightarrow> CLObjectInfoParameterValue option result" where
  "platform_value p param_name =
     (if param_name = 0x0900 then str (pf_profile p)
      else if param_name = 0x0901 then str (pf_openClVersion p @ '' AMD-APP ('' @ pf_driverVersion p @ '')'')
      else if param_name = 0x0902 then str (pf_name p)
      else if param_name = 0x0903 then str (pf_vendor p)
      else if param_name = 0x0904 then str (pf_extensions p)
      else if param_name = 0x0920 then str (pf_suffix p)
      else Inr None)"

text \<open>Before the platform is made, the null platform passes the check.\<close>

definition clGetPlatformInfo :: "Runtime \<Rightarrow> ref \<Rightarrow> u32 \<Rightarrow> u64 \<Rightarrow> u8 list option \<Rightarrow> bool \<Rightarrow> answer result" where
  "clGetPlatformInfo s platform param_name param_value_size param_value wants_size =
     (if platform \<noteq> kPlatform s then Inr (no_answer CL_INVALID_PLATFORM param_value)
      else getParamInfo param_value_size param_value wants_size
        (case rt_platform s of
           None \<Rightarrow> (if param_name \<in> {0x0900, 0x0901, 0x0902, 0x0903, 0x0904, 0x0920}
                    then Inl (Undefined ''null pointer'') else Inr None)
         | Some p \<Rightarrow> platform_value p param_name))"

definition device_value :: "Runtime \<Rightarrow> u32 \<Rightarrow> CLObjectInfoParameterValue option result" where
  "device_value s param_name =
     (if param_name = 0x4039
      then (case rt_device s of
              None \<Rightarrow> Inl (Undefined ''null pointer'')
            | Some d \<Rightarrow> num ((dv_globalMemorySize d - dv_usedGlobalMemory d) div 1024) 8)
      else Inr (getParameter (rt_parameters s) param_name))"

definition clGetDeviceInfo :: "Runtime \<Rightarrow> ref \<Rightarrow> u32 \<Rightarrow> u64 \<Rightarrow> u8 list option \<Rightarrow> bool \<Rightarrow> answer result" where
  "clGetDeviceInfo s device param_name param_value_size param_value wants_size =
     (if device \<noteq> kDevice s then Inr (no_answer CL_INVALID_DEVICE param_value)
      else getParamInfo param_value_size param_value wants_size (device_value s param_name))"

section \<open>Contexts and queues\<close>

definition context_value :: "Runtime \<Rightarrow> CLContext \<Rightarrow> u32 \<Rightarrow> CLObjectInfoParameterValue option result" where
  "context_value s c param_name =
     (if param_name = 0x1080 then num (to_u64 (cx_referenceCount c)) 4
      else if param_name = 0x1083 then num 1 4
      else if param_name = 0x1081 then handle (kDevice s) 8
      else if param_name = 0x1082 then num 0 8
      else Inr None)"

definition clGetContextInfo :: "Runtime \<Rightarrow> ref \<Rightarrow> u32 \<Rightarrow> u64 \<Rightarrow> u8 list option \<Rightarrow> bool \<Rightarrow> answer result" where
  "clGetContextInfo s context param_name param_value_size param_value wants_size =
     (if context = null_ref then Inr (no_answer CL_INVALID_CONTEXT param_value)
      else getParamInfo param_value_size param_value wants_size
        (bindE (obj (rt_contexts s) context) (\<lambda>c. context_value s c param_name)))"

definition queue_value :: "Runtime \<Rightarrow> CLCommandQueue \<Rightarrow> u32 \<Rightarrow> CLObjectInfoParameterValue option result" where
  "queue_value s q param_name =
     (if param_name = 0x1090 then handle (cq_context q) 8
      else if param_name = 0x1091 then bindE (obj (rt_contexts s) (cq_context q)) (\<lambda>_. handle (kDevice s) 8)
      else if param_name = 0x1092 then num (to_u64 (cq_referenceCount q)) 4
      else if param_name = 0x1093 then num (cq_properties q) 8
      else Inr None)"

definition clGetCommandQueueInfo :: "Runtime \<Rightarrow> ref \<Rightarrow> u32 \<Rightarrow> u64 \<Rightarrow> u8 list option \<Rightarrow> bool \<Rightarrow> answer result" where
  "clGetCommandQueueInfo s command_queue param_name param_value_size param_value wants_size =
     (if command_queue = null_ref then Inr (no_answer CL_INVALID_COMMAND_QUEUE param_value)
      else getParamInfo param_value_size param_value wants_size
        (bindE (obj (rt_queues s) command_queue) (\<lambda>q. queue_value s q param_name)))"

section \<open>Events\<close>

text \<open>\<open>getCommandType\<close> of the classes of commands.\<close>

fun getCommandType :: "CommandClass \<Rightarrow> u64" where
  "getCommandType (BufferReadCommand _ _ _ _) = 0x11F3"
| "getCommandType (BufferWriteCommand _ _ _ _) = 0x11F4"
| "getCommandType (BufferFillCommand _ _ _ _ _) = 0x1207"
| "getCommandType (BufferCopyCommand _ _ _ _ _) = 0x11F5"
| "getCommandType (KernelExecutionCommand _ _ _ _ _) = 0x11F0"

definition event_command :: "Runtime \<Rightarrow> CLEvent \<Rightarrow> Command result" where
  "event_command s e = (if ev_command e = null_ref then Inl (Undefined ''null pointer'')
     else obj (rt_commands s) (ev_command e))"

definition event_value :: "Runtime \<Rightarrow> CLEvent \<Rightarrow> u32 \<Rightarrow> CLObjectInfoParameterValue option result" where
  "event_value s e param_name =
     (if param_name = 0x11D0
      then (if ev_isUserEvent e then num 0 8
            else bindE (event_command s e) (\<lambda>c. handle (cm_commandQueue c) 8))
      else if param_name = 0x11D4 then handle (ev_context e) 8
      else if param_name = 0x11D1
      then (if ev_isUserEvent e then num 0x1204 4
            else bindE (event_command s e) (\<lambda>c. num (getCommandType (cm_class c)) 4))
      else if param_name = 0x11D3 then num (of_int (ev_status e)) 4
      else if param_name = 0x11D2 then num (to_u64 (ev_referenceCount e)) 4
      else Inr None)"

definition clGetEventInfo :: "Runtime \<Rightarrow> ref \<Rightarrow> u32 \<Rightarrow> u64 \<Rightarrow> u8 list option \<Rightarrow> bool \<Rightarrow> answer result" where
  "clGetEventInfo s event param_name param_value_size param_value wants_size =
     (if event = null_ref then Inr (no_answer CL_INVALID_EVENT param_value)
      else getParamInfo param_value_size param_value wants_size
        (bindE (obj (rt_events s) event) (\<lambda>e. event_value s e param_name)))"

definition profiling_value :: "CLEvent \<Rightarrow> u32 \<Rightarrow> CLObjectInfoParameterValue option result" where
  "profiling_value e param_name =
     (if param_name = 0x1280 then num (ev_timeQueued e) 8
      else if param_name = 0x1281 then num (ev_timeSubmitted e) 8
      else if param_name = 0x1282 then num (ev_timeStart e) 8
      else if param_name = 0x1283 then num (ev_timeEnd e) 8
      else Inr None)"

definition clGetEventProfilingInfo ::
  "Runtime \<Rightarrow> ref \<Rightarrow> u32 \<Rightarrow> u64 \<Rightarrow> u8 list option \<Rightarrow> bool \<Rightarrow> answer result" where
  "clGetEventProfilingInfo s event param_name param_value_size param_value wants_size =
     (if event = null_ref then Inr (no_answer CL_INVALID_EVENT param_value)
      else bindE (obj (rt_events s) event) (\<lambda>e.
           if \<not> ev_isUserEvent e \<and> \<not> isCompleted e \<and> ev_command e = null_ref
           then Inr (no_answer CL_INVALID_EVENT param_value)
           else if ev_isUserEvent e then Inr (no_answer CL_PROFILING_INFO_NOT_AVAILABLE param_value)
           else bindE (obj (rt_queues s) (ev_commandQueue e)) (\<lambda>q.
                if \<not> isProfilingEnabled q \<or> \<not> isCompleted e
                then Inr (no_answer CL_PROFILING_INFO_NOT_AVAILABLE param_value)
                else getParamInfo param_value_size param_value wants_size (profiling_value e param_name))))"

section \<open>Programs\<close>

text \<open>The binaries are answered with their pointer, as if it had the size of the binary.\<close>

definition program_value ::
  "(pointer \<Rightarrow> u64) \<Rightarrow> Runtime \<Rightarrow> CLProgram \<Rightarrow> u32 \<Rightarrow> CLObjectInfoParameterValue option result" where
  "program_value address_of s p param_name =
     (if param_name = 0x1160 then num (to_u64 (pg_referenceCount p)) 4
      else if param_name = 0x1161 then handle (pg_context p) 8
      else if param_name = 0x1162 then num 1 4
      else if param_name = 0x1163 then handle (kDevice s) 8
      else if param_name = 0x1164 then str []
      else if param_name = 0x1165 then num (pg_binarySize p) 8
      else if param_name = 0x1166 then num (address_of (pg_binary p)) (pg_binarySize p)
      else if param_name = 0x1167 then num 0 8
      else if param_name = 0x1168 then str []
      else Inr None)"

definition clGetProgramInfo ::
  "(pointer \<Rightarrow> u64) \<Rightarrow> Runtime \<Rightarrow> ref \<Rightarrow> u32 \<Rightarrow> u64 \<Rightarrow> u8 list option \<Rightarrow> bool \<Rightarrow> answer result" where
  "clGetProgramInfo address_of s program param_name param_value_size param_value wants_size =
     (if program = null_ref then Inr (no_answer CL_INVALID_PROGRAM param_value)
      else getParamInfo param_value_size param_value wants_size
        (bindE (obj (rt_programs s) program) (\<lambda>p. program_value address_of s p param_name)))"

definition build_value :: "CLProgram \<Rightarrow> u32 \<Rightarrow> CLObjectInfoParameterValue option result" where
  "build_value p param_name =
     (if param_name = 0x1181 then num (of_int (pg_buildStatus p)) 4
      else if param_name = 0x1182 then str []
      else if param_name = 0x1183 then str (pg_buildLog p)
      else if param_name = 0x1184 then num 1 4
      else Inr None)"

definition clGetProgramBuildInfo ::
  "Runtime \<Rightarrow> ref \<Rightarrow> u32 \<Rightarrow> u64 \<Rightarrow> u8 list option \<Rightarrow> bool \<Rightarrow> answer result" where
  "clGetProgramBuildInfo s program param_name param_value_size param_value wants_size =
     (if program = null_ref then Inr (no_answer CL_INVALID_PROGRAM param_value)
      else getParamInfo param_value_size param_value wants_size
        (bindE (obj (rt_programs s) program) (\<lambda>p. build_value p param_name)))"

section \<open>Kernels\<close>

text \<open>All three queries refuse a kernel that belongs to no program.\<close>

definition owned_kernel :: "Runtime \<Rightarrow> ref \<Rightarrow> CLKernel option result" where
  "owned_kernel s krn =
     (if krn = null_ref then Inr None
      else bindE (obj (rt_kernels s) krn) (\<lambda>k. Inr (if kr_program k = null_ref then None else Some k)))"

definition kernel_value :: "Runtime \<Rightarrow> CLKernel \<Rightarrow> u32 \<Rightarrow> CLObjectInfoParameterValue option result" where
  "kernel_value s k param_name =
     (if param_name = 0x1190 then str (kr_name k)
      else if param_name = 0x1191 then num (to_u64 (argumentCount k)) 4
      else if param_name = 0x1192 then num (to_u64 (kr_referenceCount k)) 4
      else if param_name = 0x1193 then bindE (obj (rt_programs s) (kr_program k)) (\<lambda>p. handle (pg_context p) 8)
      else if param_name = 0x1194 then handle (kr_program k) 8
      else if param_name = 0x1195 then num 0 0
      else Inr None)"

definition clGetKernelInfo :: "Runtime \<Rightarrow> ref \<Rightarrow> u32 \<Rightarrow> u64 \<Rightarrow> u8 list option \<Rightarrow> bool \<Rightarrow> answer result" where
  "clGetKernelInfo s krn param_name param_value_size param_value wants_size =
     bindE (owned_kernel s krn) (\<lambda>found.
     case found of
       None \<Rightarrow> Inr (no_answer CL_INVALID_KERNEL param_value)
     | Some k \<Rightarrow> getParamInfo param_value_size param_value wants_size (kernel_value s k param_name))"

definition argument_info_value :: "CLKernel \<Rightarrow> u32 \<Rightarrow> u32 \<Rightarrow> CLObjectInfoParameterValue option result" where
  "argument_info_value k arg_indx param_name =
     bindE (getArgument k arg_indx) (\<lambda>argument.
     let info = ag_info argument
     in if param_name = 0x1196
        then num (to_u64 (case ai_class info of PointerInfo p \<Rightarrow> pi_addressQualifier p | _ \<Rightarrow> CL_KERNEL_ARG_ADDRESS_PRIVATE)) 4
        else if param_name = 0x1197
        then num (to_u64 (case ai_class info of ImageInfo i \<Rightarrow> ii_accessQualifier i | _ \<Rightarrow> CL_KERNEL_ARG_ACCESS_NONE)) 4
        else if param_name = 0x1198 then str (ai_type info)
        else if param_name = 0x1199
        then num (case ai_class info of PointerInfo p \<Rightarrow> pi_argTypeQualifier p | _ \<Rightarrow> CL_KERNEL_ARG_TYPE_NONE) 8
        else if param_name = 0x119A then str (ai_argumentName info)
        else Inr None)"

definition clGetKernelArgInfo ::
  "Runtime \<Rightarrow> ref \<Rightarrow> u32 \<Rightarrow> u32 \<Rightarrow> u64 \<Rightarrow> u8 list option \<Rightarrow> bool \<Rightarrow> answer result" where
  "clGetKernelArgInfo s krn arg_indx param_name param_value_size param_value wants_size =
     bindE (owned_kernel s krn) (\<lambda>found.
     case found of
       None \<Rightarrow> Inr (no_answer CL_INVALID_KERNEL param_value)
     | Some k \<Rightarrow>
         if arg_indx > argumentCount k then Inr (no_answer CL_INVALID_ARG_INDEX param_value)
         else getParamInfo param_value_size param_value wants_size (argument_info_value k arg_indx param_name))"

definition work_group_value :: "CLKernel \<Rightarrow> u32 \<Rightarrow> CLObjectInfoParameterValue option result" where
  "work_group_value k param_name =
     (let sz = kr_requiredWorkGroupSize k;
          data = ArrV (word_bytes (wgs_x sz) @ word_bytes (wgs_y sz) @ word_bytes (wgs_z sz))
      in if param_name = 0x11B0 then Inr (Some (info_value data 24))
         else if param_name = 0x11B1 then Inr (Some (info_value data 24))
         else if param_name = 0x11B2 then num 0 8
         else if param_name = 0x11B3 then num 1 8
         else if param_name = 0x11B4 then num 0 8
         else Inr None)"

definition clGetKernelWorkGroupInfo ::
  "Runtime \<Rightarrow> ref \<Rightarrow> u32 \<Rightarrow> u64 \<Rightarrow> u8 list option \<Rightarrow> bool \<Rightarrow> answer result" where
  "clGetKernelWorkGroupInfo s krn param_name param_value_size param_value wants_size =
     bindE (owned_kernel s krn) (\<lambda>found.
     case found of
       None \<Rightarrow> Inr (no_answer CL_INVALID_KERNEL param_value)
     | Some k \<Rightarrow>
         if param_name = 0x11B5 then Inr (no_answer CL_INVALID_VALUE param_value)
         else getParamInfo param_value_size param_value wants_size (work_group_value k param_name))"

end
