(* ===== verification/ClBufferProps.thy ===== *)
theory ClBufferProps
  imports ClQueries
begin

text \<open>
  What the commands on buffers do (\<open>runtime-memory-buffer.cpp\<close>, \<open>command/\<close>, \<open>icd/CLCommandQueue.cpp\<close>): the
  state after a command has been put on an idle queue and after that queue has been flushed, and from
  it: data written are read back, the times of an event are in order, what stays behind when the
  caller does not ask for the event, and how buffers are made and given back.
\<close>

unbundle bit_operations_syntax

named_theorems runtime_simps "unfolding of the computations over the state of the runtime"

lemmas [runtime_simps] = bindM_def retM_def throwM_def liftM_def modifyM_def deref_def put_context_def put_mem_def
  put_event_def put_command_def put_queue_def put_kernel_def put_program_def fresh_def now_def Let_def

named_theorems enqueue_defs "what putting a command on a queue consists of"

lemmas [enqueue_defs] = enqueueCommand_def new_command_def CLEvent_new_def setEvent_def addEventsToWaitList_def enqueue_def
  requireEvent_def setQueued_def clRetainCommandQueue_def clRetainMemObject_def clRetainContext_def clRetainEvent_def
  clRetainKernel_def

named_theorems flush_defs "what a flush consists of"

lemmas [flush_defs] = clFlush_def clFinish_def flush_queue_def flush_loop_def execute_command_def requireEvent_def
  isQueued_def isOutOfOrder_def setSubmitted_def setRunning_def setCompleted_def callCallback_def
  release_command_queue_def release_event_def delete_command_def

section \<open>One command on an idle queue\<close>

definition idle :: "Runtime \<Rightarrow> ref \<Rightarrow> CLCommandQueue \<Rightarrow> CLContext \<Rightarrow> bool" where
  "idle s queue q c \<longleftrightarrow> queue \<noteq> null_ref \<and> rt_queues s queue = Some q \<and> cq_commands q = [] \<and> \<not> cq_flushInProcess q
     \<and> \<not> isOutOfOrder q \<and> cq_context q \<noteq> null_ref \<and> rt_contexts s (cq_context q) = Some c \<and> rt_next s \<noteq> 0"

definition queued_event :: "Runtime \<Rightarrow> ref \<Rightarrow> CLCommandQueue \<Rightarrow> CLEvent" where
  "queued_event s queue q = \<lparr>ev_command = rt_next s, ev_context = cq_context q, ev_commandQueue = queue,
     ev_isUserEvent = False, ev_referenceCount = 2, ev_status = CL_QUEUED, ev_timeQueued = rt_clock s (rt_ticks s),
     ev_timeSubmitted = 0, ev_timeStart = 0, ev_timeEnd = 0, ev_callbacks = Map.empty\<rparr>"

definition enqueued :: "Runtime \<Rightarrow> ref \<Rightarrow> CLCommandQueue \<Rightarrow> CLContext \<Rightarrow> CommandClass \<Rightarrow> Runtime" where
  "enqueued s queue q c cls = s\<lparr>
     rt_next := rt_next s + 2,
     rt_contexts := (rt_contexts s)(cq_context q \<mapsto> c\<lparr>cx_referenceCount := cx_referenceCount c + 1\<rparr>),
     rt_commands := (rt_commands s)(rt_next s \<mapsto> \<lparr>cm_commandQueue = queue, cm_waitList = [], cm_event = rt_next s + 1, cm_class = cls\<rparr>),
     rt_ticks := rt_ticks s + 1,
     rt_events := (rt_events s)(rt_next s + 1 \<mapsto> queued_event s queue q),
     rt_queues := (rt_queues s)(queue \<mapsto> q\<lparr>cq_referenceCount := 2 + cq_referenceCount q, cq_commands := [rt_next s]\<rparr>)\<rparr>"

definition hold_mem :: "ref \<Rightarrow> CLMem \<Rightarrow> Runtime \<Rightarrow> Runtime" where
  "hold_mem m mo s = s\<lparr>rt_mems := (rt_mems s)(m \<mapsto> mo\<lparr>mo_referenceCount := mo_referenceCount mo + 1\<rparr>)\<rparr>"

lemma enqueue_read:
  assumes "idle s queue q c" "rt_mems s m = Some mo" "m \<noteq> null_ref"
  shows "enqueueCommand queue 0 [] (BufferReadCommand_new queue m sz off ptr) s
    = (Inr (rt_next s + 1), enqueued (hold_mem m mo s) queue q c (BufferReadCommand m sz off ptr))"
  using assms
  by (simp add: idle_def enqueue_defs BufferReadCommand_new_def runtime_simps enqueued_def hold_mem_def queued_event_def)

lemma enqueue_write:
  assumes "idle s queue q c" "rt_mems s m = Some mo" "m \<noteq> null_ref"
  shows "enqueueCommand queue 0 [] (BufferWriteCommand_new queue m sz off ptr) s
    = (Inr (rt_next s + 1), enqueued (hold_mem m mo s) queue q c (BufferWriteCommand m sz off ptr))"
  using assms by (simp add: idle_def enqueue_defs BufferWriteCommand_new_def runtime_simps enqueued_def hold_mem_def queued_event_def)

definition completed :: "Runtime \<Rightarrow> ref \<Rightarrow> CLCommandQueue \<Rightarrow> CLContext \<Rightarrow> (nat \<rightharpoonup> u8 list) \<Rightarrow> Runtime" where
  "completed s queue q c blocks = s\<lparr>
     rt_blocks := blocks,
     rt_next := rt_next s + 2,
     rt_contexts := (rt_contexts s)(cq_context q \<mapsto> c\<lparr>cx_referenceCount := cx_referenceCount c + 1\<rparr>),
     rt_commands := (rt_commands s)(rt_next s := None),
     rt_ticks := rt_ticks s + 4,
     rt_events := (rt_events s)(rt_next s + 1 \<mapsto> (queued_event s queue q)\<lparr>ev_command := null_ref, ev_referenceCount := 1,
       ev_status := CL_COMPLETE, ev_timeSubmitted := rt_clock s (rt_ticks s + 1), ev_timeStart := rt_clock s (rt_ticks s + 2),
       ev_timeEnd := rt_clock s (rt_ticks s + 3), ev_callbacks := [CL_SUBMITTED \<mapsto> [], CL_RUNNING \<mapsto> [], CL_COMPLETE \<mapsto> []]\<rparr>),
     rt_queues := (rt_queues s)(queue \<mapsto> q\<lparr>cq_referenceCount := cq_referenceCount q + 1\<rparr>)\<rparr>"

lemma completed_sel [simp]:
  "rt_blocks (completed s queue q c blocks) = blocks" "rt_mems (completed s queue q c blocks) = rt_mems s"
  by (simp_all add: completed_def)

lemma queue_same: "cq_commands q = [] \<Longrightarrow> \<not> cq_flushInProcess q \<Longrightarrow>
  q\<lparr>cq_commands := [], cq_referenceCount := x, cq_flushInProcess := False\<rparr> = q\<lparr>cq_referenceCount := x\<rparr>"
  by (cases q) simp

text \<open>
  Running the command may change host memory and send a request; deleting it gives back what it
  held.
\<close>

lemma flush_one:
  assumes "idle s queue q c" and "1 + cq_referenceCount q \<noteq> 0" and "7 \<le> n"
    and exe: "\<And>u. rt_mems u = rt_mems s \<Longrightarrow> rt_kernels u = rt_kernels s \<Longrightarrow> rt_blocks u = rt_blocks s
      \<Longrightarrow> rt_sizes u = rt_sizes s \<Longrightarrow> rt_sent u = rt_sent s
      \<Longrightarrow> executeImpl cls u = (Inr (), u\<lparr>rt_blocks := blocks, rt_sent := sent\<rparr>)"
    and del: "\<And>k u. rt_mems u = rt_mems s \<Longrightarrow> rt_kernels u = rt_kernels s
      \<Longrightarrow> delete_class (call_body (run_call k)) cls u = (Inr (), u\<lparr>rt_mems := mems, rt_kernels := kernels\<rparr>)"
  shows "clFlush n queue (enqueued s queue q c cls)
    = (Inr CL_SUCCESS, (completed s queue q c blocks)\<lparr>rt_mems := mems, rt_kernels := kernels, rt_sent := sent\<rparr>)"
proof -
  obtain k where n: "n = Suc (Suc (Suc (Suc (Suc (Suc (Suc k))))))"
    using \<open>7 \<le> n\<close> by (auto simp: numeral_eq_Suc Suc_le_eq dest!: less_imp_Suc_add)
  have del': "delete_class (call_body (call_body (run_call k))) cls u = (Inr (), u\<lparr>rt_mems := mems, rt_kernels := kernels\<rparr>)"
    if "rt_mems u = rt_mems s" "rt_kernels u = rt_kernels s" for u
    using del [OF that, of "Suc k"] by simp
  show ?thesis using assms(1,2) unfolding n
    by (simp add: idle_def flush_defs runtime_simps exe del' enqueued_def queued_event_def completed_def,
      intro Runtime.equality; simp add: fun_upd_idem queue_same numeral_eq_Suc add.commute)
qed

lemma release_held_mem:
  assumes "rt_mems u = rt_mems (hold_mem m mo s)" "rt_kernels u = rt_kernels (hold_mem m mo s)"
    and "rt_mems s m = Some mo" "m \<noteq> null_ref" "mo_referenceCount mo \<noteq> 0"
  shows "bindM (clReleaseMemObject m) (\<lambda>_. retM ()) u = (Inr (), u\<lparr>rt_mems := rt_mems s, rt_kernels := rt_kernels s\<rparr>)"
proof -
  have "rt_mems u m = Some (mo\<lparr>mo_referenceCount := mo_referenceCount mo + 1\<rparr>)"
    using assms(1) by (simp add: hold_mem_def)
  then have "bindM (clReleaseMemObject m) (\<lambda>_. retM ()) u = (Inr (), u\<lparr>rt_mems := (rt_mems u)(m \<mapsto> mo)\<rparr>)"
    using assms(4,5) by (simp add: clReleaseMemObject_def runtime_simps)
  moreover have "(rt_mems u)(m \<mapsto> mo) = rt_mems s"
    using assms(1,3) by (simp add: hold_mem_def fun_upd_idem)
  moreover have "u\<lparr>rt_mems := x\<rparr> = u\<lparr>rt_mems := x, rt_kernels := rt_kernels s\<rparr>" for x
    using assms(2) by (cases u) (simp add: hold_mem_def)
  ultimately show ?thesis by simp
qed

lemma completed_held:
  "(completed (hold_mem m mo s) queue q c blocks)\<lparr>rt_mems := rt_mems s, rt_kernels := rt_kernels s, rt_sent := rt_sent s\<rparr>
    = completed s queue q c blocks"
  by (simp add: completed_def hold_mem_def queued_event_def)

lemma idle_held: "idle s queue q c \<Longrightarrow> idle (hold_mem m mo s) queue q c"
  by (simp add: idle_def hold_mem_def)

text \<open>A flush stops where its command fails.\<close>

lemma flush_fails:
  assumes "idle s queue q c"
    and exe: "\<And>u. rt_mems u = rt_mems s \<Longrightarrow> rt_blocks u = rt_blocks s \<Longrightarrow> rt_kernels u = rt_kernels s
      \<Longrightarrow> rt_sizes u = rt_sizes s \<Longrightarrow> fst (executeImpl cls u) = Inl err"
    and "3 \<le> n"
  shows "fst (clFlush n queue (enqueued s queue q c cls)) = Inl err"
proof -
  obtain k where n: "n = Suc (Suc (Suc k))"
    using \<open>3 \<le> n\<close> by (auto simp: numeral_eq_Suc Suc_le_eq dest!: less_imp_Suc_add)
  obtain w where w: "executeImpl cls u = (Inl err, w u)"
    if "rt_mems u = rt_mems s" "rt_blocks u = rt_blocks s" "rt_kernels u = rt_kernels s" "rt_sizes u = rt_sizes s" for u
    using that [of "\<lambda>u. snd (executeImpl cls u)"] exe by (metis prod.collapse)
  show ?thesis
    using assms(1) unfolding n
    by (simp add: idle_def flush_defs runtime_simps enqueued_def queued_event_def w)
qed

section \<open>Copying between host and buffer\<close>

lemma memcpy_other_block:
  assumes "read_block src n s = Inr data" and "rt_blocks s (fst dst) = Some bs" and "snd dst + n \<le> length bs"
    and "fst dst \<noteq> fst src"
  shows "memcpy dst src n s = (Inr (), s\<lparr>rt_blocks := (rt_blocks s)(fst dst \<mapsto>
    take (snd dst) bs @ data @ drop (snd dst + n) bs)\<rparr>)"
proof -
  have "length data = n"
    using assms(1) by (auto simp: read_block_def split: option.splits if_splits)
  then show ?thesis using assms by (simp add: memcpy_def runtime_simps write_block_def)
qed

lemma read_block_same:
  "rt_blocks t (fst p) = rt_blocks s (fst p) \<Longrightarrow> read_block p n t = read_block p n s"
  by (simp add: read_block_def)

lemma read_block_written:
  assumes "rt_blocks t (fst p) = Some (take (snd p) bs @ data @ drop (snd p + n) bs)" and "snd p + n \<le> length bs"
    and "length data = n"
  shows "read_block p n t = Inr data"
  using assms by (simp add: read_block_def)

text \<open>A buffer that host and kernels may use, with memory of its size.\<close>

definition buffer_ok :: "Runtime \<Rightarrow> ref \<Rightarrow> CLMem \<Rightarrow> u8 list \<Rightarrow> bool" where
  "buffer_ok s m mo bs \<longleftrightarrow> m \<noteq> null_ref \<and> rt_mems s m = Some mo \<and> mo_referenceCount mo \<noteq> 0 \<and> mo_hostCanRead mo
     \<and> mo_hostCanWrite mo \<and> rt_blocks s (fst (mo_address mo)) = Some bs \<and> snd (mo_address mo) + unat (mo_size mo) \<le> length bs"

definition in_buffer :: "CLMem \<Rightarrow> u64 \<Rightarrow> u64 \<Rightarrow> bool" where
  "in_buffer mo off sz \<longleftrightarrow> sz \<noteq> 0 \<and> unat off + unat sz \<le> unat (mo_size mo)"

lemma in_buffer_accepted: "in_buffer mo off sz \<Longrightarrow> \<not> off + sz > mo_size mo"
  by (auto simp: in_buffer_def word_less_nat_alt unat_word_ariths not_less intro: order_trans [OF mod_less_eq_dividend])

lemma blocking_write:
  assumes "idle s queue q c" "1 + cq_referenceCount q \<noteq> 0" "buffer_ok s m mo bs" "in_buffer mo off sz" "7 \<le> n"
    and "p \<noteq> null_pointer" "fst p \<noteq> fst (mo_address mo)" "read_block p (unat sz) s = Inr data"
  shows "clEnqueueWriteBuffer n queue m True off sz p 0 [] s = (Inr (CL_SUCCESS, rt_next s + 1),
    completed s queue q c ((rt_blocks s)(fst (mo_address mo) \<mapsto>
      take (snd (mo_address mo) + unat off) bs @ data @ drop (snd (mo_address mo) + unat off + unat sz) bs)))"
    (is "_ = (_, completed s queue q c ?blocks)")
proof -
  have "clFlush n queue (enqueued (hold_mem m mo s) queue q c (BufferWriteCommand m sz off p))
    = (Inr CL_SUCCESS, (completed (hold_mem m mo s) queue q c ?blocks)
        \<lparr>rt_mems := rt_mems s, rt_kernels := rt_kernels s, rt_sent := rt_sent s\<rparr>)"
  proof (rule flush_one [OF idle_held [OF assms(1)] assms(2,5)])
    fix u :: Runtime
    assume h: "rt_mems u = rt_mems (hold_mem m mo s)" "rt_blocks u = rt_blocks (hold_mem m mo s)" "rt_sent u = rt_sent (hold_mem m mo s)"
    then have u: "rt_blocks u = rt_blocks s" "rt_sent u = rt_sent s" by (simp_all add: hold_mem_def)
    have "memcpy (plus_pointer (mo_address mo) off) p (unat sz) u = (Inr (), u\<lparr>rt_blocks := ?blocks\<rparr>)"
      using memcpy_other_block [of p "unat sz" u data "plus_pointer (mo_address mo) off" bs] assms u read_block_same [of u p s]
      by (simp add: plus_pointer_def buffer_ok_def in_buffer_def)
    then show "executeImpl (BufferWriteCommand m sz off p) u = (Inr (), u\<lparr>rt_blocks := ?blocks, rt_sent := rt_sent s\<rparr>)"
      using assms(3) h u by (simp add: runtime_simps hold_mem_def buffer_ok_def)
  qed (use assms(3) in \<open>simp add: release_held_mem buffer_ok_def\<close>)
  then show ?thesis unfolding completed_held
    using assms in_buffer_accepted [OF assms(4)] enqueue_write [OF assms(1), of m mo]
    by (simp add: clEnqueueWriteBuffer_def runtime_simps buffer_ok_def in_buffer_def)
qed

lemma blocking_read:
  assumes "idle s queue q c" "1 + cq_referenceCount q \<noteq> 0" "buffer_ok s m mo bs" "in_buffer mo off sz" "7 \<le> n"
    and "p \<noteq> null_pointer" "fst p \<noteq> fst (mo_address mo)" "rt_blocks s (fst p) = Some bs'" "snd p + unat sz \<le> length bs'"
    and "read_block (plus_pointer (mo_address mo) off) (unat sz) s = Inr data"
  shows "clEnqueueReadBuffer n queue m True off sz p 0 [] s = (Inr (CL_SUCCESS, rt_next s + 1),
    completed s queue q c ((rt_blocks s)(fst p \<mapsto> take (snd p) bs' @ data @ drop (snd p + unat sz) bs')))"
    (is "_ = (_, completed s queue q c ?blocks)")
proof -
  have "clFlush n queue (enqueued (hold_mem m mo s) queue q c (BufferReadCommand m sz off p))
    = (Inr CL_SUCCESS, (completed (hold_mem m mo s) queue q c ?blocks)
        \<lparr>rt_mems := rt_mems s, rt_kernels := rt_kernels s, rt_sent := rt_sent s\<rparr>)"
  proof (rule flush_one [OF idle_held [OF assms(1)] assms(2,5)])
    fix u :: Runtime
    assume h: "rt_mems u = rt_mems (hold_mem m mo s)" "rt_blocks u = rt_blocks (hold_mem m mo s)" "rt_sent u = rt_sent (hold_mem m mo s)"
    then have u: "rt_blocks u = rt_blocks s" "rt_sent u = rt_sent s" by (simp_all add: hold_mem_def)
    have "memcpy p (plus_pointer (mo_address mo) off) (unat sz) u = (Inr (), u\<lparr>rt_blocks := ?blocks\<rparr>)"
      using memcpy_other_block [of "plus_pointer (mo_address mo) off" "unat sz" u data p bs'] assms u
        read_block_same [of u "plus_pointer (mo_address mo) off" s]
      by (simp add: plus_pointer_def)
    then show "executeImpl (BufferReadCommand m sz off p) u = (Inr (), u\<lparr>rt_blocks := ?blocks, rt_sent := rt_sent s\<rparr>)"
      using assms(3) h u by (simp add: runtime_simps hold_mem_def buffer_ok_def)
  qed (use assms(3) in \<open>simp add: release_held_mem buffer_ok_def\<close>)
  then show ?thesis unfolding completed_held
    using assms in_buffer_accepted [OF assms(4)] enqueue_read [OF assms(1), of m mo]
    by (simp add: clEnqueueReadBuffer_def runtime_simps buffer_ok_def in_buffer_def)
qed

lemma completed_idle:
  "idle s queue q c \<Longrightarrow> idle (completed s queue q c blocks) queue (q\<lparr>cq_referenceCount := cq_referenceCount q + 1\<rparr>)
    (c\<lparr>cx_referenceCount := cx_referenceCount c + 1\<rparr>)"
  by (simp add: idle_def completed_def isOutOfOrder_def)

text \<open>
  What a blocking write puts into a buffer is what a blocking read of the same range gets out, and
  no other host memory changes.
\<close>

text \<open>
  C9: What a blocking write puts into a buffer is what a blocking read of the same range gets
  out, and no other host memory changes.
\<close>

theorem write_then_read:
  assumes "idle s queue q c" "1 + cq_referenceCount q \<noteq> 0" "2 + cq_referenceCount q \<noteq> 0"
    and "buffer_ok s m mo bs" "in_buffer mo off sz" "7 \<le> n"
    and "p \<noteq> null_pointer" "fst p \<noteq> fst (mo_address mo)" "read_block p (unat sz) s = Inr data"
    and "p' \<noteq> null_pointer" "fst p' \<noteq> fst (mo_address mo)" "rt_blocks s (fst p') = Some bs'" "snd p' + unat sz \<le> length bs'"
  shows "\<exists>event t. bindM (clEnqueueWriteBuffer n queue m True off sz p 0 [])
      (\<lambda>_. clEnqueueReadBuffer n queue m True off sz p' 0 []) s = (Inr (CL_SUCCESS, event), t)
    \<and> read_block p' (unat sz) t = Inr data
    \<and> (\<forall>b. b \<noteq> fst p' \<longrightarrow> b \<noteq> fst (mo_address mo) \<longrightarrow> rt_blocks t b = rt_blocks s b)"
proof -
  let ?a = "plus_pointer (mo_address mo) off"
  let ?bs = "take (snd ?a) bs @ data @ drop (snd ?a + unat sz) bs"
  let ?s = "completed s queue q c ((rt_blocks s)(fst ?a \<mapsto> ?bs))"
  let ?q = "q\<lparr>cq_referenceCount := cq_referenceCount q + 1\<rparr>"
  let ?c = "c\<lparr>cx_referenceCount := cx_referenceCount c + 1\<rparr>"
  have a: "fst ?a = fst (mo_address mo)" "snd ?a = snd (mo_address mo) + unat off" by (simp_all add: plus_pointer_def)
  have fits: "snd ?a + unat sz \<le> length bs" using assms(4,5) by (simp add: buffer_ok_def in_buffer_def a)
  have len: "length data = unat sz"
    using assms(9) by (auto simp: read_block_def split: option.splits if_splits)
  have ok: "buffer_ok ?s m mo ?bs" using assms(4) fits by (simp add: buffer_ok_def len a)
  have "read_block ?a (unat sz) ?s = Inr data"
    by (rule read_block_written [OF _ fits len]) simp
  from blocking_read [OF completed_idle [OF assms(1)] _ ok assms(5,6,10,11) _ assms(13) this] assms(3,11,12)
  obtain e t where r: "clEnqueueReadBuffer n queue m True off sz p' 0 [] ?s = (Inr (CL_SUCCESS, e), t)"
    and t: "rt_blocks t = (rt_blocks ?s)(fst p' \<mapsto> take (snd p') bs' @ data @ drop (snd p' + unat sz) bs')"
    by (fastforce simp: a add.commute add.left_commute)
  have "clEnqueueWriteBuffer n queue m True off sz p 0 [] s = (Inr (CL_SUCCESS, rt_next s + 1), ?s)"
    using blocking_write [OF assms(1,2,4,5,6,7,8,9)] by (simp add: a)
  with r have "bindM (clEnqueueWriteBuffer n queue m True off sz p 0 [])
      (\<lambda>_. clEnqueueReadBuffer n queue m True off sz p' 0 []) s = (Inr (CL_SUCCESS, e), t)"
    by (simp add: bindM_def)
  moreover have "read_block p' (unat sz) t = Inr data"
    by (rule read_block_written [OF _ assms(13) len]) (simp add: t)
  ultimately show ?thesis using t by (auto simp: a)
qed

section \<open>What stays after a command\<close>

text \<open>
  The times of the event of a completed command are in order if the clock is, and a queue with
  profiling answers them.
\<close>

theorem event_times_in_order:
  assumes "idle s queue q c" "1 + cq_referenceCount q \<noteq> 0" "buffer_ok s m mo bs" "in_buffer mo off sz" "7 \<le> n"
    and "p \<noteq> null_pointer" "fst p \<noteq> fst (mo_address mo)" "read_block p (unat sz) s = Inr data"
    and "isProfilingEnabled q" "mono (rt_clock s)"
  shows "\<exists>event e t. clEnqueueWriteBuffer n queue m True off sz p 0 [] s = (Inr (CL_SUCCESS, event), t)
    \<and> rt_events t event = Some e \<and> isCompleted e
    \<and> ev_timeQueued e \<le> ev_timeSubmitted e \<and> ev_timeSubmitted e \<le> ev_timeStart e \<and> ev_timeStart e \<le> ev_timeEnd e
    \<and> clGetEventProfilingInfo t event 0x1280 8 (Some (replicate 8 0)) False
        = Inr (CL_SUCCESS, Some (word_bytes (ev_timeQueued e)), None)
    \<and> clGetEventProfilingInfo t event 0x1283 8 (Some (replicate 8 0)) False
        = Inr (CL_SUCCESS, Some (word_bytes (ev_timeEnd e)), None)"
proof -
  have q: "queue \<noteq> null_ref" using assms(1) by (simp add: idle_def)
  have "isProfilingEnabled (q\<lparr>cq_referenceCount := x\<rparr>)" for x using assms(9) by (simp add: isProfilingEnabled_def)
  then show ?thesis
    using blocking_write [OF assms(1-8)] monoD [OF assms(10)]
    by (auto simp: completed_def queued_event_def isCompleted_def clGetEventProfilingInfo_def obj_def profiling_value_def
        getParamInfo_def info_size_def info_bytes_def memcpy_bytes_def length_word_bytes Let_def)
qed

text \<open>
  The event of a command outlives it, and with it the queue: a caller that did not ask for the
  event cannot release it, so releasing its only reference to the queue does not delete the queue.
\<close>

theorem unwanted_event_keeps_queue:
  assumes "idle s queue q c" "cq_referenceCount q = 1" "buffer_ok s m mo bs" "in_buffer mo off sz" "7 \<le> n"
    and "p \<noteq> null_pointer" "fst p \<noteq> fst (mo_address mo)" "read_block p (unat sz) s = Inr data"
  shows "\<exists>event e q' t. bindM (clEnqueueWriteBuffer n queue m True off sz p 0 [])
      (\<lambda>_. clReleaseCommandQueue n queue) s = (Inr CL_SUCCESS, t)
    \<and> rt_queues t queue = Some q' \<and> cq_referenceCount q' = 1
    \<and> rt_events t event = Some e \<and> ev_referenceCount e = 1 \<and> ev_commandQueue e = queue"
proof -
  obtain k where n: "n = Suc (Suc (Suc (Suc k)))" using assms(5) by (auto simp: numeral_eq_Suc Suc_le_eq dest!: less_imp_Suc_add)
  define u where "u = completed s queue q c ((rt_blocks s)(fst (mo_address mo) \<mapsto>
      take (snd (mo_address mo) + unat off) bs @ data @ drop (snd (mo_address mo) + unat off + unat sz) bs))"
  have "1 + cq_referenceCount q \<noteq> 0" using assms(2) by simp
  then have w: "clEnqueueWriteBuffer n queue m True off sz p 0 [] s = (Inr (CL_SUCCESS, rt_next s + 1), u)"
    using blocking_write [OF assms(1) _ assms(3-8)] by (simp add: u_def)
  have u: "rt_queues u queue = Some (q\<lparr>cq_referenceCount := 2\<rparr>)"
    "\<exists>e. rt_events u (rt_next s + 1) = Some e \<and> ev_referenceCount e = 1 \<and> ev_commandQueue e = queue"
    using assms(2) by (simp_all add: u_def completed_def queued_event_def)
  obtain t where "clReleaseCommandQueue n queue u = (Inr CL_SUCCESS, t)" "rt_events t = rt_events u"
    "\<exists>q'. rt_queues t queue = Some q' \<and> cq_referenceCount q' = 1"
    using assms(1) u(1) unfolding n
    by (auto simp: clReleaseCommandQueue_def release_command_queue_def idle_def flush_queue_def flush_loop_def runtime_simps)
  with w u(2) show ?thesis by (fastforce simp: bindM_def)
qed

text \<open>The queue and the type of a completed command cannot be asked for: its event refers to no command any more.\<close>

theorem completed_command_query:
  assumes "idle s queue q c" "1 + cq_referenceCount q \<noteq> 0" "buffer_ok s m mo bs" "in_buffer mo off sz" "7 \<le> n"
    and "p \<noteq> null_pointer" "fst p \<noteq> fst (mo_address mo)" "read_block p (unat sz) s = Inr data"
    and "param_name = 0x11D0 \<or> param_name = 0x11D1"
  shows "\<exists>event t. clEnqueueWriteBuffer n queue m True off sz p 0 [] s = (Inr (CL_SUCCESS, event), t)
    \<and> clGetEventInfo t event param_name 8 (Some buffer) w = Inl (Undefined ''null pointer'')"
  using blocking_write [OF assms(1-8)] assms(9)
  by (auto simp: completed_def queued_event_def clGetEventInfo_def obj_def event_value_def event_command_def getParamInfo_def)

section \<open>Ranges\<close>

text \<open>
  A range whose end wraps around passes the check; the command then reads outside of the memory of
  the buffer.
\<close>

theorem wrapping_range_accepted:
  assumes "idle s queue q c" "m \<noteq> null_ref" "rt_mems s m = Some mo" "mo_hostCanRead mo"
    and "rt_blocks s (fst (mo_address mo)) = Some bs" "length bs < unat off + unat sz"
    and "p \<noteq> null_pointer" "fst p \<noteq> fst (mo_address mo)" "sz \<noteq> 0" "off + sz \<le> mo_size mo" "3 \<le> n"
  shows "fst (clEnqueueReadBuffer n queue m True off sz p 0 [] s) = Inl (Undefined ''memcpy'')"
proof -
  have "idle (hold_mem m mo s) queue q c" using assms(1) by (simp add: idle_def hold_mem_def)
  then have "fst (clFlush n queue (enqueued (hold_mem m mo s) queue q c (BufferReadCommand m sz off p))) = Inl (Undefined ''memcpy'')"
    by (rule flush_fails)
      (use assms in \<open>auto simp: hold_mem_def runtime_simps memcpy_def read_block_def plus_pointer_def\<close>)
  then obtain t where "clFlush n queue (enqueued (hold_mem m mo s) queue q c (BufferReadCommand m sz off p)) = (Inl (Undefined ''memcpy''), t)"
    by (metis fst_conv surj_pair)
  then show ?thesis
    using assms enqueue_read [OF assms(1,3,2)] by (simp add: clEnqueueReadBuffer_def runtime_simps)
qed

section \<open>Making and releasing buffers\<close>

definition device_has :: "Runtime \<Rightarrow> CLDeviceId \<Rightarrow> u64 \<Rightarrow> bool" where
  "device_has s d sz \<longleftrightarrow> rt_device s = Some d \<and> \<not> dv_usedGlobalMemory d + sz > dv_globalMemorySize d"

lemma own_memory:
  assumes "\<not> has_flag flags CL_MEM_USE_HOST_PTR"
    and "has_flag flags CL_MEM_COPY_HOST_PTR \<Longrightarrow> fst host_ptr \<noteq> rt_next s \<and> read_block host_ptr (unat sz) s = Inr data"
    and "\<not> has_flag flags CL_MEM_COPY_HOST_PTR \<Longrightarrow> data = replicate (unat sz) 0"
  shows "buffer_memory flags sz host_ptr s = (Inr (rt_next s, 0), s\<lparr>rt_next := rt_next s + 1,
    rt_blocks := (rt_blocks s)(rt_next s \<mapsto> data), rt_new_blocks := insert (rt_next s) (rt_new_blocks s)\<rparr>)"
proof (cases "has_flag flags CL_MEM_COPY_HOST_PTR")
  case True
  let ?t = "s\<lparr>rt_next := rt_next s + 1, rt_blocks := (rt_blocks s)(rt_next s \<mapsto> replicate (unat sz) 0),
    rt_new_blocks := insert (rt_next s) (rt_new_blocks s)\<rparr>"
  have "read_block host_ptr (unat sz) ?t = Inr data"
    using assms(2) [OF True] by (simp add: read_block_def)
  from memcpy_other_block [OF this, of "(rt_next s, 0)" "replicate (unat sz) 0"] assms(2) [OF True]
  show ?thesis using assms(1) True by (simp add: buffer_memory_def new_block_def runtime_simps)
qed (use assms in \<open>simp add: buffer_memory_def new_block_def runtime_simps\<close>)

lemma device_same: "d\<lparr>dv_usedGlobalMemory := dv_usedGlobalMemory d\<rparr> = d"
  by simp

text \<open>
  A buffer with memory of its own is accounted for on the device, and making and releasing it
  leaves the runtime as it was but for the numbers used.
\<close>

text \<open>
  C34: A new buffer holds a copy of the host data or zeroes and is charged to the device; its
  release frees the memory, gives back the charge and the reference to the context.
\<close>

theorem create_then_release_buffer:
  assumes "buffer_error context flags sz host_ptr = None" "\<not> has_flag flags CL_MEM_USE_HOST_PTR"
    and "device_has s d sz" "rt_contexts s context = Some c" "cx_referenceCount c \<noteq> 0"
    and "rt_mems s (rt_next s) = None" "rt_next s \<noteq> null_ref" "rt_blocks s (rt_next s + 1) = None" "rt_next s + 1 \<notin> rt_new_blocks s"
    and "has_flag flags CL_MEM_COPY_HOST_PTR \<Longrightarrow> fst host_ptr \<noteq> rt_next s + 1 \<and> read_block host_ptr (unat sz) s = Inr data"
    and "\<not> has_flag flags CL_MEM_COPY_HOST_PTR \<Longrightarrow> data = replicate (unat sz) 0"
  shows "\<exists>t mo. clCreateBuffer context flags sz host_ptr s = (Inr (rt_next s, CL_SUCCESS), t)
    \<and> rt_mems t (rt_next s) = Some mo \<and> read_block (mo_address mo) (unat sz) t = Inr data
    \<and> rt_device t = Some (d\<lparr>dv_usedGlobalMemory := dv_usedGlobalMemory d + sz\<rparr>)
    \<and> clReleaseMemObject (rt_next s) t = (Inr CL_SUCCESS, s\<lparr>rt_next := rt_next s + 2\<rparr>)"
proof -
  have mem: "buffer_memory flags sz host_ptr u = (Inr (rt_next u, 0), u\<lparr>rt_next := rt_next u + 1,
      rt_blocks := (rt_blocks u)(rt_next u \<mapsto> data), rt_new_blocks := insert (rt_next u) (rt_new_blocks u)\<rparr>)"
    if "rt_next u = rt_next s + 1" "rt_blocks u = rt_blocks s" for u
    by (rule own_memory) (use assms that in \<open>auto simp: read_block_def\<close>)
  have len: "length data = unat sz"
    using assms(10,11) by (cases "has_flag flags CL_MEM_COPY_HOST_PTR") (auto simp: read_block_def split: option.splits if_splits)
  have ctx: "context \<noteq> null_ref" using assms(1) by (auto simp: buffer_error_def Let_def split: if_splits)
  let ?mo = "new_mem context flags sz (rt_next s + 1, 0)"
  let ?t = "s\<lparr>rt_next := rt_next s + 2, rt_contexts := (rt_contexts s)(context \<mapsto> c\<lparr>cx_referenceCount := 1 + cx_referenceCount c\<rparr>),
    rt_blocks := (rt_blocks s)(rt_next s + 1 \<mapsto> data), rt_new_blocks := insert (rt_next s + 1) (rt_new_blocks s),
    rt_mems := (rt_mems s)(rt_next s \<mapsto> ?mo), rt_device := Some (d\<lparr>dv_usedGlobalMemory := dv_usedGlobalMemory d + sz\<rparr>)\<rparr>"
  have "clCreateBuffer context flags sz host_ptr s = (Inr (rt_next s, CL_SUCCESS), ?t)"
    using assms(1-4) ctx
    by (simp add: clCreateBuffer_def device_has_def runtime_simps clRetainContext_def mem set_used_def add.commute)
  moreover have "clReleaseMemObject (rt_next s) ?t = (Inr CL_SUCCESS, s\<lparr>rt_next := rt_next s + 2\<rparr>)"
    using assms(3-9) ctx
    by (simp add: clReleaseMemObject_def new_mem_def runtime_simps delete_block_def device_has_def set_used_def delete_mem_def
        clReleaseContext_def) (intro Runtime.equality; simp add: fun_upd_idem)
  moreover have "read_block (mo_address ?mo) (unat sz) ?t = Inr data"
    by (simp add: read_block_def new_mem_def Let_def len)
  ultimately show ?thesis by (intro exI conjI) simp_all
qed

lemma buffer_error_code: "buffer_error context flags sz host_ptr = Some code \<Longrightarrow> code \<noteq> CL_SUCCESS"
  by (auto simp: buffer_error_def Let_def split: if_splits)

text \<open>A call that fails makes nothing and changes nothing.\<close>

theorem failed_create_buffer:
  assumes "clCreateBuffer context flags sz host_ptr s = (Inr (mem, code), t)" and "code \<noteq> CL_SUCCESS" and "rt_next s \<noteq> null_ref"
  shows "mem = null_ref \<and> t = s
    \<and> (case buffer_error context flags sz host_ptr of Some e \<Rightarrow> code = e | None \<Rightarrow> code = CL_MEM_OBJECT_ALLOCATION_FAILURE)"
proof (cases "buffer_error context flags sz host_ptr")
  case None
  have "snd (host_ptr) = 0 \<longrightarrow> fst host_ptr \<noteq> 0" if "has_flag flags CL_MEM_USE_HOST_PTR"
    using None that by (cases host_ptr) (auto simp: buffer_error_def Let_def split: if_splits)
  with None assms show ?thesis
    by (auto simp: clCreateBuffer_def runtime_simps clRetainContext_def buffer_memory_def new_block_def memcpy_def write_block_def
        delete_mem_def set_used_def split: option.splits if_splits sum.splits prod.splits)
qed (use assms in \<open>simp add: clCreateBuffer_def retM_def\<close>)

text \<open>
  A buffer over memory of the host is made without a copy, and releasing it deletes that memory,
  which the runtime did not allocate.
\<close>

theorem host_buffer_release:
  assumes "buffer_error context flags sz host_ptr = None" "has_flag flags CL_MEM_USE_HOST_PTR"
    and "device_has s d sz" "rt_contexts s context = Some c" "rt_next s \<noteq> null_ref" "fst host_ptr \<notin> rt_new_blocks s"
  shows "\<exists>t mo. clCreateBuffer context flags sz host_ptr s = (Inr (rt_next s, CL_SUCCESS), t)
    \<and> rt_mems t (rt_next s) = Some mo \<and> mo_address mo = host_ptr
    \<and> fst (clReleaseMemObject (rt_next s) t) = Inl (Undefined ''delete'')"
proof -
  have host: "context \<noteq> null_ref" "host_ptr \<noteq> null_pointer"
    using assms(1,2) by (auto simp: buffer_error_def Let_def split: if_splits)
  show ?thesis
    using assms host
    by (cases host_ptr) (auto simp: clCreateBuffer_def device_has_def runtime_simps clRetainContext_def buffer_memory_def set_used_def
        new_mem_def clReleaseMemObject_def delete_block_def)
qed

text \<open>
  Without one of the three access flags a buffer is open to kernels only if it has no flags at all:
  one that copies host memory can neither be read nor written by a kernel.
\<close>

theorem copied_buffer_closed_to_kernels:
  assumes "clCreateBuffer context CL_MEM_COPY_HOST_PTR sz host_ptr s = (Inr (mem, CL_SUCCESS), t)"
  shows "\<exists>mo. rt_mems t mem = Some mo \<and> \<not> mo_kernelCanRead mo \<and> \<not> mo_kernelCanWrite mo \<and> mo_hostCanRead mo \<and> mo_hostCanWrite mo"
  using assms buffer_error_code [of "context" CL_MEM_COPY_HOST_PTR sz host_ptr]
  by (auto simp: clCreateBuffer_def runtime_simps clRetainContext_def buffer_memory_def new_block_def memcpy_def write_block_def
      new_mem_def has_flag_def delete_mem_def set_used_def split: option.splits if_splits sum.splits prod.splits)

section \<open>Filling\<close>

lemma forM_append: "forM (xs @ ys) f = bindM (forM xs f) (\<lambda>_. forM ys f)"
  by (induction xs) (auto simp: fun_eq_iff bindM_def retM_def split: prod.splits sum.splits)

lemma fill_steps:
  assumes "read_block pattern n s = Inr pat" and "fst pattern \<noteq> b" and "rt_blocks s b = Some bs"
    and "a + k * n \<le> length bs" and "\<And>i. i < k \<Longrightarrow> snd (f i) = a + i * n \<and> fst (f i) = b"
  shows "forM [0..<k] (\<lambda>i. memcpy (f i) pattern n) s
    = (Inr (), s\<lparr>rt_blocks := (rt_blocks s)(b \<mapsto> take a bs @ concat (replicate k pat) @ drop (a + k * n) bs)\<rparr>)"
  using assms(4,5)
proof (induction k)
  case 0
  then show ?case using assms(3) by (simp add: retM_def fun_upd_idem)
next
  case (Suc k)
  have len: "length pat = n" using assms(1) by (auto simp: read_block_def split: option.splits if_splits)
  have lk: "length (concat (replicate k pat)) = k * n" by (induction k) (simp_all add: len)
  let ?bs = "take a bs @ concat (replicate k pat) @ drop (a + k * n) bs"
  let ?t = "s\<lparr>rt_blocks := (rt_blocks s)(b \<mapsto> ?bs)\<rparr>"
  have IH: "forM [0..<k] (\<lambda>i. memcpy (f i) pattern n) s = (Inr (), ?t)"
    by (rule Suc.IH) (use Suc.prems in auto)
  have "read_block pattern n ?t = Inr pat" using assms(1,2) by (simp add: read_block_def)
  from memcpy_other_block [OF this, of "f k" ?bs] Suc.prems assms(2)
  have "memcpy (f k) pattern n ?t
      = (Inr (), s\<lparr>rt_blocks := (rt_blocks s)(b \<mapsto> take (a + k * n) ?bs @ pat @ drop (a + k * n + n) ?bs)\<rparr>)"
    by (auto simp: lk)
  moreover have "take (a + k * n) ?bs = take a bs @ concat (replicate k pat)"
    using Suc.prems(1) by (simp add: lk min_def)
  moreover have "drop (a + k * n + n) ?bs = drop (a + Suc k * n) bs"
    using Suc.prems(1) by (simp add: lk add.commute add.left_commute)
  moreover have "concat (replicate (Suc k) pat) = concat (replicate k pat) @ pat"
    by (induction k) simp_all
  ultimately have "memcpy (f k) pattern n ?t = (Inr (), s\<lparr>rt_blocks := (rt_blocks s)(b \<mapsto>
      take a bs @ concat (replicate (Suc k) pat) @ drop (a + Suc k * n) bs)\<rparr>)"
    by (simp only: append_assoc)
  then show ?case
    by (simp only: upt_Suc_append [OF le0] forM_append bindM_def IH prod.case sum.case forM.simps retM_def)
qed

text \<open>
  A fill command repeats its pattern over the range as often as it fits, and leaves the rest of the
  range and everything else as it was.
\<close>

theorem fill_repeats_pattern:
  assumes "m \<noteq> null_ref" "rt_mems s m = Some mo" "rt_blocks s (fst (mo_address mo)) = Some bs"
    and "read_block pattern (unat patternSize) s = Inr pat" "fst pattern \<noteq> fst (mo_address mo)"
    and "a = snd (mo_address mo) + unat offset" "a + unat sz \<le> length bs"
    and "patternSize \<noteq> 0" "k = unat sz div unat patternSize" "k < 2 ^ 31"
  shows "executeImpl (BufferFillCommand m pattern patternSize offset sz) s = (Inr (), s\<lparr>rt_blocks := (rt_blocks s)
    (fst (mo_address mo) \<mapsto> take a bs @ concat (replicate k pat) @ drop (a + k * unat patternSize) bs)\<rparr>)"
proof -
  let ?dst = "plus_pointer (mo_address mo) offset"
  have kn: "k * unat patternSize \<le> unat sz" using assms(9) by simp
  have f: "snd (plus_pointer ?dst (of_nat i * patternSize)) = a + i * unat patternSize
      \<and> fst (plus_pointer ?dst (of_nat i * patternSize)) = fst (mo_address mo)" if "i < k" for i
  proof -
    have "i * unat patternSize < 2 ^ 64"
    proof -
      have "unat sz < 2 ^ 64" using unsigned_less [of sz] by simp
      moreover have "i * unat patternSize \<le> k * unat patternSize" using that by simp
      ultimately show ?thesis using kn by linarith
    qed
    moreover have "i < 2 ^ 64" using that assms(10) by simp
    ultimately have "unat (of_nat i * patternSize) = i * unat patternSize"
      by (simp add: unat_word_ariths unsigned_of_nat take_bit_nat_eq_self)
    then show ?thesis using assms(6) by (simp add: plus_pointer_def)
  qed
  have "forM [0..<k] (\<lambda>i. memcpy (plus_pointer ?dst (of_nat i * patternSize)) pattern (unat patternSize)) s
    = (Inr (), s\<lparr>rt_blocks := (rt_blocks s)
        (fst (mo_address mo) \<mapsto> take a bs @ concat (replicate k pat) @ drop (a + k * unat patternSize) bs)\<rparr>)"
    using fill_steps [OF assms(4,5,3) _ f] kn assms(7) by simp
  moreover have "unat (sz div patternSize) = k" using assms(9) by (simp add: unat_div)
  ultimately show ?thesis
    using assms(1,2,8,10) by (simp add: runtime_simps fill_loop_def)
qed

section \<open>Instances\<close>

text \<open>A runtime with one context, an idle queue with profiling, a buffer, a program and a kernel.\<close>

definition sample_context :: CLContext where
  "sample_context = \<lparr>cx_callback = None, cx_callbackUserData = null_ref, cx_referenceCount = 2\<rparr>"

definition sample_queue :: CLCommandQueue where
  "sample_queue = \<lparr>cq_context = 1, cq_properties = 2, cq_referenceCount = 1, cq_commands = [], cq_flushInProcess = False\<rparr>"

definition sample_mem :: CLMem where
  "sample_mem = \<lparr>mo_context = 1, mo_address = (10, 0), mo_size = 16, mo_kernelCanRead = True, mo_kernelCanWrite = True,
     mo_hostCanRead = True, mo_hostCanWrite = True, mo_referenceCount = 1, mo_destructorCallbacks = []\<rparr>"

definition sample_kernel :: CLKernel where
  "sample_kernel = (build (new_builder ''add''))\<lparr>kr_program := 5\<rparr>"

definition sample_program :: CLProgram where
  "sample_program = \<lparr>pg_context = 1, pg_binarySize = 16, pg_binary = (13, 0), pg_buildStatus = 0, pg_buildLog = [],
     pg_disassembledBinary = Some (new_result\<lparr>bd_kernelBuilders := [new_builder ''add'']\<rparr>), pg_createdKernels = [],
     pg_referenceCount = 1\<rparr>"

definition sample_device :: CLDeviceId where
  "sample_device = \<lparr>dv_deviceType = 4, dv_globalMemorySize = 1024, dv_constantMemorySize = 64, dv_localMemorySize = 64,
     dv_usedGlobalMemory = 16, dv_usedLocalMemory = 0\<rparr>"

definition sample_runtime :: Runtime where
  "sample_runtime = \<lparr>rt_platform = Some the_platform, rt_device = Some sample_device,
     rt_parameters = [0x1004 \<mapsto> info_value (NumV 256) 8, 0x1005 \<mapsto> info_value (ArrV (word_bytes 256 @ word_bytes 256 @ word_bytes 256)) 24],
     rt_contexts = [1 \<mapsto> sample_context], rt_mems = [3 \<mapsto> sample_mem], rt_events = Map.empty, rt_commands = Map.empty,
     rt_queues = [2 \<mapsto> sample_queue], rt_kernels = [4 \<mapsto> sample_kernel], rt_programs = [5 \<mapsto> sample_program],
     rt_blocks = [10 \<mapsto> replicate 16 0, 11 \<mapsto> [1, 2, 3, 4, 5, 6, 7, 8], 12 \<mapsto> replicate 8 0, 13 \<mapsto> replicate 16 7],
     rt_new_blocks = {10, 13}, rt_sizes = [6 \<mapsto> [64]], rt_next = 20, rt_clock = (\<lambda>n. if n < 2 then 5 else 9), rt_ticks = 0,
     rt_calls = [], rt_sent = []\<rparr>"

lemma sample_idle: "idle sample_runtime 2 sample_queue sample_context"
  by (simp add: idle_def sample_runtime_def sample_queue_def isOutOfOrder_def)

lemma sample_buffer: "buffer_ok sample_runtime 3 sample_mem (replicate 16 0)"
  by (simp add: buffer_ok_def sample_runtime_def sample_mem_def)

lemma sample_range: "in_buffer sample_mem 4 8"
  by (simp add: in_buffer_def sample_mem_def)

lemma sample_source:
  "(11, 0) \<noteq> null_pointer" "fst (11, 0) \<noteq> fst (mo_address sample_mem)"
  "read_block (11, 0) (unat (8 :: u64)) sample_runtime = Inr [1, 2, 3, 4, 5, 6, 7, 8]"
  by (simp_all add: read_block_def sample_runtime_def sample_mem_def)

lemma write_then_read_witness:
  "\<exists>event t. bindM (clEnqueueWriteBuffer 7 2 3 True 4 8 (11, 0) 0 [])
      (\<lambda>_. clEnqueueReadBuffer 7 2 3 True 4 8 (12, 0) 0 []) sample_runtime = (Inr (CL_SUCCESS, event), t)
    \<and> read_block (12, 0) 8 t = Inr [1, 2, 3, 4, 5, 6, 7, 8]"
proof -
  have "1 + cq_referenceCount sample_queue \<noteq> 0" "2 + cq_referenceCount sample_queue \<noteq> 0"
    by (simp_all add: sample_queue_def)
  moreover have "(12 :: nat, 0 :: nat) \<noteq> null_pointer" "fst (12 :: nat, 0 :: nat) \<noteq> fst (mo_address sample_mem)"
    "rt_blocks sample_runtime (fst (12, 0 :: nat)) = Some (replicate 8 0)"
    "snd (12 :: nat, 0) + unat (8 :: u64) \<le> length (replicate 8 (0 :: u8))"
    by (simp_all add: sample_mem_def sample_runtime_def)
  ultimately show ?thesis
    using write_then_read [OF sample_idle _ _ sample_buffer sample_range _ sample_source, of 7 "(12, 0)" "replicate 8 0"]
    by fastforce
qed

lemma event_times_in_order_witness:
  "\<exists>event e t. clEnqueueWriteBuffer 7 2 3 True 4 8 (11, 0) 0 [] sample_runtime = (Inr (CL_SUCCESS, event), t)
    \<and> rt_events t event = Some e \<and> ev_timeQueued e \<le> ev_timeEnd e"
proof -
  have "1 + cq_referenceCount sample_queue \<noteq> 0" "isProfilingEnabled sample_queue" "mono (rt_clock sample_runtime)"
    by (auto simp: sample_queue_def isProfilingEnabled_def sample_runtime_def mono_def)
  from event_times_in_order [OF sample_idle this(1) sample_buffer sample_range _ sample_source this(2,3), of 7]
  show ?thesis by fastforce
qed

lemma unwanted_event_keeps_queue_witness:
  "\<exists>t q'. bindM (clEnqueueWriteBuffer 7 2 3 True 4 8 (11, 0) 0 [])
      (\<lambda>_. clReleaseCommandQueue 7 2) sample_runtime = (Inr CL_SUCCESS, t) \<and> rt_queues t 2 = Some q'"
  using unwanted_event_keeps_queue [OF sample_idle _ sample_buffer sample_range _ sample_source, of 7]
  by (fastforce simp: sample_queue_def)

lemma completed_command_query_witness:
  "\<exists>event t. clEnqueueWriteBuffer 7 2 3 True 4 8 (11, 0) 0 [] sample_runtime = (Inr (CL_SUCCESS, event), t)
    \<and> clGetEventInfo t event 0x11D0 8 (Some [0]) False = Inl (Undefined ''null pointer'')"
  using completed_command_query [OF sample_idle _ sample_buffer sample_range _ sample_source, of 7 "0x11D0" "[0]" False]
  by (fastforce simp: sample_queue_def)

lemma wrapping_range_accepted_witness:
  "fst (clEnqueueReadBuffer 3 2 3 True (- 4) 8 (12, 0) 0 [] sample_runtime) = Inl (Undefined ''memcpy'')"
  using wrapping_range_accepted [OF sample_idle, of 3 sample_mem "replicate 16 0" "- 4" 8 "(12, 0)" 3]
  by (simp add: sample_runtime_def sample_mem_def)

lemma create_then_release_buffer_witness:
  "\<exists>t mo. clCreateBuffer 1 CL_MEM_COPY_HOST_PTR 8 (11, 0) sample_runtime = (Inr (20, CL_SUCCESS), t)
    \<and> rt_mems t 20 = Some mo \<and> read_block (mo_address mo) 8 t = Inr [1, 2, 3, 4, 5, 6, 7, 8]"
proof -
  have "buffer_error 1 CL_MEM_COPY_HOST_PTR 8 (11, 0) = None" "\<not> has_flag CL_MEM_COPY_HOST_PTR CL_MEM_USE_HOST_PTR"
    "device_has sample_runtime sample_device 8" "rt_contexts sample_runtime 1 = Some sample_context"
    "cx_referenceCount sample_context \<noteq> 0" "rt_next sample_runtime = 20"
    by (simp_all add: buffer_error_def has_flag_def mutually_exclusive_iff device_has_def sample_runtime_def sample_device_def
        sample_context_def)
  with create_then_release_buffer [of 1 CL_MEM_COPY_HOST_PTR 8 "(11, 0)" sample_runtime sample_device sample_context
      "[1, 2, 3, 4, 5, 6, 7, 8]"]
  show ?thesis by (fastforce simp: sample_runtime_def has_flag_def read_block_def)
qed

lemma failed_create_buffer_witness:
  "snd (clCreateBuffer 1 CL_MEM_READ_WRITE 0 null_pointer sample_runtime) = sample_runtime"
proof -
  have "clCreateBuffer 1 CL_MEM_READ_WRITE 0 null_pointer sample_runtime = (Inr (null_ref, CL_INVALID_BUFFER_SIZE), sample_runtime)"
    by (simp add: clCreateBuffer_def buffer_error_def retM_def)
  from failed_create_buffer [OF this] this show ?thesis by (simp add: sample_runtime_def)
qed

lemma host_buffer_release_witness:
  "\<exists>t. clCreateBuffer 1 CL_MEM_USE_HOST_PTR 8 (11, 0) sample_runtime = (Inr (20, CL_SUCCESS), t)
    \<and> fst (clReleaseMemObject 20 t) = Inl (Undefined ''delete'')"
proof -
  have "buffer_error 1 CL_MEM_USE_HOST_PTR 8 (11, 0) = None" "has_flag CL_MEM_USE_HOST_PTR CL_MEM_USE_HOST_PTR"
    "device_has sample_runtime sample_device 8" "rt_contexts sample_runtime 1 = Some sample_context" "rt_next sample_runtime = 20"
    by (simp_all add: buffer_error_def has_flag_def mutually_exclusive_iff device_has_def sample_runtime_def sample_device_def)
  with host_buffer_release [of 1 CL_MEM_USE_HOST_PTR 8 "(11, 0)" sample_runtime sample_device sample_context]
  show ?thesis by (fastforce simp: sample_runtime_def)
qed

lemma copied_buffer_closed_to_kernels_witness:
  "\<exists>t mem mo. clCreateBuffer 1 CL_MEM_COPY_HOST_PTR 8 (11, 0) sample_runtime = (Inr (mem, CL_SUCCESS), t)
    \<and> rt_mems t mem = Some mo \<and> \<not> mo_kernelCanRead mo"
proof -
  have "\<exists>t. clCreateBuffer 1 CL_MEM_COPY_HOST_PTR 8 (11, 0) sample_runtime = (Inr (20, CL_SUCCESS), t)"
    by (simp add: clCreateBuffer_def buffer_error_def has_flag_def mutually_exclusive_iff sample_runtime_def sample_device_def
        runtime_simps clRetainContext_def buffer_memory_def new_block_def memcpy_def read_block_def write_block_def set_used_def)
  then show ?thesis using copied_buffer_closed_to_kernels by blast
qed

lemma fill_repeats_pattern_witness:
  "\<exists>t. executeImpl (BufferFillCommand 3 (12, 0) 2 4 7) (sample_runtime\<lparr>rt_blocks := [10 \<mapsto> replicate 16 0, 12 \<mapsto> [1, 2]]\<rparr>) = (Inr (), t)
    \<and> rt_blocks t 10 = Some [0, 0, 0, 0, 1, 2, 1, 2, 1, 2, 0, 0, 0, 0, 0, 0]"
proof -
  let ?s = "sample_runtime\<lparr>rt_blocks := [10 \<mapsto> replicate 16 0, 12 \<mapsto> [1, 2]]\<rparr>"
  have "executeImpl (BufferFillCommand 3 (12, 0) 2 4 7) ?s = (Inr (), ?s\<lparr>rt_blocks := (rt_blocks ?s)
    (fst (mo_address sample_mem) \<mapsto> take 4 (replicate 16 0) @ concat (replicate 3 [1, 2]) @ drop (4 + 3 * unat (2 :: u64)) (replicate 16 0))\<rparr>)"
    by (rule fill_repeats_pattern) (simp_all add: sample_runtime_def sample_mem_def read_block_def)
  moreover have "replicate 4 0 @ concat (replicate 3 [1, 2]) @ replicate 6 0
      = ([0, 0, 0, 0, 1, 2, 1, 2, 1, 2, 0, 0, 0, 0, 0, 0] :: u8 list)"
    by (simp add: numeral_eq_Suc)
  ultimately show ?thesis by (simp add: sample_mem_def)
qed

end
