(* ===== verification/ClKernelProps.thy ===== *)
theory ClKernelProps
  imports ClBufferProps
begin

text \<open>
  Kernels, programs and events (\<open>runtime-kernel.cpp\<close>, \<open>runtime-program.cpp\<close>, \<open>runtime-event.cpp\<close>,
  \<open>icd/CLKernel.cpp\<close>, \<open>icd/CLProgram.hpp\<close>): what an argument keeps, what is sent to the emulator, which
  launches are accepted, and where objects are used after they are gone.
\<close>

unbundle bit_operations_syntax

section \<open>Events\<close>

text \<open>A user event cannot be made: the constructor reads the queue of the command it does not have.\<close>

theorem user_event_undefined:
  assumes "context \<noteq> null_ref"
  shows "clCreateUserEvent context s = (Inl (Undefined ''null pointer''), s)"
  using assms by (simp add: clCreateUserEvent_def CLEvent_new_def runtime_simps)

text \<open>Of the callbacks that are registered for a status of an event only the last one is called.\<close>

theorem last_callback_only:
  assumes "rt_events s event = Some e" "event \<noteq> null_ref" "f \<noteq> null_ref" "g \<noteq> null_ref" "event_status \<in> {CL_SUBMITTED, CL_RUNNING, CL_COMPLETE}"
  shows "\<exists>t u e'. bindM (clSetEventCallback event event_status f x) (\<lambda>_. clSetEventCallback event event_status g y) s = (Inr CL_SUCCESS, t)
    \<and> callCallback event event_status t = (Inr (), u)
    \<and> rt_calls u = rt_calls s @ [\<lparr>cl_callback = \<lparr>cb_function = g, cb_userData = y\<rparr>, cl_object = event, cl_status = event_status\<rparr>]
    \<and> rt_events t event = Some e' \<and> ev_status e' = ev_status e"
  using assms by (auto simp: clSetEventCallback_def setCallback_def callCallback_def runtime_simps)

section \<open>Releasing kernels and programs\<close>

lemma release_unset: "forM (map (\<lambda>info. \<lparr>ag_info = info, ag_value = None\<rparr>) infos) releaseArgument s = (Inr (), s)"
  by (induction infos) (simp_all add: releaseArgument_def retM_def bindM_def)

lemma created_kernel:
  assumes "rt_programs s p = Some pg" "p \<noteq> null_ref" "pg_disassembledBinary pg = Some d"
    and "find (\<lambda>kb. kb_name kb = name) (bd_kernelBuilders d) = Some kb"
  shows "clCreateKernel p (Some name) s = (Inr (rt_next s, CL_SUCCESS), s\<lparr>rt_next := rt_next s + 1,
    rt_kernels := (rt_kernels s)(rt_next s \<mapsto> (build kb)\<lparr>kr_program := p\<rparr>),
    rt_programs := (rt_programs s)(p \<mapsto> pg\<lparr>pg_createdKernels := pg_createdKernels pg @ [rt_next s],
      pg_referenceCount := pg_referenceCount pg + 1\<rparr>)\<rparr>)"
  using assms
  by (simp add: clCreateKernel_def the_disassembled_def built_kernel_def runtime_simps clRetainProgram_def)

text \<open>
  A program that is released after its kernels goes through the list of the kernels it has made and
  finds one that has been deleted.
\<close>

theorem kernel_released_before_program:
  assumes "rt_programs s p = Some pg" "p \<noteq> null_ref" "pg_disassembledBinary pg = Some d"
    and "find (\<lambda>kb. kb_name kb = name) (bd_kernelBuilders d) = Some kb"
    and "pg_referenceCount pg = 1" "pg_createdKernels pg = []" "rt_next s \<noteq> null_ref" "3 \<le> n"
  shows "fst (bindM (clCreateKernel p (Some name)) (\<lambda>(krn, _).
      bindM (clReleaseKernel n krn) (\<lambda>_. clReleaseProgram n p)) s) = Inl (Undefined ''dangling pointer'')"
proof -
  obtain k where n: "n = Suc (Suc (Suc k))"
    using assms(8) by (auto simp: numeral_eq_Suc Suc_le_eq dest!: less_imp_Suc_add)
  show ?thesis
    using assms(2-7) unfolding bindM_def [of "clCreateKernel p (Some name)"] created_kernel [OF assms(1-4)] n
    by (simp add: clReleaseKernel_def clReleaseProgram_def release_kernel_def delete_kernel_def release_program_def
        delete_program_def build_def release_unset runtime_simps)
qed

text \<open>In the other order the kernel takes the program with it and both are gone.\<close>

theorem program_released_before_kernel:
  assumes "rt_programs s p = Some pg" "p \<noteq> null_ref" "pg_disassembledBinary pg = Some d"
    and "find (\<lambda>kb. kb_name kb = name) (bd_kernelBuilders d) = Some kb"
    and "pg_referenceCount pg = 1" "pg_createdKernels pg = []" "rt_next s \<noteq> null_ref" "5 \<le> n"
    and "pg_binary pg = (b, 0)" "b \<in> rt_new_blocks s" "rt_blocks s b \<noteq> None" "b \<noteq> 0"
    and "rt_contexts s (pg_context pg) = Some c" "pg_context pg \<noteq> null_ref"
  shows "\<exists>krn t. bindM (clCreateKernel p (Some name)) (\<lambda>(krn, _).
      bindM (clReleaseProgram n p) (\<lambda>_. bindM (clReleaseKernel n krn) (\<lambda>code. retM (krn, code)))) s = (Inr (krn, CL_SUCCESS), t)
    \<and> rt_programs t p = None \<and> rt_kernels t krn = None \<and> rt_blocks t b = None"
proof -
  obtain k where n: "n = Suc (Suc (Suc (Suc (Suc k))))"
    using assms(8) by (auto simp: numeral_eq_Suc Suc_le_eq dest!: less_imp_Suc_add)
  show ?thesis
    using assms(2-7,9-) unfolding bindM_def [of "clCreateKernel p (Some name)"] created_kernel [OF assms(1-4)] n
    by (auto simp: clReleaseKernel_def clReleaseProgram_def release_kernel_def delete_kernel_def release_program_def
        delete_program_def build_def release_unset runtime_simps delete_block_def clReleaseContext_def)
qed

section \<open>Arguments\<close>

text \<open>
  An argument that is not a pointer keeps a copy of the bytes it was set to, in a block of its own;
  the copy of the value it had before is deleted.
\<close>

text \<open>
  C38: Setting a scalar argument copies the bytes of the caller into memory of the kernel,
  frees the copy that was set before and leaves the other arguments alone.
\<close>

theorem scalar_argument_copied:
  assumes "rt_kernels s krn = Some k" "krn \<noteq> null_ref" "unat i < length (kr_arguments k)"
    and "\<not> is_pointer_info (ag_info (kr_arguments k ! unat i))" "val \<noteq> null_pointer" "fst val \<noteq> rt_next s"
    and "read_block val (unat sz) s = Inr data" "rt_next s \<noteq> null_ref"
    and "ag_value (kr_arguments k ! unat i) = Some v" "av_value v = BytesValue (old, 0)" "old \<in> rt_new_blocks s"
      "rt_blocks s old \<noteq> None" "old \<noteq> rt_next s" "old \<noteq> 0"
  shows "\<exists>t k' v'. clSetKernelArg krn i sz val s = (Inr CL_SUCCESS, t) \<and> rt_kernels t krn = Some k'
    \<and> ag_value (kr_arguments k' ! unat i) = Some v' \<and> av_value v' = BytesValue (rt_next s, 0) \<and> av_size v' = sz
    \<and> rt_blocks t (rt_next s) = Some data \<and> rt_blocks t old = None
    \<and> (\<forall>j < length (kr_arguments k). j \<noteq> unat i \<longrightarrow> kr_arguments k' ! j = kr_arguments k ! j)"
proof -
  let ?u = "s\<lparr>rt_next := rt_next s + 1, rt_blocks := (rt_blocks s)(rt_next s \<mapsto> replicate (unat sz) 0),
    rt_new_blocks := insert (rt_next s) (rt_new_blocks s)\<rparr>"
  have "read_block val (unat sz) ?u = Inr data" using assms(6,7) by (simp add: read_block_def)
  from memcpy_other_block [OF this, of "(rt_next s, 0)" "replicate (unat sz) 0"] assms(6)
  have "memcpy (rt_next s, 0) val (unat sz) ?u = (Inr (), ?u\<lparr>rt_blocks := (rt_blocks s)(rt_next s \<mapsto> data)\<rparr>)"
    by simp
  then show ?thesis
    using assms
    by (simp add: clSetKernelArg_def setArgument_def argument_value_def new_block_def releaseArgument_def delete_block_def
        catchM_def runtime_simps)
qed

text \<open>The index after the last argument passes the check of the query, which then throws.\<close>

theorem argument_index_off_by_one:
  assumes "rt_kernels s krn = Some k" "krn \<noteq> null_ref" "kr_program k \<noteq> null_ref" "length (kr_arguments k) < 2 ^ 32"
  shows "\<exists>what. clGetKernelArgInfo s krn (argumentCount k) param_name sz (Some buffer) w = Inl (Runtime_error what)"
  using assms
  by (auto simp: clGetKernelArgInfo_def owned_kernel_def obj_def getParamInfo_def argument_info_value_def getArgument_def
      argumentCount_def unsigned_of_nat take_bit_nat_eq_self)

text \<open>
  The binary of a program is answered with the pointer to it instead of its bytes: a query for a
  binary of more than eight bytes reads past that pointer.
\<close>

theorem program_binary_query:
  assumes "rt_programs s p = Some pg" "p \<noteq> null_ref" "8 < pg_binarySize pg" "length buffer = unat (pg_binarySize pg)"
  shows "clGetProgramInfo address_of s p 0x1166 (pg_binarySize pg) (Some buffer) w = Inl (Undefined ''memcpy'')"
  using assms
  by (simp add: clGetProgramInfo_def obj_def getParamInfo_def program_value_def info_size_def memcpy_bytes_def info_bytes_def
      length_word_bytes word_less_nat_alt Let_def)

section \<open>Launching\<close>

definition hold_kernel :: "ref \<Rightarrow> CLKernel \<Rightarrow> Runtime \<Rightarrow> Runtime" where
  "hold_kernel krn k s = s\<lparr>rt_kernels := (rt_kernels s)(krn \<mapsto> k\<lparr>kr_referenceCount := kr_referenceCount k + 1\<rparr>)\<rparr>"

lemma enqueue_kernel:
  assumes "idle s queue q c" "rt_kernels s krn = Some k" "krn \<noteq> null_ref"
  shows "enqueueCommand queue 0 [] (KernelExecutionCommand_new queue krn dim offs global lcl) s
    = (Inr (rt_next s + 1), enqueued (hold_kernel krn k s) queue q c (KernelExecutionCommand krn dim offs global lcl))"
  using assms
  by (simp add: idle_def enqueue_defs KernelExecutionCommand_new_def runtime_simps enqueued_def hold_kernel_def queued_event_def)

lemma release_held_kernel:
  assumes "rt_mems u = rt_mems (hold_kernel krn k s)" "rt_kernels u = rt_kernels (hold_kernel krn k s)"
    and "rt_kernels s krn = Some k" "krn \<noteq> null_ref" "kr_referenceCount k \<noteq> 0"
  shows "delete_class (call_body (run_call n)) (KernelExecutionCommand krn dim offs global lcl) u
    = (Inr (), u\<lparr>rt_mems := rt_mems s, rt_kernels := rt_kernels s\<rparr>)"
proof -
  have "rt_kernels u krn = Some (k\<lparr>kr_referenceCount := kr_referenceCount k + 1\<rparr>)"
    using assms(2) by (simp add: hold_kernel_def)
  then have "delete_class (call_body (run_call n)) (KernelExecutionCommand krn dim offs global lcl) u
      = (Inr (), u\<lparr>rt_kernels := (rt_kernels u)(krn \<mapsto> k)\<rparr>)"
    using assms(4,5) by (simp add: release_kernel_def runtime_simps)
  moreover have "(rt_kernels u)(krn \<mapsto> k) = rt_kernels s"
    using assms(2,3) by (simp add: hold_kernel_def fun_upd_idem)
  moreover have "u\<lparr>rt_kernels := x\<rparr> = u\<lparr>rt_mems := rt_mems s, rt_kernels := x\<rparr>" for x
    using assms(1) by (cases u) (simp add: hold_kernel_def)
  ultimately show ?thesis by simp
qed

lemma completed_held_kernel:
  "(completed (hold_kernel krn k s) queue q c blocks)\<lparr>rt_mems := rt_mems s, rt_kernels := rt_kernels s, rt_sent := sent\<rparr>
    = (completed s queue q c blocks)\<lparr>rt_sent := sent\<rparr>"
  by (simp add: completed_def hold_kernel_def queued_event_def)

text \<open>What is sent of an argument: a buffer with its contents, and nothing of any other argument.\<close>

definition sent_argument :: "Runtime \<Rightarrow> KernelArgument \<Rightarrow> ArgumentProto list" where
  "sent_argument s arg =
     (case (ai_class (ag_info arg), av_value (the (ag_value arg))) of
        (PointerInfo _, MemValue m) \<Rightarrow>
          (let mem = the (rt_mems s m)
           in [\<lparr>pr_argName = ai_argumentName (ag_info arg), pr_kind = POINTER_ARG,
                pr_data = projr (read_block (mo_address mem) (unat (to_u32 (mo_size mem))) s), pr_size = to_u32 (mo_size mem),
                pr_readPermission = mo_kernelCanRead mem, pr_writePermission = mo_kernelCanWrite mem\<rparr>])
      | _ \<Rightarrow> [])"

text \<open>Every argument is set, and a buffer argument refers to a live buffer with memory.\<close>

definition argument_ready :: "Runtime \<Rightarrow> KernelArgument \<Rightarrow> bool" where
  "argument_ready s arg \<longleftrightarrow> (\<exists>v. ag_value arg = Some v \<and> (\<forall>m. av_value v = MemValue m \<longrightarrow>
     m \<noteq> null_ref \<and> (\<exists>mem. rt_mems s m = Some mem \<and> returns (read_block (mo_address mem) (unat (to_u32 (mo_size mem))) s))))"

lemma argument_proto_sent:
  "argument_ready s arg \<Longrightarrow> argument_proto arg s = (Inr (sent_argument s arg), s)"
proof -
  assume "argument_ready s arg"
  then obtain v where v: "ag_value arg = Some v" and mem: "av_value v = MemValue m \<Longrightarrow> m \<noteq> null_ref \<and>
      (\<exists>mem bs. rt_mems s m = Some mem \<and> read_block (mo_address mem) (unat (to_u32 (mo_size mem))) s = Inr bs)" for m
    by (fastforce simp: argument_ready_def dest: returnsD)
  show ?thesis
    using v mem by (cases "ai_class (ag_info arg)"; cases "av_value v")
      (fastforce simp: argument_proto_def sent_argument_def runtime_simps)+
qed

lemma argument_protos_sent:
  "\<forall>a\<in>set args. argument_ready s a \<Longrightarrow> argument_protos args s = (Inr (concat (map (sent_argument s) args)), s)"
  by (induction args) (simp_all add: argument_proto_sent runtime_simps)

lemma argument_same:
  assumes "rt_mems t = rt_mems s" "rt_blocks t = rt_blocks s"
  shows "argument_ready t = argument_ready s" "sent_argument t = sent_argument s"
proof -
  have "read_block p n t = read_block p n s" for p n using assms(2) by (simp add: read_block_def)
  then show "argument_ready t = argument_ready s" "sent_argument t = sent_argument s"
    using assms(1) by (auto simp: argument_ready_def sent_argument_def fun_eq_iff split: KernelArgumentClass.splits KernelArgumentValueType.splits)
qed

text \<open>The sizes of a launch that the code accepts, on a device with the given limits.\<close>

definition limits :: "Runtime \<Rightarrow> u64 \<Rightarrow> u64 list \<Rightarrow> bool" where
  "limits s most items \<longleftrightarrow> requireParameter (rt_parameters s) 0x1004 = Inr (NumV most)
     \<and> (\<exists>bs. requireParameter (rt_parameters s) 0x1005 = Inr (ArrV bs) \<and> 8 * length items \<le> length bs
        \<and> (\<forall>i < length items. word_rcat (rev (take 8 (drop (8 * i) bs))) = items ! i))"

lemma max_item_size_limit:
  "limits s most items \<Longrightarrow> i < length items \<Longrightarrow> max_item_size i s = (Inr (items ! i), s)"
  by (auto simp: limits_def max_item_size_def liftM_def)

lemma low_mult: "to_u32 (to_u64 (acc :: u32) * l) = acc * to_u32 l"
proof (rule word_eq_iff_unsigned [THEN iffD2])
  have "unat acc mod 18446744073709551616 * unat l mod 18446744073709551616 mod 4294967296
      = unat acc * (unat l mod 4294967296) mod 4294967296"
    by (simp add: mod_mod_cancel mod_mult_left_eq mod_mult_right_eq)
  then show "unat (to_u32 (to_u64 acc * l)) = unat (acc * to_u32 l)"
    by (simp add: unat_word_ariths unsigned_ucast_eq take_bit_eq_mod)
qed

lemma check_sizes_spec:
  assumes "limits s most items" "length items = 3" "rt_sizes s global = Some gs" "global \<noteq> null_ref"
    and "lcl \<noteq> null_ref" "rt_sizes s lcl = Some ls" "i + n \<le> 3" "i + n \<le> length gs" "i + n \<le> length ls"
  shows "\<exists>r. check_sizes global lcl i n acc s = (Inr r, s)
    \<and> (case r of Inr acc' \<Rightarrow> (\<forall>j\<in>{i..<i + n}. gs ! j \<noteq> 0 \<and> ls ! j \<le> items ! j)
          \<and> acc' = acc * (\<Prod>j\<in>{i..<i + n}. to_u32 (ls ! j))
        | Inl code \<Rightarrow> (\<exists>j\<in>{i..<i + n}. gs ! j = 0 \<or> ls ! j > items ! j) \<and> code < 0)"
  using assms(7-9)
proof (induction n arbitrary: i acc)
  case 0
  then show ?case by (simp add: retM_def)
next
  case (Suc n)
  have "i < length gs" "i < length ls" "i < 3" using Suc.prems by auto
  note step = max_item_size_limit [OF assms(1), of i] this assms(2-6)
  have split: "{i..<i + Suc n} = insert i {Suc i..<Suc i + n}" by auto
  from Suc.IH [of "Suc i" "acc * to_u32 (ls ! i)"] Suc.prems
  obtain r where r: "check_sizes global lcl (i + 1) n (acc * to_u32 (ls ! i)) s = (Inr r, s)"
    "case r of Inr acc' \<Rightarrow> (\<forall>j\<in>{Suc i..<Suc i + n}. gs ! j \<noteq> 0 \<and> ls ! j \<le> items ! j)
        \<and> acc' = acc * to_u32 (ls ! i) * (\<Prod>j\<in>{Suc i..<Suc i + n}. to_u32 (ls ! j))
      | Inl code \<Rightarrow> (\<exists>j\<in>{Suc i..<Suc i + n}. gs ! j = 0 \<or> ls ! j > items ! j) \<and> code < 0"
    by auto
  have "check_sizes global lcl i (Suc n) acc s =
     (if gs ! i = 0 then (Inr (Inl CL_INVALID_GLOBAL_WORK_SIZE), s)
      else if ls ! i > items ! i then (Inr (Inl CL_INVALID_WORK_ITEM_SIZE), s) else (Inr r, s))"
    using step r(1) by (simp add: runtime_simps at_index_def low_mult)
  then show ?case
    using r(2) unfolding split by (auto simp: ac_simps split: sum.splits)
qed

lemma launch_steps:
  assumes "require_number 0x1004 s = (Inr most, s)" "check_sizes global lcl 0 (unat dim) 1 s = (Inr r, s)"
    and "queue \<noteq> null_ref" "krn \<noteq> null_ref" "\<not> (dim < 1 \<or> dim > 3)" "global \<noteq> null_ref"
  shows "clEnqueueNDRangeKernel queue krn dim offs global lcl cnt waits s =
    (case r of
       Inl code \<Rightarrow> (Inr (code, null_ref), s)
     | Inr acc \<Rightarrow>
         if lcl \<noteq> null_ref \<and> to_u64 acc > most then (Inr (CL_INVALID_WORK_GROUP_SIZE, null_ref), s)
         else bindM (deref rt_kernels krn) (\<lambda>k.
           if \<exists>a\<in>set (kr_arguments k). ag_value a = None then retM (CL_INVALID_KERNEL_ARGS, null_ref)
           else bindM (enqueueCommand queue cnt waits (KernelExecutionCommand_new queue krn dim offs global lcl))
             (\<lambda>event. retM (CL_SUCCESS, event))) s)"
  using assms by (auto simp: clEnqueueNDRangeKernel_def bindM_def [of "require_number _"] bindM_def [of "check_sizes _ _ _ _ _"]
      retM_def split: sum.splits)

lemma launch_refs:
  assumes "clEnqueueNDRangeKernel queue krn dim offs global lcl cnt waits s = (Inr (CL_SUCCESS, event), t)"
  shows "queue \<noteq> null_ref" "krn \<noteq> null_ref" "\<not> (dim < 1 \<or> dim > 3)" "global \<noteq> null_ref" "unat dim \<le> 3"
  using assms by (auto simp: clEnqueueNDRangeKernel_def retM_def word_less_nat_alt not_less split: if_splits)

lemma limits_number: "limits s most items \<Longrightarrow> require_number 0x1004 s = (Inr most, s)"
  by (simp add: limits_def require_number_def liftM_def)

text \<open>
  A launch that is accepted has one to three dimensions, no empty global size, no local size above
  that of the device, and a product of the local sizes, taken modulo \<open>2 ^ 32\<close>, of at most the size of
  the device's work-groups.
\<close>

text \<open>
  C30: A launch is only accepted with one to three dimensions, no zero global size, no local
  size above the limit of its dimension and a group size, computed in 32 bits, within the
  limit of the device.
\<close>

theorem accepted_launch_sizes:
  assumes "clEnqueueNDRangeKernel queue krn dim offs global lcl cnt waits s = (Inr (CL_SUCCESS, event), t)"
    and "limits s most items" "length items = 3" "rt_sizes s global = Some gs" "lcl \<noteq> null_ref" "rt_sizes s lcl = Some ls"
    and "unat dim \<le> length gs" "unat dim \<le> length ls"
  shows "1 \<le> dim \<and> dim \<le> 3 \<and> (\<forall>j < unat dim. gs ! j \<noteq> 0 \<and> ls ! j \<le> items ! j)
    \<and> to_u64 (\<Prod>j<unat dim. to_u32 (ls ! j)) \<le> most"
proof -
  note refs = launch_refs [OF assms(1)]
  obtain r where r: "check_sizes global lcl 0 (unat dim) 1 s = (Inr r, s)"
    "case r of Inr acc \<Rightarrow> (\<forall>j\<in>{0..<0 + unat dim}. gs ! j \<noteq> 0 \<and> ls ! j \<le> items ! j)
          \<and> acc = 1 * (\<Prod>j\<in>{0..<0 + unat dim}. to_u32 (ls ! j))
        | Inl code \<Rightarrow> (\<exists>j\<in>{0..<0 + unat dim}. gs ! j = 0 \<or> ls ! j > items ! j) \<and> code < 0"
    using check_sizes_spec [OF assms(2,3,4) refs(4) assms(5,6), of 0 "unat dim" 1] refs(5) assms(7,8) by auto
  obtain acc where acc: "r = Inr acc" "\<not> to_u64 acc > most"
    using assms(1,5) r(2) unfolding launch_steps [OF limits_number [OF assms(2)] r(1) refs(1-4)]
    by (auto split: sum.splits if_splits)
  with r(2) refs(3) show ?thesis by (auto simp: lessThan_atLeast0 not_less word_le_nat_alt word_less_nat_alt)
qed

text \<open>
  Launching a kernel on an idle queue and finishing the queue sends one request: the sizes as they
  are when the queue is flushed, and the buffer arguments with their contents; other arguments are
  not sent.
\<close>

text \<open>The request that a launch with the given sizes makes of a kernel.\<close>

definition launch_request :: "Runtime \<Rightarrow> CLKernel \<Rightarrow> u32 \<Rightarrow> u64 list \<Rightarrow> u64 list \<Rightarrow> KernelProto" where
  "launch_request s k dim gs ls = \<lparr>pr_name = kr_name k, pr_config = \<lparr>pr_dims = dim, pr_globalWorkOffset = [], pr_globalWorkSize = take (unat dim) gs,
        pr_localWorkSize = take (unat dim) ls, pr_parameters = kr_config k\<rparr>,
      pr_instructions = kr_instructions k, pr_args = concat (map (sent_argument s) (kr_arguments k))\<rparr>"

lemma launch_sends_request:
  assumes "idle s queue q c" "1 + cq_referenceCount q \<noteq> 0" "7 \<le> n"
    and "rt_kernels s krn = Some k" "krn \<noteq> null_ref" "kr_referenceCount k \<noteq> 0"
    and "clEnqueueNDRangeKernel queue krn dim null_ref global lcl 0 [] s = (Inr (CL_SUCCESS, event), t)"
    and "\<forall>a\<in>set (kr_arguments k). argument_ready s a"
    and "limits s most items" "length items = 3" "rt_sizes s global = Some gs" "lcl \<noteq> null_ref" "rt_sizes s lcl = Some ls"
    and "unat dim \<le> length gs" "unat dim \<le> length ls"
  shows "\<exists>u. clFinish n queue t = (Inr CL_SUCCESS, u) \<and> rt_sent u = rt_sent s @ [launch_request s k dim gs ls]
    \<and> rt_blocks u = rt_blocks s"
proof -
  let ?cls = "KernelExecutionCommand krn dim null_ref global lcl"
  note refs = launch_refs [OF assms(7)]
  obtain r where r: "check_sizes global lcl 0 (unat dim) 1 s = (Inr r, s)" "r = Inl code \<Longrightarrow> code < 0" for code
    using check_sizes_spec [OF assms(9,10,11) refs(4) assms(12,13), of 0 "unat dim" 1] refs(5) assms(14,15)
    by fastforce
  have t: "t = enqueued (hold_kernel krn k s) queue q c ?cls"
    using assms(4,5,7) r(2) enqueue_kernel [OF assms(1,4,5)]
    unfolding launch_steps [OF limits_number [OF assms(9)] r(1) refs(1-4)]
    by (auto simp: runtime_simps split: sum.splits if_splits)
  have "clFlush n queue t = (Inr CL_SUCCESS, (completed (hold_kernel krn k s) queue q c (rt_blocks s))
    \<lparr>rt_mems := rt_mems s, rt_kernels := rt_kernels s, rt_sent := rt_sent s @ [launch_request s k dim gs ls]\<rparr>)" (is "_ = (_, _\<lparr>rt_mems := _, rt_kernels := _, rt_sent := ?sent\<rparr>)")
    unfolding t
  proof (rule flush_one [OF _ assms(2,3)])
    show "idle (hold_kernel krn k s) queue q c" using assms(1) by (simp add: idle_def hold_kernel_def)
    fix u :: Runtime
    assume u: "rt_mems u = rt_mems (hold_kernel krn k s)" "rt_kernels u = rt_kernels (hold_kernel krn k s)"
      "rt_blocks u = rt_blocks (hold_kernel krn k s)" "rt_sizes u = rt_sizes (hold_kernel krn k s)"
      "rt_sent u = rt_sent (hold_kernel krn k s)"
    then have same: "rt_mems u = rt_mems s" "rt_blocks u = rt_blocks s" by (simp_all add: hold_kernel_def)
    have "argument_protos (kr_arguments k) u = (Inr (concat (map (sent_argument s) (kr_arguments k))), u)"
      using argument_protos_sent [of "kr_arguments k" u] assms(8) by (simp add: argument_same [OF same])
    then show "executeImpl ?cls u = (Inr (), u\<lparr>rt_blocks := rt_blocks s, rt_sent := ?sent\<rparr>)"
      using u refs assms(5,11-15)
      by (simp add: send_kernel_def read_sizes_def runtime_simps hold_kernel_def launch_request_def)
  next
    fix j and u :: Runtime
    assume "rt_mems u = rt_mems (hold_kernel krn k s)" "rt_kernels u = rt_kernels (hold_kernel krn k s)"
    then show "delete_class (call_body (run_call j)) ?cls u = (Inr (), u\<lparr>rt_mems := rt_mems s, rt_kernels := rt_kernels s\<rparr>)"
      using assms(4-6) by (rule release_held_kernel)
  qed
  then show ?thesis by (auto simp: clFlush_def completed_def)
qed

text \<open>
  C10: After an accepted launch on an idle queue a finish sends exactly one request, with the
  sizes of the launch, the code of the kernel and its buffer arguments in order, but not its
  scalar arguments.
\<close>

theorem kernel_request_sent:
  assumes "idle s queue q c" "1 + cq_referenceCount q \<noteq> 0" "7 \<le> n"
    and "rt_kernels s krn = Some k" "krn \<noteq> null_ref" "kr_referenceCount k \<noteq> 0"
    and "clEnqueueNDRangeKernel queue krn dim null_ref global lcl 0 [] s = (Inr (CL_SUCCESS, event), t)"
    and "\<forall>a\<in>set (kr_arguments k). argument_ready s a"
    and "limits s most items" "length items = 3" "rt_sizes s global = Some gs" "lcl \<noteq> null_ref" "rt_sizes s lcl = Some ls"
    and "unat dim \<le> length gs" "unat dim \<le> length ls"
  shows "\<exists>u. clFinish n queue t = (Inr CL_SUCCESS, u) \<and> rt_sent u = rt_sent s @
    [\<lparr>pr_name = kr_name k, pr_config = \<lparr>pr_dims = dim, pr_globalWorkOffset = [], pr_globalWorkSize = take (unat dim) gs,
        pr_localWorkSize = take (unat dim) ls, pr_parameters = kr_config k\<rparr>,
      pr_instructions = kr_instructions k, pr_args = concat (map (sent_argument s) (kr_arguments k))\<rparr>]"
  using launch_sends_request [OF assms] by (auto simp: launch_request_def)

text \<open>The sizes of a task are a local array of the call: they are gone when the queue is flushed.\<close>

theorem task_sizes_dangle:
  assumes "idle s queue q c" "rt_kernels s krn = Some k" "krn \<noteq> null_ref" "\<forall>a\<in>set (kr_arguments k). ag_value a \<noteq> None"
    and "limits s most items" "length items = 3" "1 \<le> most" "1 \<le> items ! 0" "3 \<le> n"
  shows "\<exists>event t. clEnqueueTask queue krn 0 [] s = (Inr (CL_SUCCESS, event), t)
    \<and> fst (clFinish n queue t) = Inl (Undefined ''dangling pointer'')"
proof -
  let ?w = "rt_next s"
  let ?s = "s\<lparr>rt_next := rt_next s + 1, rt_sizes := (rt_sizes s)(?w \<mapsto> [1])\<rparr>"
  let ?cls = "KernelExecutionCommand krn 1 null_ref ?w ?w"
  have w: "?w \<noteq> null_ref" and queue: "queue \<noteq> null_ref" using assms(1) by (simp_all add: idle_def)
  have idle: "idle ?s queue q c" using assms(1) by (simp add: idle_def)
  have lim: "limits ?s most items" using assms(5) by (simp add: limits_def)
  have sizes: "check_sizes ?w ?w 0 (unat (1 :: u32)) 1 ?s = (Inr (Inr 1), ?s)"
    using max_item_size_limit [OF lim, of 0] assms(6,8) w
    by (simp add: runtime_simps at_index_def word_less_nat_alt word_le_nat_alt)
  have "clEnqueueNDRangeKernel queue krn 1 null_ref ?w ?w 0 [] ?s
    = (Inr (CL_SUCCESS, rt_next ?s + 1), enqueued (hold_kernel krn k ?s) queue q c ?cls)"
    using assms(2-4,7) enqueue_kernel [OF idle, of krn k 1 null_ref ?w ?w]
    by (subst launch_steps [OF limits_number [OF lim] sizes queue assms(3) _ w])
      (auto simp: runtime_simps not_less word_le_nat_alt)
  moreover have "(enqueued (hold_kernel krn k ?s) queue q c ?cls)\<lparr>rt_sizes := f\<rparr>
      = enqueued (hold_kernel krn k (?s\<lparr>rt_sizes := f\<rparr>)) queue q c ?cls" for f
    by (simp add: enqueued_def hold_kernel_def queued_event_def)
  ultimately have "clEnqueueTask queue krn 0 [] s = (Inr (CL_SUCCESS, rt_next ?s + 1),
      enqueued (hold_kernel krn k (s\<lparr>rt_next := rt_next s + 1, rt_sizes := (rt_sizes s)(?w := None)\<rparr>)) queue q c ?cls)"
    (is "_ = (_, enqueued ?t _ _ _ _)")
    by (simp add: clEnqueueTask_def runtime_simps) (simp add: enqueued_def hold_kernel_def queued_event_def)
  moreover have "fst (clFlush n queue (enqueued ?t queue q c ?cls)) = Inl (Undefined ''dangling pointer'')"
  proof (rule flush_fails [OF _ _ assms(9)])
    show "idle ?t queue q c" using assms(1) by (simp add: idle_def hold_kernel_def)
  qed (use assms(2,3) w in \<open>simp add: send_kernel_def read_sizes_def runtime_simps hold_kernel_def\<close>)
  ultimately show ?thesis by (simp add: clFlush_def)
qed

section \<open>Instances\<close>

lemma sample_limit_bytes: "word_bytes 256 = [0, 1, 0, 0, 0, 0, 0, 0]" "word_rcat (rev [0, 1, 0, 0, 0, 0, 0, 0 :: u8]) = (256 :: u64)"
  by code_simp+

lemma sample_limits: "limits sample_runtime 256 [256, 256, 256]"
proof -
  have "\<forall>i<3. word_rcat (rev (take 8 (drop (8 * i) (word_bytes 256 @ word_bytes 256 @ word_bytes 256)))) = [256, 256, 256 :: u64] ! i"
    using sample_limit_bytes by (auto simp: less_Suc_eq numeral_3_eq_3 length_word_bytes)
  then show ?thesis
    by (simp add: limits_def sample_runtime_def requireParameter_def getParameter_def length_word_bytes)
qed

lemma sample_kernel_found:
  "rt_kernels sample_runtime 4 = Some sample_kernel" "kr_arguments sample_kernel = []" "kr_referenceCount sample_kernel = 1"
  "kr_program sample_kernel = 5"
  by (simp_all add: sample_runtime_def sample_kernel_def build_def new_builder_def)

lemma sample_program_found:
  "rt_programs sample_runtime 5 = Some sample_program"
  "pg_disassembledBinary sample_program = Some (new_result\<lparr>bd_kernelBuilders := [new_builder ''add'']\<rparr>)"
  "find (\<lambda>kb. kb_name kb = ''add'') (bd_kernelBuilders (new_result\<lparr>bd_kernelBuilders := [new_builder ''add'']\<rparr>)) = Some (new_builder ''add'')"
  by (simp_all add: sample_runtime_def sample_program_def new_result_def new_builder_def)

lemma user_event_undefined_witness: "clCreateUserEvent 1 sample_runtime = (Inl (Undefined ''null pointer''), sample_runtime)"
  by (rule user_event_undefined) simp

lemma last_callback_only_witness:
  "\<exists>t. bindM (clSetEventCallback 30 CL_COMPLETE 7 0) (\<lambda>_. clSetEventCallback 30 CL_COMPLETE 8 0)
    (sample_runtime\<lparr>rt_events := [30 \<mapsto> queued_event sample_runtime 2 sample_queue]\<rparr>) = (Inr CL_SUCCESS, t)"
  using last_callback_only [of "sample_runtime\<lparr>rt_events := [30 \<mapsto> queued_event sample_runtime 2 sample_queue]\<rparr>" 30
      "queued_event sample_runtime 2 sample_queue" 7 8 CL_COMPLETE 0 0] by auto

lemma kernel_released_before_program_witness:
  "fst (bindM (clCreateKernel 5 (Some ''add'')) (\<lambda>(krn, _). bindM (clReleaseKernel 3 krn) (\<lambda>_. clReleaseProgram 3 5)) sample_runtime)
    = Inl (Undefined ''dangling pointer'')"
  by (rule kernel_released_before_program [OF sample_program_found(1) _ sample_program_found(2,3)])
    (simp_all add: sample_program_def sample_runtime_def)

lemma program_released_before_kernel_witness:
  "\<exists>krn t. bindM (clCreateKernel 5 (Some ''add'')) (\<lambda>(krn, _).
      bindM (clReleaseProgram 5 5) (\<lambda>_. bindM (clReleaseKernel 5 krn) (\<lambda>code. retM (krn, code)))) sample_runtime = (Inr (krn, CL_SUCCESS), t)
    \<and> rt_programs t 5 = None"
  using program_released_before_kernel [OF sample_program_found(1) _ sample_program_found(2,3), of 5 13 sample_context]
  by (fastforce simp: sample_program_def sample_runtime_def)

definition scalar_argument :: KernelArgument where
  "scalar_argument = \<lparr>ag_info = \<lparr>ai_kind = SCALAR, ai_index = 0, ai_typeName = ''int'', ai_type = ''int'', ai_argumentName = ''n'',
     ai_unused = False, ai_class = ScalarInfo\<rparr>, ag_value = Some \<lparr>av_index = 0, av_size = 16, av_value = BytesValue (13, 0)\<rparr>\<rparr>"

lemma scalar_argument_copied_witness:
  "\<exists>t. clSetKernelArg 4 0 8 (11, 0) (sample_runtime\<lparr>rt_kernels := [4 \<mapsto> sample_kernel\<lparr>kr_arguments := [scalar_argument]\<rparr>]\<rparr>)
      = (Inr CL_SUCCESS, t) \<and> rt_blocks t 20 = Some [1, 2, 3, 4, 5, 6, 7, 8] \<and> rt_blocks t 13 = None"
proof -
  let ?s = "sample_runtime\<lparr>rt_kernels := [4 \<mapsto> sample_kernel\<lparr>kr_arguments := [scalar_argument]\<rparr>]\<rparr>"
  have "rt_next ?s = 20" by (simp add: sample_runtime_def)
  with scalar_argument_copied [of ?s 4 "sample_kernel\<lparr>kr_arguments := [scalar_argument]\<rparr>" 0 "(11, 0)" 8 "[1, 2, 3, 4, 5, 6, 7, 8]"
      "\<lparr>av_index = 0, av_size = 16, av_value = BytesValue (13, 0)\<rparr>" 13]
  obtain t where "clSetKernelArg 4 0 8 (11, 0) ?s = (Inr CL_SUCCESS, t)" "rt_blocks t 20 = Some [1, 2, 3, 4, 5, 6, 7, 8]"
    "rt_blocks t 13 = None"
    by (auto simp: scalar_argument_def is_pointer_info_def read_block_def sample_runtime_def)
  then show ?thesis by blast
qed

lemma argument_index_off_by_one_witness:
  "\<exists>what. clGetKernelArgInfo sample_runtime 4 (argumentCount sample_kernel) 0x1198 8 (Some []) False = Inl (Runtime_error what)"
  by (rule argument_index_off_by_one [OF sample_kernel_found(1)]) (simp_all add: sample_kernel_found)

lemma program_binary_query_witness:
  "clGetProgramInfo (\<lambda>_. 0) sample_runtime 5 0x1166 (pg_binarySize sample_program) (Some (replicate 16 0)) False = Inl (Undefined ''memcpy'')"
  by (rule program_binary_query [OF sample_program_found(1)]) (simp_all add: sample_program_def)

lemma sample_launch:
  "\<exists>event t. clEnqueueNDRangeKernel 2 4 1 null_ref 6 6 0 [] sample_runtime = (Inr (CL_SUCCESS, event), t)"
proof -
  have "check_sizes 6 6 0 (unat (1 :: u32)) 1 sample_runtime = (Inr (Inr 64), sample_runtime)"
    using max_item_size_limit [OF sample_limits, of 0]
    by (simp add: runtime_simps at_index_def sample_runtime_def)
  then show ?thesis
    using enqueue_kernel [OF sample_idle sample_kernel_found(1), of 1 null_ref 6 6]
    by (subst launch_steps [OF limits_number [OF sample_limits]]) (auto simp: sample_kernel_found runtime_simps)
qed

lemma accepted_launch_sizes_witness:
  "\<exists>event t. clEnqueueNDRangeKernel 2 4 1 null_ref 6 6 0 [] sample_runtime = (Inr (CL_SUCCESS, event), t)
    \<and> to_u64 (\<Prod>j<1. to_u32 ([64 :: u64] ! j)) \<le> 256"
proof -
  obtain event t where "clEnqueueNDRangeKernel 2 4 1 null_ref 6 6 0 [] sample_runtime = (Inr (CL_SUCCESS, event), t)"
    using sample_launch by blast
  with accepted_launch_sizes [OF this sample_limits, of "[64]" "[64]"] show ?thesis
    by (simp add: sample_runtime_def)
qed

lemma kernel_request_sent_witness:
  "\<exists>event t u. clEnqueueNDRangeKernel 2 4 1 null_ref 6 6 0 [] sample_runtime = (Inr (CL_SUCCESS, event), t)
    \<and> clFinish 7 2 t = (Inr CL_SUCCESS, u) \<and> length (rt_sent u) = 1"
proof -
  obtain event t where l: "clEnqueueNDRangeKernel 2 4 1 null_ref 6 6 0 [] sample_runtime = (Inr (CL_SUCCESS, event), t)"
    using sample_launch by blast
  have "\<exists>u. clFinish 7 2 t = (Inr CL_SUCCESS, u) \<and> rt_sent u = rt_sent sample_runtime @
    [\<lparr>pr_name = kr_name sample_kernel, pr_config = \<lparr>pr_dims = 1, pr_globalWorkOffset = [], pr_globalWorkSize = take (unat (1 :: u32)) [64],
        pr_localWorkSize = take (unat (1 :: u32)) [64], pr_parameters = kr_config sample_kernel\<rparr>,
      pr_instructions = kr_instructions sample_kernel,
      pr_args = concat (map (sent_argument sample_runtime) (kr_arguments sample_kernel))\<rparr>]"
    by (rule kernel_request_sent [OF sample_idle _ _ sample_kernel_found(1) _ _ l _ sample_limits])
      (simp_all add: sample_kernel_found, simp_all add: sample_queue_def sample_runtime_def)
  then show ?thesis using l by (auto simp: sample_runtime_def)
qed

lemma task_sizes_dangle_witness:
  "\<exists>event t. clEnqueueTask 2 4 0 [] sample_runtime = (Inr (CL_SUCCESS, event), t)
    \<and> fst (clFinish 3 2 t) = Inl (Undefined ''dangling pointer'')"
  by (rule task_sizes_dangle [OF sample_idle sample_kernel_found(1) _ _ sample_limits])
    (simp_all add: sample_kernel_found)

end
