(* ===== verification/ClFlushProps.thy ===== *)
theory ClFlushProps
  imports ClBufferProps
begin

text \<open>
  Queues with many commands (\<open>icd/CLCommandQueue.cpp\<close>, \<open>command/Command.cpp\<close>): the flush refines running
  the commands one after another, first in first out on an in-order queue and last in first out on
  an out-of-order queue; the wait list of a command on an in-order queue is never worked off, so
  that its flush can only fail.
\<close>

unbundle bit_operations_syntax

section \<open>The order of a flush\<close>

text \<open>Running a command that waits for nothing, and running a list of commands in its order.\<close>

definition run_class :: "ref \<Rightarrow> CommandClass \<Rightarrow> (Runtime, unit) M" where
  "run_class event cls =
     bindM (setSubmitted event) (\<lambda>_.
     bindM (setRunning event) (\<lambda>_.
     bindM (executeImpl cls) (\<lambda>_.
     setCompleted event CL_COMPLETE)))"

definition run_command :: "ref \<Rightarrow> (Runtime, unit) M" where
  "run_command command =
     bindM (requireEvent command) (\<lambda>event.
     bindM (deref rt_commands command) (\<lambda>c.
     run_class event (cm_class c)))"

definition leave_commands :: "ref \<Rightarrow> ref list \<Rightarrow> (Runtime, unit) M" where
  "leave_commands queue rest =
     bindM (deref rt_queues queue) (\<lambda>q. put_queue queue (Some (q\<lparr>cq_commands := rest\<rparr>)))"

fun run_each :: "ref \<Rightarrow> bool \<Rightarrow> ref list \<Rightarrow> (Runtime, unit) M" where
  "run_each queue lifo [] = retM ()"
| "run_each queue lifo (command # commands) =
     bindM (leave_commands queue (if lifo then rev commands else commands)) (\<lambda>_.
     bindM (run_command command) (\<lambda>_. run_each queue lifo commands))"

definition command_ready :: "Runtime \<Rightarrow> ref \<Rightarrow> ref \<Rightarrow> ref \<Rightarrow> bool" where
  "command_ready s queue event command \<longleftrightarrow> command \<noteq> null_ref \<and> event \<noteq> null_ref
     \<and> (\<exists>c. rt_commands s command = Some c \<and> cm_waitList c = [] \<and> cm_event c = event \<and> cm_commandQueue c = queue)
     \<and> (\<exists>e. rt_events s event = Some e \<and> isQueued e)"

text \<open>A queue with these commands in the order in which they will run, each with its own event.\<close>

definition queue_ready :: "Runtime \<Rightarrow> ref \<Rightarrow> bool \<Rightarrow> ref list \<Rightarrow> ref list \<Rightarrow> bool" where
  "queue_ready s queue lifo commands events \<longleftrightarrow> queue \<noteq> null_ref
     \<and> (\<exists>q. rt_queues s queue = Some q \<and> isOutOfOrder q = lifo \<and> cq_commands q = (if lifo then rev commands else commands))
     \<and> list_all2 (command_ready s queue) events commands \<and> distinct events"

definition same_tables :: "Runtime \<Rightarrow> Runtime \<Rightarrow> bool" where
  "same_tables s t \<longleftrightarrow> rt_commands t = rt_commands s \<and> rt_queues t = rt_queues s \<and> rt_events t = rt_events s"

lemma keeps_write_block: "keeps (same_tables s) (write_block p xs)"
  by (auto simp: keeps_def write_block_def same_tables_def split: option.splits)

lemma keeps_memcpy: "keeps (same_tables s) (memcpy dst src n)"
  unfolding memcpy_def by (auto intro: keeps_intros keeps_write_block)

lemma keeps_argument_protos: "keeps (same_tables s) (argument_protos args)"
proof (induction args)
  case (Cons a args)
  have "keeps (same_tables s) (argument_proto a)"
    by (auto simp: argument_proto_def deref_def intro!: keeps_intros
        split: option.splits KernelArgumentClass.splits KernelArgumentValueType.splits)
  with Cons show ?case by (auto intro!: keeps_intros)
qed (auto intro: keeps_intros)

lemma keeps_executeImpl: "keeps (same_tables s) (executeImpl cls)"
  by (cases cls)
    (auto simp: fill_loop_def send_kernel_def read_sizes_def deref_def intro!: keeps_intros keeps_memcpy keeps_argument_protos
      simp: keeps_def [of _ "modifyM _"] modifyM_def same_tables_def)

definition only_event :: "ref \<Rightarrow> Runtime \<Rightarrow> Runtime \<Rightarrow> bool" where
  "only_event event s t \<longleftrightarrow> rt_commands t = rt_commands s \<and> rt_queues t = rt_queues s
     \<and> (\<forall>e. e \<noteq> event \<longrightarrow> rt_events t e = rt_events s e)"

lemma keeps_only_event:
  "keeps (only_event event s) (put_event event x)" "keeps (only_event event s) now"
  "keeps (only_event event s) (modifyM (\<lambda>u. u\<lparr>rt_calls := f u\<rparr>))" "keeps (only_event event s) (executeImpl cls)"
  "keeps (only_event event s) (deref heap r)"
proof -
  show "keeps (only_event event s) (executeImpl cls)"
    unfolding keeps_def
  proof (intro allI impI)
    fix u
    assume "only_event event s u"
    then show "only_event event s (snd (executeImpl cls u))"
      using keepsD [OF keeps_executeImpl, of u u cls] by (simp add: same_tables_def only_event_def)
  qed
qed (auto simp: keeps_def only_event_def put_event_def modifyM_def now_def deref_def liftM_def)

lemma keeps_event_status:
  "keeps (only_event event s) (setSubmitted event)" "keeps (only_event event s) (setRunning event)"
  "keeps (only_event event s) (setCompleted event status)"
  by (auto simp: setSubmitted_def setRunning_def setCompleted_def callCallback_def Let_def
      intro!: keeps_intros keeps_only_event)

lemma run_class_frame: "only_event event s (snd (run_class event cls s))"
proof -
  have "keeps (only_event event s) (run_class event cls)"
    unfolding run_class_def by (intro keeps_intros keeps_only_event keeps_event_status)
  then show ?thesis by (rule keepsD) (simp add: only_event_def)
qed

lemma run_command_ready:
  assumes "command_ready s queue event command"
  shows "\<exists>cls. run_command command s = run_class event cls s"
  using assms by (auto simp: command_ready_def run_command_def requireEvent_def runtime_simps)

lemma execute_ready:
  assumes "command_ready s queue event command" "rt_queues s queue = Some q" "queue \<noteq> null_ref"
  shows "run_call (Suc (Suc n)) (ExecuteCommand command) s = run_command command s"
  using assms
  by (auto simp: command_ready_def execute_command_def run_command_def requireEvent_def wait_loop_def runtime_simps
      simp flip: run_class_def)

lemma run_command_only_event:
  "command_ready s queue event command \<Longrightarrow> only_event event s (snd (run_command command s))"
  using run_command_ready run_class_frame by metis

lemma ready_kept:
  assumes "only_event event s t" "list_all2 (command_ready s queue) events commands" "event \<notin> set events"
  shows "list_all2 (command_ready t queue) events commands"
  using assms(2)
proof (rule list.rel_mono_strong)
  fix e c
  assume "e \<in> set events" "c \<in> set commands" "command_ready s queue e c"
  moreover from this(1) have "e \<noteq> event" using assms(3) by auto
  ultimately show "command_ready t queue e c"
    using assms(1) by (auto simp: only_event_def command_ready_def)
qed

text \<open>
  The flush of a queue runs its commands one after another, whatever they do: the first first if the
  queue is in order, the last first if it is out of order. Two levels of calls besides one for each
  command are enough.
\<close>

text \<open>
  C16: Flushing a queue of commands that wait for nothing is running them one after another,
  first in first out on an in-order queue and last in first out on an out-of-order queue.
\<close>

theorem flush_runs_each:
  assumes "queue_ready s queue lifo commands events"
  shows "run_call (length commands + Suc (Suc k)) (FlushLoop queue executed) s
    = bindM (run_each queue lifo commands) (\<lambda>_. run_call (Suc (Suc k)) (FlushLoop queue (executed @ commands))) s"
  using assms
proof (induction commands arbitrary: events executed s)
  case Nil
  then show ?case by (simp add: bindM_def retM_def)
next
  case (Cons command commands)
  obtain event es where es: "events = event # es" and ready: "command_ready s queue event command"
    and rest: "list_all2 (command_ready s queue) es commands" "event \<notin> set es" "distinct es"
    using Cons.prems by (auto simp: queue_ready_def list_all2_Cons2)
  obtain q where q: "queue \<noteq> null_ref" "rt_queues s queue = Some q" "isOutOfOrder q = lifo"
    "cq_commands q = (if lifo then rev (command # commands) else command # commands)"
    using Cons.prems by (auto simp: queue_ready_def)
  let ?q = "q\<lparr>cq_commands := if lifo then rev commands else commands\<rparr>"
  let ?t = "s\<lparr>rt_queues := (rt_queues s)(queue \<mapsto> ?q)\<rparr>"
  have leave: "leave_commands queue (if lifo then rev commands else commands) s = (Inr (), ?t)"
    using q by (simp add: leave_commands_def runtime_simps)
  have ready': "command_ready ?t queue event command" "list_all2 (command_ready ?t queue) es commands"
    using ready rest(1) by (auto simp: command_ready_def elim: list_all2_mono)
  have exe: "run_call (length commands + Suc (Suc k)) (ExecuteCommand command) ?t = run_command command ?t"
    using execute_ready [OF ready'(1) _ q(1), of ?q "length commands + k"] by simp
  have "run_call (length (command # commands) + Suc (Suc k)) (FlushLoop queue executed) s
    = bindM (run_command command) (\<lambda>_. run_call (length commands + Suc (Suc k)) (FlushLoop queue (executed @ [command]))) ?t"
  proof -
    have "run_call (Suc m) (FlushLoop queue executed) s
      = bindM (run_call m (ExecuteCommand command)) (\<lambda>_. run_call m (FlushLoop queue (executed @ [command]))) ?t" for m
      using q by (cases lifo) (simp_all add: flush_loop_def runtime_simps)
    moreover have "length (command # commands) + Suc (Suc k) = Suc (length commands + Suc (Suc k))" by simp
    ultimately show ?thesis by (simp only: bindM_def exe)
  qed
  also have "\<dots> = bindM (run_command command) (\<lambda>_. bindM (run_each queue lifo commands)
      (\<lambda>_. run_call (Suc (Suc k)) (FlushLoop queue (executed @ command # commands)))) ?t"
  proof -
    have only: "only_event event ?t (snd (run_command command ?t))" by (rule run_command_only_event [OF ready'(1)])
    then have "isOutOfOrder ?q = lifo" "rt_queues (snd (run_command command ?t)) queue = Some ?q"
      using q(3) by (simp_all add: isOutOfOrder_def only_event_def)
    then have "queue_ready (snd (run_command command ?t)) queue lifo commands es"
      using ready_kept [OF only ready'(2) rest(2)] rest(3) q(1) by (auto simp: queue_ready_def)
    from Cons.IH [OF this, of "executed @ [command]"] show ?thesis
      by (auto simp: bindM_def split: prod.splits sum.splits)
  qed
  also have "\<dots> = bindM (run_each queue lifo (command # commands)) (\<lambda>_. run_call (Suc (Suc k)) (FlushLoop queue (executed @ command # commands))) s"
    using leave by (simp add: bindM_def [of "bindM _ _"] bindM_def [of "leave_commands _ _"]) (simp add: bindM_def split: prod.splits sum.splits)
  finally show ?case by simp
qed

section \<open>Waiting on an in-order queue\<close>

text \<open>
  The wait list of a command is worked off only on an out-of-order queue, and the destructor of the
  command asserts that it is empty. So a blocking write on an in-order queue that waits for an event
  ends the process, after the data have been written.
\<close>

text \<open>
  C40: A blocking write on an in-order queue that waits for an event copies its data and then
  ends the process: its wait list is never worked off and the destructor asserts that it is
  empty.
\<close>

theorem in_order_wait_asserts:
  assumes "idle s queue q c" "buffer_ok s m mo bs" "in_buffer mo off sz" "6 \<le> n"
    and "p \<noteq> null_pointer" "fst p \<noteq> fst (mo_address mo)" "read_block p (unat sz) s = Inr data"
    and "waited \<noteq> null_ref" "rt_events s waited = Some e" "waited < rt_next s"
  shows "\<exists>t. clEnqueueWriteBuffer n queue m True off sz p 1 [waited] s = (Inl (Assert_failed ''waitList.empty()''), t)
    \<and> rt_blocks t (fst (mo_address mo))
      = Some (take (snd (mo_address mo) + unat off) bs @ data @ drop (snd (mo_address mo) + unat off + unat sz) bs)"
proof -
  obtain k where n: "n = Suc (Suc (Suc (Suc (Suc (Suc k)))))"
    using assms(4) by (auto simp: numeral_eq_Suc Suc_le_eq dest!: less_imp_Suc_add)
  let ?blocks = "(rt_blocks s)(fst (mo_address mo) \<mapsto>
      take (snd (mo_address mo) + unat off) bs @ data @ drop (snd (mo_address mo) + unat off + unat sz) bs)"
  have copy: "memcpy (plus_pointer (mo_address mo) off) p (unat sz) u = (Inr (), u\<lparr>rt_blocks := ?blocks\<rparr>)"
    if "rt_blocks u = rt_blocks s" for u
    using memcpy_other_block [of p "unat sz" u data "plus_pointer (mo_address mo) off" bs] assms that read_block_same [of u p s]
    by (simp add: plus_pointer_def buffer_ok_def in_buffer_def)
  show ?thesis
    using assms in_buffer_accepted [OF assms(3)] unfolding n
    by (simp add: clEnqueueWriteBuffer_def BufferWriteCommand_new_def idle_def buffer_ok_def in_buffer_def enqueue_defs
        push_waited_def at_index_def flush_defs runtime_simps copy clReleaseMemObject_def)
qed

section \<open>Concrete queues\<close>

definition waiting_runtime :: Runtime where
  "waiting_runtime = sample_runtime\<lparr>
     rt_queues := [2 \<mapsto> sample_queue\<lparr>cq_commands := [14, 15]\<rparr>],
     rt_commands := [14 \<mapsto> \<lparr>cm_commandQueue = 2, cm_waitList = [], cm_event = 16, cm_class = BufferWriteCommand 3 8 0 (11, 0)\<rparr>,
       15 \<mapsto> \<lparr>cm_commandQueue = 2, cm_waitList = [], cm_event = 17, cm_class = BufferReadCommand 3 8 0 (12, 0)\<rparr>],
     rt_events := [16 \<mapsto> queued_event sample_runtime 2 sample_queue, 17 \<mapsto> queued_event sample_runtime 2 sample_queue]\<rparr>"

lemma flush_runs_each_witness:
  "run_call 4 (FlushLoop 2 []) waiting_runtime
    = bindM (run_each 2 False [14, 15]) (\<lambda>_. run_call 2 (FlushLoop 2 [14, 15])) waiting_runtime"
proof -
  have "queue_ready waiting_runtime 2 False [14, 15] [16, 17]"
    by (simp add: queue_ready_def command_ready_def waiting_runtime_def sample_queue_def isOutOfOrder_def isQueued_def
        queued_event_def sample_runtime_def)
  from flush_runs_each [OF this, of 0 "[]"] show ?thesis by (simp add: numeral_eq_Suc)
qed

lemma in_order_wait_asserts_witness:
  "\<exists>t. clEnqueueWriteBuffer 7 2 3 True 4 8 (11, 0) 1 [9] (sample_runtime\<lparr>rt_events := [9 \<mapsto> queued_event sample_runtime 2 sample_queue]\<rparr>)
    = (Inl (Assert_failed ''waitList.empty()''), t)"
proof -
  let ?s = "sample_runtime\<lparr>rt_events := [9 \<mapsto> queued_event sample_runtime 2 sample_queue]\<rparr>"
  have "idle ?s 2 sample_queue sample_context" "buffer_ok ?s 3 sample_mem (replicate 16 0)"
    "read_block (11, 0) (unat (8 :: u64)) ?s = Inr [1, 2, 3, 4, 5, 6, 7, 8]"
    using sample_idle sample_buffer sample_source(3) by (simp_all add: idle_def buffer_ok_def read_block_def)
  from in_order_wait_asserts [OF this(1,2) sample_range _ sample_source(1,2) this(3), of 7 9]
  show ?thesis by (fastforce simp: sample_runtime_def)
qed

end
