(* ===== verification/ClCounts.thy ===== *)
theory ClCounts
  imports ClBufferProps
begin

text \<open>
  The reference counts of the objects of the OpenCL runtime (\<open>clRetain...\<close> and \<open>clRelease...\<close> in the
  \<open>runtime-*.cpp\<close> files). The operations of all classes follow one contract, which is stated as a
  locale with what follows from it: as long as an object is in use its count is what the calls make
  of it, and nothing else of the runtime changes. Command queues are flushed by their release and do
  not follow it.
\<close>

section \<open>The contract\<close>

text \<open>One use of an object: it is retained (True) or released.\<close>

definition balance :: "bool list \<Rightarrow> int" where
  "balance uses = sum_list (map (\<lambda>b. if b then 1 else - 1) uses)"

lemma balance_simps [simp]: "balance [] = 0" "balance (b # bs) = (if b then 1 else - 1) + balance bs"
  by (simp_all add: balance_def)

text \<open>The count, seen as a number, stays positive and does not wrap around.\<close>

fun in_use :: "int \<Rightarrow> bool list \<Rightarrow> bool" where
  "in_use n [] \<longleftrightarrow> 0 < n \<and> n < 2 ^ 32"
| "in_use n (b # bs) \<longleftrightarrow> 0 < n \<and> n < 2 ^ 32 \<and> in_use (n + (if b then 1 else - 1)) bs"

lemma in_use_pos: "in_use n bs \<Longrightarrow> 0 < n \<and> n < 2 ^ 32"
  by (cases bs) simp_all

lemma positive_word: "0 < n \<Longrightarrow> n < 2 ^ 32 \<Longrightarrow> (word_of_int n :: u32) \<noteq> 0"
  by (simp add: word_of_int_eq_0_iff zdvd_not_zless)

definition use_object :: "(ref \<Rightarrow> (Runtime, cl_int) M) \<Rightarrow> (ref \<Rightarrow> (Runtime, cl_int) M) \<Rightarrow> ref \<Rightarrow> bool \<Rightarrow> (Runtime, unit) M" where
  "use_object retain release r b = bindM (if b then retain r else release r) (\<lambda>code.
     liftM (\<lambda>_. assertE (code = CL_SUCCESS) ''code''))"

locale counted =
  fixes heap :: "Runtime \<Rightarrow> ref \<rightharpoonup> 'a"
    and put :: "ref \<Rightarrow> 'a \<Rightarrow> Runtime \<Rightarrow> Runtime"
    and refs :: "'a \<Rightarrow> u32"
    and set_refs :: "u32 \<Rightarrow> 'a \<Rightarrow> 'a"
    and retain :: "ref \<Rightarrow> (Runtime, cl_int) M"
    and release :: "ref \<Rightarrow> (Runtime, cl_int) M"
  assumes retain_live: "r \<noteq> null_ref \<Longrightarrow> heap s r = Some x \<Longrightarrow>
      retain r s = (Inr CL_SUCCESS, put r (set_refs (refs x + 1) x) s)"
    and release_live: "r \<noteq> null_ref \<Longrightarrow> heap s r = Some x \<Longrightarrow> refs x \<noteq> 1 \<Longrightarrow>
      release r s = (Inr CL_SUCCESS, put r (set_refs (refs x - 1) x) s)"
    and heap_put: "heap (put r x s) r = Some x"
    and put_put: "put r y (put r x s) = put r y s"
    and put_same: "heap s r = Some x \<Longrightarrow> put r x s = s"
    and refs_set: "refs (set_refs n x) = n"
    and set_set: "set_refs m (set_refs n x) = set_refs m x"
    and set_same: "set_refs (refs x) x = x"
begin

abbreviation use :: "ref \<Rightarrow> bool \<Rightarrow> (Runtime, unit) M" where "use \<equiv> use_object retain release"

lemma use_live:
  assumes "r \<noteq> null_ref" and "heap s r = Some x" and "b \<or> refs x \<noteq> 1"
  shows "use r b s = (Inr (), put r (set_refs (refs x + (if b then 1 else - 1)) x) s)"
  using assms by (cases b) (simp_all add: use_object_def bindM_def liftM_def retain_live release_live)

lemma counts_exact:
  assumes "r \<noteq> null_ref" and "heap s r = Some x" and "refs x = word_of_int n" and "in_use n uses"
  shows "forM uses (use r) s = (Inr (), put r (set_refs (word_of_int (n + balance uses)) x) s)"
  using assms(2-)
proof (induction uses arbitrary: s x n)
  case Nil
  then show ?case by (metis add.right_neutral balance_simps(1) forM.simps(1) put_same retM_def set_same)
next
  case (Cons b bs)
  let ?n = "n + (if b then 1 else - 1)"
  have next_count: "refs x + (if b then 1 else - 1) = word_of_int ?n" using Cons.prems(2) by simp
  have "b \<or> refs x \<noteq> 1"
    using Cons.prems(2,3) in_use_pos [of "n - 1" bs] positive_word [of "n - 1"] by (cases b) auto
  then have one: "use r b s = (Inr (), put r (set_refs (word_of_int ?n) x) s)"
    using use_live [OF assms(1) Cons.prems(1)] next_count by simp
  have "forM bs (use r) (put r (set_refs (word_of_int ?n) x) s)
      = (Inr (), put r (set_refs (word_of_int (?n + balance bs)) (set_refs (word_of_int ?n) x)) (put r (set_refs (word_of_int ?n) x) s))"
    by (rule Cons.IH [OF heap_put refs_set]) (use Cons.prems(3) in simp)
  with one show ?case by (simp add: bindM_def put_put set_set add.assoc)
qed

lemma balanced_use:
  assumes "r \<noteq> null_ref" and "heap s r = Some x" and "in_use (uint (refs x)) uses" and "balance uses = 0"
  shows "forM uses (use r) s = (Inr (), s)"
  using counts_exact [OF assms(1,2) _ assms(3)] assms(4) put_same [OF assms(2)] set_same by simp

end

section \<open>The classes of objects\<close>

lemmas count_simps = deref_def bindM_def liftM_def retM_def modifyM_def Let_def

interpretation contexts: counted rt_contexts "\<lambda>r x s. s\<lparr>rt_contexts := (rt_contexts s)(r \<mapsto> x)\<rparr>"
  cx_referenceCount "\<lambda>n c. c\<lparr>cx_referenceCount := n\<rparr>" clRetainContext clReleaseContext
  by unfold_locales (auto simp: clRetainContext_def clReleaseContext_def put_context_def count_simps fun_upd_idem)

interpretation mems: counted rt_mems "\<lambda>r x s. s\<lparr>rt_mems := (rt_mems s)(r \<mapsto> x)\<rparr>"
  mo_referenceCount "\<lambda>n c. c\<lparr>mo_referenceCount := n\<rparr>" clRetainMemObject clReleaseMemObject
  by unfold_locales (auto simp: clRetainMemObject_def clReleaseMemObject_def put_mem_def count_simps fun_upd_idem)

interpretation events: counted rt_events "\<lambda>r x s. s\<lparr>rt_events := (rt_events s)(r \<mapsto> x)\<rparr>"
  ev_referenceCount "\<lambda>n c. c\<lparr>ev_referenceCount := n\<rparr>" clRetainEvent "clReleaseEvent (Suc n)" for n
  by unfold_locales (auto simp: clRetainEvent_def clReleaseEvent_def release_event_def put_event_def count_simps fun_upd_idem)

interpretation kernels: counted rt_kernels "\<lambda>r x s. s\<lparr>rt_kernels := (rt_kernels s)(r \<mapsto> x)\<rparr>"
  kr_referenceCount "\<lambda>n c. c\<lparr>kr_referenceCount := n\<rparr>" clRetainKernel "clReleaseKernel (Suc n)" for n
  by unfold_locales (auto simp: clRetainKernel_def clReleaseKernel_def release_kernel_def put_kernel_def count_simps fun_upd_idem)

interpretation programs: counted rt_programs "\<lambda>r x s. s\<lparr>rt_programs := (rt_programs s)(r \<mapsto> x)\<rparr>"
  pg_referenceCount "\<lambda>n c. c\<lparr>pg_referenceCount := n\<rparr>" clRetainProgram "clReleaseProgram (Suc n)" for n
  by unfold_locales (auto simp: clRetainProgram_def clReleaseProgram_def release_program_def put_program_def count_simps fun_upd_idem)

text \<open>
  Calls that retain and release an object equally often, and never below the last reference, all
  return \<open>CL_SUCCESS\<close> and leave the whole runtime as it was.
\<close>

text \<open>
  C35: Calls that retain and release a context, memory object, event, kernel or program
  equally often, and never below its last reference, all return CL_SUCCESS and leave the whole
  runtime as it was.
\<close>

theorem references_balance:
  assumes "r \<noteq> null_ref" and "balance uses = 0"
  shows "(\<forall>c. rt_contexts s r = Some c \<and> in_use (uint (cx_referenceCount c)) uses \<longrightarrow>
        forM uses (use_object clRetainContext clReleaseContext r) s = (Inr (), s))
    \<and> (\<forall>m. rt_mems s r = Some m \<and> in_use (uint (mo_referenceCount m)) uses \<longrightarrow>
        forM uses (use_object clRetainMemObject clReleaseMemObject r) s = (Inr (), s))
    \<and> (\<forall>e n. rt_events s r = Some e \<and> in_use (uint (ev_referenceCount e)) uses \<longrightarrow>
        forM uses (use_object clRetainEvent (clReleaseEvent (Suc n)) r) s = (Inr (), s))
    \<and> (\<forall>k n. rt_kernels s r = Some k \<and> in_use (uint (kr_referenceCount k)) uses \<longrightarrow>
        forM uses (use_object clRetainKernel (clReleaseKernel (Suc n)) r) s = (Inr (), s))
    \<and> (\<forall>p n. rt_programs s r = Some p \<and> in_use (uint (pg_referenceCount p)) uses \<longrightarrow>
        forM uses (use_object clRetainProgram (clReleaseProgram (Suc n)) r) s = (Inr (), s))"
  using assms
  by (auto intro: contexts.balanced_use mems.balanced_use events.balanced_use kernels.balanced_use programs.balanced_use)

lemma references_balance_witness:
  "forM [True, True, False, True, False, False] (use_object clRetainContext clReleaseContext 1) sample_runtime
    = (Inr (), sample_runtime)"
  using references_balance [of 1 "[True, True, False, True, False, False]" sample_runtime]
  by (simp add: sample_runtime_def sample_context_def)

end
