(* ===== verification/Ipcs.thy ===== *)
theory Ipcs
  imports ClObjects
begin

text \<open>
  The way of a kernel request from the driver to the debugger process (\<open>common/ipc/IPCWrapper.cpp\<close>,
  \<open>IpcServer.h\<close>, \<open>IpcServer.cpp\<close>, \<open>ServerJob.h\<close>). The message classes are those that are generated
  from \<open>common/proto/kernel_request.proto\<close>, whose offsets and sizes have 32 bits. Their encoding
  by the protocol buffer library, and the type \<open>'w\<close> of what goes over the wire, are parameters.

  A job of the server is a state machine that is called back when a transfer of the socket library
  is over. The steps are those of one job: a request arrives, or a reply has gone out. An exception
  of the library is not caught by any code here; it counts as a \<open>Logic_error\<close>.
\<close>

section \<open>Requests\<close>

record ConfigMessage =
  cf_dims :: u32
  cf_globalworkoffset :: "u32 list"
  cf_globalworksize :: "u32 list"
  cf_localworksize :: "u32 list"
  cf_parameters :: "string list"

record ArgumentMessage =
  am_name :: string
  am_kind :: ArgumentKind
  am_data :: "u8 list"
  am_size :: u32
  am_readpermission :: bool
  am_writepermission :: bool

record KernelRequest =
  rq_name :: string
  rq_config :: ConfigMessage
  rq_instructions :: "string list"
  rq_args :: "ArgumentMessage list"

text \<open>The loops of both functions copy element by element.\<close>

definition set_argument :: "ArgumentProto \<Rightarrow> ArgumentMessage" where
  "set_argument arg = \<lparr>am_name = pr_argName arg,
     am_kind = (if pr_kind arg = POINTER_ARG then POINTER_ARG else SCALAR_ARG), am_data = pr_data arg,
     am_size = pr_size arg, am_readpermission = pr_readPermission arg, am_writepermission = pr_writePermission arg\<rparr>"

definition set_request :: "KernelProto \<Rightarrow> KernelRequest" where
  "set_request krn = \<lparr>rq_name = pr_name krn,
     rq_config = \<lparr>cf_dims = pr_dims (pr_config krn),
       cf_globalworkoffset = map to_u32 (pr_globalWorkOffset (pr_config krn)),
       cf_globalworksize = map to_u32 (pr_globalWorkSize (pr_config krn)),
       cf_localworksize = map to_u32 (pr_localWorkSize (pr_config krn)),
       cf_parameters = pr_parameters (pr_config krn)\<rparr>,
     rq_instructions = pr_instructions krn, rq_args = map set_argument (pr_args krn)\<rparr>"

definition sendKernelForExecution :: "(KernelRequest \<Rightarrow> 'w) \<Rightarrow> ('w \<Rightarrow> ('s, 'w) M) \<Rightarrow> KernelProto \<Rightarrow> ('s, unit) M" where
  "sendKernelForExecution serialize send krn = bindM (send (serialize (set_request krn))) (\<lambda>_. retM ())"

definition get_argument :: "ArgumentMessage \<Rightarrow> ArgumentProto" where
  "get_argument a = \<lparr>pr_argName = am_name a,
     pr_kind = (if am_kind a = POINTER_ARG then POINTER_ARG else SCALAR_ARG), pr_data = am_data a,
     pr_size = am_size a, pr_readPermission = am_readpermission a, pr_writePermission = am_writepermission a\<rparr>"

definition receiveKernelForExecution :: "('w \<Rightarrow> KernelRequest) \<Rightarrow> 'w \<Rightarrow> KernelProto" where
  "receiveKernelForExecution parse source =
     (let req = parse source; c = rq_config req
      in \<lparr>pr_name = rq_name req,
          pr_config = \<lparr>pr_dims = cf_dims c, pr_globalWorkOffset = map to_u64 (cf_globalworkoffset c),
            pr_globalWorkSize = map to_u64 (cf_globalworksize c), pr_localWorkSize = map to_u64 (cf_localworksize c),
            pr_parameters = cf_parameters c\<rparr>,
          pr_instructions = rq_instructions req, pr_args = map get_argument (rq_args req)\<rparr>)"

section \<open>The server\<close>

datatype JobState = INIT | RECEIVE | SEND

text \<open>The transfer that the job waits for, if any.\<close>

datatype Transfer = Idle | Receiving | Sending

record 'w ServerJob =
  jb_state :: JobState
  jb_aio :: "'w option"
  jb_transfer :: Transfer

definition processJob :: "('w \<Rightarrow> ('s, 'w) M) \<Rightarrow> ('w ServerJob \<times> 's, unit) M" where
  "processJob messageProcessor = (\<lambda>(job, s).
     case jb_aio job of
       None \<Rightarrow> (Inl (Undefined ''null message''), job, s)
     | Some msg \<Rightarrow> (case messageProcessor msg s of
           (Inl e, s) \<Rightarrow> (Inl e, job\<lparr>jb_aio := None\<rparr>, s)
         | (Inr res, s) \<Rightarrow> (Inr (), job\<lparr>jb_aio := Some res\<rparr>, s)))"

definition checkResult :: "bool \<Rightarrow> ('t, unit) M" where
  "checkResult success = (if success then retM () else throwM (Logic_error ''nng::exception''))"

definition on_job :: "('w ServerJob \<Rightarrow> 'w ServerJob) \<Rightarrow> ('w ServerJob \<times> 's, unit) M" where
  "on_job f = modifyM (\<lambda>(job, s). (f job, s))"

definition socketHandler :: "('w \<Rightarrow> ('s, 'w) M) \<Rightarrow> bool \<Rightarrow> ('w ServerJob \<times> 's, unit) M" where
  "socketHandler messageProcessor success = (\<lambda>(job, s).
     (case jb_state job of
        INIT \<Rightarrow> on_job (\<lambda>job. job\<lparr>jb_state := RECEIVE, jb_transfer := Receiving\<rparr>)
      | RECEIVE \<Rightarrow>
          bindM (checkResult success) (\<lambda>_.
          bindM (processJob messageProcessor) (\<lambda>_.
          on_job (\<lambda>job. job\<lparr>jb_state := SEND, jb_transfer := Sending\<rparr>)))
      | SEND \<Rightarrow>
          bindM (checkResult success) (\<lambda>_.
          on_job (\<lambda>job. job\<lparr>jb_state := RECEIVE, jb_transfer := Receiving\<rparr>))) (job, s))"

text \<open>
  A run of one job: the requests that arrived and the replies that went out. \<open>listen\<close> calls the
  handler once for a new job.
\<close>

definition new_job :: "'w ServerJob" where
  "new_job = \<lparr>jb_state = INIT, jb_aio = None, jb_transfer = Idle\<rparr>"

record ('w, 's) JobRun =
  jr_job :: "'w ServerJob"
  jr_state :: 's
  jr_requests :: "'w list"
  jr_replies :: "'w list"

inductive job_run :: "('w \<Rightarrow> ('s, 'w) M) \<Rightarrow> 's \<Rightarrow> ('w, 's) JobRun \<Rightarrow> bool" for messageProcessor s0 where
  listen: "socketHandler messageProcessor True (new_job, s0) = (Inr (), job, s) \<Longrightarrow>
     job_run messageProcessor s0 \<lparr>jr_job = job, jr_state = s, jr_requests = [], jr_replies = []\<rparr>"
| received: "job_run messageProcessor s0 r \<Longrightarrow> jb_transfer (jr_job r) = Receiving \<Longrightarrow>
     socketHandler messageProcessor True ((jr_job r)\<lparr>jb_aio := Some m, jb_transfer := Idle\<rparr>, jr_state r) = (Inr (), job, s) \<Longrightarrow>
     job_run messageProcessor s0 (r\<lparr>jr_job := job, jr_state := s, jr_requests := jr_requests r @ [m]\<rparr>)"
| sent: "job_run messageProcessor s0 r \<Longrightarrow> jb_transfer (jr_job r) = Sending \<Longrightarrow> jb_aio (jr_job r) = Some m \<Longrightarrow>
     socketHandler messageProcessor True ((jr_job r)\<lparr>jb_aio := None, jb_transfer := Idle\<rparr>, jr_state r) = (Inr (), job, s) \<Longrightarrow>
     job_run messageProcessor s0 (r\<lparr>jr_job := job, jr_state := s, jr_replies := jr_replies r @ [m]\<rparr>)"

section \<open>What arrives\<close>

text \<open>
  A request comes out as it went in exactly if its offsets and sizes fit into 32 bits; the rest of
  it always does.
\<close>

lemma to_u64_to_u32_iff: "to_u64 (to_u32 x) = (x :: u64) \<longleftrightarrow> x < 2 ^ 32"
proof -
  have "unat (to_u64 (to_u32 x)) = take_bit 32 (unat x)" by (simp add: unsigned_ucast_eq unsigned_take_bit_eq)
  then show ?thesis
    using take_bit_nat_eq_self_iff [of 32 "unat x"] by (simp add: word_unat_eq_iff word_less_nat_alt)
qed

lemma map_to_u32_iff: "map (\<lambda>n. to_u64 (to_u32 n)) xs = xs \<longleftrightarrow> (\<forall>n \<in> set xs. n < (2 ^ 32 :: u64))"
  by (induction xs) (auto simp: to_u64_to_u32_iff)

lemma get_set_argument: "get_argument (set_argument a) = a"
  by (cases a; cases "pr_kind a") (simp_all add: get_argument_def set_argument_def)

lemma request_unchanged:
  assumes "\<And>r. parse (serialize r) = r"
    and "\<forall>n \<in> set (pr_globalWorkOffset (pr_config k)) \<union> set (pr_globalWorkSize (pr_config k)) \<union> set (pr_localWorkSize (pr_config k)).
      n < 2 ^ 32"
  shows "receiveKernelForExecution parse (serialize (set_request k)) = k"
  using assms(2) by (cases k; cases "pr_config k")
    (auto simp: receiveKernelForExecution_def assms(1) set_request_def comp_def map_to_u32_iff get_set_argument map_idI)

text \<open>
  C31: A kernel request comes out of the transport as it went in exactly if its offsets and
  sizes fit into 32 bits.
\<close>

theorem request_received:
  assumes "\<And>r. parse (serialize r) = r"
  shows "receiveKernelForExecution parse (serialize (set_request k)) = k \<longleftrightarrow>
    (\<forall>n \<in> set (pr_globalWorkOffset (pr_config k)) \<union> set (pr_globalWorkSize (pr_config k)) \<union> set (pr_localWorkSize (pr_config k)).
      n < 2 ^ 32)"
  by (cases k; cases "pr_config k")
    (auto simp: receiveKernelForExecution_def assms set_request_def comp_def map_to_u32_iff get_set_argument map_idI)

lemma request_received_witness:
  "receiveKernelForExecution (\<lambda>r. r) (set_request \<lparr>pr_name = ''k'', pr_config = \<lparr>pr_dims = 1, pr_globalWorkOffset = [],
      pr_globalWorkSize = [2 ^ 32], pr_localWorkSize = [64], pr_parameters = []\<rparr>, pr_instructions = [], pr_args = []\<rparr>)
    \<noteq> \<lparr>pr_name = ''k'', pr_config = \<lparr>pr_dims = 1, pr_globalWorkOffset = [],
      pr_globalWorkSize = [2 ^ 32], pr_localWorkSize = [64], pr_parameters = []\<rparr>, pr_instructions = [], pr_args = []\<rparr>"
  using request_received [of "\<lambda>r. r" "\<lambda>r. r"] by simp

text \<open>
  A job answers every request once, in the order of the requests, with what the processor made of
  it: while a reply is on its way, it is the one to the last request.
\<close>

fun process_all :: "('w \<Rightarrow> ('s, 'w) M) \<Rightarrow> 'w list \<Rightarrow> ('s, 'w list) M" where
  "process_all p [] = retM []"
| "process_all p (m # ms) = bindM (p m) (\<lambda>r. bindM (process_all p ms) (\<lambda>rs. retM (r # rs)))"

lemma process_all_snoc:
  assumes "process_all p ms s = (Inr rs, t)" and "p m t = (Inr r, u)"
  shows "process_all p (ms @ [m]) s = (Inr (rs @ [r]), u)"
  using assms
proof (induction ms arbitrary: s rs)
  case (Cons a ms)
  then show ?case by (fastforce simp: bindM_def retM_def split: prod.splits sum.splits)
qed (simp add: bindM_def retM_def)

text \<open>
  C32: A job of the server answers every request once and in order with what the processor
  made of it; while a reply is on its way it is the one to the last request.
\<close>

theorem server_replies:
  assumes "job_run messageProcessor s0 r"
  shows "\<exists>rs. process_all messageProcessor (jr_requests r) s0 = (Inr rs, jr_state r)
    \<and> (case jb_transfer (jr_job r) of
         Receiving \<Rightarrow> jb_state (jr_job r) = RECEIVE \<and> jr_replies r = rs
       | Sending \<Rightarrow> jb_state (jr_job r) = SEND \<and> (\<exists>m. jb_aio (jr_job r) = Some m \<and> jr_replies r @ [m] = rs)
       | Idle \<Rightarrow> False)"
  using assms
proof induction
  case (listen job s)
  then show ?case by (auto simp: socketHandler_def new_job_def on_job_def modifyM_def retM_def)
next
  case (received r m job s)
  then have "jb_state (jr_job r) = RECEIVE"
    "process_all messageProcessor (jr_requests r) s0 = (Inr (jr_replies r), jr_state r)" by auto
  moreover obtain res where "messageProcessor m (jr_state r) = (Inr res, s)"
      "job = (jr_job r)\<lparr>jb_aio := Some res, jb_state := SEND, jb_transfer := Sending\<rparr>"
    using received.hyps(3) calculation(1)
    by (auto simp: socketHandler_def on_job_def modifyM_def retM_def bindM_def checkResult_def processJob_def
        split: prod.splits sum.splits)
  ultimately show ?case using process_all_snoc by fastforce
next
  case (sent r m job s)
  then show ?case
    by (auto simp: socketHandler_def on_job_def modifyM_def retM_def bindM_def checkResult_def)
qed

lemma server_replies_witness:
  "\<exists>r. job_run (\<lambda>m. bindM (modifyM Suc) (\<lambda>_. retM m)) (0 :: nat) r \<and> jr_requests r = [True] \<and> jr_state r = 1
    \<and> jr_replies r @ [True] = [True]"
proof -
  let ?p = "\<lambda>m :: bool. bindM (modifyM Suc) (\<lambda>_. retM m)"
  have "job_run ?p 0 \<lparr>jr_job = \<lparr>jb_state = RECEIVE, jb_aio = None, jb_transfer = Receiving\<rparr>, jr_state = 0,
      jr_requests = [], jr_replies = []\<rparr>"
    by (rule listen) (simp add: socketHandler_def new_job_def on_job_def modifyM_def)
  from received [OF this, of True]
  have run: "job_run ?p 0 \<lparr>jr_job = \<lparr>jb_state = SEND, jb_aio = Some True, jb_transfer = Sending\<rparr>, jr_state = 1,
      jr_requests = [True], jr_replies = []\<rparr>"
    by (simp add: socketHandler_def on_job_def modifyM_def retM_def bindM_def checkResult_def processJob_def)
  from server_replies [OF this] show ?thesis using run by fastforce
qed

end
