(* ===== verification/HexViews.thy ===== *)
theory HexViews
  imports Strings
begin

text \<open>
  The memory view of the debugger (\<open>debugger/gui/hex-view/hex-utils.h\<close>, \<open>HexScrollWindow.cpp\<close>): the
  lines of sixteen bytes that cover a block of memory, and the two columns of a line. What the
  widget does with them, and the final formatting of the columns side by side, is the library's.
\<close>

unbundle bit_operations_syntax

section \<open>The code\<close>

definition getStartAddress :: "u64 \<Rightarrow> u64" where
  "getStartAddress address = address AND NOT 0xF"

definition getEndAddress :: "u64 \<Rightarrow> u64 \<Rightarrow> u64" where
  "getEndAddress address sz = (address + sz + 16) AND NOT 0xF"

definition getLineCount :: "u64 \<Rightarrow> u64 \<Rightarrow> u64" where
  "getLineCount startAddress endAddress = (endAddress - startAddress) div 16"

definition getLineAddress :: "u64 \<Rightarrow> u64 \<Rightarrow> u64" where
  "getLineAddress startAddress currentLine = startAddress + currentLine * 16"

record HexScrollWindow =
  hx_lineCount :: u64
  hx_startAddress :: u64
  hx_endAddress :: u64
  hx_originalAddress :: u64
  hx_memory :: "u8 list"
  hx_memorySize :: u64

definition setHex :: "u8 list \<Rightarrow> u64 \<Rightarrow> HexScrollWindow" where
  "setHex memory address =
     (let startAddress = getStartAddress address;
          endAddress = getEndAddress address (of_nat (length memory))
      in \<lparr>hx_lineCount = getLineCount startAddress endAddress, hx_startAddress = startAddress,
          hx_endAddress = endAddress, hx_originalAddress = address, hx_memory = memory,
          hx_memorySize = of_nat (length memory)\<rparr>)"

text \<open>The format \<open> %.2X\<close> of a byte.\<close>

definition hex_digit :: "nat \<Rightarrow> char" where
  "hex_digit n = char_of (if n < 10 then 48 + n else 55 + n)"

definition hex_byte :: "u8 \<Rightarrow> string" where
  "hex_byte b = [CHR '' '', hex_digit (unat b div 16), hex_digit (unat b mod 16)]"

text \<open>The entries of one byte in the two columns.\<close>

definition draw_byte :: "HexScrollWindow \<Rightarrow> u64 \<Rightarrow> u64 \<Rightarrow> nat \<Rightarrow> (string \<times> string) result" where
  "draw_byte w start lineAddr i =
     (let curAddr = lineAddr + of_nat i
      in if curAddr < hx_originalAddress w \<or> curAddr \<ge> hx_originalAddress w + hx_memorySize w
         then Inr ('' ..'', ''.'')
         else bindE (at_index (hx_memory w) (unat (start + of_nat i))) (\<lambda>b.
              Inr (hex_byte b, [char_of (unat b)])))"

definition drawLine :: "HexScrollWindow \<Rightarrow> u64 \<Rightarrow> u64 \<Rightarrow> (string \<times> string) result" where
  "drawLine w start lineAddr =
     foldE (\<lambda>i (hexArray, charArray). bindE (draw_byte w start lineAddr i) (\<lambda>(h, c).
       Inr (hexArray @ h @ (if i = 7 then '' '' else []), charArray @ c))) [0..<16] ([], [])"

text \<open>The columns that \<open>OnDraw\<close> asks for at a line.\<close>

definition draw_line :: "HexScrollWindow \<Rightarrow> u64 \<Rightarrow> (string \<times> string) result" where
  "draw_line w line =
     drawLine w (line * 16 - (hx_originalAddress w - hx_startAddress w)) (getLineAddress (hx_startAddress w) line)"

section \<open>What a line shows\<close>

lemma start_word: "(a :: u64) AND NOT 0xF = 16 * (a div 16)"
proof -
  have "a AND NOT (mask 4) = push_bit 4 (drop_bit 4 a)" by (rule bit_word_eqI) (auto simp: bit_simps)
  then show ?thesis by (simp add: mask_eq_exp_minus_1 push_bit_eq_mult drop_bit_eq_div mult.commute)
qed

lemma unat_start: "unat ((a :: u64) AND NOT 0xF) = 16 * (unat a div 16)"
proof -
  have "16 * (unat a div 16) < 2 ^ 64" using unsigned_less [of a, where ?'a = nat] by simp
  then show ?thesis unfolding start_word by (simp add: unat_word_ariths unat_div)
qed

lemma unat_start_minus: "unat ((a :: u64) AND - 16) = 16 * (unat a div 16)"
  using unat_start [of a] by simp

text \<open>What the columns should show of an address, and of the sixteen addresses from \<open>a\<close> on.\<close>

definition shown_byte :: "u8 list \<Rightarrow> u64 \<Rightarrow> nat \<Rightarrow> string \<times> string" where
  "shown_byte memory address a =
     (if unat address \<le> a \<and> a < unat address + length memory
      then (hex_byte (memory ! (a - unat address)), [char_of (unat (memory ! (a - unat address)))])
      else ('' ..'', ''.''))"

definition shown_bytes :: "u8 list \<Rightarrow> u64 \<Rightarrow> nat \<Rightarrow> nat list \<Rightarrow> string \<times> string" where
  "shown_bytes memory address a is =
     (concat (map (\<lambda>i. fst (shown_byte memory address (a + i)) @ (if i = 7 then '' '' else [])) is),
      concat (map (\<lambda>i. snd (shown_byte memory address (a + i))) is))"

lemma draw_byte_shown:
  assumes "unat address + length memory < 2 ^ 64" and "unat lineAddr + i < 2 ^ 64"
    and "start + of_nat i = lineAddr + of_nat i - address"
  shows "draw_byte (setHex memory address) start lineAddr i = Inr (shown_byte memory address (unat lineAddr + i))"
proof -
  have i: "unat (of_nat i :: u64) = i" using assms(2) by (simp add: unat_of_nat take_bit_nat_eq_self)
  have cur: "unat (lineAddr + of_nat i) = unat lineAddr + i"
    using assms(2) i by (subst unat_plus_simple [THEN iffD1]) (auto simp: word_le_nat_alt unat_word_ariths)
  have len: "unat (of_nat (length memory) :: u64) = length memory" using assms(1) by (simp add: unat_of_nat take_bit_nat_eq_self)
  have e: "unat (address + of_nat (length memory)) = unat address + length memory"
    using assms(1) len by (simp add: unat_word_ariths)
  show ?thesis
  proof (cases "unat address \<le> unat lineAddr + i \<and> unat lineAddr + i < unat address + length memory")
    case True
    then have "unat (start + of_nat i) = unat lineAddr + i - unat address"
      unfolding assms(3) using cur by (subst unat_sub) (auto simp: word_le_nat_alt)
    moreover have "unat lineAddr + i - unat address < length memory" using True by linarith
    ultimately show ?thesis using True cur e
      by (simp add: draw_byte_def setHex_def shown_byte_def at_index_def word_less_nat_alt word_le_nat_alt Let_def)
  next
    case False
    with cur e show ?thesis
      by (auto simp: draw_byte_def setHex_def shown_byte_def word_less_nat_alt word_le_nat_alt Let_def)
  qed
qed

lemma foldE_shown:
  assumes "\<forall>i \<in> set is. f i = Inr (shown_byte memory address (a + i))"
  shows "foldE (\<lambda>i (hexArray, charArray). bindE (f i) (\<lambda>(h, c).
      Inr (hexArray @ h @ (if i = 7 then '' '' else []), charArray @ c))) is (hs, cs)
    = Inr (hs @ fst (shown_bytes memory address a is), cs @ snd (shown_bytes memory address a is))"
  using assms by (induction "is" arbitrary: hs cs) (auto simp: shown_bytes_def split_beta)

lemma unat_line_count:
  assumes "unat address + length memory + 16 < 2 ^ 64"
  shows "unat (hx_lineCount (setHex memory address)) = (unat address + length memory) div 16 + 1 - unat address div 16"
proof -
  have len: "unat (of_nat (length memory) :: u64) = length memory" using assms by (simp add: unat_of_nat take_bit_nat_eq_self)
  have e: "unat (address + of_nat (length memory) + 16) = unat address + length memory + 16"
    using assms len by (simp add: unat_word_ariths)
  have le: "16 * (unat address div 16) \<le> 16 * ((unat address + length memory + 16) div 16)"
    by (simp add: div_le_mono)
  have "unat (getEndAddress address (of_nat (length memory)) - getStartAddress address)
      = 16 * ((unat address + length memory + 16) div 16) - 16 * (unat address div 16)"
    using le by (subst unat_sub) (auto simp: word_le_nat_alt getEndAddress_def getStartAddress_def unat_start_minus e)
  then show ?thesis
    by (simp add: setHex_def getLineCount_def unat_div Let_def flip: right_diff_distrib')
qed

text \<open>
  C33: A line of the memory view within its line count never reads outside the block of memory
  and shows each byte at its address, with dots outside of the block.
\<close>

theorem memory_lines_shown:
  assumes "unat address + length memory + 16 < 2 ^ 64" and "w = setHex memory address" and "line < hx_lineCount w"
  shows "draw_line w line = Inr (shown_bytes memory address (16 * (unat address div 16 + unat line)) [0..<16])
    \<and> (\<forall>a. unat address \<le> a \<and> a < unat address + length memory \<longrightarrow>
        (\<exists>l i. l < unat (hx_lineCount w) \<and> i < 16 \<and> a = 16 * (unat address div 16 + l) + i))"
proof
  let ?n = "16 * (unat address div 16 + unat line)"
  have l: "unat line < (unat address + length memory) div 16 + 1 - unat address div 16"
    using assms unat_line_count [OF assms(1)] by (simp add: word_less_nat_alt)
  then have "unat address div 16 + unat line \<le> (unat address + length memory) div 16" by linarith
  then have "?n \<le> 16 * ((unat address + length memory) div 16)" by (rule mult_le_mono2)
  also have "\<dots> \<le> unat address + length memory" by simp
  finally have n: "?n \<le> unat address + length memory" .
  have st: "unat (getStartAddress address) = 16 * (unat address div 16)" by (simp add: getStartAddress_def unat_start_minus)
  have "16 * unat line < 2 ^ 64" using n assms(1) by (simp add: distrib_left)
  then have "unat (line * 16) = 16 * unat line" by (simp add: unat_word_ariths)
  then have la: "unat (getLineAddress (getStartAddress address) line) = ?n"
    using n assms(1) st by (simp add: getLineAddress_def unat_word_ariths distrib_left)
  have "draw_byte w (line * 16 - (address - getStartAddress address)) (getLineAddress (getStartAddress address) line) i
      = Inr (shown_byte memory address (?n + i))" if "i < 16" for i
    using draw_byte_shown [of address memory "getLineAddress (getStartAddress address) line" i
        "line * 16 - (address - getStartAddress address)"] that assms(1,2) la n
    by (simp add: getLineAddress_def)
  then have "drawLine w (line * 16 - (address - getStartAddress address)) (getLineAddress (getStartAddress address) line)
      = Inr (shown_bytes memory address ?n [0..<16])"
    unfolding drawLine_def by (subst foldE_shown [where memory = memory and address = address and a = ?n]) auto
  then show "draw_line w line = Inr (shown_bytes memory address ?n [0..<16])"
    using assms(2) by (simp add: draw_line_def setHex_def Let_def)
next
  show "\<forall>a. unat address \<le> a \<and> a < unat address + length memory \<longrightarrow>
      (\<exists>l i. l < unat (hx_lineCount w) \<and> i < 16 \<and> a = 16 * (unat address div 16 + l) + i)"
  proof (intro allI impI)
    fix a
    assume a: "unat address \<le> a \<and> a < unat address + length memory"
    then have "a div 16 - unat address div 16 < unat (hx_lineCount w)"
      using assms(2) unat_line_count [OF assms(1)] div_le_mono [of a "unat address + length memory" 16]
        div_le_mono [of "unat address" a 16] by (simp add: less_diff_conv)
    moreover have "a = 16 * (unat address div 16 + (a div 16 - unat address div 16)) + a mod 16"
      using a div_le_mono [of "unat address" a 16] by simp
    ultimately show "\<exists>l i. l < unat (hx_lineCount w) \<and> i < 16 \<and> a = 16 * (unat address div 16 + l) + i"
      by (metis mod_less_divisor zero_less_numeral)
  qed
qed

lemma memory_lines_shown_witness:
  "draw_line (setHex [0x12, 0x41] 0xE) 0
    = Inr ('' .. .. .. .. .. .. .. ..  .. .. .. .. .. .. 12 41'', ''..............'' @ [char_of (0x12 :: nat), CHR ''A''])"
proof -
  have c: "hx_lineCount (setHex [0x12, 0x41] 0xE) = 2"
    by (simp add: setHex_def getLineCount_def getEndAddress_def getStartAddress_def start_word)
  from memory_lines_shown [of "0xE" "[0x12, 0x41]" _ 0, OF _ refl] c
  have "draw_line (setHex [0x12, 0x41] 0xE) 0 = Inr (shown_bytes [0x12, 0x41] 0xE 0 [0..<16])" by simp
  also have "shown_bytes [0x12, 0x41] 0xE 0 [0..<16]
      = ('' .. .. .. .. .. .. .. ..  .. .. .. .. .. .. 12 41'', ''..............'' @ [char_of (0x12 :: nat), CHR ''A''])"
    by code_simp
  finally show ?thesis .
qed

end
