(* ===== verification/CodeViews.thy ===== *)
theory CodeViews
  imports HexViews
begin

text \<open>
  The view of the code of a kernel in the debugger (\<open>debugger/gui/CodeViewer.h\<close>, \<open>CodeViewer.cpp\<close>,
  \<open>debugger/data/InstructionView.h\<close>): the lines with their addresses, the breakpoints that clicks on
  the margin set and remove, and the mark of the current instruction. The editor widget keeps the
  texts of the lines and of the margin and the lines that carry a marker; fonts and colours are left
  out. A listing has fewer lines than an \<open>int\<close> can count.
\<close>

section \<open>The code\<close>

record InstructionLine =
  il_address :: u64
  il_text :: string
  il_isLabel :: bool

record CodeViewer =
  cv_addressMap :: "u64 \<rightharpoonup> nat"
  cv_lineMap :: "nat \<rightharpoonup> u64"
  cv_breakpoints :: "u64 set"
  cv_text :: "string list"
  cv_margin :: "nat \<rightharpoonup> string"
  cv_breakpointMarkers :: "nat set"
  cv_executionMarker :: "nat option"

definition new_code_viewer :: CodeViewer where
  "new_code_viewer = \<lparr>cv_addressMap = Map.empty, cv_lineMap = Map.empty, cv_breakpoints = {}, cv_text = [],
     cv_margin = Map.empty, cv_breakpointMarkers = {}, cv_executionMarker = None\<rparr>"

text \<open>The format \<open>0x%.6llX\<close> of an address.\<close>

fun hex_digits :: "nat \<Rightarrow> string" where
  "hex_digits n = (if n < 16 then [hex_digit n] else hex_digits (n div 16) @ [hex_digit (n mod 16)])"

declare hex_digits.simps [simp del]

definition hex_address :: "u64 \<Rightarrow> string" where
  "hex_address a = (let ds = hex_digits (unat a) in ''0x'' @ replicate (6 - length ds) (CHR ''0'') @ ds)"

definition setAddress :: "nat \<Rightarrow> u64 \<Rightarrow> CodeViewer \<Rightarrow> CodeViewer" where
  "setAddress line a v = v\<lparr>cv_margin := (cv_margin v)(line \<mapsto> hex_address a)\<rparr>"

definition setLabel :: "nat \<Rightarrow> string \<Rightarrow> CodeViewer \<Rightarrow> CodeViewer" where
  "setLabel line name v = v\<lparr>cv_margin := (cv_margin v)(line \<mapsto> name)\<rparr>"

definition set_line :: "nat \<times> InstructionLine \<Rightarrow> CodeViewer \<Rightarrow> CodeViewer" where
  "set_line = (\<lambda>(line, instr) v.
     if il_isLabel instr
     then setLabel line (il_text instr) (v\<lparr>cv_text := cv_text v @ [[]]\<rparr>)
     else (setAddress line (il_address instr) (v\<lparr>cv_text := cv_text v @ [il_text instr]\<rparr>))
       \<lparr>cv_addressMap := (cv_addressMap v)(il_address instr \<mapsto> line), cv_lineMap := (cv_lineMap v)(line \<mapsto> il_address instr)\<rparr>)"

text \<open>The markers of the breakpoints go, the breakpoints stay.\<close>

definition setInstructions :: "InstructionLine list \<Rightarrow> CodeViewer \<Rightarrow> CodeViewer" where
  "setInstructions instructions v =
     fold set_line (enumerate 0 instructions)
       (v\<lparr>cv_addressMap := Map.empty, cv_lineMap := Map.empty, cv_text := [], cv_margin := Map.empty,
         cv_breakpointMarkers := {}, cv_executionMarker := None\<rparr>)"

text \<open>A click on the margin; it tells the address that the window is told to set (False) or remove (True).\<close>

definition setBreakpointMarker :: "nat \<Rightarrow> CodeViewer \<Rightarrow> (u64 \<times> bool) option \<times> CodeViewer" where
  "setBreakpointMarker line v =
     (case cv_lineMap v line of
        None \<Rightarrow> (None, v)
      | Some a \<Rightarrow>
          if a \<in> cv_breakpoints v
          then (Some (a, True), v\<lparr>cv_breakpoints := cv_breakpoints v - {a},
                 cv_breakpointMarkers := cv_breakpointMarkers v - {line}\<rparr>)
          else (Some (a, False), v\<lparr>cv_breakpoints := insert a (cv_breakpoints v),
                 cv_breakpointMarkers := insert line (cv_breakpointMarkers v)\<rparr>))"

definition clearExecutionMarker :: "CodeViewer \<Rightarrow> CodeViewer" where
  "clearExecutionMarker v = v\<lparr>cv_executionMarker := None\<rparr>"

definition setExecutionMarker :: "u64 \<Rightarrow> CodeViewer \<Rightarrow> CodeViewer" where
  "setExecutionMarker a v =
     (case cv_addressMap v a of
        Some line \<Rightarrow> (clearExecutionMarker v)\<lparr>cv_executionMarker := Some line\<rparr>
      | None \<Rightarrow> clearExecutionMarker v)"

section \<open>Lines and addresses\<close>

text \<open>The two maps are inverse to each other when the addresses of the instructions differ.\<close>

definition shows_lines :: "InstructionLine list \<Rightarrow> CodeViewer \<Rightarrow> bool" where
  "shows_lines ls v \<longleftrightarrow>
     (\<forall>i. cv_lineMap v i = (if i < length ls \<and> \<not> il_isLabel (ls ! i) then Some (il_address (ls ! i)) else None))
     \<and> (\<forall>a i. cv_addressMap v a = Some i \<longleftrightarrow> i < length ls \<and> \<not> il_isLabel (ls ! i) \<and> il_address (ls ! i) = a)"

lemma set_lines:
  assumes "distinct (map il_address (filter (\<lambda>l. \<not> il_isLabel l) (ls @ ms)))" and "shows_lines ls v"
  shows "shows_lines (ls @ ms) (fold set_line (enumerate (length ls) ms) v)"
  using assms
proof (induction ms arbitrary: ls v)
  case (Cons m ms)
  have "shows_lines (ls @ [m]) (set_line (length ls, m) v)"
  proof (cases "il_isLabel m")
    case True
    then show ?thesis using Cons.prems(2)
      by (auto simp: shows_lines_def set_line_def setLabel_def nth_append less_Suc_eq split: if_splits)
  next
    case False
    have "il_address (ls ! i) \<noteq> il_address m" if i: "i < length ls" and n: "\<not> il_isLabel (ls ! i)" for i
    proof -
      obtain y where "y = ls ! i" "y \<in> set ls" using nth_mem [OF i] by blast
      then show ?thesis using Cons.prems(1) False n by (auto simp: image_iff)
    qed
    then show ?thesis using Cons.prems(2) False
      by (auto simp: shows_lines_def set_line_def setAddress_def nth_append less_Suc_eq split: if_splits)
  qed
  with Cons.IH [of "ls @ [m]"] Cons.prems(1) show ?case by simp
qed simp

lemma setInstructions_lines:
  assumes "distinct (map il_address (filter (\<lambda>l. \<not> il_isLabel l) ls))"
  shows "shows_lines ls (setInstructions ls v)"
  using set_lines [of "[]" ls] assms by (simp add: setInstructions_def shows_lines_def)

lemma set_line_keeps:
  "cv_breakpoints (set_line l v) = cv_breakpoints v" "cv_breakpointMarkers (set_line l v) = cv_breakpointMarkers v"
  "cv_executionMarker (set_line l v) = cv_executionMarker v"
  by (cases l; simp add: set_line_def setLabel_def setAddress_def)+

lemma setInstructions_keeps [simp]:
  "cv_breakpoints (setInstructions ls v) = cv_breakpoints v" "cv_breakpointMarkers (setInstructions ls v) = {}"
  "cv_executionMarker (setInstructions ls v) = None"
proof -
  have "cv_breakpoints (fold set_line xs u) = cv_breakpoints u \<and> cv_breakpointMarkers (fold set_line xs u) = cv_breakpointMarkers u
      \<and> cv_executionMarker (fold set_line xs u) = cv_executionMarker u" for xs u
    by (induction xs arbitrary: u) (simp_all add: set_line_keeps)
  then show "cv_breakpoints (setInstructions ls v) = cv_breakpoints v" "cv_breakpointMarkers (setInstructions ls v) = {}"
    "cv_executionMarker (setInstructions ls v) = None"
    by (simp_all add: setInstructions_def)
qed

end
