(* ===== verification/Debuggers.thy ===== *)
theory Debuggers
  imports Executors KernelParserProps Ipcs CodeViews
begin

text \<open>
  The debugger's own side (\<open>debugger/Debugger.h\<close>, \<open>Debugger.cpp\<close>) with what it shows
  (\<open>debugger/gui/EmulatorApp.cpp\<close>, \<open>MainFrame.cpp\<close>, \<open>RegistersTable.cpp\<close>): kernels that arrive in
  requests, the thread that runs the selected one, the messages to and from it, and the state of the
  tools and panels of the window.

  The outgoing channel of the debugger is the incoming one of the emulator. An operation that has to
  wait, for room in the channel or for the thread of a kernel, ends with \<open>Waits_forever\<close> in the state
  in which it waits; the emulator, which could let it go on, is not part of this theory. A tool that
  is not in the toolbar cannot be enabled. Status texts are kept as strings.
\<close>

section \<open>The window\<close>

datatype Tool = ATTACH_TOOL | PAUSE_TOOL | RESUME_TOOL | STEP_TOOL | STOP_TOOL

record Parameter =
  pm_name :: string
  pm_value :: string

record MainFrame =
  mf_tools :: "Tool \<rightharpoonup> bool"
  mf_kernelListEnabled :: bool
  mf_memoryPanelEnabled :: bool
  mf_status0 :: string
  mf_status1 :: string
  mf_kernelList :: "string list"
  mf_selection :: u32
  mf_parameters :: "Parameter list"
  mf_code :: CodeViewer
  mf_hex :: HexScrollWindow
  mf_stateRegisters :: "(string \<times> u64) list"
  mf_scalarRegisters :: "(string \<times> u64) list"
  mf_vectorRegisters :: "(string \<times> u64) list"
  mf_choiceWF :: "string list \<times> u32"
  mf_choiceWIX :: "string list \<times> u32"
  mf_choiceWIY :: "string list \<times> u32"
  mf_choiceWIZ :: "string list \<times> u32"

text \<open>The toolbar has no tool for a pause.\<close>

definition new_frame :: MainFrame where
  "new_frame = \<lparr>mf_tools = [ATTACH_TOOL \<mapsto> True, RESUME_TOOL \<mapsto> True, STEP_TOOL \<mapsto> True, STOP_TOOL \<mapsto> True],
     mf_kernelListEnabled = True, mf_memoryPanelEnabled = True, mf_status0 = [], mf_status1 = [],
     mf_kernelList = [], mf_selection = - 1, mf_parameters = [], mf_code = new_code_viewer, mf_hex = setHex [] 0,
     mf_stateRegisters = [], mf_scalarRegisters = [], mf_vectorRegisters = [],
     mf_choiceWF = ([], - 1), mf_choiceWIX = ([], - 1), mf_choiceWIY = ([], - 1), mf_choiceWIZ = ([], - 1)\<rparr>"

definition enableTool :: "Tool \<Rightarrow> bool \<Rightarrow> MainFrame \<Rightarrow> MainFrame" where
  "enableTool tool b f =
     (if tool \<in> dom (mf_tools f) then f\<lparr>mf_tools := (mf_tools f)(tool \<mapsto> b)\<rparr> else f)"

definition enable_tools :: "bool \<Rightarrow> bool \<Rightarrow> bool \<Rightarrow> bool \<Rightarrow> bool \<Rightarrow> MainFrame \<Rightarrow> MainFrame" where
  "enable_tools attach pause resume single stop =
     enableTool STOP_TOOL stop \<circ> enableTool STEP_TOOL single \<circ> enableTool RESUME_TOOL resume
       \<circ> enableTool PAUSE_TOOL pause \<circ> enableTool ATTACH_TOOL attach"

definition enableKernelList :: "bool \<Rightarrow> MainFrame \<Rightarrow> MainFrame" where
  "enableKernelList b f = f\<lparr>mf_kernelListEnabled := b\<rparr>"

definition enableMemoryPanel :: "bool \<Rightarrow> MainFrame \<Rightarrow> MainFrame" where
  "enableMemoryPanel b f = f\<lparr>mf_memoryPanelEnabled := b\<rparr>"

definition set_status :: "string \<Rightarrow> string \<Rightarrow> MainFrame \<Rightarrow> MainFrame" where
  "set_status s0 s1 f = f\<lparr>mf_status0 := s0, mf_status1 := s1\<rparr>"

definition startExecution :: "MainFrame \<Rightarrow> MainFrame" where
  "startExecution f =
     set_status ''Waiting for kernel'' [] (enableMemoryPanel False (enableKernelList False
       (enable_tools False True False False True f)))"

text \<open>A signed integer in decimal, as \<open>std::to_string\<close> and the streams print it.\<close>

definition show_int :: "u32 \<Rightarrow> string" where
  "show_int n = (if sint n < 0 then ''-'' @ show_nat (nat (- sint n)) else show_nat (nat (sint n)))"

text \<open>The counters of the loops are unsigned, a negative number is read as a large one.\<close>

definition choices :: "string \<Rightarrow> u32 \<Rightarrow> string list" where
  "choices prefix n = map (\<lambda>i. prefix @ show_nat i) [0..<unat (sx64 n)]"

definition setExecutionContext :: "ExecutionContext \<Rightarrow> MainFrame \<Rightarrow> MainFrame" where
  "setExecutionContext ctx f = f\<lparr>
     mf_choiceWF := (choices ''Wavefront '' (ei_wfSize (ec_info ctx)), ec_wavefrontId ctx),
     mf_choiceWIX := (choices [] (ei_sizeX (ec_info ctx)), ec_workItemX ctx),
     mf_choiceWIY := (choices [] (ei_sizeY (ec_info ctx)), ec_workItemY ctx),
     mf_choiceWIZ := (choices [] (ei_sizeZ (ec_info ctx)), ec_workItemZ ctx)\<rparr>"

definition app_pauseExecution :: "ExecutionContext \<Rightarrow> MainFrame \<Rightarrow> MainFrame" where
  "app_pauseExecution ctx f =
     set_status (''Paused at address: '' @ hex_address (ec_address ctx)) (''Wavefront: '' @ show_int (ec_wavefrontId ctx))
       (setExecutionContext ctx ((enableMemoryPanel True (enable_tools False False True True True f))
         \<lparr>mf_code := setExecutionMarker (ec_address ctx) (mf_code f)\<rparr>))"

definition stopExecution :: "MainFrame \<Rightarrow> MainFrame" where
  "stopExecution f =
     set_status ''Execution has stopped'' [] ((enableMemoryPanel True (enableKernelList True
       (enable_tools True False False False False f)))\<lparr>mf_code := clearExecutionMarker (mf_code f)\<rparr>)"

definition setException :: "string \<Rightarrow> MainFrame \<Rightarrow> MainFrame" where
  "setException what f =
     set_status ''Exception encountered'' what ((enableMemoryPanel True (enableKernelList True
       (enable_tools True False False False False f)))\<lparr>mf_code := clearExecutionMarker (mf_code f)\<rparr>)"

definition setKernelList :: "string list \<Rightarrow> u32 \<Rightarrow> MainFrame \<Rightarrow> MainFrame" where
  "setKernelList kernels currentIdx f = f\<lparr>mf_kernelList := kernels, mf_selection := currentIdx\<rparr>"

definition setKernelParameters :: "Parameter list \<Rightarrow> MainFrame \<Rightarrow> MainFrame" where
  "setKernelParameters parameters f = f\<lparr>mf_parameters := parameters\<rparr>"

definition frame_setInstructions :: "InstructionLine list \<Rightarrow> MainFrame \<Rightarrow> MainFrame" where
  "frame_setInstructions instructions f = f\<lparr>mf_code := setInstructions instructions (mf_code f)\<rparr>"

definition setMemoryView :: "u8 list \<Rightarrow> u64 \<Rightarrow> MainFrame \<Rightarrow> MainFrame" where
  "setMemoryView memory address f = f\<lparr>mf_hex := setHex memory address\<rparr>"

text \<open>The rows of the table of registers.\<close>

definition register_rows :: "string \<Rightarrow> u32 list \<Rightarrow> (string \<times> u64) list" where
  "register_rows prefix vs = map (\<lambda>i. (prefix @ show_nat i, to_u64 (vs ! i))) [0..<length vs]"

definition updateValues :: "RegData \<Rightarrow> MainFrame \<Rightarrow> MainFrame" where
  "updateValues data f = f\<lparr>
     mf_stateRegisters := [(''reladdr'', rd_RELADDR data), (''exec'', rd_EXEC data), (''vcc'', rd_VCC data),
       (''m0'', to_u64 (rd_M0 data)), (''simm16'', to_u64 (rd_SIMM16 data)), (''scc'', of_bool (rd_SCC data))],
     mf_scalarRegisters := register_rows ''s'' (rd_sFile data),
     mf_vectorRegisters := register_rows ''v'' (rd_vFile data)\<rparr>"

section \<open>The debugger\<close>

text \<open>The thread that runs a kernel, and whether it has ended.\<close>

record EmulatorThread =
  th_kernel :: nat
  th_ended :: bool

record Debugger =
  db_app :: MainFrame
  db_programs :: "Kernel list"
  db_breakpointStorage :: BreakpointStorage
  db_currentKernelIdx :: u32
  db_hasKernelRuntime :: bool
  db_currentExecutionContext :: ExecutionContext
  db_outMessageChannel :: "DebuggerMessage Channel"
  db_inMessageChannel :: "DebuggerMessage Channel"
  db_emulatorThread :: "EmulatorThread option"

abbreviation KERNEL_SELECT_NONE :: u32 where "KERNEL_SELECT_NONE \<equiv> - 1"

definition no_context :: ExecutionContext where
  "no_context = \<lparr>ec_wavefrontId = 0, ec_workItemX = 0, ec_workItemY = 0, ec_workItemZ = 0, ec_address = 0,
     ec_info = \<lparr>ei_wfSize = 0, ei_sizeX = 0, ei_sizeY = 0, ei_sizeZ = 0\<rparr>\<rparr>"

definition new_debugger :: Debugger where
  "new_debugger = \<lparr>db_app = stopExecution new_frame, db_programs = [], db_breakpointStorage = new_breakpoints,
     db_currentKernelIdx = KERNEL_SELECT_NONE, db_hasKernelRuntime = False, db_currentExecutionContext = no_context,
     db_outMessageChannel = new_channel, db_inMessageChannel = new_channel, db_emulatorThread = None\<rparr>"

definition on_app :: "(MainFrame \<Rightarrow> MainFrame) \<Rightarrow> (Debugger, unit) M" where
  "on_app f = modifyM (\<lambda>d. d\<lparr>db_app := f (db_app d)\<rparr>)"

definition when_running :: "(Debugger, unit) M \<Rightarrow> (Debugger, unit) M" where
  "when_running m d = (if \<not> db_hasKernelRuntime d then retM () d else m d)"

definition write_out :: "DebuggerMessage \<Rightarrow> (Debugger, unit) M" where
  "write_out m d =
     (case ch_write m (db_outMessageChannel d) of
        None \<Rightarrow> (Inl Waits_forever, d)
      | Some (_, c) \<Rightarrow> (Inr (), d\<lparr>db_outMessageChannel := c\<rparr>))"

definition onSetBreakpoint :: "u64 \<Rightarrow> (Debugger, unit) M" where
  "onSetBreakpoint address =
     (let bp = global_breakpoint (to_u32 address)
      in bindM (modifyM (\<lambda>d. d\<lparr>db_breakpointStorage := addBreakpoint bp (db_breakpointStorage d)\<rparr>)) (\<lambda>_.
         when_running (write_out (SetBreakpoint bp False))))"

definition onRemoveBreakpoint :: "u64 \<Rightarrow> (Debugger, unit) M" where
  "onRemoveBreakpoint address =
     (let bp = global_breakpoint (to_u32 address)
      in bindM (modifyM (\<lambda>d. d\<lparr>db_breakpointStorage := removeBreakpoint bp (db_breakpointStorage d)\<rparr>)) (\<lambda>_.
         when_running (write_out (SetBreakpoint bp True))))"

definition requestRegisters :: "ExecutionContext \<Rightarrow> (Debugger, unit) M" where
  "requestRegisters ctx = when_running (write_out (RequestRegisters ctx))"

definition changeExecutionContext :: "ExecutionContext \<Rightarrow> (Debugger, unit) M" where
  "changeExecutionContext ctx =
     bindM (modifyM (\<lambda>d. d\<lparr>db_currentExecutionContext := ctx\<rparr>)) (\<lambda>_. requestRegisters ctx)"

definition onSelectExecutionContext :: "ExecutionContext \<Rightarrow> (Debugger, unit) M" where
  "onSelectExecutionContext ctx = changeExecutionContext ctx"

definition pauseExecution :: "ExecutionContext \<Rightarrow> (Debugger, unit) M" where
  "pauseExecution ctx = bindM (changeExecutionContext ctx) (\<lambda>_. on_app (app_pauseExecution ctx))"

definition onResume :: "(Debugger, unit) M" where
  "onResume = when_running (bindM (write_out (Run False)) (\<lambda>_. on_app startExecution))"

definition onStep :: "(Debugger, unit) M" where
  "onStep = when_running (bindM (write_out (Run True)) (\<lambda>_. on_app startExecution))"

definition onStop :: "(Debugger, unit) M" where
  "onStop = when_running (write_out Stop)"

definition onRequestMemory :: "u64 \<Rightarrow> (Debugger, unit) M" where
  "onRequestMemory address = when_running (write_out (RequestMemory address))"

text \<open>The address field of the memory panel.\<close>

definition frame_onRequestMemory :: "string \<Rightarrow> (Debugger, unit) M" where
  "frame_onRequestMemory hexString =
     bindM (liftM (\<lambda>_. stoul_base 16 (if hexString = [] then ''0'' else hexString))) onRequestMemory"

text \<open>A click on the margin of the code (\<open>CodeViewer::OnMarginClick\<close>); the window and the application pass it on.\<close>

definition OnMarginClick :: "nat \<Rightarrow> (Debugger, unit) M" where
  "OnMarginClick line d =
     (let (told, v) = setBreakpointMarker line (mf_code (db_app d));
          d = d\<lparr>db_app := (db_app d)\<lparr>mf_code := v\<rparr>\<rparr>
      in case told of
           None \<Rightarrow> retM () d
         | Some (address, removed) \<Rightarrow> (if removed then onRemoveBreakpoint address else onSetBreakpoint address) d)"

section \<open>Kernels\<close>

text \<open>The elements but the last go through an \<open>ostream_iterator\<close> of \<open>int\<close>.\<close>

definition vec_to_str :: "u64 list \<Rightarrow> string" where
  "vec_to_str vec =
     (if vec = [] then []
      else concat (map (\<lambda>n. show_int (to_u32 n) @ '','') (butlast vec)) @ show_nat (unat (last vec)))"

definition kernel_parameters :: "KernelConfig \<Rightarrow> Parameter list" where
  "kernel_parameters config =
     [\<lparr>pm_name = ''dims'', pm_value = show_nat (unat (cfg_dims config))\<rparr>]
     @ concat (map (\<lambda>(name, vec). if vec = [] then [] else [\<lparr>pm_name = name, pm_value = vec_to_str vec\<rparr>])
         [(''globalWorkOffset'', cfg_globalWorkOffset config), (''globalWorkSize'', cfg_globalWorkSize config),
          (''localWorkSize'', cfg_localWorkSize config)])
     @ [\<lparr>pm_name = ''sgprsnum'', pm_value = show_nat (unat (cfg_sgprsnum config))\<rparr>,
        \<lparr>pm_name = ''vgprsnum'', pm_value = show_nat (unat (cfg_vgprsnum config))\<rparr>,
        \<lparr>pm_name = ''pgmrsrc2'', pm_value = show_nat (unat (cfg_pgmrsrc2 config))\<rparr>,
        \<lparr>pm_name = ''priority'', pm_value = show_nat (unat (cfg_priority config))\<rparr>]
     @ concat (map (\<lambda>(name, b). if b then [\<lparr>pm_name = name, pm_value = ''true''\<rparr>] else [])
         [(''dx10clamp'', cfg_dx10clamp config), (''ieeemode'', cfg_ieeemode config), (''useargs'', cfg_useargs config),
          (''usesetup'', cfg_usesetup config), (''usegeneric'', cfg_usegeneric config)])"

text \<open>The instructions and labels in the order of their addresses, a label before its instruction.\<close>

definition code_lines :: "KernelCode \<Rightarrow> InstructionLine list" where
  "code_lines kc =
     concat (map (\<lambda>a.
       (case kc_labels kc a of None \<Rightarrow> [] | Some l \<Rightarrow> [\<lparr>il_address = a, il_text = lb_name l, il_isLabel = True\<rparr>])
       @ (case kc_code kc a of None \<Rightarrow> [] | Some i \<Rightarrow> [\<lparr>il_address = a, il_text = in_originalLine i, il_isLabel = False\<rparr>]))
       (sorted_list_of_set (dom (kc_code kc) \<union> dom (kc_labels kc))))"

text \<open>The index is converted to an unsigned one of 64 bits.\<close>

definition kernel_at :: "u32 \<Rightarrow> Debugger \<Rightarrow> Kernel result" where
  "kernel_at kernelIdx d = at_index (db_programs d) (unat (sx64 kernelIdx))"

definition selectKernel :: "u32 \<Rightarrow> (Debugger, unit) M" where
  "selectKernel kernelIdx =
     bindM (modifyM (\<lambda>d. d\<lparr>db_currentKernelIdx := kernelIdx\<rparr>)) (\<lambda>_.
     bindM (modifyM (\<lambda>d. d\<lparr>db_app := setKernelList (map kn_name (db_programs d)) kernelIdx (db_app d)\<rparr>)) (\<lambda>_.
     if kernelIdx = KERNEL_SELECT_NONE then retM ()
     else bindM (liftM (kernel_at kernelIdx)) (\<lambda>krn.
          bindM (on_app (frame_setInstructions (code_lines (kn_code krn)))) (\<lambda>_.
          on_app (setKernelParameters (kernel_parameters (kn_config krn)))))))"

definition addKernel :: "Kernel \<Rightarrow> (Debugger, unit) M" where
  "addKernel krn =
     bindM (modifyM (\<lambda>d. d\<lparr>db_programs := db_programs d @ [krn]\<rparr>)) (\<lambda>_ d.
     selectKernel (db_currentKernelIdx d) d)"

definition onSelectKernel :: "u64 \<Rightarrow> (Debugger, unit) M" where
  "onSelectKernel index d =
     (if index = sx64 (db_currentKernelIdx d) then retM () d else selectKernel (to_u32 index) d)"

definition onKernelSelected :: "u32 \<Rightarrow> (Debugger, unit) M" where
  "onKernelSelected selection = onSelectKernel (sx64 selection)"

definition argument_store :: "ArgumentProto \<Rightarrow> KernelArgumentStore" where
  "argument_store a = \<lparr>ka_name = pr_argName a, ka_kind = (if pr_kind a = POINTER_ARG then POINTER else SCALAR),
     ka_size = to_u64 (pr_size a), ka_readPermission = pr_readPermission a, ka_writePermission = pr_writePermission a,
     ka_data = Some (pr_data a), ka_output = None\<rparr>"

text \<open>
  What the debugger makes of a request. The configuration starts with a priority that the code
  leaves undefined: \<open>priority0\<close>.
\<close>

definition kernel_of_proto :: "u8 \<Rightarrow> KernelProto \<Rightarrow> Kernel result" where
  "kernel_of_proto priority0 k =
     bindE (parseKernelCode (pr_instructions k)) (\<lambda>code.
     bindE (parseKernelConfig priority0 (pr_dims (pr_config k)) (pr_globalWorkOffset (pr_config k))
       (pr_globalWorkSize (pr_config k)) (pr_localWorkSize (pr_config k)) (pr_parameters (pr_config k))) (\<lambda>config. Inr
       \<lparr>kn_name = pr_name k, kn_code = code, kn_config = config, kn_arguments = map argument_store (pr_args k)\<rparr>))"

definition receive_kernel :: "u8 \<Rightarrow> ('w \<Rightarrow> KernelRequest) \<Rightarrow> 'w \<Rightarrow> (Debugger, 'w) M" where
  "receive_kernel priority0 parse source =
     bindM (liftM (\<lambda>_. kernel_of_proto priority0 (receiveKernelForExecution parse source))) (\<lambda>krn.
     bindM (addKernel krn) (\<lambda>_. retM source))"

section \<open>Runs\<close>

definition join_thread :: "(Debugger, unit) M" where
  "join_thread d =
     (case db_emulatorThread d of
        Some th \<Rightarrow> if th_ended th then retM () d else (Inl Waits_forever, d)
      | None \<Rightarrow> retM () d)"

definition runKernel :: "(Debugger, unit) M" where
  "runKernel d =
     (if db_currentKernelIdx d = KERNEL_SELECT_NONE then retM () d
      else bindM (modifyM (\<lambda>d. d\<lparr>db_hasKernelRuntime := True\<rparr>)) (\<lambda>_.
           bindM join_thread (\<lambda>_.
           bindM (liftM (kernel_at (db_currentKernelIdx d))) (\<lambda>_.
           modifyM (\<lambda>d. d\<lparr>db_emulatorThread :=
             Some \<lparr>th_kernel = unat (sx64 (db_currentKernelIdx d)), th_ended = False\<rparr>\<rparr>)))) d)"

definition onAttach :: "(Debugger, unit) M" where
  "onAttach d =
     (if db_currentKernelIdx d = KERNEL_SELECT_NONE then retM () d
      else bindM (on_app startExecution) (\<lambda>_. runKernel) d)"

datatype ChoiceId = SELECT_WAVEFRONT | SELECT_WORK_ITEM_X | SELECT_WORK_ITEM_Y | SELECT_WORK_ITEM_Z

definition onWavefrontSelected :: "ChoiceId \<Rightarrow> u32 \<Rightarrow> (Debugger, unit) M" where
  "onWavefrontSelected c selection d =
     (let ctx = db_currentExecutionContext d
      in onSelectExecutionContext (case c of
           SELECT_WAVEFRONT \<Rightarrow> ctx\<lparr>ec_wavefrontId := selection\<rparr>
         | SELECT_WORK_ITEM_X \<Rightarrow> ctx\<lparr>ec_workItemX := selection\<rparr>
         | SELECT_WORK_ITEM_Y \<Rightarrow> ctx\<lparr>ec_workItemY := selection\<rparr>
         | SELECT_WORK_ITEM_Z \<Rightarrow> ctx\<lparr>ec_workItemZ := selection\<rparr>) d)"

fun process_message :: "DebuggerMessage \<Rightarrow> (Debugger, unit) M" where
  "process_message OnStop = on_app stopExecution"
| "process_message (OnPause ctx) = pauseExecution ctx"
| "process_message (OnRespondMemory address memory) = on_app (setMemoryView memory address)"
| "process_message (OnRespondRegisters data) = on_app (updateValues data)"
| "process_message (OnException what) = on_app (setException what)"
| "process_message _ = throwM (Runtime_error ''unknown message type'')"

text \<open>One turn of the loop over the messages of the kernel, for a channel that is not exhausted.\<close>

definition reader_turn :: "(Debugger, unit) M" where
  "reader_turn d =
     (case ch_read (db_inMessageChannel d) of
        None \<Rightarrow> (Inl Waits_forever, d)
      | Some (r, c) \<Rightarrow> bindM (liftM (\<lambda>_. r)) (\<lambda>msg.
          case msg of None \<Rightarrow> retM () | Some m \<Rightarrow> process_message m) (d\<lparr>db_inMessageChannel := c\<rparr>))"

text \<open>
  The loop ends because a turn empties the channel and writes only to the other one: \<open>reader_rounds\<close>
  counts the messages that are left.
\<close>

definition reader_rounds :: "Debugger \<Rightarrow> nat" where
  "reader_rounds d = (if ch_isEmpty (db_inMessageChannel d) then 0 else 1)"

named_theorems debugger_simps "the operations of the debugger, as functions of its state"

lemmas [debugger_simps] = on_app_def when_running_def write_out_def modifyM_def bindM_def retM_def liftM_def throwM_def

lemma write_out_in: "db_inMessageChannel (snd (write_out m d)) = db_inMessageChannel d"
  by (simp add: write_out_def split: option.splits)

lemma process_message_in: "db_inMessageChannel (snd (process_message m d)) = db_inMessageChannel d"
  by (cases m) (auto simp: debugger_simps pauseExecution_def changeExecutionContext_def requestRegisters_def
      split: option.splits prod.splits sum.splits)

lemma reader_turn_rounds:
  assumes "reader_turn d = (Inr (), e)" and "\<not> ch_isExhausted (db_inMessageChannel d)"
  shows "reader_rounds e < reader_rounds d"
proof -
  obtain r c where read: "ch_read (db_inMessageChannel d) = Some (r, c)"
    using assms(1) by (auto simp: reader_turn_def split: option.splits)
  then obtain m where "r = Inr m" using assms(1) by (cases r) (auto simp: reader_turn_def debugger_simps)
  then have "ch_isEmpty c" "\<not> ch_isEmpty (db_inMessageChannel d)"
    using read assms(2) by (auto simp: ch_read_def take_value_def ch_isExhausted_def split: if_splits option.splits)
  moreover have "db_inMessageChannel e = c"
  proof (cases m)
    case (Some m')
    then have "process_message m' (d\<lparr>db_inMessageChannel := c\<rparr>) = (Inr (), e)"
      using assms(1) read \<open>r = Inr m\<close> by (simp add: reader_turn_def debugger_simps)
    with process_message_in [of m' "d\<lparr>db_inMessageChannel := c\<rparr>"] show ?thesis by simp
  qed (use assms(1) read \<open>r = Inr m\<close> in \<open>auto simp: reader_turn_def debugger_simps\<close>)
  ultimately show ?thesis by (simp add: reader_rounds_def)
qed

function processDebuggerMessages :: "(Debugger, unit) M" where
  "processDebuggerMessages d =
     (if ch_isExhausted (db_inMessageChannel d) then retM () d
      else case reader_turn d of
        (Inl e, d) \<Rightarrow> (Inl e, d)
      | (Inr (), d) \<Rightarrow> processDebuggerMessages d)"
  by pat_completeness auto

termination
  by (relation "measure reader_rounds") (auto intro: reader_turn_rounds [OF sym])

declare processDebuggerMessages.simps [simp del]

text \<open>The end of the debugger: it waits for the kernel, then for the reader of the messages.\<close>

definition destroy_debugger :: "(Debugger, unit) M" where
  "destroy_debugger =
     bindM join_thread (\<lambda>_.
     bindM (modifyM (\<lambda>d. d\<lparr>db_inMessageChannel := ch_close (db_inMessageChannel d),
       db_outMessageChannel := ch_close (db_outMessageChannel d)\<rparr>)) (\<lambda>_.
     processDebuggerMessages))"

section \<open>Events\<close>

text \<open>
  What happens to the debugger, one event at a time: requests, the commands of the user, and the
  steps of the emulator on the two channels. \<open>EmulatorApp::bindEvents\<close> binds the choices of the
  wavefront and of the first index only.
\<close>

datatype 'w Event =
  Kernel_arrives 'w
| Kernel_selected u32
| Attach_clicked
| Resume_clicked
| Step_clicked
| Stop_clicked
| Margin_clicked nat
| Memory_requested string
| Choice_made ChoiceId u32
| Emulator_writes DebuggerMessage
| Emulator_reads
| Reader_turn
| Thread_ends

definition bound_choice :: "ChoiceId \<Rightarrow> bool" where
  "bound_choice c \<longleftrightarrow> c \<in> {SELECT_WAVEFRONT, SELECT_WORK_ITEM_X}"

fun handle_event :: "u8 \<Rightarrow> ('w \<Rightarrow> KernelRequest) \<Rightarrow> 'w Event \<Rightarrow> (Debugger, unit) M" where
  "handle_event p0 parse (Kernel_arrives w) = bindM (receive_kernel p0 parse w) (\<lambda>_. retM ())"
| "handle_event p0 parse (Kernel_selected i) = onKernelSelected i"
| "handle_event p0 parse Attach_clicked = onAttach"
| "handle_event p0 parse Resume_clicked = onResume"
| "handle_event p0 parse Step_clicked = onStep"
| "handle_event p0 parse Stop_clicked = onStop"
| "handle_event p0 parse (Margin_clicked line) = OnMarginClick line"
| "handle_event p0 parse (Memory_requested hexString) = frame_onRequestMemory hexString"
| "handle_event p0 parse (Choice_made c i) = (if bound_choice c then onWavefrontSelected c i else retM ())"
| "handle_event p0 parse (Emulator_writes m) = modifyM (\<lambda>d.
     case ch_write m (db_inMessageChannel d) of None \<Rightarrow> d | Some (_, c) \<Rightarrow> d\<lparr>db_inMessageChannel := c\<rparr>)"
| "handle_event p0 parse Emulator_reads = modifyM (\<lambda>d.
     d\<lparr>db_outMessageChannel := snd (ch_tryRead (db_outMessageChannel d))\<rparr>)"
| "handle_event p0 parse Reader_turn = reader_turn"
| "handle_event p0 parse Thread_ends = modifyM (\<lambda>d.
     d\<lparr>db_emulatorThread := map_option (\<lambda>th. th\<lparr>th_ended := True\<rparr>) (db_emulatorThread d)\<rparr>)"

end
