(* ===== verification/DebuggerProps.thy ===== *)
theory DebuggerProps
  imports Debuggers KernelListings
begin

text \<open>
  What the debugger does with a kernel: a request that has arrived gives the kernel it describes, a
  pause marks the instruction it happened at, and the breakpoints of the view and of the storage
  agree. The last section holds what goes wrong when a kernel has ended.
\<close>

section \<open>Code from a listing\<close>

definition code_ok :: "KernelCode \<Rightarrow> bool" where
  "code_ok kc \<longleftrightarrow> finite (dom (kc_code kc)) \<and> finite (dom (kc_labels kc)) \<and> (\<forall>a \<in> dom (kc_code kc). a < 2 ^ 32)"

lemma to_u64_bound: "to_u64 (x :: u32) < 4294967296"
proof -
  have "unat x < 2 ^ 64" by (rule less_le_trans [OF unsigned_less]) simp
  then have "unat (to_u64 x) = unat x" by (simp add: unsigned_ucast_eq take_bit_nat_eq_self)
  then show ?thesis using unsigned_less [of x, where ?'a = nat] by (simp add: word_less_nat_alt)
qed

lemma code_ok_add_instr: "code_ok kc \<Longrightarrow> add_instr addr instr line args kc = Inr kc' \<Longrightarrow> code_ok kc'"
  by (auto simp: add_instr_def code_ok_def result_simps to_u64_bound split: if_splits)

lemma code_ok_set_width: "code_ok kc \<Longrightarrow> set_width_at addr width kc = Inr (i, kc') \<Longrightarrow> code_ok kc'"
  by (auto simp: set_width_at_def get_instr_def code_ok_def result_simps split: if_splits option.splits)

lemma code_ok_parse_line:
  assumes "code_ok kc" and "parse_line instr (kc, prev) = Inr (kc', prev')"
  shows "code_ok kc'"
proof (cases "is_label instr")
  case True
  with assms show ?thesis by (auto simp: parse_line_def result_simps add_label_def code_ok_def)
next
  case False
  with assms show ?thesis
    by (auto simp: parse_line_def parse_instruction_def result_simps Let_def
        intro: code_ok_add_instr code_ok_set_width split: if_splits prod.splits)
qed

lemma code_ok_parseKernelCode:
  assumes "parseKernelCode instructions = Inr kc"
  shows "code_ok kc"
proof -
  obtain kc' prev i where parsed: "foldE parse_line instructions (new_code, - 1) = Inr (kc', prev)"
    "set_width_at prev 4 kc' = Inr (i, kc)"
    using assms by (auto simp: parseKernelCode_def result_simps split: if_splits)
  have "code_ok (fst (kc', prev))"
  proof (rule foldE_invariant [where P = "\<lambda>s. code_ok (fst s)", OF parsed(1)])
    show "code_ok (fst (new_code, - 1 :: u32))" by (simp add: code_ok_def new_code_def)
  next
    fix x s t
    assume "code_ok (fst s)" "parse_line x s = Inr t"
    then show "code_ok (fst t)" by (cases s; cases t) (auto intro: code_ok_parse_line)
  qed
  with parsed(2) show ?thesis by (auto intro: code_ok_set_width)
qed

section \<open>The lines of the code\<close>

definition lines_at :: "KernelCode \<Rightarrow> u64 \<Rightarrow> InstructionLine list" where
  "lines_at kc a =
     (case kc_labels kc a of None \<Rightarrow> [] | Some l \<Rightarrow> [\<lparr>il_address = a, il_text = lb_name l, il_isLabel = True\<rparr>])
     @ (case kc_code kc a of None \<Rightarrow> [] | Some i \<Rightarrow> [\<lparr>il_address = a, il_text = in_originalLine i, il_isLabel = False\<rparr>])"

lemma code_lines_at: "code_lines kc = concat (map (lines_at kc) (sorted_list_of_set (dom (kc_code kc) \<union> dom (kc_labels kc))))"
  by (simp add: code_lines_def lines_at_def [abs_def])

lemma instruction_lines_at:
  "map il_address (filter (\<lambda>l. \<not> il_isLabel l) (concat (map (lines_at kc) as))) = filter (\<lambda>a. kc_code kc a \<noteq> None) as"
  by (induction as) (simp_all add: lines_at_def split: option.splits)

lemma code_lines_distinct: "distinct (map il_address (filter (\<lambda>l. \<not> il_isLabel l) (code_lines kc)))"
  unfolding code_lines_at instruction_lines_at by (intro distinct_filter distinct_sorted_list_of_set)

lemma code_lines_instruction:
  assumes "code_ok kc" and "kc_code kc a = Some i"
  shows "\<lparr>il_address = a, il_text = in_originalLine i, il_isLabel = False\<rparr> \<in> set (code_lines kc)"
proof -
  have "a \<in> dom (kc_code kc) \<union> dom (kc_labels kc)" using assms(2) by blast
  then have "a \<in> set (sorted_list_of_set (dom (kc_code kc) \<union> dom (kc_labels kc)))"
    using assms(1) by (subst set_sorted_list_of_set) (auto simp: code_ok_def)
  moreover have "\<lparr>il_address = a, il_text = in_originalLine i, il_isLabel = False\<rparr> \<in> set (lines_at kc a)"
    using assms(2) by (simp add: lines_at_def)
  ultimately show ?thesis unfolding code_lines_at by auto
qed

lemma code_lines_bound:
  assumes "code_ok kc" and "l \<in> set (code_lines kc)" and "\<not> il_isLabel l"
  shows "il_address l < 2 ^ 32"
proof -
  obtain a where "l \<in> set (lines_at kc a)" using assms(2) by (auto simp: code_lines_at)
  with assms(3) have "il_address l = a \<and> a \<in> dom (kc_code kc)"
    by (cases "kc_code kc a"; cases "kc_labels kc a") (auto simp: lines_at_def)
  with assms(1) show ?thesis by (auto simp: code_ok_def)
qed

lemma set_lines_text:
  "cv_text (fold set_line ls v) = cv_text v @ map (\<lambda>(_, l). if il_isLabel l then [] else il_text l) ls"
  by (induction ls arbitrary: v) (auto simp: set_line_def setLabel_def setAddress_def)

lemma setInstructions_text:
  "cv_text (setInstructions ls v) = map (\<lambda>l. if il_isLabel l then [] else il_text l) ls"
proof -
  have "map (\<lambda>(_, l). f l) (enumerate n ls) = map f ls" for f :: "InstructionLine \<Rightarrow> string" and n
    by (induction ls arbitrary: n) simp_all
  then show ?thesis by (simp add: setInstructions_def set_lines_text)
qed

section \<open>Selecting a kernel\<close>

text \<open>The window after a kernel is shown.\<close>

definition show_kernel :: "Kernel \<Rightarrow> MainFrame \<Rightarrow> MainFrame" where
  "show_kernel krn f = setKernelParameters (kernel_parameters (kn_config krn)) (frame_setInstructions (code_lines (kn_code krn)) f)"

lemma selectKernel_shows:
  assumes "kernel_at i d = Inr krn" and "i \<noteq> KERNEL_SELECT_NONE"
  shows "selectKernel i d = (Inr (), d\<lparr>db_currentKernelIdx := i,
    db_app := show_kernel krn (setKernelList (map kn_name (db_programs d)) i (db_app d))\<rparr>)"
  using assms by (simp add: selectKernel_def debugger_simps kernel_at_def show_kernel_def)

lemma selectKernel_none:
  "selectKernel KERNEL_SELECT_NONE d = (Inr (), d\<lparr>db_currentKernelIdx := KERNEL_SELECT_NONE,
    db_app := setKernelList (map kn_name (db_programs d)) KERNEL_SELECT_NONE (db_app d)\<rparr>)"
  by (simp add: selectKernel_def debugger_simps)

definition selection_ok :: "Debugger \<Rightarrow> bool" where
  "selection_ok d \<longleftrightarrow> db_currentKernelIdx d = KERNEL_SELECT_NONE \<or> unat (sx64 (db_currentKernelIdx d)) < length (db_programs d)"

text \<open>The window after a kernel was added: it shows the selected one, if any, again.\<close>

definition added_app :: "Kernel \<Rightarrow> Debugger \<Rightarrow> MainFrame" where
  "added_app krn d =
     (let f = setKernelList (map kn_name (db_programs d @ [krn])) (db_currentKernelIdx d) (db_app d)
      in if db_currentKernelIdx d = KERNEL_SELECT_NONE then f
         else show_kernel ((db_programs d @ [krn]) ! unat (sx64 (db_currentKernelIdx d))) f)"

lemma added_app_list:
  "mf_kernelList (added_app krn d) = map kn_name (db_programs d) @ [kn_name krn]"
  "mf_selection (added_app krn d) = db_currentKernelIdx d"
  by (simp_all add: added_app_def Let_def show_kernel_def setKernelParameters_def frame_setInstructions_def setKernelList_def)

lemma same_index: "d\<lparr>db_programs := ks, db_currentKernelIdx := db_currentKernelIdx d, db_app := f\<rparr> = d\<lparr>db_programs := ks, db_app := f\<rparr>"
  by (cases d) simp

lemma addKernel_selected:
  assumes "selection_ok d"
  shows "addKernel krn d = (Inr (), d\<lparr>db_programs := db_programs d @ [krn], db_app := added_app krn d\<rparr>)"
proof (cases "db_currentKernelIdx d = KERNEL_SELECT_NONE")
  case True
  with same_index [where d = d] show ?thesis
    by (simp add: addKernel_def bindM_def modifyM_def selectKernel_none added_app_def)
next
  case False
  let ?d = "d\<lparr>db_programs := db_programs d @ [krn]\<rparr>"
  have "kernel_at (db_currentKernelIdx d) ?d = Inr ((db_programs d @ [krn]) ! unat (sx64 (db_currentKernelIdx d)))"
    using assms False by (simp add: selection_ok_def kernel_at_def at_index_def)
  from selectKernel_shows [OF this False] False same_index [where d = d] show ?thesis
    by (simp add: addKernel_def bindM_def modifyM_def added_app_def Let_def)
qed

text \<open>
  A request with sizes below \<open>2 ^ 32\<close> whose listing and configuration parse adds the kernel it
  describes, with the data of its arguments, after those that are there, and its name to the list;
  selection, breakpoints and channels stay. A request that does not parse changes nothing.
\<close>

lemma request_makes_kernel:
  assumes "receiveKernelForExecution parse w = k" and "selection_ok d" and "kernel_of_proto p0 k = Inr krn"
  shows "kn_name krn = pr_name k" and "map ka_data (kn_arguments krn) = map (Some \<circ> pr_data) (pr_args k)"
    and "receive_kernel p0 parse w d = (Inr w, d\<lparr>db_programs := db_programs d @ [krn], db_app := added_app krn d\<rparr>)"
proof -
  show "kn_name krn = pr_name k" "map ka_data (kn_arguments krn) = map (Some \<circ> pr_data) (pr_args k)"
    using assms(3) by (auto simp: kernel_of_proto_def result_simps argument_store_def)
  show "receive_kernel p0 parse w d = (Inr w, d\<lparr>db_programs := db_programs d @ [krn], db_app := added_app krn d\<rparr>)"
    by (simp add: receive_kernel_def assms(1,3) bindM_def liftM_def retM_def addKernel_selected [OF assms(2)])
qed

text \<open>
  C13: A request whose sizes fit into 32 bits and whose listing and configuration parse adds
  the kernel that was sent, with the data of its arguments, behind the others; one that does
  not parse changes nothing.
\<close>

theorem received_kernel_added:
  assumes "\<And>r. parse (serialize r) = r" and "selection_ok d"
    and "\<forall>n \<in> set (pr_globalWorkOffset (pr_config k)) \<union> set (pr_globalWorkSize (pr_config k)) \<union> set (pr_localWorkSize (pr_config k)).
      n < 2 ^ 32"
  shows "case kernel_of_proto p0 k of
      Inl e \<Rightarrow> receive_kernel p0 parse (serialize (set_request k)) d = (Inl e, d)
    | Inr krn \<Rightarrow> kn_name krn = pr_name k \<and> map ka_data (kn_arguments krn) = map (Some \<circ> pr_data) (pr_args k)
        \<and> (\<exists>f. receive_kernel p0 parse (serialize (set_request k)) d
              = (Inr (serialize (set_request k)), d\<lparr>db_programs := db_programs d @ [krn], db_app := f\<rparr>)
            \<and> mf_kernelList f = map kn_name (db_programs d) @ [pr_name k] \<and> mf_selection f = db_currentKernelIdx d)"
proof -
  have same: "receiveKernelForExecution parse (serialize (set_request k)) = k"
    by (rule request_unchanged [of parse serialize k, OF assms(1,3)])
  show ?thesis
  proof (cases "kernel_of_proto p0 k")
    case (Inl e)
    then show ?thesis by (simp add: receive_kernel_def same debugger_simps)
  next
    case (Inr krn)
    from request_makes_kernel [OF same assms(2) this] show ?thesis
      unfolding Inr sum.case using added_app_list [of krn d] by metis
  qed
qed

text \<open>A request with the listing of two instructions and a label.\<close>

definition sample_request :: KernelProto where
  "sample_request = \<lparr>pr_name = ''k'', pr_config = \<lparr>pr_dims = 1, pr_globalWorkOffset = [], pr_globalWorkSize = [64],
      pr_localWorkSize = [64], pr_parameters = [''.sgprsnum 8'', ''.vgprsnum 4'']\<rparr>,
    pr_instructions = map print_line sample_listing, pr_args = []\<rparr>"

lemma sample_code: "\<exists>kc. parseKernelCode (map print_line sample_listing) = Inr kc \<and> get_instr kc 8 = Inr (read_instr (8, ''s_endpgm'', []) 4)"
proof -
  have "wf_listing sample_listing"
    using sample_mnemonics by (simp add: wf_listing_def sample_listing_def isspace_def)
  from printed_listing_read [OF this] show ?thesis
    by (auto simp: sample_listing_def width_of_def less_Suc_eq all_conj_distrib)
qed

lemma sample_config: "\<exists>c. parseKernelConfig 0 1 [] [64] [64] [''.sgprsnum 8'', ''.vgprsnum 4''] = Inr c"
proof -
  have "\<not> isl (parseKernelConfig 0 1 [] [64] [64] [''.sgprsnum 8'', ''.vgprsnum 4''])"
    by code_simp
  then show ?thesis by (cases "parseKernelConfig 0 1 [] [64] [64] [''.sgprsnum 8'', ''.vgprsnum 4'']") simp_all
qed

lemma sample_request_parses: "\<exists>krn. kernel_of_proto 0 sample_request = Inr krn"
  using sample_code sample_config by (auto simp: kernel_of_proto_def sample_request_def)

lemma received_kernel_added_witness:
  "\<exists>d. receive_kernel 0 (\<lambda>r. r) (set_request sample_request) new_debugger = (Inr (set_request sample_request), d)
    \<and> map kn_name (db_programs d) = [''k''] \<and> mf_kernelList (db_app d) = [''k'']"
proof -
  have "selection_ok new_debugger" by (simp add: selection_ok_def new_debugger_def)
  from received_kernel_added [of "\<lambda>r. r" "\<lambda>r. r", OF refl this, of sample_request 0] sample_request_parses
  show ?thesis by (auto simp: sample_request_def new_debugger_def)
qed

section \<open>Breakpoints\<close>

text \<open>
  The breakpoints of the view are those of the storage, whose addresses have 32 bits; the addresses
  of the lines have them too, since those of the code of a listing do.
\<close>

definition breakpoints_ok :: "Debugger \<Rightarrow> bool" where
  "breakpoints_ok d \<longleftrightarrow>
     cv_breakpoints (mf_code (db_app d)) = to_u64 ` globalBreakpoints (db_breakpointStorage d)
     \<and> (\<forall>line a. cv_lineMap (mf_code (db_app d)) line = Some a \<longrightarrow> a < 2 ^ 32)
     \<and> (\<forall>krn \<in> set (db_programs d). code_ok (kn_code krn))"

named_theorems frame_simps "what the window leaves of the view of the code"

definition code_view :: "MainFrame \<Rightarrow> u64 set \<times> (nat \<rightharpoonup> u64)" where
  "code_view f = (cv_breakpoints (mf_code f), cv_lineMap (mf_code f))"

lemma code_view_frame [frame_simps]:
  "code_view (enableTool t b f) = code_view f" "code_view (enableKernelList b f) = code_view f"
  "code_view (enableMemoryPanel b f) = code_view f" "code_view (set_status s0 s1 f) = code_view f"
  "code_view (setExecutionContext ctx f) = code_view f" "code_view (setKernelList ks i f) = code_view f"
  "code_view (setKernelParameters ps f) = code_view f" "code_view (setMemoryView m a f) = code_view f"
  "code_view (updateValues data f) = code_view f"
  "code_view (f\<lparr>mf_code := clearExecutionMarker (mf_code f)\<rparr>) = code_view f"
  "code_view (f\<lparr>mf_code := setExecutionMarker a (mf_code f)\<rparr>) = code_view f"
  by (simp_all add: code_view_def enableTool_def enableKernelList_def enableMemoryPanel_def set_status_def
      setExecutionContext_def setKernelList_def setKernelParameters_def setMemoryView_def updateValues_def
      clearExecutionMarker_def setExecutionMarker_def split: option.splits)

lemma code_view_tools [frame_simps]: "code_view (enable_tools a p r s t f) = code_view f"
  by (simp add: enable_tools_def frame_simps)

lemma code_view_app [frame_simps]:
  "code_view (startExecution f) = code_view f" "code_view (stopExecution f) = code_view f"
  "code_view (setException what f) = code_view f" "code_view (app_pauseExecution ctx f) = code_view f"
proof -
  have m: "mf_code (enableMemoryPanel b f) = mf_code f" "mf_code (enableKernelList b f) = mf_code f"
    "mf_code (enableTool t b f) = mf_code f" for b t f
    by (simp_all add: enableMemoryPanel_def enableKernelList_def enableTool_def)
  have t: "mf_code (enable_tools a p r s t f) = mf_code f" for a p r s t f
    by (simp add: enable_tools_def m)
  show "code_view (startExecution f) = code_view f" "code_view (stopExecution f) = code_view f"
    "code_view (setException what f) = code_view f" "code_view (app_pauseExecution ctx f) = code_view f"
    by (simp_all add: startExecution_def stopExecution_def setException_def app_pauseExecution_def frame_simps
        code_view_def set_status_def setExecutionContext_def m t clearExecutionMarker_def setExecutionMarker_def
        split: option.splits)
qed

lemma breakpoints_ok_view:
  "breakpoints_ok d \<longleftrightarrow> fst (code_view (db_app d)) = to_u64 ` globalBreakpoints (db_breakpointStorage d)
     \<and> (\<forall>line a. snd (code_view (db_app d)) line = Some a \<longrightarrow> a < 2 ^ 32)
     \<and> (\<forall>krn \<in> set (db_programs d). code_ok (kn_code krn))"
  by (simp add: breakpoints_ok_def code_view_def)

lemma keeps_modify_ok:
  assumes "\<And>d. code_view (db_app (f d)) = code_view (db_app d) \<and> db_programs (f d) = db_programs d
    \<and> db_breakpointStorage (f d) = db_breakpointStorage d"
  shows "keeps breakpoints_ok (modifyM f)"
  using assms by (simp add: keeps_def modifyM_def breakpoints_ok_view)

lemma keeps_on_app: "(\<And>f. code_view (g f) = code_view f) \<Longrightarrow> keeps breakpoints_ok (on_app g)"
  unfolding on_app_def by (rule keeps_modify_ok) simp

lemma keeps_write_out: "keeps breakpoints_ok (write_out m)"
  by (simp add: keeps_def write_out_def breakpoints_ok_def split: option.splits)

lemma keeps_when_running: "keeps P m \<Longrightarrow> keeps P (when_running m)"
  by (simp add: keeps_def when_running_def retM_def)

lemma keeps_by_state: "(\<And>d. keeps P (m d)) \<Longrightarrow> keeps P (\<lambda>d. m d d)"
  by (simp add: keeps_def)

lemma keeps_at_state:
  assumes "\<And>d. P d \<Longrightarrow> P (snd (m d))"
  shows "keeps P m"
  using assms by (simp add: keeps_def)

lemmas keeps_ok = keeps_intros keeps_on_app keeps_write_out keeps_when_running keeps_modify_ok

lemma keeps_messages: "keeps breakpoints_ok (process_message m)"
  by (cases m) (auto simp: pauseExecution_def changeExecutionContext_def requestRegisters_def frame_simps intro!: keeps_ok)

lemma keeps_commands:
  "keeps breakpoints_ok onResume" "keeps breakpoints_ok onStep" "keeps breakpoints_ok onStop"
  "keeps breakpoints_ok (frame_onRequestMemory h)" "keeps breakpoints_ok (changeExecutionContext ctx)"
  by (auto simp: onResume_def onStep_def onStop_def frame_onRequestMemory_def onRequestMemory_def
      changeExecutionContext_def requestRegisters_def frame_simps intro!: keeps_ok)

lemma breakpoints_ok_same:
  assumes "breakpoints_ok d" and "code_view (db_app e) = code_view (db_app d)"
    and "db_programs e = db_programs d" and "db_breakpointStorage e = db_breakpointStorage d"
  shows "breakpoints_ok e"
  using assms by (simp add: breakpoints_ok_view)

lemma keeps_join_thread: "keeps breakpoints_ok join_thread"
  by (rule keeps_at_state) (simp add: join_thread_def retM_def split: option.splits)

lemma keeps_onAttach: "keeps breakpoints_ok onAttach"
proof (rule keeps_at_state)
  fix d
  assume ok: "breakpoints_ok d"
  have run: "keeps breakpoints_ok (\<lambda>d. runKernel d)"
  proof (rule keeps_at_state)
    fix d
    assume d: "breakpoints_ok d"
    let ?m = "bindM (modifyM (\<lambda>d. d\<lparr>db_hasKernelRuntime := True\<rparr>)) (\<lambda>_.
           bindM join_thread (\<lambda>_.
           bindM (liftM (kernel_at (db_currentKernelIdx d))) (\<lambda>_.
           modifyM (\<lambda>d'. d'\<lparr>db_emulatorThread :=
             Some \<lparr>th_kernel = unat (sx64 (db_currentKernelIdx d')), th_ended = False\<rparr>\<rparr>))))"
    have "keeps breakpoints_ok ?m" by (intro keeps_ok keeps_join_thread) simp_all
    from keepsD [OF this d] d show "breakpoints_ok (snd (runKernel d))" by (simp add: runKernel_def retM_def)
  qed
  have "keeps breakpoints_ok (bindM (on_app startExecution) (\<lambda>_. runKernel))"
    using run by (intro keeps_ok) (simp_all add: frame_simps)
  from keepsD [OF this ok] ok show "breakpoints_ok (snd (onAttach d))" by (simp add: onAttach_def retM_def)
qed

lemma keeps_reader_turn: "keeps breakpoints_ok reader_turn"
proof (rule keeps_at_state)
  fix d
  assume d: "breakpoints_ok d"
  show "breakpoints_ok (snd (reader_turn d))"
  proof (cases "ch_read (db_inMessageChannel d)")
    case None
    then show ?thesis using d by (simp add: reader_turn_def)
  next
    case (Some rc)
    obtain r c where rc: "rc = (r, c)" by (cases rc)
    have "keeps breakpoints_ok (bindM (liftM (\<lambda>_. r)) (\<lambda>msg. case msg of None \<Rightarrow> retM () | Some m \<Rightarrow> process_message m))"
      by (intro keeps_ok) (auto intro: keeps_ok keeps_messages split: option.split)
    moreover have "breakpoints_ok (d\<lparr>db_inMessageChannel := c\<rparr>)" using d by (rule breakpoints_ok_same) simp_all
    ultimately show ?thesis using keepsD by (fastforce simp: reader_turn_def Some rc)
  qed
qed

lemma code_view_instructions:
  assumes "code_ok kc"
  shows "fst (code_view (frame_setInstructions (code_lines kc) f)) = fst (code_view f)"
    and "snd (code_view (frame_setInstructions (code_lines kc) f)) line = Some a \<Longrightarrow> a < 2 ^ 32"
proof -
  let ?v = "setInstructions (code_lines kc) (mf_code f)"
  show "fst (code_view (frame_setInstructions (code_lines kc) f)) = fst (code_view f)"
    by (simp add: code_view_def frame_setInstructions_def)
  assume "snd (code_view (frame_setInstructions (code_lines kc) f)) line = Some a"
  then have "cv_lineMap ?v line = Some a" by (simp add: code_view_def frame_setInstructions_def)
  moreover have "shows_lines (code_lines kc) ?v" by (rule setInstructions_lines [OF code_lines_distinct])
  ultimately have "line < length (code_lines kc)" "\<not> il_isLabel (code_lines kc ! line)" "il_address (code_lines kc ! line) = a"
    unfolding shows_lines_def by (metis option.distinct(1) option.inject)+
  then show "a < 2 ^ 32" using code_lines_bound [OF assms nth_mem] by blast
qed

lemma keeps_selectKernel: "keeps breakpoints_ok (selectKernel i)"
proof (rule keeps_at_state)
  fix d
  assume d: "breakpoints_ok d"
  let ?f = "setKernelList (map kn_name (db_programs d)) i (db_app d)"
  consider "i = KERNEL_SELECT_NONE" | e where "i \<noteq> KERNEL_SELECT_NONE" "kernel_at i d = Inl e"
    | krn where "i \<noteq> KERNEL_SELECT_NONE" "kernel_at i d = Inr krn"
    by (cases "kernel_at i d") auto
  then show "breakpoints_ok (snd (selectKernel i d))"
  proof cases
    case 1
    then show ?thesis by (auto simp: selectKernel_none frame_simps intro: breakpoints_ok_same [OF d])
  next
    case 2
    then have "snd (selectKernel i d) = d\<lparr>db_currentKernelIdx := i, db_app := ?f\<rparr>"
      by (simp add: selectKernel_def debugger_simps kernel_at_def)
    then show ?thesis by (auto simp: frame_simps intro: breakpoints_ok_same [OF d])
  next
    case 3
    have "code_ok (kn_code krn)" using 3 d by (auto simp: kernel_at_def at_index_def breakpoints_ok_def split: if_splits)
    note shown = code_view_instructions [OF this, of ?f]
    from 3 d shown show ?thesis
      by (auto simp: selectKernel_shows show_kernel_def breakpoints_ok_view frame_simps)
  qed
qed

lemma keeps_onKernelSelected: "keeps breakpoints_ok (onKernelSelected i)"
  by (rule keeps_at_state)
    (use keepsD [OF keeps_selectKernel] in \<open>auto simp: onKernelSelected_def onSelectKernel_def retM_def\<close>)

lemma keeps_receive_kernel: "keeps breakpoints_ok (receive_kernel p0 parse w)"
proof (rule keeps_at_state)
  fix d
  assume d: "breakpoints_ok d"
  show "breakpoints_ok (snd (receive_kernel p0 parse w d))"
  proof (cases "kernel_of_proto p0 (receiveKernelForExecution parse w)")
    case (Inl e)
    then show ?thesis using d by (simp add: receive_kernel_def debugger_simps)
  next
    case (Inr krn)
    then have "code_ok (kn_code krn)" by (auto simp: kernel_of_proto_def result_simps code_ok_parseKernelCode)
    then have "breakpoints_ok (d\<lparr>db_programs := db_programs d @ [krn]\<rparr>)"
      using d by (auto simp: breakpoints_ok_def)
    moreover have "receive_kernel p0 parse w d
        = bindM (selectKernel (db_currentKernelIdx d)) (\<lambda>_. retM w) (d\<lparr>db_programs := db_programs d @ [krn]\<rparr>)"
      by (simp add: receive_kernel_def Inr addKernel_def bindM_def modifyM_def liftM_def)
    moreover have "keeps breakpoints_ok (bindM (selectKernel (db_currentKernelIdx d)) (\<lambda>_. retM w))"
      by (intro keeps_ok keeps_selectKernel)
    ultimately show ?thesis using keepsD by metis
  qed
qed

lemma to_u64_Diff: "to_u64 ` (G - {x}) = to_u64 ` G - {to_u64 (x :: u32)}"
  using to_u32_to_u64 by (metis image_set_diff image_insert image_empty inj_on_inverseI)

lemma keeps_OnMarginClick: "keeps breakpoints_ok (OnMarginClick line)"
proof (rule keeps_at_state)
  fix d
  assume d: "breakpoints_ok d"
  let ?v = "mf_code (db_app d)" and ?tell = "\<lambda>a b. when_running (write_out (SetBreakpoint (global_breakpoint (to_u32 a)) b))"
  have tell: "keeps breakpoints_ok (?tell a b)" for a b by (intro keeps_ok)
  show "breakpoints_ok (snd (OnMarginClick line d))"
  proof (cases "cv_lineMap ?v line")
    case None
    then show ?thesis using d by (simp add: OnMarginClick_def setBreakpointMarker_def retM_def)
  next
    case (Some a)
    have a: "to_u64 (to_u32 a) = a" using d Some by (auto simp: breakpoints_ok_def to_u64_to_u32_iff)
    let ?d = "\<lambda>f v. d\<lparr>db_app := (db_app d)\<lparr>mf_code := v\<rparr>, db_breakpointStorage := f (global_breakpoint (to_u32 a)) (db_breakpointStorage d)\<rparr>"
    let ?removed = "?v\<lparr>cv_breakpoints := cv_breakpoints ?v - {a}, cv_breakpointMarkers := cv_breakpointMarkers ?v - {line}\<rparr>"
    let ?added = "?v\<lparr>cv_breakpoints := insert a (cv_breakpoints ?v), cv_breakpointMarkers := insert line (cv_breakpointMarkers ?v)\<rparr>"
    have "breakpoints_ok (?d removeBreakpoint ?removed)" "breakpoints_ok (?d addBreakpoint ?added)"
      using d a to_u64_Diff [of "globalBreakpoints (db_breakpointStorage d)" "to_u32 a"]
      by (auto simp: breakpoints_ok_def removeBreakpoint_def addBreakpoint_def global_breakpoint_def)
    from keepsD [OF tell this(1), of a True] keepsD [OF tell this(2), of a False] Some show ?thesis
      by (simp add: OnMarginClick_def setBreakpointMarker_def onRemoveBreakpoint_def onSetBreakpoint_def bindM_def modifyM_def Let_def)
  qed
qed

lemma keeps_onWavefrontSelected: "keeps breakpoints_ok (onWavefrontSelected c i)"
  by (rule keeps_at_state)
    (simp add: onWavefrontSelected_def onSelectExecutionContext_def Let_def keepsD [OF keeps_commands(5)])

lemma keeps_handle_event: "keeps breakpoints_ok (handle_event p0 parse e)"
  by (cases e)
    (auto intro!: keeps_ok keeps_receive_kernel keeps_onKernelSelected keeps_onAttach keeps_commands keeps_OnMarginClick
        keeps_reader_turn keeps_onWavefrontSelected split: option.splits)

text \<open>
  Whatever happens, requests, clicks and the messages of kernels in any order, and wherever it
  stops: the breakpoints of the view of the code are the addresses of the storage.
\<close>

text \<open>
  C14: Whatever happens, requests, clicks and messages of kernels in any order, and wherever
  it stops: the breakpoints of the view of the code are the addresses in the storage of the
  debugger.
\<close>

theorem breakpoints_in_step:
  "cv_breakpoints (mf_code (db_app (snd (forM es (handle_event p0 parse) new_debugger))))
    = to_u64 ` globalBreakpoints (db_breakpointStorage (snd (forM es (handle_event p0 parse) new_debugger)))"
proof -
  have new: "breakpoints_ok new_debugger"
    by (simp add: breakpoints_ok_view new_debugger_def frame_simps)
      (simp add: code_view_def new_frame_def new_code_viewer_def new_breakpoints_def)
  have "keeps breakpoints_ok (forM es (handle_event p0 parse))"
    by (intro keeps_for keeps_handle_event)
  from keepsD [OF this new] show ?thesis by (simp add: breakpoints_ok_def)
qed

section \<open>A pause\<close>

text \<open>
  When the selected kernel pauses, the marker is on the line of the instruction it paused at, and
  the registers of the context are asked for.
\<close>

text \<open>
  C15: When the selected kernel pauses, the marker is on the line of the instruction it paused
  at and the registers of the context are asked for.
\<close>

theorem pause_marks_instruction:
  assumes "i \<noteq> KERNEL_SELECT_NONE" and "kernel_at i d = Inr krn" and "parseKernelCode listing = Inr (kn_code krn)"
    and "kc_code (kn_code krn) (ec_address ctx) = Some ins"
    and "db_hasKernelRuntime d" and "ch_isEmpty (db_outMessageChannel d)" and "\<not> ch_isClosed (db_outMessageChannel d)"
  shows "\<exists>d' line. pauseExecution ctx (snd (selectKernel i d)) = (Inr (), d')
    \<and> cv_executionMarker (mf_code (db_app d')) = Some line \<and> line < length (cv_text (mf_code (db_app d')))
    \<and> cv_text (mf_code (db_app d')) ! line = in_originalLine ins
    \<and> db_currentExecutionContext d' = ctx \<and> ch_value (db_outMessageChannel d') = Some (RequestRegisters ctx)"
proof -
  define ls where "ls = code_lines (kn_code krn)"
  define v where "v = setInstructions ls (mf_code (setKernelList (map kn_name (db_programs d)) i (db_app d)))"
  have "\<lparr>il_address = ec_address ctx, il_text = in_originalLine ins, il_isLabel = False\<rparr> \<in> set ls"
    unfolding ls_def by (rule code_lines_instruction [OF code_ok_parseKernelCode [OF assms(3)] assms(4)])
  then obtain line where line: "line < length ls"
      "ls ! line = \<lparr>il_address = ec_address ctx, il_text = in_originalLine ins, il_isLabel = False\<rparr>"
    by (auto simp: in_set_conv_nth)
  have "shows_lines ls v" unfolding v_def ls_def by (rule setInstructions_lines [OF code_lines_distinct])
  with line have found: "cv_addressMap v (ec_address ctx) = Some line" by (simp add: shows_lines_def)
  have shown: "mf_code (db_app (snd (selectKernel i d))) = v"
    by (simp add: selectKernel_shows [OF assms(2,1)] show_kernel_def setKernelParameters_def frame_setInstructions_def v_def ls_def)
  have code: "mf_code (app_pauseExecution ctx f) = setExecutionMarker (ec_address ctx) (mf_code f)" for f
    by (simp add: app_pauseExecution_def set_status_def setExecutionContext_def enableMemoryPanel_def enable_tools_def enableTool_def)
  have marked: "cv_text (setExecutionMarker (ec_address ctx) v) = cv_text v"
    "cv_executionMarker (setExecutionMarker (ec_address ctx) v) = Some line"
    using found by (simp_all add: setExecutionMarker_def clearExecutionMarker_def)
  have "cv_text v ! line = in_originalLine ins" "line < length (cv_text v)"
    using line by (simp_all add: v_def setInstructions_text)
  then show ?thesis
    using assms(5-7) code marked shown
    by (auto simp: pauseExecution_def changeExecutionContext_def requestRegisters_def debugger_simps ch_write_def
        selectKernel_shows [OF assms(2,1)])
qed

lemma pause_marks_instruction_witness:
  "\<exists>kc ins d' line. pauseExecution (no_context\<lparr>ec_address := 8\<rparr>) (snd (selectKernel 0 (new_debugger
      \<lparr>db_programs := [\<lparr>kn_name = ''k'', kn_code = kc, kn_config = new_config 1 0, kn_arguments = []\<rparr>], db_hasKernelRuntime := True\<rparr>)))
      = (Inr (), d')
    \<and> get_instr kc 8 = Inr ins \<and> cv_executionMarker (mf_code (db_app d')) = Some line
    \<and> cv_text (mf_code (db_app d')) ! line = in_originalLine ins"
proof -
  obtain kc where kc: "parseKernelCode (map print_line sample_listing) = Inr kc"
      "get_instr kc 8 = Inr (read_instr (8, ''s_endpgm'', []) 4)" using sample_code by blast
  from kc(2) have ins: "kc_code kc 8 = Some (read_instr (8, ''s_endpgm'', []) 4)"
    by (simp add: get_instr_def split: if_splits option.splits)
  let ?krn = "\<lparr>kn_name = ''k'', kn_code = kc, kn_config = new_config 1 0, kn_arguments = []\<rparr>"
  let ?d = "new_debugger\<lparr>db_programs := [?krn], db_hasKernelRuntime := True\<rparr>"
  have "kernel_at 0 ?d = Inr ?krn" by (simp add: kernel_at_def at_index_def)
  from pause_marks_instruction [OF _ this, of "map print_line sample_listing" "no_context\<lparr>ec_address := 8\<rparr>"] kc ins
  show ?thesis by (fastforce simp: new_debugger_def new_channel_def)
qed

section \<open>After the end of a kernel\<close>

text \<open>A kernel that has run to its end tells nobody.\<close>

lemma finish_kernel_silent: "dc_mode (em_debug s) \<noteq> STOP \<Longrightarrow> snd (finish_kernel addrs krn s) = s"
  by (simp add: finish_kernel_def bindM_def liftM_def retM_def split: sum.splits)

text \<open>
  The debugger goes on as if the kernel were running: the second stop waits for room in the channel
  that nothing reads, and the first one is the first message that the next kernel gets.
\<close>

theorem stop_after_end_waits:
  assumes "db_hasKernelRuntime d" and "ch_isEmpty (db_outMessageChannel d)" and "\<not> ch_isClosed (db_outMessageChannel d)"
  shows "\<exists>d' c. forM [Thread_ends, Stop_clicked, Stop_clicked] (handle_event p0 parse) d = (Inl Waits_forever, d')
    \<and> ch_tryRead (db_outMessageChannel d') = (Inr (Some Stop), c)"
  using assms by (auto simp: onStop_def debugger_simps ch_write_def ch_tryRead_def take_value_def)

lemma stop_after_end_waits_witness:
  "\<exists>d' c. forM [Thread_ends, Stop_clicked, Stop_clicked] (handle_event 0 (\<lambda>w :: KernelRequest. w))
      (new_debugger\<lparr>db_hasKernelRuntime := True, db_emulatorThread := Some \<lparr>th_kernel = 0, th_ended = False\<rparr>\<rparr>) = (Inl Waits_forever, d')
    \<and> ch_tryRead (db_outMessageChannel d') = (Inr (Some Stop), c)"
  by (rule stop_after_end_waits) (simp_all add: new_debugger_def new_channel_def)

section \<open>Breakpoints that are not shown\<close>

text \<open>
  Showing the code again, as every kernel that arrives does, takes the markers of the breakpoints
  away but not the breakpoints: the next click on such a line removes one.
\<close>

theorem hidden_breakpoint_removed:
  assumes "i \<noteq> KERNEL_SELECT_NONE" and "kernel_at i d = Inr krn" and "d' = snd (selectKernel i d)"
    and "cv_lineMap (mf_code (db_app d')) line = Some a" and "a \<in> cv_breakpoints (mf_code (db_app d))"
  shows "cv_breakpointMarkers (mf_code (db_app d')) = {}"
    and "a \<in> cv_breakpoints (mf_code (db_app d'))"
    and "to_u32 a \<notin> globalBreakpoints (db_breakpointStorage (snd (OnMarginClick line d')))"
proof -
  have "mf_code (db_app d') = setInstructions (code_lines (kn_code krn)) (mf_code (db_app d))"
    using assms(3) by (simp add: selectKernel_shows [OF assms(2,1)] show_kernel_def setKernelParameters_def
        frame_setInstructions_def setKernelList_def)
  then show "cv_breakpointMarkers (mf_code (db_app d')) = {}" and set: "a \<in> cv_breakpoints (mf_code (db_app d'))"
    using assms(5) by simp_all
  have "db_breakpointStorage (snd (when_running (write_out m) e)) = db_breakpointStorage e" for m e
    by (simp add: when_running_def write_out_def retM_def split: option.splits)
  with set assms(4) show "to_u32 a \<notin> globalBreakpoints (db_breakpointStorage (snd (OnMarginClick line d')))"
    by (simp add: OnMarginClick_def setBreakpointMarker_def onRemoveBreakpoint_def bindM_def modifyM_def Let_def
        removeBreakpoint_def global_breakpoint_def)
qed

end
