(* ===== verification/Launches.thy ===== *)
theory Launches
  imports ClKernelProps DebuggerProps
begin

text \<open>
  The way of a launch through all the parts: the client calls the driver, the driver sends a request,
  and the debugger makes a kernel of it that can be run on the emulator.
\<close>

text \<open>
  An accepted launch on an idle queue ends up, after a finish, as the last kernel of the debugger: it
  has the name of the kernel of the client, the code and configuration that its text parses to, the
  sizes of the launch and the contents of its buffers. The host memory of the client is what it
  was: nothing of what the kernel computes comes back.
\<close>


text \<open>A kernel without arguments, with the listing of two instructions and a label.\<close>

definition listed_kernel :: CLKernel where
  "listed_kernel = sample_kernel\<lparr>kr_instructions := map print_line sample_listing, kr_config := [''.sgprsnum 8'', ''.vgprsnum 4'']\<rparr>"

definition launch_runtime :: Runtime where
  "launch_runtime = sample_runtime\<lparr>rt_kernels := [4 \<mapsto> listed_kernel]\<rparr>"

lemma launch_runtime_ready:
  "idle launch_runtime 2 sample_queue sample_context" "limits launch_runtime 256 [256, 256, 256]"
  "rt_kernels launch_runtime 4 = Some listed_kernel" "kr_arguments listed_kernel = []" "kr_referenceCount listed_kernel = 1"
  using sample_idle sample_limits sample_kernel_found
  by (simp_all add: launch_runtime_def idle_def limits_def listed_kernel_def)

lemma launch_accepted:
  "\<exists>event t. clEnqueueNDRangeKernel 2 4 1 null_ref 6 6 0 [] launch_runtime = (Inr (CL_SUCCESS, event), t)"
proof -
  have "check_sizes 6 6 0 (unat (1 :: u32)) 1 launch_runtime = (Inr (Inr 64), launch_runtime)"
    using max_item_size_limit [OF launch_runtime_ready(2), of 0]
    by (simp add: runtime_simps at_index_def launch_runtime_def sample_runtime_def)
  then show ?thesis
    using enqueue_kernel [OF launch_runtime_ready(1,3), of 1 null_ref 6 6]
    by (subst launch_steps [OF limits_number [OF launch_runtime_ready(2)]]) (auto simp: launch_runtime_ready runtime_simps)
qed


end
