(* ===== verification/Spec2Isabelle.thy ===== *)
theory Spec2Isabelle
  imports ExecutorProps ClKernelProps ClFlushProps ClCounts Launches
begin

text \<open>
  Red-o-lator runs OpenCL kernels that were compiled for an AMD GPU on an emulator of that GPU. The
  emulator (\<open>emulator/src\<close>, \<open>common/\<close>) takes a kernel as a list of instructions with a launch
  configuration and arguments, cuts the index space into work-groups, and interprets the
  instructions of each wavefront over its register files and the device memory. The debugger
  (\<open>debugger/\<close>) receives the kernels, runs them on the emulator in a thread, and can pause them over a
  pair of channels. The driver (\<open>driver/\<close>) is what a client of OpenCL calls: it keeps the objects behind
  the handles, queues commands, and sends each kernel as a request to the process of the debugger.
  This library models these parts as functions, in the order in which the code is built up, and
  proves what makes them correct or shows where they are not.

  Modelling conventions (\<open>Prelude\<close>). Integers are words of their C++ width; a signed value is the word
  of its bits. A computation that can fail returns \<open>error + 'a\<close>: a thrown \<open>std::runtime_error\<close>, a
  failed assertion, a wrong variant or optional access, undefined behaviour, or a wait that nobody
  ends. State is passed on explicitly: \<open>bindE\<close> sequences results, \<open>bindM\<close> computations over a state
  that survives a failure. A loop that may not end is a \<open>partial_function (option)\<close> whose value
  \<open>None\<close> is not ending.

  The theories and the code they model:
  \<^item> \<open>BitUtils\<close>, \<open>PopCount\<close>: \<open>commons/util\<close>, \<open>bit-utils.hpp\<close> (counting, reversing, packing).
  \<^item> \<open>Registers\<close>: \<open>flow/register\<close>, \<open>instr/reg_info.h\<close> (program counter, MODE, STATUS).
  \<^item> \<open>InstrKeys\<close>, \<open>InstrInfo\<close>, \<open>Instructions\<close>: \<open>common/model/instr\<close> (keys, the table of mnemonics and
    formats, operands, the code of a kernel).
  \<^item> \<open>KernelConfigs\<close>: \<open>KernelConfig.h\<close> (the launch configuration).
  \<^item> \<open>Wavefronts\<close>, \<open>WavefrontProps\<close>: \<open>flow/wavefront\<close>, \<open>flow/wf_state.h\<close> (register files, operands,
    the per-format states); reading after writing, frames.
  \<^item> \<open>Storages\<close>: \<open>gpu/storage\<close> (device memory), as an instance of the locale \<open>byte_memory\<close>.
  \<^item> \<open>AluSop1\<close> \<open>AluSop2\<close> \<open>AluSopk\<close> \<open>AluSopc\<close> \<open>AluSopp\<close> \<open>AluMem\<close> \<open>AluVop1\<close> \<open>AluVop2\<close> \<open>AluVop3\<close> \<open>AluVopc\<close>, with
    \<open>Floats\<close> (binary32 arithmetic as the standard defines it) and the \<open>Props\<close> theories: \<open>alu/\<close>, one
    function per instruction and one table per format; \<open>Alu\<close> is the dispatch of \<open>alu.cpp\<close>.
  \<^item> \<open>WorkGroups\<close>, \<open>WorkGroupProps\<close>: work-items and wavefronts of a group; \<open>Dispatchers\<close>,
    \<open>DispatcherProps\<close>: \<open>gpu/dispatcher\<close>, the partition of the index space.
  \<^item> \<open>Breakpoints\<close>, \<open>Channels\<close>: \<open>common/debugger\<close>; \<open>DebugContexts\<close>, \<open>DebugContextProps\<close>:
    \<open>flow/debug_context\<close>, the emulator's side of the debugger protocol under every interleaving.
  \<^item> \<open>ComputeUnits\<close>, \<open>ComputeUnitProps\<close>: \<open>gpu/compute_unit\<close>, the interpreter loops and their step
    relation; \<open>Executors\<close>, \<open>ExecutorProps\<close>: \<open>Executor.cpp\<close>, the launch of a kernel.

  The way of a kernel from the client to the emulator:
  \<^item> \<open>Strings\<close>: \<open>string-utils.hpp\<close>, \<open>vector-utils.hpp\<close> and the number readers of the standard library.
  \<^item> \<open>ClInfo\<close>, \<open>DeviceConfigs\<close>: \<open>runtime-commons.cpp\<close> (flags, answers to queries) and
    \<open>DeviceConfigurationParser\<close> (the file that describes the device).
  \<^item> \<open>KernelArgs\<close>, \<open>BinaryAsms\<close>: \<open>KernelArgumentInfoParser\<close>, \<open>BinaryAsmParser\<close>, the readers of what the
    disassembler prints for a program; printed programs are read back.
  \<^item> \<open>ClObjects\<close>, \<open>ClRelease\<close>, \<open>ClCommands\<close>, \<open>ClKernels\<close>, \<open>ClQueries\<close>: \<open>driver/src/runtime/icd\<close>, \<open>command\<close> and
    the \<open>runtime-*.cpp\<close> files. A state \<open>Runtime\<close> maps references (naturals, 0 for null) to contexts,
    buffers, events, commands, queues, kernels and programs, and holds host memory in blocks; using
    a deleted object is undefined behaviour of the model. \<open>ClBufferProps\<close> shows what transfers, fills
    and copies do, \<open>ClFlushProps\<close> that flushing a queue runs its commands one by one, \<open>ClKernelProps\<close> which
    launches are accepted and what request they send, \<open>ClCounts\<close> that reference counts are exact.
  \<^item> \<open>Ipcs\<close>: \<open>common/ipc\<close>, \<open>kernel_request.proto\<close>, the request messages and the jobs of the server.
  \<^item> \<open>KernelParsers\<close>, with \<open>KernelParserProps\<close> and \<open>KernelListings\<close>: \<open>commons/parser.cpp\<close>, which turns the
    lines of a request into a kernel; printed listings are read back.
  \<^item> \<open>HexViews\<close>, \<open>CodeViews\<close>, \<open>Debuggers\<close>, \<open>DebuggerProps\<close>: \<open>debugger/Debugger.cpp\<close> and the state of the window
    (\<open>gui/EmulatorApp.cpp\<close>, \<open>MainFrame.cpp\<close>, \<open>CodeViewer.cpp\<close>, \<open>hex-view\<close>). An event (a request, a click, a
    message) is one step; the invariants hold after every sequence of events.
  \<^item> \<open>Launches\<close>: from a launch of the client to the kernel of the debugger.
  Interfaces are locales: \<open>byte_memory\<close> (single bytes give blocks), \<open>lane_file\<close> (what a lane reads
  after a loop over the lanes), \<open>lane_loop\<close> (the loop of a vector format), \<open>breakpoint_store\<close> (both
  breakpoint storages), \<open>register_file\<close> (blocks of registers), \<open>counted\<close> (retaining and
  releasing an object). Each is interpreted on the definitions of the code, and the properties
  rest on the interpretations.

  Bounds. A dispatcher counts in 64 bits, so the number of groups is assumed below \<open>2 ^ 64\<close>; the
  counters of the loops over local sizes are \<open>int\<close>, so these sizes are assumed below \<open>2 ^ 31\<close>. The
  memory of a launch has 10000000 bytes, and the layout of the arguments is shown for arguments
  that fit. The loops over debugger messages are total: \<open>potential\<close> counts the messages the script of
  the other threads can still send.

  The operations of the driver call each other through commands, events and queues without a
  static bound: \<open>run_call n\<close> bounds the depth of these calls by \<open>n\<close>. Seven levels are enough for one
  command, and the length of the queue and two more for a flush, as the theorems show; a bound that
  is too small is a failure of its own, never a result. The loop over the messages of a kernel in
  the debugger is total, since each turn empties its channel.

  Parameters. The disassembler of the CLRX library, the encoding of the protocol buffer library and
  the transport of the socket library are arguments; the clock is a function of the number of its
  readings, the value of an uninitialised priority an argument.

  Not modelled. The logger, the text and JSON output, and files; \<open>emulator/main\<close>, a fixed client
  program; the stubs of the driver for images, samplers and sub-devices and the table of its
  functions; creation, layout and drawing of the widgets. The debugger and the emulator each see the
  other as an arbitrary partner on the channels: \<open>DebugContexts\<close> runs the emulator under every script of
  the debugger, \<open>Debuggers\<close> the debugger under every sequence of messages of the emulator.
\<close>

end
